(* ===== verification/Go_Prelude.thy ===== *)
theory Go_Prelude
  imports Main "HOL-Library.AList" "HOL-Library.Signed_Division"
begin

text \<open>
  Shared vocabulary of the development: results of fallible Go functions, Go maps as
  association lists without duplicate keys, and the generic lemmas on lists and results that
  the component theories use.

  \<^item> A function with a Go \<^verbatim>\<open>error\<close> result returns a sum, \<open>Inl\<close> for the error.
  \<^item> A function that can panic returns an option, \<open>None\<close> for the panic.
  \<^item> A Go \<^verbatim>\<open>map[K]V\<close> is an association list, read with \<^const>\<open>map_of\<close> and written with
    \<^const>\<open>AList.update\<close>; \<^verbatim>\<open>len(m)\<close> is the length of the list.
\<close>

named_theorems go_defs \<open>definitions of the small helpers, for unfolding\<close>
named_theorems go_inv \<open>facts that an operation keeps a component's invariant\<close>

subsection \<open>Results\<close>

definition res_bind :: "'e + 'a \<Rightarrow> ('a \<Rightarrow> 'e + 'b) \<Rightarrow> 'e + 'b" where
  "res_bind r f = (case r of Inl e \<Rightarrow> Inl e | Inr x \<Rightarrow> f x)"

lemma res_bind_simps [simp]:
  "res_bind (Inl e) f = Inl e"
  "res_bind (Inr x) f = f x"
  by (simp_all add: res_bind_def)

lemma res_bind_cong [fundef_cong]:
  "r = r' \<Longrightarrow> (\<And>x. r' = Inr x \<Longrightarrow> f x = g x) \<Longrightarrow> res_bind r f = res_bind r' g"
  by (simp add: res_bind_def split: sum.splits)

lemma res_bind_eq_Inr_iff:
  "res_bind r f = Inr y \<longleftrightarrow> (\<exists>x. r = Inr x \<and> f x = Inr y)"
  by (simp add: res_bind_def split: sum.splits)

lemma res_bind_eq_Inl_iff:
  "res_bind r f = Inl e \<longleftrightarrow> r = Inl e \<or> (\<exists>x. r = Inr x \<and> f x = Inl e)"
  by (simp add: res_bind_def split: sum.splits)

lemma res_bind_split:
  "P (res_bind r f) \<longleftrightarrow> (\<forall>e. r = Inl e \<longrightarrow> P (Inl e)) \<and> (\<forall>x. r = Inr x \<longrightarrow> P (f x))"
  by (cases r) auto

subsection \<open>Go maps\<close>

type_synonym ('k, 'v) gomap = "('k \<times> 'v) list"

lemma map_of_eq_None_iff_keys: "map_of m k = None \<longleftrightarrow> k \<notin> fst ` set m"
  by (fact map_of_eq_None_iff)

lemma AList_update_Nil_iff [simp]: "AList.update k v m \<noteq> []"
  by (cases m) auto

lemma map_of_filter_distinct:
  "distinct (map fst m) \<Longrightarrow>
     map_of (filter P m) k = (case map_of m k of None \<Rightarrow> None | Some v \<Rightarrow> if P (k, v) then Some v else None)"
proof (induction m)
  case (Cons kv m)
  obtain k' v' where [simp]: "kv = (k', v')" by (cases kv)
  have "k = k' \<Longrightarrow> map_of (filter P m) k = None"
    using Cons.prems by (auto simp: map_of_eq_None_iff)
  with Cons show ?case by auto
qed simp

end
