(* ===== verification/Go_Strings.thy ===== *)
theory Go_Strings
  imports Go_Prelude "HOL-Library.Sublist" "HOL-Library.List_Lexorder" "HOL-Library.Char_ord"
begin

text \<open>
  Go strings and what the program uses of the packages \<^verbatim>\<open>strings\<close>, \<^verbatim>\<open>unicode/utf8\<close> and
  \<^verbatim>\<open>strconv\<close>. A Go string is a sequence of bytes and an HOL \<^typ>\<open>char\<close> is a byte, so
  \<^typ>\<open>string\<close> is the Go type: \<^const>\<open>length\<close> is \<^verbatim>\<open>len\<close> and \<open>s ! i\<close> is \<^verbatim>\<open>s[i]\<close>.

  The Unicode character database is a generated table of the Go toolchain whose version is not
  part of the program. Its two functions that the program reaches, \<^verbatim>\<open>unicode.IsPrint\<close> and
  \<^verbatim>\<open>unicode.ToLower\<close>, are the fields of the record \<open>unicode\<close> for runes outside ASCII and
  are fixed here for ASCII.
\<close>

subsection \<open>Bytes\<close>

abbreviation byte :: "char \<Rightarrow> int" where
  "byte \<equiv> of_char"

definition isDigit :: "char \<Rightarrow> bool" where
  "isDigit ch \<longleftrightarrow> 48 \<le> byte ch \<and> byte ch \<le> 57"

definition digitVal :: "char \<Rightarrow> int" where
  "digitVal ch = byte ch - 48"

definition digitChar :: "int \<Rightarrow> char" where
  "digitChar d = char_of (48 + d)"

lemma byte_digitChar [simp]: "0 \<le> d \<Longrightarrow> d < 10 \<Longrightarrow> byte (digitChar d) = 48 + d"
  by (simp add: digitChar_def)

lemma isDigit_digitChar [simp]: "0 \<le> d \<Longrightarrow> d < 10 \<Longrightarrow> isDigit (digitChar d)"
  by (simp add: isDigit_def)

lemma digitVal_digitChar [simp]: "0 \<le> d \<Longrightarrow> d < 10 \<Longrightarrow> digitVal (digitChar d) = d"
  by (simp add: digitVal_def)

subsection \<open>Decimal integers: strconv.Itoa, strconv.Atoi, strconv.ParseInt\<close>

function decDigits :: "int \<Rightarrow> string" where
  "decDigits n = (if n < 10 then [digitChar n] else decDigits (n div 10) @ [digitChar (n mod 10)])"
  by pat_completeness auto
termination
  by (relation "measure nat") auto

declare decDigits.simps [simp del]

definition Itoa :: "int \<Rightarrow> string" where
  "Itoa i = (if i < 0 then CHR ''-'' # decDigits (- i) else decDigits i)"

definition digitsVal :: "string \<Rightarrow> int" where
  "digitsVal ds = foldl (\<lambda>a c. 10 * a + digitVal c) 0 ds"

datatype num_error = ErrSyntax | ErrRange

definition int64_min :: int where "int64_min = - (2 ^ 63)"
definition int64_max :: int where "int64_max = 2 ^ 63 - 1"

text \<open>
  \<^verbatim>\<open>strconv.ParseInt(s, 10, 64)\<close>, and \<^verbatim>\<open>strconv.Atoi\<close> on a 64-bit platform: an optional sign,
  at least one digit and nothing else, and a value that fits in 64 bits.
\<close>

definition ParseInt :: "string \<Rightarrow> num_error + int" where
  "ParseInt s =
     (let neg = (s \<noteq> [] \<and> hd s = CHR ''-'');
          ds = (if s \<noteq> [] \<and> (hd s = CHR ''-'' \<or> hd s = CHR ''+'') then tl s else s)
      in if ds = [] \<or> \<not> list_all isDigit ds then Inl ErrSyntax
         else let v = (if neg then - digitsVal ds else digitsVal ds)
              in if v < int64_min \<or> int64_max < v then Inl ErrRange else Inr v)"

lemma decDigits_nonempty [simp]: "decDigits n \<noteq> []"
  by (subst decDigits.simps) simp

lemma decDigits_isDigit: "0 \<le> n \<Longrightarrow> list_all isDigit (decDigits n)"
proof (induction n rule: decDigits.induct)
  case (1 n)
  then show ?case by (subst decDigits.simps) auto
qed

lemma decDigits_hd: "0 \<le> n \<Longrightarrow> isDigit (hd (decDigits n))"
  using decDigits_isDigit [of n] decDigits_nonempty [of n] by (cases "decDigits n") auto

lemma digitsVal_snoc [simp]: "digitsVal (ds @ [c]) = 10 * digitsVal ds + digitVal c"
  by (simp add: digitsVal_def)

lemma digitsVal_decDigits [simp]: "0 \<le> n \<Longrightarrow> digitsVal (decDigits n) = n"
proof (induction n rule: decDigits.induct)
  case (1 n)
  show ?case
  proof (cases "n < 10")
    case True
    with "1.prems" show ?thesis by (subst decDigits.simps) (simp add: digitsVal_def)
  next
    case False
    with 1 have "digitsVal (decDigits (n div 10)) = n div 10" by simp
    with False show ?thesis by (subst decDigits.simps) simp
  qed
qed

lemma isDigit_not_sign: "isDigit c \<Longrightarrow> c \<noteq> CHR ''-'' \<and> c \<noteq> CHR ''+'' \<and> c \<noteq> CHR ''.''"
  by (auto simp: isDigit_def)

lemma ParseInt_Itoa:
  assumes "int64_min \<le> i" "i \<le> int64_max"
  shows "ParseInt (Itoa i) = Inr i"
proof (cases "i < 0")
  case True
  then show ?thesis
    using assms decDigits_isDigit by (simp add: ParseInt_def Itoa_def Let_def)
next
  case False
  have "hd (decDigits i) \<noteq> CHR ''-''" "hd (decDigits i) \<noteq> CHR ''+''"
    using decDigits_hd [of i] False isDigit_not_sign by auto
  with False show ?thesis
    using assms decDigits_isDigit by (simp add: ParseInt_def Itoa_def Let_def)
qed

subsection \<open>UTF-8\<close>

text \<open>
  \<^verbatim>\<open>utf8.DecodeRuneInString\<close>: the first rune of a non-empty string and its width in bytes. A byte
  that starts no valid encoding (a continuation byte, an overlong form, a surrogate, a value
  above U+10FFFF, a truncated form) is \<^verbatim>\<open>RuneError\<close> with width 1.
\<close>

definition RuneError :: int where "RuneError = 65533"

definition isCont :: "int \<Rightarrow> bool" where
  "isCont b \<longleftrightarrow> 128 \<le> b \<and> b < 192"

definition nthByte :: "string \<Rightarrow> nat \<Rightarrow> int" where
  "nthByte s i = (if i < length s then byte (s ! i) else 0)"

definition DecodeRune :: "string \<Rightarrow> int \<times> nat" where
  "DecodeRune s =
     (let b0 = nthByte s 0; b1 = nthByte s 1; b2 = nthByte s 2; b3 = nthByte s 3 in
      if b0 < 128 then (b0, 1)
      else if 194 \<le> b0 \<and> b0 < 224 \<and> isCont b1 then ((b0 - 192) * 64 + (b1 - 128), 2)
      else if 224 \<le> b0 \<and> b0 < 240 \<and> isCont b1 \<and> isCont b2 \<and>
              (b0 = 224 \<longrightarrow> 160 \<le> b1) \<and> (b0 = 237 \<longrightarrow> b1 < 160)
        then ((b0 - 224) * 4096 + (b1 - 128) * 64 + (b2 - 128), 3)
      else if 240 \<le> b0 \<and> b0 < 245 \<and> isCont b1 \<and> isCont b2 \<and> isCont b3 \<and>
              (b0 = 240 \<longrightarrow> 144 \<le> b1) \<and> (b0 = 244 \<longrightarrow> b1 < 144)
        then ((b0 - 240) * 262144 + (b1 - 128) * 4096 + (b2 - 128) * 64 + (b3 - 128), 4)
      else (RuneError, 1))"

lemma DecodeRune_width: "0 < snd (DecodeRune s)"
  by (simp add: DecodeRune_def Let_def)

text \<open>\<^verbatim>\<open>utf8.AppendRune\<close>; a rune that is not a valid code point is written as \<^verbatim>\<open>RuneError\<close>.\<close>

definition encodeRune :: "int \<Rightarrow> string" where
  "encodeRune r0 =
     (let r = (if 1114111 < r0 \<or> 55296 \<le> r0 \<and> r0 < 57344 then RuneError else r0) in
      if r < 128 then [char_of r]
      else if r < 2048 then [char_of (192 + r div 64), char_of (128 + r mod 64)]
      else if r < 65536
        then [char_of (224 + r div 4096), char_of (128 + (r div 64) mod 64), char_of (128 + r mod 64)]
      else [char_of (240 + r div 262144), char_of (128 + (r div 4096) mod 64),
            char_of (128 + (r div 64) mod 64), char_of (128 + r mod 64)])"

text \<open>The runes of a string with their widths, as a \<^verbatim>\<open>range\<close> loop over it yields them.\<close>

function runes :: "string \<Rightarrow> (int \<times> nat) list" where
  "runes s = (if s = [] then [] else DecodeRune s # runes (drop (snd (DecodeRune s)) s))"
  by pat_completeness auto
termination
  by (relation "measure length") (use DecodeRune_width in auto)

declare runes.simps [simp del]

subsection \<open>Case mapping and searching\<close>

record unicode =
  is_print :: "int \<Rightarrow> bool"
  to_lower :: "int \<Rightarrow> int"

text \<open>\<^verbatim>\<open>unicode.ToLower\<close> and \<^verbatim>\<open>unicode.IsPrint\<close>.\<close>

definition lowerRune :: "unicode \<Rightarrow> int \<Rightarrow> int" where
  "lowerRune uni r =
     (if r < 128 then (if 65 \<le> r \<and> r \<le> 90 then r + 32 else r) else to_lower uni r)"

definition IsPrint :: "unicode \<Rightarrow> int \<Rightarrow> bool" where
  "IsPrint uni r = (if r < 128 then 32 \<le> r \<and> r < 127 else is_print uni r)"

definition ToLower :: "unicode \<Rightarrow> string \<Rightarrow> string" where
  "ToLower uni s = concat (map (\<lambda>(r, w). encodeRune (lowerRune uni r)) (runes s))"

text \<open>\<^verbatim>\<open>strings.TrimSpace\<close>: the runes with the Unicode property White_Space are cut from both ends.\<close>

definition isSpaceRune :: "int \<Rightarrow> bool" where
  "isSpaceRune r \<longleftrightarrow>
     9 \<le> r \<and> r \<le> 13 \<or> r = 32 \<or> r = 133 \<or> r = 160 \<or> r = 5760 \<or> 8192 \<le> r \<and> r \<le> 8202 \<or>
     r = 8232 \<or> r = 8233 \<or> r = 8239 \<or> r = 8287 \<or> r = 12288"

definition TrimSpace :: "string \<Rightarrow> string" where
  "TrimSpace s =
     (let rs = runes s;
          space = isSpaceRune \<circ> fst;
          start = sum_list (map snd (takeWhile space rs));
          kept = rev (dropWhile space (rev (dropWhile space rs)))
      in take (sum_list (map snd kept)) (drop start s))"

fun Contains :: "string \<Rightarrow> string \<Rightarrow> bool" where
  "Contains [] sub \<longleftrightarrow> sub = []"
| "Contains (c # s) sub \<longleftrightarrow> prefix sub (c # s) \<or> Contains s sub"

lemma Contains_iff_sublist: "Contains s sub \<longleftrightarrow> sublist sub s"
  by (induction s) (auto simp: sublist_Cons_right)

definition ReplaceChar :: "char \<Rightarrow> char \<Rightarrow> string \<Rightarrow> string" where
  "ReplaceChar a b s = map (\<lambda>c. if c = a then b else c) s"

fun JoinWith :: "'a list \<Rightarrow> 'a list list \<Rightarrow> 'a list" where
  "JoinWith sep [] = []"
| "JoinWith sep [x] = x"
| "JoinWith sep (x # xs) = x @ sep @ JoinWith sep xs"

subsection \<open>Quoting: strconv.Quote and strconv.QuoteRune\<close>

definition hexChar :: "int \<Rightarrow> char" where
  "hexChar d = (if d < 10 then char_of (48 + d) else char_of (87 + d))"

fun hexDigits :: "nat \<Rightarrow> int \<Rightarrow> string" where
  "hexDigits 0 n = []"
| "hexDigits (Suc k) n = hexDigits k (n div 16) @ [hexChar (n mod 16)]"

definition escapeRune :: "unicode \<Rightarrow> int \<Rightarrow> int \<Rightarrow> string" where
  "escapeRune uni quote r =
     (if r = quote \<or> r = 92 then [CHR 0x5C, char_of r]
      else if IsPrint uni r then encodeRune r
      else if r = 7 then [CHR 0x5C, CHR ''a'']
      else if r = 8 then [CHR 0x5C, CHR ''b'']
      else if r = 12 then [CHR 0x5C, CHR ''f'']
      else if r = 10 then [CHR 0x5C, CHR ''n'']
      else if r = 13 then [CHR 0x5C, CHR ''r'']
      else if r = 9 then [CHR 0x5C, CHR ''t'']
      else if r = 11 then [CHR 0x5C, CHR ''v'']
      else if r < 32 \<or> r = 127 then CHR 0x5C # CHR ''x'' # hexDigits 2 r
      else if r < 65536 then CHR 0x5C # CHR ''u'' # hexDigits 4 r
      else CHR 0x5C # CHR ''U'' # hexDigits 8 r)"

function quoteBody :: "unicode \<Rightarrow> string \<Rightarrow> string" where
  "quoteBody uni s =
     (if s = [] then []
      else let (r, w) = DecodeRune s
           in (if w = 1 \<and> r = RuneError then CHR 0x5C # CHR ''x'' # hexDigits 2 (byte (hd s))
               else escapeRune uni 34 r) @ quoteBody uni (drop (snd (DecodeRune s)) s))"
  by pat_completeness auto
termination
  by (relation "measure (\<lambda>(uni, s). length s)") (use DecodeRune_width in auto)

declare quoteBody.simps [simp del]

definition Quote :: "unicode \<Rightarrow> string \<Rightarrow> string" where
  "Quote uni s = CHR 0x22 # quoteBody uni s @ [CHR 0x22]"

definition QuoteRune :: "unicode \<Rightarrow> int \<Rightarrow> string" where
  "QuoteRune uni r = CHR 0x27 # escapeRune uni 39 r @ [CHR 0x27]"

end
