(* ===== verification/Go_Float.thy ===== *)
theory Go_Float
  imports Complex_Main Go_Strings
begin

text \<open>
  The floating-point types of Go. A finite \<^verbatim>\<open>float64\<close> is the rational number it denotes, with
  negative zero kept apart because it prints differently; the infinities and NaN are values of
  their own. Arithmetic is exact arithmetic followed by rounding to the nearest representable
  number, ties to even. \<^verbatim>\<open>float32\<close> values are carried in the same type, since every one of
  them is also a \<^verbatim>\<open>float64\<close>.
\<close>

datatype go_float = Fin rat | NegZero | PosInf | NegInf | NaN

record float_format =
  prec :: nat \<comment> \<open>bits of the significand\<close>
  qmin :: int \<comment> \<open>exponent of the least positive number\<close>
  emax :: int \<comment> \<open>the numbers are below \<open>2 ^ emax\<close>\<close>

definition binary64 :: float_format where
  "binary64 = \<lparr>prec = 53, qmin = - 1074, emax = 1024\<rparr>"

definition binary32 :: float_format where
  "binary32 = \<lparr>prec = 24, qmin = - 149, emax = 128\<rparr>"

subsection \<open>Rounding\<close>

definition pow2 :: "int \<Rightarrow> rat" where
  "pow2 k = (if 0 \<le> k then 2 ^ nat k else 1 / 2 ^ nat (- k))"

function bitCount :: "int \<Rightarrow> int" where
  "bitCount n = (if n \<le> 0 then 0 else 1 + bitCount (n div 2))"
  by pat_completeness auto
termination
  by (relation "measure nat") auto

declare bitCount.simps [simp del]

text \<open>The exponent \<open>e\<close> with \<open>2 ^ e \<le> \<bar>x\<bar> < 2 ^ (e + 1)\<close>, for \<open>x \<noteq> 0\<close>.\<close>

definition binExp :: "rat \<Rightarrow> int" where
  "binExp x =
     (let (n, d) = quotient_of \<bar>x\<bar>;
          k = bitCount n - bitCount d
      in if pow2 k \<le> \<bar>x\<bar> then k else k - 1)"

definition roundHalfEven :: "rat \<Rightarrow> int" where
  "roundHalfEven x =
     (let f = \<lfloor>x\<rfloor>; r = x - of_int f
      in if r < 1 / 2 then f else if 1 / 2 < r then f + 1 else if even f then f else f + 1)"

definition roundRat :: "float_format \<Rightarrow> rat \<Rightarrow> rat" where
  "roundRat fmt x =
     (if x = 0 then 0
      else let q = max (binExp x - (int (prec fmt) - 1)) (qmin fmt)
           in of_int (roundHalfEven (x / pow2 q)) * pow2 q)"

definition fround :: "float_format \<Rightarrow> rat \<Rightarrow> go_float" where
  "fround fmt x =
     (let r = roundRat fmt x in
      if pow2 (emax fmt) \<le> r then PosInf
      else if r \<le> - pow2 (emax fmt) then NegInf
      else if r = 0 \<and> x < 0 then NegZero
      else Fin r)"

subsection \<open>Operations\<close>

text \<open>The Go conversion \<^verbatim>\<open>float64(i)\<close> of an integer.\<close>

definition float64_of_int :: "int \<Rightarrow> go_float" where
  "float64_of_int i = fround binary64 (of_int i)"

fun fval :: "go_float \<Rightarrow> rat" where
  "fval (Fin r) = r"
| "fval NegZero = 0"
| "fval _ = 0"

definition finiteF :: "go_float \<Rightarrow> bool" where
  "finiteF a \<longleftrightarrow> a \<noteq> PosInf \<and> a \<noteq> NegInf \<and> a \<noteq> NaN"

text \<open>The Go operators \<^verbatim>\<open>==\<close> and \<^verbatim>\<open><\<close> on floats.\<close>

definition feq :: "go_float \<Rightarrow> go_float \<Rightarrow> bool" where
  "feq a b \<longleftrightarrow> a \<noteq> NaN \<and> b \<noteq> NaN \<and> (if finiteF a \<and> finiteF b then fval a = fval b else a = b)"

definition fless :: "go_float \<Rightarrow> go_float \<Rightarrow> bool" where
  "fless a b \<longleftrightarrow> a \<noteq> NaN \<and> b \<noteq> NaN \<and>
     (if finiteF a \<and> finiteF b then fval a < fval b
      else a = NegInf \<and> b \<noteq> NegInf \<or> b = PosInf \<and> a \<noteq> PosInf)"

text \<open>Subtraction and \<^verbatim>\<open>math.Abs\<close>.\<close>

definition fsub :: "go_float \<Rightarrow> go_float \<Rightarrow> go_float" where
  "fsub a b =
     (if a = NaN \<or> b = NaN then NaN
      else if a = PosInf then (if b = PosInf then NaN else PosInf)
      else if a = NegInf then (if b = NegInf then NaN else NegInf)
      else if b = PosInf then NegInf
      else if b = NegInf then PosInf
      else if a = NegZero \<and> b = Fin 0 then NegZero
      else fround binary64 (fval a - fval b))"

fun fabs :: "go_float \<Rightarrow> go_float" where
  "fabs (Fin r) = Fin \<bar>r\<bar>"
| "fabs NegZero = Fin 0"
| "fabs PosInf = PosInf"
| "fabs NegInf = PosInf"
| "fabs NaN = NaN"

text \<open>Division.\<close>

definition negF :: "go_float \<Rightarrow> bool" where
  "negF a \<longleftrightarrow> a = NegZero \<or> a = NegInf \<or> (finiteF a \<and> fval a < 0)"

definition fdiv :: "go_float \<Rightarrow> go_float \<Rightarrow> go_float" where
  "fdiv a b =
     (let neg = (negF a \<noteq> negF b) in
      if a = NaN \<or> b = NaN then NaN
      else if \<not> finiteF a then (if \<not> finiteF b then NaN else if neg then NegInf else PosInf)
      else if \<not> finiteF b then (if neg then NegZero else Fin 0)
      else if fval b = 0 then (if fval a = 0 then NaN else if neg then NegInf else PosInf)
      else if fval a = 0 then (if neg then NegZero else Fin 0)
      else fround binary64 (fval a / fval b))"

text \<open>Multiplication, and \<^verbatim>\<open>math.Round\<close>, which rounds half away from zero and keeps the sign of a zero.\<close>

definition fmul :: "go_float \<Rightarrow> go_float \<Rightarrow> go_float" where
  "fmul a b =
     (let neg = (negF a \<noteq> negF b) in
      if a = NaN \<or> b = NaN then NaN
      else if \<not> finiteF a \<or> \<not> finiteF b then
        (if finiteF a \<and> fval a = 0 \<or> finiteF b \<and> fval b = 0 then NaN else if neg then NegInf else PosInf)
      else if fval a = 0 \<or> fval b = 0 then (if neg then NegZero else Fin 0)
      else fround binary64 (fval a * fval b))"

definition fRound :: "go_float \<Rightarrow> go_float" where
  "fRound a =
     (if \<not> finiteF a then a
      else let r = (if 0 \<le> fval a then \<lfloor>fval a + 1 / 2\<rfloor> else - \<lfloor>1 / 2 - fval a\<rfloor>)
           in if r = 0 \<and> negF a then NegZero else Fin (of_int r))"

text \<open>
  The conversion \<^verbatim>\<open>int(f)\<close>: truncation towards zero. For a value outside the range of
  \<^verbatim>\<open>int64\<close> the language leaves the result to the implementation; amd64 gives the least integer.
\<close>

definition truncRat :: "rat \<Rightarrow> int" where
  "truncRat r = (if 0 \<le> r then \<lfloor>r\<rfloor> else - \<lfloor>- r\<rfloor>)"

definition int_of_float :: "go_float \<Rightarrow> int" where
  "int_of_float f =
     (if finiteF f \<and> int64_min \<le> truncRat (fval f) \<and> truncRat (fval f) \<le> int64_max
      then truncRat (fval f) else int64_min)"

text \<open>Integers up to \<open>2 ^ 53\<close> in absolute value convert without rounding.\<close>

lemma pow2_powi: "pow2 k = 2 powi k"
  by (simp add: pow2_def power_int_def power_inverse inverse_eq_divide power_one_over)

lemma bitCount_nonneg: "0 \<le> bitCount n"
  by (induction n rule: bitCount.induct) (subst bitCount.simps, simp)

lemma bitCount_bounds:
  "0 < n \<Longrightarrow> n < 2 ^ nat (bitCount n) \<and> 2 ^ nat (bitCount n) \<le> 2 * n"
proof (induction n rule: bitCount.induct)
  case (1 n)
  have step: "2 ^ nat (bitCount n) = (2 :: int) * 2 ^ nat (bitCount (n div 2))"
    using "1.prems" bitCount_nonneg [of "n div 2"]
    by (subst bitCount.simps) (simp add: nat_add_distrib)
  show ?case
  proof (cases "n = 1")
    case True
    then show ?thesis by (simp add: bitCount.simps)
  next
    case False
    with "1.prems" have "0 < n div 2" by auto
    with 1 have "n div 2 < 2 ^ nat (bitCount (n div 2)) \<and> 2 ^ nat (bitCount (n div 2)) \<le> 2 * (n div 2)"
      by simp
    with step show ?thesis by presburger
  qed
qed

lemma pow2_bitCount_bounds:
  assumes "0 < n"
  shows "of_int n < pow2 (bitCount n)" and "pow2 (bitCount n) \<le> 2 * of_int n"
proof -
  have eq: "pow2 (bitCount n) = of_int (2 ^ nat (bitCount n))"
    by (simp add: pow2_def bitCount_nonneg)
  from bitCount_bounds [OF assms] show "of_int n < pow2 (bitCount n)"
    unfolding eq by (simp only: of_int_less_iff)
  from bitCount_bounds [OF assms] have "rat_of_int (2 ^ nat (bitCount n)) \<le> of_int (2 * n)"
    by (simp only: of_int_le_iff)
  then show "pow2 (bitCount n) \<le> 2 * of_int n"
    unfolding eq by simp
qed

lemma pow2_binExp_le:
  assumes "x \<noteq> 0"
  shows "pow2 (binExp x) \<le> \<bar>x\<bar>"
proof -
  obtain n d where nd: "quotient_of \<bar>x\<bar> = (n, d)" by force
  from nd have d: "0 < d" by (rule quotient_of_denom_pos)
  from nd have x: "\<bar>x\<bar> = of_int n / of_int d" by (rule quotient_of_div)
  with assms d have n: "0 < n"
    by (metis abs_le_zero_iff divide_nonpos_pos leI of_int_0_less_iff of_int_le_0_iff)
  define k where "k = bitCount n - bitCount d"
  have "pow2 (k - 1) = pow2 (bitCount n) / (2 * pow2 (bitCount d))"
    by (simp add: k_def pow2_powi power_int_diff)
  also have "\<dots> \<le> (2 * of_int n) / (2 * of_int d)"
    using pow2_bitCount_bounds [OF n] pow2_bitCount_bounds [OF d] n d
    by (intro frac_le) auto
  also have "\<dots> = \<bar>x\<bar>" using x by simp
  finally have "pow2 (k - 1) \<le> \<bar>x\<bar>" .
  then show ?thesis by (simp add: binExp_def nd k_def [symmetric])
qed

lemma roundHalfEven_int [simp]: "roundHalfEven (of_int i) = i"
  by (simp add: roundHalfEven_def)

lemma float64_of_int_exact:
  assumes "\<bar>i\<bar> \<le> 2 ^ 53"
  shows "float64_of_int i = Fin (of_int i)"
proof (cases "i = 0")
  case True
  then show ?thesis
    by (simp add: float64_of_int_def fround_def roundRat_def binary64_def pow2_def)
next
  case False
  define e where "e = binExp (of_int i)"
  have le: "pow2 e \<le> \<bar>of_int i\<bar>"
    using pow2_binExp_le [of "of_int i"] False by (simp add: e_def)
  have bound: "\<bar>rat_of_int i\<bar> \<le> 2 ^ 53"
    using assms by (metis of_int_abs of_int_le_iff of_int_numeral of_int_power)
  have e53: "e \<le> 53"
  proof (rule ccontr)
    assume "\<not> e \<le> 53"
    then have "(2::rat) powi 54 \<le> 2 powi e" by (intro power_int_increasing) auto
    with le bound show False by (simp add: pow2_powi)
  qed
  define q where "q = max (e - 52) (- 1074)"
  have "\<exists>j. rat_of_int i = of_int j * pow2 q"
  proof (cases "q \<le> 0")
    case True
    then have "rat_of_int i = of_int (i * 2 ^ nat (- q)) * pow2 q"
      by (simp add: pow2_def)
    then show ?thesis by blast
  next
    case False
    with e53 have "e = 53" "q = 1" by (auto simp: q_def)
    with le bound have "\<bar>rat_of_int i\<bar> = 2 ^ 53" by (simp add: pow2_def)
    then have "\<bar>i\<bar> = 2 ^ 53" by (metis of_int_abs of_int_eq_iff of_int_numeral of_int_power)
    then have "rat_of_int i = of_int (sgn i * 2 ^ 52) * pow2 q"
      using \<open>q = 1\<close> by (auto simp: pow2_def abs_if split: if_splits)
    then show ?thesis by blast
  qed
  then obtain j where j: "rat_of_int i = of_int j * pow2 q" by blast
  have "pow2 q \<noteq> 0" by (simp add: pow2_powi)
  with j have quot: "rat_of_int i / pow2 q = of_int j" by simp
  have "roundRat binary64 (of_int i) = of_int (roundHalfEven (rat_of_int i / pow2 q)) * pow2 q"
    using False by (simp add: roundRat_def binary64_def Let_def e_def q_def)
  also have "\<dots> = of_int i" unfolding quot roundHalfEven_int j [symmetric] ..
  finally have r: "roundRat binary64 (of_int i) = of_int i" .
  have "\<bar>rat_of_int i\<bar> < pow2 (emax binary64)"
    using bound by (rule le_less_trans) (simp add: binary64_def pow2_def)
  then have "\<not> pow2 (emax binary64) \<le> rat_of_int i" "\<not> rat_of_int i \<le> - pow2 (emax binary64)"
    by auto
  with r False show ?thesis
    by (simp add: float64_of_int_def fround_def Let_def)
qed

text \<open>
  \<^verbatim>\<open>strconv.ParseFloat(s, 64)\<close> on a decimal literal without an exponent, the only form the domain
  lexer produces: an optional sign, digits, an optional point and digits.
\<close>

definition decimalRat :: "string \<Rightarrow> rat" where
  "decimalRat s =
     (let ip = takeWhile (\<lambda>c. c \<noteq> CHR ''.'') s;
          fp = drop 1 (dropWhile (\<lambda>c. c \<noteq> CHR ''.'') s)
      in of_int (digitsVal (ip @ fp)) / 10 ^ length fp)"

definition isDecimal :: "string \<Rightarrow> bool" where
  "isDecimal s \<longleftrightarrow>
     (let ip = takeWhile (\<lambda>c. c \<noteq> CHR ''.'') s;
          fp = drop 1 (dropWhile (\<lambda>c. c \<noteq> CHR ''.'') s)
      in list_all isDigit (ip @ fp) \<and> ip @ fp \<noteq> [])"

definition ParseFloat :: "string \<Rightarrow> num_error + go_float" where
  "ParseFloat s =
     (let neg = (s \<noteq> [] \<and> hd s = CHR ''-'');
          ds = (if s \<noteq> [] \<and> (hd s = CHR ''-'' \<or> hd s = CHR ''+'') then tl s else s)
      in if \<not> isDecimal ds then Inl ErrSyntax
         else case fround binary64 (decimalRat ds) of
                Fin r \<Rightarrow> Inr (if neg then (if r = 0 then NegZero else Fin (- r)) else Fin r)
              | _ \<Rightarrow> Inl ErrRange)"

subsection \<open>Printing\<close>

text \<open>
  \<^verbatim>\<open>strconv.FormatFloat(f, 'g', -1, bits)\<close>: the fewest decimal digits that read back as the same
  number, in scientific form when the decimal exponent is below \<open>-4\<close> or at least 6 (the
  precision Go uses for this decision when it looks for the shortest form), in positional form
  otherwise. \<open>shortest\<close> looks for the least number of digits for which one of the two nearest
  decimals rounds back to the number; 17 digits are enough for a \<^verbatim>\<open>float64\<close>.
\<close>

definition pow10 :: "int \<Rightarrow> rat" where
  "pow10 k = (if 0 \<le> k then 10 ^ nat k else 1 / 10 ^ nat (- k))"

text \<open>The \<open>k\<close> with \<open>10 ^ (k - 1) \<le> x < 10 ^ k\<close>, for \<open>x > 0\<close>.\<close>

definition decExp :: "rat \<Rightarrow> int" where
  "decExp x =
     (if 1 \<le> x then int (length (decDigits \<lfloor>x\<rfloor>))
      else 1 - int (length (decDigits (\<lceil>1 / x\<rceil> - 1))))"

definition shortCand :: "float_format \<Rightarrow> rat \<Rightarrow> int \<Rightarrow> nat \<Rightarrow> int option" where
  "shortCand fmt x k n =
     (let u = pow10 (k - int n); lo = \<lfloor>x / u\<rfloor>;
          okLo = (roundRat fmt (of_int lo * u) = x);
          okHi = (roundRat fmt (of_int (lo + 1) * u) = x)
      in if okLo \<and> okHi then Some (roundHalfEven (x / u))
         else if okLo then Some lo else if okHi then Some (lo + 1) else None)"

fun searchShort :: "float_format \<Rightarrow> rat \<Rightarrow> int \<Rightarrow> nat list \<Rightarrow> int \<times> int" where
  "searchShort fmt x k [] = (\<lfloor>x\<rfloor>, 0)"
| "searchShort fmt x k (n # ns) =
     (case shortCand fmt x k n of Some m \<Rightarrow> (m, k - int n) | None \<Rightarrow> searchShort fmt x k ns)"

text \<open>The digits without trailing zeros, and the position of the decimal point.\<close>

definition shortest :: "float_format \<Rightarrow> rat \<Rightarrow> string \<times> int" where
  "shortest fmt x =
     (let (m, e) = searchShort fmt x (decExp x) [1..<18]; ds = decDigits m
      in (rev (dropWhile (\<lambda>c. c = CHR ''0'') (rev ds)), int (length ds) + e))"

definition formatDigits :: "string \<Rightarrow> int \<Rightarrow> string" where
  "formatDigits ds dp =
     (let e = dp - 1 in
      if e < - 4 \<or> 6 \<le> e
      then take 1 ds @ (if length ds \<le> 1 then [] else CHR ''.'' # drop 1 ds)
             @ [CHR ''e'', if e < 0 then CHR ''-'' else CHR ''+'']
             @ (if \<bar>e\<bar> < 10 then [CHR ''0''] else []) @ decDigits \<bar>e\<bar>
      else if dp \<le> 0 then ''0.'' @ replicate (nat (- dp)) (CHR ''0'') @ ds
      else if int (length ds) \<le> dp then ds @ replicate (nat dp - length ds) (CHR ''0'')
      else take (nat dp) ds @ [CHR ''.''] @ drop (nat dp) ds)"

definition FormatFloat :: "float_format \<Rightarrow> go_float \<Rightarrow> string" where
  "FormatFloat fmt f =
     (case f of
        NaN \<Rightarrow> ''NaN''
      | PosInf \<Rightarrow> ''+Inf''
      | NegInf \<Rightarrow> ''-Inf''
      | NegZero \<Rightarrow> ''-0''
      | Fin r \<Rightarrow>
          (if r = 0 then ''0''
           else (if r < 0 then [CHR ''-''] else []) @ (case shortest fmt \<bar>r\<bar> of (ds, dp) \<Rightarrow> formatDigits ds dp)))"

subsection \<open>Fixed decimals\<close>

text \<open>The verbs \<^verbatim>\<open>%.1f\<close> and \<^verbatim>\<open>%.2f\<close>: the exact value rounded to \<open>p\<close> decimals, ties to even.\<close>

definition fixedRat :: "nat \<Rightarrow> rat \<Rightarrow> string" where
  "fixedRat p x =
     (let n = roundHalfEven (\<bar>x\<bar> * 10 ^ p); ds = Itoa (n mod 10 ^ p) in
      Itoa (n div 10 ^ p) @ (if p = 0 then [] else ''.'' @ replicate (p - length ds) (CHR ''0'') @ ds))"

fun fmtFixed :: "nat \<Rightarrow> go_float \<Rightarrow> string" where
  "fmtFixed p (Fin x) = (if x < 0 then ''-'' else []) @ fixedRat p x"
| "fmtFixed p NegZero = ''-'' @ fixedRat p 0"
| "fmtFixed p PosInf = ''+Inf''"
| "fmtFixed p NegInf = ''-Inf''"
| "fmtFixed p NaN = ''NaN''"

end
