(* ===== verification/Go_Value.thy ===== *)
theory Go_Value
  imports Go_Float
begin

text \<open>
  Dynamic values and formatted text. \<open>go_any\<close> has the dynamic types that a Go \<^verbatim>\<open>any\<close> takes
  in the program: what \<^verbatim>\<open>encoding/json\<close> produces (nil, bool, float64, string, []any,
  map[string]any) and the further types the type switches of the ACL package name.

  A text built with \<^verbatim>\<open>fmt\<close> is kept as its pieces, the literal parts of the format and the
  arguments with their verbs (\<open>msg\<close>); \<open>render\<close> is the string that \<^verbatim>\<open>Sprintf\<close> gives.
\<close>

datatype go_any =
    ANil
  | ABool bool
  | AInt int
  | AInt64 int
  | AFloat go_float
  | AFloat32 go_float
  | AString string
  | AList "go_any list"
  | AInts "int list"
  | AInt64s "int list"
  | AFloats "go_float list"
  | AStrings "string list"
  | AMap "(string \<times> go_any) list"

subsection \<open>The verb \%v\<close>

definition fmt_bool :: "bool \<Rightarrow> string" where
  "fmt_bool b = (if b then ''true'' else ''false'')"

definition fmt_slice :: "string list \<Rightarrow> string" where
  "fmt_slice xs = ''['' @ JoinWith '' '' xs @ '']''"

fun fmt_v :: "go_any \<Rightarrow> string" where
  "fmt_v ANil = ''<nil>''"
| "fmt_v (ABool b) = fmt_bool b"
| "fmt_v (AInt i) = Itoa i"
| "fmt_v (AInt64 i) = Itoa i"
| "fmt_v (AFloat f) = FormatFloat binary64 f"
| "fmt_v (AFloat32 f) = FormatFloat binary32 f"
| "fmt_v (AString s) = s"
| "fmt_v (AList xs) = fmt_slice (map fmt_v xs)"
| "fmt_v (AInts xs) = fmt_slice (map Itoa xs)"
| "fmt_v (AInt64s xs) = fmt_slice (map Itoa xs)"
| "fmt_v (AFloats xs) = fmt_slice (map (FormatFloat binary64) xs)"
| "fmt_v (AStrings xs) = fmt_slice xs"
| "fmt_v (AMap kvs) =
     ''map'' @ fmt_slice (map (\<lambda>(k, t). k @ '':'' @ t) (sort_key fst (map (\<lambda>(k, v). (k, fmt_v v)) kvs)))"

subsection \<open>Texts\<close>

datatype frag =
    S string \<comment> \<open>literal text of the format, or an argument of \<^verbatim>\<open>%s\<close>\<close>
  | Q string \<comment> \<open>\<^verbatim>\<open>%q\<close> of a string\<close>
  | QB char \<comment> \<open>\<^verbatim>\<open>%q\<close> of a byte\<close>
  | D int \<comment> \<open>\<^verbatim>\<open>%d\<close>\<close>
  | V go_any \<comment> \<open>\<^verbatim>\<open>%v\<close>\<close>

type_synonym msg = "frag list"

fun render_frag :: "unicode \<Rightarrow> frag \<Rightarrow> string" where
  "render_frag uni (S s) = s"
| "render_frag uni (Q s) = Quote uni s"
| "render_frag uni (QB c) = QuoteRune uni (byte c)"
| "render_frag uni (D i) = Itoa i"
| "render_frag uni (V a) = fmt_v a"

definition render :: "unicode \<Rightarrow> msg \<Rightarrow> string" where
  "render uni m = concat (map (render_frag uni) m)"

lemma render_simps [simp]:
  "render uni [] = []"
  "render uni (f # m) = render_frag uni f @ render uni m"
  "render uni (m @ m') = render uni m @ render uni m'"
  by (simp_all add: render_def)

text \<open>The em dash of the program's messages, three bytes of UTF-8.\<close>

definition emdash :: string where
  "emdash = [CHR 0xE2, CHR 0x80, CHR 0x94]"

text \<open>The text of a \<^verbatim>\<open>*strconv.NumError\<close>.\<close>

definition numErrorText :: "string \<Rightarrow> string \<Rightarrow> num_error \<Rightarrow> msg" where
  "numErrorText fn s e =
     [S (''strconv.'' @ fn @ '': parsing ''), Q s,
      S (case e of ErrSyntax \<Rightarrow> '': invalid syntax'' | ErrRange \<Rightarrow> '': value out of range'')]"

end
