(* ===== verification/Acl_Types.thy ===== *)
theory Acl_Types
  imports Go_Value
begin

text \<open>
  The data model of the ACL debugger (\<^verbatim>\<open>internal/acl/types.go\<close>): verdicts, stage results, the
  resolved user and groups, and the schema snapshot. The Go field \<^verbatim>\<open>StageResult.Detail\<close> is an
  \<^verbatim>\<open>any\<close>; the values it takes are the constructors of \<open>StageDetail\<close>, whose payloads are the
  detail structs of the stages.
\<close>

datatype Verdict = VerdictOK | VerdictDenied | VerdictSkipped | VerdictError

record ResolvedUser =
  UID :: int
  Login :: string
  UserName :: string
  Active :: bool
  CompanyID :: int
  CompanyIDs :: "int list"
  GroupIDs :: "int list"
  Share :: bool
  SuperUser :: bool

definition IsSuperUser :: "ResolvedUser \<Rightarrow> bool" where
  "IsSuperUser u = SuperUser u"

fun HasGroup_loop :: "int list \<Rightarrow> int \<Rightarrow> bool" where
  "HasGroup_loop [] groupID = False"
| "HasGroup_loop (gid # gids) groupID = (if gid = groupID then True else HasGroup_loop gids groupID)"

definition User_HasGroup :: "ResolvedUser \<Rightarrow> int \<Rightarrow> bool" where
  "User_HasGroup u groupID = HasGroup_loop (GroupIDs u) groupID"

record GroupRecord =
  gr_ID :: int
  gr_Name :: string
  gr_FullName :: string
  gr_ImpliedIDs :: "int list"
  gr_CategoryID :: int

record ResolvedGroups =
  DirectIDs :: "int list"
  ImpliedIDs :: "int list"
  EffectiveIDs :: "int list"
  EffectiveSet :: "int set"
  Groups :: "GroupRecord list"

definition HasGroup :: "ResolvedGroups \<Rightarrow> int \<Rightarrow> bool" where
  "HasGroup rg groupID \<longleftrightarrow> groupID \<in> EffectiveSet rg"

text \<open>
  \<^verbatim>\<open>Operation\<close> is a string type; a request may carry any string, and the four CRUD names are
  the ones the permission checks know.
\<close>

type_synonym Operation = string

abbreviation OpRead :: Operation where "OpRead \<equiv> ''read''"
abbreviation OpWrite :: Operation where "OpWrite \<equiv> ''write''"
abbreviation OpCreate :: Operation where "OpCreate \<equiv> ''create''"
abbreviation OpUnlink :: Operation where "OpUnlink \<equiv> ''unlink''"

record ACLRuleMatch =
  m_GroupID :: string
  m_Grants :: bool
  m_Applies :: bool
  m_PermRead :: bool
  m_PermWrite :: bool
  m_PermCreate :: bool
  m_PermUnlink :: bool

record SchemaModelField =
  f_Type :: string
  f_String :: string
  f_Required :: bool

record SchemaAccessRule =
  a_GroupID :: string
  a_PermRead :: bool
  a_PermWrite :: bool
  a_PermCreate :: bool
  a_PermUnlink :: bool

record SchemaRecordRule =
  r_Name :: string
  r_GroupIDs :: "int list"
  r_Domain :: string
  r_PermRead :: bool
  r_PermWrite :: bool
  r_PermCreate :: bool
  r_PermUnlink :: bool

record SchemaModel =
  s_Model :: string
  s_Name :: string
  s_Fields :: "(string, SchemaModelField) gomap"
  s_Accesses :: "SchemaAccessRule list"
  s_Rules :: "SchemaRecordRule list"

type_synonym SchemaModels = "(string, SchemaModel) gomap"

type_synonym RecordData = "(string, go_any) gomap"

record EvalContext =
  e_UserID :: int
  e_CompanyID :: int
  e_CompanyIDs :: "int list"

subsection \<open>Stage details\<close>

record ModelACLDetail =
  mad_Model :: string
  mad_Operation :: Operation
  mad_Rules :: "ACLRuleMatch list"
  mad_Granted :: bool

record RecordRuleMatch =
  rm_Name :: string
  rm_Domain :: string
  rm_Global :: bool
  rm_Applies :: bool
  rm_GroupIDs :: "int list"

record RecordRuleDetail =
  rrd_Model :: string
  rrd_Operation :: Operation
  rrd_GlobalRules :: "RecordRuleMatch list"
  rrd_GroupRules :: "RecordRuleMatch list"
  rrd_TotalRules :: int
  rrd_AppliedCount :: int

record ConditionResult =
  c_Field :: string
  c_Operator :: string
  c_Expected :: go_any
  c_Actual :: go_any
  c_Pass :: bool
  c_Error :: msg

record RuleDomainResult =
  rr_RuleName :: string
  rr_Domain :: string
  rr_Global :: bool
  rr_Pass :: bool
  rr_ParseError :: msg
  rr_Conditions :: "ConditionResult list"

record DomainEvalDetail =
  de_Model :: string
  de_Operation :: Operation
  de_GlobalPass :: bool
  de_GroupPass :: bool
  de_RuleResults :: "RuleDomainResult list"

datatype StageDetail =
    NoDetail
  | UserDetail ResolvedUser
  | GroupsDetail ResolvedGroups
  | ModelDetail ModelACLDetail
  | RulesDetail RecordRuleDetail
  | DomainDetail DomainEvalDetail

record StageResult =
  Stage :: string
  Verdict :: Verdict
  Reason :: msg
  Detail :: StageDetail

lemma HasGroup_loop_iff [simp]: "HasGroup_loop gids g \<longleftrightarrow> g \<in> set gids"
  by (induction gids) auto

end
