(* ===== verification/Acl_Like.thy ===== *)
theory Acl_Like
  imports Acl_Types
begin

text \<open>
  The LIKE matcher of the domain evaluator (\<^verbatim>\<open>matchLike\<close> in \<^verbatim>\<open>internal/acl/domain_evaluator.go\<close>),
  the dynamic program over a table of prefixes, and its equivalence with the language that a LIKE
  pattern denotes.
\<close>

subsection \<open>The dynamic program\<close>

type_synonym table = "bool list list"

definition cell :: "table \<Rightarrow> nat \<Rightarrow> nat \<Rightarrow> bool" where
  "cell dp i j = dp ! i ! j"

definition setCell :: "table \<Rightarrow> nat \<Rightarrow> nat \<Rightarrow> bool \<Rightarrow> table" where
  "setCell dp i j v = dp[i := (dp ! i)[j := v]]"

text \<open>The loop that handles leading wildcards and breaks at the first other byte.\<close>

fun leadingLoop :: "string \<Rightarrow> table \<Rightarrow> nat list \<Rightarrow> table" where
  "leadingLoop pattern dp [] = dp"
| "leadingLoop pattern dp (j # js) =
     (if pattern ! (j - 1) = CHR 0x25
      then leadingLoop pattern (setCell dp 0 j (cell dp 0 (j - 1))) js
      else dp)"

definition likeStep :: "string \<Rightarrow> string \<Rightarrow> nat \<Rightarrow> table \<Rightarrow> nat \<Rightarrow> table" where
  "likeStep s pattern i dp j =
     setCell dp i j
       (if pattern ! (j - 1) = CHR 0x25 then cell dp (i - 1) j \<or> cell dp i (j - 1)
        else if pattern ! (j - 1) = CHR ''_'' then cell dp (i - 1) (j - 1)
        else cell dp (i - 1) (j - 1) \<and> s ! (i - 1) = pattern ! (j - 1))"

definition likeRow :: "string \<Rightarrow> string \<Rightarrow> table \<Rightarrow> nat \<Rightarrow> table" where
  "likeRow s pattern dp i = foldl (likeStep s pattern i) dp [1..<length pattern + 1]"

definition matchLike :: "string \<Rightarrow> string \<Rightarrow> bool" where
  "matchLike s pattern =
     (let sLen = length s;
          pLen = length pattern;
          dp0 = setCell (replicate (sLen + 1) (replicate (pLen + 1) False)) 0 0 True;
          dp1 = leadingLoop pattern dp0 [1..<pLen + 1];
          dp2 = foldl (likeRow s pattern) dp1 [1..<sLen + 1]
      in cell dp2 sLen pLen)"

subsection \<open>The language of a pattern\<close>

definition byteLang :: "char \<Rightarrow> string set" where
  "byteLang c = (if c = CHR 0x25 then UNIV else if c = CHR ''_'' then {[d] | d. True} else {[c]})"

fun likeLang :: "string \<Rightarrow> string set" where
  "likeLang [] = {[]}"
| "likeLang (c # p) = {u @ v | u v. u \<in> byteLang c \<and> v \<in> likeLang p}"

lemma likeLang_append: "likeLang (p @ q) = {u @ v | u v. u \<in> likeLang p \<and> v \<in> likeLang q}"
proof (induction p)
  case (Cons c p)
  have "{u @ v | u v. u \<in> byteLang c \<and> v \<in> {u @ v | u v. u \<in> likeLang p \<and> v \<in> likeLang q}} =
      {u @ v | u v. u \<in> {u @ v | u v. u \<in> byteLang c \<and> v \<in> likeLang p} \<and> v \<in> likeLang q}"
    by (simp add: set_eq_iff) (metis append_assoc)
  with Cons show ?case by simp
qed simp

lemma likeLang_snoc: "likeLang (p @ [c]) = {u @ v | u v. u \<in> likeLang p \<and> v \<in> byteLang c}"
  by (simp add: likeLang_append)

text \<open>How a snoc on both sides behaves: the three cases of the inner loop.\<close>

lemma likeLang_percent:
  "xs @ [x] \<in> likeLang (p @ [CHR 0x25]) \<longleftrightarrow>
     xs \<in> likeLang (p @ [CHR 0x25]) \<or> xs @ [x] \<in> likeLang p"
proof
  assume "xs @ [x] \<in> likeLang (p @ [CHR 0x25])"
  then obtain u v where uv: "xs @ [x] = u @ v" "u \<in> likeLang p"
    by (auto simp: likeLang_snoc byteLang_def)
  show "xs \<in> likeLang (p @ [CHR 0x25]) \<or> xs @ [x] \<in> likeLang p"
  proof (cases v rule: rev_cases)
    case Nil
    with uv show ?thesis by simp
  next
    case (snoc v' y)
    with uv have "xs = u @ v'" by simp
    with uv show ?thesis by (auto simp: likeLang_snoc byteLang_def)
  qed
next
  assume "xs \<in> likeLang (p @ [CHR 0x25]) \<or> xs @ [x] \<in> likeLang p"
  then obtain u v where "u \<in> likeLang p" "xs @ [x] = u @ v"
    by (auto simp: likeLang_snoc byteLang_def)
  then show "xs @ [x] \<in> likeLang (p @ [CHR 0x25])" by (auto simp: likeLang_snoc byteLang_def)
qed

lemma likeLang_byte:
  "c \<noteq> CHR 0x25 \<Longrightarrow> xs @ [x] \<in> likeLang (p @ [c]) \<longleftrightarrow> xs \<in> likeLang p \<and> (c = CHR ''_'' \<or> x = c)"
  by (auto simp: likeLang_snoc byteLang_def)

lemma likeLang_Nil: "[] \<in> likeLang (p @ [c]) \<longleftrightarrow> c = CHR 0x25 \<and> [] \<in> likeLang p"
  by (auto simp: likeLang_snoc byteLang_def)

subsection \<open>The table holds the prefixes that match\<close>

definition prefixMatch :: "string \<Rightarrow> string \<Rightarrow> nat \<Rightarrow> nat \<Rightarrow> bool" where
  "prefixMatch s p i j \<longleftrightarrow> take i s \<in> likeLang (take j p)"

lemma prefixMatch_0 [simp]: "prefixMatch s p 0 0" "0 < i \<Longrightarrow> i \<le> length s \<Longrightarrow> \<not> prefixMatch s p i 0"
  by (auto simp: prefixMatch_def)

lemma prefixMatch_row0:
  "j < length p \<Longrightarrow> prefixMatch s p 0 (Suc j) \<longleftrightarrow> p ! j = CHR 0x25 \<and> prefixMatch s p 0 j"
  by (simp add: prefixMatch_def take_Suc_conv_app_nth likeLang_Nil)

lemma prefixMatch_Suc:
  assumes "i < length s" "j < length p"
  shows "prefixMatch s p (Suc i) (Suc j) \<longleftrightarrow>
    (if p ! j = CHR 0x25 then prefixMatch s p i (Suc j) \<or> prefixMatch s p (Suc i) j
     else if p ! j = CHR ''_'' then prefixMatch s p i j
     else prefixMatch s p i j \<and> s ! i = p ! j)"
  using assms by (simp add: prefixMatch_def take_Suc_conv_app_nth likeLang_percent likeLang_byte)

definition shaped :: "nat \<Rightarrow> nat \<Rightarrow> table \<Rightarrow> bool" where
  "shaped m n dp \<longleftrightarrow> length dp = Suc m \<and> (\<forall>i \<le> m. length (dp ! i) = Suc n)"

lemma nth_update_if: "xs[i := x] ! k = (if i = k \<and> i < length xs then x else xs ! k)"
  by (cases "i < length xs") (auto simp: nth_list_update list_update_beyond)

lemma shaped_setCell [simp]: "shaped m n dp \<Longrightarrow> shaped m n (setCell dp i j v)"
  by (auto simp: shaped_def setCell_def nth_update_if)

lemma cell_setCell:
  assumes "shaped m n dp" "i \<le> m" "j \<le> n"
  shows "cell (setCell dp i j v) i' j' = (if i' = i \<and> j' = j then v else cell dp i' j')"
  using assms by (auto simp: shaped_def cell_def setCell_def nth_update_if)

text \<open>The first row: the entries up to the first byte that is not a wildcard, all others false.\<close>

lemma leadingLoop_row0:
  assumes "shaped m n dp" "n = length p" "1 \<le> k" "k \<le> n + 1"
    "\<forall>j < k. cell dp 0 j = prefixMatch s p 0 j" "\<forall>j. k \<le> j \<longrightarrow> j \<le> n \<longrightarrow> \<not> cell dp 0 j"
  shows "shaped m n (leadingLoop p dp [k..<n + 1]) \<and>
    (\<forall>j \<le> n. cell (leadingLoop p dp [k..<n + 1]) 0 j = prefixMatch s p 0 j) \<and>
    (\<forall>i j. 0 < i \<longrightarrow> cell (leadingLoop p dp [k..<n + 1]) i j = cell dp i j)"
  using assms
proof (induction "n + 1 - k" arbitrary: k dp)
  case 0
  then have "[k..<n + 1] = []" "k = n + 1" by simp_all
  with 0 show ?case by simp
next
  case (Suc d)
  then have k: "[k..<n + 1] = k # [Suc k..<n + 1]" "k \<le> n" by (simp_all add: upt_rec)
  have step: "prefixMatch s p 0 k \<longleftrightarrow> p ! (k - 1) = CHR 0x25 \<and> prefixMatch s p 0 (k - 1)"
    using prefixMatch_row0 [of "k - 1" p s] Suc.prems k by simp
  show ?case
  proof (cases "p ! (k - 1) = CHR 0x25")
    case True
    define dp' where "dp' = setCell dp 0 k (cell dp 0 (k - 1))"
    have c: "cell dp' i j = (if i = 0 \<and> j = k then prefixMatch s p 0 k else cell dp i j)" for i j
      using cell_setCell [OF Suc.prems(1) _ k(2), of 0] Suc.prems(3,5) True step by (simp add: dp'_def)
    have "shaped m n dp'" using Suc.prems(1) by (simp add: dp'_def)
    then have "shaped m n (leadingLoop p dp' [Suc k..<n + 1]) \<and>
      (\<forall>j \<le> n. cell (leadingLoop p dp' [Suc k..<n + 1]) 0 j = prefixMatch s p 0 j) \<and>
      (\<forall>i j. 0 < i \<longrightarrow> cell (leadingLoop p dp' [Suc k..<n + 1]) i j = cell dp' i j)"
      using Suc.prems Suc.hyps(2) k(2) by (intro Suc.hyps(1)) (auto simp: c less_Suc_eq)
    then show ?thesis using True k c by (simp add: dp'_def)
  next
    case False
    have "\<not> prefixMatch s p 0 j" if "k \<le> j" "j \<le> n" for j
      using that
    proof (induction j rule: dec_induct)
      case base
      then show ?case using step False by simp
    next
      case (step j)
      then show ?case using prefixMatch_row0 [of j p s] Suc.prems(2) by simp
    qed
    then have "cell dp 0 j = prefixMatch s p 0 j" if "j \<le> n" for j
      using that Suc.prems(5,6) by (cases "j < k") auto
    then show ?thesis using False k Suc.prems(1) by simp
  qed
qed

text \<open>One row, given that the row above is right.\<close>

lemma likeRow_prefix:
  assumes "shaped (length s) (length p) dp" "i < length s" "k \<le> length p"
    "\<forall>j \<le> length p. cell dp i j = prefixMatch s p i j" "\<not> cell dp (Suc i) 0"
  defines "dp' \<equiv> foldl (likeStep s p (Suc i)) dp [1..<k + 1]"
  shows "shaped (length s) (length p) dp' \<and> (\<forall>j \<le> k. cell dp' (Suc i) j = prefixMatch s p (Suc i) j) \<and>
    (\<forall>i' j. i' \<noteq> Suc i \<longrightarrow> cell dp' i' j = cell dp i' j)"
  using assms(3) unfolding dp'_def
proof (induction k)
  case 0
  with assms show ?case by simp
next
  case (Suc k)
  let ?dp = "foldl (likeStep s p (Suc i)) dp [1..<k + 1]"
  from Suc have IH: "shaped (length s) (length p) ?dp" "\<forall>j \<le> k. cell ?dp (Suc i) j = prefixMatch s p (Suc i) j"
    "\<forall>i' j. i' \<noteq> Suc i \<longrightarrow> cell ?dp i' j = cell dp i' j" by simp_all
  have k: "k < length p" using Suc.prems by simp
  let ?v = "if p ! k = CHR 0x25 then cell ?dp i (Suc k) \<or> cell ?dp (Suc i) k
     else if p ! k = CHR ''_'' then cell ?dp i k else cell ?dp i k \<and> s ! i = p ! k"
  have v: "?v = prefixMatch s p (Suc i) (Suc k)"
    using IH(2,3) assms(4) k by (simp add: prefixMatch_Suc [OF assms(2) k])
  have "foldl (likeStep s p (Suc i)) dp [1..<Suc k + 1] = setCell ?dp (Suc i) (Suc k) ?v"
    by (simp add: likeStep_def)
  moreover have "cell (setCell ?dp (Suc i) (Suc k) ?v) i' j =
      (if i' = Suc i \<and> j = Suc k then prefixMatch s p (Suc i) (Suc k) else cell ?dp i' j)" for i' j
    using cell_setCell [OF IH(1), of "Suc i" "Suc k"] assms(2) k v by simp
  ultimately show ?case using IH by (simp add: le_Suc_eq)
qed

lemma likeRows_prefix:
  assumes "shaped (length s) (length p) dp" "m \<le> length s"
    "\<forall>j \<le> length p. cell dp 0 j = prefixMatch s p 0 j"
    "\<forall>i. 0 < i \<longrightarrow> i \<le> length s \<longrightarrow> \<not> cell dp i 0"
  defines "dp' \<equiv> foldl (likeRow s p) dp [1..<m + 1]"
  shows "shaped (length s) (length p) dp' \<and> (\<forall>i \<le> m. \<forall>j \<le> length p. cell dp' i j = prefixMatch s p i j) \<and>
    (\<forall>i. m < i \<longrightarrow> i \<le> length s \<longrightarrow> \<not> cell dp' i 0)"
  using assms(2) unfolding dp'_def
proof (induction m)
  case 0
  with assms show ?case by simp
next
  case (Suc m)
  define D where "D = foldl (likeRow s p) dp [1..<m + 1]"
  from Suc have IH: "shaped (length s) (length p) D" "\<forall>i \<le> m. \<forall>j \<le> length p. cell D i j = prefixMatch s p i j"
    "\<forall>i. m < i \<longrightarrow> i \<le> length s \<longrightarrow> \<not> cell D i 0" unfolding D_def by simp_all
  have row: "foldl (likeRow s p) dp [1..<Suc m + 1] = likeRow s p D (Suc m)" by (simp add: D_def)
  have "shaped (length s) (length p) (likeRow s p D (Suc m)) \<and>
      (\<forall>j \<le> length p. cell (likeRow s p D (Suc m)) (Suc m) j = prefixMatch s p (Suc m) j) \<and>
      (\<forall>i j. i \<noteq> Suc m \<longrightarrow> cell (likeRow s p D (Suc m)) i j = cell D i j)"
    unfolding likeRow_def using IH Suc.prems by (intro likeRow_prefix) auto
  then show ?case unfolding row using IH by (simp add: le_Suc_eq)
qed

text \<open>
  C12: the dynamic program decides LIKE. \<^verbatim>\<open>matchLike\<close> is true of a string and a pattern exactly when
  the string belongs to the language of the pattern, where a percent sign stands for any bytes, an
  underscore for exactly one byte and every other byte for itself.
\<close>

theorem matchLike_iff: "matchLike s pattern \<longleftrightarrow> s \<in> likeLang pattern"
proof -
  define rep where "rep = replicate (length s + 1) (replicate (length pattern + 1) False)"
  define dp0 where "dp0 = setCell rep 0 0 True"
  define dp1 where "dp1 = leadingLoop pattern dp0 [1..<length pattern + 1]"
  have rep: "shaped (length s) (length pattern) rep"
    by (simp add: shaped_def rep_def del: replicate_Suc)
  then have sh: "shaped (length s) (length pattern) dp0" by (simp add: dp0_def)
  have c0: "cell dp0 i j \<longleftrightarrow> i = 0 \<and> j = 0" if "i \<le> length s" "j \<le> length pattern" for i j
    using that unfolding dp0_def cell_setCell [OF rep le0 le0]
    by (simp add: cell_def rep_def del: replicate_Suc)
  have "shaped (length s) (length pattern) dp1 \<and>
      (\<forall>j \<le> length pattern. cell dp1 0 j = prefixMatch s pattern 0 j) \<and>
      (\<forall>i j. 0 < i \<longrightarrow> cell dp1 i j = cell dp0 i j)"
    unfolding dp1_def using sh by (intro leadingLoop_row0) (auto simp: c0)
  then have "\<forall>i \<le> length s. \<forall>j \<le> length pattern.
      cell (foldl (likeRow s pattern) dp1 [1..<length s + 1]) i j = prefixMatch s pattern i j"
    using likeRows_prefix [of s pattern dp1 "length s"] by (auto simp: c0)
  then have "cell (foldl (likeRow s pattern) dp1 [1..<length s + 1]) (length s) (length pattern) =
      prefixMatch s pattern (length s) (length pattern)" by blast
  then show ?thesis
    unfolding matchLike_def Let_def rep_def [symmetric] dp0_def [symmetric] dp1_def [symmetric]
    by (simp only: prefixMatch_def take_all order_refl)
qed

end
