(* ===== verification/Acl_User.thy ===== *)
theory Acl_User
  imports Acl_Types
begin

text \<open>
  Stage 1 of the ACL pipeline, the user resolver (\<^verbatim>\<open>internal/acl/user_resolver.go\<close>), and the field
  extraction helpers that the group resolver shares. The pointer results of \<^verbatim>\<open>Resolve\<close> are
  options and its error is \<open>Inl\<close>.
\<close>

subsection \<open>Field extraction\<close>

text \<open>The verb \<^verbatim>\<open>%T\<close>: the name of the dynamic type.\<close>

fun fmt_T :: "go_any \<Rightarrow> string" where
  "fmt_T ANil = ''<nil>''"
| "fmt_T (ABool _) = ''bool''"
| "fmt_T (AInt _) = ''int''"
| "fmt_T (AInt64 _) = ''int64''"
| "fmt_T (AFloat _) = ''float64''"
| "fmt_T (AFloat32 _) = ''float32''"
| "fmt_T (AString _) = ''string''"
| "fmt_T (AList _) = ''[]interface {}''"
| "fmt_T (AInts _) = ''[]int''"
| "fmt_T (AInt64s _) = ''[]int64''"
| "fmt_T (AFloats _) = ''[]float64''"
| "fmt_T (AStrings _) = ''[]string''"
| "fmt_T (AMap _) = ''map[string]interface {}''"

definition extractInt :: "RecordData \<Rightarrow> string \<Rightarrow> msg + int" where
  "extractInt m key =
     (case map_of m key of
        None \<Rightarrow> Inl [S ''missing required field '', Q key]
      | Some v \<Rightarrow>
          (case v of
             AInt t \<Rightarrow> Inr t
           | AFloat t \<Rightarrow> Inr (int_of_float t)
           | AInt64 t \<Rightarrow> Inr t
           | AString t \<Rightarrow>
               (case ParseInt t of
                  Inl e \<Rightarrow> Inl ([S ''field '', Q key,
                      S '' is a string but could not be converted to an integer: ''] @ numErrorText ''Atoi'' t e)
                | Inr i \<Rightarrow> Inr i)
           | _ \<Rightarrow> Inl [S ''field '', Q key, S '' has unexpected type '', S (fmt_T v)]))"

definition extractString :: "RecordData \<Rightarrow> string \<Rightarrow> string" where
  "extractString m key =
     (case map_of m key of None \<Rightarrow> [] | Some v \<Rightarrow> (case v of AString s \<Rightarrow> s | _ \<Rightarrow> []))"

definition extractBool :: "RecordData \<Rightarrow> string \<Rightarrow> bool" where
  "extractBool m key =
     (case map_of m key of None \<Rightarrow> False | Some v \<Rightarrow> (case v of ABool b \<Rightarrow> b | _ \<Rightarrow> False))"

definition anyToInt :: "go_any \<Rightarrow> int" where
  "anyToInt v = (case v of AFloat t \<Rightarrow> int_of_float t | AInt t \<Rightarrow> t | AInt64 t \<Rightarrow> t | _ \<Rightarrow> 0)"

definition extractMany2OneID :: "RecordData \<Rightarrow> string \<Rightarrow> int" where
  "extractMany2OneID m key =
     (case map_of m key of
        None \<Rightarrow> 0
      | Some v \<Rightarrow>
          (case v of
             AFloat t \<Rightarrow> int_of_float t
           | AInt t \<Rightarrow> t
           | AList t \<Rightarrow> (case t of [] \<Rightarrow> 0 | x # _ \<Rightarrow> anyToInt x)
           | _ \<Rightarrow> 0))"

fun collectIDs :: "go_any list \<Rightarrow> int list" where
  "collectIDs [] = []"
| "collectIDs (item # arr) =
     (let id = anyToInt item in if id \<noteq> 0 then id # collectIDs arr else collectIDs arr)"

definition extractIntSlice :: "RecordData \<Rightarrow> string \<Rightarrow> int list" where
  "extractIntSlice m key =
     (case map_of m key of
        None \<Rightarrow> []
      | Some v \<Rightarrow> (case v of AList arr \<Rightarrow> collectIDs arr | _ \<Rightarrow> []))"

lemma collectIDs_eq: "collectIDs arr = filter (\<lambda>i. i \<noteq> 0) (map anyToInt arr)"
  by (induction arr) (auto simp: Let_def)

lemma extractIntSlice_nonzero: "0 \<notin> set (extractIntSlice m key)"
  by (auto simp: extractIntSlice_def collectIDs_eq split: option.splits go_any.splits)

subsection \<open>Resolve\<close>

abbreviation stageUser :: string where "stageUser \<equiv> ''user''"
abbreviation modelResUsers :: string where "modelResUsers \<equiv> ''res.users''"

definition userOf :: "int \<Rightarrow> RecordData \<Rightarrow> ResolvedUser" where
  "userOf uid userData =
     \<lparr> UID = uid,
       Login = extractString userData ''login'',
       UserName = extractString userData ''name'',
       Active = extractBool userData ''active'',
       CompanyID = extractMany2OneID userData ''company_id'',
       CompanyIDs = extractIntSlice userData ''company_ids'',
       GroupIDs = extractIntSlice userData ''groups_id'',
       Share = extractBool userData ''share'',
       SuperUser = (uid = 1) \<rparr>"

definition User_Resolve ::
  "SchemaModels \<Rightarrow> RecordData \<Rightarrow> msg + (ResolvedUser option \<times> StageResult)" where
  "User_Resolve schema userData =
     (if map_of schema modelResUsers = None then
        Inr (None, \<lparr> Stage = stageUser, Verdict = VerdictError,
                     Reason = [S (''model '' @ [CHR 0x27] @ ''res.users'' @ [CHR 0x27] @ '' not found in schema snapshot'')],
                     Detail = NoDetail \<rparr>)
      else if userData = [] then
        Inr (None, \<lparr> Stage = stageUser, Verdict = VerdictDenied,
                     Reason = [S (''user not found '' @ emdash @ '' no data returned from Odoo'')],
                     Detail = NoDetail \<rparr>)
      else
        case extractInt userData ''id'' of
          Inl e \<Rightarrow> Inl ([S ''user resolver: ''] @ e)
        | Inr uid \<Rightarrow>
            (let user = userOf uid userData in
             if \<not> Active user then
               Inr (Some user, \<lparr> Stage = stageUser, Verdict = VerdictDenied,
                                 Reason = [S ''user '', D uid, S '' ('', S (Login user), S '') is inactive''],
                                 Detail = UserDetail user \<rparr>)
             else
               Inr (Some user, \<lparr> Stage = stageUser, Verdict = VerdictOK,
                                 Reason = (if SuperUser user
                                   then [S ''user '', D uid, S '' ('', S (Login user),
                                         S ('') is SUPERUSER '' @ emdash @ '' all checks bypassed'')]
                                   else [S ''user '', D uid, S '' ('', S (Login user),
                                         S ('') resolved '' @ emdash @ '' ''), D (int (length (GroupIDs user))),
                                         S '' groups'']),
                                 Detail = UserDetail user \<rparr>)))"

lemma userOf_simps [simp]:
  "UID (userOf uid d) = uid"
  "Active (userOf uid d) = extractBool d ''active''"
  "GroupIDs (userOf uid d) = extractIntSlice d ''groups_id''"
  "SuperUser (userOf uid d) = (uid = 1)"
  by (simp_all add: userOf_def)

lemma User_Resolve_cases:
  assumes "User_Resolve schema userData = Inr (uo, res)"
  obtains (schema) "map_of schema modelResUsers = None" "uo = None" "Verdict res = VerdictError"
      "Detail res = NoDetail"
  | (empty) "userData = []" "uo = None" "Verdict res = VerdictDenied" "Detail res = NoDetail"
  | (inactive) uid where "extractInt userData ''id'' = Inr uid" "uo = Some (userOf uid userData)"
      "\<not> Active (userOf uid userData)" "Verdict res = VerdictDenied"
      "Detail res = UserDetail (userOf uid userData)"
  | (active) uid where "map_of schema modelResUsers \<noteq> None" "userData \<noteq> []"
      "extractInt userData ''id'' = Inr uid" "uo = Some (userOf uid userData)"
      "Active (userOf uid userData)" "Verdict res = VerdictOK"
      "Detail res = UserDetail (userOf uid userData)"
  using assms by (auto simp: User_Resolve_def Let_def split: if_splits sum.splits)

lemma User_Resolve_Stage: "User_Resolve schema userData = Inr (uo, res) \<Longrightarrow> Stage res = stageUser"
  by (auto simp: User_Resolve_def Let_def split: if_splits sum.splits)

text \<open>
  The stage lets the pipeline go on only with an active user that it returns; the resolved user
  then carries no zero group identifier, and is the superuser exactly when its identifier is 1.
\<close>

lemma User_Resolve_OK:
  assumes "User_Resolve schema userData = Inr (uo, res)" "Verdict res = VerdictOK"
  obtains u where "uo = Some u" "Active u" "SuperUser u = (UID u = 1)" "0 \<notin> set (GroupIDs u)"
    "extractInt userData ''id'' = Inr (UID u)" "u = userOf (UID u) userData"
    "map_of schema modelResUsers \<noteq> None" "userData \<noteq> []"
  using assms(1)
proof (cases rule: User_Resolve_cases)
  case (active uid)
  then show ?thesis
    using that [of "userOf uid userData"] extractIntSlice_nonzero by simp
qed (use assms(2) in auto)

end
