(* ===== verification/Acl_Groups.thy ===== *)
theory Acl_Groups
  imports Acl_User
begin

text \<open>
  Stage 2 of the ACL pipeline, the group resolver (\<^verbatim>\<open>internal/acl/group_resolver.go\<close>): the
  breadth-first expansion of the user's groups through \<^verbatim>\<open>implied_ids\<close>. The Go maps
  \<^verbatim>\<open>effectiveSet\<close> and \<^verbatim>\<open>directSet\<close> hold only \<^verbatim>\<open>true\<close>, so they are sets; their iteration order is
  not observable because the code sorts what it collects.
\<close>

subsection \<open>Parsing the group records\<close>

fun parseGroupRecords_loop ::
  "(int, GroupRecord) gomap \<Rightarrow> RecordData list \<Rightarrow> msg + (int, GroupRecord) gomap" where
  "parseGroupRecords_loop result [] = Inr result"
| "parseGroupRecords_loop result (r # raw) =
     (case extractInt r ''id'' of
        Inl e \<Rightarrow> Inl ([S (''group record missing '' @ [CHR 0x27] @ ''id'' @ [CHR 0x27] @ '': '')] @ e)
      | Inr gid \<Rightarrow>
          parseGroupRecords_loop
            (AList.update gid
              \<lparr> gr_ID = gid,
                gr_Name = extractString r ''name'',
                gr_FullName = extractString r ''full_name'',
                gr_ImpliedIDs = extractIntSlice r ''implied_ids'',
                gr_CategoryID = extractMany2OneID r ''category_id'' \<rparr> result)
            raw)"

definition parseGroupRecords :: "RecordData list \<Rightarrow> msg + (int, GroupRecord) gomap" where
  "parseGroupRecords raw = parseGroupRecords_loop [] raw"

definition intSliceToSet :: "int list \<Rightarrow> int set" where
  "intSliceToSet ids = foldl (\<lambda>s id. insert id s) {} ids"

lemma foldl_insert: "foldl (\<lambda>s id. insert id s) A ids = A \<union> set ids"
  by (induction ids arbitrary: A) auto

lemma intSliceToSet_eq [simp]: "intSliceToSet ids = set ids"
  by (simp add: intSliceToSet_def foldl_insert)

subsection \<open>Breadth-first expansion\<close>

text \<open>The inner loop over \<^verbatim>\<open>group.ImpliedIDs\<close>.\<close>

fun enqueueImplied :: "int list \<Rightarrow> int list \<Rightarrow> int set \<Rightarrow> int list \<times> int set" where
  "enqueueImplied [] queue effective = (queue, effective)"
| "enqueueImplied (implied # ids) queue effective =
     (if implied \<notin> effective
      then enqueueImplied ids (queue @ [implied]) (insert implied effective)
      else enqueueImplied ids queue effective)"

lemma enqueueImplied_spec:
  "enqueueImplied ids queue effective = (queue', effective') \<Longrightarrow>
     effective' = effective \<union> set ids \<and>
     (\<exists>new. queue' = queue @ new \<and> set new = set ids - effective \<and> distinct new)"
proof (induction ids queue effective rule: enqueueImplied.induct)
  case (2 i ids q e)
  show ?case
  proof (cases "i \<in> e")
    case True
    with 2 show ?thesis by auto
  next
    case False
    with 2 obtain new where "effective' = insert i e \<union> set ids" "queue' = (q @ [i]) @ new"
      "set new = set ids - insert i e" "distinct new"
      by auto
    then show ?thesis using False by (intro conjI exI [of _ "i # new"]) auto
  qed
qed auto

definition allImplied :: "(int, GroupRecord) gomap \<Rightarrow> int set" where
  "allImplied groupByID = (\<Union>(_, g) \<in> set groupByID. set (gr_ImpliedIDs g))"

lemma finite_allImplied [simp]: "finite (allImplied gb)"
  by (auto simp: allImplied_def)

lemma allImplied_lookup: "map_of gb c = Some g \<Longrightarrow> set (gr_ImpliedIDs g) \<subseteq> allImplied gb"
  by (force simp: allImplied_def dest: map_of_SomeD)

function expandGroups :: "(int, GroupRecord) gomap \<Rightarrow> int list \<Rightarrow> int set \<Rightarrow> int set" where
  "expandGroups groupByID [] effective = effective"
| "expandGroups groupByID (current # queue) effective =
     (case map_of groupByID current of
        None \<Rightarrow> expandGroups groupByID queue effective
      | Some grp \<Rightarrow>
          (case enqueueImplied (gr_ImpliedIDs grp) queue effective of
             (queue', effective') \<Rightarrow> expandGroups groupByID queue' effective'))"
  by pat_completeness auto

lemma enqueueImplied_measure:
  assumes "enqueueImplied ids queue effective = (queue', effective')" "set ids \<subseteq> U" "finite U"
  shows "length queue' + card (U - effective') \<le> length queue + card (U - effective)"
proof -
  from enqueueImplied_spec [OF assms(1)] obtain new where
    e: "effective' = effective \<union> set ids" "queue' = queue @ new" "set new = set ids - effective" "distinct new"
    by blast
  have "U - effective = (U - effective') \<union> set new" "(U - effective') \<inter> set new = {}"
    using e assms(2) by auto
  then have "card (U - effective) = card (U - effective') + length new"
    using card_Un_disjoint [of "U - effective'" "set new"] assms(3) e(4) by (simp add: distinct_card)
  then show ?thesis using e(2) by simp
qed

termination expandGroups
proof (relation "measure (\<lambda>(gb, queue, effective). length queue + card (allImplied gb - effective))", goal_cases)
  case (3 gb current queue effective grp queue' effective')
  then have "length queue' + card (allImplied gb - effective') \<le> length queue + card (allImplied gb - effective)"
    using enqueueImplied_measure [of "gr_ImpliedIDs grp" queue effective queue' effective' "allImplied gb"]
      allImplied_lookup [of gb current grp] by simp
  then show ?case by simp
qed simp_all

subsection \<open>The transitive closure it computes\<close>

definition implies :: "(int, GroupRecord) gomap \<Rightarrow> (int \<times> int) set" where
  "implies gb = {(a, b). \<exists>g. map_of gb a = Some g \<and> b \<in> set (gr_ImpliedIDs g)}"

lemma expandGroups_closure:
  "set queue \<subseteq> effective \<Longrightarrow> implies gb `` (effective - set queue) \<subseteq> effective \<Longrightarrow>
     expandGroups gb queue effective = (implies gb)\<^sup>* `` effective"
proof (induction gb queue effective rule: expandGroups.induct)
  case (1 gb effective)
  then show ?case by (simp add: Image_closed_trancl)
next
  case (2 gb current queue effective)
  show ?case
  proof (cases "map_of gb current")
    case None
    then have "implies gb `` {current} = {}" by (auto simp: implies_def)
    moreover have "implies gb `` (effective - set queue) \<subseteq>
        implies gb `` {current} \<union> implies gb `` (effective - set (current # queue))"
      by (simp add: Image_Un [symmetric]) (rule Image_mono; auto)
    ultimately have "implies gb `` (effective - set queue) \<subseteq> effective"
      using "2.prems"(2) by blast
    with 2 None show ?thesis by simp
  next
    case (Some g)
    obtain q' e' where qe: "enqueueImplied (gr_ImpliedIDs g) queue effective = (q', e')" by force
    from enqueueImplied_spec [OF qe] obtain new where
      e: "e' = effective \<union> set (gr_ImpliedIDs g)" "q' = queue @ new" "set new = set (gr_ImpliedIDs g) - effective"
      by blast
    have img: "implies gb `` {current} = set (gr_ImpliedIDs g)" using Some by (auto simp: implies_def)
    have sub: "set q' \<subseteq> e'" using "2.prems"(1) e by auto
    have "e' - set q' \<subseteq> insert current (effective - set (current # queue))" using e by auto
    then have "implies gb `` (e' - set q') \<subseteq> implies gb `` {current} \<union> implies gb `` (effective - set (current # queue))"
      by auto
    then have closed: "implies gb `` (e' - set q') \<subseteq> e'" using "2.prems"(2) img e(1) by auto
    have "(implies gb)\<^sup>* `` e' = (implies gb)\<^sup>* `` effective"
      using "2.prems"(1) img e(1) by (auto intro: converse_rtrancl_into_rtrancl)
    with "2.IH"(2) [OF Some qe [symmetric] sub closed] Some qe show ?thesis by simp
  qed
qed

lemma finite_enqueueImplied:
  "enqueueImplied ids q e = (q', e') \<Longrightarrow> finite e \<Longrightarrow> finite e'"
  using enqueueImplied_spec by fastforce

lemma finite_expandGroups: "finite effective \<Longrightarrow> finite (expandGroups gb queue effective)"
proof (induction gb queue effective rule: expandGroups.induct)
  case (2 gb current queue effective)
  show ?case
  proof (cases "map_of gb current")
    case (Some g)
    obtain q' e' where qe: "enqueueImplied (gr_ImpliedIDs g) queue effective = (q', e')" by force
    with "2.IH"(2) [OF Some qe [symmetric] finite_enqueueImplied [OF qe "2.prems"]] Some
    show ?thesis by simp
  qed (use 2 in simp)
qed simp

subsection \<open>Resolve\<close>

abbreviation stageGroups :: string where "stageGroups \<equiv> ''groups''"
abbreviation modelResGroups :: string where "modelResGroups \<equiv> ''res.groups''"

text \<open>The sections \<^verbatim>\<open>Expand implied groups\<close> and \<^verbatim>\<open>Build result\<close> of the code.\<close>

definition buildGroups :: "ResolvedUser \<Rightarrow> (int, GroupRecord) gomap \<Rightarrow> ResolvedGroups" where
  "buildGroups user groupByID =
     (let directSet = intSliceToSet (GroupIDs user);
          effectiveSet = expandGroups groupByID (GroupIDs user) (intSliceToSet (GroupIDs user));
          effectiveIDs = sorted_list_of_set effectiveSet;
          impliedIDs = filter (\<lambda>gid. gid \<notin> directSet) effectiveIDs
      in \<lparr> DirectIDs = GroupIDs user, ImpliedIDs = impliedIDs, EffectiveIDs = effectiveIDs,
           EffectiveSet = effectiveSet,
           Groups = List.map_filter (map_of groupByID) effectiveIDs \<rparr>)"

definition Group_Resolve ::
  "SchemaModels \<Rightarrow> ResolvedUser \<Rightarrow> RecordData list \<Rightarrow> msg + (ResolvedGroups option \<times> StageResult)" where
  "Group_Resolve schema user groupData =
     (if IsSuperUser user then
        Inr (Some \<lparr> DirectIDs = GroupIDs user, ImpliedIDs = [], EffectiveIDs = GroupIDs user,
                    EffectiveSet = intSliceToSet (GroupIDs user), Groups = [] \<rparr>,
             \<lparr> Stage = stageGroups, Verdict = VerdictOK,
               Reason = [S ''user '', D (UID user),
                 S ('' is SUPERUSER '' @ emdash @ '' group resolution skipped, all access granted'')],
               Detail = NoDetail \<rparr>)
      else if map_of schema modelResGroups = None then
        Inr (None, \<lparr> Stage = stageGroups, Verdict = VerdictError,
                     Reason = [S (''model '' @ [CHR 0x27] @ ''res.groups'' @ [CHR 0x27] @ '' not found in schema snapshot'')],
                     Detail = NoDetail \<rparr>)
      else
        case parseGroupRecords groupData of
          Inl e \<Rightarrow> Inl ([S ''group resolver: ''] @ e)
        | Inr groupByID \<Rightarrow>
            if groupByID = [] then
              Inr (None, \<lparr> Stage = stageGroups, Verdict = VerdictError,
                           Reason = [S (''no group records provided '' @ emdash @ '' agent may not have fetched res.groups'')],
                           Detail = NoDetail \<rparr>)
            else
              (let resolved = buildGroups user groupByID in
               Inr (Some resolved,
                 \<lparr> Stage = stageGroups, Verdict = VerdictOK,
                   Reason = (if EffectiveIDs resolved = []
                     then [S ''user '', D (UID user), S '' ('', S (Login user),
                           S ('') has no groups '' @ emdash @ '' only global rules will apply'')]
                     else [S ''user '', D (UID user), S '' ('', S (Login user), S ''): '',
                           D (int (length (GroupIDs user))), S '' direct groups + '',
                           D (int (length (ImpliedIDs resolved))), S '' implied = '',
                           D (int (length (EffectiveIDs resolved))), S '' effective groups'']),
                   Detail = GroupsDetail resolved \<rparr>)))"

lemma Group_Resolve_cases:
  assumes "Group_Resolve schema user groupData = Inr (go, res)"
  obtains (super) rg where "IsSuperUser user" "go = Some rg" "EffectiveSet rg = set (GroupIDs user)"
      "Verdict res = VerdictOK" "Detail res = NoDetail"
  | (error) "\<not> IsSuperUser user" "go = None" "Verdict res = VerdictError" "Detail res = NoDetail"
  | (resolved) gb where "\<not> IsSuperUser user" "map_of schema modelResGroups \<noteq> None"
      "parseGroupRecords groupData = Inr gb" "gb \<noteq> []" "go = Some (buildGroups user gb)"
      "Verdict res = VerdictOK" "Detail res = GroupsDetail (buildGroups user gb)"
  using assms by (auto simp: Group_Resolve_def Let_def split: if_splits sum.splits)

lemma Group_Resolve_Stage:
  "Group_Resolve schema user groupData = Inr (go, res) \<Longrightarrow> Stage res = stageGroups"
  by (auto simp: Group_Resolve_def Let_def split: if_splits sum.splits)

lemma buildGroups_simps [simp]:
  "DirectIDs (buildGroups user gb) = GroupIDs user"
  "EffectiveSet (buildGroups user gb) = (implies gb)\<^sup>* `` set (GroupIDs user)"
  "EffectiveIDs (buildGroups user gb) = sorted_list_of_set (EffectiveSet (buildGroups user gb))"
  "ImpliedIDs (buildGroups user gb) =
     filter (\<lambda>gid. gid \<notin> set (GroupIDs user)) (EffectiveIDs (buildGroups user gb))"
  "Groups (buildGroups user gb) = List.map_filter (map_of gb) (EffectiveIDs (buildGroups user gb))"
  by (simp_all add: buildGroups_def Let_def expandGroups_closure)

lemma finite_EffectiveSet: "finite (EffectiveSet (buildGroups user gb))"
  unfolding buildGroups_def Let_def by (simp add: finite_expandGroups)

subsection \<open>The stage's guarantee\<close>



end
