(* ===== verification/Acl_Stage.thy ===== *)
theory Acl_Stage
  imports Acl_Groups
begin

text \<open>
  The interface of the two pipeline stages that consult the schema for the user's effective groups
  (the model ACL checker and the record rule finder): both are called by
  \<^verbatim>\<open>internal/service/acl_service.go\<close> with the same arguments. The contract says what the pipeline
  relies on: the stage's name, the superuser bypass, the error for a model the snapshot does not
  have, and that a stage asks the groups only for membership.
\<close>

definition sameMembership :: "ResolvedGroups \<Rightarrow> ResolvedGroups \<Rightarrow> bool" where
  "sameMembership g h \<longleftrightarrow> (\<forall>i. HasGroup g i = HasGroup h i)"

locale acl_stage =
  fixes stageName :: string
    and run :: "SchemaModels \<Rightarrow> ResolvedUser \<Rightarrow> ResolvedGroups \<Rightarrow> string \<Rightarrow> Operation \<Rightarrow> StageResult"
  assumes run_Stage: "Stage (run schema user groups model op) = stageName"
    and run_super: "IsSuperUser user \<Longrightarrow> Verdict (run schema user groups model op) = VerdictOK"
    and run_missing: "\<not> IsSuperUser user \<Longrightarrow>
      Verdict (run schema user groups model op) = VerdictError \<longleftrightarrow> map_of schema model = None"
    and run_membership: "sameMembership g h \<Longrightarrow>
      run schema user g model op = run schema user h model op"
begin

text \<open>A stage never reports an error for a model of the snapshot.\<close>

lemma run_known: "map_of schema model \<noteq> None \<Longrightarrow> Verdict (run schema user groups model op) \<noteq> VerdictError"
  using run_super run_missing by (metis Verdict.distinct(5))

text \<open>
  The resolved groups of a user can be replaced by any group record whose members are the
  implied closure of the user's groups.
\<close>

lemma run_closure:
  assumes "EffectiveSet h = (implies gb)\<^sup>* `` set (GroupIDs user)"
  shows "run schema user (buildGroups user gb) model op = run schema user h model op"
  by (rule run_membership) (simp add: sameMembership_def HasGroup_def assms)

end

end
