(* ===== verification/Acl_Model.thy ===== *)
theory Acl_Model
  imports Acl_Stage
begin

text \<open>
  Stage 3 of the ACL pipeline, the evaluation of \<^verbatim>\<open>ir.model.access\<close> rules
  (\<^verbatim>\<open>internal/acl/model_acl_checker.go\<close>).
\<close>

abbreviation stageModelACL :: string where "stageModelACL \<equiv> ''model_acl''"

definition ruleApplies :: "string \<Rightarrow> ResolvedGroups \<Rightarrow> bool" where
  "ruleApplies groupID groups =
     (if groupID = ''0'' \<or> groupID = [] then True
      else case ParseInt groupID of Inl _ \<Rightarrow> False | Inr gid \<Rightarrow> HasGroup groups gid)"

definition permForOp :: "SchemaAccessRule \<Rightarrow> Operation \<Rightarrow> bool" where
  "permForOp rule op =
     (if op = OpRead then a_PermRead rule
      else if op = OpWrite then a_PermWrite rule
      else if op = OpCreate then a_PermCreate rule
      else if op = OpUnlink then a_PermUnlink rule
      else False)"

text \<open>The loop over the access rules, with its accumulators \<^verbatim>\<open>matches\<close> and \<^verbatim>\<open>granted\<close>.\<close>

fun checkRules ::
  "ResolvedGroups \<Rightarrow> Operation \<Rightarrow> ACLRuleMatch list \<Rightarrow> bool \<Rightarrow> SchemaAccessRule list \<Rightarrow> ACLRuleMatch list \<times> bool" where
  "checkRules groups op matches granted [] = (matches, granted)"
| "checkRules groups op matches granted (rule # rules) =
     (let applies = ruleApplies (a_GroupID rule) groups;
          grants = applies \<and> permForOp rule op;
          m = \<lparr> m_GroupID = a_GroupID rule, m_Grants = grants, m_Applies = applies,
                m_PermRead = a_PermRead rule, m_PermWrite = a_PermWrite rule,
                m_PermCreate = a_PermCreate rule, m_PermUnlink = a_PermUnlink rule \<rparr>
      in checkRules groups op (matches @ [m]) (if grants then True else granted) rules)"

fun countWhere :: "('a \<Rightarrow> bool) \<Rightarrow> 'a list \<Rightarrow> int" where
  "countWhere P [] = 0"
| "countWhere P (x # xs) = (if P x then 1 + countWhere P xs else countWhere P xs)"

lemma countWhere_eq: "countWhere P xs = int (length (filter P xs))"
  by (induction xs) auto

definition Model_Check ::
  "SchemaModels \<Rightarrow> ResolvedUser \<Rightarrow> ResolvedGroups \<Rightarrow> string \<Rightarrow> Operation \<Rightarrow> StageResult" where
  "Model_Check schema user groups model op =
     (if IsSuperUser user then
        \<lparr> Stage = stageModelACL, Verdict = VerdictOK,
          Reason = [S ''user '', D (UID user),
            S ('' is SUPERUSER '' @ emdash @ '' ir.model.access check skipped for ''), S model, S ''.'', S op],
          Detail = ModelDetail \<lparr> mad_Model = model, mad_Operation = op, mad_Rules = [], mad_Granted = True \<rparr> \<rparr>
      else
        case map_of schema model of
          None \<Rightarrow>
            \<lparr> Stage = stageModelACL, Verdict = VerdictError,
              Reason = [S ''model '', Q model, S '' not found in schema snapshot''], Detail = NoDetail \<rparr>
        | Some schemaModel \<Rightarrow>
            if s_Accesses schemaModel = [] then
              \<lparr> Stage = stageModelACL, Verdict = VerdictDenied,
                Reason = [S ''no ir.model.access rules defined for model '', Q model,
                  S ('' '' @ emdash @ '' access denied by default'')],
                Detail = ModelDetail \<lparr> mad_Model = model, mad_Operation = op, mad_Rules = [], mad_Granted = False \<rparr> \<rparr>
            else
              (case checkRules groups op [] False (s_Accesses schemaModel) of
                 (matches, granted) \<Rightarrow>
                   (let detail = ModelDetail \<lparr> mad_Model = model, mad_Operation = op, mad_Rules = matches,
                          mad_Granted = granted \<rparr>;
                        total = int (length matches)
                    in if granted then
                         \<lparr> Stage = stageModelACL, Verdict = VerdictOK,
                           Reason = [S ''model '', Q model, S '' '', S op, S ('': ALLOWED '' @ emdash @ '' ''),
                             D (countWhere m_Grants matches), S '' of '', D total, S '' rule(s) grant access''],
                           Detail = detail \<rparr>
                       else
                         (let applicableCount = countWhere m_Applies matches in
                          \<lparr> Stage = stageModelACL, Verdict = VerdictDenied,
                            Reason =
                              (if applicableCount = 0
                               then [S ''model '', Q model, S '' '', S op, S ('': DENIED '' @ emdash @ '' ''), D total,
                                     S ('' rule(s) exist but none apply to user'' @ [CHR 0x27] @ ''s groups'')]
                               else [S ''model '', Q model, S '' '', S op, S ('': DENIED '' @ emdash @ '' ''),
                                     D applicableCount, S '' applicable rule(s), none grant '', S op, S '' permission'']),
                            Detail = detail \<rparr>))))"

subsection \<open>Correctness\<close>

definition grantingRule :: "ResolvedGroups \<Rightarrow> Operation \<Rightarrow> SchemaAccessRule \<Rightarrow> bool" where
  "grantingRule groups op rule \<longleftrightarrow> ruleApplies (a_GroupID rule) groups \<and> permForOp rule op"

lemma checkRules_granted:
  "snd (checkRules groups op matches granted rules) \<longleftrightarrow>
     granted \<or> (\<exists>rule \<in> set rules. grantingRule groups op rule)"
  by (induction groups op matches granted rules rule: checkRules.induct)
    (auto simp: Let_def grantingRule_def)

text \<open>The matches report each rule in order, with what the loop decided on it.\<close>

lemma checkRules_matches:
  "fst (checkRules groups op matches granted rules) =
     matches @ map (\<lambda>rule. \<lparr> m_GroupID = a_GroupID rule, m_Grants = grantingRule groups op rule,
       m_Applies = ruleApplies (a_GroupID rule) groups, m_PermRead = a_PermRead rule,
       m_PermWrite = a_PermWrite rule, m_PermCreate = a_PermCreate rule,
       m_PermUnlink = a_PermUnlink rule \<rparr>) rules"
  by (induction groups op matches granted rules rule: checkRules.induct)
    (simp_all add: Let_def grantingRule_def)

lemma Model_Check_Verdict:
  "Verdict (Model_Check schema user groups model op) =
     (if IsSuperUser user then VerdictOK
      else case map_of schema model of
             None \<Rightarrow> VerdictError
           | Some m \<Rightarrow> if \<exists>rule \<in> set (s_Accesses m). grantingRule groups op rule
                       then VerdictOK else VerdictDenied)"
  using checkRules_granted [of groups op "[]" False]
  by (auto simp: Model_Check_def Let_def split: option.splits prod.splits) (metis snd_conv)+

lemma Model_Check_Stage: "Stage (Model_Check schema user groups model op) = stageModelACL"
  by (simp add: Model_Check_def Let_def split: option.splits prod.splits)

lemma ruleApplies_membership: "sameMembership g h \<Longrightarrow> ruleApplies i g = ruleApplies i h"
  by (simp add: ruleApplies_def sameMembership_def split: sum.splits)

lemma checkRules_membership:
  "sameMembership g h \<Longrightarrow> checkRules g op ms gr rules = checkRules h op ms gr rules"
  by (induction g op ms gr rules rule: checkRules.induct) (simp_all add: Let_def ruleApplies_membership)

interpretation modelStage: acl_stage stageModelACL Model_Check
proof unfold_locales
  fix g h schema user model op
  assume "sameMembership g h"
  then show "Model_Check schema user g model op = Model_Check schema user h model op"
    unfolding Model_Check_def by (simp only: checkRules_membership [of g h])
qed (auto simp: Model_Check_Stage Model_Check_Verdict split: option.splits)

subsection \<open>The stage's guarantee\<close>

text \<open>The operations that an access rule's flags name.\<close>

definition accessOps :: "SchemaAccessRule \<Rightarrow> Operation set" where
  "accessOps rule =
     (if a_PermRead rule then {OpRead} else {}) \<union> (if a_PermWrite rule then {OpWrite} else {}) \<union>
     (if a_PermCreate rule then {OpCreate} else {}) \<union> (if a_PermUnlink rule then {OpUnlink} else {})"

lemma permForOp_iff: "permForOp rule op \<longleftrightarrow> op \<in> accessOps rule"
  by (simp add: permForOp_def accessOps_def)



text \<open>
  more groups never lose model access. If every group of one resolved set is also in another
  and the check passes with the first, it passes with the second.
\<close>

theorem Model_Check_mono:
  assumes "\<forall>g. HasGroup small g \<longrightarrow> HasGroup large g"
    "Verdict (Model_Check schema user small model op) = VerdictOK"
  shows "Verdict (Model_Check schema user large model op) = VerdictOK"
proof -
  have "grantingRule small op rule \<Longrightarrow> grantingRule large op rule" for rule
    using assms(1) by (auto simp: grantingRule_def ruleApplies_def split: if_splits sum.splits)
  with assms(2) show ?thesis
    by (auto simp: Model_Check_Verdict split: if_splits option.splits)
qed

lemma Model_Check_mono_witness:
  "let g = (\<lambda>E. \<lparr> DirectIDs = [], ImpliedIDs = [], EffectiveIDs = [], EffectiveSet = E, Groups = [] \<rparr>);
       schema = [(''m'', \<lparr> s_Model = ''m'', s_Name = [], s_Fields = [],
         s_Accesses = [\<lparr> a_GroupID = ''0'', a_PermRead = True, a_PermWrite = False, a_PermCreate = False,
           a_PermUnlink = False \<rparr>], s_Rules = [] \<rparr>)]
   in Verdict (Model_Check schema (userOf 7 []) (g {1, 2}) ''m'' ''read'') = VerdictOK"
proof -
  have "Verdict (Model_Check [(''m'', \<lparr> s_Model = ''m'', s_Name = [], s_Fields = [],
         s_Accesses = [\<lparr> a_GroupID = ''0'', a_PermRead = True, a_PermWrite = False, a_PermCreate = False,
           a_PermUnlink = False \<rparr>], s_Rules = [] \<rparr>)] (userOf 7 [])
       \<lparr> DirectIDs = [], ImpliedIDs = [], EffectiveIDs = [], EffectiveSet = {1}, Groups = [] \<rparr> ''m'' ''read'') = VerdictOK"
    by (simp add: Model_Check_Verdict grantingRule_def ruleApplies_def permForOp_def IsSuperUser_def)
  from Model_Check_mono [OF _ this] show ?thesis by (simp add: HasGroup_def)
qed

end
