(* ===== verification/Acl_Rules.thy ===== *)
theory Acl_Rules
  imports Acl_Model
begin

text \<open>
  Stage 4 of the ACL pipeline, the search for the \<^verbatim>\<open>ir.rule\<close> entries that cover the operation
  (\<^verbatim>\<open>internal/acl/record_rule_finder.go\<close>).
\<close>

abbreviation stageRecordRule :: string where "stageRecordRule \<equiv> ''record_rule''"

definition recordRulePermForOp :: "SchemaRecordRule \<Rightarrow> Operation \<Rightarrow> bool" where
  "recordRulePermForOp rule op =
     (let allFalse = (\<not> r_PermRead rule \<and> \<not> r_PermWrite rule \<and> \<not> r_PermCreate rule \<and> \<not> r_PermUnlink rule) in
      if allFalse then True
      else if op = OpRead then r_PermRead rule
      else if op = OpWrite then r_PermWrite rule
      else if op = OpCreate then r_PermCreate rule
      else if op = OpUnlink then r_PermUnlink rule
      else False)"

fun userInRuleGroups :: "int list \<Rightarrow> ResolvedGroups \<Rightarrow> bool" where
  "userInRuleGroups [] groups = False"
| "userInRuleGroups (gid # gids) groups = (if HasGroup groups gid then True else userInRuleGroups gids groups)"

definition countApplied :: "RecordRuleMatch list \<Rightarrow> int" where
  "countApplied matches = countWhere rm_Applies matches"

text \<open>The loop over the rules, with its accumulators \<^verbatim>\<open>globalRules\<close>, \<^verbatim>\<open>groupRules\<close> and \<^verbatim>\<open>appliedCount\<close>.\<close>

fun findRules ::
  "ResolvedGroups \<Rightarrow> Operation \<Rightarrow> RecordRuleMatch list \<Rightarrow> RecordRuleMatch list \<Rightarrow> int \<Rightarrow> SchemaRecordRule list \<Rightarrow>
     RecordRuleMatch list \<times> RecordRuleMatch list \<times> int" where
  "findRules groups op globals groupRs applied [] = (globals, groupRs, applied)"
| "findRules groups op globals groupRs applied (rule # rules) =
     (if \<not> recordRulePermForOp rule op then findRules groups op globals groupRs applied rules
      else
        (let isGlobal = (r_GroupIDs rule = []);
             applies = (isGlobal \<or> userInRuleGroups (r_GroupIDs rule) groups);
             m = \<lparr> rm_Name = r_Name rule, rm_Domain = r_Domain rule, rm_Global = isGlobal,
                   rm_Applies = applies, rm_GroupIDs = r_GroupIDs rule \<rparr>;
             applied' = (if applies then applied + 1 else applied)
         in if isGlobal then findRules groups op (globals @ [m]) groupRs applied' rules
            else findRules groups op globals (groupRs @ [m]) applied' rules))"

fun anyGroupRuleApplies :: "RecordRuleMatch list \<Rightarrow> bool" where
  "anyGroupRuleApplies [] = False"
| "anyGroupRuleApplies (gr # grs) = (if rm_Applies gr then True else anyGroupRuleApplies grs)"

definition emptyRuleDetail :: "string \<Rightarrow> Operation \<Rightarrow> RecordRuleDetail" where
  "emptyRuleDetail model op =
     \<lparr> rrd_Model = model, rrd_Operation = op, rrd_GlobalRules = [], rrd_GroupRules = [],
       rrd_TotalRules = 0, rrd_AppliedCount = 0 \<rparr>"

definition Rule_Find ::
  "SchemaModels \<Rightarrow> ResolvedUser \<Rightarrow> ResolvedGroups \<Rightarrow> string \<Rightarrow> Operation \<Rightarrow> StageResult" where
  "Rule_Find schema user groups model op =
     (if IsSuperUser user then
        \<lparr> Stage = stageRecordRule, Verdict = VerdictOK,
          Reason = [S ''user '', D (UID user),
            S ('' is SUPERUSER '' @ emdash @ '' ir.rule check skipped for ''), S model, S ''.'', S op],
          Detail = RulesDetail (emptyRuleDetail model op) \<rparr>
      else
        case map_of schema model of
          None \<Rightarrow>
            \<lparr> Stage = stageRecordRule, Verdict = VerdictError,
              Reason = [S ''model '', Q model, S '' not found in schema snapshot''], Detail = NoDetail \<rparr>
        | Some schemaModel \<Rightarrow>
            if s_Rules schemaModel = [] then
              \<lparr> Stage = stageRecordRule, Verdict = VerdictSkipped,
                Reason = [S ''no ir.rule entries for model '', Q model,
                  S ('' '' @ emdash @ '' record-level access unrestricted'')],
                Detail = RulesDetail (emptyRuleDetail model op) \<rparr>
            else
              (case findRules groups op [] [] 0 (s_Rules schemaModel) of
                 (globals, groupRs, applied) \<Rightarrow>
                   (let totalRules = int (length globals) + int (length groupRs);
                        detail = RulesDetail \<lparr> rrd_Model = model, rrd_Operation = op, rrd_GlobalRules = globals,
                          rrd_GroupRules = groupRs, rrd_TotalRules = totalRules, rrd_AppliedCount = applied \<rparr>
                    in if totalRules = 0 then
                         \<lparr> Stage = stageRecordRule, Verdict = VerdictSkipped,
                           Reason = [S ''no ir.rule entries for model '', Q model, S '' cover operation '', S op,
                             S ('' '' @ emdash @ '' record-level access unrestricted'')],
                           Detail = detail \<rparr>
                       else if 0 < length groupRs \<and> \<not> anyGroupRuleApplies groupRs then
                         \<lparr> Stage = stageRecordRule, Verdict = VerdictDenied,
                           Reason = [S ''model '', Q model, S '' '', S op, S ('': DENIED '' @ emdash @ '' ''),
                             D (int (length groupRs)),
                             S ('' group rule(s) exist but none match user'' @ [CHR 0x27] @
                                ''s groups; user must belong to at least one rule'' @ [CHR 0x27] @ ''s groups'')],
                           Detail = detail \<rparr>
                       else
                         \<lparr> Stage = stageRecordRule, Verdict = VerdictOK,
                           Reason = [S ''model '', Q model, S '' '', S op, S '': '', D applied, S '' rule(s) apply ('',
                             D (int (length globals)), S '' global, '', D (countApplied groupRs),
                             S ('' group) '' @ emdash @ '' domains must be evaluated'')],
                           Detail = detail \<rparr>)))"

subsection \<open>Correctness\<close>

lemma userInRuleGroups_iff: "userInRuleGroups gids groups \<longleftrightarrow> (\<exists>g \<in> set gids. HasGroup groups g)"
  by (induction gids) auto

lemma anyGroupRuleApplies_iff: "anyGroupRuleApplies grs \<longleftrightarrow> (\<exists>gr \<in> set grs. rm_Applies gr)"
  by (induction grs) auto

text \<open>The rules of a model that cover the operation, and how the code describes one of them.\<close>

definition coveringRules :: "Operation \<Rightarrow> SchemaRecordRule list \<Rightarrow> SchemaRecordRule list" where
  "coveringRules op rules = filter (\<lambda>rule. recordRulePermForOp rule op) rules"

definition isGlobalRule :: "SchemaRecordRule \<Rightarrow> bool" where
  "isGlobalRule rule \<longleftrightarrow> r_GroupIDs rule = []"

definition appliesTo :: "ResolvedGroups \<Rightarrow> SchemaRecordRule \<Rightarrow> bool" where
  "appliesTo groups rule \<longleftrightarrow> isGlobalRule rule \<or> (\<exists>g \<in> set (r_GroupIDs rule). HasGroup groups g)"

definition matchOf :: "ResolvedGroups \<Rightarrow> SchemaRecordRule \<Rightarrow> RecordRuleMatch" where
  "matchOf groups rule =
     \<lparr> rm_Name = r_Name rule, rm_Domain = r_Domain rule, rm_Global = isGlobalRule rule,
       rm_Applies = appliesTo groups rule, rm_GroupIDs = r_GroupIDs rule \<rparr>"

lemma matchOf_simps [simp]:
  "rm_Name (matchOf groups rule) = r_Name rule"
  "rm_Domain (matchOf groups rule) = r_Domain rule"
  "rm_Applies (matchOf groups rule) = appliesTo groups rule"
  "rm_Global (matchOf groups rule) = isGlobalRule rule"
  by (simp_all add: matchOf_def)

lemma findRules_eq:
  "findRules groups op globals groupRs applied rules =
     (globals @ map (matchOf groups) (filter isGlobalRule (coveringRules op rules)),
      groupRs @ map (matchOf groups) (filter (Not \<circ> isGlobalRule) (coveringRules op rules)),
      applied + int (length (filter (appliesTo groups) (coveringRules op rules))))"
  by (induction groups op globals groupRs applied rules rule: findRules.induct)
    (simp_all add: Let_def coveringRules_def matchOf_def isGlobalRule_def appliesTo_def userInRuleGroups_iff)

definition ruleDetailOf :: "ResolvedGroups \<Rightarrow> string \<Rightarrow> Operation \<Rightarrow> SchemaRecordRule list \<Rightarrow> RecordRuleDetail" where
  "ruleDetailOf groups model op rules =
     \<lparr> rrd_Model = model, rrd_Operation = op,
       rrd_GlobalRules = map (matchOf groups) (filter isGlobalRule (coveringRules op rules)),
       rrd_GroupRules = map (matchOf groups) (filter (Not \<circ> isGlobalRule) (coveringRules op rules)),
       rrd_TotalRules = int (length (coveringRules op rules)),
       rrd_AppliedCount = int (length (filter (appliesTo groups) (coveringRules op rules))) \<rparr>"

lemma length_filter_split: "length (filter P xs) + length (filter (Not \<circ> P) xs) = length xs"
  by (induction xs) auto

definition noGroupMatches :: "ResolvedGroups \<Rightarrow> SchemaRecordRule list \<Rightarrow> bool" where
  "noGroupMatches groups rules \<longleftrightarrow>
     (\<exists>rule \<in> set rules. \<not> isGlobalRule rule) \<and> (\<forall>rule \<in> set rules. \<not> isGlobalRule rule \<longrightarrow> \<not> appliesTo groups rule)"

lemma Rule_Find_known:
  assumes "\<not> IsSuperUser user" "map_of schema model = Some m"
  shows "Verdict (Rule_Find schema user groups model op) =
      (if coveringRules op (s_Rules m) = [] then VerdictSkipped
       else if noGroupMatches groups (coveringRules op (s_Rules m)) then VerdictDenied
       else VerdictOK)"
    and "Detail (Rule_Find schema user groups model op) = RulesDetail (ruleDetailOf groups model op (s_Rules m))"
proof -
  let ?cov = "coveringRules op (s_Rules m)"
  have total: "int (length (filter isGlobalRule ?cov)) + int (length (filter (Not \<circ> isGlobalRule) ?cov)) =
      int (length ?cov)"
    using length_filter_split [of isGlobalRule ?cov] by (simp flip: of_nat_add)
  have nog: "0 < length (filter (Not \<circ> isGlobalRule) ?cov) \<and>
      \<not> anyGroupRuleApplies (map (matchOf groups) (filter (Not \<circ> isGlobalRule) ?cov)) \<longleftrightarrow>
      noGroupMatches groups ?cov"
    by (auto simp: noGroupMatches_def anyGroupRuleApplies_iff filter_empty_conv)
  show "Verdict (Rule_Find schema user groups model op) =
      (if ?cov = [] then VerdictSkipped
       else if noGroupMatches groups ?cov then VerdictDenied
       else VerdictOK)"
    using assms nog total by (simp add: Rule_Find_def findRules_eq Let_def coveringRules_def)
  show "Detail (Rule_Find schema user groups model op) = RulesDetail (ruleDetailOf groups model op (s_Rules m))"
    using assms total by (simp add: Rule_Find_def findRules_eq Let_def ruleDetailOf_def
        emptyRuleDetail_def coveringRules_def)
qed

lemma Rule_Find_super: "IsSuperUser user \<Longrightarrow> Verdict (Rule_Find schema user groups model op) = VerdictOK"
  by (simp add: Rule_Find_def)

lemma Rule_Find_unknown:
  "\<not> IsSuperUser user \<Longrightarrow> map_of schema model = None \<Longrightarrow>
     Verdict (Rule_Find schema user groups model op) = VerdictError"
  by (simp add: Rule_Find_def)

lemma Rule_Find_Stage: "Stage (Rule_Find schema user groups model op) = stageRecordRule"
  by (simp add: Rule_Find_def Let_def split: option.splits prod.splits)

lemma findRules_membership:
  "sameMembership g h \<Longrightarrow> findRules g op gl gr ap rules = findRules h op gl gr ap rules"
  by (simp add: findRules_eq matchOf_def [abs_def] appliesTo_def [abs_def] sameMembership_def)

interpretation ruleStage: acl_stage stageRecordRule Rule_Find
proof unfold_locales
  fix g h schema user model op
  assume "sameMembership g h"
  then show "Rule_Find schema user g model op = Rule_Find schema user h model op"
    unfolding Rule_Find_def by (simp only: findRules_membership [of g h])
next
  fix user schema groups model op
  assume "\<not> IsSuperUser user"
  then show "Verdict (Rule_Find schema user groups model op) = VerdictError \<longleftrightarrow> map_of schema model = None"
    by (cases "map_of schema model") (simp_all add: Rule_Find_known Rule_Find_unknown)
qed (simp_all add: Rule_Find_Stage Rule_Find_super)

subsection \<open>The stage's guarantee\<close>

text \<open>The operations that a record rule covers: those of its flags, or all of them when it has none.\<close>

definition ruleOps :: "SchemaRecordRule \<Rightarrow> Operation set" where
  "ruleOps rule =
     (if r_PermRead rule then {OpRead} else {}) \<union> (if r_PermWrite rule then {OpWrite} else {}) \<union>
     (if r_PermCreate rule then {OpCreate} else {}) \<union> (if r_PermUnlink rule then {OpUnlink} else {})"

definition ruleCovers :: "Operation \<Rightarrow> SchemaRecordRule \<Rightarrow> bool" where
  "ruleCovers op rule \<longleftrightarrow> op \<in> ruleOps rule \<or> ruleOps rule = {}"

lemma ruleOps_empty_iff:
  "ruleOps rule = {} \<longleftrightarrow> \<not> r_PermRead rule \<and> \<not> r_PermWrite rule \<and> \<not> r_PermCreate rule \<and> \<not> r_PermUnlink rule"
  by (simp add: ruleOps_def)

lemma recordRulePermForOp_iff: "recordRulePermForOp rule op \<longleftrightarrow> ruleCovers op rule"
  unfolding ruleCovers_def ruleOps_empty_iff by (simp add: recordRulePermForOp_def ruleOps_def Let_def)

text \<open>
  the record rule finder sorts the rules correctly. For a user that is not the superuser and a
  model of the snapshot, the stage reports exactly the rules that cover the operation, split into
  the global ones and the group ones in their original order, each marked applicable when it is
  global or shares a group with the user; it is SKIPPED when no rule covers the operation, DENIED
  when there are group rules and none applies, and OK otherwise.
\<close>

theorem Rule_Find_classifies:
  fixes op :: Operation
  assumes "\<not> IsSuperUser user" "map_of schema model = Some m"
  defines "cov \<equiv> filter (ruleCovers op) (s_Rules m)"
  shows "(\<exists>d. Detail (Rule_Find schema user groups model op) = RulesDetail d \<and>
       map rm_Name (rrd_GlobalRules d) = map r_Name (filter (\<lambda>r. r_GroupIDs r = []) cov) \<and>
       map rm_Name (rrd_GroupRules d) = map r_Name (filter (\<lambda>r. r_GroupIDs r \<noteq> []) cov) \<and>
       (\<forall>x \<in> set (rrd_GlobalRules d). rm_Applies x) \<and>
       map rm_Applies (rrd_GroupRules d) =
         map (\<lambda>r. \<exists>g \<in> set (r_GroupIDs r). HasGroup groups g) (filter (\<lambda>r. r_GroupIDs r \<noteq> []) cov) \<and>
       rrd_TotalRules d = int (length cov)) \<and>
     Verdict (Rule_Find schema user groups model op) =
       (if cov = [] then VerdictSkipped
        else if (\<exists>r \<in> set cov. r_GroupIDs r \<noteq> []) \<and>
                (\<forall>r \<in> set cov. \<not> (\<exists>g \<in> set (r_GroupIDs r). HasGroup groups g)) then VerdictDenied
        else VerdictOK)"
proof -
  have cov: "coveringRules op (s_Rules m) = cov" by (simp add: cov_def coveringRules_def recordRulePermForOp_iff)
  have "noGroupMatches groups cov \<longleftrightarrow> (\<exists>r \<in> set cov. r_GroupIDs r \<noteq> []) \<and>
      (\<forall>r \<in> set cov. \<not> (\<exists>g \<in> set (r_GroupIDs r). HasGroup groups g))"
    by (auto simp: noGroupMatches_def isGlobalRule_def appliesTo_def)
  then have v: "Verdict (Rule_Find schema user groups model op) =
       (if cov = [] then VerdictSkipped
        else if (\<exists>r \<in> set cov. r_GroupIDs r \<noteq> []) \<and>
                (\<forall>r \<in> set cov. \<not> (\<exists>g \<in> set (r_GroupIDs r). HasGroup groups g)) then VerdictDenied
        else VerdictOK)"
    using Rule_Find_known(1) [OF assms(1,2), of groups op] by (simp only: cov)
  show ?thesis
    unfolding v Rule_Find_known(2) [OF assms(1,2)] ruleDetailOf_def cov
    by (auto simp: isGlobalRule_def [abs_def] appliesTo_def comp_def)
qed

definition ownRule :: SchemaRecordRule where
  "ownRule = \<lparr> r_Name = ''own'', r_GroupIDs = [4], r_Domain = ''[]'', r_PermRead = True, r_PermWrite = False,
     r_PermCreate = False, r_PermUnlink = False \<rparr>"

definition ownModel :: SchemaModel where
  "ownModel = \<lparr> s_Model = ''m'', s_Name = [], s_Fields = [], s_Accesses = [], s_Rules = [ownRule] \<rparr>"

lemma Rule_Find_classifies_witness:
  "Verdict (Rule_Find [(''m'', ownModel)] (userOf 7 [])
     \<lparr> DirectIDs = [], ImpliedIDs = [], EffectiveIDs = [], EffectiveSet = {3}, Groups = [] \<rparr> ''m'' ''read'') = VerdictDenied"
proof -
  have "ruleCovers ''read'' ownRule" by (simp add: ruleCovers_def ruleOps_def ownRule_def)
  moreover have "s_Rules ownModel = [ownRule]" "r_GroupIDs ownRule = [4]" by (simp_all add: ownModel_def ownRule_def)
  ultimately show ?thesis
    using Rule_Find_classifies [of "userOf 7 []" "[(''m'', ownModel)]" "''m''" ownModel
        "\<lparr> DirectIDs = [], ImpliedIDs = [], EffectiveIDs = [], EffectiveSet = {3}, Groups = [] \<rparr>" "''read''", THEN conjunct2]
    by (simp add: IsSuperUser_def HasGroup_def)
qed

end
