(* ===== verification/Domain_Lexer.thy ===== *)
theory Domain_Lexer
  imports Go_Value
begin

text \<open>
  The lexer of Odoo domain strings (\<^verbatim>\<open>internal/acl/domain/token.go\<close> and
  \<^verbatim>\<open>internal/acl/domain/lexer.go\<close>). The Go lexer holds the source and a byte offset; here a
  function takes the offset \<open>pos\<close> and the rest of the source from there on, so that
  \<^verbatim>\<open>l.src[l.pos]\<close> is the head of the rest. Errors are the texts of \<^verbatim>\<open>Lexer.errorf\<close>.
\<close>

subsection \<open>Tokens\<close>

datatype TokenType =
    TokenLBracket | TokenRBracket | TokenLParen | TokenRParen | TokenComma
  | TokenString | TokenInt | TokenFloat | TokenTrue | TokenFalse | TokenNone
  | TokenAnd | TokenOr | TokenNot | TokenRef | TokenEOF

fun tokenNum :: "TokenType \<Rightarrow> int" where
  "tokenNum TokenLBracket = 0"
| "tokenNum TokenRBracket = 1"
| "tokenNum TokenLParen = 2"
| "tokenNum TokenRParen = 3"
| "tokenNum TokenComma = 4"
| "tokenNum TokenString = 5"
| "tokenNum TokenInt = 6"
| "tokenNum TokenFloat = 7"
| "tokenNum TokenTrue = 8"
| "tokenNum TokenFalse = 9"
| "tokenNum TokenNone = 10"
| "tokenNum TokenAnd = 11"
| "tokenNum TokenOr = 12"
| "tokenNum TokenNot = 13"
| "tokenNum TokenRef = 14"
| "tokenNum TokenEOF = 15"

datatype Token = Token (Type: TokenType) (Val: string) (Pos: nat)

definition Token_String :: "Token \<Rightarrow> msg" where
  "Token_String t =
     [S ''Token('', D (tokenNum (Type t)), S '', '', Q (Val t), S '', pos='', D (int (Pos t)), S '')'']"

subsection \<open>Character classes\<close>

definition isIdentStart :: "char \<Rightarrow> bool" where
  "isIdentStart ch \<longleftrightarrow>
     97 \<le> byte ch \<and> byte ch \<le> 122 \<or> 65 \<le> byte ch \<and> byte ch \<le> 90 \<or> ch = CHR ''_''"

definition isIdentPart :: "char \<Rightarrow> bool" where
  "isIdentPart ch \<longleftrightarrow> isIdentStart ch \<or> isDigit ch"

text \<open>\<^verbatim>\<open>unicode.IsSpace\<close> of a single byte taken as a rune.\<close>

definition isSpaceByte :: "char \<Rightarrow> bool" where
  "isSpaceByte ch \<longleftrightarrow> 9 \<le> byte ch \<and> byte ch \<le> 13 \<or> byte ch = 32 \<or> byte ch = 133 \<or> byte ch = 160"

subsection \<open>The lexer\<close>

definition lex_errorf :: "nat \<Rightarrow> msg \<Rightarrow> msg" where
  "lex_errorf pos m = [S ''lexer error at position '', D (int pos), S '': ''] @ m"

type_synonym lexed = "msg + (Token \<times> nat \<times> string)"

fun skipWhitespace :: "nat \<Rightarrow> string \<Rightarrow> nat \<times> string" where
  "skipWhitespace pos [] = (pos, [])"
| "skipWhitespace pos (ch # rest) =
     (if isSpaceByte ch then skipWhitespace (Suc pos) rest else (pos, ch # rest))"

definition simpleType :: "char \<Rightarrow> TokenType" where
  "simpleType ch =
     (if ch = CHR ''['' then TokenLBracket
      else if ch = CHR '']'' then TokenRBracket
      else if ch = CHR ''('' then TokenLParen
      else if ch = CHR '')'' then TokenRParen
      else TokenComma)"

definition lexSimpleToken :: "nat \<Rightarrow> char \<Rightarrow> string \<Rightarrow> lexed" where
  "lexSimpleToken pos ch rest = Inr (Token (simpleType ch) [ch] pos, Suc pos, rest)"

definition unescape :: "char \<Rightarrow> string" where
  "unescape next =
     (if next = CHR ''n'' then [CHR 0x0A]
      else if next = CHR ''t'' then [CHR 0x09]
      else if next = CHR 0x5C then [CHR 0x5C]
      else if next = CHR 0x27 then [CHR 0x27]
      else if next = CHR 0x22 then [CHR 0x22]
      else [CHR 0x5C, next])"

text \<open>
  The loop of \<^verbatim>\<open>lexString\<close>: \<open>Inl\<close> the offset at which the source ended, or \<open>Inr\<close> the string, the
  offset after the closing quote and the rest.
\<close>

fun lexStringLoop :: "char \<Rightarrow> nat \<Rightarrow> string \<Rightarrow> string \<Rightarrow> nat + (string \<times> nat \<times> string)" where
  "lexStringLoop quote pos sb [] = Inl pos"
| "lexStringLoop quote pos sb [ch] =
     (if ch = quote then Inr (sb, Suc pos, []) else lexStringLoop quote (Suc pos) (sb @ [ch]) [])"
| "lexStringLoop quote pos sb (ch # next # rest) =
     (if ch = CHR 0x5C then lexStringLoop quote (pos + 2) (sb @ unescape next) rest
      else if ch = quote then Inr (sb, Suc pos, next # rest)
      else lexStringLoop quote (Suc pos) (sb @ [ch]) (next # rest))"

definition stringType :: "string \<Rightarrow> TokenType" where
  "stringType val =
     (if val = ''&'' then TokenAnd else if val = ''|'' then TokenOr
      else if val = ''!'' then TokenNot else TokenString)"

definition lexString :: "nat \<Rightarrow> char \<Rightarrow> string \<Rightarrow> lexed" where
  "lexString start quote rest =
     (case lexStringLoop quote (Suc start) [] rest of
        Inl pos \<Rightarrow> Inl (lex_errorf pos [S ''unterminated string starting at position '', D (int start)])
      | Inr (val, pos, rest') \<Rightarrow> Inr (Token (stringType val) val start, pos, rest'))"

text \<open>The loop of \<^verbatim>\<open>lexNumber\<close>: the bytes it takes, whether one was a dot, and the rest.\<close>

fun lexNumberLoop :: "bool \<Rightarrow> string \<Rightarrow> string \<times> bool \<times> string" where
  "lexNumberLoop hasDot [] = ([], hasDot, [])"
| "lexNumberLoop hasDot (ch # rest) =
     (if ch = CHR ''.'' then
        (if hasDot then ([], hasDot, ch # rest)
         else case lexNumberLoop True rest of (taken, d, r) \<Rightarrow> (ch # taken, d, r))
      else if isDigit ch then
        (case lexNumberLoop hasDot rest of (taken, d, r) \<Rightarrow> (ch # taken, d, r))
      else ([], hasDot, ch # rest))"

definition lexNumber :: "nat \<Rightarrow> string \<Rightarrow> lexed" where
  "lexNumber start src =
     (let signed = (src \<noteq> [] \<and> (hd src = CHR ''-'' \<or> hd src = CHR ''+''));
          (taken, hasDot, rest) = lexNumberLoop False (if signed then tl src else src);
          val = (if signed then hd src # taken else taken);
          pos = start + length val
      in if val \<in> {''.'', ''-'', ''+'', ''-.'', ''+.''}
         then Inl (lex_errorf pos [S ''invalid number '', Q val, S '' at position '', D (int start)])
         else Inr (Token (if hasDot then TokenFloat else TokenInt) val start, pos, rest))"

definition keywordType :: "string \<Rightarrow> TokenType" where
  "keywordType val =
     (if val = ''True'' then TokenTrue else if val = ''False'' then TokenFalse
      else if val = ''None'' then TokenNone else TokenRef)"

definition isRefChar :: "char \<Rightarrow> bool" where
  "isRefChar ch \<longleftrightarrow> isIdentPart ch \<or> ch = CHR ''.''"

definition lexIdentOrKeyword :: "nat \<Rightarrow> string \<Rightarrow> lexed" where
  "lexIdentOrKeyword start src =
     (let val = takeWhile isRefChar src
      in Inr (Token (keywordType val) val start, start + length val, dropWhile isRefChar src))"

definition lexSignedNumber :: "nat \<Rightarrow> char \<Rightarrow> string \<Rightarrow> lexed" where
  "lexSignedNumber pos ch rest =
     (if rest \<noteq> [] \<and> (isDigit (hd rest) \<or> hd rest = CHR ''.'') then lexNumber pos (ch # rest)
      else Inl (lex_errorf pos [S ''unexpected character '', QB ch]))"

definition lexComplexToken :: "nat \<Rightarrow> char \<Rightarrow> string \<Rightarrow> lexed" where
  "lexComplexToken pos ch rest =
     (if isDigit ch \<or> ch = CHR ''.'' then lexNumber pos (ch # rest)
      else if isIdentStart ch then lexIdentOrKeyword pos (ch # rest)
      else Inl (lex_errorf pos [S ''unexpected character '', QB ch]))"

definition lexNextToken :: "nat \<Rightarrow> char \<Rightarrow> string \<Rightarrow> lexed" where
  "lexNextToken pos ch rest =
     (if ch \<in> {CHR ''['', CHR '']'', CHR ''('', CHR '')'', CHR '',''} then lexSimpleToken pos ch rest
      else if ch = CHR 0x27 \<or> ch = CHR 0x22 then lexString pos ch rest
      else if ch = CHR ''-'' \<or> ch = CHR ''+'' then lexSignedNumber pos ch rest
      else lexComplexToken pos ch rest)"

subsection \<open>Every token takes at least one byte\<close>

lemma skipWhitespace_length:
  "skipWhitespace pos s = (pos', s') \<Longrightarrow> length s' \<le> length s \<and> pos' + length s' = pos + length s"
  by (induction pos s rule: skipWhitespace.induct) (auto split: if_splits)

lemma lexStringLoop_length:
  "lexStringLoop quote pos sb s = Inr (val, pos', s') \<Longrightarrow>
     length s' < length s \<and> pos' + length s' = pos + length s"
  by (induction quote pos sb s rule: lexStringLoop.induct) (auto split: if_splits)

lemma lexNumberLoop_append: "lexNumberLoop d s = (taken, d', s') \<Longrightarrow> s = taken @ s'"
  by (induction d s arbitrary: taken d' s' rule: lexNumberLoop.induct)
    (auto split: if_splits prod.splits)

lemma lexNumber_length:
  assumes "lexNumber pos s = Inr (t, pos', s')" "s \<noteq> []" "isDigit (hd s) \<or> hd s \<in> {CHR ''.'', CHR ''-'', CHR ''+''}"
  shows "length s' < length s \<and> pos' + length s' = pos + length s \<and> Pos t = pos \<and> Type t \<noteq> TokenEOF"
proof -
  obtain c r where s: "s = c # r" using assms(2) by (cases s) auto
  let ?signed = "c = CHR ''-'' \<or> c = CHR ''+''"
  obtain taken d rest where loop: "lexNumberLoop False (if ?signed then r else s) = (taken, d, rest)"
    by (metis prod_cases3)
  have app: "(if ?signed then r else s) = taken @ rest"
    using loop by (rule lexNumberLoop_append)
  have ne: "?signed \<or> taken \<noteq> []"
    using loop assms(3) s by (auto split: if_splits prod.splits simp: isDigit_not_sign)
  have len: "length taken + length rest = (if ?signed then length r else Suc (length r))"
    using arg_cong [OF app, of length] s by (auto split: if_splits)
  have "lexNumber pos s = Inr (t, pos', s') \<Longrightarrow> s' = rest \<and> Pos t = pos \<and> Type t \<noteq> TokenEOF \<and>
      pos' = pos + length taken + (if ?signed then 1 else 0)"
    using loop s by (simp add: lexNumber_def Let_def split: if_splits) auto
  with assms(1) have "s' = rest" "Pos t = pos" "Type t \<noteq> TokenEOF"
    "pos' = pos + length taken + (if ?signed then 1 else 0)" by blast+
  with ne len s show ?thesis by (cases taken) (auto split: if_splits)
qed

lemma lexIdent_length:
  assumes "lexIdentOrKeyword pos s = Inr (t, pos', s')" "s \<noteq> []" "isIdentStart (hd s)"
  shows "length s' < length s \<and> pos' + length s' = pos + length s \<and> Pos t = pos \<and> Type t \<noteq> TokenEOF"
proof -
  have "takeWhile isRefChar s \<noteq> []"
    using assms(2,3) by (cases s) (auto simp: isRefChar_def isIdentPart_def)
  moreover have "length (takeWhile isRefChar s) + length (dropWhile isRefChar s) = length s"
    by (metis length_append takeWhile_dropWhile_id)
  ultimately show ?thesis
    using assms(1) by (cases "takeWhile isRefChar s")
      (auto simp: lexIdentOrKeyword_def Let_def keywordType_def split: if_splits)
qed

lemma lexNextToken_length:
  assumes "lexNextToken pos ch rest = Inr (t, pos', s')"
  shows "length s' < Suc (length rest) \<and> pos' + length s' = pos + Suc (length rest) \<and>
    Pos t = pos \<and> Type t \<noteq> TokenEOF"
proof -
  consider (simple) "lexSimpleToken pos ch rest = Inr (t, pos', s')"
    | (string) "lexString pos ch rest = Inr (t, pos', s')"
    | (num) "lexNumber pos (ch # rest) = Inr (t, pos', s')" "isDigit ch \<or> ch \<in> {CHR ''.'', CHR ''-'', CHR ''+''}"
    | (ident) "lexIdentOrKeyword pos (ch # rest) = Inr (t, pos', s')" "isIdentStart ch"
    using assms
    by (auto simp: lexNextToken_def lexSignedNumber_def lexComplexToken_def split: if_splits)
  then show ?thesis
  proof cases
    case simple
    then show ?thesis by (auto simp: lexSimpleToken_def simpleType_def split: if_splits)
  next
    case string
    then show ?thesis
      by (auto simp: lexString_def stringType_def dest: lexStringLoop_length split: sum.splits if_splits)
  next
    case num
    then show ?thesis using lexNumber_length [OF num(1)] by simp
  next
    case ident
    then show ?thesis using lexIdent_length [OF ident(1)] by simp
  qed
qed

subsection \<open>The main loop\<close>

function lexRun :: "nat \<Rightarrow> string \<Rightarrow> msg + Token list" where
  "lexRun pos src =
     (case skipWhitespace pos src of
        (p, []) \<Rightarrow> Inr [Token TokenEOF [] p]
      | (p, ch # rest) \<Rightarrow>
          (case lexNextToken p ch rest of
             Inl e \<Rightarrow> Inl e
           | Inr (t, p', rest') \<Rightarrow>
               (case lexRun p' rest' of Inl e \<Rightarrow> Inl e | Inr ts \<Rightarrow> Inr (t # ts))))"
  by pat_completeness auto
termination
proof (relation "measure (\<lambda>(pos, src). length src)", goal_cases)
  case 2
  then show ?case
    by (auto dest!: sym [of "(_, _)"] sym [of "Inr _"] lexNextToken_length skipWhitespace_length)
qed simp

declare lexRun.simps [simp del]

definition Lex :: "string \<Rightarrow> msg + Token list" where
  "Lex src = lexRun 0 src"

end
