(* ===== verification/Domain_Parser.thy ===== *)
theory Domain_Parser
  imports Domain_Lexer
begin

text \<open>
  The abstract syntax of Odoo domains and their parser (\<^verbatim>\<open>internal/acl/domain/ast.go\<close> and
  \<^verbatim>\<open>internal/acl/domain/parser.go\<close>). The Go parser holds the tokens and a position; here a
  function takes the tokens from the position on, and \<open>peek\<close> of none of them is the EOF token
  that \<^verbatim>\<open>parser.peek\<close> makes up.
\<close>

subsection \<open>Abstract syntax\<close>

datatype Operator =
    OpEqual | OpNotEqual | OpLess | OpLessEq | OpGreater | OpGreaterEq | OpIn | OpNotIn
  | OpLike | OpNotLike | OpILike | OpNotILike | OpEqLike | OpEqILike | OpChildOf | OpParentOf

fun Operator_string :: "Operator \<Rightarrow> string" where
  "Operator_string OpEqual = ''=''"
| "Operator_string OpNotEqual = ''!=''"
| "Operator_string OpLess = ''<''"
| "Operator_string OpLessEq = ''<=''"
| "Operator_string OpGreater = ''>''"
| "Operator_string OpGreaterEq = ''>=''"
| "Operator_string OpIn = ''in''"
| "Operator_string OpNotIn = ''not in''"
| "Operator_string OpLike = ''like''"
| "Operator_string OpNotLike = ''not like''"
| "Operator_string OpILike = ''ilike''"
| "Operator_string OpNotILike = ''not ilike''"
| "Operator_string OpEqLike = ''=like''"
| "Operator_string OpEqILike = ''=ilike''"
| "Operator_string OpChildOf = ''child_of''"
| "Operator_string OpParentOf = ''parent_of''"

datatype LogicOp = LogicAnd | LogicOr | LogicNot

fun LogicOp_string :: "LogicOp \<Rightarrow> string" where
  "LogicOp_string LogicAnd = ''&''"
| "LogicOp_string LogicOr = ''|''"
| "LogicOp_string LogicNot = ''!''"

datatype DValue =
    StringValue string
  | IntValue int
  | FloatValue go_float
  | BoolValue bool
  | NoneValue
  | ListValue "DValue list"
  | TupleValue "DValue list"
  | RefValue string

datatype Node =
    Condition string Operator DValue
  | BoolOp LogicOp "Node list"
  | MatchAllNode

subsection \<open>Reading tokens\<close>

definition peek :: "Token list \<Rightarrow> Token" where
  "peek ts = (case ts of [] \<Rightarrow> Token TokenEOF [] 0 | t # _ \<Rightarrow> t)"

definition advance :: "Token list \<Rightarrow> Token list" where
  "advance ts = (case ts of [] \<Rightarrow> [] | _ # ts' \<Rightarrow> ts')"

definition check :: "TokenType \<Rightarrow> Token list \<Rightarrow> bool" where
  "check typ ts \<longleftrightarrow> Type (peek ts) = typ"

definition expect :: "TokenType \<Rightarrow> Token list \<Rightarrow> msg + Token list" where
  "expect typ ts =
     (let tok = peek ts in
      if Type tok \<noteq> typ
      then Inl ([S ''expected token type '', D (tokenNum typ), S '' at position '', D (int (Pos tok)), S '', got '']
                @ Token_String tok)
      else Inr (advance ts))"

definition consumeIf :: "TokenType \<Rightarrow> Token list \<Rightarrow> Token list" where
  "consumeIf typ ts = (if check typ ts then advance ts else ts)"

definition expectString :: "Token list \<Rightarrow> msg + (string \<times> Token list)" where
  "expectString ts =
     (let tok = peek ts in
      if Type tok \<noteq> TokenString
      then Inl ([S ''expected string at position '', D (int (Pos tok)), S '', got ''] @ Token_String tok)
      else Inr (Val tok, advance ts))"

text \<open>\<^verbatim>\<open>fmt.Errorf("...: %w", err)\<close>; and a text between single quotes.\<close>

definition sq :: "string \<Rightarrow> string" where
  "sq s = [CHR 0x27] @ s @ [CHR 0x27]"

definition wrap :: "string \<Rightarrow> msg + 'a \<Rightarrow> msg + 'a" where
  "wrap pre r = (case r of Inl e \<Rightarrow> Inl ([S (pre @ '': '')] @ e) | Inr x \<Rightarrow> Inr x)"

lemma wrap_simps [simp]:
  "wrap p (Inr x) = Inr x"
  "wrap p (Inl e) = Inl ([S (p @ '': '')] @ e)"
  "wrap p r = Inr y \<longleftrightarrow> r = Inr y"
  by (simp_all add: wrap_def split: sum.splits)

lemma wrap_cong [fundef_cong]: "p = p' \<Longrightarrow> r = r' \<Longrightarrow> wrap p r = wrap p' r'"
  by simp

subsection \<open>Values\<close>

definition valueError :: "Token \<Rightarrow> msg" where
  "valueError tok =
     [S ''unexpected token ''] @ Token_String tok @ [S '' at position '', D (int (Pos tok)), S '' for value'']"

function parseValue :: "Token list \<Rightarrow> msg + (DValue \<times> Token list)"
  and parseItemsLoop :: "TokenType \<Rightarrow> DValue list \<Rightarrow> Token list \<Rightarrow> msg + (DValue list \<times> Token list)"
where
  "parseValue ts =
     (let tok = peek ts in
      case Type tok of
        TokenString \<Rightarrow> Inr (StringValue (Val tok), advance ts)
      | TokenInt \<Rightarrow>
          (case ParseInt (Val tok) of
             Inl e \<Rightarrow> Inl ([S ''invalid int '', Q (Val tok), S '': ''] @ numErrorText ''ParseInt'' (Val tok) e)
           | Inr n \<Rightarrow> Inr (IntValue n, advance ts))
      | TokenFloat \<Rightarrow>
          (case ParseFloat (Val tok) of
             Inl e \<Rightarrow> Inl ([S ''invalid float '', Q (Val tok), S '': ''] @ numErrorText ''ParseFloat'' (Val tok) e)
           | Inr f \<Rightarrow> Inr (FloatValue f, advance ts))
      | TokenTrue \<Rightarrow> Inr (BoolValue True, advance ts)
      | TokenFalse \<Rightarrow> Inr (BoolValue False, advance ts)
      | TokenNone \<Rightarrow> Inr (NoneValue, advance ts)
      | TokenRef \<Rightarrow> Inr (RefValue (Val tok), advance ts)
      | TokenLBracket \<Rightarrow>
          (case wrap (''list value must end with '' @ sq '']'') (parseItemsLoop TokenRBracket [] (advance ts)) of
             Inl e \<Rightarrow> Inl e | Inr (items, ts') \<Rightarrow> Inr (ListValue items, ts'))
      | TokenLParen \<Rightarrow>
          (case wrap (''tuple value must end with '' @ sq '')'') (parseItemsLoop TokenRParen [] (advance ts)) of
             Inl e \<Rightarrow> Inl e | Inr (items, ts') \<Rightarrow> Inr (TupleValue items, ts'))
      | _ \<Rightarrow> Inl (valueError tok))"
| "parseItemsLoop closer items ts =
     (if \<not> check closer ts \<and> \<not> check TokenEOF ts then
        (let ts1 = (if items \<noteq> [] then consumeIf TokenComma ts else ts) in
         if check closer ts1 then
           (case expect closer ts1 of Inl e \<Rightarrow> Inl e | Inr ts2 \<Rightarrow> Inr (items, ts2))
         else case parseValue ts1 of
                Inl e \<Rightarrow> Inl e
              | Inr (v, ts2) \<Rightarrow> parseItemsLoop closer (items @ [v]) ts2)
      else case expect closer ts of Inl e \<Rightarrow> Inl e | Inr ts2 \<Rightarrow> Inr (items, ts2))"
  by pat_completeness auto

lemma length_advance: "ts \<noteq> [] \<Longrightarrow> length (advance ts) < length ts"
  by (cases ts) (auto simp: advance_def)

lemma advance_le [simp]: "length (advance ts) \<le> length ts"
  by (cases ts) (auto simp: advance_def)

lemma peek_not_EOF: "Type (peek ts) \<noteq> TokenEOF \<Longrightarrow> length (advance ts) < length ts"
  by (cases ts) (auto simp: peek_def advance_def)

lemma consumeIf_le [simp]: "length (consumeIf typ ts) \<le> length ts"
  by (simp add: consumeIf_def)

lemma expect_shorter: "expect typ ts = Inr ts' \<Longrightarrow> typ \<noteq> TokenEOF \<Longrightarrow> length ts' < length ts"
  by (auto simp: expect_def Let_def peek_not_EOF split: if_splits)

lemma parse_shorter_partial:
  "parseValue_parseItemsLoop_dom (Inl ts) \<Longrightarrow>
     parseValue ts = Inr (v, ts') \<Longrightarrow> length ts' < length ts"
  "parseValue_parseItemsLoop_dom (Inr (closer, items, us)) \<Longrightarrow>
     closer \<noteq> TokenEOF \<Longrightarrow> parseItemsLoop closer items us = Inr (vs, us') \<Longrightarrow> length us' < length us"
proof (induction ts and closer items us arbitrary: v ts' and vs us' rule: parseValue_parseItemsLoop.pinduct)
  case (1 ts)
  have adv: "length (advance ts) < length ts"
    using "1.prems" by (cases "Type (peek ts) = TokenEOF")
      (auto simp: parseValue.psimps [OF "1.hyps"] Let_def peek_not_EOF)
  have ihB: "length us' < length (advance ts)"
    if "Type (peek ts) = TokenLBracket" "parseItemsLoop TokenRBracket [] (advance ts) = Inr (vs, us')" for vs us'
    using "1.IH"(1) [OF refl that(1) _ that(2)] by simp
  have ihP: "length us' < length (advance ts)"
    if "Type (peek ts) = TokenLParen" "parseItemsLoop TokenRParen [] (advance ts) = Inr (vs, us')" for vs us'
    using "1.IH"(2) [OF refl that(1) _ that(2)] by simp
  show ?case
    using "1.prems" adv
    by (auto simp: parseValue.psimps [OF "1.hyps"] Let_def
        split: TokenType.splits sum.splits prod.splits dest!: ihB ihP)
next
  case (2 closer items us)
  define us1 where "us1 = (if items \<noteq> [] then consumeIf TokenComma us else us)"
  have le: "length us1 \<le> length us" by (simp add: us1_def)
  have expect_case: "length us' < length us"
    if "expect closer w = Inr us'" "length w \<le> length us" for w
    using expect_shorter [OF that(1) "2.prems"(1)] that(2) by simp
  show ?case
  proof (cases "\<not> check closer us \<and> \<not> check TokenEOF us \<and> \<not> check closer us1")
    case False
    then have "\<exists>w. expect closer w = Inr us' \<and> length w \<le> length us"
      using "2.prems"(2) le
      by (auto simp: parseItemsLoop.psimps [OF "2.hyps"] Let_def us1_def [symmetric]
          split: if_splits sum.splits)
    then show ?thesis using expect_case by blast
  next
    case True
    then obtain w us2 where v: "parseValue us1 = Inr (w, us2)"
      and rest: "parseItemsLoop closer (items @ [w]) us2 = Inr (vs, us')"
      using "2.prems"(2)
      by (auto simp: parseItemsLoop.psimps [OF "2.hyps"] Let_def us1_def [symmetric]
          split: if_splits sum.splits prod.splits)
    from True have c: "\<not> check closer us \<and> \<not> check TokenEOF us" "\<not> check closer us1" by auto
    have "length us2 < length us1"
      using "2.IH"(1) [OF c(1) us1_def c(2) v] .
    moreover have "length us' < length us2"
      using "2.IH"(2) [OF c(1) us1_def c(2) v refl "2.prems"(1) rest] .
    ultimately show ?thesis using le by simp
  qed
qed

lemma parse_terminates: "All parseValue_parseItemsLoop_dom"
proof (relation "measures [\<lambda>x. (case x of Inl ts \<Rightarrow> length ts | Inr (_, _, ts) \<Rightarrow> length ts),
    \<lambda>x. (case x of Inl _ \<Rightarrow> 0 | Inr _ \<Rightarrow> 1)]", goal_cases)
  case 1
  show ?case by simp
next
  case (2 ts tok)
  then show ?case using peek_not_EOF [of ts] by simp
next
  case (3 ts tok)
  then show ?case using peek_not_EOF [of ts] by simp
next
  case (4 closer items ts ts1)
  then show ?case using consumeIf_le [of TokenComma ts] by (auto simp: le_less simp del: consumeIf_le)
next
  case (5 closer items ts ts1 x v us2)
  then have "length us2 < length ts1"
    by (auto dest: parse_shorter_partial(1))
  moreover have "length ts1 \<le> length ts" using 5(2) by simp
  ultimately show ?case by simp
qed

termination parseValue
  by (rule parse_terminates)

declare parseValue.simps [simp del] parseItemsLoop.simps [simp del]

lemma parseValue_shorter: "parseValue ts = Inr (v, ts') \<Longrightarrow> length ts' < length ts"
  using parse_terminates by (blast intro: parse_shorter_partial(1))

subsection \<open>Conditions and elements\<close>

definition operatorMap :: "(string, Operator) gomap" where
  "operatorMap =
     [(''='', OpEqual), (''!='', OpNotEqual), (''<'', OpLess), (''<='', OpLessEq), (''>'', OpGreater),
      (''>='', OpGreaterEq), (''in'', OpIn), (''not in'', OpNotIn), (''like'', OpLike),
      (''not like'', OpNotLike), (''ilike'', OpILike), (''not ilike'', OpNotILike),
      (''=like'', OpEqLike), (''=ilike'', OpEqILike), (''child_of'', OpChildOf),
      (''parent_of'', OpParentOf)]"

definition parseOperator :: "string \<Rightarrow> msg + Operator" where
  "parseOperator s =
     (case map_of operatorMap s of Some op \<Rightarrow> Inr op | None \<Rightarrow> Inl [S ''unknown operator '', Q s])"

definition parseCondition :: "Token list \<Rightarrow> msg + (Node \<times> Token list)" where
  "parseCondition ts =
     res_bind (expect TokenLParen ts) (\<lambda>ts1.
     res_bind (wrap ''condition field'' (expectString ts1)) (\<lambda>(field, ts2).
     res_bind (wrap ''condition operator'' (expectString (consumeIf TokenComma ts2))) (\<lambda>(opStr, ts3).
     res_bind (parseOperator opStr) (\<lambda>op.
     res_bind (wrap ''condition value'' (parseValue (consumeIf TokenComma ts3))) (\<lambda>(val, ts4).
     res_bind (wrap (''condition must end with '' @ sq '')'') (expect TokenRParen ts4)) (\<lambda>ts5.
     Inr (Condition field op val, ts5)))))))"

text \<open>An element of the domain list: the Go code keeps a \<^verbatim>\<open>LogicOp\<close> or a \<^verbatim>\<open>Node\<close> in an \<^verbatim>\<open>any\<close>.\<close>

datatype element = ELogic LogicOp | ENode Node

definition elementError :: "Token \<Rightarrow> msg" where
  "elementError tok =
     [S ''parse error at position '', D (int (Pos tok)),
      S ('': expected '' @ sq ''&'' @ '', '' @ sq ''|'' @ '', '' @ sq ''!'' @ '' or '' @ sq ''('' @ '' but got '')]
     @ Token_String tok"

definition parseElement :: "Token list \<Rightarrow> msg + (element \<times> Token list)" where
  "parseElement ts =
     (let tok = peek ts in
      case Type tok of
        TokenAnd \<Rightarrow> Inr (ELogic LogicAnd, advance ts)
      | TokenOr \<Rightarrow> Inr (ELogic LogicOr, advance ts)
      | TokenNot \<Rightarrow> Inr (ELogic LogicNot, advance ts)
      | TokenLParen \<Rightarrow> res_bind (parseCondition ts) (\<lambda>(n, ts'). Inr (ENode n, ts'))
      | _ \<Rightarrow> Inl (elementError tok))"

lemma expectString_shorter: "expectString ts = Inr (s, ts') \<Longrightarrow> length ts' < length ts"
  by (auto simp: expectString_def Let_def peek_not_EOF split: if_splits)

lemma parseCondition_shorter:
  assumes "parseCondition ts = Inr (n, ts')"
  shows "length ts' < length ts"
proof -
  from assms obtain ts1 f ts2 os ts3 op v ts4 where
    "expect TokenLParen ts = Inr ts1" "expectString ts1 = Inr (f, ts2)"
    "expectString (consumeIf TokenComma ts2) = Inr (os, ts3)"
    "parseValue (consumeIf TokenComma ts3) = Inr (v, ts4)" "expect TokenRParen ts4 = Inr ts'"
    by (auto simp: parseCondition_def res_bind_eq_Inr_iff)
  then have "length ts1 < length ts" "length ts2 < length ts1"
    "length ts3 < length (consumeIf TokenComma ts2)"
    "length ts4 < length (consumeIf TokenComma ts3)" "length ts' < length ts4"
    by (auto dest: expect_shorter expectString_shorter parseValue_shorter)
  moreover have "length (consumeIf TokenComma ts2) \<le> length ts2"
    "length (consumeIf TokenComma ts3) \<le> length ts3" by simp_all
  ultimately show ?thesis by linarith
qed

lemma parseElement_shorter: "parseElement ts = Inr (el, ts') \<Longrightarrow> length ts' < length ts"
  by (auto simp: parseElement_def Let_def res_bind_eq_Inr_iff peek_not_EOF
      dest: parseCondition_shorter split: TokenType.splits)

subsection \<open>The element list\<close>

function parseElements :: "element list \<Rightarrow> Token list \<Rightarrow> msg + (element list \<times> Token list)" where
  "parseElements elements ts =
     (if \<not> check TokenRBracket ts \<and> \<not> check TokenEOF ts then
        (let ts1 = (if elements \<noteq> [] then consumeIf TokenComma ts else ts) in
         if check TokenRBracket ts1 then Inr (elements, ts1)
         else case parseElement ts1 of
                Inl e \<Rightarrow> Inl e
              | Inr (el, ts2) \<Rightarrow> parseElements (elements @ [el]) ts2)
      else Inr (elements, ts))"
  by pat_completeness auto
termination
proof (relation "measure (\<lambda>(els, ts). length ts)", goal_cases)
  case (2 elements ts ts1 x el ts2)
  then have "length ts2 < length ts1" by (auto dest: parseElement_shorter)
  moreover have "length ts1 \<le> length ts" using 2(2) by simp
  ultimately show ?case by simp
qed simp

declare parseElements.simps [simp del]

subsection \<open>Prefix notation to tree\<close>

definition isBinary :: "element \<Rightarrow> bool" where
  "isBinary el \<longleftrightarrow> el = ELogic LogicAnd \<or> el = ELogic LogicOr"

definition isOperand :: "element \<Rightarrow> bool" where
  "isOperand el \<longleftrightarrow> (case el of ELogic _ \<Rightarrow> False | ENode _ \<Rightarrow> True)"

definition insertImplicitAnd :: "element list \<Rightarrow> element list" where
  "insertImplicitAnd elements =
     (if length elements \<le> 1 then elements
      else let operands = int (length (filter isOperand elements));
               binaryOps = int (length (filter isBinary elements));
               needed = operands - binaryOps - 1
           in if needed \<le> 0 then elements
              else replicate (nat needed) (ELogic LogicAnd) @ elements)"

function consumeNode :: "nat \<Rightarrow> element list \<Rightarrow> msg + (Node \<times> nat \<times> element list)" where
  "consumeNode idx [] = Inl [S ''unexpected end of domain: expected operand at index '', D (int idx)]"
| "consumeNode idx (ENode n # els) = Inr (n, Suc idx, els)"
| "consumeNode idx (ELogic op # els) =
     (if op = LogicNot then
        (case consumeNode (Suc idx) els of
           Inl e \<Rightarrow> Inl ([S (''operator '' @ sq ''!'' @ '' operand: '')] @ e)
         | Inr (child, idx1, els1) \<Rightarrow> Inr (BoolOp LogicNot [child], idx1, els1))
      else
        (case consumeNode (Suc idx) els of
           Inl e \<Rightarrow> Inl ([S ''operator '', Q (LogicOp_string op), S '' left operand: ''] @ e)
         | Inr (left, idx1, els1) \<Rightarrow>
             (case consumeNode idx1 els1 of
                Inl e \<Rightarrow> Inl ([S ''operator '', Q (LogicOp_string op), S '' right operand: ''] @ e)
              | Inr (right, idx2, els2) \<Rightarrow> Inr (BoolOp op [left, right], idx2, els2))))"
  by pat_completeness auto

lemma consumeNode_shorter_partial:
  "consumeNode_dom (idx, els) \<Longrightarrow> consumeNode idx els = Inr (n, idx', els') \<Longrightarrow> length els' < length els"
proof (induction idx els arbitrary: n idx' els' rule: consumeNode.pinduct)
  case (3 idx op els)
  show ?case
    using 3 by (fastforce simp: consumeNode.psimps split: if_splits sum.splits prod.splits)
qed (auto simp: consumeNode.psimps)

termination consumeNode
proof (relation "measure (\<lambda>(idx, els). length els)", goal_cases)
  case (4 idx op els x left y idx1 els1)
  then have "length els1 < length els" by (auto dest: consumeNode_shorter_partial)
  then show ?case by simp
qed auto

definition buildTree :: "element list \<Rightarrow> msg + Node" where
  "buildTree elements =
     (let expanded = insertImplicitAnd elements in
      case consumeNode 0 expanded of
        Inl e \<Rightarrow> Inl e
      | Inr (node, idx, rest) \<Rightarrow>
          (if idx < length expanded
           then Inl [S ''unexpected trailing elements in domain at index '', D (int idx)]
           else Inr node))"

definition parseDomain :: "Token list \<Rightarrow> msg + Node" where
  "parseDomain ts =
     res_bind (wrap (''domain must start with '' @ sq ''['') (expect TokenLBracket ts)) (\<lambda>ts1.
     res_bind (parseElements [] ts1) (\<lambda>(elements, ts2).
     res_bind (wrap (''domain must end with '' @ sq '']'') (expect TokenRBracket ts2)) (\<lambda>_.
     if elements = [] then Inr MatchAllNode else buildTree elements)))"

definition Parse :: "string \<Rightarrow> msg + Node" where
  "Parse src = res_bind (Lex src) parseDomain"

end
