(* ===== verification/Domain_Trees.thy ===== *)
theory Domain_Trees
  imports Domain_Parser
begin

text \<open>
  What the domain parser builds. \<open>flatten\<close> writes a tree in the prefix notation of Odoo, and
  \<open>wfNode\<close> says that every operator has its number of operands and every leaf is a condition.
  \<open>buildTree\<close> is the inverse of \<open>flatten\<close> up to the implicit conjunctions, and every tree that
  \<^verbatim>\<open>Parse\<close> returns is well formed.
\<close>

subsection \<open>Prefix notation\<close>

fun flatten :: "Node \<Rightarrow> element list" where
  "flatten (BoolOp op ns) = ELogic op # concat (map flatten ns)"
| "flatten n = [ENode n]"

fun wfNode :: "Node \<Rightarrow> bool" where
  "wfNode (Condition f op v) \<longleftrightarrow> True"
| "wfNode (BoolOp op ns) \<longleftrightarrow>
     length ns = (if op = LogicNot then 1 else 2) \<and> (\<forall>n \<in> set ns. wfNode n)"
| "wfNode MatchAllNode \<longleftrightarrow> False"

definition leafy :: "element list \<Rightarrow> bool" where
  "leafy els \<longleftrightarrow> (\<forall>n. ENode n \<in> set els \<longrightarrow> wfNode n \<and> flatten n = [ENode n])"

lemma leafy_simps [simp]:
  "leafy []"
  "leafy (ELogic op # els) = leafy els"
  "leafy (ENode n # els) \<longleftrightarrow> wfNode n \<and> flatten n = [ENode n] \<and> leafy els"
  "leafy (els @ els') \<longleftrightarrow> leafy els \<and> leafy els'"
  "leafy (replicate k (ELogic op))"
  by (auto simp: leafy_def)

lemma leafy_flatten: "wfNode n \<Longrightarrow> leafy (flatten n)"
proof (induction n)
  case (BoolOp op ns)
  then have "leafy (concat (map flatten ns))" by (auto simp: leafy_def)
  then show ?case by simp
qed auto

text \<open>Reading a node back from its prefix notation, followed by anything.\<close>

lemma consumeNode_flatten:
  "wfNode n \<Longrightarrow> consumeNode idx (flatten n @ els) = Inr (n, idx + length (flatten n), els)"
proof (induction n arbitrary: idx els)
  case (BoolOp op ns)
  show ?case
  proof (cases "op = LogicNot")
    case True
    with BoolOp.prems obtain c where "ns = [c]" by (auto simp: length_Suc_conv)
    with True BoolOp show ?thesis by simp
  next
    case False
    with BoolOp.prems obtain l r where "ns = [l, r]"
      by (auto simp: numeral_2_eq_2 length_Suc_conv)
    with False BoolOp show ?thesis by simp
  qed
qed simp_all

text \<open>And the converse: whatever \<open>consumeNode\<close> reads is the prefix notation of what it returns.\<close>

lemma consumeNode_sound:
  "leafy els \<Longrightarrow> consumeNode idx els = Inr (n, idx', els') \<Longrightarrow>
     wfNode n \<and> els = flatten n @ els' \<and> idx' = idx + length (flatten n)"
proof (induction idx els arbitrary: n idx' els' rule: consumeNode.induct)
  case (3 idx op els)
  show ?case
  proof (cases "op = LogicNot")
    case True
    with "3.prems" obtain c idx1 els1 where
      c: "consumeNode (Suc idx) els = Inr (c, idx1, els1)" "n = BoolOp op [c]" "idx' = idx1" "els' = els1"
      by (auto split: sum.splits)
    from "3.IH"(1) [OF True _ c(1)] "3.prems"(1) c True show ?thesis by simp
  next
    case False
    with "3.prems" obtain l idx1 els1 r idx2 els2 where
      l: "consumeNode (Suc idx) els = Inr (l, idx1, els1)" and
      r: "consumeNode idx1 els1 = Inr (r, idx2, els2)" and
      eq: "n = BoolOp op [l, r]" "idx' = idx2" "els' = els2"
      by (auto split: sum.splits)
    from "3.IH"(2) [OF False _ l] "3.prems"(1)
    have L: "wfNode l" "els = flatten l @ els1" "idx1 = Suc idx + length (flatten l)" by auto
    from "3.prems"(1) L(2) have "leafy els1" by simp
    from "3.IH"(3) [OF False l refl refl this r]
    have "wfNode r" "els1 = flatten r @ els2" "idx2 = idx1 + length (flatten r)" by auto
    with L eq False show ?thesis by simp
  qed
qed auto

subsection \<open>Counting operands\<close>

text \<open>
  In the prefix notation of a tree there is one operand more than there are binary operators.
\<close>

definition surplus :: "element list \<Rightarrow> int" where
  "surplus els = int (length (filter isOperand els)) - int (length (filter isBinary els))"

lemma surplus_append [simp]: "surplus (a @ b) = surplus a + surplus b"
  by (simp add: surplus_def)

lemma surplus_Nil [simp]: "surplus [] = 0"
  by (simp add: surplus_def)

lemma surplus_flatten: "wfNode n \<Longrightarrow> surplus (flatten n) = 1"
proof (induction n)
  case (BoolOp op ns)
  have Cons: "surplus (ELogic op # els) = (if op = LogicNot then 0 else -1) + surplus els" for els
    by (cases op) (auto simp: surplus_def isOperand_def isBinary_def)
  from BoolOp.prems have "ns \<noteq> []" by (auto split: if_splits)
  then obtain a rest where ns: "ns = a # rest" by (cases ns) auto
  show ?case
  proof (cases "op = LogicNot")
    case True
    with BoolOp ns Cons show ?thesis by simp
  next
    case False
    with BoolOp.prems ns obtain b where "rest = [b]"
      by (auto simp: numeral_2_eq_2 length_Suc_conv)
    with False BoolOp ns Cons show ?thesis by simp
  qed
qed (auto simp: surplus_def isOperand_def isBinary_def)

lemma surplus_flattens:
  "\<forall>t \<in> set ts. wfNode t \<Longrightarrow> surplus (concat (map flatten ts)) = int (length ts)"
  by (induction ts) (auto simp: surplus_flatten)

lemma length_flatten_pos: "0 < length (flatten n)"
  by (cases n) auto

subsection \<open>Implicit conjunctions\<close>

text \<open>The left-nested conjunction of a non-empty list of trees.\<close>

definition conj_tree :: "Node list \<Rightarrow> Node" where
  "conj_tree ts = foldl (\<lambda>a b. BoolOp LogicAnd [a, b]) (hd ts) (tl ts)"

lemma wf_conj_fold:
  "wfNode a \<Longrightarrow> \<forall>t \<in> set ts. wfNode t \<Longrightarrow> wfNode (foldl (\<lambda>a b. BoolOp LogicAnd [a, b]) a ts)"
  by (induction ts arbitrary: a) auto

lemma flatten_conj_fold:
  "flatten (foldl (\<lambda>a b. BoolOp LogicAnd [a, b]) a ts) =
     replicate (length ts) (ELogic LogicAnd) @ flatten a @ concat (map flatten ts)"
proof (induction ts arbitrary: a)
  case (Cons t ts)
  have "flatten (foldl (\<lambda>a b. BoolOp LogicAnd [a, b]) a (t # ts)) =
      replicate (length ts) (ELogic LogicAnd) @ [ELogic LogicAnd] @ flatten a @ flatten t @ concat (map flatten ts)"
    using Cons [of "BoolOp LogicAnd [a, t]"] by simp
  then show ?case by (simp add: replicate_app_Cons_same)
qed simp

lemma insertImplicitAnd_flattens:
  assumes "ts \<noteq> []" "\<forall>t \<in> set ts. wfNode t"
  shows "insertImplicitAnd (concat (map flatten ts)) = flatten (conj_tree ts)"
proof -
  obtain a rest where ts: "ts = a # rest" using assms(1) by (cases ts) auto
  let ?els = "concat (map flatten ts)"
  have target: "flatten (conj_tree ts) = replicate (length rest) (ELogic LogicAnd) @ ?els"
    by (simp add: ts conj_tree_def flatten_conj_fold)
  have need: "int (length (filter isOperand ?els)) - int (length (filter isBinary ?els)) - 1 = int (length rest)"
    using surplus_flattens [OF assms(2)] ts by (simp add: surplus_def)
  show ?thesis
  proof (cases "rest = []")
    case True
    with need target show ?thesis by (simp add: insertImplicitAnd_def Let_def)
  next
    case False
    then obtain b rest' where "rest = b # rest'" by (cases rest) auto
    then have "\<not> length ?els \<le> 1"
      using ts length_flatten_pos [of a] length_flatten_pos [of b]
      by (simp del: length_greater_0_conv)
    then show ?thesis
      unfolding insertImplicitAnd_def Let_def need target using False by simp
  qed
qed

lemma buildTree_conj:
  assumes "ts \<noteq> []" "\<forall>t \<in> set ts. wfNode t"
  shows "buildTree (concat (map flatten ts)) = Inr (conj_tree ts)"
proof -
  have "wfNode (conj_tree ts)"
    using assms by (cases ts) (auto simp: conj_tree_def wf_conj_fold)
  from consumeNode_flatten [OF this, of 0 "[]"] show ?thesis
    by (simp add: buildTree_def insertImplicitAnd_flattens [OF assms])
qed

lemma leafy_insertImplicitAnd: "leafy els \<Longrightarrow> leafy (insertImplicitAnd els)"
  by (simp add: insertImplicitAnd_def Let_def)

lemma buildTree_sound:
  assumes "leafy els" "buildTree els = Inr n"
  shows "wfNode n \<and> flatten n = insertImplicitAnd els"
proof -
  from assms(2) obtain idx rest where
    c: "consumeNode 0 (insertImplicitAnd els) = Inr (n, idx, rest)" and
    "\<not> idx < length (insertImplicitAnd els)"
    by (auto simp: buildTree_def Let_def split: sum.splits if_splits)
  with consumeNode_sound [OF leafy_insertImplicitAnd [OF assms(1)] c] show ?thesis by auto
qed

subsection \<open>Parsed trees are well formed\<close>

lemma parseElement_leafy: "parseElement ts = Inr (el, ts') \<Longrightarrow> leafy [el]"
  by (auto simp: parseElement_def Let_def parseCondition_def res_bind_eq_Inr_iff
      split: TokenType.splits)

lemma parseElements_leafy:
  "leafy els \<Longrightarrow> parseElements els ts = Inr (els', ts') \<Longrightarrow> leafy els'"
proof (induction els ts rule: parseElements.induct)
  case (1 els ts)
  define ts1 where "ts1 = (if els \<noteq> [] then consumeIf TokenComma ts else ts)"
  show ?case
  proof (cases "\<not> check TokenRBracket ts \<and> \<not> check TokenEOF ts \<and> \<not> check TokenRBracket ts1")
    case False
    with "1.prems" have "els' = els"
      by (auto simp: parseElements.simps [of els ts] Let_def ts1_def [symmetric] split: if_splits)
    with "1.prems" show ?thesis by simp
  next
    case True
    then obtain el ts2 where el: "parseElement ts1 = Inr (el, ts2)"
      and rest: "parseElements (els @ [el]) ts2 = Inr (els', ts')"
      using "1.prems"(2)
      by (auto simp: parseElements.simps [of els ts] Let_def ts1_def [symmetric] split: sum.splits)
    from True have c: "\<not> check TokenRBracket ts \<and> \<not> check TokenEOF ts" "\<not> check TokenRBracket ts1"
      by auto
    have "leafy (els @ [el])"
      using "1.prems"(1) parseElement_leafy [OF el] by simp
    with "1.IH" [OF c(1) ts1_def c(2) el refl _ rest] show ?thesis by blast
  qed
qed

lemma Parse_cases:
  assumes "Parse src = Inr n"
  obtains "n = MatchAllNode"
  | els where "els \<noteq> []" "leafy els" "buildTree els = Inr n"
  using assms parseElements_leafy [OF leafy_simps(1)]
  by (auto simp: Parse_def parseDomain_def res_bind_eq_Inr_iff split: if_splits)

lemma Parse_wf: "Parse src = Inr n \<Longrightarrow> n = MatchAllNode \<or> wfNode n"
  using buildTree_sound by (elim Parse_cases) auto



text \<open>
  C15: every tree that \<^verbatim>\<open>Parse\<close> returns is either the match-all tree or well formed: a negation has
  one child, a conjunction and a disjunction two, every leaf is a condition, and no match-all node
  is nested in it.
\<close>

theorem Parse_wellformed:
  assumes "Parse src = Inr n"
  shows "n = MatchAllNode \<or> wfNode n"
  using assms by (rule Parse_wf)

lemma Parse_wellformed_witness:
  "\<exists>n. Parse ''[]'' = Inr n \<and> (n = MatchAllNode \<or> wfNode n)"
proof -
  have "Parse ''[]'' = Inr MatchAllNode" by code_simp
  then show ?thesis using Parse_wellformed by blast
qed

end
