(* ===== verification/Acl_Domain.thy ===== *)
theory Acl_Domain
  imports Acl_Like Acl_Rules Domain_Trees
begin

text \<open>
  Stage 5 of the ACL pipeline, the evaluation of the rules' domains on the record data
  (\<^verbatim>\<open>internal/acl/domain_evaluator.go\<close>). The parameter \<open>uni\<close> gives what \<^verbatim>\<open>strings.ToLower\<close> does
  outside ASCII.
\<close>

abbreviation stageDomain :: string where "stageDomain \<equiv> ''domain''"

subsection \<open>Resolving the right-hand side\<close>

definition resolveRef :: "string \<Rightarrow> EvalContext \<Rightarrow> msg + go_any" where
  "resolveRef ref ctx =
     (if ref = ''user.id'' then Inr (AInt64 (e_UserID ctx))
      else if ref = ''user.company_id'' \<or> ref = ''user.company_id.id'' then Inr (AInt64 (e_CompanyID ctx))
      else if ref = ''company_ids'' \<or> ref = ''user.company_ids'' then Inr (AList (map AInt64 (e_CompanyIDs ctx)))
      else Inl [S ''unresolvable reference '', Q ref, S ('' '' @ emdash @ '' requires runtime data from Odoo'')])"

text \<open>A loop that stops at the first error.\<close>

fun collectAll :: "('e + 'a) list \<Rightarrow> 'e + 'a list" where
  "collectAll [] = Inr []"
| "collectAll (r # rs) = res_bind r (\<lambda>x. res_bind (collectAll rs) (\<lambda>xs. Inr (x # xs)))"

fun resolveValue :: "DValue \<Rightarrow> EvalContext \<Rightarrow> msg + go_any" where
  "resolveValue (StringValue s) ctx = Inr (AString s)"
| "resolveValue (IntValue i) ctx = Inr (AInt64 i)"
| "resolveValue (FloatValue f) ctx = Inr (AFloat f)"
| "resolveValue (BoolValue b) ctx = Inr (ABool b)"
| "resolveValue NoneValue ctx = Inr ANil"
| "resolveValue (RefValue r) ctx = resolveRef r ctx"
| "resolveValue (ListValue vs) ctx =
     res_bind (collectAll (map (\<lambda>v. resolveValue v ctx) vs)) (\<lambda>items. Inr (AList items))"
| "resolveValue (TupleValue vs) ctx =
     res_bind (collectAll (map (\<lambda>v. resolveValue v ctx) vs)) (\<lambda>items. Inr (AList items))"

subsection \<open>Comparing values\<close>

definition isNilOrFalse :: "go_any \<Rightarrow> bool" where
  "isNilOrFalse v =
     (case v of
        ANil \<Rightarrow> True
      | ABool b \<Rightarrow> \<not> b
      | AInt i \<Rightarrow> i = 0
      | AInt64 i \<Rightarrow> i = 0
      | AFloat f \<Rightarrow> feq f (Fin 0)
      | AString _ \<Rightarrow> False
      | _ \<Rightarrow> False)"

definition toFloat64 :: "go_any \<Rightarrow> go_float option" where
  "toFloat64 v =
     (case v of
        AInt i \<Rightarrow> Some (float64_of_int i)
      | AInt64 i \<Rightarrow> Some (float64_of_int i)
      | AFloat f \<Rightarrow> Some f
      | AFloat32 f \<Rightarrow> Some f
      | _ \<Rightarrow> None)"

definition valuesEqual :: "go_any \<Rightarrow> go_any \<Rightarrow> bool" where
  "valuesEqual a b =
     (if isNilOrFalse a \<and> isNilOrFalse b then True
      else if isNilOrFalse a \<noteq> isNilOrFalse b then False
      else case (toFloat64 a, toFloat64 b) of
             (Some af, Some bf) \<Rightarrow> feq af bf
           | _ \<Rightarrow>
               (case (a, b) of
                  (AString as, AString bs) \<Rightarrow> as = bs
                | (ABool ab, ABool bb) \<Rightarrow> ab = bb
                | _ \<Rightarrow> fmt_v a = fmt_v b))"

definition epsilon :: go_float where
  "epsilon = fround binary64 (1 / 1000000000)"

definition numericCompare :: "go_any \<Rightarrow> go_any \<Rightarrow> int" where
  "numericCompare a b =
     (case (toFloat64 a, toFloat64 b) of
        (Some af, Some bf) \<Rightarrow>
          (let diff = fsub af bf in
           if fless (fabs diff) epsilon then 0
           else if fless diff (Fin 0) then - 1
           else 1)
      | _ \<Rightarrow> 0)"

definition toSlice :: "go_any \<Rightarrow> go_any list option" where
  "toSlice v =
     (case v of
        AList xs \<Rightarrow> Some xs
      | AInts xs \<Rightarrow> Some (map AInt xs)
      | AInt64s xs \<Rightarrow> Some (map AInt64 xs)
      | AFloats xs \<Rightarrow> Some (map AFloat xs)
      | AStrings xs \<Rightarrow> Some (map AString xs)
      | _ \<Rightarrow> None)"

fun valueInLoop :: "go_any \<Rightarrow> go_any list \<Rightarrow> bool" where
  "valueInLoop actual [] = False"
| "valueInLoop actual (item # items) = (if valuesEqual actual item then True else valueInLoop actual items)"

definition valueIn :: "go_any \<Rightarrow> go_any \<Rightarrow> bool" where
  "valueIn actual expected =
     (case toSlice expected of None \<Rightarrow> valuesEqual actual expected | Some items \<Rightarrow> valueInLoop actual items)"

definition stringLike :: "unicode \<Rightarrow> go_any \<Rightarrow> go_any \<Rightarrow> bool \<Rightarrow> bool" where
  "stringLike uni actual expected caseSensitive =
     (case (actual, expected) of
        (AString aStr, AString pattern) \<Rightarrow>
          (if caseSensitive then matchLike aStr pattern
           else matchLike (ToLower uni aStr) (ToLower uni pattern))
      | _ \<Rightarrow> False)"

text \<open>\<^verbatim>\<open>compare\<close> with its table \<^verbatim>\<open>operatorFuncs\<close>, which has all sixteen operators.\<close>

fun compare :: "unicode \<Rightarrow> Operator \<Rightarrow> go_any \<Rightarrow> go_any \<Rightarrow> bool" where
  "compare uni OpEqual a e = valuesEqual a e"
| "compare uni OpNotEqual a e = (\<not> valuesEqual a e)"
| "compare uni OpLess a e = (numericCompare a e < 0)"
| "compare uni OpLessEq a e = (numericCompare a e \<le> 0)"
| "compare uni OpGreater a e = (numericCompare a e > 0)"
| "compare uni OpGreaterEq a e = (numericCompare a e \<ge> 0)"
| "compare uni OpIn a e = valueIn a e"
| "compare uni OpNotIn a e = (\<not> valueIn a e)"
| "compare uni OpLike a e = stringLike uni a e True"
| "compare uni OpNotLike a e = (\<not> stringLike uni a e True)"
| "compare uni OpILike a e = stringLike uni a e False"
| "compare uni OpNotILike a e = (\<not> stringLike uni a e False)"
| "compare uni OpEqLike a e = stringLike uni a e True"
| "compare uni OpEqILike a e = stringLike uni a e False"
| "compare uni OpChildOf a e = True"
| "compare uni OpParentOf a e = True"

subsection \<open>Evaluating conditions and trees\<close>

definition evalCondition ::
  "unicode \<Rightarrow> string \<Rightarrow> Operator \<Rightarrow> DValue \<Rightarrow> RecordData \<Rightarrow> EvalContext \<Rightarrow> ConditionResult" where
  "evalCondition uni field op val record evalCtx =
     (case resolveValue val evalCtx of
        Inl err \<Rightarrow>
          \<lparr> c_Field = field, c_Operator = Operator_string op, c_Expected = ANil, c_Actual = ANil,
            c_Pass = False, c_Error = err \<rparr>
      | Inr expected \<Rightarrow>
          (case map_of record field of
             None \<Rightarrow>
               \<lparr> c_Field = field, c_Operator = Operator_string op, c_Expected = expected, c_Actual = ANil,
                 c_Pass = False, c_Error = [S ''field '', Q field, S '' not found in record data''] \<rparr>
           | Some actual \<Rightarrow>
               \<lparr> c_Field = field, c_Operator = Operator_string op, c_Expected = expected, c_Actual = actual,
                 c_Pass = compare uni op actual expected, c_Error = [] \<rparr>))"

definition errorCondition :: "msg \<Rightarrow> ConditionResult" where
  "errorCondition e =
     \<lparr> c_Field = [], c_Operator = [], c_Expected = ANil, c_Actual = ANil, c_Pass = False, c_Error = e \<rparr>"

type_synonym evaluated = "bool \<times> ConditionResult list"

definition andStep :: "evaluated \<Rightarrow> evaluated \<Rightarrow> evaluated" where
  "andStep acc r = (if \<not> fst r then False else fst acc, snd acc @ snd r)"

definition orStep :: "evaluated \<Rightarrow> evaluated \<Rightarrow> evaluated" where
  "orStep acc r = (if fst r then True else fst acc, snd acc @ snd r)"

fun evalNode :: "unicode \<Rightarrow> RecordData \<Rightarrow> EvalContext \<Rightarrow> Node \<Rightarrow> evaluated" where
  "evalNode uni record evalCtx MatchAllNode = (True, [])"
| "evalNode uni record evalCtx (Condition field op val) =
     (let cr = evalCondition uni field op val record evalCtx in (c_Pass cr, [cr]))"
| "evalNode uni record evalCtx (BoolOp op children) =
     (case op of
        LogicAnd \<Rightarrow> foldl andStep (True, []) (map (evalNode uni record evalCtx) children)
      | LogicOr \<Rightarrow> foldl orStep (False, []) (map (evalNode uni record evalCtx) children)
      | LogicNot \<Rightarrow>
          (case map (evalNode uni record evalCtx) children of
             [(pass, conds)] \<Rightarrow> (\<not> pass, conds)
           | _ \<Rightarrow> (False, [errorCondition [S ''NOT node must have exactly 1 child'']])))"

definition evalRule ::
  "unicode \<Rightarrow> string \<Rightarrow> string \<Rightarrow> bool \<Rightarrow> RecordData \<Rightarrow> EvalContext \<Rightarrow> RuleDomainResult" where
  "evalRule uni name domainStr global record evalCtx =
     (let result = \<lparr> rr_RuleName = name, rr_Domain = domainStr, rr_Global = global, rr_Pass = False,
            rr_ParseError = [], rr_Conditions = [] \<rparr>
      in case Parse domainStr of
           Inl err \<Rightarrow> result \<lparr> rr_ParseError := err, rr_Pass := False \<rparr>
         | Inr ast \<Rightarrow>
             if ast = MatchAllNode then result \<lparr> rr_Pass := True \<rparr>
             else (case evalNode uni record evalCtx ast of
                     (pass, conditions) \<Rightarrow> result \<lparr> rr_Pass := pass, rr_Conditions := conditions \<rparr>))"

subsection \<open>Evaluating the rules\<close>

fun evaluateGlobalRules ::
  "unicode \<Rightarrow> RecordRuleMatch list \<Rightarrow> RecordData \<Rightarrow> EvalContext \<Rightarrow> RuleDomainResult list \<Rightarrow> bool \<Rightarrow>
     RuleDomainResult list \<times> bool" where
  "evaluateGlobalRules uni [] record evalCtx results pass = (results, pass)"
| "evaluateGlobalRules uni (rule # rules) record evalCtx results pass =
     (if \<not> rm_Applies rule then evaluateGlobalRules uni rules record evalCtx results pass
      else
        (let rr = evalRule uni (rm_Name rule) (rm_Domain rule) True record evalCtx in
         evaluateGlobalRules uni rules record evalCtx (results @ [rr]) (if \<not> rr_Pass rr then False else pass)))"

fun groupRulesLoop ::
  "unicode \<Rightarrow> RecordRuleMatch list \<Rightarrow> RecordData \<Rightarrow> EvalContext \<Rightarrow> RuleDomainResult list \<Rightarrow> bool \<Rightarrow>
     RuleDomainResult list \<times> bool" where
  "groupRulesLoop uni [] record evalCtx results hasApplicable = (results, hasApplicable)"
| "groupRulesLoop uni (rule # rules) record evalCtx results hasApplicable =
     (if \<not> rm_Applies rule then
        groupRulesLoop uni rules record evalCtx
          (results @ [\<lparr> rr_RuleName = rm_Name rule, rr_Domain = rm_Domain rule, rr_Global = False,
             rr_Pass = False, rr_ParseError = [],
             rr_Conditions = [errorCondition [S (''rule does not apply to user'' @ [CHR 0x27] @ ''s groups'')]] \<rparr>])
          hasApplicable
      else
        groupRulesLoop uni rules record evalCtx
          (results @ [evalRule uni (rm_Name rule) (rm_Domain rule) False record evalCtx]) True)"

fun anyGroupPass :: "RuleDomainResult list \<Rightarrow> bool" where
  "anyGroupPass [] = False"
| "anyGroupPass (rr # rrs) = (if \<not> rr_Global rr \<and> rr_Pass rr then True else anyGroupPass rrs)"

definition evaluateGroupRules ::
  "unicode \<Rightarrow> RecordRuleMatch list \<Rightarrow> RecordData \<Rightarrow> EvalContext \<Rightarrow> RuleDomainResult list \<Rightarrow>
     RuleDomainResult list \<times> bool" where
  "evaluateGroupRules uni rules record evalCtx results =
     (case groupRulesLoop uni rules record evalCtx results False of
        (results', hasApplicable) \<Rightarrow> (results', if hasApplicable then anyGroupPass results' else True))"

definition evaluateRules ::
  "unicode \<Rightarrow> RecordRuleDetail \<Rightarrow> RecordData \<Rightarrow> EvalContext \<Rightarrow> RuleDomainResult list \<times> bool \<times> bool" where
  "evaluateRules uni ruleDetail record evalCtx =
     (case evaluateGlobalRules uni (rrd_GlobalRules ruleDetail) record evalCtx [] True of
        (results, globalPass) \<Rightarrow>
          (case evaluateGroupRules uni (rrd_GroupRules ruleDetail) record evalCtx results of
             (results', groupPass) \<Rightarrow> (results', globalPass, groupPass)))"

definition passStr :: "bool \<Rightarrow> string" where
  "passStr pass = (if pass then ''PASS'' else ''FAIL'')"

definition createSuccessResult :: "RecordRuleDetail \<Rightarrow> DomainEvalDetail \<Rightarrow> bool \<Rightarrow> bool \<Rightarrow> StageResult" where
  "createSuccessResult ruleDetail detail globalPass groupPass =
     \<lparr> Stage = stageDomain, Verdict = VerdictOK,
       Reason = [S ''model '', Q (rrd_Model ruleDetail), S '' '', S (rrd_Operation ruleDetail),
         S '': all domain conditions satisfied (global: '', S (passStr globalPass), S '', group: '',
         S (passStr groupPass), S '')''],
       Detail = DomainDetail detail \<rparr>"

definition createFailureResult ::
  "RecordRuleDetail \<Rightarrow> DomainEvalDetail \<Rightarrow> bool \<Rightarrow> bool \<Rightarrow> RuleDomainResult list \<Rightarrow> StageResult" where
  "createFailureResult ruleDetail detail globalPass groupPass ruleResults =
     (let failed = countWhere (\<lambda>rr. rr_Global rr \<and> \<not> rr_Pass rr) ruleResults;
          parts = (if \<not> globalPass then [[D failed, S '' global rule(s) failed'']] else [])
                  @ (if \<not> groupPass then [[S ''no group rule domain passed'']] else [])
      in \<lparr> Stage = stageDomain, Verdict = VerdictDenied,
           Reason = [S ''model '', Q (rrd_Model ruleDetail), S '' '', S (rrd_Operation ruleDetail),
             S ('': DENIED '' @ emdash @ '' '')] @ JoinWith [S ''; ''] parts,
           Detail = DomainDetail detail \<rparr>)"

definition Evaluate :: "unicode \<Rightarrow> RecordRuleDetail \<Rightarrow> RecordData \<Rightarrow> EvalContext \<Rightarrow> StageResult" where
  "Evaluate uni ruleDetail record evalCtx =
     (case evaluateRules uni ruleDetail record evalCtx of
        (ruleResults, globalPass, groupPass) \<Rightarrow>
          (let detail = \<lparr> de_Model = rrd_Model ruleDetail, de_Operation = rrd_Operation ruleDetail,
                 de_GlobalPass = globalPass, de_GroupPass = groupPass, de_RuleResults = ruleResults \<rparr>
           in if globalPass \<and> groupPass
              then createSuccessResult ruleDetail detail globalPass groupPass
              else createFailureResult ruleDetail detail globalPass groupPass ruleResults))"

end
