(* ===== verification/Acl_Eval.thy ===== *)
theory Acl_Eval
  imports Acl_Domain
begin

text \<open>
  What the domain evaluator decides. \<open>holds\<close> is the truth of a tree on a record, a boolean
  semantics without the reporting of the leaves; \<open>ruleHolds\<close> is the meaning of a rule's domain
  string. The evaluator's stage passes exactly when every global rule holds and, if a group rule
  applies, one of those holds.
\<close>

subsection \<open>The truth of a tree\<close>

definition condHolds :: "unicode \<Rightarrow> RecordData \<Rightarrow> EvalContext \<Rightarrow> string \<Rightarrow> Operator \<Rightarrow> DValue \<Rightarrow> bool" where
  "condHolds uni rcd ctx field op val \<longleftrightarrow>
     (case (resolveValue val ctx, map_of rcd field) of
        (Inr expected, Some actual) \<Rightarrow> compare uni op actual expected
      | _ \<Rightarrow> False)"

fun holds :: "unicode \<Rightarrow> RecordData \<Rightarrow> EvalContext \<Rightarrow> Node \<Rightarrow> bool" where
  "holds uni rcd ctx MatchAllNode = True"
| "holds uni rcd ctx (Condition field op val) = condHolds uni rcd ctx field op val"
| "holds uni rcd ctx (BoolOp op ns) =
     (case op of
        LogicAnd \<Rightarrow> \<forall>n \<in> set ns. holds uni rcd ctx n
      | LogicOr \<Rightarrow> \<exists>n \<in> set ns. holds uni rcd ctx n
      | LogicNot \<Rightarrow> \<forall>n \<in> set ns. \<not> holds uni rcd ctx n)"

text \<open>The leaves of a tree from left to right.\<close>

fun leaves :: "Node \<Rightarrow> (string \<times> Operator \<times> DValue) list" where
  "leaves MatchAllNode = []"
| "leaves (Condition field op val) = [(field, op, val)]"
| "leaves (BoolOp op ns) = concat (map leaves ns)"

lemma evalCondition_Pass:
  "c_Pass (evalCondition uni field op val rcd ctx) = condHolds uni rcd ctx field op val"
  by (simp add: evalCondition_def condHolds_def split: sum.splits option.splits)

lemma fold_andStep: "foldl andStep acc rs = (fst acc \<and> (\<forall>r \<in> set rs. fst r), snd acc @ concat (map snd rs))"
  by (induction rs arbitrary: acc) (auto simp: andStep_def)

lemma fold_orStep: "foldl orStep acc rs = (fst acc \<or> (\<exists>r \<in> set rs. fst r), snd acc @ concat (map snd rs))"
  by (induction rs arbitrary: acc) (auto simp: orStep_def)

lemma evalNode_eq:
  "n = MatchAllNode \<or> wfNode n \<Longrightarrow>
     evalNode uni rcd ctx n =
       (holds uni rcd ctx n,
        map (\<lambda>(field, op, val). evalCondition uni field op val rcd ctx) (leaves n))"
proof (induction n)
  case (BoolOp op ns)
  then have wf: "\<forall>n \<in> set ns. evalNode uni rcd ctx n =
      (holds uni rcd ctx n, map (\<lambda>(field, op, val). evalCondition uni field op val rcd ctx) (leaves n))"
    by auto
  then have conds: "concat (map (snd \<circ> evalNode uni rcd ctx) ns) =
      map (\<lambda>(field, op, val). evalCondition uni field op val rcd ctx) (concat (map leaves ns))"
    by (simp add: map_concat comp_def cong: map_cong)
  show ?case
  proof (cases op)
    case LogicAnd
    then show ?thesis using wf conds by (auto simp: fold_andStep)
  next
    case LogicOr
    then show ?thesis using wf conds by (auto simp: fold_orStep)
  next
    case LogicNot
    with BoolOp.prems obtain c where "ns = [c]" by (auto simp: length_Suc_conv)
    with LogicNot wf show ?thesis by auto
  qed
qed (simp_all add: Let_def evalCondition_Pass)

subsection \<open>The parser's contract\<close>

text \<open>
  The evaluator relies on one promise of the parser: what it returns is the match-all tree or
  well formed, so that the branch for a negation without exactly one child is never taken.
\<close>

locale domain_parser =
  fixes parse :: "string \<Rightarrow> msg + Node"
  assumes parse_shape: "parse src = Inr n \<Longrightarrow> n = MatchAllNode \<or> wfNode n"
begin

lemma eval_parsed:
  "parse src = Inr n \<Longrightarrow> fst (evalNode uni rcd ctx n) = holds uni rcd ctx n"
  using evalNode_eq parse_shape by simp

lemma conditions_parsed:
  "parse src = Inr n \<Longrightarrow>
     map c_Field (snd (evalNode uni rcd ctx n)) = map fst (leaves n) \<and>
     map c_Operator (snd (evalNode uni rcd ctx n)) = map (Operator_string \<circ> fst \<circ> snd) (leaves n)"
  using evalNode_eq [OF parse_shape, of src n uni rcd ctx]
  by (auto simp: evalCondition_def split: sum.splits option.splits)

end

interpretation parser: domain_parser Parse
  by unfold_locales (rule Parse_wf)

subsection \<open>Rules\<close>

definition ruleHolds :: "unicode \<Rightarrow> RecordData \<Rightarrow> EvalContext \<Rightarrow> string \<Rightarrow> bool" where
  "ruleHolds uni rcd ctx domainStr \<longleftrightarrow>
     (case Parse domainStr of Inl _ \<Rightarrow> False | Inr n \<Rightarrow> holds uni rcd ctx n)"

lemma evalRule_simps [simp]:
  "rr_Pass (evalRule uni name dm global rcd ctx) = ruleHolds uni rcd ctx dm"
  "rr_Global (evalRule uni name dm global rcd ctx) = global"
  "rr_RuleName (evalRule uni name dm global rcd ctx) = name"
  using parser.eval_parsed [of dm _ uni rcd ctx]
  by (auto simp: evalRule_def ruleHolds_def Let_def split: sum.splits prod.splits)

lemma evaluateGlobalRules_eq:
  "evaluateGlobalRules uni rules rcd ctx results pass =
     (results @ map (\<lambda>r. evalRule uni (rm_Name r) (rm_Domain r) True rcd ctx) (filter rm_Applies rules),
      pass \<and> (\<forall>r \<in> set rules. rm_Applies r \<longrightarrow> ruleHolds uni rcd ctx (rm_Domain r)))"
  by (induction uni rules rcd ctx results pass rule: evaluateGlobalRules.induct)
    (auto simp: Let_def)

lemma anyGroupPass_iff: "anyGroupPass rrs \<longleftrightarrow> (\<exists>rr \<in> set rrs. \<not> rr_Global rr \<and> rr_Pass rr)"
  by (induction rrs) auto

lemma groupRulesLoop_snd:
  "snd (groupRulesLoop uni rules rcd ctx results has) \<longleftrightarrow> has \<or> (\<exists>r \<in> set rules. rm_Applies r)"
  by (induction uni rules rcd ctx results has rule: groupRulesLoop.induct) auto

lemma groupRulesLoop_pass:
  "anyGroupPass (fst (groupRulesLoop uni rules rcd ctx results has)) \<longleftrightarrow>
     anyGroupPass results \<or> (\<exists>r \<in> set rules. rm_Applies r \<and> ruleHolds uni rcd ctx (rm_Domain r))"
  by (induction uni rules rcd ctx results has rule: groupRulesLoop.induct)
    (auto simp: anyGroupPass_iff)

definition globalHolds :: "unicode \<Rightarrow> RecordData \<Rightarrow> EvalContext \<Rightarrow> RecordRuleMatch list \<Rightarrow> bool" where
  "globalHolds uni rcd ctx rules \<longleftrightarrow>
     (\<forall>r \<in> set rules. rm_Applies r \<longrightarrow> ruleHolds uni rcd ctx (rm_Domain r))"

definition groupHolds :: "unicode \<Rightarrow> RecordData \<Rightarrow> EvalContext \<Rightarrow> RecordRuleMatch list \<Rightarrow> bool" where
  "groupHolds uni rcd ctx rules \<longleftrightarrow>
     ((\<exists>r \<in> set rules. rm_Applies r) \<longrightarrow>
      (\<exists>r \<in> set rules. rm_Applies r \<and> ruleHolds uni rcd ctx (rm_Domain r)))"

lemma evaluateRules_pass:
  "snd (evaluateRules uni rd rcd ctx) =
     (globalHolds uni rcd ctx (rrd_GlobalRules rd), groupHolds uni rcd ctx (rrd_GroupRules rd))"
proof -
  let ?gl = "map (\<lambda>r. evalRule uni (rm_Name r) (rm_Domain r) True rcd ctx) (filter rm_Applies (rrd_GlobalRules rd))"
  obtain rs has where loop: "groupRulesLoop uni (rrd_GroupRules rd) rcd ctx ?gl False = (rs, has)" by force
  have "\<not> anyGroupPass ?gl" by (simp add: anyGroupPass_iff)
  with groupRulesLoop_pass [of uni "rrd_GroupRules rd" rcd ctx ?gl False]
    groupRulesLoop_snd [of uni "rrd_GroupRules rd" rcd ctx ?gl False] loop
  show ?thesis
    by (simp add: evaluateRules_def evaluateGlobalRules_eq evaluateGroupRules_def globalHolds_def groupHolds_def)
qed

lemma Evaluate_Verdict:
  "Verdict (Evaluate uni rd rcd ctx) =
     (if globalHolds uni rcd ctx (rrd_GlobalRules rd) \<and> groupHolds uni rcd ctx (rrd_GroupRules rd)
      then VerdictOK else VerdictDenied)"
  using evaluateRules_pass [of uni rd rcd ctx]
  by (auto simp: Evaluate_def createSuccessResult_def createFailureResult_def Let_def split: prod.splits)

lemma Evaluate_Stage: "Stage (Evaluate uni rd rcd ctx) = stageDomain"
  by (simp add: Evaluate_def createSuccessResult_def createFailureResult_def Let_def split: prod.splits)

lemma Evaluate_Detail: "\<exists>d. Detail (Evaluate uni rd rcd ctx) = DomainDetail d"
  by (simp add: Evaluate_def createSuccessResult_def createFailureResult_def Let_def split: prod.splits)

subsection \<open>The stage's guarantees\<close>

text \<open>
  C9: the domain stage decides the combination of the rules. Its verdict is OK exactly when every
  applicable global rule parses and holds on the record and, if some group rule applies, at least
  one applicable group rule parses and holds; a domain that does not parse counts as failed.
\<close>

theorem Evaluate_semantics:
  "Verdict (Evaluate uni rd rcd ctx) =
     (if (\<forall>r \<in> set (rrd_GlobalRules rd). rm_Applies r \<longrightarrow> ruleHolds uni rcd ctx (rm_Domain r)) \<and>
         ((\<exists>r \<in> set (rrd_GroupRules rd). rm_Applies r) \<longrightarrow>
          (\<exists>r \<in> set (rrd_GroupRules rd). rm_Applies r \<and> ruleHolds uni rcd ctx (rm_Domain r)))
      then VerdictOK else VerdictDenied)"
  by (simp add: Evaluate_Verdict globalHolds_def groupHolds_def)

lemma Evaluate_semantics_witness:
  "Verdict (Evaluate \<lparr> is_print = (\<lambda>_. False), to_lower = (\<lambda>r. r) \<rparr>
     \<lparr> rrd_Model = ''m'', rrd_Operation = ''read'',
       rrd_GlobalRules = [\<lparr> rm_Name = ''a'', rm_Domain = ''('', rm_Global = True, rm_Applies = True, rm_GroupIDs = [] \<rparr>],
       rrd_GroupRules = [], rrd_TotalRules = 1, rrd_AppliedCount = 1 \<rparr>
     [(''id'', AInt 1)] \<lparr> e_UserID = 1, e_CompanyID = 1, e_CompanyIDs = [] \<rparr>) = VerdictDenied"
proof -
  have "\<exists>e. Parse ''('' = Inl e"
  proof -
    have "(case Parse ''('' of Inl _ \<Rightarrow> True | Inr _ \<Rightarrow> False)" by code_simp
    then show ?thesis by (simp split: sum.splits)
  qed
  then show ?thesis by (subst Evaluate_semantics) (auto simp: ruleHolds_def)
qed

text \<open>
  the evaluation of a parsed domain is its boolean truth, and every leaf is reported. For a
  domain string that parses to a tree, the result passes exactly when the tree holds on the record
  (a condition whose field is missing or whose reference cannot be resolved is false), and the
  reported conditions are the leaves from left to right, without short-circuiting.
\<close>

theorem evalRule_semantics:
  assumes "Parse domainStr = Inr n"
  shows "rr_Pass (evalRule uni name domainStr global rcd ctx) = holds uni rcd ctx n \<and>
    map c_Field (rr_Conditions (evalRule uni name domainStr global rcd ctx)) = map fst (leaves n) \<and>
    rr_ParseError (evalRule uni name domainStr global rcd ctx) = []"
proof -
  have "rr_Conditions (evalRule uni name domainStr global rcd ctx) = snd (evalNode uni rcd ctx n)"
    using assms by (auto simp: evalRule_def Let_def split: prod.splits)
  with parser.conditions_parsed [OF assms, of uni rcd ctx] assms show ?thesis
    by (auto simp: ruleHolds_def) (simp add: evalRule_def Let_def split: prod.splits)
qed

lemma evalRule_semantics_witness:
  "rr_Pass (evalRule \<lparr> is_print = (\<lambda>_. False), to_lower = (\<lambda>r. r) \<rparr> ''all'' ''[]'' True []
     \<lparr> e_UserID = 1, e_CompanyID = 1, e_CompanyIDs = [] \<rparr>)"
proof -
  have "Parse ''[]'' = Inr MatchAllNode" by code_simp
  from evalRule_semantics [OF this] show ?thesis by simp
qed

text \<open>
  ordering comparisons on values that are not numbers. When either side is not a number (a
  date string, for instance), the operators \<^verbatim>\<open><=\<close> and \<^verbatim>\<open>>=\<close> are true and \<^verbatim>\<open><\<close> and \<^verbatim>\<open>>\<close> are false,
  whatever the values are: no order of strings is consulted.
\<close>

theorem ordering_ignores_nonnumeric:
  assumes "toFloat64 a = None \<or> toFloat64 b = None"
  shows "compare uni OpLessEq a b \<and> compare uni OpGreaterEq a b \<and>
    \<not> compare uni OpLess a b \<and> \<not> compare uni OpGreater a b"
proof -
  have "numericCompare a b = 0" using assms by (auto simp: numericCompare_def split: option.splits)
  then show ?thesis by simp
qed

lemma ordering_ignores_nonnumeric_witness:
  "compare \<lparr> is_print = (\<lambda>_. False), to_lower = (\<lambda>r. r) \<rparr> OpGreaterEq
     (AString ''2020-01-01'') (AString ''2024-01-01'')"
  using ordering_ignores_nonnumeric [of "AString ''2020-01-01''" "AString ''2024-01-01''"]
  by (simp add: toFloat64_def)

end
