(* ===== verification/Acl_Suggestion.thy ===== *)
theory Acl_Suggestion
  imports Acl_Eval
begin

text \<open>
  The suggestion generator (\<^verbatim>\<open>internal/acl/suggestion.go\<close>): for every denied or failed stage of a
  trace, the fixes it proposes. The texts are kept as their pieces like the reasons of the stages.
\<close>

record Suggestion =
  g_Stage :: string
  g_Summary :: msg
  g_Detail :: msg
  g_Severity :: string

abbreviation apos :: string where "apos \<equiv> [CHR 0x27]"
abbreviation nl :: string where "nl \<equiv> [CHR 0x0A]"

subsection \<open>Helpers\<close>

definition failedPart :: "unicode \<Rightarrow> ConditionResult \<Rightarrow> msg" where
  "failedPart uni c =
     (if render uni (c_Error c) \<noteq> []
      then [S (c_Field c), S '': ''] @ c_Error c
      else [S (c_Field c), S '' '', S (c_Operator c), S '' '', V (c_Expected c), S '' (actual: '',
            V (c_Actual c), S '')''])"

definition collectFailedConditions :: "unicode \<Rightarrow> RuleDomainResult \<Rightarrow> msg" where
  "collectFailedConditions uni rr =
     (let parts = map (failedPart uni) (filter (\<lambda>c. \<not> c_Pass c) (rr_Conditions rr)) in
      if parts = [] then
        (if render uni (rr_ParseError rr) \<noteq> [] then [S ''parse error: ''] @ rr_ParseError rr else [S ''unknown''])
      else JoinWith [S ''; ''] parts)"

definition sanitizeModelName :: "string \<Rightarrow> string" where
  "sanitizeModelName model = ReplaceChar (CHR ''.'') (CHR ''_'') model"

fun dedupLoop :: "string set \<Rightarrow> string list \<Rightarrow> string list \<Rightarrow> string list" where
  "dedupLoop seen result [] = result"
| "dedupLoop seen result (s # ss) =
     (if s \<notin> seen then dedupLoop (insert s seen) (result @ [s]) ss else dedupLoop seen result ss)"

definition dedupStrings :: "string list \<Rightarrow> string list" where
  "dedupStrings ss = dedupLoop {} [] ss"

subsection \<open>Suggestions per stage\<close>

definition suggestForError :: "StageResult \<Rightarrow> Suggestion list" where
  "suggestForError stage =
     [\<lparr> g_Stage = Stage stage,
        g_Summary = [S ''Stage '', Q (Stage stage), S ('' returned an error '' @ emdash @ '' check schema snapshot'')],
        g_Detail = [S ''The pipeline could not evaluate stage '', Q (Stage stage), S '': ''] @ Reason stage @
          [S ''. Ensure the agent has pushed a recent schema snapshot that includes the relevant models.''],
        g_Severity = ''medium'' \<rparr>]"

definition suggestUserFixes :: "unicode \<Rightarrow> StageResult \<Rightarrow> Suggestion list" where
  "suggestUserFixes uni stage =
     (let reason = ToLower uni (render uni (Reason stage));
          inactive =
            (if Contains reason ''inactive''
             then [\<lparr> g_Stage = ''user'', g_Summary = [S ''Re-activate the user account''],
                     g_Detail = [S (''Go to Settings > Users & Companies > Users, find the user, and set '' @ apos @
                       ''Active'' @ apos @ '' to True. Inactive users cannot access any Odoo resource.'')],
                     g_Severity = ''low'' \<rparr>]
             else []);
          missing =
            (if Contains reason ''not found'' \<or> Contains reason ''no data''
             then [\<lparr> g_Stage = ''user'', g_Summary = [S ''Verify the user exists in this Odoo database''],
                     g_Detail = [S ''The user ID was not found in Odoo. Verify the uid is correct and the user has not been archived or deleted. Check: Settings > Users & Companies > Users.''],
                     g_Severity = ''low'' \<rparr>]
             else []);
          suggestions = inactive @ missing
      in if suggestions = []
         then [\<lparr> g_Stage = ''user'', g_Summary = [S ''User validation failed''],
                 g_Detail = Reason stage, g_Severity = ''low'' \<rparr>]
         else suggestions)"

definition suggestGroupFixes :: "StageResult \<Rightarrow> Suggestion list" where
  "suggestGroupFixes stage =
     [\<lparr> g_Stage = ''groups'', g_Summary = [S (''Check the user'' @ apos @ ''s security groups'')],
        g_Detail = [S (''The group resolution stage failed. Verify the user has the expected groups assigned under Settings > Users & Companies > Users > [user] > Access Rights tab. Also check that implied groups (group inheritance) are correctly configured in the module'' @ apos @ ''s security XML.'')],
        g_Severity = ''medium'' \<rparr>]"

text \<open>The loop that sorts the rules of the denied check by whether they apply.\<close>

fun classifyRules :: "string list \<Rightarrow> string list \<Rightarrow> ACLRuleMatch list \<Rightarrow> string list \<times> string list" where
  "classifyRules noGrant notApplicable [] = (noGrant, notApplicable)"
| "classifyRules noGrant notApplicable (rule # rules) =
     classifyRules
       (if m_Applies rule \<and> \<not> m_Grants rule then noGrant @ [m_GroupID rule] else noGrant)
       (if \<not> m_Applies rule then notApplicable @ [m_GroupID rule] else notApplicable)
       rules"

definition suggestModelACLFixes :: "StageResult \<Rightarrow> Suggestion list" where
  "suggestModelACLFixes stage =
     (case Detail stage of
        ModelDetail detail \<Rightarrow>
          if mad_Rules detail = [] then
            [\<lparr> g_Stage = stageModelACL,
               g_Summary = [S ''Create an ir.model.access rule for model '', Q (mad_Model detail)],
               g_Detail = [S ''No access rules exist for '', Q (mad_Model detail),
                 S (''. Create a CSV line in your module'' @ apos @ ''s security/ir.model.access.csv:'' @ nl @
                    ''  id,name,model_id:id,group_id:id,perm_read,perm_write,perm_create,perm_unlink'' @ nl @ ''  access_''),
                 S (sanitizeModelName (mad_Model detail)), S ''_user,'', S (mad_Model detail), S '' user,model_'',
                 S (sanitizeModelName (mad_Model detail)), S ('',base.group_user,1,0,0,0'' @ nl @ ''Then upgrade the module.'')],
               g_Severity = ''medium'' \<rparr>]
          else
            (case classifyRules [] [] (mad_Rules detail) of
               (noGrant, notApplicable) \<Rightarrow>
                 (if noGrant \<noteq> [] then
                    [\<lparr> g_Stage = stageModelACL,
                       g_Summary = [S ''Grant '', S (mad_Operation detail), S '' permission on existing access rule(s)''],
                       g_Detail = [S (''The user'' @ apos @ ''s groups match ''), D (int (length noGrant)), S '' rule(s) for '',
                         Q (mad_Model detail), S '' but none grant perm_'', S (mad_Operation detail),
                         S ''. Edit the ir.model.access.csv entry and set perm_'', S (mad_Operation detail),
                         S ''=1 for the matching group(s), then upgrade the module.''],
                       g_Severity = ''low'' \<rparr>]
                  else []) @
                 (if notApplicable \<noteq> [] \<and> noGrant = [] then
                    [\<lparr> g_Stage = stageModelACL,
                       g_Summary = [S ''Add the user to a group that has '', S (mad_Operation detail), S '' access on '',
                         Q (mad_Model detail)],
                       g_Detail = [D (int (length notApplicable)), S '' rule(s) grant access to '', Q (mad_Model detail),
                         S ('' but the user doesn'' @ apos @ ''t belong to any of their groups (group IDs: ''),
                         S (JoinWith '', '' notApplicable),
                         S (''). Either add the user to one of these groups, or create a new ir.model.access rule for the user'' @ apos @ ''s group.'')],
                       g_Severity = ''medium'' \<rparr>]
                  else []))
      | _ \<Rightarrow>
          [\<lparr> g_Stage = stageModelACL, g_Summary = [S ''Add or update ir.model.access rules for this model''],
             g_Detail = Reason stage, g_Severity = ''medium'' \<rparr>])"

text \<open>The loop over the group rules that do not apply.\<close>

fun unmatchedRules :: "string list \<Rightarrow> string list \<Rightarrow> RecordRuleMatch list \<Rightarrow> string list \<times> string list" where
  "unmatchedRules ruleNames ruleGroupIDs [] = (ruleNames, ruleGroupIDs)"
| "unmatchedRules ruleNames ruleGroupIDs (r # rules) =
     (if \<not> rm_Applies r
      then unmatchedRules (ruleNames @ [rm_Name r]) (ruleGroupIDs @ map Itoa (rm_GroupIDs r)) rules
      else unmatchedRules ruleNames ruleGroupIDs rules)"

definition suggestRecordRuleFixes :: "StageResult \<Rightarrow> Suggestion list" where
  "suggestRecordRuleFixes stage =
     (case Detail stage of
        RulesDetail detail \<Rightarrow>
          if 0 < length (rrd_GroupRules detail) then
            (case unmatchedRules [] [] (rrd_GroupRules detail) of
               (ruleNames, ruleGroupIDs) \<Rightarrow>
                 if ruleNames \<noteq> [] then
                   [\<lparr> g_Stage = ''record_rule'',
                      g_Summary = [S ''Add the user to a group that matches a record rule for '', Q (rrd_Model detail)],
                      g_Detail = [D (int (length ruleNames)), S '' group-based ir.rule(s) exist ['',
                        S (JoinWith '', '' ruleNames), S (''] but the user doesn'' @ apos @ ''t belong to their groups (group IDs: ''),
                        S (JoinWith '', '' (dedupStrings ruleGroupIDs)),
                        S ''). Add the user to one of these groups under Settings > Users & Companies > Users.''],
                      g_Severity = ''medium'' \<rparr>]
                 else [])
          else []
      | _ \<Rightarrow>
          [\<lparr> g_Stage = ''record_rule'', g_Summary = [S ''Review ir.rule entries for this model''],
             g_Detail = Reason stage, g_Severity = ''medium'' \<rparr>])"

definition globalFailure :: "unicode \<Rightarrow> RuleDomainResult \<Rightarrow> Suggestion" where
  "globalFailure uni rr =
     \<lparr> g_Stage = ''domain'',
       g_Summary = [S ''Global rule '', Q (rr_RuleName rr), S '' domain failed''],
       g_Detail = [S ''Global ir.rule '', Q (rr_RuleName rr), S '' applies to ALL users and its domain '', S (rr_Domain rr),
         S '' evaluated to false. Failed condition(s): ''] @ collectFailedConditions uni rr @
         [S (''. Either update the record'' @ apos @ ''s field values to satisfy the domain, or modify the rule'' @ apos @
             ''s domain in Settings > Technical > Security > Record Rules.'')],
       g_Severity = ''high'' \<rparr>"

definition groupFailure :: "unicode \<Rightarrow> RuleDomainResult \<Rightarrow> msg" where
  "groupFailure uni rr =
     [S (rr_RuleName rr), S '' (domain: '', S (rr_Domain rr), S '', failed: ''] @ collectFailedConditions uni rr @ [S '')'']"

definition suggestDomainFixes :: "unicode \<Rightarrow> StageResult \<Rightarrow> Suggestion list" where
  "suggestDomainFixes uni stage =
     (case Detail stage of
        DomainDetail detail \<Rightarrow>
          (let failedGroupRules = map (groupFailure uni)
                 (filter (\<lambda>rr. \<not> rr_Global rr \<and> \<not> rr_Pass rr) (de_RuleResults detail))
           in map (globalFailure uni) (filter (\<lambda>rr. rr_Global rr \<and> \<not> rr_Pass rr) (de_RuleResults detail)) @
              (if \<not> de_GroupPass detail \<and> failedGroupRules \<noteq> [] then
                 [\<lparr> g_Stage = ''domain'', g_Summary = [S ''No group record rule domain matched the record''],
                    g_Detail = [S (''All applicable group-based ir.rule domains evaluated to false. At least one must pass (they are ORed). Failed rules:'' @ nl @ ''  - '')] @
                      JoinWith [S (nl @ ''  - '')] failedGroupRules @
                      [S (nl @ ''Fix options: (1) change the record'' @ apos @ ''s data to match a rule, (2) relax a rule'' @ apos @
                          ''s domain, or (3) add a new rule with a matching domain for the user'' @ apos @ ''s group.'')],
                    g_Severity = ''medium'' \<rparr>]
               else []))
      | _ \<Rightarrow>
          [\<lparr> g_Stage = ''domain'', g_Summary = [S ''A record rule domain blocked access''],
             g_Detail = Reason stage, g_Severity = ''medium'' \<rparr>])"

definition suggestForDenied :: "unicode \<Rightarrow> StageResult \<Rightarrow> Suggestion list" where
  "suggestForDenied uni stage =
     (if Stage stage = stageUser then suggestUserFixes uni stage
      else if Stage stage = ''groups'' then suggestGroupFixes stage
      else if Stage stage = stageModelACL then suggestModelACLFixes stage
      else if Stage stage = stageRecordRule then suggestRecordRuleFixes stage
      else if Stage stage = stageDomain then suggestDomainFixes uni stage
      else [])"

fun Generate :: "unicode \<Rightarrow> StageResult list \<Rightarrow> Suggestion list" where
  "Generate uni [] = []"
| "Generate uni (stage # stages) =
     (case Verdict stage of
        VerdictDenied \<Rightarrow> suggestForDenied uni stage
      | VerdictError \<Rightarrow> suggestForError stage
      | VerdictOK \<Rightarrow> []
      | VerdictSkipped \<Rightarrow> []) @ Generate uni stages"

subsection \<open>Correctness\<close>

lemma dedupLoop_eq:
  "dedupLoop seen result ss = result @ filter (\<lambda>s. s \<notin> seen) (rev (remdups (rev ss)))"
proof (induction ss arbitrary: seen result)
  case (Cons s ss)
  have "rev (remdups (rev ss @ [s])) = s # filter (\<lambda>x. x \<noteq> s) (rev (remdups (rev ss)))"
    by (induction ss rule: rev_induct) (auto simp: filter_id_conv)
  then show ?case using Cons by (auto simp: filter_filter intro!: filter_cong)
qed simp

lemma classifyRules_eq:
  "classifyRules ng na rules =
     (ng @ map m_GroupID (filter (\<lambda>r. m_Applies r \<and> \<not> m_Grants r) rules),
      na @ map m_GroupID (filter (\<lambda>r. \<not> m_Applies r) rules))"
  by (induction ng na rules rule: classifyRules.induct) auto

lemma unmatchedRules_names:
  "fst (unmatchedRules names ids rules) = names @ map rm_Name (filter (\<lambda>r. \<not> rm_Applies r) rules)"
  by (induction names ids rules rule: unmatchedRules.induct) auto

lemma Generate_append: "Generate uni (xs @ ys) = Generate uni xs @ Generate uni ys"
  by (induction xs) auto

end
