(* ===== verification/Acl_Pipeline.thy ===== *)
theory Acl_Pipeline
  imports Acl_Suggestion
begin

text \<open>
  The ACL service (\<^verbatim>\<open>internal/service/acl_service.go\<close>) with its request and response
  (\<^verbatim>\<open>internal/dto/acl_dto.go\<close>): the pipeline object with its accumulated stages, its five steps in
  order, the early stops, and the response. A step can end the process (\<open>Panic\<close>, a nil
  dereference or an index out of range), return an error (\<open>Err\<close>) or return (\<open>Ok\<close>).

  The database and \<^verbatim>\<open>json.Unmarshal\<close> are parameters of \<open>TraceAccess\<close>; \<open>PgError e\<close> stands for
  \<^verbatim>\<open>api.FromPgError(e)\<close>, \<open>ErrInternal m\<close> for \<^verbatim>\<open>api.ErrInternal\<close> of the error with text \<open>m\<close>.
\<close>

subsection \<open>Outcomes\<close>

datatype ('e, 'a) outcome = Panic | Err 'e | Ok 'a

fun obind :: "('e, 'a) outcome \<Rightarrow> ('a \<Rightarrow> ('e, 'b) outcome) \<Rightarrow> ('e, 'b) outcome" where
  "obind Panic f = Panic"
| "obind (Err e) f = Err e"
| "obind (Ok x) f = f x"

fun omapErr :: "('e \<Rightarrow> 'f) \<Rightarrow> ('e, 'a) outcome \<Rightarrow> ('f, 'a) outcome" where
  "omapErr h Panic = Panic"
| "omapErr h (Err e) = Err (h e)"
| "omapErr h (Ok x) = Ok x"

definition of_result :: "'e + 'a \<Rightarrow> ('e, 'a) outcome" where
  "of_result r = (case r of Inl e \<Rightarrow> Err e | Inr x \<Rightarrow> Ok x)"

definition deref :: "'a option \<Rightarrow> ('e, 'a) outcome" where
  "deref p = (case p of None \<Rightarrow> Panic | Some x \<Rightarrow> Ok x)"

lemma of_result_simps [simp]: "of_result (Inl e) = Err e" "of_result (Inr x) = Ok x"
  by (simp_all add: of_result_def)

lemma deref_simps [simp]: "deref None = Panic" "deref (Some x) = Ok x"
  by (simp_all add: deref_def)

lemma obind_eq_Ok: "obind r f = Ok y \<longleftrightarrow> (\<exists>x. r = Ok x \<and> f x = Ok y)"
  by (cases r) auto

subsection \<open>Request, response and pipeline\<close>

record ACLTraceRequest =
  q_UserID :: int
  q_Model :: string
  q_Operation :: string
  q_RecordID :: int
  q_UserData :: RecordData
  q_GroupData :: "RecordData list"
  q_RecordData :: RecordData

record ACLTraceResponse =
  t_Verdict :: string
  t_Stages :: "StageResult list"
  t_Suggestions :: "Suggestion list"

abbreviation verdictAllowed :: string where "verdictAllowed \<equiv> ''ALLOWED''"
abbreviation verdictDenied :: string where "verdictDenied \<equiv> ''DENIED''"

record aclPipeline =
  p_req :: ACLTraceRequest
  p_schema :: SchemaModels
  p_stages :: "StageResult list"
  p_user :: "ResolvedUser option"
  p_groups :: "ResolvedGroups option"
  p_op :: Operation

fun anyRefused :: "StageResult list \<Rightarrow> bool" where
  "anyRefused [] = False"
| "anyRefused (s # stages) =
     (if Verdict s = VerdictDenied \<or> Verdict s = VerdictError then True else anyRefused stages)"

definition buildResponse :: "unicode \<Rightarrow> StageResult list \<Rightarrow> ACLTraceResponse" where
  "buildResponse uni stages =
     (let verdict = (if anyRefused stages then verdictDenied else verdictAllowed)
      in \<lparr> t_Verdict = verdict, t_Stages = stages,
           t_Suggestions = (if verdict = verdictDenied then Generate uni stages else []) \<rparr>)"

subsection \<open>The steps\<close>

type_synonym step = "(msg, bool \<times> aclPipeline) outcome"

definition refused :: "StageResult \<Rightarrow> bool" where
  "refused st \<longleftrightarrow> Verdict st = VerdictDenied \<or> Verdict st = VerdictError"

definition resolveUser :: "aclPipeline \<Rightarrow> step" where
  "resolveUser p =
     obind (of_result (User_Resolve (p_schema p) (q_UserData (p_req p)))) (\<lambda>(user, userStage).
     let p' = p \<lparr> p_stages := p_stages p @ [userStage], p_user := user \<rparr> in
     if refused userStage then Ok (True, p')
     else obind (deref user) (\<lambda>u. Ok (IsSuperUser u, p')))"

definition resolveGroups :: "aclPipeline \<Rightarrow> step" where
  "resolveGroups p =
     obind (deref (p_user p)) (\<lambda>user.
     obind (of_result (Group_Resolve (p_schema p) user (q_GroupData (p_req p)))) (\<lambda>(groups, groupStage).
     Ok (refused groupStage, p \<lparr> p_stages := p_stages p @ [groupStage], p_groups := groups \<rparr>)))"

definition checkModelACL :: "aclPipeline \<Rightarrow> step" where
  "checkModelACL p =
     obind (deref (p_user p)) (\<lambda>user.
     obind (deref (p_groups p)) (\<lambda>groups.
     let aclStage = Model_Check (p_schema p) user groups (q_Model (p_req p)) (p_op p) in
     Ok (refused aclStage, p \<lparr> p_stages := p_stages p @ [aclStage] \<rparr>)))"

definition findRecordRules :: "aclPipeline \<Rightarrow> step" where
  "findRecordRules p =
     obind (deref (p_user p)) (\<lambda>user.
     obind (deref (p_groups p)) (\<lambda>groups.
     let ruleStage = Rule_Find (p_schema p) user groups (q_Model (p_req p)) (p_op p) in
     Ok (refused ruleStage \<or> Verdict ruleStage = VerdictSkipped, p \<lparr> p_stages := p_stages p @ [ruleStage] \<rparr>)))"

definition domainSkipped :: StageResult where
  "domainSkipped =
     \<lparr> Stage = ''domain'', Verdict = VerdictSkipped,
       Reason = [S (''no record_data provided '' @ emdash @ '' domain evaluation skipped (provide record_data to evaluate ir.rule domains)'')],
       Detail = NoDetail \<rparr>"

definition evaluateDomain :: "unicode \<Rightarrow> aclPipeline \<Rightarrow> step" where
  "evaluateDomain uni p =
     (if p_stages p = [] then Panic
      else case Detail (last (p_stages p)) of
             RulesDetail ruleDetail \<Rightarrow>
               if q_RecordData (p_req p) = [] then
                 Ok (True, p \<lparr> p_stages := p_stages p @ [domainSkipped] \<rparr>)
               else
                 obind (deref (p_user p)) (\<lambda>user.
                 let evalCtx = \<lparr> e_UserID = UID user, e_CompanyID = CompanyID user, e_CompanyIDs = CompanyIDs user \<rparr>;
                     domainStage = Evaluate uni ruleDetail (q_RecordData (p_req p)) evalCtx
                 in Ok (False, p \<lparr> p_stages := p_stages p @ [domainStage] \<rparr>))
           | _ \<Rightarrow> Ok (True, p))"

definition stageError :: "string \<Rightarrow> ('a \<Rightarrow> (msg, 'b) outcome) \<Rightarrow> 'a \<Rightarrow> (msg, 'b) outcome" where
  "stageError label f p = omapErr (\<lambda>e. [S (label @ '': '')] @ e) (f p)"

definition run :: "unicode \<Rightarrow> aclPipeline \<Rightarrow> (msg, ACLTraceResponse) outcome" where
  "run uni p0 =
     obind (stageError ''stage 1 (user)'' resolveUser p0) (\<lambda>(stop1, p1).
     if stop1 then Ok (buildResponse uni (p_stages p1)) else
     obind (stageError ''stage 2 (groups)'' resolveGroups p1) (\<lambda>(stop2, p2).
     if stop2 then Ok (buildResponse uni (p_stages p2)) else
     obind (stageError ''stage 3 (model_acl)'' checkModelACL p2) (\<lambda>(stop3, p3).
     if stop3 then Ok (buildResponse uni (p_stages p3)) else
     obind (stageError ''stage 4 (record_rule)'' findRecordRules p3) (\<lambda>(stop4, p4).
     if stop4 then Ok (buildResponse uni (p_stages p4)) else
     obind (stageError ''stage 5 (domain)'' (evaluateDomain uni) p4) (\<lambda>(_, p5).
     Ok (buildResponse uni (p_stages p5)))))))"

definition newPipeline :: "ACLTraceRequest \<Rightarrow> SchemaModels \<Rightarrow> aclPipeline" where
  "newPipeline req schema =
     \<lparr> p_req = req, p_schema = schema, p_stages = [], p_user = None, p_groups = None, p_op = q_Operation req \<rparr>"

subsection \<open>TraceAccess\<close>

datatype 'e service_error = PgError 'e | ErrInternal msg

definition TraceAccess ::
  "unicode \<Rightarrow> ('env \<Rightarrow> 'tenant \<Rightarrow> 'e + 'r) \<Rightarrow> ('env \<Rightarrow> 'e + 'bytes) \<Rightarrow> ('bytes \<Rightarrow> msg + SchemaModels) \<Rightarrow>
     'tenant \<Rightarrow> 'env \<Rightarrow> ACLTraceRequest \<Rightarrow> ('e service_error, ACLTraceResponse) outcome" where
  "TraceAccess uni GetEnvironmentByID GetLatestSchema Unmarshal tenantID envID req =
     obind (omapErr PgError (of_result (GetEnvironmentByID envID tenantID))) (\<lambda>_.
     obind (omapErr PgError (of_result (GetLatestSchema envID))) (\<lambda>models.
     obind (omapErr (\<lambda>e. ErrInternal ([S ''unmarshal schema models: ''] @ e)) (of_result (Unmarshal models))) (\<lambda>schema.
     omapErr ErrInternal (run uni (newPipeline req schema)))))"

end
