(* ===== verification/Acl_Decision.thy ===== *)
theory Acl_Decision
  imports Acl_Pipeline
begin

text \<open>
  The abstract access decision and the proof that the pipeline implements it. The specification
  speaks of the request and the schema snapshot only: group membership is reachability along
  \<^verbatim>\<open>implied_ids\<close>, model access is the existence of a granting \<^verbatim>\<open>ir.model.access\<close> rule, and record
  access is the conjunction of the global rules and the disjunction of the group rules.
\<close>

subsection \<open>Specification\<close>

definition memberOf :: "ResolvedUser \<Rightarrow> (int, GroupRecord) gomap \<Rightarrow> int \<Rightarrow> bool" where
  "memberOf u gb g \<longleftrightarrow> (\<exists>d \<in> set (GroupIDs u). (d, g) \<in> (implies gb)\<^sup>*)"

definition modelAccess :: "(int \<Rightarrow> bool) \<Rightarrow> Operation \<Rightarrow> SchemaModel \<Rightarrow> bool" where
  "modelAccess member op m \<longleftrightarrow>
     (\<exists>rule \<in> set (s_Accesses m).
        op \<in> accessOps rule \<and>
        (a_GroupID rule = ''0'' \<or> a_GroupID rule = [] \<or> (\<exists>g. ParseInt (a_GroupID rule) = Inr g \<and> member g)))"

definition recordAccess :: "(int \<Rightarrow> bool) \<Rightarrow> (string \<Rightarrow> bool) \<Rightarrow> Operation \<Rightarrow> SchemaModel \<Rightarrow> bool" where
  "recordAccess member ok op m \<longleftrightarrow>
     (let rules = {rule \<in> set (s_Rules m). ruleCovers op rule};
          globals = {rule \<in> rules. r_GroupIDs rule = []};
          grouped = {rule \<in> rules. r_GroupIDs rule \<noteq> []}
      in (\<forall>rule \<in> globals. ok (r_Domain rule)) \<and>
         (grouped = {} \<or> (\<exists>rule \<in> grouped. (\<exists>g \<in> set (r_GroupIDs rule). member g) \<and> ok (r_Domain rule))))"

definition contextOf :: "ResolvedUser \<Rightarrow> EvalContext" where
  "contextOf u = \<lparr> e_UserID = UID u, e_CompanyID = CompanyID u, e_CompanyIDs = CompanyIDs u \<rparr>"

text \<open>Without record data the domains are taken to hold: the trace then answers for the model.\<close>

definition domainOk :: "unicode \<Rightarrow> RecordData \<Rightarrow> EvalContext \<Rightarrow> string \<Rightarrow> bool" where
  "domainOk uni rcd ctx d \<longleftrightarrow> rcd = [] \<or> ruleHolds uni rcd ctx d"

definition userAccess :: "unicode \<Rightarrow> SchemaModels \<Rightarrow> ACLTraceRequest \<Rightarrow> ResolvedUser \<Rightarrow> bool" where
  "userAccess uni schema req u \<longleftrightarrow>
     map_of schema modelResGroups \<noteq> None \<and>
     (\<exists>gb m. parseGroupRecords (q_GroupData req) = Inr gb \<and> gb \<noteq> [] \<and> map_of schema (q_Model req) = Some m \<and>
        modelAccess (memberOf u gb) (q_Operation req) m \<and>
        recordAccess (memberOf u gb) (domainOk uni (q_RecordData req) (contextOf u)) (q_Operation req) m)"

definition accessGranted :: "unicode \<Rightarrow> SchemaModels \<Rightarrow> ACLTraceRequest \<Rightarrow> bool" where
  "accessGranted uni schema req \<longleftrightarrow>
     map_of schema modelResUsers \<noteq> None \<and> q_UserData req \<noteq> [] \<and>
     (\<exists>uid. extractInt (q_UserData req) ''id'' = Inr uid \<and> Active (userOf uid (q_UserData req)) \<and>
        (uid = 1 \<or> userAccess uni schema req (userOf uid (q_UserData req))))"

subsection \<open>The stages against the specification\<close>

lemma HasGroup_buildGroups: "HasGroup (buildGroups u gb) g \<longleftrightarrow> memberOf u gb g"
  by (auto simp: HasGroup_def memberOf_def)

lemma grantingRule_iff:
  "grantingRule (buildGroups u gb) op rule \<longleftrightarrow>
     op \<in> accessOps rule \<and>
     (a_GroupID rule = ''0'' \<or> a_GroupID rule = [] \<or>
      (\<exists>g. ParseInt (a_GroupID rule) = Inr g \<and> memberOf u gb g))"
  by (auto simp: grantingRule_def ruleApplies_def permForOp_iff HasGroup_buildGroups split: sum.splits)

lemma Model_Check_iff:
  assumes "\<not> IsSuperUser u" "map_of schema model = Some m"
  shows "Verdict (Model_Check schema u (buildGroups u gb) model op) =
    (if modelAccess (memberOf u gb) op m then VerdictOK else VerdictDenied)"
  using assms by (simp add: Model_Check_Verdict modelAccess_def grantingRule_iff)

lemma appliesTo_iff:
  "appliesTo (buildGroups u gb) rule \<longleftrightarrow>
     r_GroupIDs rule = [] \<or> (\<exists>g \<in> set (r_GroupIDs rule). memberOf u gb g)"
  by (simp add: appliesTo_def isGlobalRule_def HasGroup_buildGroups)

lemma set_coveringRules: "set (coveringRules op rules) = {rule \<in> set rules. ruleCovers op rule}"
  by (auto simp: coveringRules_def recordRulePermForOp_iff)

text \<open>The two record stages together: the finder did not refuse and the evaluator, if it ran, passed.\<close>

lemma recordAccess_noData:
  "recordAccess (memberOf u gb) (\<lambda>_. True) op m \<longleftrightarrow>
     \<not> noGroupMatches (buildGroups u gb) (coveringRules op (s_Rules m))"
  by (auto simp: recordAccess_def Let_def noGroupMatches_def set_coveringRules isGlobalRule_def appliesTo_iff)

lemma recordAccess_none:
  "coveringRules op (s_Rules m) = [] \<Longrightarrow> recordAccess member ok op m"
proof -
  assume "coveringRules op (s_Rules m) = []"
  then have "{rule \<in> set (s_Rules m). ruleCovers op rule} = {}"
    using set_coveringRules [of op "s_Rules m"] by simp
  then show ?thesis by (auto simp: recordAccess_def Let_def)
qed

lemma recordAccess_data:
  assumes "\<not> noGroupMatches (buildGroups u gb) (coveringRules op (s_Rules m))"
  shows "recordAccess (memberOf u gb) (ruleHolds uni rcd ctx) op m \<longleftrightarrow>
     globalHolds uni rcd ctx (rrd_GlobalRules (ruleDetailOf (buildGroups u gb) model op (s_Rules m))) \<and>
     groupHolds uni rcd ctx (rrd_GroupRules (ruleDetailOf (buildGroups u gb) model op (s_Rules m)))"
  using assms
  by (auto simp: recordAccess_def Let_def noGroupMatches_def set_coveringRules isGlobalRule_def appliesTo_iff
      globalHolds_def groupHolds_def ruleDetailOf_def)

subsection \<open>The runs of the pipeline\<close>

lemma anyRefused_iff: "anyRefused stages \<longleftrightarrow> (\<exists>s \<in> set stages. refused s)"
  by (induction stages) (auto simp: refused_def)

lemma t_Verdict_build [simp]:
  "t_Verdict (buildResponse uni stages) = (if anyRefused stages then verdictDenied else verdictAllowed)"
  "t_Stages (buildResponse uni stages) = stages"
  "t_Suggestions (buildResponse uni stages) = (if anyRefused stages then Generate uni stages else [])"
  by (simp_all add: buildResponse_def Let_def)

text \<open>The stages that run after the groups are resolved.\<close>

definition finalStages :: "unicode \<Rightarrow> SchemaModels \<Rightarrow> ACLTraceRequest \<Rightarrow> ResolvedUser \<Rightarrow> ResolvedGroups \<Rightarrow> StageResult list" where
  "finalStages uni schema req u rg =
     (let ms = Model_Check schema u rg (q_Model req) (q_Operation req);
          rs = Rule_Find schema u rg (q_Model req) (q_Operation req)
      in if refused ms then [ms]
         else if refused rs \<or> Verdict rs = VerdictSkipped then [ms, rs]
         else case Detail rs of
                RulesDetail rd \<Rightarrow>
                  [ms, rs, if q_RecordData req = [] then domainSkipped
                           else Evaluate uni rd (q_RecordData req) (contextOf u)]
              | _ \<Rightarrow> [ms, rs])"

lemma run_eq:
  "run uni (newPipeline req schema) =
     (case User_Resolve schema (q_UserData req) of
        Inl e \<Rightarrow> Err ([S ''stage 1 (user): ''] @ e)
      | Inr (uo, us) \<Rightarrow>
          if refused us then Ok (buildResponse uni [us])
          else case uo of
                 None \<Rightarrow> Panic
               | Some u \<Rightarrow>
                   if IsSuperUser u then Ok (buildResponse uni [us])
                   else case Group_Resolve schema u (q_GroupData req) of
                          Inl e \<Rightarrow> Err ([S ''stage 2 (groups): ''] @ e)
                        | Inr (go, gs) \<Rightarrow>
                            if refused gs then Ok (buildResponse uni [us, gs])
                            else case go of
                                   None \<Rightarrow> Panic
                                 | Some rg \<Rightarrow> Ok (buildResponse uni (us # gs # finalStages uni schema req u rg)))"
  by (auto simp: run_def newPipeline_def stageError_def resolveUser_def resolveGroups_def checkModelACL_def
      findRecordRules_def evaluateDomain_def finalStages_def contextOf_def Let_def
      split: sum.splits option.splits StageDetail.splits)

text \<open>The ways a run ends, with what the first two stages then know.\<close>

lemma run_cases [consumes 1, case_names user super groups final]:
  assumes "run uni (newPipeline req schema) = Ok resp"
  obtains (user) uo us where "User_Resolve schema (q_UserData req) = Inr (uo, us)" "refused us"
      "resp = buildResponse uni [us]"
  | (super) u us where "User_Resolve schema (q_UserData req) = Inr (Some u, us)" "Verdict us = VerdictOK"
      "IsSuperUser u" "resp = buildResponse uni [us]"
  | (groups) u us gs where "User_Resolve schema (q_UserData req) = Inr (Some u, us)" "Verdict us = VerdictOK"
      "\<not> IsSuperUser u" "Group_Resolve schema u (q_GroupData req) = Inr (None, gs)"
      "Verdict gs = VerdictError" "resp = buildResponse uni [us, gs]"
  | (final) u us gb gs where "User_Resolve schema (q_UserData req) = Inr (Some u, us)" "Verdict us = VerdictOK"
      "\<not> IsSuperUser u" "Group_Resolve schema u (q_GroupData req) = Inr (Some (buildGroups u gb), gs)"
      "Verdict gs = VerdictOK" "map_of schema modelResGroups \<noteq> None"
      "parseGroupRecords (q_GroupData req) = Inr gb" "gb \<noteq> []"
      "resp = buildResponse uni (us # gs # finalStages uni schema req u (buildGroups u gb))"
proof -
  from assms obtain uo us where u: "User_Resolve schema (q_UserData req) = Inr (uo, us)"
    by (auto simp: run_eq split: sum.splits)
  show ?thesis
  proof (cases "refused us")
    case True
    with u assms show ?thesis by (auto simp: run_eq intro: user)
  next
    case False
    with u have OK: "Verdict us = VerdictOK" by (auto elim!: User_Resolve_cases simp: refused_def)
    from u OK obtain v where v: "uo = Some v" by (rule User_Resolve_OK)
    show ?thesis
    proof (cases "IsSuperUser v")
      case True
      with u v OK False assms show ?thesis by (auto simp: run_eq intro: super)
    next
      case nosuper: False
      with u v False assms obtain go gs where g: "Group_Resolve schema v (q_GroupData req) = Inr (go, gs)"
        by (auto simp: run_eq split: sum.splits)
      from g show ?thesis
      proof (cases rule: Group_Resolve_cases)
        case super
        with nosuper show ?thesis by simp
      next
        case error
        with u v g OK nosuper False assms show ?thesis by (auto simp: run_eq refused_def intro: groups)
      next
        case (resolved gb)
        with u v g OK nosuper False assms show ?thesis by (auto simp: run_eq refused_def intro!: final)
      qed
    qed
  qed
qed

subsection \<open>The final stages against the specification\<close>

lemma finalStages_refused:
  assumes "\<not> IsSuperUser u"
  shows "anyRefused (finalStages uni schema req u (buildGroups u gb)) \<longleftrightarrow>
    \<not> (\<exists>m. map_of schema (q_Model req) = Some m \<and> modelAccess (memberOf u gb) (q_Operation req) m \<and>
         recordAccess (memberOf u gb) (domainOk uni (q_RecordData req) (contextOf u)) (q_Operation req) m)"
proof (cases "map_of schema (q_Model req)")
  case None
  then have "refused (Model_Check schema u (buildGroups u gb) (q_Model req) (q_Operation req))"
    using modelStage.run_missing [OF assms] by (simp add: refused_def)
  then show ?thesis using None by (simp add: finalStages_def Let_def refused_def)
next
  case (Some m)
  let ?op = "q_Operation req" and ?rg = "buildGroups u gb"
  let ?cov = "coveringRules ?op (s_Rules m)"
  note ms = Model_Check_iff [OF assms Some, of gb ?op]
  note rs = Rule_Find_known [OF assms Some, of ?rg ?op]
  have nodata: "domainOk uni [] ctx = (\<lambda>_. True)" for ctx by (simp add: domainOk_def [abs_def])
  have data: "domainOk uni (q_RecordData req) ctx = ruleHolds uni (q_RecordData req) ctx"
    if "q_RecordData req \<noteq> []" for ctx
    using that by (simp add: domainOk_def [abs_def])
  have "anyRefused (finalStages uni schema req u ?rg) \<longleftrightarrow>
      \<not> (modelAccess (memberOf u gb) ?op m \<and>
        recordAccess (memberOf u gb) (domainOk uni (q_RecordData req) (contextOf u)) ?op m)"
    (is "?L \<longleftrightarrow> \<not> (?M \<and> ?R)")
  proof (cases "?M \<and> ?cov \<noteq> [] \<and> \<not> noGroupMatches ?rg ?cov")
    case False
    have none: "recordAccess member ok ?op m" if "?cov = []" for member ok
      using that by (rule recordAccess_none)
    have deny: "\<not> recordAccess (memberOf u gb) ok ?op m" if "noGroupMatches ?rg ?cov" for ok
      using that by (auto simp: recordAccess_def Let_def noGroupMatches_def set_coveringRules
          isGlobalRule_def appliesTo_iff)
    from False show ?thesis
      using ms rs none deny by (auto simp: finalStages_def Let_def refused_def)
  next
    case True
    show ?thesis
    proof (cases "q_RecordData req = []")
      case True': True
      then show ?thesis
        using True ms rs recordAccess_noData [of u gb ?op m]
        by (simp add: finalStages_def Let_def refused_def domainSkipped_def nodata)
    next
      case False
      then show ?thesis
        using True ms rs recordAccess_data [of u gb ?op m uni "q_RecordData req" "contextOf u" "q_Model req"]
        by (simp add: finalStages_def Let_def refused_def Evaluate_Verdict data)
    qed
  qed
  then show ?thesis using Some by simp
qed

lemma IsSuperUser_userOf [simp]: "IsSuperUser (userOf uid d) \<longleftrightarrow> uid = 1"
  by (simp add: IsSuperUser_def)

end
