(* ===== verification/Acl_Trace.thy ===== *)
theory Acl_Trace
  imports Acl_Decision
begin

text \<open>
  The theorems on a whole trace: the verdict is the access decision of the specification, a trace
  never crashes and fails only on unreadable identifiers, its stages are in order, and a denial has
  suggestions. The last section evaluates them on a concrete snapshot.
\<close>

subsection \<open>Refinement\<close>

text \<open>
  C1: the pipeline implements the access decision. Whenever the five-stage pipeline returns a
  response, its verdict is ALLOWED if and only if the specification grants the access: the user
  record is present and active, and either it is the superuser or some \<^verbatim>\<open>ir.model.access\<close> rule
  grants the operation to one of the groups reachable through \<^verbatim>\<open>implied_ids\<close>, every global
  \<^verbatim>\<open>ir.rule\<close> that covers the operation holds on the record, and if group rules cover it, one of
  them matches the user's groups and holds.
\<close>

theorem pipeline_implements_access:
  assumes "run uni (newPipeline req schema) = Ok resp"
  shows "t_Verdict resp = verdictAllowed \<longleftrightarrow> accessGranted uni schema req"
  using assms
proof (cases rule: run_cases)
  case (user uo us)
  from user(1,2) have "\<not> accessGranted uni schema req"
    by (cases rule: User_Resolve_cases) (auto simp: accessGranted_def refused_def)
  with user show ?thesis by (simp add: refused_def)
next
  case (super u us)
  from super(1,2) obtain w where "Some u = Some w" and w: "Active w" "extractInt (q_UserData req) ''id'' = Inr (UID w)"
    "w = userOf (UID w) (q_UserData req)" "map_of schema modelResUsers \<noteq> None" "q_UserData req \<noteq> []"
    by (rule User_Resolve_OK) blast
  with super(3) have "UID w = 1" by (metis IsSuperUser_userOf option.inject)
  with w super show ?thesis by (auto simp: accessGranted_def)
next
  case (groups u us gs)
  from groups(1,2) obtain w where w: "Some u = Some w" "extractInt (q_UserData req) ''id'' = Inr (UID w)"
    "w = userOf (UID w) (q_UserData req)"
    by (rule User_Resolve_OK) blast
  have "UID w \<noteq> 1" using groups(3) w by (metis IsSuperUser_userOf option.inject)
  moreover have "\<not> userAccess uni schema req u"
    using groups(3,4,5) by (auto simp: userAccess_def Group_Resolve_def Let_def split: if_splits sum.splits)
  ultimately have "\<not> accessGranted uni schema req"
    using w by (auto simp: accessGranted_def)
  with groups show ?thesis by simp
next
  case (final u us gb gs)
  from final(1,2) obtain w where "Some u = Some w" and w: "Active w" "extractInt (q_UserData req) ''id'' = Inr (UID w)"
    "w = userOf (UID w) (q_UserData req)" "map_of schema modelResUsers \<noteq> None" "q_UserData req \<noteq> []"
    by (rule User_Resolve_OK) blast
  then have u: "u = w" by simp
  have "UID w \<noteq> 1" using final(3) w(3) u by (metis IsSuperUser_userOf)
  then have "accessGranted uni schema req \<longleftrightarrow> userAccess uni schema req u"
    using w(1,2,4,5) u by (simp add: accessGranted_def w(3) [symmetric] del: userOf_simps)
  moreover have "userAccess uni schema req u \<longleftrightarrow>
      \<not> anyRefused (finalStages uni schema req u (buildGroups u gb))"
    using final by (auto simp: userAccess_def finalStages_refused)
  ultimately show ?thesis using final by (simp add: refused_def)
qed

subsection \<open>Every run returns or reports an error\<close>

lemma run_not_Panic: "run uni (newPipeline req schema) \<noteq> Panic"
proof (cases "User_Resolve schema (q_UserData req)")
  case (Inl e)
  then show ?thesis by (simp add: run_eq)
next
  case (Inr r)
  obtain uo us where r: "r = (uo, us)" by force
  show ?thesis
  proof (cases "refused us")
    case True
    with Inr r show ?thesis by (simp add: run_eq)
  next
    case False
    with Inr r obtain u where u: "uo = Some u"
      by (auto elim!: User_Resolve_cases simp: refused_def)
    have "go \<noteq> None" if "Group_Resolve schema u (q_GroupData req) = Inr (go, gs)" "\<not> refused gs" for go gs
      using that by (auto elim!: Group_Resolve_cases simp: refused_def)
    with Inr r u False show ?thesis by (auto simp: run_eq split: sum.splits option.splits)
  qed
qed

lemma omapErr_Panic_iff: "omapErr h r = Panic \<longleftrightarrow> r = Panic"
  by (cases r) auto


lemma run_error_iff:
  "(\<exists>e. run uni (newPipeline req schema) = Err e) \<longleftrightarrow>
     map_of schema modelResUsers \<noteq> None \<and> q_UserData req \<noteq> [] \<and>
     (case extractInt (q_UserData req) ''id'' of
        Inl _ \<Rightarrow> True
      | Inr uid \<Rightarrow>
          extractBool (q_UserData req) ''active'' \<and> uid \<noteq> 1 \<and> map_of schema modelResGroups \<noteq> None \<and>
          (\<exists>e. parseGroupRecords (q_GroupData req) = Inl e))"
  by (auto simp: run_eq User_Resolve_def Group_Resolve_def Let_def refused_def
      split: sum.splits if_splits)


subsection \<open>Suggestions\<close>

lemma suggestUserFixes_nonempty: "suggestUserFixes uni st \<noteq> []"
  by (simp add: suggestUserFixes_def Let_def)

lemma Model_Check_denied:
  assumes "Verdict (Model_Check schema u rg model op) = VerdictDenied"
  shows "suggestModelACLFixes (Model_Check schema u rg model op) \<noteq> []"
proof -
  from assms obtain m where m: "\<not> IsSuperUser u" "map_of schema model = Some m"
    by (auto simp: Model_Check_Verdict split: if_splits option.splits)
  show ?thesis
  proof (cases "s_Accesses m")
    case Nil
    with m show ?thesis by (simp add: Model_Check_def suggestModelACLFixes_def)
  next
    case (Cons a as)
    obtain ms gr where cr: "checkRules rg op [] False (s_Accesses m) = (ms, gr)" by force
    have "\<not> gr" using assms m Cons cr
      by (auto simp: Model_Check_def Let_def split: if_splits)
    with checkRules_granted [of rg op "[]" False "s_Accesses m"] cr
    have "\<not> grantingRule rg op a" using Cons by auto
    with checkRules_matches [of rg op "[]" False "s_Accesses m"] cr Cons
    obtain x xs where "ms = x # xs" "\<not> m_Grants x" by auto
    with m Cons cr \<open>\<not> gr\<close> show ?thesis
      by (simp add: Model_Check_def suggestModelACLFixes_def Let_def classifyRules_eq)
  qed
qed

lemma Rule_Find_denied:
  assumes "Verdict (Rule_Find schema u rg model op) = VerdictDenied"
  shows "suggestRecordRuleFixes (Rule_Find schema u rg model op) \<noteq> []"
proof -
  from assms have s: "\<not> IsSuperUser u" using Rule_Find_super by auto
  with assms obtain m where m: "map_of schema model = Some m"
    using Rule_Find_unknown by (cases "map_of schema model") auto
  from assms have "noGroupMatches rg (coveringRules op (s_Rules m))"
    by (simp add: Rule_Find_known [OF s m] split: if_splits)
  then have "filter (\<lambda>r. \<not> rm_Applies r) (rrd_GroupRules (ruleDetailOf rg model op (s_Rules m))) \<noteq> []"
    "rrd_GroupRules (ruleDetailOf rg model op (s_Rules m)) \<noteq> []"
    by (auto simp: noGroupMatches_def ruleDetailOf_def filter_empty_conv)
  then show ?thesis
    using unmatchedRules_names [of "[]" "[]" "rrd_GroupRules (ruleDetailOf rg model op (s_Rules m))"]
    by (auto simp: suggestRecordRuleFixes_def Rule_Find_known [OF s m] split: prod.splits)
qed

lemma groupRulesLoop_results:
  "set results \<subseteq> set (fst (groupRulesLoop uni rules rcd ctx results has)) \<and>
   (\<forall>r \<in> set rules. rm_Applies r \<longrightarrow>
      evalRule uni (rm_Name r) (rm_Domain r) False rcd ctx \<in> set (fst (groupRulesLoop uni rules rcd ctx results has)))"
  by (induction uni rules rcd ctx results has rule: groupRulesLoop.induct) auto

lemma Evaluate_denied:
  assumes "Verdict (Evaluate uni rd rcd ctx) = VerdictDenied"
  shows "suggestDomainFixes uni (Evaluate uni rd rcd ctx) \<noteq> []"
proof -
  let ?gl = "map (\<lambda>r. evalRule uni (rm_Name r) (rm_Domain r) True rcd ctx) (filter rm_Applies (rrd_GlobalRules rd))"
  obtain rs gp hp where er: "evaluateRules uni rd rcd ctx = (rs, gp, hp)" by (cases "evaluateRules uni rd rcd ctx") auto
  then have rs: "rs = fst (groupRulesLoop uni (rrd_GroupRules rd) rcd ctx ?gl False)"
    by (auto simp: evaluateRules_def evaluateGlobalRules_eq evaluateGroupRules_def split: prod.splits)
  have pass: "gp = globalHolds uni rcd ctx (rrd_GlobalRules rd)" "hp = groupHolds uni rcd ctx (rrd_GroupRules rd)"
    using evaluateRules_pass [of uni rd rcd ctx] er by simp_all
  have inc: "set ?gl \<subseteq> set rs"
    "\<And>r. r \<in> set (rrd_GroupRules rd) \<Longrightarrow> rm_Applies r \<Longrightarrow>
       evalRule uni (rm_Name r) (rm_Domain r) False rcd ctx \<in> set rs"
    using groupRulesLoop_results [of ?gl uni "rrd_GroupRules rd" rcd ctx False] unfolding rs by blast+
  have gl: "\<exists>rr \<in> set rs. rr_Global rr \<and> \<not> rr_Pass rr" if ngp: "\<not> gp"
  proof -
    from ngp pass(1) obtain r where r: "r \<in> set (rrd_GlobalRules rd)" "rm_Applies r"
      "\<not> ruleHolds uni rcd ctx (rm_Domain r)" by (auto simp: globalHolds_def)
    then have "evalRule uni (rm_Name r) (rm_Domain r) True rcd ctx \<in> set ?gl" by auto
    with inc(1) have "evalRule uni (rm_Name r) (rm_Domain r) True rcd ctx \<in> set rs" by (rule subsetD)
    with r(3) show ?thesis by (intro bexI) auto
  qed
  have gr: "\<exists>rr \<in> set rs. \<not> rr_Global rr \<and> \<not> rr_Pass rr" if nhp: "\<not> hp"
  proof -
    from nhp pass(2) obtain r where r: "r \<in> set (rrd_GroupRules rd)" "rm_Applies r"
      "\<not> ruleHolds uni rcd ctx (rm_Domain r)" by (auto simp: groupHolds_def)
    from inc(2) [OF r(1,2)] r(3) show ?thesis by (intro bexI) auto
  qed
  have n: "\<not> (gp \<and> hp)" using assms er by (auto simp: Evaluate_def createSuccessResult_def Let_def)
  then have "Detail (Evaluate uni rd rcd ctx) = DomainDetail \<lparr> de_Model = rrd_Model rd,
      de_Operation = rrd_Operation rd, de_GlobalPass = gp, de_GroupPass = hp, de_RuleResults = rs \<rparr>"
    using er by (auto simp: Evaluate_def createFailureResult_def Let_def)
  then show ?thesis
    using gl gr n by (auto simp: suggestDomainFixes_def Let_def filter_empty_conv)
qed

text \<open>A refused stage of the three last ones has a suggestion.\<close>

lemma suggestForError_nonempty: "suggestForError st \<noteq> []"
  by (simp add: suggestForError_def)

lemma Generate_finalStages:
  "anyRefused (finalStages uni schema req u rg) \<Longrightarrow> Generate uni (finalStages uni schema req u rg) \<noteq> []"
proof -
  let ?ms = "Model_Check schema u rg (q_Model req) (q_Operation req)"
  let ?rs = "Rule_Find schema u rg (q_Model req) (q_Operation req)"
  have ms: "Generate uni [?ms] \<noteq> []" if "refused ?ms"
    using that Model_Check_denied [of schema u rg "q_Model req" "q_Operation req"] suggestForError_nonempty [of ?ms]
    by (auto simp: refused_def suggestForDenied_def Model_Check_Stage)
  have rs: "Generate uni [?rs] \<noteq> []" if "refused ?rs"
    using that Rule_Find_denied [of schema u rg "q_Model req" "q_Operation req"] suggestForError_nonempty [of ?rs]
    by (auto simp: refused_def suggestForDenied_def Rule_Find_Stage)
  have ev: "Generate uni [Evaluate uni rd d c] \<noteq> []" if "refused (Evaluate uni rd d c)" for rd d c
    using that Evaluate_denied [of uni rd d c] suggestForError_nonempty [of "Evaluate uni rd d c"]
    by (auto simp: refused_def suggestForDenied_def Evaluate_Stage)
  have two: "Generate uni [a, b] = Generate uni [a] @ Generate uni [b]" for a b
    using Generate_append [of uni "[a]" "[b]"] by simp
  have three: "Generate uni [a, b, c] = Generate uni [a] @ Generate uni [b] @ Generate uni [c]" for a b c
    using Generate_append [of uni "[a]" "[b, c]"] two [of b c] by simp
  assume "anyRefused (finalStages uni schema req u rg)"
  then show ?thesis
    using ms rs ev
    by (auto simp: finalStages_def Let_def anyRefused_iff two three refused_def domainSkipped_def
        simp del: Generate.simps split: if_splits StageDetail.splits)
qed

lemma run_suggestions:
  assumes "run uni (newPipeline req schema) = Ok resp"
  shows "t_Verdict resp = verdictDenied \<longleftrightarrow> t_Suggestions resp \<noteq> []"
  using assms
proof (cases rule: run_cases)
  case (user uo us)
  then have "Generate uni [us] \<noteq> []"
    using suggestForError_nonempty [of us] suggestUserFixes_nonempty [of uni us] User_Resolve_Stage [OF user(1)]
    by (auto simp: refused_def suggestForDenied_def)
  with user show ?thesis by (simp add: refused_def del: Generate.simps)
next
  case (groups u us gs)
  then show ?thesis using suggestForError_nonempty [of gs] by simp
next
  case (final u us gb gs)
  then show ?thesis
    using Generate_finalStages [of uni schema req u "buildGroups u gb"] by auto
qed simp


text \<open>
  a denial always comes with advice. In every response of the pipeline the verdict is DENIED if
  and only if the list of suggestions is not empty: no stage can refuse without the generator
  producing at least one fix for it, and an allowed access gets none.
\<close>

theorem denied_iff_suggestions:
  assumes "run uni (newPipeline req schema) = Ok resp"
  shows "t_Verdict resp = verdictDenied \<longleftrightarrow> t_Suggestions resp \<noteq> []"
  using assms by (rule run_suggestions)

subsection \<open>The order of the stages\<close>

abbreviation stageOrder :: "string list" where
  "stageOrder \<equiv> [stageUser, stageGroups, stageModelACL, stageRecordRule, stageDomain]"

lemma finalStages_order:
  "prefix (map Stage (finalStages uni schema req u rg)) [stageModelACL, stageRecordRule, stageDomain] \<and>
   (\<forall>s \<in> set (butlast (finalStages uni schema req u rg)). \<not> refused s)"
  by (auto simp: finalStages_def Let_def Model_Check_Stage Rule_Find_Stage Evaluate_Stage domainSkipped_def
      refused_def split: StageDetail.splits)

lemma finalStages_nonempty: "finalStages uni schema req u rg \<noteq> []"
  by (simp add: finalStages_def Let_def split: StageDetail.splits)

text \<open>
  the stages run in order and stop at the first refusal. The stages of a response are an initial
  segment of user, groups, model ACL, record rule, domain, and no stage but the last one is denied
  or in error.
\<close>

theorem stages_in_order:
  assumes "run uni (newPipeline req schema) = Ok resp"
  shows "prefix (map Stage (t_Stages resp)) stageOrder \<and>
    (\<forall>s \<in> set (butlast (t_Stages resp)). \<not> refused s)"
  using assms
proof (cases rule: run_cases)
  case (final u us gb gs)
  then show ?thesis
    using finalStages_order [of uni schema req u "buildGroups u gb"]
      finalStages_nonempty [of uni schema req u "buildGroups u gb"]
      User_Resolve_Stage [OF final(1)] Group_Resolve_Stage [OF final(4)]
    by (auto simp: refused_def)
qed (auto simp: User_Resolve_Stage Group_Resolve_Stage refused_def)

subsection \<open>A concrete trace\<close>

definition asciiOnly :: unicode where
  "asciiOnly = \<lparr> is_print = (\<lambda>_. False), to_lower = (\<lambda>r. r) \<rparr>"

definition exampleModel :: "string \<Rightarrow> SchemaAccessRule list \<Rightarrow> SchemaRecordRule list \<Rightarrow> SchemaModel" where
  "exampleModel name accs rules =
     \<lparr> s_Model = name, s_Name = name, s_Fields = [], s_Accesses = accs, s_Rules = rules \<rparr>"

definition exampleSchema :: SchemaModels where
  "exampleSchema =
     [(''res.users'', exampleModel ''res.users'' [] []), (''res.groups'', exampleModel ''res.groups'' [] []),
      (''sale.order'', exampleModel ''sale.order''
         [\<lparr> a_GroupID = ''11'', a_PermRead = True, a_PermWrite = False, a_PermCreate = False, a_PermUnlink = False \<rparr>]
         [\<lparr> r_Name = ''all'', r_GroupIDs = [], r_Domain = ''[]'',
            r_PermRead = True, r_PermWrite = True, r_PermCreate = True, r_PermUnlink = True \<rparr>])]"

definition exampleRequest :: "string \<Rightarrow> ACLTraceRequest" where
  "exampleRequest op =
     \<lparr> q_UserID = 7, q_Model = ''sale.order'', q_Operation = op, q_RecordID = 1,
       q_UserData = [(''id'', AInt 7), (''login'', AString ''eva''), (''active'', ABool True),
         (''company_id'', AList [AInt 3, AString ''Main'']), (''groups_id'', AList [AInt 10])],
       q_GroupData = [[(''id'', AInt 10), (''implied_ids'', AList [AInt 11])], [(''id'', AInt 11)]],
       q_RecordData = [(''company_id'', AInt 3)] \<rparr>"

lemma example_runs: "\<exists>resp. run asciiOnly (newPipeline (exampleRequest op) exampleSchema) = Ok resp"
proof -
  have "\<not> (\<exists>e. run asciiOnly (newPipeline (exampleRequest op) exampleSchema) = Err e)"
    by (simp add: run_error_iff exampleRequest_def exampleSchema_def extractInt_def parseGroupRecords_def)
  then show ?thesis
    using run_not_Panic [of asciiOnly "exampleRequest op" exampleSchema]
    by (cases "run asciiOnly (newPipeline (exampleRequest op) exampleSchema)") auto
qed

lemma example_groups:
  "parseGroupRecords (q_GroupData (exampleRequest op)) =
     Inr [(10, \<lparr> gr_ID = 10, gr_Name = [], gr_FullName = [], gr_ImpliedIDs = [11], gr_CategoryID = 0 \<rparr>),
          (11, \<lparr> gr_ID = 11, gr_Name = [], gr_FullName = [], gr_ImpliedIDs = [], gr_CategoryID = 0 \<rparr>)]"
  by (simp add: exampleRequest_def parseGroupRecords_def extractInt_def extractString_def extractIntSlice_def
      extractMany2OneID_def anyToInt_def)

lemma example_ParseInt: "ParseInt ''11'' = Inr 11"
  by code_simp

lemma example_Parse: "Parse ''[]'' = Inr MatchAllNode"
  by code_simp

lemma example_granted: "accessGranted asciiOnly exampleSchema (exampleRequest ''read'')"
proof -
  let ?u = "userOf 7 (q_UserData (exampleRequest ''read''))"
  have gids: "GroupIDs ?u = [10]"
    by (simp add: exampleRequest_def extractIntSlice_def anyToInt_def)
  obtain gb where gb: "parseGroupRecords (q_GroupData (exampleRequest ''read'')) = Inr gb" "gb \<noteq> []"
    "(10, 11) \<in> implies gb"
    by (rule that [OF example_groups]) (simp_all add: implies_def)
  have mem: "memberOf ?u gb 11" using gb(3) gids by (auto simp: memberOf_def)
  have "userAccess asciiOnly exampleSchema (exampleRequest ''read'') ?u"
    unfolding userAccess_def
  proof (intro conjI exI)
    show "parseGroupRecords (q_GroupData (exampleRequest ''read'')) = Inr gb" "gb \<noteq> []" by (rule gb)+
    show "map_of exampleSchema (q_Model (exampleRequest ''read'')) = Some (snd (exampleSchema ! 2))"
      by (simp add: exampleSchema_def exampleRequest_def)
    show "modelAccess (memberOf ?u gb) (q_Operation (exampleRequest ''read'')) (snd (exampleSchema ! 2))"
      using mem by (simp add: modelAccess_def exampleSchema_def exampleModel_def exampleRequest_def
          accessOps_def example_ParseInt)
    show "recordAccess (memberOf ?u gb) (domainOk asciiOnly (q_RecordData (exampleRequest ''read'')) (contextOf ?u))
        (q_Operation (exampleRequest ''read'')) (snd (exampleSchema ! 2))"
      by (simp add: recordAccess_def Let_def exampleSchema_def exampleModel_def domainOk_def ruleHolds_def example_Parse)
  qed (simp add: exampleSchema_def)
  then show ?thesis
    by (simp add: accessGranted_def) (simp add: exampleRequest_def exampleSchema_def extractInt_def extractBool_def)
qed

lemma pipeline_implements_access_witness:
  "\<exists>resp. run asciiOnly (newPipeline (exampleRequest ''read'') exampleSchema) = Ok resp \<and>
     t_Verdict resp = verdictAllowed"
  using example_runs [of "''read''"] pipeline_implements_access example_granted by blast

lemma denied_iff_suggestions_witness:
  "\<exists>resp. run asciiOnly (newPipeline (exampleRequest ''write'') exampleSchema) = Ok resp \<and>
     (t_Verdict resp = verdictDenied \<longleftrightarrow> t_Suggestions resp \<noteq> [])"
  using example_runs [of "''write''"] denied_iff_suggestions by blast

lemma stages_in_order_witness:
  "\<exists>resp. run asciiOnly (newPipeline (exampleRequest ''write'') exampleSchema) = Ok resp \<and>
     prefix (map Stage (t_Stages resp)) stageOrder"
  using example_runs [of "''write''"] stages_in_order by blast

end
