(* ===== verification/Domain_Roundtrip.thy ===== *)
theory Domain_Roundtrip
  imports Domain_Trees
begin

text \<open>
  Printing a domain and parsing it back. \<open>printDomain\<close> writes a tree as an Odoo domain string;
  the lexer turns the text into the expected tokens (up to their offsets) and the parser turns
  those into the tree.
\<close>

subsection \<open>Printing\<close>

definition escChar :: "char \<Rightarrow> string" where
  "escChar c = (if c = CHR 0x5C \<or> c = CHR 0x27 then [CHR 0x5C, c] else [c])"

definition quoteStr :: "string \<Rightarrow> string" where
  "quoteStr s = CHR 0x27 # concat (map escChar s) @ [CHR 0x27]"

abbreviation sep :: string where "sep \<equiv> '', ''"

fun printValue :: "DValue \<Rightarrow> string" where
  "printValue (StringValue s) = quoteStr s"
| "printValue (IntValue i) = Itoa i"
| "printValue (FloatValue f) = FormatFloat binary64 f"
| "printValue (BoolValue b) = (if b then ''True'' else ''False'')"
| "printValue NoneValue = ''None''"
| "printValue (ListValue vs) = ''['' @ JoinWith sep (map printValue vs) @ '']''"
| "printValue (TupleValue vs) = ''('' @ JoinWith sep (map printValue vs) @ '')''"
| "printValue (RefValue r) = r"

fun printElement :: "element \<Rightarrow> string" where
  "printElement (ELogic op) = quoteStr (LogicOp_string op)"
| "printElement (ENode (Condition f op v)) =
     ''('' @ quoteStr f @ sep @ quoteStr (Operator_string op) @ sep @ printValue v @ '')''"
| "printElement (ENode n) = []"

definition printDomain :: "Node \<Rightarrow> string" where
  "printDomain n =
     ''['' @ JoinWith sep (map printElement (if n = MatchAllNode then [] else flatten n)) @ '']''"

text \<open>
  What prints and reads back: the domain syntax has no exponents, so floats are left out; a string
  that is one of the logical operators is an operator to the lexer; a reference is an identifier
  that is not a keyword.
\<close>

definition plainString :: "string \<Rightarrow> bool" where
  "plainString s \<longleftrightarrow> s \<noteq> ''&'' \<and> s \<noteq> ''|'' \<and> s \<noteq> ''!''"

definition isReference :: "string \<Rightarrow> bool" where
  "isReference r \<longleftrightarrow> r \<noteq> [] \<and> isIdentStart (hd r) \<and> list_all isRefChar r \<and> keywordType r = TokenRef"

fun printableValue :: "DValue \<Rightarrow> bool" where
  "printableValue (StringValue s) = plainString s"
| "printableValue (IntValue i) = (int64_min \<le> i \<and> i \<le> int64_max)"
| "printableValue (FloatValue f) = False"
| "printableValue (BoolValue b) = True"
| "printableValue NoneValue = True"
| "printableValue (ListValue vs) = list_all printableValue vs"
| "printableValue (TupleValue vs) = list_all printableValue vs"
| "printableValue (RefValue r) = isReference r"

fun printableNode :: "Node \<Rightarrow> bool" where
  "printableNode (Condition f op v) = (plainString f \<and> printableValue v)"
| "printableNode (BoolOp op ns) = list_all printableNode ns"
| "printableNode MatchAllNode = True"

subsection \<open>Lexing printed text\<close>

type_synonym tok = "TokenType \<times> string"

definition strip :: "Token \<Rightarrow> tok" where
  "strip t = (Type t, Val t)"

definition delimited :: "string \<Rightarrow> bool" where
  "delimited rest \<longleftrightarrow> rest \<noteq> [] \<and> hd rest \<in> {CHR '']'', CHR '')'', CHR '',''}"

text \<open>
  \<open>lexPrefix P s toks\<close>: in front of any rest that satisfies \<open>P\<close>, the text \<open>s\<close> lexes as the tokens
  \<open>toks\<close>, and the lexer goes on with the rest.
\<close>

definition lexPrefix :: "(string \<Rightarrow> bool) \<Rightarrow> string \<Rightarrow> tok list \<Rightarrow> bool" where
  "lexPrefix P s toks \<longleftrightarrow>
     (\<forall>pos rest. P rest \<longrightarrow>
        (\<exists>ts p. map strip ts = toks \<and>
           (\<forall>us. lexRun p rest = Inr us \<longrightarrow> lexRun pos (s @ rest) = Inr (ts @ us))))"

abbreviation lexFree :: "string \<Rightarrow> tok list \<Rightarrow> bool" where
  "lexFree \<equiv> lexPrefix (\<lambda>_. True)"

abbreviation lexDelim :: "string \<Rightarrow> tok list \<Rightarrow> bool" where
  "lexDelim \<equiv> lexPrefix delimited"

lemma lexPrefixI:
  assumes "\<And>pos rest. P rest \<Longrightarrow>
    \<exists>ts p. map strip ts = toks \<and> (\<forall>us. lexRun p rest = Inr us \<longrightarrow> lexRun pos (s @ rest) = Inr (ts @ us))"
  shows "lexPrefix P s toks"
  using assms by (simp add: lexPrefix_def)

lemma lexPrefix_append:
  assumes "lexPrefix P s toks" "lexPrefix R s' toks'" "\<And>rest. R rest \<Longrightarrow> P (s' @ rest)"
  shows "lexPrefix R (s @ s') (toks @ toks')"
proof (rule lexPrefixI)
  fix pos rest assume R: "R rest"
  with assms(1,3) obtain ts p where 1: "map strip ts = toks"
    "\<And>us. lexRun p (s' @ rest) = Inr us \<Longrightarrow> lexRun pos (s @ s' @ rest) = Inr (ts @ us)"
    unfolding lexPrefix_def by blast
  from R assms(2) obtain ts' p' where 2: "map strip ts' = toks'"
    "\<And>us. lexRun p' rest = Inr us \<Longrightarrow> lexRun p (s' @ rest) = Inr (ts' @ us)"
    unfolding lexPrefix_def by blast
  have "map strip (ts @ ts') = toks @ toks' \<and>
      (\<forall>us. lexRun p' rest = Inr us \<longrightarrow> lexRun pos ((s @ s') @ rest) = Inr ((ts @ ts') @ us))"
    using 1 2 by auto
  then show "\<exists>ts p. map strip ts = toks @ toks' \<and>
      (\<forall>us. lexRun p rest = Inr us \<longrightarrow> lexRun pos ((s @ s') @ rest) = Inr (ts @ us))"
    by blast
qed

lemma lexFree_append: "lexFree s toks \<Longrightarrow> lexPrefix R s' toks' \<Longrightarrow> lexPrefix R (s @ s') (toks @ toks')"
  by (erule lexPrefix_append) auto

lemma lexDelim_append:
  "lexDelim s toks \<Longrightarrow> lexPrefix R s' toks' \<Longrightarrow> delimited s' \<Longrightarrow> lexPrefix R (s @ s') (toks @ toks')"
  by (erule lexPrefix_append) (auto simp: delimited_def)

lemma lexFree_Delim: "lexFree s toks \<Longrightarrow> lexDelim s toks"
  by (simp add: lexPrefix_def)

text \<open>A single token: the lexer skips no space before it and stops at the rest.\<close>

lemma lexPrefix_token:
  assumes "\<not> isSpaceByte c"
    and "\<And>pos rest. P rest \<Longrightarrow> \<exists>p. lexNextToken pos c (s @ rest) = Inr (Token ty v pos, p, rest)"
  shows "lexPrefix P (c # s) [(ty, v)]"
proof (rule lexPrefixI)
  fix pos rest assume "P rest"
  then obtain p where p: "lexNextToken pos c (s @ rest) = Inr (Token ty v pos, p, rest)"
    using assms(2) by blast
  have "lexRun pos ((c # s) @ rest) = Inr ([Token ty v pos] @ us)" if "lexRun p rest = Inr us" for us
    using that assms(1) p by (subst lexRun.simps) simp
  then show "\<exists>ts p. map strip ts = [(ty, v)] \<and>
      (\<forall>us. lexRun p rest = Inr us \<longrightarrow> lexRun pos ((c # s) @ rest) = Inr (ts @ us))"
    by (intro exI [of _ "[Token ty v pos]"] exI [of _ p]) (simp add: strip_def)
qed

lemma lexFree_simple:
  "lexFree ''['' [(TokenLBracket, ''['')]"
  "lexFree '']'' [(TokenRBracket, '']'')]"
  "lexFree ''('' [(TokenLParen, ''('')]"
  "lexFree '')'' [(TokenRParen, '')'')]"
  "lexFree '','' [(TokenComma, '','')]"
  by (auto intro!: lexPrefix_token
      simp: isSpaceByte_def lexNextToken_def lexSimpleToken_def simpleType_def)

lemma lexFree_space: "lexFree '' '' []"
proof (rule lexPrefixI)
  fix pos :: nat and rest :: string
  have "skipWhitespace pos ('' '' @ rest) = skipWhitespace (Suc pos) rest"
    by (simp add: isSpaceByte_def)
  then have "lexRun pos ('' '' @ rest) = lexRun (Suc pos) rest"
    by (simp only: lexRun.simps [of pos] lexRun.simps [of "Suc pos"])
  then show "\<exists>ts p. map strip ts = [] \<and>
      (\<forall>us. lexRun p rest = Inr us \<longrightarrow> lexRun pos ('' '' @ rest) = Inr (ts @ us))"
    by (intro exI [of _ "[]"] exI [of _ "Suc pos"]) simp
qed

lemma lexFree_sep: "lexFree sep [(TokenComma, '','')]"
  using lexFree_append [OF lexFree_simple(5) lexFree_space] by simp

lemma delimited_simps [simp]:
  "delimited sep" "delimited (sep @ s)" "delimited '']''" "delimited '')''"
  by (simp_all add: delimited_def)

subsection \<open>Quoted strings\<close>

lemma lexStringLoop_esc:
  "\<exists>p. lexStringLoop (CHR 0x27) pos sb (concat (map escChar s) @ CHR 0x27 # rest) = Inr (sb @ s, p, rest)"
proof (induction s arbitrary: pos sb)
  case Nil
  show ?case by (cases rest) auto
next
  case (Cons c s)
  show ?case
  proof (cases "c = CHR 0x5C \<or> c = CHR 0x27")
    case True
    with Cons [of "pos + 2" "sb @ [c]"] show ?thesis
      by (auto simp: escChar_def unescape_def)
  next
    case False
    obtain d r where dr: "concat (map escChar s) @ CHR 0x27 # rest = d # r"
      by (cases "concat (map escChar s)") auto
    have "escChar c = [c]" using False by (simp add: escChar_def)
    with Cons [of "Suc pos" "sb @ [c]"] False dr show ?thesis by simp
  qed
qed

lemma lexFree_quoteStr: "lexFree (quoteStr s) [(stringType s, s)]"
proof -
  have "\<exists>p. lexNextToken pos (CHR 0x27) ((concat (map escChar s) @ [CHR 0x27]) @ rest) =
      Inr (Token (stringType s) s pos, p, rest)" for pos rest
    using lexStringLoop_esc [of "Suc pos" "[]" s rest]
    by (auto simp: lexNextToken_def lexString_def)
  then show ?thesis
    unfolding quoteStr_def by (intro lexPrefix_token) (auto simp: isSpaceByte_def)
qed

lemma stringType_plain: "plainString s \<Longrightarrow> stringType s = TokenString"
  by (simp add: plainString_def stringType_def)

subsection \<open>Integers and references\<close>

lemma delimited_cases:
  assumes "delimited rest"
  obtains c r where "rest = c # r" "c \<in> {CHR '']'', CHR '')'', CHR '',''}"
  using assms by (cases rest) (auto simp: delimited_def)

lemma lexNumberLoop_digits:
  assumes "list_all isDigit ds" "delimited rest"
  shows "lexNumberLoop False (ds @ rest) = (ds, False, rest)"
  using assms(1)
proof (induction ds)
  case Nil
  from assms(2) show ?case by (auto simp: isDigit_def elim!: delimited_cases)
next
  case (Cons d ds)
  then show ?case by (auto simp: isDigit_not_sign)
qed

lemma digits_not_bad:
  "list_all isDigit ds \<Longrightarrow> ds \<noteq> [] \<Longrightarrow> ds \<notin> {''.'', ''-'', ''+'', ''-.'', ''+.''} \<and>
     CHR ''-'' # ds \<notin> {''.'', ''-'', ''+'', ''-.'', ''+.''}"
  by (cases ds) (auto simp: isDigit_def)

lemma isDigit_classes:
  assumes "isDigit c"
  shows "\<not> isSpaceByte c" "c \<notin> {CHR ''['', CHR '']'', CHR ''('', CHR '')'', CHR '',''}"
    "c \<noteq> CHR 0x27" "c \<noteq> CHR 0x22" "c \<noteq> CHR ''-''" "c \<noteq> CHR ''+''"
  using assms by (auto simp: isDigit_def isSpaceByte_def)

lemma lexDelim_Itoa: "lexDelim (Itoa i) [(TokenInt, Itoa i)]"
proof (cases "i < 0")
  case True
  define ds where "ds = decDigits (- i)"
  have ds: "list_all isDigit ds" "ds \<noteq> []" using True by (auto simp: ds_def decDigits_isDigit)
  have "\<exists>p. lexNextToken pos (CHR ''-'') (ds @ rest) = Inr (Token TokenInt (CHR ''-'' # ds) pos, p, rest)"
    if "delimited rest" for pos rest
  proof -
    have "isDigit (hd (ds @ rest))" "ds @ rest \<noteq> []" using ds by (cases ds; simp)+
    then have "lexNextToken pos (CHR ''-'') (ds @ rest) = lexNumber pos (CHR ''-'' # ds @ rest)"
      by (simp add: lexNextToken_def lexSignedNumber_def)
    then show ?thesis
      using lexNumberLoop_digits [OF ds(1) that] digits_not_bad [OF ds] by (simp add: lexNumber_def)
  qed
  then show ?thesis
    using True lexPrefix_token [of "CHR ''-''" delimited ds TokenInt "CHR ''-'' # ds"]
    by (simp add: Itoa_def ds_def isSpaceByte_def)
next
  case False
  then obtain d ds where eq: "decDigits i = d # ds" "isDigit d" "list_all isDigit (d # ds)"
    using decDigits_isDigit [of i] by (cases "decDigits i") auto
  have "\<exists>p. lexNextToken pos d (ds @ rest) = Inr (Token TokenInt (d # ds) pos, p, rest)"
    if "delimited rest" for pos rest
  proof -
    have "lexNextToken pos d (ds @ rest) = lexNumber pos ((d # ds) @ rest)"
      using isDigit_classes [OF eq(2)] eq(2) by (simp add: lexNextToken_def lexComplexToken_def)
    then show ?thesis
      using lexNumberLoop_digits [OF eq(3) that] digits_not_bad [OF eq(3)] isDigit_classes [OF eq(2)]
      by (simp add: lexNumber_def)
  qed
  then show ?thesis
    using False lexPrefix_token [of d delimited ds TokenInt "d # ds"] isDigit_classes [OF eq(2)] eq(1)
    by (simp add: Itoa_def)
qed

lemma takeWhile_ref:
  assumes "list_all isRefChar r" "delimited rest"
  shows "takeWhile isRefChar (r @ rest) = r" "dropWhile isRefChar (r @ rest) = rest"
proof -
  from assms(2) obtain c q where rest: "rest = c # q" and c: "c \<in> {CHR '']'', CHR '')'', CHR '',''}"
    by (rule delimited_cases)
  from c have n: "\<not> isRefChar c"
    by (auto simp: isRefChar_def isIdentPart_def isIdentStart_def isDigit_def)
  have "\<And>x. x \<in> set r \<Longrightarrow> isRefChar x" using assms(1) by (simp add: list_all_iff)
  then have "takeWhile isRefChar (r @ rest) = r @ takeWhile isRefChar rest"
    "dropWhile isRefChar (r @ rest) = dropWhile isRefChar rest"
    by (simp_all add: takeWhile_append2 dropWhile_append2)
  with n rest show "takeWhile isRefChar (r @ rest) = r" "dropWhile isRefChar (r @ rest) = rest"
    by simp_all
qed

lemma isIdentStart_classes:
  assumes "isIdentStart c"
  shows "\<not> isSpaceByte c" "c \<notin> {CHR ''['', CHR '']'', CHR ''('', CHR '')'', CHR '',''}"
    "c \<noteq> CHR 0x27" "c \<noteq> CHR 0x22" "c \<noteq> CHR ''-''" "c \<noteq> CHR ''+''" "\<not> isDigit c" "c \<noteq> CHR ''.''"
  using assms by (auto simp: isIdentStart_def isSpaceByte_def isDigit_def)

lemma lexDelim_word:
  assumes "isIdentStart c" "list_all isRefChar (c # r)"
  shows "lexDelim (c # r) [(keywordType (c # r), c # r)]"
proof (rule lexPrefix_token)
  show "\<not> isSpaceByte c" by (rule isIdentStart_classes(1) [OF assms(1)])
next
  fix pos rest assume "delimited rest"
  from takeWhile_ref [OF assms(2) this]
  show "\<exists>p. lexNextToken pos c (r @ rest) = Inr (Token (keywordType (c # r)) (c # r) pos, p, rest)"
    using isIdentStart_classes [OF assms(1)] assms(1)
    by (simp add: lexNextToken_def lexComplexToken_def lexIdentOrKeyword_def Let_def)
qed

subsection \<open>The tokens of a printed domain\<close>

abbreviation comma :: tok where "comma \<equiv> (TokenComma, '','')"

fun valueToks :: "DValue \<Rightarrow> tok list" where
  "valueToks (StringValue s) = [(TokenString, s)]"
| "valueToks (IntValue i) = [(TokenInt, Itoa i)]"
| "valueToks (FloatValue f) = []"
| "valueToks (BoolValue b) = [if b then (TokenTrue, ''True'') else (TokenFalse, ''False'')]"
| "valueToks NoneValue = [(TokenNone, ''None'')]"
| "valueToks (ListValue vs) =
     (TokenLBracket, ''['') # JoinWith [comma] (map valueToks vs) @ [(TokenRBracket, '']'')]"
| "valueToks (TupleValue vs) =
     (TokenLParen, ''('') # JoinWith [comma] (map valueToks vs) @ [(TokenRParen, '')'')]"
| "valueToks (RefValue r) = [(TokenRef, r)]"

fun elementToks :: "element \<Rightarrow> tok list" where
  "elementToks (ELogic op) =
     [(case op of LogicAnd \<Rightarrow> TokenAnd | LogicOr \<Rightarrow> TokenOr | LogicNot \<Rightarrow> TokenNot, LogicOp_string op)]"
| "elementToks (ENode (Condition f op v)) =
     [(TokenLParen, ''(''), (TokenString, f), comma, (TokenString, Operator_string op), comma]
     @ valueToks v @ [(TokenRParen, '')'')]"
| "elementToks (ENode n) = []"

text \<open>A joined sequence of texts lexes as the joined sequence of their tokens.\<close>

lemma lexDelim_Join:
  "list_all2 lexDelim ss tss \<Longrightarrow> ss \<noteq> [] \<Longrightarrow> lexDelim (JoinWith sep ss) (JoinWith [comma] tss)"
proof (induction ss arbitrary: tss rule: induct_list012)
  case (2 x)
  then show ?case by (auto simp: list_all2_Cons1)
next
  case (3 x y xs)
  then obtain tx ty txs where ts: "tss = tx # ty # txs" "lexDelim x tx"
    "list_all2 lexDelim (y # xs) (ty # txs)"
    by (auto simp: list_all2_Cons1)
  with 3 have rest: "lexDelim (JoinWith sep (y # xs)) (JoinWith [comma] (ty # txs))" by simp
  have "lexDelim (sep @ JoinWith sep (y # xs)) ([comma] @ JoinWith [comma] (ty # txs))"
    by (rule lexFree_append [OF lexFree_sep rest])
  then have "lexDelim (x @ sep @ JoinWith sep (y # xs)) (tx @ [comma] @ JoinWith [comma] (ty # txs))"
    by (rule lexDelim_append [OF ts(2)]) (simp add: delimited_def)
  then show ?case using ts by simp
qed simp

lemma lexFree_bracketed:
  assumes "list_all2 lexDelim ss tss" "lexFree op [to]" "lexFree cl [tc]" "delimited cl"
  shows "lexFree (op @ JoinWith sep ss @ cl) (to # JoinWith [comma] tss @ [tc])"
proof (cases "ss = []")
  case True
  with assms(1) lexFree_append [OF assms(2,3)] show ?thesis by simp
next
  case False
  have "lexFree (JoinWith sep ss @ cl) (JoinWith [comma] tss @ [tc])"
    by (rule lexDelim_append [OF lexDelim_Join [OF assms(1) False] assms(3,4)])
  from lexFree_append [OF assms(2) this] show ?thesis by simp
qed

lemma lexDelim_keyword:
  "lexDelim ''True'' [(TokenTrue, ''True'')]" "lexDelim ''False'' [(TokenFalse, ''False'')]"
  "lexDelim ''None'' [(TokenNone, ''None'')]"
  using lexDelim_word [of "CHR ''T''" "''rue''"] lexDelim_word [of "CHR ''F''" "''alse''"]
    lexDelim_word [of "CHR ''N''" "''one''"]
  by (simp_all add: isIdentStart_def isRefChar_def isIdentPart_def keywordType_def)

lemma lexDelim_value: "printableValue v \<Longrightarrow> lexDelim (printValue v) (valueToks v)"
proof (induction v)
  case (StringValue s)
  then show ?case
    using lexFree_Delim [OF lexFree_quoteStr [of s]] by (simp add: stringType_plain)
next
  case (ListValue vs)
  then have "list_all2 lexDelim (map printValue vs) (map valueToks vs)"
    by (auto simp: list_all_iff list_all2_map1 list_all2_map2 intro!: list.rel_refl_strong)
  from lexFree_bracketed [OF this lexFree_simple(1,2)] show ?case
    by (simp add: lexFree_Delim)
next
  case (TupleValue vs)
  then have "list_all2 lexDelim (map printValue vs) (map valueToks vs)"
    by (auto simp: list_all_iff list_all2_map1 list_all2_map2 intro!: list.rel_refl_strong)
  from lexFree_bracketed [OF this lexFree_simple(3,4)] show ?case
    by (simp add: lexFree_Delim)
next
  case (RefValue r)
  then obtain c q where "r = c # q" "isIdentStart c" by (cases r) (auto simp: isReference_def)
  with RefValue lexDelim_word [of c q] show ?case by (simp add: isReference_def)
qed (simp_all add: lexDelim_Itoa lexDelim_keyword)

definition printableElement :: "element \<Rightarrow> bool" where
  "printableElement el \<longleftrightarrow>
     (case el of ELogic _ \<Rightarrow> True
      | ENode n \<Rightarrow> printableNode n \<and> (\<exists>f op v. n = Condition f op v))"

lemma plainString_operator: "plainString (Operator_string op)"
  by (cases op) (simp_all add: plainString_def)

lemma lexFree_element: "printableElement el \<Longrightarrow> lexFree (printElement el) (elementToks el)"
proof (cases el)
  case (ELogic op)
  then show ?thesis
    using lexFree_quoteStr [of "LogicOp_string op"] by (cases op) (simp_all add: stringType_def)
next
  case (ENode n)
  assume "printableElement el"
  with ENode obtain f op v where n: "n = Condition f op v" "plainString f" "printableValue v"
    by (auto simp: printableElement_def)
  have "lexFree (printValue v @ '')'') (valueToks v @ [(TokenRParen, '')'')])"
    by (rule lexDelim_append [OF lexDelim_value [OF n(3)] lexFree_simple(4)]) simp
  note lexFree_append [OF lexFree_simple(3)
      lexFree_append [OF lexFree_quoteStr [of f]
        lexFree_append [OF lexFree_sep
          lexFree_append [OF lexFree_quoteStr [of "Operator_string op"]
            lexFree_append [OF lexFree_sep this]]]]]
  then show ?thesis
    using ENode n by (simp add: stringType_plain plainString_operator)
qed

lemma Lex_bracketed:
  assumes "\<forall>el \<in> set els. printableElement el"
  shows "\<exists>ts p. Lex (''['' @ JoinWith sep (map printElement els) @ '']'') = Inr (ts @ [Token TokenEOF [] p]) \<and>
    map strip ts = (TokenLBracket, ''['') # JoinWith [comma] (map elementToks els) @ [(TokenRBracket, '']'')]"
proof -
  have "list_all2 lexDelim (map printElement els) (map elementToks els)"
    using assms by (auto simp: list_all2_map1 list_all2_map2 lexFree_Delim lexFree_element
        intro!: list.rel_refl_strong)
  from lexFree_bracketed [OF this lexFree_simple(1,2)]
  have lf: "lexFree (''['' @ JoinWith sep (map printElement els) @ '']'')
      ((TokenLBracket, ''['') # JoinWith [comma] (map elementToks els) @ [(TokenRBracket, '']'')])"
    by simp
  have "lexRun p [] = Inr [Token TokenEOF [] p]" for p
    by (subst lexRun.simps) simp
  with lf [unfolded lexPrefix_def, THEN spec [of _ 0], THEN spec [of _ "[]"]]
  show ?thesis by (auto simp: Lex_def)
qed

subsection \<open>Parsing the tokens of a printed domain\<close>

lemma peek_strip: "peek (t # ts) = t" "advance (t # ts) = ts"
  by (simp_all add: peek_def advance_def)

lemma check_strip: "check ty (t # ts) \<longleftrightarrow> fst (strip t) = ty"
  by (simp add: check_def peek_strip strip_def)

lemma consumeIf_comma: "strip t = comma \<Longrightarrow> consumeIf TokenComma (t # ts) = ts"
  by (simp add: consumeIf_def check_strip peek_strip)

lemma expect_strip: "strip t = (ty, s) \<Longrightarrow> expect ty (t # ts) = Inr ts"
  by (simp add: expect_def peek_strip strip_def)

lemma expectString_strip: "strip t = (TokenString, s) \<Longrightarrow> expectString (t # ts) = Inr (s, ts)"
  by (simp add: expectString_def peek_strip strip_def)

lemmas token_simps = peek_strip check_strip consumeIf_comma expect_strip expectString_strip

lemma JoinWith_concat: "JoinWith s (x # xs) = x @ concat (map (\<lambda>y. s @ y) xs)"
  by (induction xs arbitrary: x) auto

lemma strip_pair: "strip t = (ty, s) \<longleftrightarrow> Type t = ty \<and> Val t = s"
  by (simp add: strip_def)

lemma map_splitE:
  assumes "map f ts = a @ b"
  obtains us ws where "ts = us @ ws" "map f us = a" "map f ws = b"
  using assms by (auto simp: map_eq_append_conv)

lemma map_consE:
  assumes "map f ts = x # a @ b"
  obtains c us ws where "ts = c # us @ ws" "f c = x" "map f us = a" "map f ws = b"
  using assms by (auto simp: map_eq_Cons_conv elim!: map_splitE)

lemma valueToks_head:
  "printableValue v \<Longrightarrow> \<exists>ty s toks. valueToks v = (ty, s) # toks \<and>
     ty \<notin> {TokenRBracket, TokenRParen, TokenEOF, TokenComma}"
  by (cases v) auto

definition readsValue :: "DValue \<Rightarrow> bool" where
  "readsValue v \<longleftrightarrow> (\<forall>ts rest. map strip ts = valueToks v \<longrightarrow> parseValue (ts @ rest) = Inr (v, rest))"

lemma parseItemsLoop_close:
  "strip t = (closer, s) \<Longrightarrow> parseItemsLoop closer acc (t # rest) = Inr (acc, rest)"
  by (subst parseItemsLoop.simps) (simp add: token_simps)

lemma parseItemsLoop_value:
  assumes "readsValue v" "printableValue v" "map strip us = valueToks v"
    "closer \<in> {TokenRBracket, TokenRParen}"
  shows "parseItemsLoop closer [] (us @ rest) = parseItemsLoop closer [v] rest"
    and "strip c = comma \<Longrightarrow> acc \<noteq> [] \<Longrightarrow>
      parseItemsLoop closer acc (c # us @ rest) = parseItemsLoop closer (acc @ [v]) rest"
proof -
  from valueToks_head [OF assms(2)] assms(3) obtain u us' where u: "us = u # us'"
    "fst (strip u) \<notin> {TokenRBracket, TokenRParen, TokenEOF, TokenComma}"
    by (cases us) auto
  have p: "parseValue (us @ rest) = Inr (v, rest)" using assms(1,3) by (simp add: readsValue_def)
  show "parseItemsLoop closer [] (us @ rest) = parseItemsLoop closer [v] rest"
    using u assms(4) p by (subst parseItemsLoop.simps) (auto simp: token_simps)
  show "parseItemsLoop closer acc (c # us @ rest) = parseItemsLoop closer (acc @ [v]) rest"
    if "strip c = comma" "acc \<noteq> []"
    using u assms(4) p that by (subst parseItemsLoop.simps) (auto simp: token_simps)
qed

lemma parseItemsLoop_tail:
  assumes "\<forall>v \<in> set vs. readsValue v \<and> printableValue v" "closer \<in> {TokenRBracket, TokenRParen}"
    "acc \<noteq> []" "map strip ts = concat (map (\<lambda>v. [comma] @ valueToks v) vs) @ [(closer, s)]"
  shows "parseItemsLoop closer acc (ts @ rest) = Inr (acc @ vs, rest)"
  using assms
proof (induction vs arbitrary: acc ts)
  case Nil
  then show ?case by (auto simp: parseItemsLoop_close)
next
  case (Cons v vs)
  from Cons.prems(4)
  have "map strip ts = comma # valueToks v @ (concat (map (\<lambda>v. [comma] @ valueToks v) vs) @ [(closer, s)])"
    by simp
  then obtain c us ws where ts: "ts = c # us @ ws" "strip c = comma" "map strip us = valueToks v"
    "map strip ws = concat (map (\<lambda>v. [comma] @ valueToks v) vs) @ [(closer, s)]"
    by (rule map_consE)
  have "parseItemsLoop closer acc (ts @ rest) = parseItemsLoop closer (acc @ [v]) (ws @ rest)"
    using parseItemsLoop_value(2) [of v us closer c acc "ws @ rest"] Cons.prems ts by simp
  also have "\<dots> = Inr (acc @ v # vs, rest)"
    using Cons.IH [of "acc @ [v]" ws] Cons.prems ts by simp
  finally show ?case .
qed

lemma parseItemsLoop_values:
  assumes "\<forall>v \<in> set vs. readsValue v \<and> printableValue v" "closer \<in> {TokenRBracket, TokenRParen}"
    "map strip ts = JoinWith [comma] (map valueToks vs) @ [(closer, s)]"
  shows "parseItemsLoop closer [] (ts @ rest) = Inr (vs, rest)"
proof (cases vs)
  case Nil
  with assms show ?thesis by (auto simp: parseItemsLoop_close)
next
  case (Cons v vs')
  with assms(3)
  have "map strip ts = valueToks v @ (concat (map (\<lambda>v. [comma] @ valueToks v) vs') @ [(closer, s)])"
    by (simp add: JoinWith_concat comp_def)
  then obtain us ws where ts: "ts = us @ ws" "map strip us = valueToks v"
    "map strip ws = concat (map (\<lambda>v. [comma] @ valueToks v) vs') @ [(closer, s)]"
    by (rule map_splitE)
  with parseItemsLoop_tail [of vs' closer "[v]" ws s rest] parseItemsLoop_value(1) [of v us closer "ws @ rest"]
    assms Cons
  show ?thesis by simp
qed

lemma readsValue: "printableValue v \<Longrightarrow> readsValue v"
proof (induction v)
  case (IntValue i)
  then show ?case
    by (auto simp: readsValue_def map_eq_Cons_conv parseValue.simps Let_def token_simps strip_pair ParseInt_Itoa)
next
  case (ListValue vs)
  then have "\<forall>v \<in> set vs. readsValue v \<and> printableValue v" by (auto simp: list_all_iff)
  from parseItemsLoop_values [OF this, of TokenRBracket] show ?case
    by (auto simp: readsValue_def Cons_eq_map_conv map_eq_Cons_conv parseValue.simps Let_def token_simps strip_pair)
next
  case (TupleValue vs)
  then have "\<forall>v \<in> set vs. readsValue v \<and> printableValue v" by (auto simp: list_all_iff)
  from parseItemsLoop_values [OF this, of TokenRParen] show ?case
    by (auto simp: readsValue_def Cons_eq_map_conv map_eq_Cons_conv parseValue.simps Let_def token_simps strip_pair)
qed (auto simp: readsValue_def map_eq_Cons_conv parseValue.simps Let_def token_simps strip_pair)

lemma parseOperator_string: "parseOperator (Operator_string op) = Inr op"
  by (cases op) (simp_all add: parseOperator_def operatorMap_def)

lemma parseElement_toks:
  assumes "printableElement el" "map strip ts = elementToks el"
  shows "parseElement (ts @ rest) = Inr (el, rest)"
proof (cases el)
  case (ELogic op)
  with assms(2) show ?thesis
    by (cases op) (auto simp: parseElement_def Let_def map_eq_Cons_conv token_simps strip_pair)
next
  case (ENode n)
  with assms(1) obtain f op v where n: "n = Condition f op v" "printableValue v"
    by (auto simp: printableElement_def)
  with ENode assms(2) obtain a b c d e us z where ts: "ts = a # b # c # d # e # us @ [z]"
    "strip a = (TokenLParen, ''('')" "strip b = (TokenString, f)" "strip c = comma"
    "strip d = (TokenString, Operator_string op)" "strip e = comma" "strip z = (TokenRParen, '')'')"
    "map strip us = valueToks v"
    by (auto simp: map_eq_append_conv map_eq_Cons_conv)
  have "parseValue (us @ z # rest) = Inr (v, z # rest)"
    using readsValue [OF n(2)] ts(8) by (simp add: readsValue_def)
  with ts n have "parseCondition (ts @ rest) = Inr (n, rest)"
    by (simp add: parseCondition_def token_simps parseOperator_string)
  moreover have "Type (peek (ts @ rest)) = TokenLParen" using ts by (simp add: token_simps strip_pair)
  ultimately show ?thesis using ENode by (simp add: parseElement_def Let_def)
qed

lemma elementToks_head:
  "printableElement el \<Longrightarrow> \<exists>ty s toks. elementToks el = (ty, s) # toks \<and>
     ty \<notin> {TokenRBracket, TokenRParen, TokenEOF, TokenComma}"
  by (cases el) (auto simp: printableElement_def split: LogicOp.splits)

lemma parseElements_step:
  assumes "printableElement el" "map strip us = elementToks el"
  shows "parseElements [] (us @ rest) = parseElements [el] rest"
    and "strip c = comma \<Longrightarrow> acc \<noteq> [] \<Longrightarrow>
      parseElements acc (c # us @ rest) = parseElements (acc @ [el]) rest"
proof -
  from elementToks_head [OF assms(1)] assms(2) obtain u us' where u: "us = u # us'"
    "fst (strip u) \<notin> {TokenRBracket, TokenRParen, TokenEOF, TokenComma}"
    by (cases us) auto
  note p = parseElement_toks [OF assms, of rest]
  show "parseElements [] (us @ rest) = parseElements [el] rest"
    using u p by (subst parseElements.simps) (auto simp: token_simps)
  show "parseElements acc (c # us @ rest) = parseElements (acc @ [el]) rest"
    if "strip c = comma" "acc \<noteq> []"
    using u p that by (subst parseElements.simps) (auto simp: token_simps)
qed

lemma parseElements_tail:
  assumes "\<forall>el \<in> set els. printableElement el" "acc \<noteq> []" "strip z = (TokenRBracket, s)"
    "map strip ts = concat (map (\<lambda>el. [comma] @ elementToks el) els)"
  shows "parseElements acc (ts @ z # rest) = Inr (acc @ els, z # rest)"
  using assms
proof (induction els arbitrary: acc ts)
  case Nil
  then show ?case by (subst parseElements.simps) (simp add: token_simps)
next
  case (Cons el els)
  from Cons.prems(4)
  have "map strip ts = comma # elementToks el @ concat (map (\<lambda>el. [comma] @ elementToks el) els)"
    by simp
  then obtain c us ws where ts: "ts = c # us @ ws" "strip c = comma" "map strip us = elementToks el"
    "map strip ws = concat (map (\<lambda>el. [comma] @ elementToks el) els)"
    by (rule map_consE)
  have "parseElements acc (ts @ z # rest) = parseElements (acc @ [el]) (ws @ z # rest)"
    using parseElements_step(2) [of el us c acc "ws @ z # rest"] Cons.prems ts by simp
  also have "\<dots> = Inr (acc @ el # els, z # rest)"
    using Cons.IH [of "acc @ [el]" ws] Cons.prems ts by simp
  finally show ?case .
qed

lemma parseElements_toks:
  assumes "\<forall>el \<in> set els. printableElement el" "strip z = (TokenRBracket, s)"
    "map strip ts = JoinWith [comma] (map elementToks els)"
  shows "parseElements [] (ts @ z # rest) = Inr (els, z # rest)"
proof (cases els)
  case Nil
  with assms show ?thesis by (subst parseElements.simps) (simp add: token_simps)
next
  case (Cons el els')
  with assms(3)
  have "map strip ts = elementToks el @ concat (map (\<lambda>v. [comma] @ elementToks v) els')"
    by (simp add: JoinWith_concat comp_def)
  then obtain us ws where ts: "ts = us @ ws" "map strip us = elementToks el"
    "map strip ws = concat (map (\<lambda>v. [comma] @ elementToks v) els')"
    by (rule map_splitE)
  with parseElements_tail [of els' "[el]" z s ws rest] parseElements_step(1) [of el us "ws @ z # rest"]
    assms Cons
  show ?thesis by simp
qed

lemma Parse_printed_elements:
  assumes "\<forall>el \<in> set els. printableElement el"
  shows "Parse (''['' @ JoinWith sep (map printElement els) @ '']'') =
    (if els = [] then Inr MatchAllNode else buildTree els)"
proof -
  from Lex_bracketed [OF assms] obtain ts p where
    lx: "Lex (''['' @ JoinWith sep (map printElement els) @ '']'') = Inr (ts @ [Token TokenEOF [] p])" and
    "map strip ts = (TokenLBracket, ''['') # JoinWith [comma] (map elementToks els) @ [(TokenRBracket, '']'')]"
    by (elim exE conjE)
  then obtain a us z where ts: "ts = a # us @ [z]" "strip a = (TokenLBracket, ''['')"
    "strip z = (TokenRBracket, '']'')" "map strip us = JoinWith [comma] (map elementToks els)"
    by (auto simp: map_eq_append_conv map_eq_Cons_conv)
  from parseElements_toks [OF assms ts(3,4)] ts(1-3) lx show ?thesis
    by (simp add: Parse_def parseDomain_def token_simps)
qed

lemma flatten_printable:
  "wfNode n \<Longrightarrow> printableNode n \<Longrightarrow> el \<in> set (flatten n) \<Longrightarrow> printableElement el"
proof (induction n arbitrary: el)
  case (BoolOp op ns)
  then show ?case by (auto simp: printableElement_def list_all_iff)
qed (auto simp: printableElement_def)

text \<open>
  C8: printing and parsing are inverse. For every well-formed tree without floats whose strings are
  not the logical operators themselves, and for the match-all tree, the domain string that
  \<open>printDomain\<close> writes is lexed and parsed back to exactly that tree.
\<close>

theorem Parse_printDomain:
  assumes "n = MatchAllNode \<or> wfNode n" "printableNode n"
  shows "Parse (printDomain n) = Inr n"
proof (cases "n = MatchAllNode")
  case True
  then show ?thesis using Parse_printed_elements [of "[]"] by (simp add: printDomain_def)
next
  case False
  with assms have wf: "wfNode n" by simp
  have "buildTree (flatten n) = Inr n"
    using buildTree_conj [of "[n]"] wf by (simp add: conj_tree_def)
  moreover have "flatten n \<noteq> []" using length_flatten_pos [of n] by auto
  ultimately show ?thesis
    using Parse_printed_elements [of "flatten n"] flatten_printable [OF wf assms(2)] False
    by (simp add: printDomain_def)
qed

definition roundtrip_example :: Node where
  "roundtrip_example =
     BoolOp LogicOr
       [BoolOp LogicNot [Condition ''name'' OpILike (StringValue [CHR ''o'', CHR 0x27, CHR ''k''])],
        Condition ''company_id'' OpIn
          (ListValue [RefValue ''user.company_id.id'', IntValue (- 7), BoolValue False, NoneValue])]"

lemma Parse_printDomain_witness:
  "Parse (printDomain roundtrip_example) = Inr roundtrip_example"
  by (rule Parse_printDomain)
    (simp_all add: roundtrip_example_def plainString_def isReference_def isIdentStart_def
      isRefChar_def isIdentPart_def isDigit_def keywordType_def int64_min_def int64_max_def)

text \<open>
  consecutive conditions without an operator are joined by conjunction. The domain string that
  lists several well-formed trees one after the other parses to their left-nested conjunction,
  which is Odoo's reading of \<^verbatim>\<open>[c1, c2, c3]\<close>.
\<close>

theorem Parse_implicit_and:
  assumes "ts \<noteq> []" "\<forall>t \<in> set ts. wfNode t \<and> printableNode t"
  shows "Parse (''['' @ JoinWith sep (map printElement (concat (map flatten ts))) @ '']'') =
    Inr (conj_tree ts)"
proof -
  have "\<forall>el \<in> set (concat (map flatten ts)). printableElement el"
    using assms(2) flatten_printable by auto
  moreover have "concat (map flatten ts) \<noteq> []"
    using assms(1) length_flatten_pos by (cases ts) auto
  moreover have "buildTree (concat (map flatten ts)) = Inr (conj_tree ts)"
    using assms buildTree_conj by blast
  ultimately show ?thesis
    by (simp only: Parse_printed_elements if_False)
qed

lemma Parse_implicit_and_witness:
  "Parse (''['' @ JoinWith sep (map printElement (concat (map flatten
       [Condition ''a'' OpEqual (IntValue 1), BoolOp LogicNot [Condition ''b'' OpLess (IntValue 2)],
        Condition ''c'' OpIn (ListValue [])]))) @ '']'') =
   Inr (BoolOp LogicAnd
         [BoolOp LogicAnd [Condition ''a'' OpEqual (IntValue 1),
                           BoolOp LogicNot [Condition ''b'' OpLess (IntValue 2)]],
          Condition ''c'' OpIn (ListValue [])])"
  by (subst Parse_implicit_and) (simp_all add: plainString_def int64_min_def int64_max_def conj_tree_def)


end
