(* ===== verification/Sampler.thy ===== *)
theory Sampler
  imports Go_Value
begin

text \<open>
  The agent's sampler (\<^verbatim>\<open>internal/agent/sampler/sampler.go\<close>), which decides whether a raw event is
  kept. Its lock makes every operation atomic. The number that \<^verbatim>\<open>rand.Float64()\<close> draws is an argument
  of \<open>Allow\<close>.
\<close>

subsection \<open>State\<close>

type_synonym Mode = string

abbreviation ModeFull :: Mode where "ModeFull \<equiv> ''full''"
abbreviation ModeSampled :: Mode where "ModeSampled \<equiv> ''sampled''"
abbreviation ModeAggregatedOnly :: Mode where "ModeAggregatedOnly \<equiv> ''aggregated_only''"

record SamplerConfig =
  sc_Mode :: Mode
  sc_SampleRate :: go_float
  sc_AlwaysCapture :: "string list"
  sc_SlowThresholdMS :: int

record EventInfo =
  i_Category :: string
  i_DurationMS :: int
  i_IsError :: bool
  i_IsN1 :: bool

record Sampler =
  smp_config :: SamplerConfig
  smp_alwaysSet :: "string set"

subsection \<open>Operations\<close>

definition applyConfig :: "unicode \<Rightarrow> SamplerConfig \<Rightarrow> Sampler \<Rightarrow> Sampler" where
  "applyConfig uni cfg s =
     s \<lparr> smp_config := cfg,
         smp_alwaysSet := foldl (\<lambda>A cat. insert (ToLower uni (TrimSpace cat)) A) {} (sc_AlwaysCapture cfg) \<rparr>"

definition zeroConfig :: SamplerConfig where
  "zeroConfig = \<lparr> sc_Mode = [], sc_SampleRate = Fin 0, sc_AlwaysCapture = [], sc_SlowThresholdMS = 0 \<rparr>"

definition Sampler_New :: "unicode \<Rightarrow> SamplerConfig \<Rightarrow> Sampler" where
  "Sampler_New uni cfg = applyConfig uni cfg \<lparr> smp_config = zeroConfig, smp_alwaysSet = {} \<rparr>"

definition UpdateConfig :: "unicode \<Rightarrow> SamplerConfig \<Rightarrow> Sampler \<Rightarrow> Sampler" where
  "UpdateConfig uni cfg s = applyConfig uni cfg s"

definition CurrentConfig :: "Sampler \<Rightarrow> SamplerConfig" where
  "CurrentConfig s = smp_config s"

definition isCritical :: "unicode \<Rightarrow> EventInfo \<Rightarrow> int \<Rightarrow> string set \<Rightarrow> bool" where
  "isCritical uni info slowThreshold alwaysSet =
     (if i_IsError info then True
      else if i_IsN1 info then True
      else if slowThreshold > 0 \<and> i_DurationMS info > slowThreshold then True
      else if ToLower uni (i_Category info) \<in> alwaysSet then True
      else False)"

definition Sampler_Allow :: "unicode \<Rightarrow> Sampler \<Rightarrow> go_float \<Rightarrow> EventInfo \<Rightarrow> bool" where
  "Sampler_Allow uni s rnd info =
     (let cfg = smp_config s in
      if isCritical uni info (sc_SlowThresholdMS cfg) (smp_alwaysSet s) then True
      else if sc_Mode cfg = ModeFull then True
      else if sc_Mode cfg = ModeSampled then fless rnd (sc_SampleRate cfg)
      else if sc_Mode cfg = ModeAggregatedOnly then False
      else True)"

subsection \<open>Presets\<close>

definition DefaultDevelopment :: SamplerConfig where
  "DefaultDevelopment =
     \<lparr> sc_Mode = ModeFull, sc_SampleRate = Fin 1, sc_AlwaysCapture = [], sc_SlowThresholdMS = 50 \<rparr>"

definition DefaultStaging :: SamplerConfig where
  "DefaultStaging =
     \<lparr> sc_Mode = ModeSampled, sc_SampleRate = Fin (1 / 4),
       sc_AlwaysCapture = [''error'', ''slow_query'', ''n1''], sc_SlowThresholdMS = 100 \<rparr>"

definition DefaultProduction :: SamplerConfig where
  "DefaultProduction =
     \<lparr> sc_Mode = ModeAggregatedOnly, sc_SampleRate = fround binary64 (1 / 20),
       sc_AlwaysCapture = [''error'', ''slow_query'', ''n1''], sc_SlowThresholdMS = 200 \<rparr>"

definition ForEnvironment :: "unicode \<Rightarrow> string \<Rightarrow> SamplerConfig" where
  "ForEnvironment uni env =
     (let e = ToLower uni (TrimSpace env) in
      if e = ''staging'' then DefaultStaging
      else if e = ''production'' then DefaultProduction
      else DefaultDevelopment)"

subsection \<open>Correctness\<close>

text \<open>The precomputed set always mirrors the configuration.\<close>

definition sampler_inv :: "unicode \<Rightarrow> Sampler \<Rightarrow> bool" where
  "sampler_inv uni s \<longleftrightarrow>
     smp_alwaysSet s = (\<lambda>cat. ToLower uni (TrimSpace cat)) ` set (sc_AlwaysCapture (smp_config s))"

lemma foldl_insert_image: "foldl (\<lambda>B cat. insert (h cat) B) B cats = B \<union> h ` set cats"
  by (induction cats arbitrary: B) auto

lemma sampler_inv_applyConfig [go_inv, simp]: "sampler_inv uni (applyConfig uni cfg s)"
  by (simp add: sampler_inv_def applyConfig_def foldl_insert_image)

lemma sampler_inv_New [go_inv, simp]: "sampler_inv uni (Sampler_New uni cfg)"
  by (simp add: Sampler_New_def)

lemma sampler_inv_UpdateConfig [go_inv, simp]: "sampler_inv uni (UpdateConfig uni cfg s)"
  by (simp add: UpdateConfig_def)

lemma isCritical_iff:
  "isCritical uni info th A \<longleftrightarrow>
     i_IsError info \<or> i_IsN1 info \<or> (0 < th \<and> th < i_DurationMS info) \<or> ToLower uni (i_Category info) \<in> A"
  by (simp add: isCritical_def)

lemma CurrentConfig_UpdateConfig [simp]: "CurrentConfig (UpdateConfig uni cfg s) = cfg"
  by (simp add: CurrentConfig_def UpdateConfig_def applyConfig_def)

text \<open>What the configuration asks to keep under all circumstances.\<close>

definition criticalFor :: "unicode \<Rightarrow> SamplerConfig \<Rightarrow> EventInfo \<Rightarrow> bool" where
  "criticalFor uni cfg info \<longleftrightarrow>
     i_IsError info \<or> i_IsN1 info \<or>
     (0 < sc_SlowThresholdMS cfg \<and> sc_SlowThresholdMS cfg < i_DurationMS info) \<or>
     (\<exists>cat \<in> set (sc_AlwaysCapture cfg). ToLower uni (TrimSpace cat) = ToLower uni (i_Category info))"

lemma isCritical_criticalFor:
  "sampler_inv uni s \<Longrightarrow>
     isCritical uni info (sc_SlowThresholdMS (smp_config s)) (smp_alwaysSet s) = criticalFor uni (smp_config s) info"
  by (simp add: isCritical_iff sampler_inv_def criticalFor_def image_iff eq_commute)

lemma smp_config_UpdateConfig [simp]: "smp_config (UpdateConfig uni cfg s) = cfg"
  by (simp add: UpdateConfig_def applyConfig_def)

text \<open>
  no sampling mode drops a critical event. After any reconfiguration of the sampler, an event
  that is an error, has the N+1 mark, is slower than a positive threshold, or belongs to a category
  listed (up to case and surrounding space) for unconditional capture is kept, whatever number is
  drawn. The other events are all kept in full mode, kept by the draw in sampled mode and dropped
  in the mode \<^verbatim>\<open>aggregated_only\<close>.
\<close>

theorem sampler_decision:
  "Sampler_Allow uni (UpdateConfig uni cfg s) rnd info \<longleftrightarrow>
     criticalFor uni cfg info \<or>
     (if sc_Mode cfg = ModeSampled then fless rnd (sc_SampleRate cfg) else sc_Mode cfg \<noteq> ModeAggregatedOnly)"
  using isCritical_criticalFor [of uni "UpdateConfig uni cfg s" info]
  by (simp add: Sampler_Allow_def)

end
