(* ===== verification/Aggregator.thy ===== *)
theory Aggregator
  imports Sampler
begin

text \<open>
  The agent's aggregator (\<^verbatim>\<open>internal/agent/aggregator/aggregator.go\<close> and \<^verbatim>\<open>types.go\<close>): events are
  summed up per model and method within a window, critical ones are kept raw, and a flush turns the
  window into a batch. Times are integers in nanoseconds and arguments of the operations that
  read the clock; the number the sampler may draw is an argument of \<open>ingest\<close>. The Go map of the
  statistics has no order, so the order of the batch's statistics carries no meaning; here it is the
  order of first occurrence.
\<close>

subsection \<open>Data\<close>

record Event =
  ev_Category :: string
  ev_Model :: string
  ev_Method :: string
  ev_DurationMS :: int
  ev_IsError :: bool
  ev_IsN1 :: bool
  ev_SQL :: string
  ev_Module :: string
  ev_Traceback :: string
  ev_UserID :: int
  ev_Timestamp :: int
  ev_FieldName :: string
  ev_IsCompute :: bool
  ev_DependsOn :: "string list"
  ev_TriggerField :: string

record ORMModelStat =
  os_Model :: string
  os_Method :: string
  os_CallCount :: int
  os_TotalMS :: int
  os_AvgMS :: go_float
  os_MaxMS :: int
  os_P95MS :: int
  os_N1Detected :: bool
  os_SampleSQL :: string

record BatchSummary =
  bs_TotalQueries :: int
  bs_TotalDurationMS :: int
  bs_SlowQueries :: int
  bs_N1Patterns :: int
  bs_Errors :: int

record AggregatedBatch =
  ab_EnvID :: string
  ab_Period :: int
  ab_DurationMS :: int
  ab_ORMStats :: "ORMModelStat list"
  ab_RawEvents :: "Event list"
  ab_Summary :: BatchSummary

record AggConfig =
  ac_FlushInterval :: int
  ac_EnvID :: string
  ac_EventChannelSize :: int
  ac_MaxRawPerFlush :: int

record statAccum =
  sa_model :: string
  sa_method :: string
  sa_count :: int
  sa_totalMS :: int
  sa_maxMS :: int
  sa_n1 :: bool
  sa_sampleSQL :: string
  sa_durations :: "int list"

text \<open>The channels are queues with a capacity; the sampler pointer may be nil.\<close>

record Aggregator =
  ag_config :: AggConfig
  ag_sampler :: "Sampler option"
  ag_EventCh :: "Event list"
  ag_EventCap :: int
  ag_SendCh :: "AggregatedBatch list"
  ag_SendCap :: int
  ag_stats :: "(string, statAccum) gomap"
  ag_rawBuf :: "Event list"
  ag_summary :: BatchSummary
  ag_windowStart :: int

definition DefaultConfig :: "string \<Rightarrow> AggConfig" where
  "DefaultConfig envID =
     \<lparr> ac_FlushInterval = 30000000000, ac_EnvID = envID, ac_EventChannelSize = 4096, ac_MaxRawPerFlush = 500 \<rparr>"

definition zeroSummary :: BatchSummary where
  "zeroSummary = \<lparr> bs_TotalQueries = 0, bs_TotalDurationMS = 0, bs_SlowQueries = 0, bs_N1Patterns = 0, bs_Errors = 0 \<rparr>"

definition Aggregator_New :: "AggConfig \<Rightarrow> Sampler option \<Rightarrow> Aggregator" where
  "Aggregator_New cfg smp =
     (let chSize = (if ac_EventChannelSize cfg \<le> 0 then 4096 else ac_EventChannelSize cfg)
      in \<lparr> ag_config = cfg, ag_sampler = smp, ag_EventCh = [], ag_EventCap = chSize, ag_SendCh = [],
           ag_SendCap = 4, ag_stats = [], ag_rawBuf = [], ag_summary = zeroSummary, ag_windowStart = 0 \<rparr>)"

subsection \<open>Ingesting an event\<close>

definition statKey :: "Event \<Rightarrow> string" where
  "statKey ev = ev_Model ev @ '':'' @ ev_Method ev"

definition newAccum :: "Event \<Rightarrow> statAccum" where
  "newAccum ev =
     \<lparr> sa_model = ev_Model ev, sa_method = ev_Method ev, sa_count = 0, sa_totalMS = 0, sa_maxMS = 0,
       sa_n1 = False, sa_sampleSQL = [], sa_durations = [] \<rparr>"

definition addToAccum :: "Event \<Rightarrow> statAccum \<Rightarrow> statAccum" where
  "addToAccum ev st =
     st \<lparr> sa_count := sa_count st + 1,
          sa_totalMS := sa_totalMS st + ev_DurationMS ev,
          sa_maxMS := (if ev_DurationMS ev > sa_maxMS st then ev_DurationMS ev else sa_maxMS st),
          sa_n1 := (if ev_IsN1 ev then True else sa_n1 st),
          sa_sampleSQL := (if ev_SQL ev \<noteq> [] \<and> sa_sampleSQL st = [] then ev_SQL ev else sa_sampleSQL st),
          sa_durations := sa_durations st @ [ev_DurationMS ev] \<rparr>"

definition updateStats :: "Event \<Rightarrow> (string, statAccum) gomap \<Rightarrow> (string, statAccum) gomap" where
  "updateStats ev stats =
     (if ev_Model ev = [] \<and> ev_Method ev = [] then stats
      else
        (let st = (case map_of stats (statKey ev) of Some st \<Rightarrow> st | None \<Rightarrow> newAccum ev)
         in AList.update (statKey ev) (addToAccum ev st) stats))"

definition slowThreshold :: "Sampler option \<Rightarrow> int" where
  "slowThreshold smp = (case smp of None \<Rightarrow> 0 | Some s \<Rightarrow> sc_SlowThresholdMS (CurrentConfig s))"

definition updateSummary :: "Event \<Rightarrow> Sampler option \<Rightarrow> BatchSummary \<Rightarrow> BatchSummary" where
  "updateSummary ev smp b =
     (let threshold = slowThreshold smp in
      b \<lparr> bs_TotalQueries := bs_TotalQueries b + 1,
          bs_TotalDurationMS := bs_TotalDurationMS b + ev_DurationMS ev,
          bs_Errors := (if ev_IsError ev then bs_Errors b + 1 else bs_Errors b),
          bs_N1Patterns := (if ev_IsN1 ev then bs_N1Patterns b + 1 else bs_N1Patterns b),
          bs_SlowQueries := (if threshold > 0 \<and> ev_DurationMS ev > threshold
                             then bs_SlowQueries b + 1 else bs_SlowQueries b) \<rparr>)"

definition infoOf :: "Event \<Rightarrow> EventInfo" where
  "infoOf ev = \<lparr> i_Category = ev_Category ev, i_DurationMS = ev_DurationMS ev, i_IsError = ev_IsError ev,
     i_IsN1 = ev_IsN1 ev \<rparr>"

definition shouldKeepRaw :: "unicode \<Rightarrow> Sampler option \<Rightarrow> go_float \<Rightarrow> Event \<Rightarrow> bool" where
  "shouldKeepRaw uni smp rnd ev = (case smp of None \<Rightarrow> True | Some s \<Rightarrow> Sampler_Allow uni s rnd (infoOf ev))"

definition ingest :: "unicode \<Rightarrow> go_float \<Rightarrow> Event \<Rightarrow> Aggregator \<Rightarrow> Aggregator" where
  "ingest uni rnd ev a =
     (let alwaysKeep = (ev_IsCompute ev \<or> ev_IsError ev);
          a1 = a \<lparr> ag_stats := updateStats ev (ag_stats a),
                   ag_summary := updateSummary ev (ag_sampler a) (ag_summary a) \<rparr>
      in if (alwaysKeep \<or> shouldKeepRaw uni (ag_sampler a) rnd ev) \<and>
            (alwaysKeep \<or> ac_MaxRawPerFlush (ag_config a) \<le> 0 \<or>
             int (length (ag_rawBuf a)) < ac_MaxRawPerFlush (ag_config a))
         then a1 \<lparr> ag_rawBuf := ag_rawBuf a @ [ev] \<rparr>
         else a1)"

subsection \<open>Flushing\<close>

text \<open>\<^verbatim>\<open>percentile\<close>; the only call passes 95, so \<open>p\<close> is a natural number.\<close>

definition percentile :: "int list \<Rightarrow> nat \<Rightarrow> int" where
  "percentile values p =
     (let n = length values in
      if n = 0 then 0
      else (let sorted = sort values;
                rank = (p * n) div 100;
                rank' = (if rank \<ge> n then n - 1 else rank)
            in sorted ! rank'))"

definition statOf :: "statAccum \<Rightarrow> ORMModelStat" where
  "statOf st =
     \<lparr> os_Model = sa_model st, os_Method = sa_method st, os_CallCount = sa_count st, os_TotalMS = sa_totalMS st,
       os_AvgMS = (if sa_count st > 0 then fdiv (float64_of_int (sa_totalMS st)) (float64_of_int (sa_count st)) else Fin 0),
       os_MaxMS = sa_maxMS st, os_P95MS = percentile (sa_durations st) 95,
       os_N1Detected = sa_n1 st, os_SampleSQL = sa_sampleSQL st \<rparr>"

definition resetWindow :: "int \<Rightarrow> Aggregator \<Rightarrow> Aggregator" where
  "resetWindow now a = a \<lparr> ag_stats := [], ag_rawBuf := [], ag_summary := zeroSummary, ag_windowStart := now \<rparr>"

definition flush :: "int \<Rightarrow> Aggregator \<Rightarrow> AggregatedBatch option \<times> Aggregator" where
  "flush now a =
     (if bs_TotalQueries (ag_summary a) = 0 \<and> ag_rawBuf a = [] then (None, resetWindow now a)
      else (Some \<lparr> ab_EnvID = ac_EnvID (ag_config a), ab_Period = ag_windowStart a,
                   ab_DurationMS = (now - ag_windowStart a) sdiv 1000000,
                   ab_ORMStats = map (statOf \<circ> snd) (ag_stats a),
                   ab_RawEvents = ag_rawBuf a, ab_Summary = ag_summary a \<rparr>,
            resetWindow now a))"

definition flushAndSend :: "int \<Rightarrow> Aggregator \<Rightarrow> Aggregator" where
  "flushAndSend now a =
     (case flush now a of
        (None, a1) \<Rightarrow> a1
      | (Some batch, a1) \<Rightarrow>
          if int (length (ag_SendCh a1)) < ag_SendCap a1
          then a1 \<lparr> ag_SendCh := ag_SendCh a1 @ [batch] \<rparr> else a1)"

text \<open>The events of the channel, one after the other, each with the number drawn for it.\<close>

fun drainEvents :: "unicode \<Rightarrow> (go_float \<times> Event) list \<Rightarrow> Aggregator \<Rightarrow> Aggregator" where
  "drainEvents uni [] a = a"
| "drainEvents uni ((rnd, ev) # evs) a = drainEvents uni evs (ingest uni rnd ev a)"

definition drainChannel :: "unicode \<Rightarrow> (nat \<Rightarrow> go_float) \<Rightarrow> Aggregator \<Rightarrow> Aggregator" where
  "drainChannel uni draws a =
     (drainEvents uni (zip (map draws [0..<length (ag_EventCh a)]) (ag_EventCh a)) a) \<lparr> ag_EventCh := [] \<rparr>"

subsection \<open>Run\<close>

text \<open>
  The select loop of \<^verbatim>\<open>Run\<close> as a step relation, together with the collectors that fill the event
  channel and the transport that empties the send channel.
\<close>

datatype loop = Running | Stopped

inductive run_step :: "unicode \<Rightarrow> loop \<times> Aggregator \<Rightarrow> loop \<times> Aggregator \<Rightarrow> bool" for uni where
  collect: "int (length (ag_EventCh a)) < ag_EventCap a \<Longrightarrow>
    run_step uni (l, a) (l, a \<lparr> ag_EventCh := ag_EventCh a @ [ev] \<rparr>)"
| event: "ag_EventCh a = ev # evs \<Longrightarrow>
    run_step uni (Running, a) (Running, ingest uni rnd ev (a \<lparr> ag_EventCh := evs \<rparr>))"
| ticker: "run_step uni (Running, a) (Running, flushAndSend now a)"
| finish: "run_step uni (Running, a) (Stopped, flushAndSend now (drainChannel uni draws a))"
| transport: "ag_SendCh a = b # bs \<Longrightarrow> run_step uni (l, a) (l, a \<lparr> ag_SendCh := bs \<rparr>)"

end
