(* ===== verification/Aggregator_Correct.thy ===== *)
theory Aggregator_Correct
  imports Aggregator "HOL-Library.Sublist"
begin

text \<open>
  What the aggregator's windows contain. The abstract state of a window is the list of the events
  taken since the last flush; the statistics, the summary and the raw buffer are functions of it,
  and every batch that reaches the transport describes such a window.
\<close>

subsection \<open>Statistics of a list of events\<close>

definition aggregates :: "Event \<Rightarrow> bool" where
  "aggregates ev \<longleftrightarrow> \<not> (ev_Model ev = [] \<and> ev_Method ev = [])"

definition eventsFor :: "string \<Rightarrow> Event list \<Rightarrow> Event list" where
  "eventsFor k evs = filter (\<lambda>ev. aggregates ev \<and> statKey ev = k) evs"

definition accumulate :: "Event list \<Rightarrow> statAccum" where
  "accumulate es = foldl (\<lambda>st ev. addToAccum ev st) (newAccum (hd es)) es"

lemma accumulate_snoc: "es \<noteq> [] \<Longrightarrow> accumulate (es @ [ev]) = addToAccum ev (accumulate es)"
  by (simp add: accumulate_def)

lemma foldl_addToAccum:
  "foldl (\<lambda>st ev. addToAccum ev st) st es =
     \<lparr> sa_model = sa_model st, sa_method = sa_method st,
       sa_count = sa_count st + int (length es),
       sa_totalMS = sa_totalMS st + sum_list (map ev_DurationMS es),
       sa_maxMS = foldl max (sa_maxMS st) (map ev_DurationMS es),
       sa_n1 = (sa_n1 st \<or> (\<exists>ev \<in> set es. ev_IsN1 ev)),
       sa_sampleSQL = sa_sampleSQL (foldl (\<lambda>st ev. addToAccum ev st) st es),
       sa_durations = sa_durations st @ map ev_DurationMS es \<rparr>"
proof (induction es arbitrary: st)
  case (Cons ev es)
  show ?case
    unfolding foldl_Cons by (subst Cons) (auto simp: addToAccum_def max_def)
qed simp

lemma foldl_max_Max: "foldl max m xs = Max (insert (m::int) (set xs))"
proof (induction xs arbitrary: m)
  case (Cons x xs)
  have "foldl max m (x # xs) = Max (insert (max m x) (set xs))" using Cons by simp
  also have "\<dots> = Max (insert m (set (x # xs)))"
    by (cases "xs = []") (simp_all add: max.assoc max.left_commute)
  finally show ?case .
qed simp

lemma accumulate_simps:
  "sa_model (accumulate es) = ev_Model (hd es)"
  "sa_method (accumulate es) = ev_Method (hd es)"
  "sa_count (accumulate es) = int (length es)"
  "sa_totalMS (accumulate es) = sum_list (map ev_DurationMS es)"
  "sa_maxMS (accumulate es) = Max (insert 0 (set (map ev_DurationMS es)))"
  "sa_n1 (accumulate es) \<longleftrightarrow> (\<exists>ev \<in> set es. ev_IsN1 ev)"
  "sa_durations (accumulate es) = map ev_DurationMS es"
  unfolding accumulate_def by (subst foldl_addToAccum, simp add: newAccum_def foldl_max_Max)+

subsection \<open>The map of statistics\<close>

definition stats_of :: "Event list \<Rightarrow> (string, statAccum) gomap \<Rightarrow> bool" where
  "stats_of evs stats \<longleftrightarrow>
     distinct (map fst stats) \<and>
     (\<forall>k. map_of stats k = (if eventsFor k evs = [] then None else Some (accumulate (eventsFor k evs))))"

lemma eventsFor_snoc:
  "eventsFor k (evs @ [ev]) = eventsFor k evs @ (if aggregates ev \<and> statKey ev = k then [ev] else [])"
  by (simp add: eventsFor_def)

lemma accumulate_single: "accumulate [ev] = addToAccum ev (newAccum ev)"
  by (simp add: accumulate_def)

lemma stats_of_update:
  assumes "stats_of evs stats"
  shows "stats_of (evs @ [ev]) (updateStats ev stats)"
proof (cases "aggregates ev")
  case False
  then show ?thesis
    using assms by (simp add: stats_of_def updateStats_def aggregates_def eventsFor_snoc)
next
  case True
  let ?k = "statKey ev"
  have st: "addToAccum ev (case map_of stats ?k of Some st \<Rightarrow> st | None \<Rightarrow> newAccum ev) =
      accumulate (eventsFor ?k evs @ [ev])"
    using assms by (simp add: stats_of_def accumulate_snoc accumulate_single)
  then have "updateStats ev stats = AList.update ?k (accumulate (eventsFor ?k evs @ [ev])) stats"
    using True by (auto simp: updateStats_def aggregates_def Let_def)
  then show ?thesis
    using assms True by (simp add: stats_of_def eventsFor_snoc distinct_update update_conv')
qed

text \<open>The counts of the statistics add up to the number of aggregated events.\<close>

lemma updateStats_count:
  assumes "distinct (map fst stats)"
  shows "sum_list (map (sa_count \<circ> snd) (updateStats ev stats)) =
    sum_list (map (sa_count \<circ> snd) stats) + (if aggregates ev then 1 else 0)"
proof -
  have upd: "sum_list (map (sa_count \<circ> snd) (AList.update k v stats)) =
      sum_list (map (sa_count \<circ> snd) stats) - (case map_of stats k of None \<Rightarrow> 0 | Some w \<Rightarrow> sa_count w) + sa_count v"
    for k v using assms by (induction stats) (auto split: option.splits dest: map_of_SomeD intro: rev_image_eqI)
  show ?thesis
    by (auto simp: updateStats_def aggregates_def Let_def upd addToAccum_def newAccum_def split: option.splits)
qed

subsection \<open>Windows\<close>

definition summary_of :: "Sampler option \<Rightarrow> Event list \<Rightarrow> BatchSummary" where
  "summary_of smp evs =
     \<lparr> bs_TotalQueries = int (length evs),
       bs_TotalDurationMS = sum_list (map ev_DurationMS evs),
       bs_SlowQueries = int (length (filter (\<lambda>ev. 0 < slowThreshold smp \<and> slowThreshold smp < ev_DurationMS ev) evs)),
       bs_N1Patterns = int (length (filter ev_IsN1 evs)),
       bs_Errors = int (length (filter ev_IsError evs)) \<rparr>"

lemma updateSummary_snoc: "updateSummary ev smp (summary_of smp evs) = summary_of smp (evs @ [ev])"
  by (simp add: updateSummary_def summary_of_def Let_def)

definition alwaysKept :: "Event \<Rightarrow> bool" where
  "alwaysKept ev \<longleftrightarrow> ev_IsCompute ev \<or> ev_IsError ev"

definition window_of :: "Event list \<Rightarrow> Aggregator \<Rightarrow> bool" where
  "window_of evs a \<longleftrightarrow>
     stats_of evs (ag_stats a) \<and>
     sum_list (map (sa_count \<circ> snd) (ag_stats a)) = int (length (filter aggregates evs)) \<and>
     ag_summary a = summary_of (ag_sampler a) evs \<and>
     subseq (ag_rawBuf a) evs \<and> filter alwaysKept (ag_rawBuf a) = filter alwaysKept evs \<and>
     (0 < ac_MaxRawPerFlush (ag_config a) \<longrightarrow>
      int (length (filter (Not \<circ> alwaysKept) (ag_rawBuf a))) \<le> ac_MaxRawPerFlush (ag_config a))"

lemma ingest_simps [simp]:
  "ag_config (ingest uni rnd ev a) = ag_config a"
  "ag_sampler (ingest uni rnd ev a) = ag_sampler a"
  "ag_stats (ingest uni rnd ev a) = updateStats ev (ag_stats a)"
  "ag_summary (ingest uni rnd ev a) = updateSummary ev (ag_sampler a) (ag_summary a)"
  "ag_EventCh (ingest uni rnd ev a) = ag_EventCh a"
  "ag_EventCap (ingest uni rnd ev a) = ag_EventCap a"
  "ag_SendCh (ingest uni rnd ev a) = ag_SendCh a"
  "ag_SendCap (ingest uni rnd ev a) = ag_SendCap a"
  "ag_windowStart (ingest uni rnd ev a) = ag_windowStart a"
  by (simp_all add: ingest_def Let_def)

lemma ingest_rawBuf:
  "ag_rawBuf (ingest uni rnd ev a) =
     (if alwaysKept ev \<or>
         shouldKeepRaw uni (ag_sampler a) rnd ev \<and>
         (ac_MaxRawPerFlush (ag_config a) \<le> 0 \<or> int (length (ag_rawBuf a)) < ac_MaxRawPerFlush (ag_config a))
      then ag_rawBuf a @ [ev] else ag_rawBuf a)"
  by (auto simp: ingest_def Let_def alwaysKept_def)

lemma length_filter_less: "int (length xs) < n \<Longrightarrow> int (length (filter P xs)) + 1 \<le> n"
  using length_filter_le [of P xs] by linarith

lemma window_of_ingest [go_inv]:
  assumes "window_of evs a"
  shows "window_of (evs @ [ev]) (ingest uni rnd ev a)"
proof -
  have "sum_list (map (sa_count \<circ> snd) (updateStats ev (ag_stats a))) =
      int (length (filter aggregates (evs @ [ev])))"
    using assms updateStats_count [of "ag_stats a" ev] by (simp add: window_of_def stats_of_def)
  moreover have "subseq (ag_rawBuf (ingest uni rnd ev a)) (evs @ [ev])"
    using assms by (auto simp: ingest_rawBuf window_of_def intro: subseq_rev_drop_many)
  moreover have "int (length (filter (Not \<circ> alwaysKept) (ag_rawBuf (ingest uni rnd ev a)))) \<le>
      ac_MaxRawPerFlush (ag_config a)" if "0 < ac_MaxRawPerFlush (ag_config a)"
    using assms that length_filter_less [of "ag_rawBuf a" _ "Not \<circ> alwaysKept"]
    by (auto simp: ingest_rawBuf window_of_def)
  moreover have "filter alwaysKept (ag_rawBuf (ingest uni rnd ev a)) = filter alwaysKept (evs @ [ev])"
    using assms by (simp add: ingest_rawBuf window_of_def)
  ultimately show ?thesis
    using assms stats_of_update [of evs "ag_stats a" ev] by (simp add: window_of_def updateSummary_snoc)
qed

lemma window_of_drain: "window_of evs a \<Longrightarrow> window_of (evs @ map snd revs) (drainEvents uni revs a)"
proof (induction uni revs a arbitrary: evs rule: drainEvents.induct)
  case (2 uni rnd ev revs a)
  from 2(1) [OF window_of_ingest [OF 2(2)]] show ?case by simp
qed simp

lemma window_of_reset [simp]: "window_of [] (resetWindow now a)"
  by (simp add: window_of_def resetWindow_def stats_of_def eventsFor_def zeroSummary_def summary_of_def)

lemma window_of_New [simp]: "window_of [] (Aggregator_New cfg smp)"
  by (simp add: window_of_def Aggregator_New_def Let_def stats_of_def eventsFor_def zeroSummary_def summary_of_def)

subsection \<open>Batches\<close>

text \<open>What a batch says about the window it was made from.\<close>

definition describes :: "Sampler option \<Rightarrow> Event list \<Rightarrow> AggregatedBatch \<Rightarrow> bool" where
  "describes smp evs b \<longleftrightarrow>
     ab_Summary b = summary_of smp evs \<and>
     subseq (ab_RawEvents b) evs \<and> filter alwaysKept (ab_RawEvents b) = filter alwaysKept evs \<and>
     sum_list (map os_CallCount (ab_ORMStats b)) = int (length (filter aggregates evs)) \<and>
     (\<forall>st \<in> set (ab_ORMStats b). \<exists>k. eventsFor k evs \<noteq> [] \<and>
        os_CallCount st = int (length (eventsFor k evs)) \<and>
        os_TotalMS st = sum_list (map ev_DurationMS (eventsFor k evs)) \<and>
        os_MaxMS st = Max (insert 0 (set (map ev_DurationMS (eventsFor k evs)))) \<and>
        os_P95MS st = percentile (map ev_DurationMS (eventsFor k evs)) 95 \<and>
        (os_N1Detected st \<longleftrightarrow> (\<exists>ev \<in> set (eventsFor k evs). ev_IsN1 ev)))"

lemma flush_describes:
  assumes "window_of evs a" "flush now a = (Some b, a')"
  shows "describes (ag_sampler a) evs b"
proof -
  from assms(2) have b: "ab_Summary b = ag_summary a" "ab_RawEvents b = ag_rawBuf a"
    "ab_ORMStats b = map (statOf \<circ> snd) (ag_stats a)"
    by (auto simp: flush_def split: if_splits)
  have cnt: "map os_CallCount (ab_ORMStats b) = map (sa_count \<circ> snd) (ag_stats a)"
    by (simp add: b statOf_def comp_def)
  have st: "\<exists>k. eventsFor k evs \<noteq> [] \<and> x = statOf (accumulate (eventsFor k evs))"
    if "x \<in> set (ab_ORMStats b)" for x
  proof -
    from that obtain k st where ks: "(k, st) \<in> set (ag_stats a)" "x = statOf st" by (auto simp: b)
    have "distinct (map fst (ag_stats a))" using assms(1) by (simp add: window_of_def stats_of_def)
    then have "map_of (ag_stats a) k = Some st" using ks(1) by (rule map_of_is_SomeI)
    then show ?thesis
      using assms(1) ks(2) by (auto simp: window_of_def stats_of_def split: if_splits)
  qed
  have "\<exists>k. eventsFor k evs \<noteq> [] \<and>
        os_CallCount x = int (length (eventsFor k evs)) \<and>
        os_TotalMS x = sum_list (map ev_DurationMS (eventsFor k evs)) \<and>
        os_MaxMS x = Max (insert 0 (set (map ev_DurationMS (eventsFor k evs)))) \<and>
        os_P95MS x = percentile (map ev_DurationMS (eventsFor k evs)) 95 \<and>
        (os_N1Detected x \<longleftrightarrow> (\<exists>ev \<in> set (eventsFor k evs). ev_IsN1 ev))"
    if x: "x \<in> set (ab_ORMStats b)" for x
  proof -
    obtain k where k: "eventsFor k evs \<noteq> []" "x = statOf (accumulate (eventsFor k evs))" using st [OF x] by blast
    then show ?thesis by (intro exI [of _ k]) (simp add: statOf_def accumulate_simps)
  qed
  with assms(1) show ?thesis unfolding describes_def b(1,2) cnt by (simp add: window_of_def)
qed

lemma flush_window:
  "snd (flush now a) = resetWindow now a"
  "window_of evs a \<Longrightarrow> fst (flush now a) = None \<longleftrightarrow> evs = []"
  by (auto simp: flush_def window_of_def summary_of_def)

lemma ag_sampler_drain [simp]: "ag_sampler (drainEvents uni revs x) = ag_sampler x"
  by (induction uni revs x rule: drainEvents.induct) auto

lemma ag_sampler_reset [simp]: "ag_sampler (resetWindow now a) = ag_sampler a"
  by (simp add: resetWindow_def)

text \<open>
  a flushed batch is an exact summary of its window. For a window started by a reset and any
  events taken since, the flush produces a batch exactly when there was an event; the batch's
  summary counts every event, its duration, errors, N+1 marks and slow queries; each statistic has
  the count, total, maximum and percentile of the events with its key, and the counts add up to the
  number of events with a model or method; the raw events are a subsequence of the events that
  contains every error and every compute event.
\<close>

theorem flush_summarises_window:
  "case fst (flush now (drainEvents uni evs (resetWindow t0 a0))) of
     None \<Rightarrow> evs = []
   | Some b \<Rightarrow> evs \<noteq> [] \<and> describes (ag_sampler a0) (map snd evs) b"
proof -
  let ?a = "drainEvents uni evs (resetWindow t0 a0)"
  have w: "window_of (map snd evs) ?a"
    using window_of_drain [OF window_of_reset, of evs uni t0 a0] by simp
  have "describes (ag_sampler a0) (map snd evs) b" if "fst (flush now ?a) = Some b" for b
    using flush_describes [OF w, of now b] that by (metis prod.collapse ag_sampler_drain ag_sampler_reset)
  then show ?thesis using flush_window(2) [OF w, of now] by (auto split: option.splits)
qed

subsection \<open>The loop\<close>

text \<open>
  Whatever the order of events, ticks, shutdown and transport: the channels stay within their
  capacity and every batch in the send channel describes a non-empty window.
\<close>

definition agg_inv :: "loop \<times> Aggregator \<Rightarrow> bool" where
  "agg_inv la \<longleftrightarrow>
     (let a = snd la in
      (\<exists>evs. window_of evs a) \<and> int (length (ag_SendCh a)) \<le> ag_SendCap a \<and>
      int (length (ag_EventCh a)) \<le> ag_EventCap a \<and> 0 < ag_EventCap a \<and>
      (\<forall>b \<in> set (ag_SendCh a). \<exists>evs. evs \<noteq> [] \<and> describes (ag_sampler a) evs b) \<and>
      (fst la = Stopped \<longrightarrow> window_of [] a))"

lemma drain_simps [simp]:
  "ag_SendCh (drainEvents uni revs a) = ag_SendCh a"
  "ag_SendCap (drainEvents uni revs a) = ag_SendCap a"
  "ag_EventCap (drainEvents uni revs a) = ag_EventCap a"
  by (induction uni revs a rule: drainEvents.induct) auto

lemma window_of_cong:
  assumes "window_of evs a" "ag_stats b = ag_stats a" "ag_summary b = ag_summary a" "ag_sampler b = ag_sampler a"
    "ag_rawBuf b = ag_rawBuf a" "ag_config b = ag_config a"
  shows "window_of evs b"
  using assms by (simp add: window_of_def)

lemma window_of_channels [simp]:
  "window_of evs (a \<lparr> ag_EventCh := es \<rparr>) = window_of evs a"
  "window_of evs (a \<lparr> ag_SendCh := bs \<rparr>) = window_of evs a"
  by (simp_all add: window_of_def)

lemma window_of_Nil:
  assumes "window_of [] a"
  shows "bs_TotalQueries (ag_summary a) = 0" "ag_rawBuf a = []" "ag_stats a = []"
proof -
  have "map_of (ag_stats a) k = None" for k
    using assms by (simp add: window_of_def stats_of_def eventsFor_def)
  then have "map_of (ag_stats a) = Map.empty" by (rule ext)
  then show "ag_stats a = []" by simp
qed (use assms in \<open>auto simp: window_of_def summary_of_def dest: list_emb_length\<close>)

lemma flushAndSend_simps [simp]:
  "ag_EventCh (flushAndSend now a) = ag_EventCh a"
  "ag_EventCap (flushAndSend now a) = ag_EventCap a"
  "ag_SendCap (flushAndSend now a) = ag_SendCap a"
  "ag_sampler (flushAndSend now a) = ag_sampler a"
  by (simp_all add: flushAndSend_def flush_def resetWindow_def)

lemma flushAndSend_window: "window_of [] (flushAndSend now a)"
  by (rule window_of_cong [OF window_of_reset [of now a]])
    (auto simp: flushAndSend_def flush_def resetWindow_def)

lemma flushAndSend_SendCh:
  "ag_SendCh (flushAndSend now a) =
     (case fst (flush now a) of
        None \<Rightarrow> ag_SendCh a
      | Some b \<Rightarrow> if int (length (ag_SendCh a)) < ag_SendCap a then ag_SendCh a @ [b] else ag_SendCh a)"
  by (simp add: flushAndSend_def flush_def resetWindow_def)

lemma flushAndSend_inv:
  assumes "window_of evs a" "int (length (ag_SendCh a)) \<le> ag_SendCap a"
    "\<forall>b \<in> set (ag_SendCh a). \<exists>evs. evs \<noteq> [] \<and> describes (ag_sampler a) evs b"
  shows "int (length (ag_SendCh (flushAndSend now a))) \<le> ag_SendCap a \<and>
    (\<forall>b \<in> set (ag_SendCh (flushAndSend now a)). \<exists>evs. evs \<noteq> [] \<and> describes (ag_sampler a) evs b)"
proof (cases "fst (flush now a)")
  case None
  then show ?thesis using assms by (simp add: flushAndSend_SendCh)
next
  case (Some b)
  then have "evs \<noteq> []" "describes (ag_sampler a) evs b"
    using flush_window(2) [OF assms(1), of now] flush_describes [OF assms(1), of now b] by (auto simp: prod_eq_iff)
  then show ?thesis using assms Some by (auto simp: flushAndSend_SendCh)
qed

lemma drainChannel_simps [simp]:
  "ag_EventCh (drainChannel uni draws a) = []"
  "ag_SendCh (drainChannel uni draws a) = ag_SendCh a"
  "ag_SendCap (drainChannel uni draws a) = ag_SendCap a"
  "ag_EventCap (drainChannel uni draws a) = ag_EventCap a"
  "ag_sampler (drainChannel uni draws a) = ag_sampler a"
  by (simp_all add: drainChannel_def)

lemma drainChannel_window: "window_of evs a \<Longrightarrow> window_of (evs @ ag_EventCh a) (drainChannel uni draws a)"
  using window_of_drain [of evs a "zip (map draws [0..<length (ag_EventCh a)]) (ag_EventCh a)" uni]
  by (auto simp: drainChannel_def map_snd_zip elim!: window_of_cong)

lemma agg_inv_step [go_inv]:
  assumes "run_step uni la la'" "agg_inv la"
  shows "agg_inv la'"
  using assms
proof (induction rule: run_step.induct)
  case (collect a l ev)
  then show ?case by (auto simp: agg_inv_def Let_def)
next
  case (event a ev evs rnd)
  then obtain w where "window_of w (a \<lparr> ag_EventCh := evs \<rparr>)"
    by (auto simp: agg_inv_def Let_def)
  from window_of_ingest [OF this, of ev uni rnd] event show ?case
    by (auto simp: agg_inv_def Let_def)
next
  case (ticker a now)
  then obtain w where "window_of w a" by (auto simp: agg_inv_def Let_def)
  from flushAndSend_inv [OF this, of now] ticker flushAndSend_window [of now a] show ?case
    by (auto simp: agg_inv_def Let_def)
next
  case (finish a now draws)
  then obtain w where "window_of w a" by (auto simp: agg_inv_def Let_def)
  from flushAndSend_inv [OF drainChannel_window [OF this], of uni draws now] finish
    flushAndSend_window [of now "drainChannel uni draws a"]
  show ?case by (auto simp: agg_inv_def Let_def)
next
  case (transport a b bs l)
  then show ?case by (auto simp: agg_inv_def Let_def)
qed

lemma agg_inv_New: "agg_inv (Running, Aggregator_New cfg smp)"
  using window_of_New [of cfg smp] by (auto simp: agg_inv_def Aggregator_New_def Let_def)

lemma agg_inv_reachable:
  "(run_step uni)\<^sup>*\<^sup>* (Running, Aggregator_New cfg smp) la \<Longrightarrow> agg_inv la"
  by (induction rule: rtranclp_induct) (auto intro: agg_inv_New agg_inv_step)

lemma ag_SendCap_reachable:
  "(run_step uni)\<^sup>*\<^sup>* la la' \<Longrightarrow> ag_SendCap (snd la') = ag_SendCap (snd la)"
  by (induction rule: rtranclp_induct) (auto elim!: run_step.cases)

text \<open>
  C39: the aggregator loop is bounded and sends only real windows. In every state the loop can reach
  from its construction, whatever the interleaving of collectors, ticks, transport and shutdown, at
  most four batches wait in the send channel and each of them is the exact description of a
  non-empty list of events; once the loop has stopped, no event is left in the window.
\<close>

theorem aggregator_loop_safe:
  assumes "(run_step uni)\<^sup>*\<^sup>* (Running, Aggregator_New cfg smp) (l, a)"
  shows "length (ag_SendCh a) \<le> 4 \<and>
    (\<forall>b \<in> set (ag_SendCh a). \<exists>evs. evs \<noteq> [] \<and> describes (ag_sampler a) evs b) \<and>
    (l = Stopped \<longrightarrow> bs_TotalQueries (ag_summary a) = 0 \<and> ag_rawBuf a = [] \<and> ag_stats a = [])"
proof -
  have inv: "agg_inv (l, a)" using assms by (rule agg_inv_reachable)
  have cap: "ag_SendCap a = 4" using ag_SendCap_reachable [OF assms] by (simp add: Aggregator_New_def Let_def)
  from inv have "l = Stopped \<Longrightarrow> window_of [] a" by (simp add: agg_inv_def Let_def)
  with inv cap window_of_Nil show ?thesis by (auto simp: agg_inv_def Let_def)
qed

lemma aggregator_loop_safe_witness:
  "length (ag_SendCh (flushAndSend 5 (Aggregator_New (DefaultConfig ''env'') None))) \<le> 4"
proof -
  have "(run_step \<lparr> is_print = (\<lambda>_. False), to_lower = (\<lambda>r. r) \<rparr>)\<^sup>*\<^sup>*
      (Running, Aggregator_New (DefaultConfig ''env'') None)
      (Running, flushAndSend 5 (Aggregator_New (DefaultConfig ''env'') None))"
    by (rule r_into_rtranclp) (rule run_step.ticker)
  from aggregator_loop_safe [OF this] show ?thesis by blast
qed

subsection \<open>Percentiles\<close>

lemma sorted_le_count: "sorted xs \<Longrightarrow> r < length xs \<Longrightarrow> r < length (filter (\<lambda>x. x \<le> xs ! r) xs)"
proof -
  assume s: "sorted xs" and r: "r < length xs"
  have all: "x \<le> xs ! r" if "x \<in> set (take (Suc r) xs)" for x
    using that s r by (auto simp: in_set_conv_nth intro!: sorted_nth_mono)
  have "filter (\<lambda>x. x \<le> xs ! r) (take (Suc r) xs) = take (Suc r) xs"
    using all by (simp add: filter_id_conv)
  moreover have "length (filter (\<lambda>x. x \<le> xs ! r) (take (Suc r) xs @ drop (Suc r) xs)) \<ge>
      length (filter (\<lambda>x. x \<le> xs ! r) (take (Suc r) xs))" by (simp only: filter_append length_append le_add1)
  ultimately show ?thesis using r by simp
qed

lemma sorted_less_count: "sorted xs \<Longrightarrow> r < length xs \<Longrightarrow> length (filter (\<lambda>x. x < xs ! r) xs) \<le> r"
proof -
  assume s: "sorted xs" and r: "r < length xs"
  have "xs ! r \<le> x" if "x \<in> set (drop r xs)" for x
    using that s r by (auto simp: in_set_conv_nth intro!: sorted_nth_mono)
  then have "filter (\<lambda>x. x < xs ! r) (drop r xs) = []" by (force simp: filter_empty_conv)
  then have "filter (\<lambda>x. x < xs ! r) (take r xs @ drop r xs) = filter (\<lambda>x. x < xs ! r) (take r xs)"
    by (simp only: filter_append append_Nil2)
  then show ?thesis using length_filter_le [of "\<lambda>x. x < xs ! r" "take r xs"] r by simp
qed

lemma length_filter_sort: "length (filter P (sort xs)) = length (filter P xs)"
  by (simp add: filter_sort)

text \<open>
  the percentile is a quantile of the data. For a non-empty list and a percentage below 100 the
  result is one of the values, at most that percentage of the values are smaller than it and more
  than that percentage are at most as large.
\<close>

theorem percentile_is_quantile:
  assumes "values \<noteq> []" "p < 100"
  shows "percentile values p \<in> set values \<and>
    100 * length (filter (\<lambda>v. v < percentile values p) values) \<le> p * length values \<and>
    p * length values < 100 * length (filter (\<lambda>v. v \<le> percentile values p) values)"
proof -
  let ?n = "length values" and ?r = "(p * length values) div 100"
  have "p * ?n < 100 * ?n" using assms by simp
  then have r: "?r < ?n" by (simp add: less_mult_imp_div_less mult.commute)
  then have per: "percentile values p = sort values ! ?r" using assms(1) by (simp add: percentile_def Let_def)
  have mem: "sort values ! ?r \<in> set (sort values)" using r by (intro nth_mem) simp
  have less: "length (filter (\<lambda>v. v < sort values ! ?r) values) \<le> ?r"
    using sorted_less_count [of "sort values" ?r] r by (simp add: length_filter_sort)
  have le: "?r < length (filter (\<lambda>v. v \<le> sort values ! ?r) values)"
    using sorted_le_count [of "sort values" ?r] r by (simp add: length_filter_sort)
  have "100 * ?r \<le> p * ?n" "p * ?n < 100 * Suc ?r"
    using dividend_less_times_div [of 100 "p * ?n"] by simp_all
  with less le have "100 * length (filter (\<lambda>v. v < sort values ! ?r) values) \<le> p * ?n"
    "p * ?n < 100 * length (filter (\<lambda>v. v \<le> sort values ! ?r) values)" by linarith+
  then show ?thesis unfolding per using mem by simp
qed

lemma percentile_is_quantile_witness:
  "percentile [30, 10, 20] 95 \<in> set [30, 10, 20]"
  using percentile_is_quantile [of "[30, 10, 20]" 95] by simp

text \<open>
  the percentile is not the nearest-rank one. For the durations 1 to 20 the nearest-rank 95th
  percentile is 19, the least value that at least 95 percent of the values do not exceed; the code
  returns 20.
\<close>

theorem percentile_not_nearest_rank:
  "percentile (map int [1..<21]) 95 = 20 \<and>
   95 * length (map int [1..<21]) \<le> 100 * length (filter (\<lambda>v. v \<le> 19) (map int [1..<21]))"
  by code_simp

subsection \<open>The sampler's contract\<close>

text \<open>
  What the aggregator relies on in its sampler: the events it counts as errors, N+1 patterns or
  slow queries are always let through.
\<close>

definition counted :: "int \<Rightarrow> Event \<Rightarrow> bool" where
  "counted th ev \<longleftrightarrow> ev_IsError ev \<or> ev_IsN1 ev \<or> 0 < th \<and> th < ev_DurationMS ev"

locale event_filter =
  fixes allow :: "'s \<Rightarrow> go_float \<Rightarrow> EventInfo \<Rightarrow> bool" and threshold :: "'s \<Rightarrow> int"
  assumes allow_error: "i_IsError info \<Longrightarrow> allow s rnd info"
    and allow_n1: "i_IsN1 info \<Longrightarrow> allow s rnd info"
    and allow_slow: "0 < threshold s \<Longrightarrow> threshold s < i_DurationMS info \<Longrightarrow> allow s rnd info"
begin

lemma counted_allowed: "counted (threshold s) ev \<Longrightarrow> allow s rnd (infoOf ev)"
  using allow_error allow_n1 allow_slow by (auto simp: counted_def infoOf_def)

end

interpretation smp: event_filter "Sampler_Allow uni" "sc_SlowThresholdMS \<circ> CurrentConfig" for uni
  by unfold_locales (auto simp: Sampler_Allow_def isCritical_iff CurrentConfig_def Let_def)

text \<open>
  every event the summary counts as an error, an N+1 pattern or a slow query is kept raw as long
  as the window has room: if the raw buffer is below its cap (or there is no cap), such an event is
  appended to it whatever the sampling mode and the drawn number are, and errors and compute events
  are appended even when the buffer is full.
\<close>

theorem counted_events_kept:
  assumes "ac_MaxRawPerFlush (ag_config a) \<le> 0 \<or>
      int (length (ag_rawBuf a)) < ac_MaxRawPerFlush (ag_config a) \<or> ev_IsError ev \<or> ev_IsCompute ev"
    "ev_IsError ev \<or> ev_IsN1 ev \<or> ev_IsCompute ev \<or>
      (0 < slowThreshold (ag_sampler a) \<and> slowThreshold (ag_sampler a) < ev_DurationMS ev)"
  shows "ag_rawBuf (ingest uni rnd ev a) = ag_rawBuf a @ [ev]"
proof -
  have "shouldKeepRaw uni (ag_sampler a) rnd ev" if "\<not> alwaysKept ev"
    using that assms(2) smp.counted_allowed [of _ ev uni rnd]
    by (auto simp: shouldKeepRaw_def slowThreshold_def alwaysKept_def counted_def split: option.splits)
  then show ?thesis using assms(1) by (auto simp: ingest_rawBuf alwaysKept_def)
qed

definition slowEvent :: Event where
  "slowEvent =
     \<lparr> ev_Category = ''orm'', ev_Model = ''sale.order'', ev_Method = ''write'', ev_DurationMS = 900,
       ev_IsError = False, ev_IsN1 = False, ev_SQL = [], ev_Module = [], ev_Traceback = [], ev_UserID = 2,
       ev_Timestamp = 0, ev_FieldName = [], ev_IsCompute = False, ev_DependsOn = [], ev_TriggerField = [] \<rparr>"

lemma counted_events_kept_witness:
  "ag_rawBuf (ingest \<lparr> is_print = (\<lambda>_. False), to_lower = (\<lambda>r. r) \<rparr> (Fin (1 / 2)) slowEvent
     (Aggregator_New (DefaultConfig ''env'')
        (Some \<lparr> smp_config = DefaultProduction, smp_alwaysSet = {} \<rparr>))) = [slowEvent]"
  by (subst counted_events_kept)
    (simp_all add: slowEvent_def Aggregator_New_def DefaultConfig_def slowThreshold_def CurrentConfig_def
      DefaultProduction_def Let_def)

end
