(* ===== verification/Migration_Rules.thy ===== *)
theory Migration_Rules
  imports Go_Strings
begin

text \<open>
  The deprecation database of \<^verbatim>\<open>internal/migration/deprecations.go\<close>: the 110 entries of \<^verbatim>\<open>Rules\<close> in
  their order, one list per version transition (in two parts where it is long).
\<close>

subsection \<open>Rules\<close>

abbreviation KindModelRemoved :: string where "KindModelRemoved \<equiv> ''model_removed''"
abbreviation KindModelRenamed :: string where "KindModelRenamed \<equiv> ''model_renamed''"
abbreviation KindFieldRemoved :: string where "KindFieldRemoved \<equiv> ''field_removed''"
abbreviation KindFieldRenamed :: string where "KindFieldRenamed \<equiv> ''field_renamed''"
abbreviation KindFieldTypeChanged :: string where "KindFieldTypeChanged \<equiv> ''field_type_changed''"
abbreviation KindMethodDeprecated :: string where "KindMethodDeprecated \<equiv> ''method_deprecated''"
abbreviation KindXMLIDChanged :: string where "KindXMLIDChanged \<equiv> ''xmlid_changed''"
abbreviation KindAPIDecorator :: string where "KindAPIDecorator \<equiv> ''api_decorator''"
abbreviation KindXMLPattern :: string where "KindXMLPattern \<equiv> ''xml_pattern''"

abbreviation SeverityBreaking :: string where "SeverityBreaking \<equiv> ''breaking''"
abbreviation SeverityWarning :: string where "SeverityWarning \<equiv> ''warning''"
abbreviation SeverityMinor :: string where "SeverityMinor \<equiv> ''minor''"

type_synonym version = string
type_synonym kind = string
type_synonym severity = string
type_synonym ident = string

record Rule =
  u_FromVersion :: version
  u_ToVersion :: version
  u_Kind :: kind
  u_Severity :: severity
  u_Model :: ident
  u_Field :: ident
  u_OldName :: ident
  u_NewName :: ident
  u_Message :: string
  u_Fix :: string

text \<open>
  The composite literals of the table: the versions, the kind, the severity, then the model, the
  field, the old and the new name (empty where the entry does not set them), the message and the fix.
\<close>

definition rule ::
  "version \<Rightarrow> version \<Rightarrow> kind \<Rightarrow> severity \<Rightarrow> ident \<Rightarrow> ident \<Rightarrow> ident \<Rightarrow>
   ident \<Rightarrow> string \<Rightarrow> string \<Rightarrow> Rule" where
  "rule from to kind severity model field old new message fix =
     \<lparr> u_FromVersion = from, u_ToVersion = to, u_Kind = kind, u_Severity = severity, u_Model = model,
       u_Field = field, u_OldName = old, u_NewName = new, u_Message = message, u_Fix = fix \<rparr>"

lemma rule_simps [simp]:
  "u_FromVersion (rule f t k s m fi ol ne ms fx) = f"
  "u_ToVersion (rule f t k s m fi ol ne ms fx) = t"
  "u_Kind (rule f t k s m fi ol ne ms fx) = k"
  "u_Severity (rule f t k s m fi ol ne ms fx) = s"
  "u_Model (rule f t k s m fi ol ne ms fx) = m"
  "u_Field (rule f t k s m fi ol ne ms fx) = fi"
  "u_OldName (rule f t k s m fi ol ne ms fx) = ol"
  "u_NewName (rule f t k s m fi ol ne ms fx) = ne"
  by (simp_all add: rule_def)

subsection \<open>The table\<close>

definition rules_14_15a :: "Rule list" where
  "rules_14_15a =
    [
     rule ''14.0'' ''15.0'' KindAPIDecorator SeverityBreaking [] [] ''api.multi'' []
       ''@api.multi was removed in Odoo 14. All methods are multi-record by default.''
       ''Delete the @api.multi decorator entirely.'',
     rule ''14.0'' ''15.0'' KindAPIDecorator SeverityBreaking [] [] ''api.one'' []
       ''@api.one was removed in Odoo 14. Rewrite using a for-loop over self.''
       ''Replace @api.one + method body with: for rec in self: ...'',
     rule ''14.0'' ''15.0'' KindMethodDeprecated SeverityBreaking [] [] ''odoo.exceptions.Warning'' []
       ''odoo.exceptions.Warning is deprecated. Use UserError or ValidationError instead.''
       (''Replace '' @ [CHR 0x27] @ ''Warning'' @ [CHR 0x27] @ '' with '' @ [CHR 0x27] @ ''UserError'' @ [CHR 0x27] @ '': from odoo.exceptions import UserError.''),
     rule ''14.0'' ''15.0'' KindMethodDeprecated SeverityBreaking [] [] ''raise Warning'' []
       ''raise Warning(...) is deprecated. Use raise UserError(...) instead.''
       ''Replace raise Warning(...) with raise UserError(...).'',
     rule ''14.0'' ''15.0'' KindMethodDeprecated SeverityWarning [] [] ''cr_uid_context_signature'' []
       ''Old-API method signature (self, cr, uid, ids, context=None) is the v7/v8 ORM. Use the new ORM (self.env).''
       ''Remove cr, uid, context parameters; use self.env.cr, self.env.uid, self.env.context.'',
     rule ''14.0'' ''15.0'' KindMethodDeprecated SeverityWarning [] [] ''sudo_with_user_arg'' []
       ''.sudo(user) with a user argument is deprecated. Use .with_user(user) instead.''
       ''Replace .sudo(user) with .with_user(user).'',
     rule ''14.0'' ''15.0'' KindMethodDeprecated SeverityWarning [] [] ''self.pool'' []
       (''self.pool is the v7 ORM registry. Use self.env['' @ [CHR 0x27] @ ''model.name'' @ [CHR 0x27] @ ''] instead.'')
       (''Replace self.pool.get('' @ [CHR 0x27] @ ''x'' @ [CHR 0x27] @ '') with self.env['' @ [CHR 0x27] @ ''x'' @ [CHR 0x27] @ ''].''),
     rule ''14.0'' ''15.0'' KindMethodDeprecated SeverityWarning [] [] ''ustr'' []
       ''odoo.tools.misc.ustr is deprecated. Use str() instead.''
       ''Remove the ustr import and replace ustr(x) calls with str(x).'',
     rule ''14.0'' ''15.0'' KindFieldRemoved SeverityWarning [] [] ''digits_tuple'' []
       ''Float field digits=(precision, scale) tuple is deprecated. Use a named precision or plain integer scale.''
       (''Replace digits=(16, 2) with digits='' @ [CHR 0x27] @ ''Product Price'' @ [CHR 0x27] @ '' or digits=2.''),
     rule ''14.0'' ''15.0'' KindFieldRemoved SeverityWarning [] [] ''select_true'' []
       ''Field select=True is deprecated. Use index=True instead.''
       ''Replace select=True with index=True.'',
     rule ''14.0'' ''15.0'' KindMethodDeprecated SeverityWarning [] [] ''_defaults'' []
       ''_defaults dict is the v7 ORM API. Use field default= parameters instead.''
       (''Move defaults into field definitions: name = fields.Char(default='' @ [CHR 0x27] @ ''/'' @ [CHR 0x27] @ '').''),
     rule ''14.0'' ''15.0'' KindMethodDeprecated SeverityWarning [] [] ''_columns'' []
       ''_columns dict is the v7 ORM API. Declare fields directly on the model class.''
       ''Replace _columns entries with direct fields.* declarations.'',
     rule ''14.0'' ''15.0'' KindModelRenamed SeverityBreaking ''account.invoice'' [] ''account.invoice'' ''account.move''
       ''account.invoice was merged into account.move in v13; any v14 custom modules referencing account.invoice will break.''
       ''Replace all references to account.invoice with account.move. Use move_type field to filter invoices.'',
     rule ''14.0'' ''15.0'' KindFieldRemoved SeverityBreaking ''product.template'' ''website_published'' [] []
       ''product.template.website_published removed; is_published moved to website.published.mixin.''
       ''Use is_published from the website.published.mixin instead.'',
     rule ''14.0'' ''15.0'' KindFieldRemoved SeverityBreaking ''res.partner'' ''website_published'' [] []
       ''res.partner.website_published removed.''
       ''Use is_published from website.published.mixin.'',
     rule ''14.0'' ''15.0'' KindFieldRemoved SeverityBreaking ''product.template'' ''website_description'' [] []
       ''product.template.website_description removed in v15.''
       ''Use description_sale or the website_description field on website-specific models.'',
     rule ''14.0'' ''15.0'' KindFieldRemoved SeverityWarning ''sale.order.line'' ''product_updatable'' [] []
       ''sale.order.line.product_updatable computed field removed.''
       ''Compute the locked state from order state directly.'',
     rule ''14.0'' ''15.0'' KindMethodDeprecated SeverityBreaking [] [] ''tools.pycompat'' []
       ''tools.pycompat module removed; Python 2 compatibility shims no longer needed.''
       ''Remove all imports of odoo.tools.pycompat.'',
     rule ''14.0'' ''15.0'' KindFieldRemoved SeverityBreaking ''mail.activity'' ''feedback'' [] []
       ''mail.activity.feedback field removed.''
       ''Store feedback on mail.message instead.'',
     rule ''14.0'' ''15.0'' KindFieldRemoved SeverityWarning ''res.company'' ''font'' [] []
       ''res.company.font removed; font configuration moved to report themes.''
       ''Configure fonts via ir.actions.report or QWeb templates.'',
     rule ''14.0'' ''15.0'' KindFieldRenamed SeverityBreaking ''account.move'' [] ''invoice_partner_bank_id'' ''partner_bank_id''
       ''account.move.invoice_partner_bank_id renamed to partner_bank_id.''
       ''Update all references from invoice_partner_bank_id to partner_bank_id.'']"

definition rules_14_15b :: "Rule list" where
  "rules_14_15b =
    [
     rule ''14.0'' ''15.0'' KindModelRemoved SeverityBreaking ''account.abstract.payment'' [] [] []
       ''account.abstract.payment abstract model removed.''
       ''Inherit from account.payment directly.'',
     rule ''14.0'' ''15.0'' KindFieldRemoved SeverityBreaking ''account.payment'' ''invoice_ids'' [] []
       ''account.payment.invoice_ids removed; reconciliation links moved to account.move.line.''
       ''Query reconciled moves through account.move.line.matched_debit_ids / matched_credit_ids.'',
     rule ''14.0'' ''15.0'' KindMethodDeprecated SeverityBreaking [] [] ''openerp'' []
       ''openerp Python package alias removed; use odoo package name.''
       ''Replace all `import openerp` with `import odoo` and `from openerp` with `from odoo`.'']"

definition rules_15_16 :: "Rule list" where
  "rules_15_16 =
    [
     rule ''15.0'' ''16.0'' KindModelRenamed SeverityBreaking ''payment.acquirer'' [] ''payment.acquirer'' ''payment.provider''
       ''payment.acquirer renamed to payment.provider. All related models and fields changed too.''
       (''Rename all references: model payment.acquirer '' @ [CHR 0xE2, CHR 0x86, CHR 0x92] @ '' payment.provider, field acquirer_id '' @ [CHR 0xE2, CHR 0x86, CHR 0x92] @ '' provider_id.''),
     rule ''15.0'' ''16.0'' KindFieldRenamed SeverityBreaking ''payment.transaction'' [] ''acquirer_id'' ''provider_id''
       ''payment.transaction.acquirer_id renamed to provider_id.''
       ''Update all ORM reads/writes and domain filters from acquirer_id to provider_id.'',
     rule ''15.0'' ''16.0'' KindFieldRenamed SeverityBreaking ''payment.token'' [] ''acquirer_id'' ''provider_id''
       ''payment.token.acquirer_id renamed to provider_id.''
       ''Update all references from acquirer_id to provider_id.'',
     rule ''15.0'' ''16.0'' KindFieldRenamed SeverityBreaking ''payment.transaction'' [] ''acquirer_reference'' ''provider_reference''
       ''payment.transaction.acquirer_reference renamed to provider_reference.''
       ''Update all references from acquirer_reference to provider_reference.'',
     rule ''15.0'' ''16.0'' KindModelRemoved SeverityBreaking ''account.account.type'' [] [] []
       ''account.account.type model removed; account types now stored as selection field on account.account.''
       ''Replace m2o to account.account.type with account_type selection field on account.account.'',
     rule ''15.0'' ''16.0'' KindFieldRemoved SeverityBreaking ''account.account'' ''user_type_id'' [] []
       ''account.account.user_type_id (m2o to account.account.type) replaced by account_type selection field.''
       (''Use account_type selection field: '' @ [CHR 0x27] @ ''asset_receivable'' @ [CHR 0x27] @ '', '' @ [CHR 0x27] @ ''liability_payable'' @ [CHR 0x27] @ '', '' @ [CHR 0x27] @ ''income'' @ [CHR 0x27] @ '', '' @ [CHR 0x27] @ ''expense'' @ [CHR 0x27] @ '', etc.''),
     rule ''15.0'' ''16.0'' KindFieldRemoved SeverityBreaking ''account.journal'' ''default_debit_account_id'' [] []
       ''account.journal.default_debit_account_id removed in v16.''
       ''Use default_account_id for journals.'',
     rule ''15.0'' ''16.0'' KindFieldRemoved SeverityBreaking ''account.journal'' ''default_credit_account_id'' [] []
       ''account.journal.default_credit_account_id removed in v16.''
       ''Use default_account_id for journals.'',
     rule ''15.0'' ''16.0'' KindFieldRemoved SeverityWarning ''crm.stage'' ''probability'' [] []
       ''crm.stage.probability field removed; probability is now AI-computed per lead.''
       ''Use crm.lead.probability (per-lead) instead of stage-level probability.'',
     rule ''15.0'' ''16.0'' KindFieldRemoved SeverityBreaking ''account.move.line'' ''account_internal_type'' [] []
       ''account.move.line.account_internal_type removed; use account_type from account.account.''
       ''Join to account.account and use account_type selection field.'',
     rule ''15.0'' ''16.0'' KindFieldRemoved SeverityBreaking ''account.move.line'' ''account_internal_group'' [] []
       ''account.move.line.account_internal_group removed.''
       ''Use account.account.account_type to determine grouping.'',
     rule ''15.0'' ''16.0'' KindFieldRemoved SeverityWarning ''sale.order'' ''website_order_line'' [] []
       ''sale.order.website_order_line removed from website_sale in v16.''
       ''Use order_line with website-specific domain if needed.'',
     rule ''15.0'' ''16.0'' KindMethodDeprecated SeverityBreaking [] [] ''AbstractModel._inherits_check'' []
       ''_inherits_check internal method removed; delegation inheritance works differently in v16.''
       ''Review _inherits definitions; use _inherit for behavior and _inherits only for delegation.'',
     rule ''15.0'' ''16.0'' KindFieldRemoved SeverityWarning ''res.partner'' ''signup_token'' [] []
       ''res.partner.signup_token, signup_type, signup_expiration moved to auth_signup module.''
       ''Access via auth_signup module; check module dependency.'',
     rule ''15.0'' ''16.0'' KindFieldRemoved SeverityBreaking ''stock.warehouse.orderpoint'' ''procurement_ids'' [] []
       ''stock.warehouse.orderpoint.procurement_ids removed in v16.''
       ''Use stock.move links instead.'',
     rule ''15.0'' ''16.0'' KindFieldTypeChanged SeverityWarning ''account.move'' ''state'' [] []
       (''account.move state values changed: '' @ [CHR 0x27] @ ''draft'' @ [CHR 0x27] @ '', '' @ [CHR 0x27] @ ''posted'' @ [CHR 0x27] @ '', '' @ [CHR 0x27] @ ''cancel'' @ [CHR 0x27] @ '' remain but flow constraints tightened.'')
       ''Review state-dependent business logic; posted moves cannot be edited without reset.'']"

definition rules_16_17a :: "Rule list" where
  "rules_16_17a =
    [
     rule ''16.0'' ''17.0'' KindFieldRemoved SeverityBreaking ''account.account'' ''user_type_id'' [] []
       ''account.account.user_type_id fully removed in v17 (deprecated since v16).''
       (''Use account_type selection: '' @ [CHR 0x27] @ ''asset_cash'' @ [CHR 0x27] @ '', '' @ [CHR 0x27] @ ''asset_receivable'' @ [CHR 0x27] @ '', '' @ [CHR 0x27] @ ''liability_payable'' @ [CHR 0x27] @ '', '' @ [CHR 0x27] @ ''income'' @ [CHR 0x27] @ '', '' @ [CHR 0x27] @ ''expense'' @ [CHR 0x27] @ '', etc.''),
     rule ''16.0'' ''17.0'' KindFieldRemoved SeverityBreaking ''account.move'' ''invoice_payment_state'' [] []
       ''account.move.invoice_payment_state removed; use payment_state.''
       ''Replace invoice_payment_state with payment_state everywhere.'',
     rule ''16.0'' ''17.0'' KindFieldRemoved SeverityBreaking ''account.move.line'' ''account_internal_type'' [] []
       ''account.move.line.account_internal_type removed in v17.''
       ''Use account_id.account_type instead.'',
     rule ''16.0'' ''17.0'' KindFieldRenamed SeverityBreaking ''account.tax.group'' [] ''account_id'' ''tax_current_account_id''
       ''account.tax.group.account_id renamed to tax_current_account_id.''
       ''Update references from account_id to tax_current_account_id.'',
     rule ''16.0'' ''17.0'' KindFieldRenamed SeverityBreaking ''account.tax.group'' [] ''refund_account_id'' ''tax_due_account_id''
       ''account.tax.group.refund_account_id renamed to tax_due_account_id.''
       ''Update references from refund_account_id to tax_due_account_id.'',
     rule ''16.0'' ''17.0'' KindFieldRemoved SeverityWarning ''mail.thread'' ''message_channel_ids'' [] []
       ''mail.thread.message_channel_ids removed; channels use discuss.channel in v17.''
       ''Use discuss.channel model for channel references.'',
     rule ''16.0'' ''17.0'' KindModelRenamed SeverityBreaking ''mail.channel'' [] ''mail.channel'' ''discuss.channel''
       ''mail.channel renamed to discuss.channel in v17.''
       ''Replace all references to mail.channel with discuss.channel.'',
     rule ''16.0'' ''17.0'' KindModelRemoved SeverityBreaking ''mail.channel.member'' [] [] []
       ''mail.channel.member renamed to discuss.channel.member.''
       ''Use discuss.channel.member instead.'',
     rule ''16.0'' ''17.0'' KindFieldRemoved SeverityBreaking ''hr.employee'' ''hr_presence_state'' [] []
       ''hr.employee.hr_presence_state removed; presence tracking changed.''
       ''Use hr.employee.activity_state or attendance records.'',
     rule ''16.0'' ''17.0'' KindFieldRemoved SeverityWarning ''product.product'' ''website_published'' [] []
       ''product.product.website_published removed (was already on product.template).''
       ''Use product.template.is_published.'',
     rule ''16.0'' ''17.0'' KindMethodDeprecated SeverityBreaking [] [] ''BaseModel.read_group (fill_temporal)'' []
       ''read_group fill_temporal parameter removed in v17.''
       ''Implement time-slot filling in Python/JS code if needed.'',
     rule ''16.0'' ''17.0'' KindFieldRemoved SeverityWarning ''stock.move.line'' ''product_qty'' [] []
       ''stock.move.line.product_qty deprecated; use reserved_qty or quantity.''
       ''Use qty_done for done quantities and reserved_qty for reservations.'',
     rule ''16.0'' ''17.0'' KindFieldRenamed SeverityBreaking ''stock.move.line'' [] ''qty_done'' ''quantity''
       ''stock.move.line.qty_done renamed to quantity in v17.''
       ''Replace qty_done with quantity for stock.move.line.'',
     rule ''16.0'' ''17.0'' KindFieldRenamed SeverityBreaking ''stock.move'' [] ''product_qty'' ''product_uom_qty''
       ''stock.move quantity field consolidation in v17; product_qty now always in UoM.''
       ''Verify all quantity reads use product_uom_qty for demand.'',
     rule ''16.0'' ''17.0'' KindFieldRemoved SeverityBreaking ''website'' ''cdn_activated'' [] []
       ''website.cdn_activated and CDN-related fields removed in v17.''
       ''Configure CDN at the reverse-proxy / infrastructure level instead.'',
     rule ''16.0'' ''17.0'' KindFieldRemoved SeverityWarning ''res.company'' ''po_double_validation'' [] []
       ''res.company.po_double_validation field removed; use purchase order approval flow.''
       ''Use purchase.order approval settings in res.company.'',
     rule ''16.0'' ''17.0'' KindFieldRemoved SeverityBreaking ''account.move'' ''sequence_number_reset'' [] []
       ''account.move.sequence_number_reset field removed in v17.''
       ''Manage journal entry sequencing through account.journal.'',
     rule ''16.0'' ''17.0'' KindMethodDeprecated SeverityWarning [] [] ''Environment.ref (raise_if_not_found=True default)'' []
       ''env.ref() now returns None by default when not found instead of raising; explicit raise_if_not_found=True needed.''
       ''Add raise_if_not_found=True where you expect the record to always exist.'',
     rule ''16.0'' ''17.0'' KindFieldRemoved SeverityWarning ''hr.leave'' ''payslip_state'' [] []
       ''hr.leave.payslip_state removed in v17.''
       ''Check payroll integration via hr.payslip instead.'',
     rule ''16.0'' ''17.0'' KindFieldRemoved SeverityBreaking ''mrp.production'' ''product_qty'' [] []
       ''mrp.production.product_qty renamed to qty_production in v17.''
       ''Use qty_production for manufacturing order quantities.'']"

definition rules_16_17b :: "Rule list" where
  "rules_16_17b =
    [
     rule ''16.0'' ''17.0'' KindFieldRemoved SeverityBreaking ''account.move'' ''fattura_pa_attachments_ids'' [] []
       ''Italian e-invoicing field fattura_pa_attachments_ids removed (moved to l10n_it_edi).''
       (''Use l10n_it_edi module'' @ [CHR 0x27] @ ''s dedicated fields.''),
     rule ''16.0'' ''17.0'' KindFieldTypeChanged SeverityWarning ''res.partner'' ''type'' [] []
       (''res.partner.type: '' @ [CHR 0x27] @ ''other'' @ [CHR 0x27] @ '' value removed; use '' @ [CHR 0x27] @ ''contact'' @ [CHR 0x27] @ '' or specific address types.'')
       (''Replace type='' @ [CHR 0x27] @ ''other'' @ [CHR 0x27] @ '' with type='' @ [CHR 0x27] @ ''contact'' @ [CHR 0x27] @ '' in existing data and code.'')]"

definition rules_17_18 :: "Rule list" where
  "rules_17_18 =
    [
     rule ''17.0'' ''18.0'' KindMethodDeprecated SeverityBreaking [] [] ''BaseModel.search (count=True)'' []
       ''search(count=True) removed in v18; use search_count() instead.''
       (''Replace env['' @ [CHR 0x27] @ ''model'' @ [CHR 0x27] @ ''].search(domain, count=True) with env['' @ [CHR 0x27] @ ''model'' @ [CHR 0x27] @ ''].search_count(domain).''),
     rule ''17.0'' ''18.0'' KindFieldRemoved SeverityBreaking ''account.move'' ''invoice_date_due'' [] []
       ''account.move.invoice_date_due renamed to invoice_payment_term_id-derived date in v18; use payment_term_id.''
       (''Compute due dates through payment terms; don'' @ [CHR 0x27] @ ''t write invoice_date_due directly.''),
     rule ''17.0'' ''18.0'' KindFieldRemoved SeverityBreaking ''sale.order'' ''amount_undiscounted'' [] []
       ''sale.order.amount_undiscounted removed in v18.''
       ''Compute undiscounted amounts from order lines directly.'',
     rule ''17.0'' ''18.0'' KindModelRemoved SeverityBreaking ''account.move.reversal'' [] [] []
       ''account.move.reversal wizard model refactored in v18.''
       ''Use the updated reversal action on account.move.'',
     rule ''17.0'' ''18.0'' KindFieldRemoved SeverityWarning ''res.partner'' ''credit_limit'' [] []
       ''res.partner.credit_limit moved to account_credit_limit module in v18.''
       ''Install account_credit_limit module or manage limits at application level.'',
     rule ''17.0'' ''18.0'' KindFieldRenamed SeverityBreaking ''stock.quant'' [] ''reserved_quantity'' ''reserved_qty''
       ''stock.quant.reserved_quantity renamed to reserved_qty in v18.''
       ''Replace reserved_quantity with reserved_qty on stock.quant.'',
     rule ''17.0'' ''18.0'' KindFieldRemoved SeverityWarning ''hr.attendance'' ''worked_hours'' [] []
       ''hr.attendance.worked_hours computation changed; manual entries may differ.''
       ''Recalculate worked_hours after data migration.'',
     rule ''17.0'' ''18.0'' KindFieldRemoved SeverityBreaking ''website'' ''menu_id'' [] []
       ''website.menu_id structure changed in v18; top menu now managed differently.''
       ''Use website.menu records directly; do not rely on menu_id root.'',
     rule ''17.0'' ''18.0'' KindFieldTypeChanged SeverityWarning ''ir.rule'' ''domain_force'' [] []
       ''ir.rule.domain_force evaluation context changed in v18; user variable access may differ.''
       ''Test all record rules in staging before upgrading production.'',
     rule ''17.0'' ''18.0'' KindFieldRemoved SeverityWarning ''mrp.bom'' ''sequence'' [] []
       ''mrp.bom.sequence field semantics changed in v18.''
       ''Review BoM ordering logic after upgrade.'',
     rule ''17.0'' ''18.0'' KindFieldRemoved SeverityBreaking ''purchase.order'' ''dest_address_id'' [] []
       ''purchase.order.dest_address_id consolidated into partner_id flow in v18.''
       ''Use picking_type_id destination for dropship scenarios.'',
     rule ''17.0'' ''18.0'' KindMethodDeprecated SeverityBreaking [] [] ''report.AbstractReportDownloadMixin'' []
       ''AbstractReportDownloadMixin removed in v18; reports use actions directly.''
       ''Inherit from report.AbstractReport and use action_report methods.'',
     rule ''17.0'' ''18.0'' KindFieldRemoved SeverityWarning ''product.template'' ''website_sequence'' [] []
       ''product.template.website_sequence removed in v18; use website_published_date for ordering.''
       ''Use website_published_date or custom sequence field.'',
     rule ''17.0'' ''18.0'' KindModelRemoved SeverityBreaking ''sms.sms'' [] [] []
       ''sms.sms model refactored into discuss.channel in v18 for unified messaging.''
       ''Use discuss.channel for SMS delivery in v18.'']"

definition rules_18_19a :: "Rule list" where
  "rules_18_19a =
    [
     rule ''18.0'' ''19.0'' KindMethodDeprecated SeverityBreaking [] [] ''record._uid'' []
       ''record._uid is deprecated in v19. Use self.env.uid instead.''
       ''Replace self._uid with self.env.uid.'',
     rule ''18.0'' ''19.0'' KindMethodDeprecated SeverityBreaking [] [] ''record._context'' []
       ''record._context is deprecated in v19. Use self.env.context instead.''
       ''Replace self._context with self.env.context.'',
     rule ''18.0'' ''19.0'' KindMethodDeprecated SeverityBreaking [] [] ''record._cr'' []
       ''record._cr is deprecated in v19. Use self.env.cr instead.''
       ''Replace self._cr with self.env.cr.'',
     rule ''18.0'' ''19.0'' KindMethodDeprecated SeverityBreaking [] [] ''name_get'' []
       ''name_get() is deprecated in v19. Read the display_name field instead.''
       ''Remove name_get() and override _compute_display_name() if a custom display name is needed.'',
     rule ''18.0'' ''19.0'' KindAPIDecorator SeverityBreaking [] [] ''api.returns'' []
       ''@api.returns() decorator is dropped in v19.''
       ''Remove the @api.returns() decorator entirely.'',
     rule ''18.0'' ''19.0'' KindMethodDeprecated SeverityBreaking [] [] ''_apply_ir_rules'' []
       ''_apply_ir_rules() is removed in v19. Security rules are integrated into search methods.''
       ''Remove the _apply_ir_rules() call; access control is enforced automatically.'',
     rule ''18.0'' ''19.0'' KindMethodDeprecated SeverityWarning [] [] ''_flush_search'' []
       ''_flush_search() is deprecated in v19. Flushing is now handled internally by execute_query().''
       ''Remove the _flush_search() override.'',
     rule ''18.0'' ''19.0'' KindMethodDeprecated SeverityBreaking [] [] ''_company_default_get'' []
       ''_company_default_get() is removed in v19. Use self.env.company instead.''
       (''Replace _company_default_get('' @ [CHR 0x27] @ ''model'' @ [CHR 0x27] @ '') with self.env.company.''),
     rule ''18.0'' ''19.0'' KindMethodDeprecated SeverityBreaking [] [] ''odoo.osv.expression'' []
       ''odoo.osv and odoo.osv.expression are removed in v19. Use odoo.fields.Domain instead.''
       ''Replace expression.AND/OR with Domain.AND/Domain.OR from odoo.fields.'',
     rule ''18.0'' ''19.0'' KindMethodDeprecated SeverityBreaking [] [] ''BaseModel.read_group (lazy=False)'' []
       ''read_group(lazy=False) parameter removed in v19; use _read_group() instead.''
       ''Replace read_group(..., lazy=False) with _read_group() for full grouping support.'',
     rule ''18.0'' ''19.0'' KindMethodDeprecated SeverityWarning [] [] ''get_xml_id'' []
       ''get_xml_id() is deprecated in v19. Use _get_external_ids() instead.''
       ''Replace .get_xml_id() with ._get_external_ids().'',
     rule ''18.0'' ''19.0'' KindMethodDeprecated SeverityWarning [] [] ''fields_get_keys'' []
       ''fields_get_keys() is deprecated in v19. Use self._fields.keys() instead.''
       ''Replace .fields_get_keys() with list(self._fields.keys()).'',
     rule ''18.0'' ''19.0'' KindMethodDeprecated SeverityBreaking [] [] ''get_module_resource'' []
       ''get_module_resource() moved in v19. Import get_resource_from_path from odoo.modules instead.''
       (''Replace: from odoo.modules.module import get_module_resource'' @ [CHR 0x0A] @ ''With:    from odoo.modules import get_resource_from_path''),
     rule ''18.0'' ''19.0'' KindMethodDeprecated SeverityBreaking [] [] ''BaseModel._rec_name_search'' []
       ''_rec_name_search() removed in v19; name_search() logic consolidated into _search().''
       ''Override _search() or _name_search() instead of _rec_name_search().'',
     rule ''18.0'' ''19.0'' KindMethodDeprecated SeverityWarning [] [] ''ir.actions.act_window.read_action'' []
       ''read_action() helper deprecated in v19; retrieve window actions via ir.actions.act_window.read().''
       (''Use self.env['' @ [CHR 0x27] @ ''ir.actions.act_window'' @ [CHR 0x27] @ ''].browse(action_id).read() directly.''),
     rule ''18.0'' ''19.0'' KindFieldRenamed SeverityBreaking ''sale.order.line'' [] ''product_uom'' ''product_uom_id''
       ''sale.order.line.product_uom renamed to product_uom_id in v19.''
       ''Rename product_uom to product_uom_id in field declarations, ORM calls, and XML views.'',
     rule ''18.0'' ''19.0'' KindFieldRenamed SeverityBreaking ''sale.order.line'' [] ''tax_id'' ''tax_ids''
       ''sale.order.line.tax_id renamed to tax_ids in v19.''
       ''Rename tax_id to tax_ids in all references.'',
     rule ''18.0'' ''19.0'' KindFieldRenamed SeverityBreaking ''product.product'' [] ''taxes_id'' ''tax_ids''
       ''product.product.taxes_id renamed to tax_ids in v19.''
       ''Rename taxes_id to tax_ids in all references.'',
     rule ''18.0'' ''19.0'' KindFieldRenamed SeverityBreaking ''stock.picking'' [] ''move_lines'' ''move_ids''
       ''stock.picking.move_lines renamed to move_ids in v19 for consistency.''
       ''Replace all references to picking.move_lines with picking.move_ids.'']"

definition rules_18_19b :: "Rule list" where
  "rules_18_19b =
    [
     rule ''18.0'' ''19.0'' KindFieldRemoved SeverityBreaking ''res.users'' ''groups_id'' [] []
       ''res.users.groups_id access pattern changed in v19; direct many2many assignment deprecated.''
       (''Use res.users.write({'' @ [CHR 0x27] @ ''groups_id'' @ [CHR 0x27] @ '': [(4, group_id)]}) or the new role-based assignment API.''),
     rule ''18.0'' ''19.0'' KindFieldRemoved SeverityBreaking ''sale.order.line'' ''product_updatable'' [] []
       ''sale.order.line.product_updatable removed in v19; editability controlled by order state.''
       ''Check sale.order.state directly to determine if lines are editable.'',
     rule ''18.0'' ''19.0'' KindFieldRemoved SeverityWarning ''account.move'' ''tax_cash_basis_move_id'' [] []
       ''account.move.tax_cash_basis_move_id removed in v19; cash basis entries tracked differently.''
       ''Use account.partial.reconcile to trace cash basis tax entries.'',
     rule ''18.0'' ''19.0'' KindFieldRemoved SeverityWarning ''product.template'' ''sale_line_warn'' [] []
       ''product.template.sale_line_warn and sale_line_warn_msg removed in v19.''
       ''Use product notes or custom warning logic via sale order onchange.'',
     rule ''18.0'' ''19.0'' KindFieldRemoved SeverityWarning ''product.template'' ''sale_line_warn_msg'' [] []
       ''product.template.sale_line_warn_msg removed in v19 alongside sale_line_warn.''
       ''Use product notes or custom warning logic via sale order onchange.'',
     rule ''18.0'' ''19.0'' KindFieldRemoved SeverityBreaking ''hr.employee'' ''barcode'' [] []
       ''hr.employee.barcode removed in v19; attendance identification uses badge_id or pin.''
       ''Use badge_id for badge scanning or pin for keypad attendance identification.'',
     rule ''18.0'' ''19.0'' KindFieldTypeChanged SeverityWarning ''res.currency'' ''rate'' [] []
       ''res.currency.rate is now computed on-the-fly in v19; writing directly to rate deprecated.''
       ''Use res.currency.rate records (res.currency.rate model) to set exchange rates.'',
     rule ''18.0'' ''19.0'' KindModelRenamed SeverityBreaking ''account.analytic.account'' [] ''account.analytic.account'' ''account.analytic.plan''
       ''account.analytic.account merged into account.analytic.plan in v19.''
       ''Use account.analytic.plan for analytic grouping; migrate existing analytic accounts to plan records.'',
     rule ''18.0'' ''19.0'' KindModelRemoved SeverityBreaking ''mail.alias.mixin'' [] [] []
       ''mail.alias.mixin abstract model refactored in v19; alias handling moved to mail.alias.mixin.optional.''
       ''Inherit from mail.alias.mixin.optional and implement _alias_get_creation_values().'',
     rule ''18.0'' ''19.0'' KindModelRemoved SeverityBreaking ''hr.expense.sheet'' [] [] []
       ''hr.expense.sheet model is removed in v19. Expense logic moves to hr.expense directly.''
       ''Migrate expense sheet logic to hr.expense model.'',
     rule ''18.0'' ''19.0'' KindModelRemoved SeverityBreaking ''hr.candidate'' [] [] []
       ''hr.candidate model is removed in v19.''
       ''Migrate candidate data to hr.applicant.'',
     rule ''18.0'' ''19.0'' KindModelRemoved SeverityBreaking ''res.partner.title'' [] [] []
       ''res.partner.title model is removed in v19.''
       ''Remove all references to res.partner.title.'',
     rule ''18.0'' ''19.0'' KindXMLIDChanged SeverityWarning [] [] ''base.group_no_one'' ''base.group_system''
       ''base.group_no_one XML ID merged into base.group_system in v19.''
       ''Replace base.group_no_one with base.group_system in access rules and view groups.'',
     rule ''18.0'' ''19.0'' KindXMLPattern SeverityBreaking [] [] ''kanban-box'' []
       ''<kanban-box> template removed in v19. Use <card> template instead.''
       (''Rename t-name='' @ [CHR 0x22] @ ''kanban-box'' @ [CHR 0x22] @ '' to t-name='' @ [CHR 0x22] @ ''card'' @ [CHR 0x22] @ '' in all kanban views.''),
     rule ''18.0'' ''19.0'' KindXMLPattern SeverityWarning [] [] (''expand='' @ [CHR 0x22] @ ''0'' @ [CHR 0x22]) []
       (''Search view <group expand='' @ [CHR 0x22] @ ''0'' @ [CHR 0x22] @ ''> attribute removed in v19. Use plain <group> instead.'')
       (''Remove expand='' @ [CHR 0x22] @ ''0'' @ [CHR 0x22] @ '' and string= attributes from <group> tags in search views.'')]"

definition Rules :: "Rule list" where
  "Rules = rules_14_15a @ rules_14_15b @ rules_15_16 @ rules_16_17a @ rules_16_17b @ rules_17_18 @ rules_18_19a @ rules_18_19b"

lemmas rule_parts = rules_14_15a_def rules_14_15b_def rules_15_16_def rules_16_17a_def rules_16_17b_def rules_17_18_def rules_18_19a_def rules_18_19b_def

end
