(* ===== verification/Migration_Scan.thy ===== *)
theory Migration_Scan
  imports Migration_Rules Go_Value
begin

text \<open>
  The migration scanner (\<^verbatim>\<open>internal/migration/scanner.go\<close> and the lookup functions at the end of
  \<^verbatim>\<open>internal/migration/deprecations.go\<close>). A nil slice and an empty one are the empty list. The two
  uses of \<^verbatim>\<open>json.Unmarshal\<close> in \<^verbatim>\<open>buildIndex\<close> are parameters: \<open>decodeModels\<close> gives the entries of the
  top-level object, in the order in which the loop visits them, and \<open>decodeFields\<close> the keys of the
  \<^verbatim>\<open>fields\<close> object of an entry.
\<close>

subsection \<open>Looking up rules\<close>

definition ByTransition :: "string \<Rightarrow> string \<Rightarrow> Rule list" where
  "ByTransition from to = filter (\<lambda>r. u_FromVersion r = from \<and> u_ToVersion r = to) Rules"

definition ByModel :: "string \<Rightarrow> Rule list" where
  "ByModel model = filter (\<lambda>r. u_Model r = model \<or> u_OldName r = model) Rules"

definition Transitions :: "(string \<times> string) list" where
  "Transitions =
     [(''14.0'', ''15.0''), (''15.0'', ''16.0''), (''16.0'', ''17.0''), (''17.0'', ''18.0''), (''18.0'', ''19.0'')]"

definition versionOrder :: "string list" where
  "versionOrder = [''14.0'', ''15.0'', ''16.0'', ''17.0'', ''18.0'', ''19.0'']"

text \<open>The loop that finds the positions of both versions, \<open>-1\<close> for an unknown one.\<close>

fun findVersions :: "string \<Rightarrow> string \<Rightarrow> int \<Rightarrow> int \<times> int \<Rightarrow> string list \<Rightarrow> int \<times> int" where
  "findVersions from to i idx [] = idx"
| "findVersions from to i (fromIdx, toIdx) (v # vs) =
     findVersions from to (i + 1) (if v = from then i else fromIdx, if v = to then i else toIdx) vs"

fun pathLoop :: "nat \<Rightarrow> nat \<Rightarrow> Rule list" where
  "pathLoop i 0 = []"
| "pathLoop i (Suc n) = ByTransition (versionOrder ! i) (versionOrder ! (i + 1)) @ pathLoop (i + 1) n"

definition PathBetween :: "string \<Rightarrow> string \<Rightarrow> Rule list" where
  "PathBetween from to =
     (case findVersions from to 0 (-1, -1) versionOrder of
        (fromIdx, toIdx) \<Rightarrow>
          if fromIdx < 0 \<or> toIdx < 0 \<or> fromIdx \<ge> toIdx then []
          else pathLoop (nat fromIdx) (nat (toIdx - fromIdx)))"

subsection \<open>Evaluating rules\<close>

record Issue =
  is_Severity :: string
  is_Kind :: string
  is_Model :: string
  is_Field :: string
  is_OldName :: string
  is_NewName :: string
  is_Message :: string
  is_Fix :: string
  is_FromVersion :: string
  is_ToVersion :: string

record ScanResult =
  sr_Issues :: "Issue list"
  sr_BreakingCount :: int
  sr_WarningCount :: int
  sr_MinorCount :: int

type_synonym modelFieldSet = "(string, string set) gomap"

definition makeIssue :: "Rule \<Rightarrow> Issue" where
  "makeIssue r =
     \<lparr> is_Severity = u_Severity r, is_Kind = u_Kind r, is_Model = u_Model r, is_Field = u_Field r,
       is_OldName = u_OldName r, is_NewName = u_NewName r, is_Message = u_Message r, is_Fix = u_Fix r,
       is_FromVersion = u_FromVersion r, is_ToVersion = u_ToVersion r \<rparr>"

definition coalesce :: "string \<Rightarrow> string \<Rightarrow> string" where
  "coalesce primary fallback = (if primary \<noteq> [] then primary else fallback)"

definition modelExists :: "modelFieldSet \<Rightarrow> string \<Rightarrow> bool" where
  "modelExists idx model \<longleftrightarrow> map_of idx model \<noteq> None"

definition evalModelExists :: "Rule \<Rightarrow> modelFieldSet \<Rightarrow> Issue option" where
  "evalModelExists r idx =
     (let target = coalesce (u_OldName r) (u_Model r) in
      if \<not> modelExists idx target then None else Some (makeIssue r))"

definition evalFieldExists :: "Rule \<Rightarrow> modelFieldSet \<Rightarrow> string \<Rightarrow> Issue option" where
  "evalFieldExists r idx field =
     (case map_of idx (u_Model r) of
        None \<Rightarrow> None
      | Some fs \<Rightarrow> if field \<notin> fs then None else Some (makeIssue r))"

definition evaluate :: "Rule \<Rightarrow> modelFieldSet \<Rightarrow> Issue option" where
  "evaluate r idx =
     (if u_Kind r = KindModelRemoved \<or> u_Kind r = KindModelRenamed then evalModelExists r idx
      else if u_Kind r = KindFieldRemoved then evalFieldExists r idx (u_Field r)
      else if u_Kind r = KindFieldRenamed then evalFieldExists r idx (coalesce (u_Field r) (u_OldName r))
      else if u_Kind r = KindFieldTypeChanged then evalFieldExists r idx (coalesce (u_OldName r) (u_Field r))
      else if u_Kind r = KindMethodDeprecated \<or> u_Kind r = KindXMLIDChanged then Some (makeIssue r)
      else None)"

subsection \<open>The schema index\<close>

fun indexLoop ::
  "unicode \<Rightarrow> (string \<Rightarrow> msg + string list) \<Rightarrow> modelFieldSet \<Rightarrow> (string \<times> string) list \<Rightarrow> modelFieldSet" where
  "indexLoop uni decodeFields idx [] = idx"
| "indexLoop uni decodeFields idx ((modelName, modelRaw) # entries) =
     (let key = ToLower uni modelName;
          fieldSet = (case decodeFields modelRaw of
                        Inl _ \<Rightarrow> {}
                      | Inr fnames \<Rightarrow> foldl (\<lambda>A f. insert (ToLower uni f) A) {} fnames)
      in indexLoop uni decodeFields (AList.update key fieldSet idx) entries)"

definition buildIndex ::
  "unicode \<Rightarrow> (string \<Rightarrow> msg + (string \<times> string) list) \<Rightarrow> (string \<Rightarrow> msg + string list) \<Rightarrow> string \<Rightarrow>
     msg + modelFieldSet" where
  "buildIndex uni decodeModels decodeFields raw =
     (if raw = [] \<or> raw = ''null'' then Inr []
      else case decodeModels raw of
             Inl e \<Rightarrow> Inl e
           | Inr entries \<Rightarrow> Inr (indexLoop uni decodeFields [] entries))"

subsection \<open>Scan\<close>

definition emptyResult :: ScanResult where
  "emptyResult = \<lparr> sr_Issues = [], sr_BreakingCount = 0, sr_WarningCount = 0, sr_MinorCount = 0 \<rparr>"

definition addIssue :: "Issue \<Rightarrow> ScanResult \<Rightarrow> ScanResult" where
  "addIssue issue res =
     res \<lparr> sr_Issues := sr_Issues res @ [issue],
           sr_BreakingCount := sr_BreakingCount res + (if is_Severity issue = SeverityBreaking then 1 else 0),
           sr_WarningCount := sr_WarningCount res + (if is_Severity issue = SeverityWarning then 1 else 0),
           sr_MinorCount := sr_MinorCount res + (if is_Severity issue = SeverityMinor then 1 else 0) \<rparr>"

fun scanRules :: "modelFieldSet \<Rightarrow> ScanResult \<Rightarrow> Rule list \<Rightarrow> ScanResult" where
  "scanRules idx res [] = res"
| "scanRules idx res (r # rules) =
     (case evaluate r idx of
        None \<Rightarrow> scanRules idx res rules
      | Some issue \<Rightarrow> scanRules idx (addIssue issue res) rules)"

text \<open>The result pointer and the error: an unparsable schema gives both an empty result and an error.\<close>

definition Scan ::
  "unicode \<Rightarrow> (string \<Rightarrow> msg + (string \<times> string) list) \<Rightarrow> (string \<Rightarrow> msg + string list) \<Rightarrow>
     string \<Rightarrow> string \<Rightarrow> string \<Rightarrow> ScanResult option \<times> msg option" where
  "Scan uni decodeModels decodeFields modelsJSON fromVersion toVersion =
     (let rules = PathBetween fromVersion toVersion in
      if rules = [] then
        (None, Some [S ''unsupported version path: '', S fromVersion, S ('' '' @ [CHR 0xE2, CHR 0x86, CHR 0x92] @ '' ''),
                     S toVersion])
      else case buildIndex uni decodeModels decodeFields modelsJSON of
             Inl e \<Rightarrow> (Some emptyResult, Some ([S ''parse schema: ''] @ e))
           | Inr idx \<Rightarrow> (Some (scanRules idx emptyResult rules), None))"

subsection \<open>The table\<close>

definition transits :: "string \<Rightarrow> string \<Rightarrow> Rule \<Rightarrow> bool" where
  "transits v w r \<longleftrightarrow> u_FromVersion r = v \<and> u_ToVersion r = w"

lemma parts_transit:
  "list_all (transits ''14.0'' ''15.0'') rules_14_15a" "list_all (transits ''14.0'' ''15.0'') rules_14_15b"
  "list_all (transits ''15.0'' ''16.0'') rules_15_16"
  "list_all (transits ''16.0'' ''17.0'') rules_16_17a" "list_all (transits ''16.0'' ''17.0'') rules_16_17b"
  "list_all (transits ''17.0'' ''18.0'') rules_17_18"
  "list_all (transits ''18.0'' ''19.0'') rules_18_19a" "list_all (transits ''18.0'' ''19.0'') rules_18_19b"
  by (simp_all add: rule_parts transits_def)

lemma Rules_severity:
  "list_all (\<lambda>r. u_Severity r \<in> {SeverityBreaking, SeverityWarning, SeverityMinor}) Rules"
  unfolding Rules_def list_all_append by (simp add: rule_parts)

lemma filter_part:
  "list_all (transits v w) rs \<Longrightarrow>
     filter (\<lambda>r. u_FromVersion r = v' \<and> u_ToVersion r = w') rs = (if v' = v \<and> w' = w then rs else [])"
  by (auto simp: list_all_iff transits_def filter_id_conv filter_empty_conv)

lemmas filter_parts = parts_transit [THEN filter_part]

lemma ByTransition_parts:
  "ByTransition ''14.0'' ''15.0'' = rules_14_15a @ rules_14_15b"
  "ByTransition ''15.0'' ''16.0'' = rules_15_16"
  "ByTransition ''16.0'' ''17.0'' = rules_16_17a @ rules_16_17b"
  "ByTransition ''17.0'' ''18.0'' = rules_17_18"
  "ByTransition ''18.0'' ''19.0'' = rules_18_19a @ rules_18_19b"
  by (simp_all add: ByTransition_def Rules_def filter_parts)

lemma ByTransition_nonempty: "i < 5 \<Longrightarrow> ByTransition (versionOrder ! i) (versionOrder ! (i + 1)) \<noteq> []"
proof -
  assume "i < 5"
  then consider "i = 0" | "i = 1" | "i = 2" | "i = 3" | "i = 4" by linarith
  moreover have "rules_14_15a \<noteq> []" "rules_15_16 \<noteq> []" "rules_16_17a \<noteq> []" "rules_17_18 \<noteq> []" "rules_18_19a \<noteq> []"
    by (simp_all add: rule_parts)
  ultimately show ?thesis by cases (simp_all add: versionOrder_def ByTransition_parts eval_nat_numeral)
qed

subsection \<open>Paths\<close>

lemma pathLoop_append: "pathLoop i (m + n) = pathLoop i m @ pathLoop (i + m) n"
  by (induction m arbitrary: i) simp_all

lemma versionOrder_nth:
  "versionOrder ! 0 = ''14.0''" "versionOrder ! 1 = ''15.0''" "versionOrder ! 2 = ''16.0''"
  "versionOrder ! 3 = ''17.0''" "versionOrder ! 4 = ''18.0''" "versionOrder ! 5 = ''19.0''"
  by code_simp+

lemma versionOrder_Suc:
  "versionOrder ! Suc 0 = ''15.0''" "versionOrder ! Suc (Suc 0) = ''16.0''"
  "versionOrder ! Suc (Suc (Suc 0)) = ''17.0''" "versionOrder ! Suc (Suc (Suc (Suc 0))) = ''18.0''"
  "versionOrder ! Suc (Suc (Suc (Suc (Suc 0)))) = ''19.0''"
  by (simp_all add: versionOrder_def)

lemma findVersions_order:
  assumes "i < 6" "j < 6"
  shows "findVersions (versionOrder ! i) (versionOrder ! j) 0 (-1, -1) versionOrder = (int i, int j)"
proof -
  have "\<forall>i \<in> set [0..<6]. \<forall>j \<in> set [0..<6].
      findVersions (versionOrder ! i) (versionOrder ! j) 0 (-1, -1) versionOrder = (int i, int j)"
    by code_simp
  with assms show ?thesis by simp
qed

lemma findVersions_unknown:
  "from \<notin> set vs \<Longrightarrow> fst (findVersions from to i (a, b) vs) = a"
  "to \<notin> set vs \<Longrightarrow> snd (findVersions from to i (a, b) vs) = b"
  by (induction vs arbitrary: i a b) auto

lemma PathBetween_order:
  "i < 6 \<Longrightarrow> j < 6 \<Longrightarrow> PathBetween (versionOrder ! i) (versionOrder ! j) = (if i < j then pathLoop i (j - i) else [])"
  by (simp add: PathBetween_def findVersions_order nat_diff_distrib)

lemma PathBetween_unknown:
  "from \<notin> set versionOrder \<or> to \<notin> set versionOrder \<Longrightarrow> PathBetween from to = []"
  using findVersions_unknown(1) [of "from" versionOrder to 0 "-1" "-1"]
    findVersions_unknown(2) [of to versionOrder "from" 0 "-1" "-1"]
  by (auto simp: PathBetween_def split: prod.splits)

lemma versionOrder_index: "v \<in> set versionOrder \<longleftrightarrow> (\<exists>i < 6. v = versionOrder ! i)"
proof -
  have "length versionOrder = 6" by (simp add: versionOrder_def)
  then show ?thesis by (auto simp: in_set_conv_nth)
qed

text \<open>
  Upgrade paths compose. For versions \<open>i \<le> j \<le> k\<close> of the supported series, the rules of the
  path from the first to the last are the rules of the path to the middle version followed by the
  rules from there on; a direct upgrade therefore reports exactly what the two upgrades report.
\<close>

theorem PathBetween_compose:
  assumes "i \<le> j" "j \<le> k" "k < 6"
  shows "PathBetween (versionOrder ! i) (versionOrder ! k) =
    PathBetween (versionOrder ! i) (versionOrder ! j) @ PathBetween (versionOrder ! j) (versionOrder ! k)"
proof -
  have lt: "i < 6" "j < 6" using assms by linarith+
  have path: "PathBetween (versionOrder ! a) (versionOrder ! b) = pathLoop a (b - a)" if "a \<le> b" "b < 6" for a b
    using that by (cases "a = b") (simp_all add: PathBetween_order)
  have e: "k - i = (j - i) + (k - j)" "i + (j - i) = j" using assms by linarith+
  have "pathLoop i (k - i) = pathLoop i (j - i) @ pathLoop j (k - j)"
    unfolding e(1) pathLoop_append unfolding e(2) ..
  then show ?thesis
    unfolding path [OF order_trans [OF assms(1,2)] assms(3)] path [OF assms(1) lt(2)] path [OF assms(2,3)] .
qed

lemma PathBetween_compose_witness:
  "PathBetween ''14.0'' ''17.0'' = PathBetween ''14.0'' ''16.0'' @ PathBetween ''16.0'' ''17.0''"
proof -
  have "PathBetween (versionOrder ! 0) (versionOrder ! 3) =
      PathBetween (versionOrder ! 0) (versionOrder ! 2) @ PathBetween (versionOrder ! 2) (versionOrder ! 3)"
    by (rule PathBetween_compose) simp_all
  then show ?thesis by (simp only: versionOrder_nth)
qed

text \<open>
  the whole table is reachable and nothing else is. The path from 14.0 to 19.0 is the complete
  deprecation database in its order, so every rule belongs to a supported transition and no rule is
  lost or reported twice.
\<close>

theorem PathBetween_complete: "PathBetween ''14.0'' ''19.0'' = Rules"
proof -
  have "PathBetween (versionOrder ! 0) (versionOrder ! 5) = pathLoop 0 5" by (simp add: PathBetween_order)
  also have "\<dots> = Rules"
    by (simp add: eval_nat_numeral versionOrder_nth(1) versionOrder_Suc Rules_def ByTransition_parts)
  finally show ?thesis unfolding versionOrder_nth .
qed

subsection \<open>Scanning\<close>

lemma PathBetween_nil_iff:
  "PathBetween from to = [] \<longleftrightarrow> \<not> (\<exists>i j. i < j \<and> j < 6 \<and> from = versionOrder ! i \<and> to = versionOrder ! j)"
proof (cases "from \<in> set versionOrder \<and> to \<in> set versionOrder")
  case False
  moreover have "\<not> (\<exists>i j. i < j \<and> j < 6 \<and> from = versionOrder ! i \<and> to = versionOrder ! j)"
  proof
    assume "\<exists>i j. i < j \<and> j < 6 \<and> from = versionOrder ! i \<and> to = versionOrder ! j"
    then obtain i j where ij: "i < j" "j < 6" "from = versionOrder ! i" "to = versionOrder ! j" by blast
    then have "i < 6" by simp
    with ij have "\<exists>i < 6. from = versionOrder ! i" "\<exists>i < 6. to = versionOrder ! i" by blast+
    then have "from \<in> set versionOrder \<and> to \<in> set versionOrder" unfolding versionOrder_index by blast
    with False show False by simp
  qed
  moreover have "PathBetween from to = []" using False by (intro PathBetween_unknown) blast
  ultimately show ?thesis by simp
next
  case True
  then obtain i j where ij: "i < 6" "j < 6" "from = versionOrder ! i" "to = versionOrder ! j"
    by (auto simp: versionOrder_index)
  have inj: "a = b" if "a < 6" "b < 6" "versionOrder ! a = versionOrder ! b" for a b
  proof -
    have "(int a, int b) = (int b, int b)"
      using findVersions_order [OF that(1,2)] findVersions_order [OF that(2,2)] unfolding that(3) by (rule trans [OF sym])
    then show ?thesis by simp
  qed
  have "pathLoop i (j - i) \<noteq> []" if "i < j"
    using that ij ByTransition_nonempty [of i] by (cases "j - i") auto
  then have "PathBetween from to = [] \<longleftrightarrow> \<not> i < j" using ij by (simp add: PathBetween_order)
  moreover have "(\<exists>i' j'. i' < j' \<and> j' < 6 \<and> from = versionOrder ! i' \<and> to = versionOrder ! j') \<longleftrightarrow> i < j"
  proof
    assume "\<exists>i' j'. i' < j' \<and> j' < 6 \<and> from = versionOrder ! i' \<and> to = versionOrder ! j'"
    then obtain i' j' where *: "i' < j'" "j' < 6" "from = versionOrder ! i'" "to = versionOrder ! j'" by blast
    then have "i' = i" "j' = j" using ij inj [of i' i] inj [of j' j] by auto
    with * show "i < j" by simp
  qed (use ij in blast)
  ultimately show ?thesis by simp
qed

lemma scanRules_eq:
  "scanRules idx res rules =
     \<lparr> sr_Issues = sr_Issues res @ List.map_filter (\<lambda>r. evaluate r idx) rules,
       sr_BreakingCount = sr_BreakingCount res +
         int (length (filter (\<lambda>i. is_Severity i = SeverityBreaking) (List.map_filter (\<lambda>r. evaluate r idx) rules))),
       sr_WarningCount = sr_WarningCount res +
         int (length (filter (\<lambda>i. is_Severity i = SeverityWarning) (List.map_filter (\<lambda>r. evaluate r idx) rules))),
       sr_MinorCount = sr_MinorCount res +
         int (length (filter (\<lambda>i. is_Severity i = SeverityMinor) (List.map_filter (\<lambda>r. evaluate r idx) rules))) \<rparr>"
  by (induction idx res rules rule: scanRules.induct)
    (auto simp: addIssue_def map_filter_simps split: option.splits)

text \<open>When a rule fires, read off the schema: the deprecated artefact is still there.\<close>

definition fires :: "modelFieldSet \<Rightarrow> Rule \<Rightarrow> bool" where
  "fires idx r \<longleftrightarrow>
     (u_Kind r \<in> {KindModelRemoved, KindModelRenamed} \<and>
        coalesce (u_OldName r) (u_Model r) \<in> fst ` set idx) \<or>
     (u_Kind r \<in> {KindFieldRemoved, KindFieldRenamed, KindFieldTypeChanged} \<and>
        (\<exists>fs. map_of idx (u_Model r) = Some fs \<and>
           (if u_Kind r = KindFieldRemoved then u_Field r
            else if u_Kind r = KindFieldRenamed then coalesce (u_Field r) (u_OldName r)
            else coalesce (u_OldName r) (u_Field r)) \<in> fs)) \<or>
     u_Kind r \<in> {KindMethodDeprecated, KindXMLIDChanged}"

lemma modelExists_iff: "modelExists idx m \<longleftrightarrow> m \<in> fst ` set idx"
  unfolding modelExists_def map_of_eq_None_iff by simp

lemma evaluate_fires: "evaluate r idx = (if fires idx r then Some (makeIssue r) else None)"
  unfolding fires_def modelExists_iff [symmetric]
  by (auto simp: evaluate_def evalModelExists_def evalFieldExists_def Let_def split: option.splits)

lemma map_filter_evaluate: "List.map_filter (\<lambda>r. evaluate r idx) rules = map makeIssue (filter (fires idx) rules)"
  by (induction rules) (simp_all add: map_filter_simps evaluate_fires)

lemma PathBetween_subset: "set (PathBetween from to) \<subseteq> set Rules"
proof -
  have "set (pathLoop i n) \<subseteq> set Rules" for i n
    by (induction n arbitrary: i) (auto simp: ByTransition_def)
  then show ?thesis by (auto simp: PathBetween_def split: prod.splits if_splits)
qed

lemma severity_counts:
  "\<forall>r \<in> set rs. u_Severity r \<in> {SeverityBreaking, SeverityWarning, SeverityMinor} \<Longrightarrow>
     length (filter (\<lambda>i. is_Severity i = SeverityBreaking) (map makeIssue rs)) +
     length (filter (\<lambda>i. is_Severity i = SeverityWarning) (map makeIssue rs)) +
     length (filter (\<lambda>i. is_Severity i = SeverityMinor) (map makeIssue rs)) = length rs"
  by (induction rs) (auto simp: makeIssue_def)



text \<open>
  a scan is refused exactly for unsupported version pairs. There is no result if and only if the
  two versions are not two different versions of the supported series in increasing order; in
  particular every supported transition has at least one rule.
\<close>

theorem Scan_unsupported_iff:
  "fst (Scan uni decodeModels decodeFields json v w) = None \<longleftrightarrow>
     \<not> (\<exists>i j. i < j \<and> j < 6 \<and> v = versionOrder ! i \<and> w = versionOrder ! j)"
  unfolding PathBetween_nil_iff [symmetric] by (simp add: Scan_def Let_def split: sum.splits)

text \<open>
  a larger schema never hides an issue. If every model of one index is a model of another with
  at least the same fields, every rule that fires on the first fires on the second.
\<close>

theorem fires_mono:
  assumes "\<forall>m fs. map_of idx m = Some fs \<longrightarrow> (\<exists>gs. map_of idx' m = Some gs \<and> fs \<subseteq> gs)" "evaluate r idx = Some issue"
  shows "evaluate r idx' = Some issue"
proof -
  have dom: "m \<in> fst ` set idx'" if "m \<in> fst ` set idx" for m
  proof -
    from that obtain fs where "map_of idx m = Some fs" by (metis map_of_eq_None_iff not_Some_eq)
    with assms(1) obtain gs where "map_of idx' m = Some gs" by blast
    then show ?thesis by (force dest: map_of_SomeD)
  qed
  have "fires idx' r" if "fires idx r"
    using that assms(1) dom unfolding fires_def by (elim disjE conjE exE) blast+
  then show ?thesis using assms(2) by (simp add: evaluate_fires split: if_splits)
qed

lemma fires_mono_witness:
  "evaluate (rule ''14.0'' ''15.0'' KindFieldRemoved SeverityMinor ''m'' ''f'' [] [] [] []) [(''m'', {''f'', ''g''})] =
   Some (makeIssue (rule ''14.0'' ''15.0'' KindFieldRemoved SeverityMinor ''m'' ''f'' [] [] [] []))"
  by (rule fires_mono [of "[(''m'', {''f''})]"]) (auto simp: evaluate_def evalFieldExists_def)

subsection \<open>Decorator and view rules\<close>

text \<open>
  the schema scan never reports a decorator or view-pattern rule: such a rule does not fire on
  any schema, so these entries of the table are left to the source code scan.
\<close>

theorem decorator_rules_silent:
  assumes "u_Kind r \<in> {KindAPIDecorator, KindXMLPattern}"
  shows "evaluate r idx = None"
  using assms by (auto simp: evaluate_def)

lemma decorator_rules_silent_witness:
  "evaluate (hd rules_14_15a) [(''res.users'', {''name''})] = None"
  by (rule decorator_rules_silent) (simp add: rules_14_15a_def)

end
