(* ===== verification/Http_Rate_Limit.thy ===== *)
theory Http_Rate_Limit
  imports Go_Strings
begin

text \<open>
  The request rate limiting of the HTTP server (\<^verbatim>\<open>internal/middleware/ratelmit.go\<close>): the in-memory
  limiter with its cleanup goroutine, the middleware around it, the variants with Redis and with
  one limiter per plan. Times are nanoseconds; every read of the clock is an argument. The mutex of
  the limiter makes \<^verbatim>\<open>Allow\<close> and the body of the cleanup loop atomic.

  The contract of a fixed-window limiter, how many requests of one key pass in an interval and
  which requests are refused, is proved for every sequence of requests and cleanups.
\<close>

subsection \<open>Configuration\<close>

record http_request =
  RemoteAddr :: string
  ctx_TenantID :: string
  ctx_TenantPlan :: string

definition second :: int where "second = 10 ^ 9"
definition minute :: int where "minute = 60 * second"

record RateLimitConfig =
  Limit :: int
  Window :: int
  KeyFunc :: "http_request \<Rightarrow> string"
  SkipFunc :: "(http_request \<Rightarrow> bool) option"
  LimitHeader :: string
  RemainingHeader :: string
  ResetHeader :: string

definition DefaultRateLimitConfig :: RateLimitConfig where
  "DefaultRateLimitConfig =
     \<lparr> Limit = 100, Window = minute, KeyFunc = RemoteAddr, SkipFunc = None,
       LimitHeader = ''X-RateLimit-Limit'', RemainingHeader = ''X-RateLimit-Remaining'',
       ResetHeader = ''X-RateLimit-Reset'' \<rparr>"

definition PerTenantRateLimitConfig :: "int \<Rightarrow> int \<Rightarrow> RateLimitConfig" where
  "PerTenantRateLimitConfig limit window =
     \<lparr> Limit = limit, Window = window,
       KeyFunc = (\<lambda>r. let tenantID = ctx_TenantID r in
         if tenantID \<noteq> [] then ''tenant:'' @ tenantID else ''ip:'' @ RemoteAddr r),
       SkipFunc = None,
       LimitHeader = ''X-RateLimit-Limit'', RemainingHeader = ''X-RateLimit-Remaining'',
       ResetHeader = ''X-RateLimit-Reset'' \<rparr>"

subsection \<open>The in-memory limiter\<close>

record rateLimitEntry =
  e_count :: int
  e_resetTime :: int

record InMemoryRateLimiter =
  entries :: "(string, rateLimitEntry) gomap"
  config :: RateLimitConfig

definition NewInMemoryRateLimiter :: "RateLimitConfig \<Rightarrow> InMemoryRateLimiter" where
  "NewInMemoryRateLimiter cfg = \<lparr> entries = [], config = cfg \<rparr>"

text \<open>One tick of the cleanup goroutine.\<close>

definition cleanup :: "int \<Rightarrow> InMemoryRateLimiter \<Rightarrow> InMemoryRateLimiter" where
  "cleanup now rl = rl \<lparr> entries := filter (\<lambda>(key, entry). \<not> e_resetTime entry < now) (entries rl) \<rparr>"

definition IM_Allow :: "int \<Rightarrow> string \<Rightarrow> InMemoryRateLimiter \<Rightarrow> (bool \<times> int \<times> int) \<times> InMemoryRateLimiter" where
  "IM_Allow now key rl =
     (let fresh = \<lparr> e_count = 1, e_resetTime = now + Window (config rl) \<rparr>;
          opened = ((True, Limit (config rl) - 1, e_resetTime fresh), rl \<lparr> entries := AList.update key fresh (entries rl) \<rparr>)
      in case map_of (entries rl) key of
           None \<Rightarrow> opened
         | Some entry \<Rightarrow>
             if e_resetTime entry < now then opened
             else if e_count entry \<ge> Limit (config rl) then ((False, 0, e_resetTime entry), rl)
             else (let entry' = entry \<lparr> e_count := e_count entry + 1 \<rparr> in
                   ((True, Limit (config rl) - e_count entry', e_resetTime entry'),
                    rl \<lparr> entries := AList.update key entry' (entries rl) \<rparr>)))"

subsection \<open>The middleware\<close>

text \<open>
  What a middleware does with a request: it calls the next handler or answers with
  \<^verbatim>\<open>ErrRateLimited\<close>, after setting headers. \<^verbatim>\<open>time.Duration.Seconds\<close> is a float; below \<open>2 ^ 23\<close>
  seconds its conversion to \<^verbatim>\<open>int\<close> is the truncated quotient.
\<close>

datatype handled = Next | RateLimited int

record http_reply =
  headers :: "(string, string) gomap"
  outcome :: handled

definition passed :: http_reply where
  "passed = \<lparr> headers = [], outcome = Next \<rparr>"

definition Unix :: "int \<Rightarrow> int" where
  "Unix t = t div second"

definition retryAfter :: "int \<Rightarrow> int \<Rightarrow> int" where
  "retryAfter now resetTime = (let r = (resetTime - now) sdiv second in if r < 1 then 1 else r)"

definition setHeaders :: "(string \<times> string) list \<Rightarrow> (string, string) gomap" where
  "setHeaders hs = foldl (\<lambda>m (k, v). AList.update k v m) [] hs"

definition limitReply :: "int \<Rightarrow> (string \<times> string) list \<Rightarrow> bool \<Rightarrow> int \<Rightarrow> http_reply" where
  "limitReply now hs allowed resetTime =
     (if \<not> allowed then
        \<lparr> headers = setHeaders (hs @ [(''Retry-After'', Itoa (retryAfter now resetTime))]),
          outcome = RateLimited (retryAfter now resetTime) \<rparr>
      else \<lparr> headers = setHeaders hs, outcome = Next \<rparr>)"

definition configHeaders :: "RateLimitConfig \<Rightarrow> int \<Rightarrow> int \<Rightarrow> (string \<times> string) list" where
  "configHeaders cfg remaining resetTime =
     [(LimitHeader cfg, Itoa (Limit cfg)), (RemainingHeader cfg, Itoa remaining),
      (ResetHeader cfg, Itoa (Unix resetTime))]"

definition skipped :: "RateLimitConfig \<Rightarrow> http_request \<Rightarrow> bool" where
  "skipped cfg r = (case SkipFunc cfg of None \<Rightarrow> False | Some f \<Rightarrow> f r)"

definition RateLimit :: "int \<Rightarrow> int \<Rightarrow> http_request \<Rightarrow> InMemoryRateLimiter \<Rightarrow> http_reply \<times> InMemoryRateLimiter" where
  "RateLimit now now' r limiter =
     (let cfg = config limiter in
      if skipped cfg r then (passed, limiter)
      else case IM_Allow now (KeyFunc cfg r) limiter of
        ((allowed, remaining, resetTime), limiter') \<Rightarrow>
          (limitReply now' (configHeaders cfg remaining resetTime) allowed resetTime, limiter'))"

text \<open>\<open>allow\<close> stands for the limiter behind the interface \<^verbatim>\<open>RedisRateLimiter\<close>.\<close>

definition RateLimitWithRedis ::
  "(string \<Rightarrow> int \<Rightarrow> int \<Rightarrow> 'e + (bool \<times> int \<times> int)) \<Rightarrow> RateLimitConfig \<Rightarrow> int \<Rightarrow> http_request \<Rightarrow> http_reply" where
  "RateLimitWithRedis allow cfg now' r =
     (if skipped cfg r then passed
      else case allow (KeyFunc cfg r) (Limit cfg) (Window cfg) of
        Inl _ \<Rightarrow> passed
      | Inr (allowed, remaining, resetTime) \<Rightarrow>
          limitReply now' (configHeaders cfg remaining resetTime) allowed resetTime)"

subsection \<open>Limits per plan\<close>

record PlanLimits =
  RequestsPerMinute :: int
  RequestsPerHour :: int
  IngestPerMinute :: int

definition DefaultPlanLimits :: "(string, PlanLimits) gomap" where
  "DefaultPlanLimits =
     [(''free'', \<lparr> RequestsPerMinute = 60, RequestsPerHour = 1000, IngestPerMinute = 100 \<rparr>),
      (''cloud'', \<lparr> RequestsPerMinute = 100, RequestsPerHour = 5000, IngestPerMinute = 500 \<rparr>),
      (''onprem'', \<lparr> RequestsPerMinute = 200, RequestsPerHour = 10000, IngestPerMinute = 1000 \<rparr>),
      (''enterprise'', \<lparr> RequestsPerMinute = 500, RequestsPerHour = 50000, IngestPerMinute = 5000 \<rparr>)]"

definition planConfig :: "int \<Rightarrow> RateLimitConfig" where
  "planConfig limit =
     \<lparr> Limit = limit, Window = minute, KeyFunc = ctx_TenantID, SkipFunc = None,
       LimitHeader = ''X-RateLimit-Limit'', RemainingHeader = ''X-RateLimit-Remaining'',
       ResetHeader = ''X-RateLimit-Reset'' \<rparr>"

definition defaultConfig :: RateLimitConfig where
  "defaultConfig =
     \<lparr> Limit = 60, Window = minute, KeyFunc = ctx_TenantID, SkipFunc = None,
       LimitHeader = [], RemainingHeader = [], ResetHeader = [] \<rparr>"

record tiered =
  limiters :: "(string, InMemoryRateLimiter) gomap"
  defaultLimiter :: InMemoryRateLimiter

definition newTiered :: "(string, PlanLimits) gomap \<Rightarrow> tiered" where
  "newTiered planLimits =
     \<lparr> limiters = map (\<lambda>(plan, limits). (plan, NewInMemoryRateLimiter (planConfig (RequestsPerMinute limits)))) planLimits,
       defaultLimiter = NewInMemoryRateLimiter defaultConfig \<rparr>"

definition zeroLimits :: PlanLimits where
  "zeroLimits = \<lparr> RequestsPerMinute = 0, RequestsPerHour = 0, IngestPerMinute = 0 \<rparr>"

definition shownLimit :: "(string, PlanLimits) gomap \<Rightarrow> string \<Rightarrow> int" where
  "shownLimit planLimits plan =
     (let limits = (case map_of planLimits plan of None \<Rightarrow> zeroLimits | Some l \<Rightarrow> l) in
      if RequestsPerMinute limits = 0
      then RequestsPerMinute (case map_of DefaultPlanLimits ''free'' of None \<Rightarrow> zeroLimits | Some l \<Rightarrow> l)
      else RequestsPerMinute limits)"

definition TieredRateLimit ::
  "(string, PlanLimits) gomap \<Rightarrow> int \<Rightarrow> int \<Rightarrow> http_request \<Rightarrow> tiered \<Rightarrow> http_reply \<times> tiered" where
  "TieredRateLimit planLimits now now' r st =
     (let tenantID = ctx_TenantID r in
      if tenantID = [] then (passed, st)
      else
        let plan = ctx_TenantPlan r;
            hs = (\<lambda>remaining resetTime.
              [(''X-RateLimit-Limit'', Itoa (shownLimit planLimits plan)),
               (''X-RateLimit-Remaining'', Itoa remaining), (''X-RateLimit-Reset'', Itoa (Unix resetTime))])
        in case map_of (limiters st) plan of
             Some limiter \<Rightarrow>
               (case IM_Allow now tenantID limiter of ((allowed, remaining, resetTime), limiter') \<Rightarrow>
                  (limitReply now' (hs remaining resetTime) allowed resetTime,
                   st \<lparr> limiters := AList.update plan limiter' (limiters st) \<rparr>))
           | None \<Rightarrow>
               (case IM_Allow now tenantID (defaultLimiter st) of ((allowed, remaining, resetTime), limiter') \<Rightarrow>
                  (limitReply now' (hs remaining resetTime) allowed resetTime,
                   st \<lparr> defaultLimiter := limiter' \<rparr>)))"

subsection \<open>Sequences of requests\<close>

text \<open>
  The limiter under load: requests for any keys and ticks of the cleanup, each with the time at
  which it gets the mutex. The log has an entry for every request.
\<close>

datatype limiter_event = Request string | Tick

fun serve :: "InMemoryRateLimiter \<Rightarrow> (int \<times> limiter_event) list \<Rightarrow> (int \<times> string \<times> bool) list" where
  "serve rl [] = []"
| "serve rl ((now, Request key) # evs) =
     (case IM_Allow now key rl of ((allowed, _, _), rl') \<Rightarrow> (now, key, allowed) # serve rl' evs)"
| "serve rl ((now, Tick) # evs) = serve (cleanup now rl) evs"

text \<open>The times at which the limiter let requests of a key pass, and how many lie in a range.\<close>

definition passTimes :: "string \<Rightarrow> (int \<times> string \<times> bool) list \<Rightarrow> int list" where
  "passTimes key lg = map fst (filter (\<lambda>(t, k, ok). k = key \<and> ok) lg)"

definition cnt :: "(int \<Rightarrow> bool) \<Rightarrow> int list \<Rightarrow> int" where
  "cnt P ts = int (length (filter P ts))"

lemma cnt_Nil [simp]: "cnt P [] = 0"
  by (simp add: cnt_def)

lemma cnt_snoc [simp]: "cnt P (ts @ [t]) = cnt P ts + (if P t then 1 else 0)"
  by (simp add: cnt_def)

lemma cnt_nonneg [simp]: "0 \<le> cnt P ts"
  by (simp add: cnt_def)

lemma cnt_mono: "(\<And>t. t \<in> set ts \<Longrightarrow> P t \<Longrightarrow> Q t) \<Longrightarrow> cnt P ts \<le> cnt Q ts"
  by (induction ts) (auto simp: cnt_def)

lemma cnt_split: "(\<And>t. t \<in> set ts \<Longrightarrow> P t \<Longrightarrow> Q t \<or> R t) \<Longrightarrow> cnt P ts \<le> cnt Q ts + cnt R ts"
  by (induction ts) (auto simp: cnt_def)

lemma cnt_zero: "(\<And>t. t \<in> set ts \<Longrightarrow> \<not> P t) \<Longrightarrow> cnt P ts = 0"
  by (auto simp: cnt_def)

text \<open>What one key's entry says about the requests that passed so far.\<close>

definition maxPass :: "RateLimitConfig \<Rightarrow> int" where
  "maxPass cfg = max 1 (Limit cfg)"

fun entryInv :: "RateLimitConfig \<Rightarrow> int \<Rightarrow> rateLimitEntry option \<Rightarrow> int list \<Rightarrow> bool" where
  "entryInv cfg now None ts \<longleftrightarrow>
     (\<forall>t \<in> set ts. t < now) \<and> cnt (\<lambda>t. now - Window cfg \<le> t) ts \<le> maxPass cfg"
| "entryInv cfg now (Some e) ts \<longleftrightarrow>
     (\<forall>t \<in> set ts. t \<le> now \<and> t \<le> e_resetTime e) \<and> e_resetTime e - Window cfg \<le> now \<and>
     cnt (\<lambda>t. e_resetTime e - Window cfg \<le> t) ts = e_count e \<and> e_count e \<le> maxPass cfg \<and>
     cnt (\<lambda>t. e_resetTime e - 2 * Window cfg \<le> t \<and> t < e_resetTime e - Window cfg) ts \<le> maxPass cfg"

definition limiterInv :: "string \<Rightarrow> int \<Rightarrow> InMemoryRateLimiter \<Rightarrow> int list \<Rightarrow> bool" where
  "limiterInv key now rl ts \<longleftrightarrow>
     distinct (map fst (entries rl)) \<and> 0 \<le> Window (config rl) \<and>
     entryInv (config rl) now (map_of (entries rl) key) ts \<and>
     (\<forall>a. cnt (\<lambda>t. a \<le> t \<and> t \<le> a + Window (config rl)) ts \<le> 2 * maxPass (config rl))"

lemma entryInv_later: "entryInv cfg now oe ts \<Longrightarrow> now \<le> now' \<Longrightarrow> entryInv cfg now' oe ts"
proof (cases oe)
  case None
  assume "entryInv cfg now oe ts" "now \<le> now'"
  moreover have "cnt (\<lambda>t. now' - Window cfg \<le> t) ts \<le> cnt (\<lambda>t. now - Window cfg \<le> t) ts"
    using \<open>now \<le> now'\<close> by (intro cnt_mono) auto
  ultimately show ?thesis using None by fastforce
qed fastforce

lemma entryInv_expired:
  assumes "entryInv cfg now (Some e) ts" "e_resetTime e < now"
  shows "entryInv cfg now None ts"
proof -
  have "cnt (\<lambda>t. now - Window cfg \<le> t) ts \<le> cnt (\<lambda>t. e_resetTime e - Window cfg \<le> t) ts"
    using assms(2) by (intro cnt_mono) auto
  with assms show ?thesis by fastforce
qed

lemma limiterInv_cleanup:
  assumes "limiterInv key t0 rl ts" "t0 \<le> now"
  shows "limiterInv key now (cleanup now rl) ts"
proof -
  let ?live = "\<lambda>(k, e). \<not> e_resetTime e < now"
  have d: "distinct (map fst (entries rl))" using assms(1) by (simp add: limiterInv_def)
  then have d': "distinct (map fst (filter ?live (entries rl)))"
    by (rule distinct_map_filter)
  have later: "entryInv (config rl) now (map_of (entries rl) key) ts"
    using assms entryInv_later by (auto simp: limiterInv_def)
  have m: "map_of (filter ?live (entries rl)) key =
      (case map_of (entries rl) key of None \<Rightarrow> None | Some e \<Rightarrow> if e_resetTime e < now then None else Some e)"
    using map_of_filter_distinct [OF d, of ?live key] by (auto split: option.splits)
  have e: "entryInv (config rl) now (map_of (filter ?live (entries rl)) key) ts"
  proof (cases "map_of (entries rl) key")
    case None
    with m later show ?thesis by simp
  next
    case (Some e)
    with m later show ?thesis using entryInv_expired [of "config rl" now e ts] by (simp del: entryInv.simps)
  qed
  show ?thesis
    using assms(1) d' e by (simp add: limiterInv_def cleanup_def del: entryInv.simps)
qed

lemma entryInv_open:
  assumes "entryInv cfg now None ts" "0 \<le> Window cfg"
  shows "entryInv cfg now (Some \<lparr> e_count = 1, e_resetTime = now + Window cfg \<rparr>) (ts @ [now])"
proof -
  have "cnt (\<lambda>t. now \<le> t) ts = 0" using assms(1) by (intro cnt_zero) fastforce
  moreover have "cnt (\<lambda>t. now - Window cfg \<le> t \<and> t < now) ts \<le> cnt (\<lambda>t. now - Window cfg \<le> t) ts"
    by (intro cnt_mono) auto
  ultimately show ?thesis using assms by (fastforce simp: maxPass_def)
qed

lemma entryInv_count:
  assumes "entryInv cfg now (Some e) ts" "\<not> e_resetTime e < now" "e_count e < Limit cfg"
  shows "entryInv cfg now (Some (e \<lparr> e_count := e_count e + 1 \<rparr>)) (ts @ [now])"
  using assms by (auto simp: maxPass_def)

text \<open>An interval that ends at or after the new request holds one earlier window at most.\<close>

lemma bound_open:
  assumes "entryInv cfg now None ts" "now \<le> a + Window cfg"
  shows "cnt (\<lambda>t. a \<le> t \<and> t \<le> a + Window cfg) ts + 1 \<le> 2 * maxPass cfg"
proof -
  have "cnt (\<lambda>t. a \<le> t \<and> t \<le> a + Window cfg) ts \<le> cnt (\<lambda>t. now - Window cfg \<le> t) ts"
    using assms(2) by (intro cnt_mono) auto
  then show ?thesis using assms(1) by (auto simp: maxPass_def max_def)
qed

lemma bound_count:
  assumes "entryInv cfg now (Some e) ts" "e_count e < Limit cfg" "now \<le> a + Window cfg"
  shows "cnt (\<lambda>t. a \<le> t \<and> t \<le> a + Window cfg) ts + 1 \<le> 2 * maxPass cfg"
proof -
  have "cnt (\<lambda>t. a \<le> t \<and> t \<le> a + Window cfg) ts \<le>
      cnt (\<lambda>t. e_resetTime e - Window cfg \<le> t) ts +
      cnt (\<lambda>t. e_resetTime e - 2 * Window cfg \<le> t \<and> t < e_resetTime e - Window cfg) ts"
    using assms by (intro cnt_split) auto
  then show ?thesis using assms(1,2) by (auto simp: maxPass_def max_def)
qed

lemma limiterInv_other:
  assumes "limiterInv key t0 rl ts" "t0 \<le> now" "k \<noteq> key" "IM_Allow now k rl = (res, rl')"
  shows "limiterInv key now rl' ts"
proof -
  have "config rl' = config rl" "map_of (entries rl') key = map_of (entries rl) key"
      "distinct (map fst (entries rl'))"
    using assms by (auto simp: IM_Allow_def limiterInv_def Let_def update_conv' distinct_update split: option.splits if_splits)
  with assms(1,2) show ?thesis
    using entryInv_later [OF _ assms(2)] by (simp add: limiterInv_def del: entryInv.simps)
qed

lemma limiterInv_pass:
  assumes "limiterInv key t0 rl ts" "t0 \<le> now" "IM_Allow now key rl = ((True, n, r), rl')"
  shows "limiterInv key now rl' (ts @ [now])"
proof -
  let ?cfg = "config rl"
  have inv: "entryInv ?cfg now (map_of (entries rl) key) ts" and W: "0 \<le> Window ?cfg"
    and B: "\<And>a. cnt (\<lambda>t. a \<le> t \<and> t \<le> a + Window ?cfg) ts \<le> 2 * maxPass ?cfg"
    and d: "distinct (map fst (entries rl))"
    using assms(1) entryInv_later [OF _ assms(2)] by (auto simp: limiterInv_def simp del: entryInv.simps)
  have fin: "limiterInv key now (rl \<lparr> entries := AList.update key e (entries rl) \<rparr>) (ts @ [now])"
    if "entryInv ?cfg now (Some e) (ts @ [now])"
      "\<And>a. now \<le> a + Window ?cfg \<Longrightarrow> cnt (\<lambda>t. a \<le> t \<and> t \<le> a + Window ?cfg) ts + 1 \<le> 2 * maxPass ?cfg" for e
    using that B W d by (simp add: limiterInv_def update_conv' distinct_update del: entryInv.simps)
  consider (opened) "entryInv ?cfg now None ts"
      "rl' = rl \<lparr> entries := AList.update key \<lparr> e_count = 1, e_resetTime = now + Window ?cfg \<rparr> (entries rl) \<rparr>"
    | (counted) e where "map_of (entries rl) key = Some e" "\<not> e_resetTime e < now" "e_count e < Limit ?cfg"
      "rl' = rl \<lparr> entries := AList.update key (e \<lparr> e_count := e_count e + 1 \<rparr>) (entries rl) \<rparr>"
    using assms(3) inv entryInv_expired [of ?cfg now _ ts]
    by (auto simp: IM_Allow_def Let_def simp del: entryInv.simps split: option.splits if_splits)
  then show ?thesis
  proof cases
    case opened
    then show ?thesis using fin [OF entryInv_open [OF opened(1) W] bound_open [OF opened(1)]] by simp
  next
    case counted
    with inv have e: "entryInv ?cfg now (Some e) ts" by simp
    show ?thesis
      using fin [OF entryInv_count [OF e counted(2,3)] bound_count [OF e counted(3)]] counted(4) by simp
  qed
qed

lemma limiterInv_reject:
  assumes "limiterInv key t0 rl ts" "t0 \<le> now" "IM_Allow now key rl = ((False, n, r), rl')"
  shows "limiterInv key now rl' ts" "Limit (config rl) \<le> cnt (\<lambda>t. now - Window (config rl) \<le> t \<and> t \<le> now) ts"
proof -
  obtain e where e: "map_of (entries rl) key = Some e" "\<not> e_resetTime e < now" "Limit (config rl) \<le> e_count e" "rl' = rl"
    using assms(3) by (auto simp: IM_Allow_def Let_def split: option.splits if_splits)
  then show "limiterInv key now rl' ts"
    using assms(1) entryInv_later [OF _ assms(2)] by (auto simp: limiterInv_def simp del: entryInv.simps)
  have "entryInv (config rl) now (Some e) ts"
    using assms(1) e(1) entryInv_later [OF _ assms(2)] by (auto simp: limiterInv_def simp del: entryInv.simps)
  moreover have "cnt (\<lambda>t. e_resetTime e - Window (config rl) \<le> t) ts \<le> cnt (\<lambda>t. now - Window (config rl) \<le> t \<and> t \<le> now) ts"
    using calculation e(2) by (intro cnt_mono) auto
  ultimately show "Limit (config rl) \<le> cnt (\<lambda>t. now - Window (config rl) \<le> t \<and> t \<le> now) ts"
    using e(3) by simp
qed

lemma passTimes_simps [simp]:
  "passTimes key [] = []"
  "passTimes key ((t, k, ok) # lg) = (if k = key \<and> ok then t # passTimes key lg else passTimes key lg)"
  by (auto simp: passTimes_def)

definition withinWindow :: "RateLimitConfig \<Rightarrow> int \<Rightarrow> int list \<Rightarrow> int" where
  "withinWindow cfg a ts = cnt (\<lambda>t. a \<le> t \<and> t \<le> a + Window cfg) ts"

lemma config_IM_Allow: "IM_Allow now k rl = (res, rl') \<Longrightarrow> config rl' = config rl"
  by (auto simp: IM_Allow_def Let_def split: option.splits if_splits)

lemma IM_Allow_result:
  obtains ok n r rl' where "IM_Allow now k rl = ((ok, n, r), rl')"
  by (cases "IM_Allow now k rl") (metis prod_cases3)

lemma serve_bound:
  assumes "limiterInv key t0 rl ts" "sorted (t0 # map fst evs)"
  shows "withinWindow (config rl) a (ts @ passTimes key (serve rl evs)) \<le> 2 * maxPass (config rl)"
  using assms
proof (induction rl evs arbitrary: t0 ts rule: serve.induct)
  case (1 rl)
  then show ?case by (simp add: limiterInv_def withinWindow_def)
next
  case (2 rl now k evs)
  obtain ok n r rl' where st: "IM_Allow now k rl = ((ok, n, r), rl')" by (rule IM_Allow_result)
  have s: "t0 \<le> now" "sorted (now # map fst evs)" using 2(3) by auto
  let ?ts = "if k = key \<and> ok then ts @ [now] else ts"
  have "limiterInv key now rl' ?ts"
    using limiterInv_other [OF 2(2) s(1) _ st] limiterInv_pass [OF 2(2) s(1), of n r rl']
      limiterInv_reject(1) [OF 2(2) s(1), of n r rl'] st by (cases ok; cases "k = key") auto
  from 2(1) [OF st [symmetric] refl refl this s(2)] show ?case
    using config_IM_Allow [OF st] st by (auto split: if_splits)
next
  case (3 rl now evs)
  then show ?case
    using limiterInv_cleanup [of key t0 rl ts now] 3(1) [of now ts] by (simp add: cleanup_def)
qed

lemma serve_reject:
  assumes "limiterInv key t0 rl ts" "sorted (t0 # map fst evs)" "serve rl evs = pre @ (t, key, False) # post"
  shows "Limit (config rl) \<le> withinWindow (config rl) (t - Window (config rl)) (ts @ passTimes key pre)"
  using assms
proof (induction rl evs arbitrary: t0 ts pre rule: serve.induct)
  case (2 rl now k evs)
  obtain ok n r rl' where st: "IM_Allow now k rl = ((ok, n, r), rl')" by (rule IM_Allow_result)
  have s: "t0 \<le> now" "sorted (now # map fst evs)" using 2(3) by auto
  let ?ts = "if k = key \<and> ok then ts @ [now] else ts"
  have inv: "limiterInv key now rl' ?ts"
    using limiterInv_other [OF 2(2) s(1) _ st] limiterInv_pass [OF 2(2) s(1), of n r rl']
      limiterInv_reject(1) [OF 2(2) s(1), of n r rl'] st by (cases ok; cases "k = key") auto
  show ?case
  proof (cases pre)
    case Nil
    with 2(4) st have "k = key" "t = now" "\<not> ok" by auto
    then show ?thesis using limiterInv_reject(2) [OF 2(2) s(1), of n r rl'] st Nil by (simp add: withinWindow_def)
  next
    case (Cons x pre')
    with 2(4) st have "x = (now, k, ok)" "serve rl' evs = pre' @ (t, key, False) # post" by auto
    with 2(1) [OF st [symmetric] refl refl inv s(2), of pre'] Cons show ?thesis
      using config_IM_Allow [OF st] by (auto split: if_splits)
  qed
next
  case (3 rl now evs)
  then show ?case
    using limiterInv_cleanup [of key t0 rl ts now] 3(1) [of now ts pre] by (simp add: cleanup_def)
qed simp

lemma limiterInv_New: "0 \<le> Window cfg \<Longrightarrow> limiterInv key t0 (NewInMemoryRateLimiter cfg) []"
  by (simp add: limiterInv_def NewInMemoryRateLimiter_def maxPass_def)

text \<open>
  C29: the in-memory limiter is a fixed-window limiter. For every sequence of requests and cleanup
  ticks with a clock that does not run backwards, at most twice the limit (twice one request when the
  limit is not positive) of one key's requests pass in any interval of the window's length; and a
  request is refused only after the limit has been used up by requests of the same key in the window
  before it.
\<close>

theorem fixed_window_contract:
  assumes "0 \<le> Window cfg" "sorted (map fst evs)"
  shows "withinWindow cfg a (passTimes key (serve (NewInMemoryRateLimiter cfg) evs)) \<le> 2 * max 1 (Limit cfg) \<and>
    (serve (NewInMemoryRateLimiter cfg) evs = pre @ (t, key, False) # post \<longrightarrow>
       Limit cfg \<le> withinWindow cfg (t - Window cfg) (passTimes key pre))"
proof -
  obtain t0 where s: "sorted (t0 # map fst evs)"
    using assms(2) by (cases evs) auto
  note inv = limiterInv_New [OF assms(1), of key t0]
  show ?thesis
    using serve_bound [OF inv s, of a] serve_reject [OF inv s, of pre t post]
    by (simp add: NewInMemoryRateLimiter_def maxPass_def)
qed

definition exampleLoad :: "(int \<times> limiter_event) list" where
  "exampleLoad = [(0, Request ''a''), (9, Request ''a''), (9, Request ''b''), (10, Request ''a''), (11, Tick),
     (11, Request ''a''), (12, Request ''a''), (13, Request ''a'')]"

definition exampleConfig :: RateLimitConfig where
  "exampleConfig = PerTenantRateLimitConfig 2 10"

lemma fixed_window_contract_witness:
  "withinWindow exampleConfig 3 (passTimes ''a'' (serve (NewInMemoryRateLimiter exampleConfig) exampleLoad)) = 3 \<and>
   withinWindow exampleConfig 3 (passTimes ''a'' (serve (NewInMemoryRateLimiter exampleConfig) exampleLoad)) \<le> 2 * max 1 (Limit exampleConfig)"
proof -
  have "0 \<le> Window exampleConfig" "sorted (map fst exampleLoad)"
    by (simp_all add: exampleConfig_def PerTenantRateLimitConfig_def exampleLoad_def)
  from fixed_window_contract [OF this, of 3 "''a''"] show ?thesis
    by (auto simp: exampleConfig_def PerTenantRateLimitConfig_def exampleLoad_def withinWindow_def cnt_def
        NewInMemoryRateLimiter_def IM_Allow_def Let_def cleanup_def)
qed

end
