(* ===== verification/Go_Text.thy ===== *)
theory Go_Text
  imports Go_Strings
begin

text \<open>
  More of the \<^verbatim>\<open>strings\<close> package: splitting, searching, replacing, and the fields of a text. A
  byte index is a natural number; a search that fails is \<open>None\<close> (the Go functions return -1).
\<close>

subsection \<open>Searching\<close>

abbreviation HasPrefix :: "string \<Rightarrow> string \<Rightarrow> bool" where
  "HasPrefix s p \<equiv> prefix p s"

definition TrimPrefix :: "string \<Rightarrow> string \<Rightarrow> string" where
  "TrimPrefix s p = (if HasPrefix s p then drop (length p) s else s)"

fun Index :: "string \<Rightarrow> string \<Rightarrow> nat option" where
  "Index [] sub = (if sub = [] then Some 0 else None)"
| "Index (c # s) sub = (if prefix sub (c # s) then Some 0 else map_option Suc (Index s sub))"

fun LastIndex :: "string \<Rightarrow> string \<Rightarrow> nat option" where
  "LastIndex [] sub = (if sub = [] then Some 0 else None)"
| "LastIndex (c # s) sub =
     (case LastIndex s sub of Some i \<Rightarrow> Some (Suc i) | None \<Rightarrow> if prefix sub (c # s) then Some 0 else None)"

lemma Index_Some: "Index s sub = Some i \<Longrightarrow> s = take i s @ sub @ drop (i + length sub) s"
proof (induction s sub arbitrary: i rule: Index.induct)
  case (2 c s sub)
  show ?case
  proof (cases "prefix sub (c # s)")
    case True
    with 2(2) show ?thesis by (auto simp: prefix_def)
  next
    case False
    with 2 show ?thesis by auto
  qed
qed (simp split: if_splits)

lemma LastIndex_Some: "LastIndex s sub = Some i \<Longrightarrow> s = take i s @ sub @ drop (i + length sub) s"
proof (induction s sub arbitrary: i rule: LastIndex.induct)
  case (2 c s sub)
  show ?case
  proof (cases "LastIndex s sub")
    case None
    with 2 show ?thesis by (auto simp: prefix_def split: if_splits)
  next
    case (Some j)
    with 2 show ?thesis by auto
  qed
qed (simp split: if_splits)

lemma Index_None_iff: "Index s sub = None \<longleftrightarrow> \<not> Contains s sub"
  by (induction s sub rule: Index.induct) auto

subsection \<open>Splitting and joining\<close>

text \<open>\<^verbatim>\<open>strings.Split\<close> and \<^verbatim>\<open>strings.SplitN\<close> with \<open>n = 2\<close>, for a separator of one byte.\<close>

fun Split :: "char \<Rightarrow> string \<Rightarrow> string list" where
  "Split sep [] = [[]]"
| "Split sep (c # s) =
     (if c = sep then [] # Split sep s
      else case Split sep s of [] \<Rightarrow> [[c]] | p # ps \<Rightarrow> (c # p) # ps)"

fun Split2 :: "char \<Rightarrow> string \<Rightarrow> string list" where
  "Split2 sep [] = [[]]"
| "Split2 sep (c # s) =
     (if c = sep then [[], s]
      else case Split2 sep s of [] \<Rightarrow> [[c]] | p # ps \<Rightarrow> (c # p) # ps)"

lemma Split_nonempty [simp]: "Split sep s \<noteq> []"
  by (induction s) (auto split: list.splits)

lemma Split2_nonempty [simp]: "Split2 sep s \<noteq> []"
  by (induction s) (auto split: list.splits)

lemma JoinWith_Cons: "xs \<noteq> [] \<Longrightarrow> JoinWith sep (x # xs) = x @ sep @ JoinWith sep xs"
  by (cases xs) auto

lemma JoinWith_Cons_Cons: "JoinWith sep ((c # p) # ps) = c # JoinWith sep (p # ps)"
  by (cases ps) auto

lemma Join_Split: "JoinWith [sep] (Split sep s) = s"
proof (induction s)
  case (Cons c s)
  show ?case
  proof (cases "c = sep")
    case True
    with Cons show ?thesis by (simp add: JoinWith_Cons)
  next
    case False
    obtain p ps where "Split sep s = p # ps" by (meson Split_nonempty list.exhaust)
    with False Cons show ?thesis by (simp add: JoinWith_Cons_Cons)
  qed
qed simp

subsection \<open>Runes with their bytes\<close>

text \<open>A string as the runes that decoding it yields, each with the bytes it came from.\<close>

type_synonym chunk = "int \<times> string"

function chunks :: "string \<Rightarrow> chunk list" where
  "chunks s = (if s = [] then []
     else (fst (DecodeRune s), take (snd (DecodeRune s)) s) # chunks (drop (snd (DecodeRune s)) s))"
  by pat_completeness auto
termination
  by (relation "measure length") (use DecodeRune_width in auto)

declare chunks.simps [simp del]

lemma chunks_Nil [simp]: "chunks [] = []"
  by (simp add: chunks.simps)

definition unchunk :: "chunk list \<Rightarrow> string" where
  "unchunk cs = concat (map snd cs)"

lemma unchunk_simps [simp]: "unchunk [] = []" "unchunk (c # cs) = snd c @ unchunk cs"
  "unchunk (cs @ ds) = unchunk cs @ unchunk ds"
  by (simp_all add: unchunk_def)

lemma unchunk_chunks [simp]: "unchunk (chunks s) = s"
proof (induction s rule: chunks.induct)
  case (1 s)
  then show ?case by (cases "s = []") (simp, simp add: chunks.simps [of s])
qed

text \<open>Text of ASCII bytes only is decoded byte by byte.\<close>

lemma chunks_ascii: "list_all (\<lambda>c. byte c < 128) s \<Longrightarrow> chunks s = map (\<lambda>c. (byte c, [c])) s"
proof (induction s)
  case (Cons c s)
  then have "DecodeRune (c # s) = (byte c, 1)"
    by (simp add: DecodeRune_def Let_def nthByte_def)
  with Cons show ?case by (simp add: chunks.simps [of "c # s"])
qed (simp add: chunks.simps)

text \<open>\<^verbatim>\<open>strings.Fields\<close>.\<close>

fun fieldsLoop :: "string \<Rightarrow> chunk list \<Rightarrow> string list" where
  "fieldsLoop cur [] = (if cur = [] then [] else [cur])"
| "fieldsLoop cur ((r, bs) # cs) =
     (if isSpaceRune r then (if cur = [] then fieldsLoop [] cs else cur # fieldsLoop [] cs)
      else fieldsLoop (cur @ bs) cs)"

definition Fields :: "string \<Rightarrow> string list" where
  "Fields s = fieldsLoop [] (chunks s)"

subsection \<open>Replacing\<close>

text \<open>\<^verbatim>\<open>strings.ReplaceAll\<close> for a non-empty old text: occurrences from the left, not overlapping.\<close>

function ReplaceAll :: "string \<Rightarrow> string \<Rightarrow> string \<Rightarrow> string" where
  "ReplaceAll s old new =
     (if s = [] \<or> old = [] then s
      else if prefix old s then new @ ReplaceAll (drop (length old) s) old new
      else hd s # ReplaceAll (tl s) old new)"
  by pat_completeness auto
termination
  by (relation "measure (\<lambda>(s, _, _). length s)") auto

declare ReplaceAll.simps [simp del]

lemma ReplaceAll_absent: "\<not> Contains s old \<Longrightarrow> ReplaceAll s old new = s"
proof (induction s)
  case (Cons c s)
  then show ?case by (simp add: ReplaceAll.simps [of "c # s"])
qed (simp add: ReplaceAll.simps)

end
