(* ===== verification/Go_Regexp.thy ===== *)
theory Go_Regexp
  imports Go_Text
begin

text \<open>
  The \<^verbatim>\<open>regexp\<close> package, as far as the program uses it: character classes, concatenation,
  alternation, greedy and lazy repetition, groups, the anchors \<^verbatim>\<open>^\<close> and \<^verbatim>\<open>$\<close> of the whole text and the
  ASCII word boundary \<^verbatim>\<open>\b\<close>. The package prefers the leftmost match and, among the matches that start
  there, the one a backtracking search would find first; \<open>runs\<close> lists the matches from a position
  in exactly that order.

  A position is the runes before it (the nearest first), the runes after it and the groups captured
  so far. An iteration that consumes nothing ends a repetition, so the number of runes left is
  enough fuel for it.
\<close>

subsection \<open>Expressions\<close>

datatype regex =
    Cls "int \<Rightarrow> bool"
  | Empty
  | Seq regex regex
  | Alt regex regex
  | Star bool regex \<comment> \<open>\<open>True\<close> for the greedy form\<close>
  | Group nat regex
  | BeginText
  | EndText
  | WordBoundary

definition rune :: "char \<Rightarrow> int" where
  "rune c = byte c"

definition lit :: "char \<Rightarrow> regex" where
  "lit c = Cls (\<lambda>r. r = rune c)"

definition str :: "string \<Rightarrow> regex" where
  "str s = foldr (\<lambda>c. Seq (lit c)) s Empty"

definition plus :: "regex \<Rightarrow> regex" where
  "plus r = Seq r (Star True r)"

definition plus_lazy :: "regex \<Rightarrow> regex" where
  "plus_lazy r = Seq r (Star False r)"

definition opt :: "regex \<Rightarrow> regex" where
  "opt r = Alt r Empty"

fun times :: "nat \<Rightarrow> regex \<Rightarrow> regex" where
  "times 0 r = Empty"
| "times (Suc n) r = Seq r (times n r)"

text \<open>\<^verbatim>\<open>r{0,n}\<close>, \<^verbatim>\<open>r{m,n}\<close> and \<^verbatim>\<open>r{m,}\<close>.\<close>

fun upTo :: "nat \<Rightarrow> regex \<Rightarrow> regex" where
  "upTo 0 r = Empty"
| "upTo (Suc n) r = opt (Seq r (upTo n r))"

definition between :: "nat \<Rightarrow> nat \<Rightarrow> regex \<Rightarrow> regex" where
  "between m n r = Seq (times m r) (upTo (n - m) r)"

definition atLeast :: "nat \<Rightarrow> regex \<Rightarrow> regex" where
  "atLeast m r = Seq (times m r) (Star True r)"

definition seqs :: "regex list \<Rightarrow> regex" where
  "seqs rs = foldr Seq rs Empty"

subsection \<open>Classes\<close>

definition digit :: "int \<Rightarrow> bool" where
  "digit r \<longleftrightarrow> 48 \<le> r \<and> r \<le> 57"

definition lower :: "int \<Rightarrow> bool" where
  "lower r \<longleftrightarrow> 97 \<le> r \<and> r \<le> 122"

definition upper :: "int \<Rightarrow> bool" where
  "upper r \<longleftrightarrow> 65 \<le> r \<and> r \<le> 90"

definition hexDigit :: "int \<Rightarrow> bool" where
  "hexDigit r \<longleftrightarrow> digit r \<or> 97 \<le> r \<and> r \<le> 102 \<or> 65 \<le> r \<and> r \<le> 70"

definition reSpace :: "int \<Rightarrow> bool" where
  "reSpace r \<longleftrightarrow> r = 9 \<or> r = 10 \<or> r = 12 \<or> r = 13 \<or> r = 32"

definition wordRune :: "int \<Rightarrow> bool" where
  "wordRune r \<longleftrightarrow> digit r \<or> lower r \<or> upper r \<or> r = 95"

definition notNewline :: "int \<Rightarrow> bool" where
  "notNewline r \<longleftrightarrow> r \<noteq> 10"

definition oneOf :: "string \<Rightarrow> int \<Rightarrow> bool" where
  "oneOf s r \<longleftrightarrow> r \<in> set (map rune s)"

subsection \<open>Matching\<close>

record position =
  behind :: "chunk list"
  ahead :: "chunk list"
  caps :: "(nat \<times> string) list"

definition isWordAt :: "chunk list \<Rightarrow> bool" where
  "isWordAt cs = (case cs of [] \<Rightarrow> False | c # _ \<Rightarrow> wordRune (fst c))"

text \<open>The text between two positions of one match.\<close>

definition consumed :: "position \<Rightarrow> position \<Rightarrow> chunk list" where
  "consumed p q = take (length (ahead p) - length (ahead q)) (ahead p)"

fun iter :: "nat \<Rightarrow> bool \<Rightarrow> (position \<Rightarrow> position list) \<Rightarrow> position \<Rightarrow> position list" where
  "iter 0 greedy f p = [p]"
| "iter (Suc n) greedy f p =
     (let more = concat (map (iter n greedy f) (filter (\<lambda>q. length (ahead q) < length (ahead p)) (f p)))
      in if greedy then more @ [p] else p # more)"

primrec runs :: "regex \<Rightarrow> position \<Rightarrow> position list" where
  "runs (Cls P) p =
     (case ahead p of
        [] \<Rightarrow> []
      | c # cs \<Rightarrow> if P (fst c) then [p \<lparr> behind := c # behind p, ahead := cs \<rparr>] else [])"
| "runs Empty p = [p]"
| "runs (Seq a b) p = concat (map (runs b) (runs a p))"
| "runs (Alt a b) p = runs a p @ runs b p"
| "runs (Star greedy r) p = iter (length (ahead p)) greedy (runs r) p"
| "runs (Group i r) p =
     map (\<lambda>q. q \<lparr> caps := (i, unchunk (consumed p q)) # filter (\<lambda>(j, _). j \<noteq> i) (caps q) \<rparr>) (runs r p)"
| "runs BeginText p = (if behind p = [] then [p] else [])"
| "runs EndText p = (if ahead p = [] then [p] else [])"
| "runs WordBoundary p = (if isWordAt (behind p) \<noteq> isWordAt (ahead p) then [p] else [])"

definition atStart :: "string \<Rightarrow> position" where
  "atStart s = \<lparr> behind = [], ahead = chunks s, caps = [] \<rparr>"

text \<open>The leftmost match from a position on: where it starts and where it ends.\<close>

fun search :: "nat \<Rightarrow> regex \<Rightarrow> position \<Rightarrow> (position \<times> position) option" where
  "search n r p =
     (case runs r p of
        q # _ \<Rightarrow> Some (p, q)
      | [] \<Rightarrow> (case n of
                0 \<Rightarrow> None
              | Suc m \<Rightarrow> (case ahead p of
                  [] \<Rightarrow> None
                | c # cs \<Rightarrow> search m r (p \<lparr> behind := c # behind p, ahead := cs \<rparr>))))"

declare search.simps [simp del]

definition findMatch :: "regex \<Rightarrow> position \<Rightarrow> (position \<times> position) option" where
  "findMatch r p = search (length (ahead p)) r p"

text \<open>\<^verbatim>\<open>FindStringSubmatch\<close>: the captured groups of the first match (an absent group is empty).\<close>

definition FindStringSubmatch :: "regex \<Rightarrow> string \<Rightarrow> (nat \<Rightarrow> string) option" where
  "FindStringSubmatch r s =
     (case findMatch r (atStart s) of
        None \<Rightarrow> None
      | Some (_, q) \<Rightarrow> Some (\<lambda>i. case map_of (caps q) i of None \<Rightarrow> [] | Some t \<Rightarrow> t))"

definition MatchString :: "regex \<Rightarrow> string \<Rightarrow> bool" where
  "MatchString r s \<longleftrightarrow> findMatch r (atStart s) \<noteq> None"

text \<open>
  \<^verbatim>\<open>ReplaceAllString\<close> with a replacement that has no \<^verbatim>\<open>$\<close>, for expressions that match at least one
  rune (all of the program's do); the search goes on at the end of the match, with the text before it
  as context.
\<close>

fun replaceLoop :: "nat \<Rightarrow> regex \<Rightarrow> string \<Rightarrow> position \<Rightarrow> string" where
  "replaceLoop 0 r repl p = unchunk (ahead p)"
| "replaceLoop (Suc n) r repl p =
     (case findMatch r p of
        None \<Rightarrow> unchunk (ahead p)
      | Some (b, q) \<Rightarrow> unchunk (consumed p b) @ repl @ replaceLoop n r repl (q \<lparr> caps := [] \<rparr>))"

definition ReplaceAllString :: "regex \<Rightarrow> string \<Rightarrow> string \<Rightarrow> string" where
  "ReplaceAllString r s repl = replaceLoop (length (chunks s)) r repl (atStart s)"

subsection \<open>Matches lie in the text\<close>

definition extends :: "position \<Rightarrow> position \<Rightarrow> bool" where
  "extends p q \<longleftrightarrow> (\<exists>m. ahead p = m @ ahead q \<and> behind q = rev m @ behind p)"

lemma extends_refl [simp]: "extends p p"
  by (simp add: extends_def)

lemma extends_caps [simp]: "extends p (q \<lparr> caps := cs \<rparr>) = extends p q"
  by (simp add: extends_def)

lemma extends_trans: "extends p q \<Longrightarrow> extends q r \<Longrightarrow> extends p r"
  by (auto simp: extends_def)

lemma extends_length: "extends p q \<Longrightarrow> length (ahead q) \<le> length (ahead p)"
  by (auto simp: extends_def)

lemma extends_step: "ahead p = c # cs \<Longrightarrow> extends p (p \<lparr> behind := c # behind p, ahead := cs \<rparr>)"
  by (auto simp: extends_def intro: exI [of _ "[c]"])

lemma iter_extends:
  assumes "\<And>p q. q \<in> set (f p) \<Longrightarrow> extends p q"
  shows "q \<in> set (iter n greedy f p) \<Longrightarrow> extends p q"
proof (induction n arbitrary: p)
  case (Suc n)
  then show ?case by (auto simp: Let_def intro: extends_trans [OF assms] split: if_splits)
qed simp

lemma runs_extends: "q \<in> set (runs r p) \<Longrightarrow> extends p q"
proof (induction r arbitrary: p q)
  case (Cls P)
  then show ?case by (auto intro: extends_step split: list.splits if_splits)
next
  case (Seq a b)
  then show ?case by (auto intro: extends_trans [OF Seq.IH])
next
  case (Star g r)
  then show ?case by (auto intro: iter_extends)
qed (auto split: if_splits)

lemma search_extends: "search n r p = Some (b, q) \<Longrightarrow> extends p b \<and> extends b q \<and> q \<in> set (runs r b)"
proof (induction n arbitrary: p)
  case 0
  then show ?case
    using runs_extends [of q r p] by (auto simp: search.simps [of 0] split: list.splits)
next
  case (Suc n)
  show ?case
  proof (cases "runs r p")
    case Nil
    with Suc.prems obtain c cs where "ahead p = c # cs"
      "search n r (p \<lparr> behind := c # behind p, ahead := cs \<rparr>) = Some (b, q)"
      by (auto simp: search.simps [of "Suc n"] split: list.splits)
    with Suc.IH extends_step extends_trans show ?thesis by blast
  next
    case (Cons x xs)
    with Suc.prems show ?thesis
      using runs_extends [of x r p] by (auto simp: search.simps [of "Suc n"])
  qed
qed

lemma findMatch_extends: "findMatch r p = Some (b, q) \<Longrightarrow> extends p b \<and> extends b q \<and> q \<in> set (runs r b)"
  unfolding findMatch_def by (rule search_extends)

text \<open>The least number of runes that a match of an expression takes.\<close>

fun minLen :: "regex \<Rightarrow> nat" where
  "minLen (Cls P) = 1"
| "minLen (Seq a b) = minLen a + minLen b"
| "minLen (Alt a b) = min (minLen a) (minLen b)"
| "minLen (Group i r) = minLen r"
| "minLen _ = 0"

lemma runs_minLen: "q \<in> set (runs r p) \<Longrightarrow> length (ahead q) + minLen r \<le> length (ahead p)"
proof (induction r arbitrary: p q)
  case (Cls P)
  then show ?case by (cases "ahead p") (auto split: if_splits)
next
  case (Seq a b)
  then show ?case by fastforce
next
  case (Alt a b)
  then show ?case by fastforce
next
  case (Star g r)
  then show ?case using extends_length [OF iter_extends [OF runs_extends]] by auto
qed (auto split: if_splits)

text \<open>Each replacement takes a rune, so the fuel of the replacement loop is never used up.\<close>

lemma replaceLoop_fuel:
  assumes "0 < minLen r" "length (ahead p) \<le> n" "n \<le> m"
  shows "replaceLoop n r repl p = replaceLoop m r repl p"
  using assms(2,3)
proof (induction n arbitrary: m p)
  case 0
  then have "ahead p = []" by simp
  then have "runs r p = []"
    using runs_minLen [of "hd (runs r p)" r p] assms(1) by (cases "runs r p") auto
  with \<open>ahead p = []\<close> have "findMatch r p = None"
    by (simp add: findMatch_def search.simps)
  then show ?case by (cases m) (auto simp: \<open>ahead p = []\<close>)
next
  case (Suc n)
  then obtain k where m: "m = Suc k" "n \<le> k" by (cases m) auto
  have "length (ahead (q \<lparr> caps := [] \<rparr>)) \<le> n" if "findMatch r p = Some (b, q)" for b q
    using findMatch_extends [OF that] runs_minLen [of q r b] assms(1) Suc.prems(1) extends_length [of p b] by auto
  with Suc.IH m(2) show ?case by (auto simp: m(1) split: option.splits)
qed

lemma ReplaceAllString_unmatched: "\<not> MatchString r s \<Longrightarrow> ReplaceAllString r s repl = s"
proof -
  assume "\<not> MatchString r s"
  then have "findMatch r (atStart s) = None" by (auto simp: MatchString_def simp del: not_None_eq)
  then have "replaceLoop n r repl (atStart s) = unchunk (ahead (atStart s))" for n
    by (cases n) simp_all
  then show ?thesis by (simp add: ReplaceAllString_def) (simp add: atStart_def)
qed

end
