(* ===== verification/Error_Signature.thy ===== *)
theory Error_Signature
  imports Go_Regexp
begin

text \<open>
  Error events and their signatures (\<^verbatim>\<open>internal/agent/errors/event.go\<close> and \<^verbatim>\<open>signature.go\<close>): the error
  type and the origin frame that are read off a Python traceback, the normalization of the message
  and the hash that groups occurrences of one bug. \<open>sha256\<close> stands for \<^verbatim>\<open>crypto/sha256\<close>.

  The loop of \<^verbatim>\<open>NormalizeMessage\<close> that collapses adjacent placeholders may not end; it is a partial
  function and a message on which it does not return has the value \<open>None\<close>.
\<close>

subsection \<open>Helpers of event.go\<close>

abbreviation unknownErrorType :: string where
  "unknownErrorType \<equiv> ''UnknownError''"

abbreviation newline :: char where
  "newline \<equiv> CHR 0x0A"

fun firstNonEmpty_loop :: "string list \<Rightarrow> string option" where
  "firstNonEmpty_loop [] = None"
| "firstNonEmpty_loop (line # ls) = (if TrimSpace line \<noteq> [] then Some (TrimSpace line) else firstNonEmpty_loop ls)"

definition firstNonEmpty :: "string \<Rightarrow> string" where
  "firstNonEmpty s = (case firstNonEmpty_loop (Split newline s) of Some line \<Rightarrow> line | None \<Rightarrow> s)"

definition identRune :: "int \<Rightarrow> bool" where
  "identRune c \<longleftrightarrow> \<not> ((c < 97 \<or> c > 122) \<and> (c < 65 \<or> c > 90) \<and> (c < 48 \<or> c > 57) \<and> c \<noteq> 95 \<and> c \<noteq> 46)"

definition isIdentifier :: "string \<Rightarrow> bool" where
  "isIdentifier s = (if s = [] then False else list_all (identRune \<circ> fst) (chunks s))"

text \<open>
  The loop of \<^verbatim>\<open>ParseErrorType\<close> runs over the lines from the last one; \<open>isLast\<close> is its condition
  \<^verbatim>\<open>i == len(lines)-1\<close>.
\<close>

fun parseTypeLoop :: "bool \<Rightarrow> string list \<Rightarrow> string" where
  "parseTypeLoop isLast [] = unknownErrorType"
| "parseTypeLoop isLast (l # rest) =
     (let line = TrimSpace l in
      if line = [] then parseTypeLoop False rest
      else
        let fallback = (if isLast \<or> isIdentifier line then line else unknownErrorType) in
        case Index line '': '' of
          Some idx \<Rightarrow>
            if idx > 0 \<and> isIdentifier (take idx line) then take idx line else fallback
        | None \<Rightarrow> fallback)"

definition ParseErrorType :: "string \<Rightarrow> string" where
  "ParseErrorType message = parseTypeLoop True (rev (Split newline (TrimSpace message)))"

definition ExtractTraceback :: "string \<Rightarrow> string" where
  "ExtractTraceback message =
     (case Index message ''Traceback (most recent call last):'' of Some idx \<Rightarrow> drop idx message | None \<Rightarrow> message)"

subsection \<open>The origin frame\<close>

record OriginFrame =
  fr_File :: string
  fr_Line :: string
  fr_Function :: string

text \<open>\<^verbatim>\<open>^\s*File "([^"]+)", line (\d+), in (.+)$\<close>\<close>

definition frameRe :: regex where
  "frameRe = seqs [BeginText, Star True (Cls reSpace), str (''File '' @ [CHR 0x22]),
     Group 1 (plus (Cls (\<lambda>r. r \<noteq> 34))), str ([CHR 0x22] @ '', line ''), Group 2 (plus (Cls digit)),
     str '', in '', Group 3 (plus (Cls notNewline)), EndText]"

definition noFrame :: OriginFrame where
  "noFrame = \<lparr> fr_File = [], fr_Line = [], fr_Function = [] \<rparr>"

definition originStep :: "OriginFrame \<Rightarrow> string \<Rightarrow> OriginFrame" where
  "originStep acc line =
     (case FindStringSubmatch frameRe line of
        None \<Rightarrow> acc
      | Some m \<Rightarrow> \<lparr> fr_File = m 1, fr_Line = m 2, fr_Function = m 3 \<rparr>)"

definition ExtractOriginFrame :: "string \<Rightarrow> OriginFrame" where
  "ExtractOriginFrame traceback = foldl originStep noFrame (Split newline traceback)"

definition ShortFile :: "OriginFrame \<Rightarrow> string" where
  "ShortFile f =
     (if fr_File f = [] then []
      else case LastIndex (fr_File f) ''/'' of Some idx \<Rightarrow> drop (idx + 1) (fr_File f) | None \<Rightarrow> fr_File f)"

definition ModulePath :: "OriginFrame \<Rightarrow> string" where
  "ModulePath f =
     (if fr_File f = [] then []
      else case LastIndex (fr_File f) ''/addons/'' of
        Some idx \<Rightarrow> drop (idx + length ''/addons/'') (fr_File f)
      | None \<Rightarrow> (case LastIndex (fr_File f) ''/odoo/'' of
          Some idx \<Rightarrow> drop (idx + length ''/odoo/'') (fr_File f)
        | None \<Rightarrow> ShortFile f))"

subsection \<open>Message normalization\<close>

definition uuidRe :: regex where
  "uuidRe = seqs [times 8 (Cls hexDigit), lit CHR ''-'', times 4 (Cls hexDigit), lit CHR ''-'',
     times 4 (Cls hexDigit), lit CHR ''-'', times 4 (Cls hexDigit), lit CHR ''-'', times 12 (Cls hexDigit)]"

definition emailRe :: regex where
  "emailRe = seqs
     [plus (Cls (\<lambda>r. lower r \<or> upper r \<or> digit r \<or> oneOf ''._%+-'' r)), lit CHR ''@'',
      plus (Cls (\<lambda>r. lower r \<or> upper r \<or> digit r \<or> oneOf ''.-'' r)), lit CHR ''.'',
      atLeast 2 (Cls (\<lambda>r. lower r \<or> upper r))]"

definition timestampRe :: regex where
  "timestampRe = seqs
     [times 4 (Cls digit), lit CHR ''-'', times 2 (Cls digit), lit CHR ''-'', times 2 (Cls digit),
      Cls (oneOf ''T ''), times 2 (Cls digit), lit CHR '':'', times 2 (Cls digit), lit CHR '':'',
      times 2 (Cls digit), opt (Cls (oneOf ''.,'')), Star True (Cls digit)]"

definition ipRe :: regex where
  "ipRe = seqs
     [between 1 3 (Cls digit), lit CHR ''.'', between 1 3 (Cls digit), lit CHR ''.'',
      between 1 3 (Cls digit), lit CHR ''.'', between 1 3 (Cls digit)]"

definition hexRe :: regex where
  "hexRe = seqs [WordBoundary, atLeast 8 (Cls hexDigit), WordBoundary]"

definition notLetter :: "int \<Rightarrow> bool" where
  "notLetter r \<longleftrightarrow> \<not> (lower r \<or> upper r \<or> r = 95)"

definition integerRe :: regex where
  "integerRe = seqs
     [Alt BeginText (Cls notLetter), Group 1 (plus (Cls digit)), Alt (Cls notLetter) EndText]"

definition normalizers :: "regex list" where
  "normalizers = [uuidRe, emailRe, timestampRe, ipRe, hexRe, integerRe]"

abbreviation placeholder :: string where
  "placeholder \<equiv> ''<?>''"

definition withPlaceholders :: "string \<Rightarrow> string" where
  "withPlaceholders msg =
     foldl (\<lambda>normalized re. ReplaceAllString re normalized placeholder) (firstNonEmpty msg) normalizers"

partial_function (option) collapse :: "string \<Rightarrow> string option" where
  "collapse normalized =
     (if Contains normalized ''<?><?>'' then collapse (ReplaceAll normalized ''<?>< ?>'' ''<?>'')
      else Some normalized)"

definition NormalizeMessage :: "string \<Rightarrow> string option" where
  "NormalizeMessage msg =
     map_option (\<lambda>normalized. JoinWith '' '' (Fields normalized)) (collapse (withPlaceholders msg))"

subsection \<open>Signatures\<close>

definition hexEncode :: "string \<Rightarrow> string" where
  "hexEncode bs = concat (map (\<lambda>c. [hexChar (byte c div 16), hexChar (byte c mod 16)]) bs)"

definition hashPrefix :: "(string \<Rightarrow> string) \<Rightarrow> string \<Rightarrow> string" where
  "hashPrefix sha256 raw = hexEncode (take 8 (sha256 raw))"

definition ComputeSignature :: "(string \<Rightarrow> string) \<Rightarrow> string \<Rightarrow> string \<Rightarrow> string" where
  "ComputeSignature sha256 errorType message =
     hashPrefix sha256 (errorType @ '':'' @ firstNonEmpty message)"

definition GenerateSignature :: "(string \<Rightarrow> string) \<Rightarrow> string \<Rightarrow> string \<Rightarrow> string \<Rightarrow> string option" where
  "GenerateSignature sha256 errorType message traceback =
     (let origin = ExtractOriginFrame traceback in
      map_option (\<lambda>normalized.
        let parts = [errorType] @ (if fr_File origin \<noteq> [] then [ModulePath origin, fr_Function origin] else []) @ [normalized]
        in hashPrefix sha256 (JoinWith [CHR 0x00] parts))
        (NormalizeMessage message))"

subsection \<open>Exception lines\<close>

fun exceptionLoop :: "string list \<Rightarrow> string \<times> string" where
  "exceptionLoop [] = (unknownErrorType, [])"
| "exceptionLoop (l # rest) =
     (let line = TrimSpace l in
      if line = [] then exceptionLoop rest
      else if HasPrefix line ''During handling of'' \<or> HasPrefix line ''The above exception'' then exceptionLoop rest
      else
        let fallback = (if isIdentifier line then (line, []) else (unknownErrorType, line)) in
        case Index line '': '' of
          Some idx \<Rightarrow>
            if idx > 0 \<and> isIdentifier (take idx line) then (take idx line, drop (idx + 2) line) else fallback
        | None \<Rightarrow> fallback)"

definition ParseExceptionLine :: "string \<Rightarrow> string \<times> string" where
  "ParseExceptionLine traceback = exceptionLoop (rev (Split newline (TrimSpace traceback)))"

definition ShortExceptionType :: "string \<Rightarrow> string" where
  "ShortExceptionType fullType =
     (case LastIndex fullType ''.'' of Some idx \<Rightarrow> drop (idx + 1) fullType | None \<Rightarrow> fullType)"

subsection \<open>Where normalization returns\<close>

lemma ReplaceAll_hit: "old \<noteq> [] \<Longrightarrow> ReplaceAll (old @ s) old new = new @ ReplaceAll s old new"
  by (subst ReplaceAll.simps) simp

lemma ReplaceAll_miss: "\<not> prefix old (c # s) \<Longrightarrow> old \<noteq> [] \<Longrightarrow> ReplaceAll (c # s) old new = c # ReplaceAll s old new"
  by (subst ReplaceAll.simps) simp

lemma Contains_append: "Contains t sub \<Longrightarrow> Contains (s @ t) sub"
  by (induction s) auto

text \<open>The replacement looks for a text with a blank in it and keeps every placeholder it meets.\<close>

lemma ReplaceAll_keeps_placeholder:
  "\<exists>t. ReplaceAll (''<?>'' @ s) ''<?>< ?>'' ''<?>'' = ''<?>'' @ t"
proof (cases "prefix ''< ?>'' s")
  case True
  then obtain r where "s = ''< ?>'' @ r" by (auto simp: prefix_def)
  then show ?thesis using ReplaceAll_hit [of "''<?>< ?>''" r "''<?>''"] by auto
next
  case False
  then show ?thesis by (simp add: ReplaceAll_miss)
qed

lemma ReplaceAll_keeps_pair:
  "Contains s ''<?><?>'' \<Longrightarrow> Contains (ReplaceAll s ''<?>< ?>'' ''<?>'') ''<?><?>''"
proof (induction s rule: length_induct)
  case (1 s)
  show ?case
  proof (cases "prefix ''<?><?>'' s")
    case True
    then obtain r where "s = ''<?><?>'' @ r" by (auto simp: prefix_def)
    then show ?thesis using ReplaceAll_keeps_placeholder [of r] by (auto simp: ReplaceAll_miss)
  next
    case no_pair: False
    show ?thesis
    proof (cases "prefix ''<?>< ?>'' s")
      case True
      then obtain r where s: "s = ''<?>< ?>'' @ r" by (auto simp: prefix_def)
      with 1(2) have "Contains r ''<?><?>''" by auto
      with 1(1) s have "Contains (ReplaceAll r ''<?>< ?>'' ''<?>'') ''<?><?>''" by simp
      then show ?thesis
        using s ReplaceAll_hit [of "''<?>< ?>''" r "''<?>''"] by simp
    next
      case False
      obtain c t where s: "s = c # t" using 1(2) by (cases s) auto
      with no_pair 1(2) have "Contains t ''<?><?>''" by auto
      with 1(1) s have "Contains (ReplaceAll t ''<?>< ?>'' ''<?>'') ''<?><?>''" by simp
      then show ?thesis using False s by (simp add: ReplaceAll_miss)
    qed
  qed
qed

lemma collapse_stuck: "collapse s = Some t \<Longrightarrow> \<not> Contains s ''<?><?>''"
proof (induction rule: collapse.raw_induct [rotated, consumes 1])
  case (1 collapse s t)
  then show ?case
    using ReplaceAll_keeps_pair by (auto split: if_splits)
qed

lemma collapse_eq: "collapse s = (if Contains s ''<?><?>'' then None else Some s)"
proof (cases "Contains s ''<?><?>''")
  case True
  then show ?thesis using collapse_stuck [of s] by (cases "collapse s") auto
next
  case False
  then show ?thesis by (subst collapse.simps) simp
qed

text \<open>
  C34: the message normalization returns exactly on the messages whose placeholders are never adjacent,
  and then yields the first line with its dynamic values replaced and its blanks collapsed. On any
  other message the loop that should collapse adjacent placeholders runs forever: it tests for two
  placeholders in a row but replaces a text that has a blank inside the second one.
\<close>

theorem NormalizeMessage_returns_iff:
  "NormalizeMessage msg =
     (if Contains (withPlaceholders msg) ''<?><?>'' then None
      else Some (JoinWith '' '' (Fields (withPlaceholders msg))))"
  by (simp add: NormalizeMessage_def collapse_eq)

text \<open>Two numbers in a row are enough.\<close>

lemma NormalizeMessage_diverges: "NormalizeMessage ''(10, 20)'' = None"
proof -
  have "withPlaceholders ''(10, 20)'' = ''<?><?>''" by code_simp
  then show ?thesis by (simp add: NormalizeMessage_def collapse_eq)
qed

lemma NormalizeMessage_example: "NormalizeMessage ''Record 42 not found'' = Some ''Record<?>not found''"
proof -
  have "withPlaceholders ''Record 42 not found'' = ''Record<?>not found''" by code_simp
  then show ?thesis by (simp add: NormalizeMessage_def collapse_eq) code_simp
qed

end
