(* ===== verification/Odoo_Rpc.thy ===== *)
theory Odoo_Rpc
  imports Go_Value Go_Text
begin

text \<open>
  Reading records from Odoo (\<^verbatim>\<open>internal/agent/collector/collector.go\<close>, and the same helpers in
  \<^verbatim>\<open>internal/agent/errors/collector.go\<close>): the decoded XML-RPC response, its conversion to Go values,
  and the paged reading of a model. Parameters stand for what is outside the repository or not
  computed here: \<open>parseFloat\<close> for \<^verbatim>\<open>strconv.ParseFloat\<close>, \<open>unmarshal\<close> for \<^verbatim>\<open>xml.Unmarshal\<close>, and the answer
  of the Odoo server to a call.
\<close>

subsection \<open>The response\<close>

datatype Value = Value
  (v_Array: "Value list")
  (v_Struct: "(string \<times> Value) list")
  (v_String: string)
  (v_Int: string)
  (v_I4: string)
  (v_Boolean: string)
  (v_Double: string)
  (v_Nil: bool)

record MethodResponse =
  Params :: "Value list"
  Fault :: "Value option"

type_synonym OdooRecord = "(string, go_any) gomap"

definition atoiOrZero :: "string \<Rightarrow> int" where
  "atoiOrZero s = (case ParseInt s of Inl _ \<Rightarrow> 0 | Inr i \<Rightarrow> i)"

definition setMembers :: "(string \<times> go_any) list \<Rightarrow> OdooRecord" where
  "setMembers kvs = foldl (\<lambda>m (k, v). AList.update k v m) [] kvs"

fun convertValue :: "(string \<Rightarrow> num_error + go_float) \<Rightarrow> Value \<Rightarrow> go_any" where
  "convertValue parseFloat (Value arr mems str i i4 bool dbl isNil) =
     (if i \<noteq> [] \<or> i4 \<noteq> [] then AInt (atoiOrZero (if i4 \<noteq> [] then i4 else i))
      else if str \<noteq> [] then AString str
      else if bool \<noteq> [] then ABool (bool = ''1'' \<or> bool = ''true'')
      else if dbl \<noteq> [] then AFloat (case parseFloat dbl of Inl _ \<Rightarrow> Fin 0 | Inr f \<Rightarrow> f)
      else if isNil then ANil
      else if 0 < length arr then AList (map (convertValue parseFloat) arr)
      else if 0 < length mems then AMap (setMembers (map (\<lambda>(k, v). (k, convertValue parseFloat v)) mems))
      else ANil)"

fun getFaultString_loop :: "(string \<times> Value) list \<Rightarrow> string" where
  "getFaultString_loop [] = ''unknown fault''"
| "getFaultString_loop ((name, v) # ms) = (if name = ''faultString'' then v_String v else getFaultString_loop ms)"

definition getFaultString :: "Value \<Rightarrow> string" where
  "getFaultString f = getFaultString_loop (v_Struct f)"

definition unmarshalResponse :: "('body \<Rightarrow> msg + MethodResponse) \<Rightarrow> 'body \<Rightarrow> string \<Rightarrow> msg + MethodResponse" where
  "unmarshalResponse unmarshal body modelName =
     (case unmarshal body of
        Inl e \<Rightarrow> Inl ([S ''unmarshal '', S modelName, S '': ''] @ e)
      | Inr resp \<Rightarrow>
          (case Fault resp of
             Some f \<Rightarrow> Inl [S ''odoo fault on '', S modelName, S '': '', S (getFaultString f)]
           | None \<Rightarrow> Inr resp))"

definition recordOf :: "(string \<Rightarrow> num_error + go_float) \<Rightarrow> Value \<Rightarrow> OdooRecord" where
  "recordOf parseFloat v = setMembers (map (\<lambda>(k, m). (k, convertValue parseFloat m)) (v_Struct v))"

definition extractRecords :: "(string \<Rightarrow> num_error + go_float) \<Rightarrow> MethodResponse \<Rightarrow> OdooRecord list" where
  "extractRecords parseFloat resp =
     (case Params resp of
        [] \<Rightarrow> []
      | p # _ \<Rightarrow> if length (v_Array p) = 0 then [] else map (recordOf parseFloat) (v_Array p))"

definition FetchRecordsWithDomain ::
  "(string \<Rightarrow> num_error + go_float) \<Rightarrow> ('body \<Rightarrow> msg + MethodResponse) \<Rightarrow> (string \<Rightarrow> 'q \<Rightarrow> msg + 'body) \<Rightarrow>
     string \<Rightarrow> 'q \<Rightarrow> msg + OdooRecord list" where
  "FetchRecordsWithDomain parseFloat unmarshal executeKw modelName query =
     res_bind (executeKw modelName query) (\<lambda>body.
     res_bind (unmarshalResponse unmarshal body modelName) (\<lambda>resp. Inr (extractRecords parseFloat resp)))"

subsection \<open>Paging\<close>

text \<open>
  \<open>fetch limit offset\<close> is the answer to one \<^verbatim>\<open>FetchRecordsWithDomain\<close> call of the loop. The loop may not
  end (a server that always fills the page), so it is a partial function.
\<close>

partial_function (option) pageLoop ::
  "(int \<Rightarrow> int \<Rightarrow> msg + 'r list) \<Rightarrow> int \<Rightarrow> int \<Rightarrow> 'r list \<Rightarrow> (msg + 'r list) option" where
  "pageLoop fetch batchSize offset all =
     (case fetch batchSize offset of
        Inl e \<Rightarrow> Some (Inl ([S ''page offset='', D offset, S '': ''] @ e))
      | Inr batch \<Rightarrow>
          (if int (length batch) < batchSize then Some (Inr (all @ batch))
           else pageLoop fetch batchSize (offset + int (length batch)) (all @ batch)))"

definition fetchAllPages :: "(int \<Rightarrow> int \<Rightarrow> msg + 'r list) \<Rightarrow> int \<Rightarrow> (msg + 'r list) option" where
  "fetchAllPages fetch batchSize = pageLoop fetch batchSize 0 []"

text \<open>What Odoo documents of \<^verbatim>\<open>search_read\<close> with a limit, an offset and a fixed order.\<close>

definition pagedServer :: "'r list \<Rightarrow> (int \<Rightarrow> int \<Rightarrow> msg + 'r list) \<Rightarrow> bool" where
  "pagedServer recs fetch \<longleftrightarrow>
     (\<forall>limit offset. 0 < limit \<longrightarrow> 0 \<le> offset \<longrightarrow> fetch limit offset = Inr (take (nat limit) (drop (nat offset) recs)))"

lemma pageLoop_complete:
  assumes "pagedServer recs fetch" "0 < batchSize"
  shows "pageLoop fetch batchSize (int k) (take k recs) = Some (Inr recs)"
proof (induction "length recs - k" arbitrary: k rule: less_induct)
  case less
  let ?batch = "take (nat batchSize) (drop k recs)"
  have f: "fetch batchSize (int k) = Inr ?batch"
    using assms by (simp add: pagedServer_def)
  show ?case
  proof (cases "int (length ?batch) < batchSize")
    case True
    then have "?batch = drop k recs" using assms(2) by auto
    then show ?thesis
      using True by (subst pageLoop.simps) (simp add: f)
  next
    case False
    then have len: "length ?batch = nat batchSize" using assms(2) by (auto simp: min_def split: if_splits)
    then have "k + nat batchSize \<le> length recs" using assms(2) by (auto simp: min_def split: if_splits)
    then have "length recs - (k + nat batchSize) < length recs - k" using assms(2) by auto
    from less [OF this] have "pageLoop fetch batchSize (int k + batchSize) (take (k + nat batchSize) recs) = Some (Inr recs)"
      using assms(2) by simp
    moreover have "take k recs @ ?batch = take (k + nat batchSize) recs" by (simp add: take_add)
    moreover have "int (length ?batch) = batchSize" using len assms(2) by simp
    ultimately show ?thesis
      using False by (subst pageLoop.simps) (simp add: f del: length_take)
  qed
qed

text \<open>
  the paged reading returns, and returns every record once and in order, for any positive page
  size, against a server that answers a page with the records at its offset.
\<close>

theorem fetchAllPages_complete:
  assumes "pagedServer recs fetch" "0 < batchSize"
  shows "fetchAllPages fetch batchSize = Some (Inr recs)"
  using pageLoop_complete [OF assms, of 0] by (simp add: fetchAllPages_def)

definition exampleServer :: "int \<Rightarrow> int \<Rightarrow> msg + nat list" where
  "exampleServer limit offset = Inr (take (nat limit) (drop (nat offset) [10, 11, 12, 13, 14]))"

lemma fetchAllPages_complete_witness: "fetchAllPages exampleServer 2 = Some (Inr [10, 11, 12, 13, 14])"
  using fetchAllPages_complete [of "[10, 11, 12, 13, 14]" exampleServer 2]
  by (simp add: pagedServer_def exampleServer_def)

end
