(* ===== verification/Go_Time.thy ===== *)
theory Go_Time
  imports Go_Text
begin

text \<open>
  Instants and the three layouts of \<^verbatim>\<open>time.Parse\<close> that the program uses. An instant is its number of
  nanoseconds since the Unix epoch, and of microseconds in the database; parsing a text that does not fit the layout or names no date is
  \<open>None\<close>.
\<close>

definition zeroTime :: int where
  "zeroTime = - 62135596800 * 10 ^ 9"

definition isLeap :: "int \<Rightarrow> bool" where
  "isLeap y \<longleftrightarrow> y mod 4 = 0 \<and> (y mod 100 \<noteq> 0 \<or> y mod 400 = 0)"

definition daysIn :: "int \<Rightarrow> int \<Rightarrow> int" where
  "daysIn m y = (if m = 2 then (if isLeap y then 29 else 28) else if m \<in> {4, 6, 9, 11} then 30 else 31)"

text \<open>Days from 1 January 1970 to a date of the Gregorian calendar.\<close>

definition daysSinceEpoch :: "int \<Rightarrow> int \<Rightarrow> int \<Rightarrow> int" where
  "daysSinceEpoch y m d =
     (let y' = (if m \<le> 2 then y - 1 else y);
          yoe = y' mod 400;
          doy = (153 * (m + (if m > 2 then - 3 else 9)) + 2) div 5 + d - 1;
          doe = yoe * 365 + yoe div 4 - yoe div 100 + doy
      in (y' div 400) * 146097 + doe - 719468)"

definition unixNano :: "int \<Rightarrow> int \<Rightarrow> int \<Rightarrow> int \<Rightarrow> int \<Rightarrow> int \<Rightarrow> int \<Rightarrow> int" where
  "unixNano y mo d h mi s ns = ((daysSinceEpoch y mo d * 86400 + h * 3600 + mi * 60 + s) * 10 ^ 9) + ns"

definition digitAt :: "string \<Rightarrow> nat \<Rightarrow> bool" where
  "digitAt s i \<longleftrightarrow> i < length s \<and> isDigit (s ! i)"

text \<open>\<^verbatim>\<open>getnum\<close>: two digits, or one when the field is not of fixed width.\<close>

definition getnum :: "bool \<Rightarrow> string \<Rightarrow> (int \<times> string) option" where
  "getnum fixed s =
     (if \<not> digitAt s 0 then None
      else if \<not> digitAt s 1 then (if fixed then None else Some (digitVal (s ! 0), drop 1 s))
      else Some (digitVal (s ! 0) * 10 + digitVal (s ! 1), drop 2 s))"

definition getYear :: "string \<Rightarrow> (int \<times> string) option" where
  "getYear s =
     (if length s < 4 \<or> \<not> list_all isDigit (take 4 s) then None else Some (digitsVal (take 4 s), drop 4 s))"

definition skipChar :: "char \<Rightarrow> string \<Rightarrow> string option" where
  "skipChar c s = (case s of [] \<Rightarrow> None | x # r \<Rightarrow> if x = c then Some r else None)"

definition skipSpace :: "string \<Rightarrow> string option" where
  "skipSpace s = (if s \<noteq> [] \<and> hd s \<noteq> CHR '' '' then None else Some (dropWhile (\<lambda>c. c = CHR '' '') s))"

definition commaOrPeriod :: "char \<Rightarrow> bool" where
  "commaOrPeriod c \<longleftrightarrow> c = CHR ''.'' \<or> c = CHR '',''"

text \<open>The digits after the comma or period, read as a fraction of a second (nine of them count).\<close>

definition nanosOf :: "string \<Rightarrow> int" where
  "nanosOf ds = digitsVal (take 9 ds) * 10 ^ (9 - length (take 9 ds))"

text \<open>
  The fraction when the layout has none: optional, at least one digit. With the layout's
  \<^verbatim>\<open>.000\<close>: exactly three digits.
\<close>

definition optFraction :: "string \<Rightarrow> int \<times> string" where
  "optFraction s =
     (if 2 \<le> length s \<and> commaOrPeriod (s ! 0) \<and> digitAt s 1
      then (let ds = takeWhile isDigit (tl s) in (nanosOf ds, drop (1 + length ds) s))
      else (0, s))"

definition milliFraction :: "string \<Rightarrow> (int \<times> string) option" where
  "milliFraction s =
     (if 4 \<le> length s \<and> commaOrPeriod (s ! 0) \<and> list_all isDigit (take 3 (tl s))
      then Some (nanosOf (take 3 (tl s)), drop 4 s) else None)"

definition validDate :: "int \<Rightarrow> int \<Rightarrow> int \<Rightarrow> int \<Rightarrow> int \<Rightarrow> int \<Rightarrow> bool" where
  "validDate y mo d h mi s \<longleftrightarrow>
     1 \<le> mo \<and> mo \<le> 12 \<and> 1 \<le> d \<and> d \<le> daysIn mo y \<and> h < 24 \<and> mi < 60 \<and> s < 60"

text \<open>\<^verbatim>\<open>time.Parse("2006-01-02 15:04:05", s)\<close>, and the same with \<^verbatim>\<open>.000\<close> when \<open>millis\<close> holds.\<close>

definition parseTime :: "bool \<Rightarrow> string \<Rightarrow> int option" where
  "parseTime millis s0 =
     Option.bind (getYear s0) (\<lambda>(y, s1).
     Option.bind (Option.bind (skipChar CHR ''-'' s1) (getnum True)) (\<lambda>(mo, s2).
     Option.bind (Option.bind (skipChar CHR ''-'' s2) (getnum True)) (\<lambda>(d, s3).
     Option.bind (Option.bind (skipSpace s3) (getnum False)) (\<lambda>(h, s4).
     Option.bind (Option.bind (skipChar CHR '':'' s4) (getnum True)) (\<lambda>(mi, s5).
     Option.bind (Option.bind (skipChar CHR '':'' s5) (getnum True)) (\<lambda>(s, s6).
     Option.bind (if millis then milliFraction s6 else Some (optFraction s6)) (\<lambda>(ns, s7).
     if validDate y mo d h mi s \<and> s7 = [] then Some (unixNano y mo d h mi s ns) else None)))))))"

text \<open>The zone of RFC 3339: \<^verbatim>\<open>Z\<close>, or a sign, hours and minutes; its seconds east of Greenwich.\<close>

definition zoneOffset :: "string \<Rightarrow> (int \<times> string) option" where
  "zoneOffset s =
     (if s \<noteq> [] \<and> hd s = CHR ''Z'' then Some (0, tl s)
      else if length s < 6 \<or> s ! 3 \<noteq> CHR '':'' \<or> hd s \<notin> {CHR ''+'', CHR ''-''} then None
      else Option.bind (getnum True (take 2 (drop 1 s))) (\<lambda>(h, _).
           Option.bind (getnum True (take 2 (drop 4 s))) (\<lambda>(m, _).
           if h > 24 \<or> m > 60 then None
           else Some ((if hd s = CHR ''-'' then - 1 else 1) * (h * 3600 + m * 60), drop 6 s))))"

text \<open>\<^verbatim>\<open>time.Parse(time.RFC3339, s)\<close>.\<close>

definition parseRFC3339 :: "string \<Rightarrow> int option" where
  "parseRFC3339 s0 =
     Option.bind (getYear s0) (\<lambda>(y, s1).
     Option.bind (Option.bind (skipChar CHR ''-'' s1) (getnum True)) (\<lambda>(mo, s2).
     Option.bind (Option.bind (skipChar CHR ''-'' s2) (getnum True)) (\<lambda>(d, s3).
     Option.bind (Option.bind (skipChar CHR ''T'' s3) (getnum False)) (\<lambda>(h, s4).
     Option.bind (Option.bind (skipChar CHR '':'' s4) (getnum True)) (\<lambda>(mi, s5).
     Option.bind (Option.bind (skipChar CHR '':'' s5) (getnum True)) (\<lambda>(s, s6).
     Option.bind (zoneOffset (snd (optFraction s6))) (\<lambda>(zone, s7).
     if validDate y mo d h mi s \<and> s7 = []
     then Some (unixNano y mo d h mi s (fst (optFraction s6)) - zone * 10 ^ 9) else None)))))))"

definition pgTime :: "int \<Rightarrow> int" where
  "pgTime ns = ns div 1000"

end
