(* ===== verification/Ring_Buffer.thy ===== *)
theory Ring_Buffer
  imports Go_Prelude
begin

text \<open>
  The agent's error ring buffer (\<^verbatim>\<open>internal/agent/ringbuf/ringbuf.go\<close>). The mutex of the Go type
  makes every operation atomic, so each is one function on the buffer's state. The slice
  reads and writes are the Go ones: an index out of range is a panic, \<open>None\<close>.

  The contract of the buffer, a bounded queue that forgets its oldest entries, is the locale
  \<open>bounded_log\<close>; the ring buffer is an interpretation of it.
\<close>

subsection \<open>State and operations\<close>

record 'a ring_buffer =
  items :: "'a list"
  head :: int
  count :: int

definition slice_get :: "'a list \<Rightarrow> int \<Rightarrow> 'a option" where
  "slice_get xs i = (if 0 \<le> i \<and> i < int (length xs) then Some (xs ! nat i) else None)"

definition slice_set :: "'a list \<Rightarrow> int \<Rightarrow> 'a \<Rightarrow> 'a list option" where
  "slice_set xs i x = (if 0 \<le> i \<and> i < int (length xs) then Some (xs[nat i := x]) else None)"

definition ringbuf_New :: "'a \<Rightarrow> int \<Rightarrow> 'a ring_buffer option" where
  "ringbuf_New zero capacity =
     (if capacity \<le> 0 then None
      else Some \<lparr>items = replicate (nat capacity) zero, head = 0, count = 0\<rparr>)"

definition Cap :: "'a ring_buffer \<Rightarrow> int" where
  "Cap r = int (length (items r))"

definition Len :: "'a ring_buffer \<Rightarrow> int" where
  "Len r = count r"

definition Push :: "'a \<Rightarrow> 'a ring_buffer \<Rightarrow> 'a ring_buffer option" where
  "Push item r =
     (case slice_set (items r) (head r) item of
        None \<Rightarrow> None
      | Some its \<Rightarrow>
          Some \<lparr>items = its,
                head = (head r + 1) smod int (length its),
                count = (if count r < int (length its) then count r + 1 else count r)\<rparr>)"

definition snapshot :: "'a ring_buffer \<Rightarrow> 'a list option" where
  "snapshot r =
     (let n = int (length (items r));
          tail = (head r - count r + n) smod n
      in those (map (\<lambda>i. slice_get (items r) ((tail + int i) smod n)) [0..<nat (count r)]))"

definition DrainAll :: "'a ring_buffer \<Rightarrow> ('a list \<times> 'a ring_buffer) option" where
  "DrainAll r =
     (if count r = 0 then Some ([], r)
      else case snapshot r of
             None \<Rightarrow> None
           | Some out \<Rightarrow> Some (out, r\<lparr>count := 0, head := 0\<rparr>))"

definition Peek :: "'a ring_buffer \<Rightarrow> 'a list option" where
  "Peek r = (if count r = 0 then Some [] else snapshot r)"

subsection \<open>The contract: a bounded log\<close>

text \<open>
  What the collectors and the flusher rely on: \<open>push\<close> never fails and appends an entry,
  forgetting the oldest when the log is full; \<open>drain\<close> returns every entry, oldest first, and
  leaves the log empty. \<open>keep n\<close> keeps the \<open>n\<close> newest entries of a list.
\<close>

definition keep :: "nat \<Rightarrow> 'a list \<Rightarrow> 'a list" where
  "keep n xs = drop (length xs - n) xs"

lemma length_keep [simp]: "length (keep n xs) = min n (length xs)"
  by (auto simp: keep_def)

lemma keep_short [simp]: "length xs \<le> n \<Longrightarrow> keep n xs = xs"
  by (simp add: keep_def)

lemma keep_keep_append: "keep n (keep n xs @ ys) = keep n (xs @ ys)"
proof (cases "length xs \<le> n")
  case False
  then have "length (keep n xs) = n" by simp
  moreover have "drop (length ys) (keep n xs) = drop (length xs - n + length ys) xs"
    by (simp add: keep_def add.commute)
  ultimately show ?thesis
    using False by (simp add: keep_def)
qed simp

locale bounded_log =
  fixes cap :: "'q \<Rightarrow> nat"
    and push :: "'a \<Rightarrow> 'q \<Rightarrow> 'q option"
    and drain :: "'q \<Rightarrow> ('a list \<times> 'q) option"
    and contents :: "'q \<Rightarrow> 'a list"
    and invar :: "'q \<Rightarrow> bool"
  assumes push_ok: "invar q \<Longrightarrow>
      \<exists>q'. push x q = Some q' \<and> invar q' \<and> cap q' = cap q \<and> contents q' = keep (cap q) (contents q @ [x])"
    and drain_ok: "invar q \<Longrightarrow>
      \<exists>q'. drain q = Some (contents q, q') \<and> invar q' \<and> cap q' = cap q \<and> contents q' = []"
    and bounded: "invar q \<Longrightarrow> length (contents q) \<le> cap q"
begin

lemma push_seq_ok:
  "invar q \<Longrightarrow> \<exists>q'. fold (\<lambda>x s. Option.bind s (push x)) xs (Some q) = Some q' \<and> invar q' \<and>
     cap q' = cap q \<and> contents q' = keep (cap q) (contents q @ xs)"
proof (induction xs arbitrary: q)
  case Nil
  then show ?case using bounded by simp
next
  case (Cons x xs)
  from push_ok [OF Cons.prems] obtain q1
    where q1: "push x q = Some q1" "invar q1" "cap q1 = cap q"
      "contents q1 = keep (cap q) (contents q @ [x])" by blast
  from Cons.IH [OF q1(2)] show ?case
    using q1 by (auto simp: keep_keep_append)
qed

lemma push_seq_drain:
  assumes "invar q"
  shows "\<exists>q' q''. fold (\<lambda>x s. Option.bind s (push x)) xs (Some q) = Some q' \<and>
    drain q' = Some (keep (cap q) (contents q @ xs), q'') \<and> invar q'' \<and> contents q'' = []"
proof -
  from push_seq_ok [OF assms] obtain q'
    where "fold (\<lambda>x s. Option.bind s (push x)) xs (Some q) = Some q'" "invar q'"
      "contents q' = keep (cap q) (contents q @ xs)" by blast
  with drain_ok [of q'] show ?thesis by auto
qed

end

subsection \<open>The ring buffer keeps the contract\<close>

definition rb_inv :: "'a ring_buffer \<Rightarrow> bool" where
  "rb_inv r \<longleftrightarrow> items r \<noteq> [] \<and> 0 \<le> head r \<and> head r < int (length (items r)) \<and>
     0 \<le> count r \<and> count r \<le> int (length (items r))"

text \<open>The entries from the oldest on: \<open>c\<close> slots, the last of them just before slot \<open>h\<close>.\<close>

definition window :: "'a list \<Rightarrow> nat \<Rightarrow> nat \<Rightarrow> 'a list" where
  "window xs h c = map (\<lambda>i. xs ! ((h + length xs - c + i) mod length xs)) [0..<c]"

definition rb_contents :: "'a ring_buffer \<Rightarrow> 'a list" where
  "rb_contents r = window (items r) (nat (head r)) (nat (count r))"

lemma smod_nonneg: "0 \<le> a \<Longrightarrow> 0 < b \<Longrightarrow> a smod b = (a::int) mod b"
  by (simp add: signed_modulo_int_def signed_divide_int_def sgn_if minus_div_mult_eq_mod)

lemma smod_of_nat: "0 < b \<Longrightarrow> int a smod int b = int (a mod b)"
  by (simp add: smod_nonneg zmod_int)

lemma length_window [simp]: "length (window xs h c) = c"
  by (simp add: window_def)

lemma slot_neq_head:
  assumes "h < n" "c < n" "i < c"
  shows "(h + n - c + i) mod n \<noteq> (h::nat)"
proof
  assume eq: "(h + n - c + i) mod n = h"
  have "h + n - c + i = h + (n - c + i)" and "0 < n - c + i" and "n - c + i < n"
    using assms by auto
  with eq assms(1) show False
    by (simp add: mod_if [of "h + (n - c + i)"] split: if_splits)
qed

lemma window_push_free:
  assumes "h < length xs" "c < length xs"
  shows "window (xs[h := x]) ((h + 1) mod length xs) (Suc c) = window xs h c @ [x]"
proof (rule nth_equalityI)
  fix i assume "i < length (window (xs[h := x]) ((h + 1) mod length xs) (Suc c))"
  then have i: "i < Suc c" by simp
  have slot: "((h + 1) mod length xs + length xs - Suc c + i) mod length xs
      = (h + length xs - c + i) mod length xs"
  proof -
    have "((h + 1) mod length xs + length xs - Suc c + i)
        = (h + 1) mod length xs + (length xs - Suc c + i)"
      using assms by simp
    then have "((h + 1) mod length xs + length xs - Suc c + i) mod length xs
        = (h + 1 + (length xs - Suc c + i)) mod length xs"
      by (simp only: mod_add_left_eq)
    also have "h + 1 + (length xs - Suc c + i) = h + length xs - c + i"
      using assms by simp
    finally show ?thesis .
  qed
  show "window (xs[h := x]) ((h + 1) mod length xs) (Suc c) ! i = (window xs h c @ [x]) ! i"
  proof (cases "i < c")
    case True
    with assms slot_neq_head [of h "length xs" c i] i slot show ?thesis
      by (simp add: window_def nth_append del: upt_Suc)
  next
    case False
    with i have "i = c" by simp
    moreover have "(h + length xs - c + c) mod length xs = h" using assms by simp
    ultimately show ?thesis using slot assms(1)
      by (simp add: window_def nth_append del: upt_Suc)
  qed
qed simp

lemma window_push_full:
  assumes "h < length xs" "c = length xs"
  shows "window (xs[h := x]) ((h + 1) mod length xs) c = tl (window xs h c) @ [x]"
proof (rule nth_equalityI)
  show "length (window (xs[h := x]) ((h + 1) mod length xs) c) = length (tl (window xs h c) @ [x])"
    using assms by simp
next
  fix i assume "i < length (window (xs[h := x]) ((h + 1) mod length xs) c)"
  then have i: "i < length xs" using assms by simp
  have slot: "((h + 1) mod length xs + i) mod length xs = (h + Suc i) mod length xs"
    by (simp add: mod_add_left_eq)
  have neq: "(h + Suc i) mod length xs \<noteq> h" if "Suc i < length xs"
    using that assms(1) by (cases "h + Suc i < length xs") (simp_all add: mod_if [of "h + Suc i"] del: add_Suc_right)
  have last: "(h + Suc i) mod length xs = h" if "Suc i = length xs"
    using that assms(1) by simp
  show "window (xs[h := x]) ((h + 1) mod length xs) c ! i = (tl (window xs h c) @ [x]) ! i"
    using assms i slot neq last
    by (cases "Suc i < length xs") (auto simp: window_def nth_append nth_tl not_less le_Suc_eq)
qed

lemma rb_invD:
  assumes "rb_inv r"
  obtains h c where "head r = int h" "count r = int c" "h < length (items r)" "c \<le> length (items r)"
    "0 < length (items r)"
proof -
  from assms have "head r = int (nat (head r))" "count r = int (nat (count r))"
    "nat (head r) < length (items r)" "nat (count r) \<le> length (items r)" "0 < length (items r)"
    by (auto simp: rb_inv_def)
  then show ?thesis by (rule that)
qed

lemma Push_step:
  assumes "rb_inv r"
  shows "\<exists>r'. Push x r = Some r' \<and> rb_inv r' \<and> length (items r') = length (items r) \<and>
    rb_contents r' = keep (length (items r)) (rb_contents r @ [x])"
proof -
  from assms obtain h c where hc: "head r = int h" "count r = int c" "h < length (items r)"
    "c \<le> length (items r)" "0 < length (items r)" by (rule rb_invD)
  have m: "(int h + 1) smod int (length (items r)) = int ((h + 1) mod length (items r))"
    using smod_of_nat [of "length (items r)" "h + 1"] hc(5) by (simp add: algebra_simps)
  show ?thesis
  proof (cases "c < length (items r)")
    case True
    with hc m window_push_free [OF hc(3) True] show ?thesis
      by (auto simp: Push_def slice_set_def rb_inv_def rb_contents_def nat_add_distrib)
  next
    case False
    with hc m window_push_full [OF hc(3), of c x] show ?thesis
      by (auto simp: Push_def slice_set_def rb_inv_def rb_contents_def keep_def drop_Suc)
  qed
qed

lemma those_map_Some: "those (map (\<lambda>x. Some (f x)) xs) = Some (map f xs)"
  by (induction xs) auto

lemma snapshot_window:
  assumes "rb_inv r"
  shows "snapshot r = Some (rb_contents r)"
proof -
  from assms obtain h c where hc: "head r = int h" "count r = int c" "h < length (items r)"
    "c \<le> length (items r)" "0 < length (items r)" by (rule rb_invD)
  let ?n = "length (items r)"
  have t: "(int h - int c + int ?n) smod int ?n = int ((h + ?n - c) mod ?n)"
    using smod_of_nat [of ?n "h + ?n - c"] hc by (simp add: of_nat_diff algebra_simps)
  have "(int ((h + ?n - c) mod ?n) + int i) smod int ?n = int ((h + ?n - c + i) mod ?n)" for i
    using smod_of_nat [of ?n "(h + ?n - c) mod ?n + i"] hc(5) by (simp add: mod_add_left_eq)
  then show ?thesis
    using hc t by (simp add: snapshot_def slice_get_def rb_contents_def window_def those_map_Some
        nat_less_iff [symmetric])
qed

lemma Drain_step:
  assumes "rb_inv r"
  shows "\<exists>r'. DrainAll r = Some (rb_contents r, r') \<and> rb_inv r' \<and>
    length (items r') = length (items r) \<and> rb_contents r' = []"
  using assms snapshot_window [OF assms]
  by (auto simp: DrainAll_def rb_inv_def rb_contents_def window_def)

interpretation rb: bounded_log "\<lambda>r. length (items r)" Push DrainAll rb_contents rb_inv
proof (unfold_locales, goal_cases)
  case (1 q x)
  then show ?case by (rule Push_step)
next
  case (2 q)
  then show ?case by (rule Drain_step)
next
  case (3 q)
  then show ?case by (auto simp: rb_inv_def rb_contents_def)
qed

lemma ringbuf_New_inv:
  "0 < n \<Longrightarrow> \<exists>r. ringbuf_New z n = Some r \<and> rb_inv r \<and> rb_contents r = [] \<and> Cap r = n"
  by (simp add: ringbuf_New_def rb_inv_def rb_contents_def window_def Cap_def)

lemma Peek_contents: "rb_inv r \<Longrightarrow> Peek r = Some (rb_contents r)"
  by (simp add: Peek_def snapshot_window rb_contents_def window_def)

lemma Len_contents: "rb_inv r \<Longrightarrow> Len r = int (length (rb_contents r))"
  by (simp add: Len_def rb_contents_def rb_inv_def)

subsection \<open>Properties\<close>

text \<open>
  C37: a ring buffer of capacity \<open>n > 0\<close> never panics, and what a drain returns after any
  sequence of pushes is the \<open>n\<close> newest entries, oldest first: only the oldest entries are
  overwritten, never a newer one, and nothing is duplicated or reordered.
\<close>

theorem ringbuf_keeps_newest:
  assumes "0 < n"
  shows "\<exists>r0 r1 r2. ringbuf_New zero n = Some r0 \<and>
    fold (\<lambda>x s. Option.bind s (Push x)) xs (Some r0) = Some r1 \<and>
    Peek r1 = Some (drop (length xs - nat n) xs) \<and>
    Len r1 = min n (int (length xs)) \<and>
    DrainAll r1 = Some (drop (length xs - nat n) xs, r2) \<and> Len r2 = 0 \<and> Cap r2 = n"
proof -
  from ringbuf_New_inv [OF assms, of zero] obtain r0 where r0: "ringbuf_New zero n = Some r0"
    "rb_inv r0" "rb_contents r0 = []" "Cap r0 = n" by blast
  from rb.push_seq_ok [OF r0(2), of xs] obtain r1
    where r1: "fold (\<lambda>x s. Option.bind s (Push x)) xs (Some r0) = Some r1" "rb_inv r1"
      "length (items r1) = length (items r0)" "rb_contents r1 = keep (length (items r0)) xs"
    using r0(3) by auto
  from rb.drain_ok [OF r1(2)] obtain r2 where r2: "DrainAll r1 = Some (rb_contents r1, r2)"
    "rb_inv r2" "length (items r2) = length (items r1)" "rb_contents r2 = []" by blast
  have n: "length (items r0) = nat n" using r0(4) by (simp add: Cap_def)
  show ?thesis
    using r0(1) r1 r2 n assms Peek_contents [OF r1(2)] Len_contents [OF r1(2)] Len_contents [OF r2(2)]
    by (auto simp: keep_def Cap_def)
qed

theorem ringbuf_keeps_newest_witness:
  "(0::int) < 2 \<and> (\<exists>r0 r1 r2. ringbuf_New (0::int) 2 = Some r0 \<and>
    fold (\<lambda>x s. Option.bind s (Push x)) [7, 8, 9] (Some r0) = Some r1 \<and>
    Peek r1 = Some [8, 9] \<and> Len r1 = 2 \<and> DrainAll r1 = Some ([8, 9], r2) \<and> Len r2 = 0 \<and> Cap r2 = 2)"
  using ringbuf_keeps_newest [of 2 0 "[7, 8, 9]"] by simp

end
