(* ===== verification/Error_Pipeline.thy ===== *)
theory Error_Pipeline
  imports Error_Signature Odoo_Rpc Go_Time Ring_Buffer "HOL-Library.Multiset"
begin

text \<open>
  The error pipeline of the agent (\<^verbatim>\<open>internal/agent/errors/collector.go\<close> and \<^verbatim>\<open>flusher.go\<close>): the
  collector polls Odoo's \<^verbatim>\<open>ir.logging\<close> above a high-water mark and pushes error events into the ring
  buffer; the flusher drains the buffer, posts the batch and pushes the events back when the post
  fails. Collector and flusher are goroutines: the second half of the theory interleaves their
  steps, with the single pushes and the drain as the atomic ones.

  The pipeline uses the buffer through the contract of a bounded log.
\<close>

subsection \<open>Events\<close>

record ErrorEvent =
  ev_Signature :: string
  ev_ErrorType :: string
  ev_Message :: string
  ev_Module :: string
  ev_Model :: string
  ev_Traceback :: string
  ev_UserID :: int
  ev_RequestURL :: string
  ev_LogID :: int
  ev_CapturedAt :: int

definition stringField :: "OdooRecord \<Rightarrow> string \<Rightarrow> string option" where
  "stringField r key = (case map_of r key of Some (AString s) \<Rightarrow> Some s | _ \<Rightarrow> None)"

definition intField :: "OdooRecord \<Rightarrow> string \<Rightarrow> int option" where
  "intField r key = (case map_of r key of Some (AInt i) \<Rightarrow> Some i | _ \<Rightarrow> None)"

definition orElse :: "'a option \<Rightarrow> 'a \<Rightarrow> 'a" where
  "orElse x d = (case x of Some v \<Rightarrow> v | None \<Rightarrow> d)"

text \<open>
  The result is \<open>None\<close> when the signature of the message is never computed, otherwise \<open>Some\<close> of the
  event, if the record has a message.
\<close>

definition recordToErrorEvent :: "(string \<Rightarrow> string) \<Rightarrow> OdooRecord \<Rightarrow> ErrorEvent option option" where
  "recordToErrorEvent sha256 r =
     (case stringField r ''message'' of
        None \<Rightarrow> Some None
      | Some msg \<Rightarrow>
          if msg = [] then Some None
          else
            (let logID = orElse (intField r ''id'') 0;
                 errorType = ParseErrorType msg;
                 traceback = ExtractTraceback msg;
                 capturedAtStr = orElse (stringField r ''create_date'') [];
                 capturedAt = orElse (parseTime False capturedAtStr) zeroTime;
                 userID = orElse (intField r ''create_uid'') 0
             in map_option
                  (\<lambda>sig. Some \<lparr> ev_Signature = sig, ev_ErrorType = errorType, ev_Message = msg, ev_Module = [],
                     ev_Model = [], ev_Traceback = traceback, ev_UserID = userID, ev_RequestURL = [],
                     ev_LogID = logID, ev_CapturedAt = capturedAt \<rparr>)
                  (GenerateSignature sha256 errorType msg traceback)))"

subsection \<open>The collector\<close>

datatype cond = DomainCond string string go_any

definition pollDomain :: "int \<Rightarrow> cond list" where
  "pollDomain lastLogID =
     [DomainCond ''type'' ''='' (AString ''server''),
      DomainCond ''level'' ''in'' (AList [AString ''ERROR'', AString ''CRITICAL''])] @
     (if lastLogID > 0 then [DomainCond ''id'' ''>'' (AInt lastLogID)] else [])"

definition pollFields :: "string list" where
  "pollFields = [''id'', ''name'', ''message'', ''level'', ''create_date'', ''create_uid'']"

definition advanceLastID :: "OdooRecord \<Rightarrow> int \<Rightarrow> int" where
  "advanceLastID r lastLogID =
     (case intField r ''id'' of Some i \<Rightarrow> if i > lastLogID then i else lastLogID | None \<Rightarrow> lastLogID)"

text \<open>The body of the loop over the records, and the loop.\<close>

definition pollBody ::
  "(string \<Rightarrow> string) \<Rightarrow> OdooRecord \<Rightarrow> int \<times> ErrorEvent ring_buffer \<Rightarrow> (int \<times> ErrorEvent ring_buffer) option" where
  "pollBody sha256 r st =
     Option.bind (recordToErrorEvent sha256 r) (\<lambda>oev.
     Option.bind (case oev of None \<Rightarrow> Some (snd st) | Some ev \<Rightarrow> Push ev (snd st)) (\<lambda>buf.
     Some (advanceLastID r (fst st), buf)))"

fun pollRecords ::
  "(string \<Rightarrow> string) \<Rightarrow> OdooRecord list \<Rightarrow> int \<times> ErrorEvent ring_buffer \<Rightarrow> (int \<times> ErrorEvent ring_buffer) option" where
  "pollRecords sha256 [] st = Some st"
| "pollRecords sha256 (r # rs) st = Option.bind (pollBody sha256 r st) (pollRecords sha256 rs)"

definition poll ::
  "(string \<Rightarrow> string) \<Rightarrow> (cond list \<Rightarrow> string list \<Rightarrow> int \<Rightarrow> msg + OdooRecord list) \<Rightarrow> int \<times> ErrorEvent ring_buffer \<Rightarrow>
     (msg option \<times> int \<times> ErrorEvent ring_buffer) option" where
  "poll sha256 fetch st =
     (case fetch (pollDomain (fst st)) pollFields 200 of
        Inl e \<Rightarrow> Some (Some ([S ''poll ir.logging: ''] @ e), st)
      | Inr records \<Rightarrow> map_option (\<lambda>st'. (None, st')) (pollRecords sha256 records st))"

subsection \<open>The flusher\<close>

record eventContext =
  cx_UID :: int
  cx_RequestURL :: string

record eventPayload =
  pl_Signature :: string
  pl_Type :: string
  pl_Message :: string
  pl_Module :: string
  pl_Model :: string
  pl_Timestamp :: int
  pl_Traceback :: string
  pl_Context :: "eventContext option"

record batchPayload =
  bp_EnvID :: string
  bp_Events :: "eventPayload list"
  bp_SpikeThreshold :: int

definition payloadOf :: "ErrorEvent \<Rightarrow> eventPayload" where
  "payloadOf ev =
     \<lparr> pl_Signature = ev_Signature ev, pl_Type = ev_ErrorType ev, pl_Message = ev_Message ev,
       pl_Module = ev_Module ev, pl_Model = ev_Model ev, pl_Timestamp = ev_CapturedAt ev,
       pl_Traceback = ev_Traceback ev,
       pl_Context = (if ev_UserID ev \<noteq> 0 \<or> ev_RequestURL ev \<noteq> []
         then Some \<lparr> cx_UID = ev_UserID ev, cx_RequestURL = ev_RequestURL ev \<rparr> else None) \<rparr>"

definition batchOf :: "string \<Rightarrow> int \<Rightarrow> ErrorEvent list \<Rightarrow> batchPayload" where
  "batchOf envID spikeThreshold events =
     \<lparr> bp_EnvID = envID, bp_Events = map payloadOf events, bp_SpikeThreshold = spikeThreshold \<rparr>"

definition pushAll :: "ErrorEvent list \<Rightarrow> ErrorEvent ring_buffer \<Rightarrow> ErrorEvent ring_buffer option" where
  "pushAll evs buf = fold (\<lambda>ev s. Option.bind s (Push ev)) evs (Some buf)"

text \<open>
  \<^verbatim>\<open>Flush\<close> when nothing else touches the buffer meanwhile. \<open>marshal\<close> is \<^verbatim>\<open>json.Marshal\<close>, \<open>post\<close> the outcome of
  the request. An error of \<open>marshal\<close> loses the drained events, as in the code.
\<close>

definition Flush ::
  "string \<Rightarrow> int \<Rightarrow> (batchPayload \<Rightarrow> msg + 'body) \<Rightarrow> ('body \<Rightarrow> msg option) \<Rightarrow> ErrorEvent ring_buffer \<Rightarrow>
     (msg option \<times> ErrorEvent ring_buffer) option" where
  "Flush envID spikeThreshold marshal post buf =
     Option.bind (DrainAll buf) (\<lambda>(events, buf').
     if length events = 0 then Some (None, buf')
     else case marshal (batchOf envID spikeThreshold events) of
       Inl e \<Rightarrow> Some (Some ([S ''marshal error batch: ''] @ e), buf')
     | Inr body \<Rightarrow>
         (case post body of
            Some e \<Rightarrow> map_option (\<lambda>b. (Some ([S ''post error batch: ''] @ e), b)) (pushAll events buf')
          | None \<Rightarrow> Some (None, buf')))"

text \<open>
  \<^verbatim>\<open>Flusher.post\<close>: one request, and a second one with refreshed credentials after a 401. \<open>doPost\<close> is the
  status of a request with a key or the error of the HTTP client.
\<close>

definition statusError :: "int \<Rightarrow> msg option" where
  "statusError status = (if status < 200 \<or> status \<ge> 300 then Some [S ''server returned '', D status] else None)"

definition flusherPost :: "(string \<Rightarrow> msg + int) \<Rightarrow> (string \<Rightarrow> msg + int) \<Rightarrow> string \<Rightarrow> msg + string \<Rightarrow> msg option" where
  "flusherPost doPost doPost' apiKey refresh =
     (case doPost apiKey of
        Inl e \<Rightarrow> Some e
      | Inr status \<Rightarrow>
          if status = 401 then
            (case refresh of
               Inl e \<Rightarrow> Some ([S ''server returned 401 and refresh failed: ''] @ e)
             | Inr newKey \<Rightarrow> (case doPost' newKey of Inl e \<Rightarrow> Some e | Inr status' \<Rightarrow> statusError status'))
          else statusError status)"

subsection \<open>Collector and flusher together\<close>

text \<open>
  A state of the running pipeline: the error rows of \<^verbatim>\<open>ir.logging\<close>, the collector's high-water mark and
  the records of the current poll that it has not processed yet, the buffer, the batch that the
  flusher is posting, and the events that the server has received.
\<close>

record pipeline =
  logRows :: "OdooRecord list"
  lastLogID :: int
  pending :: "OdooRecord list"
  buffer :: "ErrorEvent ring_buffer"
  posting :: "ErrorEvent list option"
  delivered :: "ErrorEvent list"

definition rowID :: "OdooRecord \<Rightarrow> int" where
  "rowID r = orElse (intField r ''id'') 0"

definition unread :: "pipeline \<Rightarrow> OdooRecord list" where
  "unread s = filter (\<lambda>r. lastLogID s < rowID r) (logRows s)"

inductive pipe_step :: "(string \<Rightarrow> string) \<Rightarrow> pipeline \<Rightarrow> pipeline \<Rightarrow> bool" for sha256 where
  log: "intField r ''id'' = Some i \<Longrightarrow> 0 < i \<Longrightarrow> \<forall>x \<in> set (logRows s). rowID x < i \<Longrightarrow>
    pipe_step sha256 s (s \<lparr> logRows := logRows s @ [r] \<rparr>)"
| fetch: "pending s = [] \<Longrightarrow> pipe_step sha256 s (s \<lparr> pending := take 200 (unread s) \<rparr>)"
| collect: "pending s = r # rs \<Longrightarrow> pollBody sha256 r (lastLogID s, buffer s) = Some (l, b) \<Longrightarrow>
    pipe_step sha256 s (s \<lparr> lastLogID := l, buffer := b, pending := rs \<rparr>)"
| drain: "posting s = None \<Longrightarrow> DrainAll (buffer s) = Some (evs, b) \<Longrightarrow> evs \<noteq> [] \<Longrightarrow>
    pipe_step sha256 s (s \<lparr> buffer := b, posting := Some evs \<rparr>)"
| posted: "posting s = Some evs \<Longrightarrow>
    pipe_step sha256 s (s \<lparr> posting := None, delivered := delivered s @ evs \<rparr>)"
| failed: "posting s = Some evs \<Longrightarrow> pushAll evs (buffer s) = Some b \<Longrightarrow>
    pipe_step sha256 s (s \<lparr> buffer := b, posting := None \<rparr>)"

definition start :: "ErrorEvent ring_buffer \<Rightarrow> pipeline" where
  "start b = \<lparr> logRows = [], lastLogID = 0, pending = [], buffer = b, posting = None, delivered = [] \<rparr>"

text \<open>The events of a list of rows, and those of the rows read so far.\<close>

definition eventsOf :: "(string \<Rightarrow> string) \<Rightarrow> OdooRecord list \<Rightarrow> ErrorEvent list" where
  "eventsOf sha256 rows =
     List.map_filter (\<lambda>r. case recordToErrorEvent sha256 r of Some oev \<Rightarrow> oev | None \<Rightarrow> None) rows"

definition readRows :: "pipeline \<Rightarrow> OdooRecord list" where
  "readRows s = filter (\<lambda>r. rowID r \<le> lastLogID s) (logRows s)"

definition inHand :: "pipeline \<Rightarrow> ErrorEvent multiset" where
  "inHand s = mset (delivered s) + mset (orElse (posting s) []) + mset (rb_contents (buffer s))"

definition capacity :: "pipeline \<Rightarrow> nat" where
  "capacity s = length (items (buffer s))"

definition backlog :: "(string \<Rightarrow> string) \<Rightarrow> pipeline \<Rightarrow> nat" where
  "backlog sha256 s = length (eventsOf sha256 (readRows s)) - length (delivered s)"

definition pipe_inv :: "pipeline \<Rightarrow> bool" where
  "pipe_inv s \<longleftrightarrow>
     rb_inv (buffer s) \<and> (lastLogID s = 0 \<or> (\<exists>r \<in> set (logRows s). rowID r = lastLogID s)) \<and>
     (\<forall>r \<in> set (logRows s). \<exists>i > 0. intField r ''id'' = Some i) \<and>
     sorted_wrt (<) (map rowID (logRows s)) \<and>
     prefix (pending s) (unread s)"

lemma rowID_Some: "intField r ''id'' = Some i \<Longrightarrow> rowID r = i"
  by (simp add: rowID_def orElse_def)

lemma sorted_rows_split:
  "sorted_wrt (<) (map rowID rows) \<Longrightarrow> rows = filter (\<lambda>r. rowID r \<le> l) rows @ filter (\<lambda>r. l < rowID r) rows"
proof (induction rows)
  case (Cons r rows)
  show ?case
  proof (cases "rowID r \<le> l")
    case True
    then show ?thesis using Cons by auto
  next
    case False
    with Cons.prems have "filter (\<lambda>r. rowID r \<le> l) rows = []" "filter (\<lambda>r. l < rowID r) rows = rows"
      by (auto simp: filter_empty_conv intro!: filter_True)
    then show ?thesis using False by simp
  qed
qed simp

lemma readRows_unread: "pipe_inv s \<Longrightarrow> logRows s = readRows s @ unread s"
  unfolding readRows_def unread_def pipe_inv_def using sorted_rows_split by blast

text \<open>Processing the first unread row moves exactly that row to the rows read.\<close>

lemma collect_moves:
  assumes "pipe_inv s" "pending s = r # rs" "l = advanceLastID r (lastLogID s)"
  shows "filter (\<lambda>x. rowID x \<le> l) (logRows s) = readRows s @ [r]"
    "unread s = r # filter (\<lambda>x. l < rowID x) (logRows s)" "lastLogID s \<le> l"
proof -
  have u: "\<exists>ys. unread s = r # ys"
    using assms(1,2) by (cases "unread s") (auto simp: pipe_inv_def)
  then obtain ys where ys: "unread s = r # ys" by blast
  have sp: "logRows s = readRows s @ r # ys" using readRows_unread [OF assms(1)] ys by simp
  have "r \<in> set (unread s)" using ys by simp
  then have gt: "lastLogID s < rowID r" by (simp add: unread_def)
  obtain i where i: "intField r ''id'' = Some i"
    using assms(1) sp by (auto simp: pipe_inv_def)
  then have l: "l = rowID r" using gt assms(3) by (simp add: advanceLastID_def rowID_Some)
  have sorted: "sorted_wrt (<) (map rowID (readRows s @ r # ys))"
    using assms(1) sp by (simp add: pipe_inv_def)
  have f1: "filter (\<lambda>x. rowID x \<le> l) (logRows s) = readRows s @ [r]"
    unfolding sp l using sorted by (auto simp: sorted_wrt_append filter_id_conv filter_empty_conv less_imp_le)
  have f2: "filter (\<lambda>x. l < rowID x) (logRows s) = ys"
    unfolding sp l using sorted by (auto simp: sorted_wrt_append filter_id_conv filter_empty_conv)
  show "filter (\<lambda>x. rowID x \<le> l) (logRows s) = readRows s @ [r]" by (rule f1)
  show "unread s = r # filter (\<lambda>x. l < rowID x) (logRows s)" using f2 ys by simp
  show "lastLogID s \<le> l" using gt l by simp
qed

lemma mset_keep: "mset (keep n xs) \<subseteq># mset xs"
  unfolding keep_def by (metis append_take_drop_id mset_append mset_subset_eq_add_right)

lemma mset_push:
  fixes K :: "'a multiset"
  assumes "K + C \<subseteq># E" "B \<subseteq># C + X"
  shows "K + B \<subseteq># E + X"
proof -
  have "K + B \<subseteq># K + (C + X)" using assms(2) by simp
  also have "\<dots> = K + C + X" by (simp add: ac_simps)
  also have "\<dots> \<subseteq># E + X" using assms(1) by simp
  finally show ?thesis .
qed

lemma pollBody_cases:
  assumes "pollBody sha256 r (l, b) = Some (l', b')" "rb_inv b"
  obtains (skip) "recordToErrorEvent sha256 r = Some None" "l' = advanceLastID r l" "b' = b"
  | (push) ev where "recordToErrorEvent sha256 r = Some (Some ev)" "l' = advanceLastID r l" "rb_inv b'"
      "length (items b') = length (items b)" "rb_contents b' = keep (length (items b)) (rb_contents b @ [ev])"
proof -
  from assms(1) obtain oev where o: "recordToErrorEvent sha256 r = Some oev" "l' = advanceLastID r l"
    "(case oev of None \<Rightarrow> Some b | Some ev \<Rightarrow> Push ev b) = Some b'"
    by (auto simp: pollBody_def bind_eq_Some_conv split: option.splits)
  show thesis
  proof (cases oev)
    case None
    with o skip show thesis by simp
  next
    case (Some ev)
    with o(3) have "Push ev b = Some b'" by simp
    with rb.push_ok [OF assms(2), of ev] push [of ev] o Some show thesis by auto
  qed
qed

lemma pollBody_ok:
  assumes "pollBody sha256 r (l, b) = Some (l', b')" "rb_inv b"
  shows "l' = advanceLastID r l" "rb_inv b'" "length (items b') = length (items b)"
  using assms(2) by (cases rule: pollBody_cases [OF assms]; simp)+

lemma pushAll_ok:
  assumes "rb_inv b" "pushAll evs b = Some b'"
  shows "rb_inv b' \<and> length (items b') = length (items b) \<and> rb_contents b' = keep (length (items b)) (rb_contents b @ evs)"
  using rb.push_seq_ok [OF assms(1), of evs] assms(2) by (auto simp: pushAll_def)

lemma drain_result:
  assumes "rb_inv b" "DrainAll b = Some (evs, b')"
  shows "evs = rb_contents b \<and> rb_inv b' \<and> length (items b') = length (items b) \<and> rb_contents b' = []"
  using rb.drain_ok [OF assms(1)] assms(2) by auto

lemma eventsOf_snoc [simp]:
  "eventsOf sha256 (rows @ [r]) = eventsOf sha256 rows @
     (case recordToErrorEvent sha256 r of Some (Some ev) \<Rightarrow> [ev] | _ \<Rightarrow> [])"
  by (auto simp: eventsOf_def List.map_filter_def split: option.splits)

text \<open>The bookkeeping of one step: the structure is kept and the events in hand follow the rows read.\<close>

lemma log_keeps_reads:
  assumes "pipe_inv s" "intField r ''id'' = Some i" "0 < i" "\<forall>x \<in> set (logRows s). rowID x < i"
  shows "pipe_inv (s \<lparr> logRows := logRows s @ [r] \<rparr>) \<and> readRows (s \<lparr> logRows := logRows s @ [r] \<rparr>) = readRows s"
proof -
  have l: "lastLogID s < i" using assms by (auto simp: pipe_inv_def)
  have "unread (s \<lparr> logRows := logRows s @ [r] \<rparr>) = unread s @ [r]"
    using assms(2) l by (simp add: unread_def rowID_Some)
  with l show ?thesis
    using assms by (auto simp: pipe_inv_def sorted_wrt_append rowID_Some readRows_def)
qed

lemma collect_keeps:
  assumes "pipe_inv s" "pending s = r # rs" "l = advanceLastID r (lastLogID s)" "rb_inv b"
  defines "s' \<equiv> s \<lparr> lastLogID := l, buffer := b, pending := rs \<rparr>"
  shows "pipe_inv s'" "readRows s' = readRows s @ [r]"
proof -
  note m = collect_moves [OF assms(1-3)]
  have "filter (\<lambda>x. rowID x \<le> l) (logRows s) \<noteq> []" using m(1) by simp
  have u: "unread s' = tl (unread s)" using m(2) by (simp add: s'_def unread_def)
  have "r \<in> set (filter (\<lambda>x. rowID x \<le> l) (logRows s))" using m(1) by simp
  then have r: "r \<in> set (logRows s)" by simp
  have "r \<in> set (unread s)" using m(2) by simp
  then have "l = rowID r"
    using assms(1,3) r by (auto simp: unread_def pipe_inv_def advanceLastID_def rowID_def orElse_def split: option.splits)
  moreover have "prefix rs (tl (unread s))"
    using assms(1,2) m(2) by (auto simp: pipe_inv_def)
  ultimately show "pipe_inv s'" using assms r u by (auto simp: pipe_inv_def)
  show "readRows s' = readRows s @ [r]" using m(1) by (simp add: s'_def readRows_def)
qed

text \<open>
  Every step keeps the structure, and the events in hand are among those of the rows read, each as
  often; while the backlog fits into the buffer they are exactly those.
\<close>

definition conserved :: "(string \<Rightarrow> string) \<Rightarrow> pipeline \<Rightarrow> bool" where
  "conserved sha256 s \<longleftrightarrow> inHand s \<subseteq># mset (eventsOf sha256 (readRows s))"

definition lossless :: "(string \<Rightarrow> string) \<Rightarrow> pipeline \<Rightarrow> bool" where
  "lossless sha256 s \<longleftrightarrow> inHand s = mset (eventsOf sha256 (readRows s))"

lemma pipe_inv_step: "pipe_step sha256 s s' \<Longrightarrow> pipe_inv s \<Longrightarrow> pipe_inv s' \<and> capacity s' = capacity s"
proof (induction rule: pipe_step.induct)
  case (log r i s)
  then show ?case using log_keeps_reads by (simp add: capacity_def)
next
  case (fetch s)
  then show ?case by (auto simp: pipe_inv_def capacity_def unread_def take_is_prefix)
next
  case (collect s r rs l b)
  then have "l = advanceLastID r (lastLogID s)" "rb_inv b" "length (items b) = length (items (buffer s))"
    using pollBody_ok [OF collect.hyps(2)] by (auto simp: pipe_inv_def)
  then show ?case using collect_keeps(1) [OF collect.prems collect.hyps(1)] by (simp add: capacity_def)
next
  case (drain s evs b)
  then show ?case using drain_result by (auto simp: pipe_inv_def capacity_def unread_def)
next
  case (posted s evs)
  then show ?case by (auto simp: pipe_inv_def capacity_def unread_def)
next
  case (failed s evs b)
  then show ?case using pushAll_ok by (auto simp: pipe_inv_def capacity_def unread_def)
qed

lemma conserved_step: "pipe_step sha256 s s' \<Longrightarrow> pipe_inv s \<Longrightarrow> conserved sha256 s \<Longrightarrow> conserved sha256 s'"
proof (induction rule: pipe_step.induct)
  case (log r i s)
  then show ?case
    using log_keeps_reads [of s r i] by (simp add: conserved_def inHand_def)
next
  case (fetch s)
  then show ?case by (simp add: conserved_def inHand_def readRows_def)
next
  case (collect s r rs l b)
  then have inv: "rb_inv (buffer s)" by (simp add: pipe_inv_def)
  note ok = pollBody_ok [OF collect.hyps(2) inv]
  note rd = collect_keeps(2) [OF collect.prems(1) collect.hyps(1) ok(1,2)]
  from collect.hyps(2) inv show ?case
  proof (cases rule: pollBody_cases)
    case skip
    then show ?thesis using rd collect.prems(2) by (simp add: conserved_def inHand_def)
  next
    case (push ev)
    have "mset (rb_contents b) \<subseteq># mset (rb_contents (buffer s)) + {#ev#}"
      using mset_keep [of "length (items (buffer s))" "rb_contents (buffer s) @ [ev]"] push(5) by simp
    from mset_push [OF _ this, of "mset (delivered s) + mset (orElse (posting s) [])" "mset (eventsOf sha256 (readRows s))"]
    show ?thesis using rd push(1) collect.prems(2) by (simp add: conserved_def inHand_def)
  qed
next
  case (drain s evs b)
  then show ?case
    using drain_result [of "buffer s" evs b] by (simp add: conserved_def inHand_def readRows_def pipe_inv_def orElse_def)
next
  case (posted s evs)
  then show ?case by (simp add: conserved_def inHand_def readRows_def orElse_def)
next
  case (failed s evs b)
  then have "mset (rb_contents b) \<subseteq># mset (rb_contents (buffer s)) + mset evs"
    using pushAll_ok [of "buffer s" evs b] mset_keep [of "length (items (buffer s))" "rb_contents (buffer s) @ evs"]
    by (simp add: pipe_inv_def)
  then have "mset (delivered s) + mset (rb_contents b) \<subseteq># mset (delivered s) + mset evs + mset (rb_contents (buffer s))"
    by (simp add: ac_simps)
  also have "\<dots> \<subseteq># mset (eventsOf sha256 (readRows s))"
    using failed by (simp add: conserved_def inHand_def orElse_def)
  finally show ?case by (simp add: conserved_def inHand_def readRows_def orElse_def)
qed

lemma lossless_step:
  "pipe_step sha256 s s' \<Longrightarrow> pipe_inv s \<Longrightarrow> lossless sha256 s \<Longrightarrow> backlog sha256 s' \<le> capacity s' \<Longrightarrow> lossless sha256 s'"
proof (induction rule: pipe_step.induct)
  case (log r i s)
  then show ?case
    using log_keeps_reads [of s r i] by (simp add: lossless_def inHand_def)
next
  case (fetch s)
  then show ?case by (simp add: lossless_def inHand_def readRows_def)
next
  case (collect s r rs l b)
  then have inv: "rb_inv (buffer s)" by (simp add: pipe_inv_def)
  note ok = pollBody_ok [OF collect.hyps(2) inv]
  note rd = collect_keeps(2) [OF collect.prems(1) collect.hyps(1) ok(1,2)]
  from collect.hyps(2) inv show ?case
  proof (cases rule: pollBody_cases)
    case skip
    then show ?thesis using rd collect.prems(2) by (simp add: lossless_def inHand_def)
  next
    case (push ev)
    have "size (inHand s) = length (eventsOf sha256 (readRows s))"
      using collect.prems(2) by (simp add: lossless_def)
    then have "length (rb_contents (buffer s) @ [ev]) \<le> length (items (buffer s))"
      using collect.prems(3) rd push by (simp add: backlog_def capacity_def inHand_def)
    then have "rb_contents b = rb_contents (buffer s) @ [ev]" using push(5) by simp
    then show ?thesis using rd push collect.prems(2) by (simp add: lossless_def inHand_def)
  qed
next
  case (drain s evs b)
  then show ?case
    using drain_result [of "buffer s" evs b] by (simp add: lossless_def inHand_def readRows_def pipe_inv_def orElse_def)
next
  case (posted s evs)
  then show ?case by (simp add: lossless_def inHand_def readRows_def orElse_def)
next
  case (failed s evs b)
  have "size (inHand s) = length (eventsOf sha256 (readRows s))"
    using failed.prems(2) by (simp add: lossless_def)
  then have "length (rb_contents (buffer s) @ evs) \<le> length (items (buffer s))"
    using failed pushAll_ok [of "buffer s" evs b]
    by (simp add: backlog_def capacity_def inHand_def readRows_def orElse_def pipe_inv_def)
  then have "rb_contents b = rb_contents (buffer s) @ evs"
    using pushAll_ok [of "buffer s" evs b] failed by (simp add: pipe_inv_def)
  then show ?case using failed by (simp add: lossless_def inHand_def readRows_def orElse_def ac_simps)
qed

definition bounded_step :: "(string \<Rightarrow> string) \<Rightarrow> pipeline \<Rightarrow> pipeline \<Rightarrow> bool" where
  "bounded_step sha256 s s' \<longleftrightarrow> pipe_step sha256 s s' \<and> backlog sha256 s' \<le> capacity s'"

lemma start_ok:
  "rb_inv b \<Longrightarrow> rb_contents b = [] \<Longrightarrow> pipe_inv (start b) \<and> lossless sha256 (start b) \<and> conserved sha256 (start b)"
  by (simp add: start_def pipe_inv_def lossless_def conserved_def inHand_def readRows_def eventsOf_def orElse_def List.map_filter_def)

lemma reachable_conserved:
  assumes "(pipe_step sha256)\<^sup>*\<^sup>* s s'" "pipe_inv s" "conserved sha256 s"
  shows "pipe_inv s' \<and> conserved sha256 s'"
  using assms by (induction rule: rtranclp_induct) (use pipe_inv_step conserved_step in blast)+

lemma reachable_lossless:
  assumes "(bounded_step sha256)\<^sup>*\<^sup>* s s'" "pipe_inv s" "lossless sha256 s"
  shows "pipe_inv s' \<and> lossless sha256 s'"
  using assms
proof (induction rule: rtranclp_induct)
  case (step y z)
  then have "pipe_step sha256 y z" "backlog sha256 z \<le> capacity z" "pipe_inv y" "lossless sha256 y"
    by (auto simp: bounded_step_def)
  then show ?case using pipe_inv_step lossless_step by blast
qed auto

subsection \<open>Everything is delivered in the end\<close>

text \<open>When the posts succeed, the flusher empties the buffer.\<close>

definition quiet :: "pipeline \<Rightarrow> bool" where
  "quiet s \<longleftrightarrow> posting s = None \<and> rb_contents (buffer s) = []"

lemma finish_post:
  assumes "pipe_inv s" "lossless sha256 s"
  shows "\<exists>s'. (pipe_step sha256)\<^sup>*\<^sup>* s s' \<and> posting s' = None \<and> pipe_inv s' \<and> lossless sha256 s' \<and>
    logRows s' = logRows s \<and> lastLogID s' = lastLogID s"
proof (cases "posting s")
  case None
  with assms show ?thesis by blast
next
  case (Some evs)
  let ?s = "s \<lparr> posting := None, delivered := delivered s @ evs \<rparr>"
  have st: "pipe_step sha256 s ?s" using Some by (rule pipe_step.posted)
  then have "pipe_inv ?s" using pipe_inv_step assms(1) by blast
  moreover have "lossless sha256 ?s"
    using assms(2) Some by (simp add: lossless_def inHand_def readRows_def orElse_def)
  ultimately show ?thesis using st by (intro exI [of _ ?s]) auto
qed

lemma flush_quiet:
  assumes "pipe_inv s" "lossless sha256 s"
  shows "\<exists>s'. (pipe_step sha256)\<^sup>*\<^sup>* s s' \<and> quiet s' \<and> pipe_inv s' \<and> lossless sha256 s' \<and>
    logRows s' = logRows s \<and> lastLogID s' = lastLogID s"
proof -
  from finish_post [OF assms] obtain s1 where s1: "(pipe_step sha256)\<^sup>*\<^sup>* s s1" "posting s1 = None"
    "pipe_inv s1" "lossless sha256 s1" "logRows s1 = logRows s" "lastLogID s1 = lastLogID s" by blast
  show ?thesis
  proof (cases "rb_contents (buffer s1) = []")
    case True
    with s1 show ?thesis unfolding quiet_def by blast
  next
    case False
    have "rb_inv (buffer s1)" using s1(3) by (simp add: pipe_inv_def)
    from rb.drain_ok [OF this] obtain b where b: "DrainAll (buffer s1) = Some (rb_contents (buffer s1), b)" "rb_contents b = []"
      by blast
    let ?s2 = "s1 \<lparr> buffer := b, posting := Some (rb_contents (buffer s1)) \<rparr>"
    have st: "pipe_step sha256 s1 ?s2" using pipe_step.drain [OF s1(2) b(1) False] .
    have inv2: "pipe_inv ?s2" using pipe_inv_step [OF st s1(3)] by blast
    let ?s3 = "?s2 \<lparr> posting := None, delivered := delivered ?s2 @ rb_contents (buffer s1) \<rparr>"
    have st3: "pipe_step sha256 ?s2 ?s3" by (rule pipe_step.posted) simp
    have "pipe_inv ?s3" using pipe_inv_step [OF st3 inv2] by blast
    moreover have "lossless sha256 ?s3"
      using s1(2,4) b(2) by (simp add: lossless_def inHand_def readRows_def orElse_def)
    moreover have "quiet ?s3" using b(2) by (simp add: quiet_def)
    ultimately show ?thesis
      using s1(1,5,6) st st3 by (intro exI [of _ ?s3]) auto
  qed
qed

lemma collect_enabled:
  assumes "pipe_inv s" "recordToErrorEvent sha256 r \<noteq> None"
  shows "\<exists>l b. pollBody sha256 r (lastLogID s, buffer s) = Some (l, b)"
proof -
  from assms(2) obtain oev where o: "recordToErrorEvent sha256 r = Some oev" by blast
  have "\<exists>b. (case oev of None \<Rightarrow> Some (buffer s) | Some ev \<Rightarrow> Push ev (buffer s)) = Some b"
    using assms(1) rb.push_ok [of "buffer s"] by (cases oev) (auto simp: pipe_inv_def)
  then show ?thesis using o by (cases oev) (auto simp: pollBody_def)
qed

lemma collect_quiet:
  assumes "pipe_inv s" "lossless sha256 s" "quiet s" "pending s = r # rs" "recordToErrorEvent sha256 r \<noteq> None"
  shows "\<exists>s'. (pipe_step sha256)\<^sup>*\<^sup>* s s' \<and> quiet s' \<and> pipe_inv s' \<and> lossless sha256 s' \<and>
    logRows s' = logRows s \<and> length (unread s') < length (unread s)"
proof -
  from collect_enabled [OF assms(1,5)] obtain l b where p: "pollBody sha256 r (lastLogID s, buffer s) = Some (l, b)" by blast
  have inv: "rb_inv (buffer s)" using assms(1) by (simp add: pipe_inv_def)
  note ok = pollBody_ok [OF p inv]
  let ?s = "s \<lparr> lastLogID := l, buffer := b, pending := rs \<rparr>"
  have st: "pipe_step sha256 s ?s" using pipe_step.collect [OF assms(4) p] .
  have rd: "readRows ?s = readRows s @ [r]" and inv': "pipe_inv ?s"
    using collect_keeps [OF assms(1,4) ok(1,2)] by auto
  have "lossless sha256 ?s"
    using p inv
  proof (cases rule: pollBody_cases)
    case skip
    then show ?thesis using rd assms(2) by (simp add: lossless_def inHand_def)
  next
    case (push ev)
    have "keep (length (items (buffer s))) [ev] = [ev]"
      by (rule keep_short) (use inv in \<open>simp add: rb_inv_def Suc_leI\<close>)
    then have "rb_contents b = [ev]" using push(5) assms(3) by (simp add: quiet_def)
    then show ?thesis using rd push(1) assms(2,3) by (simp add: lossless_def inHand_def quiet_def)
  qed
  from flush_quiet [OF inv' this] obtain s' where s': "(pipe_step sha256)\<^sup>*\<^sup>* ?s s'" "quiet s'" "pipe_inv s'"
    "lossless sha256 s'" "logRows s' = logRows ?s" "lastLogID s' = l" by auto
  have "unread s' = tl (unread s)"
    using collect_moves(2) [OF assms(1,4) ok(1)] s'(5,6) by (simp add: unread_def)
  moreover have "unread s \<noteq> []" using collect_moves(2) [OF assms(1,4) ok(1)] by simp
  ultimately have "length (unread s') < length (unread s)" by simp
  then show ?thesis using st s' by (intro exI [of _ s']) auto
qed

lemma catch_up:
  assumes "pipe_inv s" "lossless sha256 s" "quiet s" "\<forall>r \<in> set (logRows s). recordToErrorEvent sha256 r \<noteq> None"
  shows "\<exists>s'. (pipe_step sha256)\<^sup>*\<^sup>* s s' \<and> quiet s' \<and> lossless sha256 s' \<and> logRows s' = logRows s \<and> readRows s' = logRows s"
  using assms
proof (induction "length (unread s)" arbitrary: s rule: less_induct)
  case less
  show ?case
  proof (cases "unread s")
    case Nil
    then show ?thesis using less.prems readRows_unread [of s] by auto
  next
    case (Cons r ys)
    obtain s1 where s1: "(pipe_step sha256)\<^sup>*\<^sup>* s s1" "pipe_inv s1" "lossless sha256 s1" "quiet s1" "logRows s1 = logRows s"
      "unread s1 = unread s" "pending s1 \<noteq> []"
    proof (cases "pending s")
      case Nil
      let ?s1 = "s \<lparr> pending := take 200 (unread s) \<rparr>"
      have st: "pipe_step sha256 s ?s1" using Nil by (rule pipe_step.fetch)
      have "pipe_inv ?s1" using pipe_inv_step [OF st less.prems(1)] by blast
      moreover have "lossless sha256 ?s1" "quiet ?s1" "unread ?s1 = unread s"
        using less.prems by (simp_all add: lossless_def inHand_def readRows_def quiet_def unread_def)
      moreover have "pending ?s1 \<noteq> []" using Cons by simp
      ultimately show thesis using that [of ?s1] st by auto
    next
      case (Cons q qs)
      then show thesis using that [of s] less.prems by auto
    qed
    then obtain q qs where q: "pending s1 = q # qs" by (cases "pending s1") auto
    have "q \<in> set (unread s1)" using s1(2) q by (auto simp: pipe_inv_def dest: set_mono_prefix)
    then have "q \<in> set (logRows s1)" by (simp add: unread_def)
    with less.prems(4) s1(5) have "recordToErrorEvent sha256 q \<noteq> None" by auto
    from collect_quiet [OF s1(2-4) q this] obtain s2 where s2: "(pipe_step sha256)\<^sup>*\<^sup>* s1 s2" "quiet s2" "pipe_inv s2"
      "lossless sha256 s2" "logRows s2 = logRows s" "length (unread s2) < length (unread s)"
      using s1(5,6) by auto
    from less.hyps [OF s2(6) s2(3,4,2)] less.prems(4) s2(5) obtain s3 where
      "(pipe_step sha256)\<^sup>*\<^sup>* s2 s3" "quiet s3" "lossless sha256 s3" "logRows s3 = logRows s" "readRows s3 = logRows s" by auto
    then show ?thesis using s1(1) s2(1) by (meson rtranclp_trans)
  qed
qed



subsection \<open>Example\<close>

definition zeroEvent :: ErrorEvent where
  "zeroEvent = \<lparr> ev_Signature = [], ev_ErrorType = [], ev_Message = [], ev_Module = [], ev_Model = [],
     ev_Traceback = [], ev_UserID = 0, ev_RequestURL = [], ev_LogID = 0, ev_CapturedAt = 0 \<rparr>"

definition exampleBuffer :: "ErrorEvent ring_buffer" where
  "exampleBuffer = \<lparr> items = [zeroEvent, zeroEvent], head = 0, count = 0 \<rparr>"

definition exampleRow :: OdooRecord where
  "exampleRow = [(''id'', AInt 7), (''message'', AString ''ValueError: boom'')]"

definition exampleState :: pipeline where
  "exampleState = (start exampleBuffer) \<lparr> logRows := [exampleRow] \<rparr>"

lemma exampleBuffer_ok: "rb_inv exampleBuffer" "rb_contents exampleBuffer = []"
  by (simp_all add: exampleBuffer_def rb_inv_def rb_contents_def window_def)

lemma example_event: "recordToErrorEvent (\<lambda>s. s) exampleRow \<noteq> None"
proof -
  have "\<not> Contains (withPlaceholders ''ValueError: boom'') ''<?><?>''" by code_simp
  then have "NormalizeMessage ''ValueError: boom'' \<noteq> None"
    by (simp add: NormalizeMessage_def collapse_eq)
  then show ?thesis
    by (simp add: recordToErrorEvent_def exampleRow_def stringField_def GenerateSignature_def Let_def)
qed

lemma example_run: "(bounded_step (\<lambda>s. s))\<^sup>*\<^sup>* (start exampleBuffer) exampleState"
proof -
  have "pipe_step (\<lambda>s. s) (start exampleBuffer) ((start exampleBuffer) \<lparr> logRows := logRows (start exampleBuffer) @ [exampleRow] \<rparr>)"
    by (rule pipe_step.log [where i = 7]) (simp_all add: exampleRow_def intField_def start_def)
  then have "bounded_step (\<lambda>s. s) (start exampleBuffer) exampleState"
    by (simp add: bounded_step_def exampleState_def start_def backlog_def readRows_def rowID_def exampleRow_def
        intField_def orElse_def eventsOf_def List.map_filter_def)
  then show ?thesis by blast
qed



text \<open>
  A failed post that meets new pushes gives up newer events for older ones: with a buffer of two, the
  events \<open>b\<close> and \<open>c\<close> arrive while \<open>a\<close> is being posted, and the push that returns \<open>a\<close> overwrites \<open>b\<close>.
\<close>

lemma failed_post_overwrites_newer:
  assumes "rb_inv buf" "length (items buf) = 2" "rb_contents buf = [b, c]"
  shows "\<exists>buf'. pushAll [a] buf = Some buf' \<and> rb_contents buf' = [c, a]"
  using rb.push_ok [OF assms(1), of a] assms(2,3) by (auto simp: pushAll_def keep_def)

end
