(* ===== verification/Log_Hook.thy ===== *)
theory Log_Hook
  imports Error_Pipeline Sampler
begin

text \<open>
  The log hook of the agent (\<^verbatim>\<open>internal/agent/hook/traceback.go\<close> and \<^verbatim>\<open>logparser.go\<close>): lines of
  the Odoo server log are assembled into entries by an accumulator, and error entries become events
  in the ring buffer. The clock that replaces an unreadable timestamp is an argument of every line.

  The accumulator is proved equal to a segmentation of the whole list of lines.
\<close>

subsection \<open>Entries\<close>

definition logLineRe :: regex where
  "logLineRe = seqs
     [BeginText,
      Group 1 (seqs [times 4 (Cls digit), lit CHR ''-'', times 2 (Cls digit), lit CHR ''-'', times 2 (Cls digit), lit CHR '' '',
        times 2 (Cls digit), lit CHR '':'', times 2 (Cls digit), lit CHR '':'', times 2 (Cls digit), lit CHR '','', times 3 (Cls digit)]),
      plus (Cls reSpace), Group 2 (plus (Cls digit)), plus (Cls reSpace),
      Group 3 (Alt (str ''DEBUG'') (Alt (str ''INFO'') (Alt (str ''WARNING'') (Alt (str ''ERROR'') (str ''CRITICAL''))))),
      plus (Cls reSpace), Group 4 (plus (Cls (\<lambda>r. \<not> reSpace r))), plus (Cls reSpace),
      Group 5 (plus_lazy (Cls (\<lambda>r. \<not> reSpace r))), lit CHR '':'', Cls reSpace,
      Group 6 (Star True (Cls notNewline)), EndText]"

abbreviation LogLevelError :: string where "LogLevelError \<equiv> ''ERROR''"

record LogEntry =
  le_Timestamp :: int
  le_PID :: string
  le_Level :: string
  le_DBName :: string
  le_Logger :: string
  le_Message :: string
  le_Contiguous :: string

definition FullMessage :: "LogEntry \<Rightarrow> string" where
  "FullMessage e = (if le_Contiguous e = [] then le_Message e else le_Message e @ [newline] @ le_Contiguous e)"

definition IsError :: "LogEntry \<Rightarrow> bool" where
  "IsError e \<longleftrightarrow> le_Level e = LogLevelError \<or> le_Level e = ''CRITICAL''"

definition replaceFirst :: "char \<Rightarrow> char \<Rightarrow> string \<Rightarrow> string" where
  "replaceFirst a b s =
     (let p = takeWhile (\<lambda>c. c \<noteq> a) s; q = dropWhile (\<lambda>c. c \<noteq> a) s in if q = [] then s else p @ b # tl q)"

definition parseOdooTimestamp :: "int \<Rightarrow> string \<Rightarrow> int" where
  "parseOdooTimestamp now s =
     (case parseTime True (replaceFirst CHR '','' CHR ''.'' s) of None \<Rightarrow> now | Some t \<Rightarrow> t)"

definition splitLogger :: "string \<Rightarrow> string \<times> string" where
  "splitLogger logger =
     (if logger = [] then ([], [])
      else
        (let name = TrimPrefix (TrimPrefix logger ''odoo.addons.'') ''odoo.'';
             parts = Split2 CHR ''.'' name
         in (parts ! 0, if length parts = 2 then parts ! 1 else [])))"

subsection \<open>The accumulator\<close>

record EntryAccumulator =
  current :: "LogEntry option"
  contBuf :: string

definition newAccumulator :: EntryAccumulator where
  "newAccumulator = \<lparr> current = None, contBuf = [] \<rparr>"

definition entryOf :: "int \<Rightarrow> (nat \<Rightarrow> string) \<Rightarrow> LogEntry" where
  "entryOf now m =
     \<lparr> le_Timestamp = parseOdooTimestamp now (m 1), le_PID = m 2, le_Level = m 3, le_DBName = m 4,
       le_Logger = m 5, le_Message = m 6, le_Contiguous = [] \<rparr>"

definition Feed :: "int \<Rightarrow> string \<Rightarrow> EntryAccumulator \<Rightarrow> LogEntry option \<times> EntryAccumulator" where
  "Feed now line a =
     (case FindStringSubmatch logLineRe line of
        None \<Rightarrow>
          (None,
           if current a \<noteq> None
           then a \<lparr> contBuf := contBuf a @ (if 0 < length (contBuf a) then [newline] else []) @ line \<rparr>
           else a)
      | Some m \<Rightarrow>
          (map_option (\<lambda>e. e \<lparr> le_Contiguous := contBuf a \<rparr>) (current a),
           \<lparr> current = Some (entryOf now m), contBuf = [] \<rparr>))"

definition Acc_Flush :: "EntryAccumulator \<Rightarrow> LogEntry option \<times> EntryAccumulator" where
  "Acc_Flush a =
     (case current a of
        None \<Rightarrow> (None, a)
      | Some e \<Rightarrow> (Some (e \<lparr> le_Contiguous := contBuf a \<rparr>), \<lparr> current = None, contBuf = [] \<rparr>))"

text \<open>The entries that a list of lines yields, with the one that the final flush returns.\<close>

fun feedAll :: "(int \<times> string) list \<Rightarrow> EntryAccumulator \<Rightarrow> LogEntry list \<times> EntryAccumulator" where
  "feedAll [] a = ([], a)"
| "feedAll ((now, line) # ls) a =
     (case Feed now line a of (oe, a') \<Rightarrow>
        case feedAll ls a' of (es, a'') \<Rightarrow> ((case oe of None \<Rightarrow> es | Some e \<Rightarrow> e # es), a''))"

definition allEntries :: "(int \<times> string) list \<Rightarrow> LogEntry list" where
  "allEntries ls =
     (case feedAll ls newAccumulator of (es, a) \<Rightarrow>
        es @ (case fst (Acc_Flush a) of None \<Rightarrow> [] | Some e \<Rightarrow> [e]))"

subsection \<open>Events from entries\<close>

definition ToErrorEvent :: "(string \<Rightarrow> string) \<Rightarrow> LogEntry \<Rightarrow> ErrorEvent option" where
  "ToErrorEvent sha256 entry =
     (let full = FullMessage entry;
          errorType = ParseErrorType full;
          traceback = ExtractTraceback full;
          (module, model) = splitLogger (le_Logger entry)
      in map_option (\<lambda>sig.
           \<lparr> ev_Signature = sig, ev_ErrorType = errorType, ev_Message = full, ev_Module = module, ev_Model = model,
             ev_Traceback = traceback, ev_UserID = 0, ev_RequestURL = [], ev_LogID = 0,
             ev_CapturedAt = le_Timestamp entry \<rparr>)
           (GenerateSignature sha256 errorType full traceback))"

text \<open>\<open>allow\<close> is the decision of the sampler, if there is one.\<close>

definition handleEntry ::
  "(string \<Rightarrow> string) \<Rightarrow> (EventInfo \<Rightarrow> bool) option \<Rightarrow> LogEntry \<Rightarrow> ErrorEvent ring_buffer \<Rightarrow> ErrorEvent ring_buffer option" where
  "handleEntry sha256 allow entry buf =
     (if \<not> IsError entry then Some buf
      else if (case allow of None \<Rightarrow> False
                | Some f \<Rightarrow> \<not> f \<lparr> i_Category = ''error'', i_DurationMS = 0, i_IsError = True, i_IsN1 = False \<rparr>) then Some buf
      else Option.bind (ToErrorEvent sha256 entry) (\<lambda>ev. Push ev buf))"

subsection \<open>Reading lines\<close>

definition stripNewline :: "string \<Rightarrow> string" where
  "stripNewline s =
     (let s1 = (if s \<noteq> [] \<and> last s = newline then butlast s else s)
      in if s1 \<noteq> [] \<and> last s1 = CHR 0x0D then butlast s1 else s1)"

text \<open>
  What \<^verbatim>\<open>ReadString\<close> returns on the data that a tick finds: the lines with their newline, and the rest
  without one together with the end-of-file error.
\<close>

fun readStrings :: "string \<Rightarrow> string \<Rightarrow> string list" where
  "readStrings cur [] = (if cur = [] then [] else [cur])"
| "readStrings cur (c # s) = (if c = newline then (cur @ [c]) # readStrings [] s else readStrings (cur @ [c]) s)"

definition linesOf :: "nat \<Rightarrow> string \<Rightarrow> string list" where
  "linesOf maxLineLength available = map (\<lambda>l. take maxLineLength (stripNewline l)) (readStrings [] available)"

fun readLines ::
  "(string \<Rightarrow> string) \<Rightarrow> (EventInfo \<Rightarrow> bool) option \<Rightarrow> int \<Rightarrow> string list \<Rightarrow> EntryAccumulator \<times> ErrorEvent ring_buffer \<Rightarrow>
     (EntryAccumulator \<times> ErrorEvent ring_buffer) option" where
  "readLines sha256 allow now [] st = Some st"
| "readLines sha256 allow now (l # ls) (acc, buf) =
     (case Feed now l acc of (oe, acc') \<Rightarrow>
        Option.bind (case oe of None \<Rightarrow> Some buf | Some e \<Rightarrow> handleEntry sha256 allow e buf)
          (\<lambda>buf'. readLines sha256 allow now ls (acc', buf')))"

text \<open>
  The comment of \<^verbatim>\<open>readLines\<close> says that a line without its newline stays in the reader until it is
  complete. It is taken as a line of its own: a line that is written in two parts is read as two.
\<close>

lemma partial_line_is_split:
  "linesOf 100 ''ab'' @ linesOf 100 (''c'' @ [newline]) = [''ab'', ''c'']"
  "linesOf 100 (''abc'' @ [newline]) = [''abc'']"
  by (simp_all add: linesOf_def stripNewline_def Let_def)

subsection \<open>The accumulator is a segmentation\<close>

definition header :: "int \<times> string \<Rightarrow> LogEntry option" where
  "header nl = map_option (entryOf (fst nl)) (FindStringSubmatch logLineRe (snd nl))"

text \<open>Continuation lines are joined by newlines; empty ones before the first with text are dropped.\<close>

definition continuation :: "string list \<Rightarrow> string" where
  "continuation ls = JoinWith [newline] (dropWhile (\<lambda>l. l = []) ls)"

fun segments :: "(int \<times> string) list \<Rightarrow> (LogEntry \<times> string list) list" where
  "segments [] = []"
| "segments (nl # ls) =
     (case header nl of
        None \<Rightarrow> segments ls
      | Some e \<Rightarrow> (e, map snd (takeWhile (\<lambda>x. header x = None) ls)) # segments ls)"

definition segmentEntry :: "LogEntry \<times> string list \<Rightarrow> LogEntry" where
  "segmentEntry seg = (fst seg) \<lparr> le_Contiguous := continuation (snd seg) \<rparr>"

lemma JoinWith_snoc: "xs \<noteq> [] \<Longrightarrow> JoinWith sep (xs @ [x]) = JoinWith sep xs @ sep @ x"
  by (induction sep xs rule: JoinWith.induct) (auto simp: JoinWith_Cons)

lemma continuation_Nil_iff: "continuation ls = [] \<longleftrightarrow> (\<forall>l \<in> set ls. l = [])"
proof (induction ls)
  case (Cons l ls)
  then show ?case by (cases ls) (auto simp: continuation_def)
qed (simp add: continuation_def)

lemma continuation_snoc:
  "continuation (ls @ [l]) = continuation ls @ (if continuation ls = [] then [] else [newline]) @ l"
proof (cases "\<forall>x \<in> set ls. x = []")
  case True
  then have "continuation ls = []" "dropWhile (\<lambda>l. l = []) (ls @ [l]) = dropWhile (\<lambda>l. l = []) [l]"
    by (auto simp: continuation_Nil_iff dropWhile_append1 dropWhile_eq_Nil_conv)
  then show ?thesis by (simp add: continuation_def)
next
  case False
  then have "dropWhile (\<lambda>l. l = []) ls \<noteq> []" by (auto simp: dropWhile_eq_Nil_conv)
  moreover have "dropWhile (\<lambda>l. l = []) (ls @ [l]) = dropWhile (\<lambda>l. l = []) ls @ [l]"
    using False by (auto simp: dropWhile_append1)
  moreover have "continuation ls \<noteq> []" using False by (simp add: continuation_Nil_iff)
  ultimately show ?thesis by (simp add: continuation_def JoinWith_snoc)
qed

text \<open>The state of the accumulator in the middle of an entry: its header and the lines so far.\<close>

definition midEntry :: "LogEntry \<Rightarrow> string list \<Rightarrow> EntryAccumulator" where
  "midEntry e ls = \<lparr> current = Some e, contBuf = continuation ls \<rparr>"

definition entriesFrom :: "EntryAccumulator \<Rightarrow> (int \<times> string) list \<Rightarrow> LogEntry list" where
  "entriesFrom a ls =
     (case feedAll ls a of (es, a') \<Rightarrow> es @ (case fst (Acc_Flush a') of None \<Rightarrow> [] | Some e \<Rightarrow> [e]))"

lemma entriesFrom_Nil: "entriesFrom a [] = (case current a of None \<Rightarrow> [] | Some e \<Rightarrow> [e \<lparr> le_Contiguous := contBuf a \<rparr>])"
  by (simp add: entriesFrom_def Acc_Flush_def split: option.splits)

lemma entriesFrom_Cons:
  "entriesFrom a ((now, line) # ls) =
     (case Feed now line a of (oe, a') \<Rightarrow> (case oe of None \<Rightarrow> [] | Some e \<Rightarrow> [e]) @ entriesFrom a' ls)"
  by (auto simp: entriesFrom_def split: prod.splits option.splits)

lemma entriesFrom_mid:
  "entriesFrom (midEntry e done) ls =
     segmentEntry (e, done @ map snd (takeWhile (\<lambda>x. header x = None) ls)) # map segmentEntry (segments ls)"
proof (induction ls arbitrary: e "done")
  case Nil
  then show ?case by (simp add: entriesFrom_Nil midEntry_def segmentEntry_def)
next
  case (Cons nl ls)
  obtain now line where nl: "nl = (now, line)" by (cases nl)
  show ?case
  proof (cases "FindStringSubmatch logLineRe line")
    case None
    then have "Feed now line (midEntry e done) = (None, midEntry e (done @ [line]))"
      by (simp add: Feed_def midEntry_def continuation_snoc)
    with None nl Cons.IH [of e "done @ [line]"] show ?thesis
      by (simp add: entriesFrom_Cons header_def)
  next
    case (Some m)
    then have "Feed now line (midEntry e done) = (Some (segmentEntry (e, done)), midEntry (entryOf now m) [])"
      by (simp add: Feed_def midEntry_def segmentEntry_def continuation_def)
    with Some nl Cons.IH [of "entryOf now m" "[]"] show ?thesis
      by (simp add: entriesFrom_Cons header_def)
  qed
qed

lemma entriesFrom_new: "entriesFrom newAccumulator ls = map segmentEntry (segments ls)"
proof (induction ls)
  case Nil
  then show ?case by (simp add: entriesFrom_Nil newAccumulator_def)
next
  case (Cons nl ls)
  obtain now line where nl: "nl = (now, line)" by (cases nl)
  show ?case
  proof (cases "FindStringSubmatch logLineRe line")
    case None
    with nl Cons show ?thesis
      by (simp add: entriesFrom_Cons header_def Feed_def newAccumulator_def)
  next
    case (Some m)
    then have "Feed now line newAccumulator = (None, midEntry (entryOf now m) [])"
      by (simp add: Feed_def newAccumulator_def midEntry_def continuation_def)
    with Some nl show ?thesis
      by (simp add: entriesFrom_Cons entriesFrom_mid header_def)
  qed
qed


end
