(* ===== verification/Rate_Limiter.thy ===== *)
theory Rate_Limiter
  imports Go_Prelude
begin

text \<open>
  The agent's rate limiter (\<^verbatim>\<open>internal/agent/transport/ratelimiter.go\<close>). The limits and counters are
  atomic variables of 64 and 32 bits; their values are integers in range and additions and
  conversions wrap. \<open>RL_Allow\<close> is a call that no other thread interrupts. The second half of the
  theory gives every atomic access its own step and lets any number of callers, the reset ticker
  and the shutdown interleave.
\<close>

subsection \<open>Fixed-width integers\<close>

definition wrap_int :: "nat \<Rightarrow> int \<Rightarrow> int" where
  "wrap_int w x = (x + 2 ^ (w - 1)) mod 2 ^ w - 2 ^ (w - 1)"

definition in_range :: "nat \<Rightarrow> int \<Rightarrow> bool" where
  "in_range w x \<longleftrightarrow> - (2 ^ (w - 1)) \<le> x \<and> x < 2 ^ (w - 1)"

lemma wrap_int_id: "0 < w \<Longrightarrow> in_range w x \<Longrightarrow> wrap_int w x = x"
proof -
  assume w: "0 < w" "in_range w x"
  then have "(2::int) ^ w = 2 * 2 ^ (w - 1)" by (cases w) auto
  with w show ?thesis by (simp add: wrap_int_def in_range_def)
qed

lemma wrap_int_range: "0 < w \<Longrightarrow> in_range w (wrap_int w x)"
proof -
  assume w: "0 < w"
  then have p: "(2::int) ^ w = 2 * 2 ^ (w - 1)" by (cases w) auto
  have "0 \<le> (x + 2 ^ (w - 1)) mod 2 ^ w" "(x + 2 ^ (w - 1)) mod 2 ^ w < 2 ^ w" by simp_all
  then show ?thesis unfolding wrap_int_def in_range_def using p by linarith
qed

subsection \<open>State and operations\<close>

record RateLimiterConfig =
  rc_MaxBytesPerMinute :: int
  rc_MaxBatchesPerMinute :: int

record RateLimiterStats =
  rs_BytesUsed :: int
  rs_BatchesUsed :: int
  rs_BytesLimit :: int
  rs_BatchLimit :: int

record RateLimiter =
  rl_maxBytes :: int
  rl_maxBatches :: int
  rl_currentBytes :: int
  rl_currentBatches :: int
  rl_stopped :: bool

definition NewRateLimiter :: "RateLimiterConfig \<Rightarrow> RateLimiter" where
  "NewRateLimiter cfg =
     \<lparr> rl_maxBytes = rc_MaxBytesPerMinute cfg, rl_maxBatches = wrap_int 32 (rc_MaxBatchesPerMinute cfg),
       rl_currentBytes = 0, rl_currentBatches = 0, rl_stopped = False \<rparr>"

definition RL_Allow :: "int \<Rightarrow> RateLimiter \<Rightarrow> bool \<times> RateLimiter" where
  "RL_Allow compressedBytes rl =
     (let maxB = rl_maxBytes rl in
      if maxB > 0 \<and> wrap_int 64 (rl_currentBytes rl + compressedBytes) > maxB then (False, rl)
      else
        (let maxBat = rl_maxBatches rl in
         if maxBat > 0 \<and> rl_currentBatches rl \<ge> maxBat then (False, rl)
         else (True, rl \<lparr> rl_currentBytes := wrap_int 64 (rl_currentBytes rl + compressedBytes),
                          rl_currentBatches := wrap_int 32 (rl_currentBatches rl + 1) \<rparr>)))"

definition RL_Stats :: "RateLimiter \<Rightarrow> RateLimiterStats" where
  "RL_Stats rl =
     \<lparr> rs_BytesUsed = rl_currentBytes rl, rs_BatchesUsed = rl_currentBatches rl,
       rs_BytesLimit = rl_maxBytes rl, rs_BatchLimit = rl_maxBatches rl \<rparr>"

definition RL_Stop :: "RateLimiter \<Rightarrow> RateLimiter" where
  "RL_Stop rl = (if \<not> rl_stopped rl then rl \<lparr> rl_stopped := True \<rparr> else rl)"

definition UpdateLimits :: "int \<Rightarrow> int \<Rightarrow> RateLimiter \<Rightarrow> RateLimiter" where
  "UpdateLimits maxBytesPerMinute maxBatchesPerMinute rl =
     rl \<lparr> rl_maxBytes := maxBytesPerMinute, rl_maxBatches := wrap_int 32 maxBatchesPerMinute \<rparr>"

definition RL_Reset :: "RateLimiter \<Rightarrow> RateLimiter" where
  "RL_Reset rl = rl \<lparr> rl_currentBytes := 0, rl_currentBatches := 0 \<rparr>"

text \<open>One turn of \<^verbatim>\<open>resetLoop\<close>: the ticker fires, or the context is done and the loop ends.\<close>

definition resetLoop_turn :: "RateLimiter \<Rightarrow> RateLimiter" where
  "resetLoop_turn rl = (if rl_stopped rl then rl else RL_Reset rl)"

subsection \<open>A single sender\<close>

text \<open>
  What a window admits: a run of calls with the given sizes, and the sizes that were let through.
\<close>

fun admit :: "int list \<Rightarrow> RateLimiter \<Rightarrow> int list \<times> RateLimiter" where
  "admit [] rl = ([], rl)"
| "admit (n # ns) rl =
     (case RL_Allow n rl of
        (ok, rl1) \<Rightarrow> (case admit ns rl1 of (sent, rl2) \<Rightarrow> (if ok then n # sent else sent, rl2)))"

definition window_ok :: "int \<Rightarrow> RateLimiter \<Rightarrow> bool" where
  "window_ok S rl \<longleftrightarrow>
     0 < rl_maxBytes rl \<and> rl_maxBytes rl + S < 2 ^ 63 \<and> 0 < rl_maxBatches rl \<and> rl_maxBatches rl < 2 ^ 31 \<and>
     0 \<le> rl_currentBytes rl \<and> rl_currentBytes rl \<le> rl_maxBytes rl \<and>
     0 \<le> rl_currentBatches rl \<and> rl_currentBatches rl \<le> rl_maxBatches rl"

lemma RL_Allow_exact:
  assumes "window_ok S rl" "0 \<le> n" "n \<le> S"
  shows "RL_Allow n rl =
    (if rl_currentBytes rl + n \<le> rl_maxBytes rl \<and> rl_currentBatches rl < rl_maxBatches rl
     then (True, rl \<lparr> rl_currentBytes := rl_currentBytes rl + n, rl_currentBatches := rl_currentBatches rl + 1 \<rparr>)
     else (False, rl))"
proof -
  have w64: "wrap_int 64 (rl_currentBytes rl + n) = rl_currentBytes rl + n"
    using assms by (intro wrap_int_id) (auto simp: window_ok_def in_range_def)
  have w32: "wrap_int 32 (rl_currentBatches rl + 1) = rl_currentBatches rl + 1"
    if "rl_currentBatches rl < rl_maxBatches rl"
    using assms that by (intro wrap_int_id) (auto simp: window_ok_def in_range_def)
  show ?thesis using assms(1) w32 by (auto simp: RL_Allow_def Let_def w64 window_ok_def)
qed

lemma RL_Allow_window_ok [go_inv]:
  "window_ok S rl \<Longrightarrow> 0 \<le> n \<Longrightarrow> n \<le> S \<Longrightarrow> window_ok S (snd (RL_Allow n rl))"
  by (simp add: RL_Allow_exact) (auto simp: window_ok_def)

lemma admit_accounting:
  assumes "window_ok S rl" "\<forall>n \<in> set ns. 0 \<le> n \<and> n \<le> S" "admit ns rl = (sent, rl')"
  shows "window_ok S rl' \<and> rl_currentBytes rl' = rl_currentBytes rl + sum_list sent \<and>
    rl_currentBatches rl' = rl_currentBatches rl + int (length sent) \<and>
    rl_maxBytes rl' = rl_maxBytes rl \<and> rl_maxBatches rl' = rl_maxBatches rl"
  using assms
proof (induction ns arbitrary: rl sent)
  case (Cons n ns)
  obtain ok rl1 where a: "RL_Allow n rl = (ok, rl1)" by force
  obtain sent' where b: "admit ns rl1 = (sent', rl')" "sent = (if ok then n # sent' else sent')"
    using Cons.prems(3) a by (auto split: prod.splits)
  have ok1: "window_ok S rl1" using RL_Allow_window_ok [of S rl n] Cons.prems a by simp
  from Cons.IH [OF ok1 _ b(1)] Cons.prems(2) have IH: "window_ok S rl'"
    "rl_currentBytes rl' = rl_currentBytes rl1 + sum_list sent'"
    "rl_currentBatches rl' = rl_currentBatches rl1 + int (length sent')"
    "rl_maxBytes rl' = rl_maxBytes rl1" "rl_maxBatches rl' = rl_maxBatches rl1" by auto
  from RL_Allow_exact [of S rl n] Cons.prems a show ?case
    using IH b(2) by (auto split: if_splits)
qed simp

text \<open>
  a single sender never exceeds its budget. Starting a window with fresh counters and positive
  limits that leave room for one more batch below the 64-bit bound, for every sequence of batches
  of non-negative bounded size, the batches let through total at most the byte limit, are at most
  as many as the batch limit, and the counters show exactly what was let through.
\<close>

theorem single_sender_within_limits:
  assumes "0 < B" "B + S < 2 ^ 63" "0 < K" "K < 2 ^ 31" "\<forall>n \<in> set ns. 0 \<le> n \<and> n \<le> S"
    "admit ns (NewRateLimiter \<lparr> rc_MaxBytesPerMinute = B, rc_MaxBatchesPerMinute = K \<rparr>) = (sent, rl)"
  shows "sum_list sent \<le> B \<and> int (length sent) \<le> K \<and>
    rl_currentBytes rl = sum_list sent \<and> rl_currentBatches rl = int (length sent)"
proof -
  let ?rl0 = "NewRateLimiter \<lparr> rc_MaxBytesPerMinute = B, rc_MaxBatchesPerMinute = K \<rparr>"
  have "wrap_int 32 K = K" using assms by (intro wrap_int_id) (auto simp: in_range_def)
  then have z: "rl_maxBytes ?rl0 = B" "rl_maxBatches ?rl0 = K" "rl_currentBytes ?rl0 = 0" "rl_currentBatches ?rl0 = 0"
    by (simp_all add: NewRateLimiter_def)
  then have "window_ok S ?rl0" using assms by (simp add: window_ok_def)
  from admit_accounting [OF this assms(5,6)] z show ?thesis by (auto simp: window_ok_def)
qed

lemma single_sender_within_limits_witness:
  "\<exists>sent rl. admit [60, 50, 30] (NewRateLimiter \<lparr> rc_MaxBytesPerMinute = 100, rc_MaxBatchesPerMinute = 5 \<rparr>) = (sent, rl) \<and>
     sum_list sent \<le> 100"
proof -
  obtain sent rl where a: "admit [60, 50, 30]
      (NewRateLimiter \<lparr> rc_MaxBytesPerMinute = 100, rc_MaxBatchesPerMinute = 5 \<rparr>) = (sent, rl)" by force
  with single_sender_within_limits [OF _ _ _ _ _ a, of 60] show ?thesis by auto
qed

subsection \<open>Concurrent senders\<close>

text \<open>
  The points of a call of \<^verbatim>\<open>Allow\<close> between its atomic accesses, with the values the call carries: the
  size of the batch and a limit it has loaded.
\<close>

datatype pc =
    Ready
  | LoadMaxBytes int
  | LoadCurrentBytes int int
  | LoadMaxBatches int
  | LoadCurrentBatches int int
  | AddBytes int
  | AddBatches

fun call_step :: "RateLimiter \<Rightarrow> pc \<Rightarrow> RateLimiter \<times> pc" where
  "call_step rl Ready = (rl, Ready)"
| "call_step rl (LoadMaxBytes n) =
     (rl, if rl_maxBytes rl > 0 then LoadCurrentBytes n (rl_maxBytes rl) else LoadMaxBatches n)"
| "call_step rl (LoadCurrentBytes n maxB) =
     (rl, if wrap_int 64 (rl_currentBytes rl + n) > maxB then Ready else LoadMaxBatches n)"
| "call_step rl (LoadMaxBatches n) =
     (rl, if rl_maxBatches rl > 0 then LoadCurrentBatches n (rl_maxBatches rl) else AddBytes n)"
| "call_step rl (LoadCurrentBatches n maxBat) =
     (rl, if rl_currentBatches rl \<ge> maxBat then Ready else AddBytes n)"
| "call_step rl (AddBytes n) =
     (rl \<lparr> rl_currentBytes := wrap_int 64 (rl_currentBytes rl + n) \<rparr>, AddBatches)"
| "call_step rl AddBatches =
     (rl \<lparr> rl_currentBatches := wrap_int 32 (rl_currentBatches rl + 1) \<rparr>, Ready)"

text \<open>A call that runs without interruption is \<open>RL_Allow\<close>.\<close>

lemma call_step_Allow:
  "\<exists>k \<le> 6. ((\<lambda>(rl, p). call_step rl p) ^^ k) (rl, LoadMaxBytes n) = (snd (RL_Allow n rl), Ready)"
proof -
  have "((\<lambda>(rl, p). call_step rl p) ^^ 6) (rl, LoadMaxBytes n) = (snd (RL_Allow n rl), Ready)"
    by (simp add: RL_Allow_def Let_def eval_nat_numeral)
  then show ?thesis by blast
qed

record senders =
  limiter :: RateLimiter
  calls :: "pc list"
  resetting :: bool

inductive rl_step :: "int \<Rightarrow> senders \<Rightarrow> senders \<Rightarrow> bool" for S where
  start: "i < length (calls c) \<Longrightarrow> calls c ! i = Ready \<Longrightarrow> 0 \<le> n \<Longrightarrow> n \<le> S \<Longrightarrow>
    rl_step S c (c \<lparr> calls := (calls c)[i := LoadMaxBytes n] \<rparr>)"
| call: "i < length (calls c) \<Longrightarrow> call_step (limiter c) (calls c ! i) = (rl', p') \<Longrightarrow>
    rl_step S c (c \<lparr> limiter := rl', calls := (calls c)[i := p'] \<rparr>)"
| tick: "\<not> rl_stopped (limiter c) \<Longrightarrow> \<not> resetting c \<Longrightarrow>
    rl_step S c (c \<lparr> limiter := limiter c \<lparr> rl_currentBytes := 0 \<rparr>, resetting := True \<rparr>)"
| tick_end: "resetting c \<Longrightarrow>
    rl_step S c (c \<lparr> limiter := limiter c \<lparr> rl_currentBatches := 0 \<rparr>, resetting := False \<rparr>)"
| stop: "rl_step S c (c \<lparr> limiter := RL_Stop (limiter c) \<rparr>)"

inductive_cases rl_stepE: "rl_step S c c'"

text \<open>What a call has been promised but not yet added: its batch, its bytes.\<close>

fun pendingBatch :: "pc \<Rightarrow> int" where
  "pendingBatch (AddBytes n) = 1"
| "pendingBatch AddBatches = 1"
| "pendingBatch _ = 0"

fun pendingBytes :: "pc \<Rightarrow> int" where
  "pendingBytes (LoadMaxBatches n) = n"
| "pendingBytes (LoadCurrentBatches n k) = n"
| "pendingBytes (AddBytes n) = n"
| "pendingBytes _ = 0"

fun call_ok :: "int \<Rightarrow> int \<Rightarrow> int \<Rightarrow> pc \<Rightarrow> bool" where
  "call_ok S B K (LoadMaxBytes n) \<longleftrightarrow> 0 \<le> n \<and> n \<le> S"
| "call_ok S B K (LoadCurrentBytes n maxB) \<longleftrightarrow> 0 \<le> n \<and> n \<le> S \<and> maxB = B"
| "call_ok S B K (LoadMaxBatches n) \<longleftrightarrow> 0 \<le> n \<and> n \<le> S"
| "call_ok S B K (LoadCurrentBatches n maxBat) \<longleftrightarrow> 0 \<le> n \<and> n \<le> S \<and> maxBat = K"
| "call_ok S B K (AddBytes n) \<longleftrightarrow> 0 \<le> n \<and> n \<le> S"
| "call_ok S B K _ \<longleftrightarrow> True"

definition total :: "(pc \<Rightarrow> int) \<Rightarrow> senders \<Rightarrow> int" where
  "total f c = sum_list (map f (calls c))"

definition senders_inv :: "int \<Rightarrow> int \<Rightarrow> int \<Rightarrow> nat \<Rightarrow> senders \<Rightarrow> bool" where
  "senders_inv S B K N c \<longleftrightarrow>
     length (calls c) = N \<and> list_all (call_ok S B K) (calls c) \<and>
     rl_maxBytes (limiter c) = B \<and> rl_maxBatches (limiter c) = K \<and>
     0 \<le> rl_currentBytes (limiter c) \<and> rl_currentBytes (limiter c) + total pendingBytes c \<le> B + (int N - 1) * S \<and>
     0 \<le> rl_currentBatches (limiter c) \<and> rl_currentBatches (limiter c) + total pendingBatch c \<le> K + int N - 1"

lemma sum_list_update_int:
  fixes f :: "'a \<Rightarrow> int"
  assumes "i < length xs"
  shows "sum_list (map f (xs[i := x])) = sum_list (map f xs) + f x - f (xs ! i)"
  using assms
proof (induction xs arbitrary: i)
  case (Cons y ys)
  then show ?case by (cases i) auto
qed simp

lemma sum_list_others:
  fixes f :: "'a \<Rightarrow> int"
  assumes "i < length xs" "\<forall>x \<in> set xs. f x \<le> S"
  shows "sum_list (map f xs) - f (xs ! i) \<le> (int (length xs) - 1) * S"
  using assms
proof (induction xs arbitrary: i)
  case (Cons y ys)
  have all: "sum_list (map f zs) \<le> int (length zs) * S" if "\<forall>x \<in> set zs. f x \<le> S" for zs
    using that by (induction zs) (auto simp: algebra_simps)
  show ?case
  proof (cases i)
    case 0
    then show ?thesis using all [of ys] Cons.prems by simp
  next
    case (Suc j)
    then have "sum_list (map f ys) - f (ys ! j) \<le> (int (length ys) - 1) * S" using Cons by auto
    moreover have "f y \<le> S" using Cons.prems by simp
    ultimately show ?thesis using Suc by (simp add: algebra_simps)
  qed
qed simp

lemma sum_list_nonneg_int: "\<forall>x \<in> set xs. 0 \<le> (f x :: int) \<Longrightarrow> 0 \<le> sum_list (map f xs)"
  by (induction xs) auto

lemma pending_bounds:
  "0 \<le> pendingBatch p" "pendingBatch p \<le> 1"
  "call_ok S B K p \<Longrightarrow> 0 \<le> S \<Longrightarrow> 0 \<le> pendingBytes p \<and> pendingBytes p \<le> S"
  by (cases p; simp)+

definition limits_ok :: "int \<Rightarrow> int \<Rightarrow> int \<Rightarrow> nat \<Rightarrow> bool" where
  "limits_ok S B K N \<longleftrightarrow> 0 \<le> S \<and> 0 < B \<and> 0 < K \<and> B + int N * S < 2 ^ 63 \<and> K + int N < 2 ^ 31"

lemma list_all_update: "list_all P xs \<Longrightarrow> P x \<Longrightarrow> list_all P (xs[i := x])"
  by (auto simp: list_all_iff dest!: set_update_subset_insert [THEN subsetD])

lemma wrap_small: "0 \<le> x \<Longrightarrow> x < 2 ^ 63 \<Longrightarrow> wrap_int 64 x = x" "0 \<le> x \<Longrightarrow> x < 2 ^ 31 \<Longrightarrow> wrap_int 32 x = x"
  by (auto intro!: wrap_int_id simp: in_range_def)

lemma call_ok_step:
  "call_ok S B K p \<Longrightarrow> rl_maxBytes rl = B \<Longrightarrow> rl_maxBatches rl = K \<Longrightarrow> call_ok S B K (snd (call_step rl p))"
  by (cases p) auto

lemma pending_sums:
  assumes "list_all (call_ok S B K) ps" "0 \<le> S" "i < length ps"
  shows "0 \<le> sum_list (map pendingBytes ps) - pendingBytes (ps ! i)"
    "sum_list (map pendingBytes ps) - pendingBytes (ps ! i) \<le> (int (length ps) - 1) * S"
    "0 \<le> sum_list (map pendingBatch ps) - pendingBatch (ps ! i)"
    "sum_list (map pendingBatch ps) - pendingBatch (ps ! i) \<le> int (length ps) - 1"
proof -
  have b: "\<forall>x \<in> set ps. 0 \<le> pendingBytes x \<and> pendingBytes x \<le> S"
    using assms(1,2) pending_bounds(3) by (auto simp: list_all_iff)
  have others: "0 \<le> sum_list (map f ps) - f (ps ! i)" if "\<forall>x \<in> set ps. 0 \<le> f x" "f Ready = 0" for f :: "pc \<Rightarrow> int"
  proof -
    have "0 \<le> sum_list (map f (ps[i := Ready]))"
      using that by (intro sum_list_nonneg_int) (auto dest!: set_update_subset_insert [THEN subsetD])
    then show ?thesis using sum_list_update_int [OF assms(3), of f Ready] that(2) by simp
  qed
  show "0 \<le> sum_list (map pendingBytes ps) - pendingBytes (ps ! i)"
    using others [of pendingBytes] b by simp
  show "sum_list (map pendingBytes ps) - pendingBytes (ps ! i) \<le> (int (length ps) - 1) * S"
    using sum_list_others [OF assms(3), of pendingBytes S] b by simp
  show "0 \<le> sum_list (map pendingBatch ps) - pendingBatch (ps ! i)"
    using others [of pendingBatch] pending_bounds(1) by simp
  show "sum_list (map pendingBatch ps) - pendingBatch (ps ! i) \<le> int (length ps) - 1"
    using sum_list_others [OF assms(3), of pendingBatch 1] pending_bounds(2) by simp
qed

text \<open>One access of one call, in terms of the four quantities the invariant bounds.\<close>

lemma call_step_bounds:
  assumes "call_step rl p = (rl', p')" "call_ok S B K p" "limits_ok S B K N"
    and lim: "rl_maxBytes rl = B" "rl_maxBatches rl = K"
    and cur: "0 \<le> rl_currentBytes rl" "0 \<le> rl_currentBatches rl"
    and X: "0 \<le> X" "X \<le> (int N - 1) * S" "rl_currentBytes rl + (X + pendingBytes p) \<le> B + (int N - 1) * S"
    and Y: "0 \<le> Y" "Y \<le> int N - 1" "rl_currentBatches rl + (Y + pendingBatch p) \<le> K + int N - 1"
  shows "rl_maxBytes rl' = B \<and> rl_maxBatches rl' = K \<and>
    0 \<le> rl_currentBytes rl' \<and> rl_currentBytes rl' + (X + pendingBytes p') \<le> B + (int N - 1) * S \<and>
    0 \<le> rl_currentBatches rl' \<and> rl_currentBatches rl' + (Y + pendingBatch p') \<le> K + int N - 1"
proof -
  have pos: "0 \<le> S" "B + int N * S < 2 ^ 63" "K + int N < 2 ^ 31" "0 < B" "0 < K"
    using assms(3) by (simp_all add: limits_ok_def)
  have nS: "(int N - 1) * S = int N * S - S" by (simp add: algebra_simps)
  show ?thesis
  proof (cases p)
    case (LoadCurrentBytes n maxB)
    then have n: "0 \<le> n" "n \<le> S" "maxB = B" using assms(2) by auto
    have "rl_currentBytes rl + n < 2 ^ 63" using X LoadCurrentBytes n(2) pos(2) nS by simp
    then have "wrap_int 64 (rl_currentBytes rl + n) = rl_currentBytes rl + n"
      using wrap_small(1) cur(1) n(1) by simp
    with LoadCurrentBytes assms(1) lim cur X Y n show ?thesis by (auto split: if_splits)
  next
    case (AddBytes n)
    then have n: "0 \<le> n" "n \<le> S" using assms(2) by auto
    have "rl_currentBytes rl + n < 2 ^ 63" using X AddBytes pos nS by simp
    then have "wrap_int 64 (rl_currentBytes rl + n) = rl_currentBytes rl + n"
      using wrap_small(1) cur(1) n(1) by simp
    with AddBytes assms(1) lim cur X Y n show ?thesis by auto
  next
    case AddBatches
    have "rl_currentBatches rl + 1 < 2 ^ 31" using Y AddBatches pos(3) by simp
    then have "wrap_int 32 (rl_currentBatches rl + 1) = rl_currentBatches rl + 1"
      using wrap_small(2) cur(2) by simp
    with AddBatches assms(1) lim cur X Y show ?thesis by auto
  next
    case (LoadCurrentBatches n k)
    with assms(1,2) lim cur X Y show ?thesis by (auto split: if_splits)
  qed (use assms(1,2) lim cur X Y pos in \<open>auto split: if_splits\<close>)
qed

lemma call_preserves:
  assumes inv: "senders_inv S B K N c" and lk: "limits_ok S B K N" and i: "i < length (calls c)"
    and step: "call_step (limiter c) (calls c ! i) = (rl', p')"
  shows "senders_inv S B K N (c \<lparr> limiter := rl', calls := (calls c)[i := p'] \<rparr>)"
proof -
  have ok: "list_all (call_ok S B K) (calls c)" "call_ok S B K (calls c ! i)" "length (calls c) = N"
    and lim: "rl_maxBytes (limiter c) = B" "rl_maxBatches (limiter c) = K"
    and cur: "0 \<le> rl_currentBytes (limiter c)" "0 \<le> rl_currentBatches (limiter c)"
    using inv i by (auto simp: senders_inv_def list_all_length)
  have S: "0 \<le> S" using lk by (simp add: limits_ok_def)
  note sums = pending_sums [OF ok(1) S i, unfolded ok(3)]
  have b: "rl_maxBytes rl' = B \<and> rl_maxBatches rl' = K \<and>
    0 \<le> rl_currentBytes rl' \<and>
    rl_currentBytes rl' + (sum_list (map pendingBytes (calls c)) - pendingBytes (calls c ! i) + pendingBytes p')
      \<le> B + (int N - 1) * S \<and>
    0 \<le> rl_currentBatches rl' \<and>
    rl_currentBatches rl' + (sum_list (map pendingBatch (calls c)) - pendingBatch (calls c ! i) + pendingBatch p')
      \<le> K + int N - 1"
    using inv by (intro call_step_bounds [OF step ok(2) lk lim cur] sums) (simp_all add: senders_inv_def total_def)
  have "call_ok S B K p'" using call_ok_step [OF ok(2) lim] step by simp
  then have "list_all (call_ok S B K) ((calls c)[i := p'])" by (rule list_all_update [OF ok(1)])
  with b ok(3) show ?thesis
    by (simp add: senders_inv_def total_def sum_list_update_int [OF i] algebra_simps)
qed

lemma senders_inv_step:
  assumes "rl_step S c c'" "senders_inv S B K N c" "limits_ok S B K N"
  shows "senders_inv S B K N c'"
  using assms(1)
proof cases
  case (start i n)
  then have "sum_list (map f ((calls c)[i := LoadMaxBytes n])) = sum_list (map f (calls c))"
    if "f Ready = 0" "f (LoadMaxBytes n) = 0" for f :: "pc \<Rightarrow> int"
    using that by (simp add: sum_list_update_int)
  then show ?thesis
    using start assms(2) by (simp add: senders_inv_def total_def list_all_update)
next
  case (call i rl' p')
  then show ?thesis using call_preserves assms by simp
next
  case tick
  then show ?thesis using assms(2) by (simp add: senders_inv_def total_def)
next
  case tick_end
  then show ?thesis using assms(2) by (simp add: senders_inv_def total_def)
next
  case stop
  then show ?thesis using assms(2) by (simp add: senders_inv_def RL_Stop_def total_def)
qed


definition fresh_senders :: "int \<Rightarrow> int \<Rightarrow> nat \<Rightarrow> senders" where
  "fresh_senders B K N =
     \<lparr> limiter = NewRateLimiter \<lparr> rc_MaxBytesPerMinute = B, rc_MaxBatchesPerMinute = K \<rparr>,
       calls = replicate N Ready, resetting = False \<rparr>"

lemma senders_inv_fresh:
  assumes "limits_ok S B K N" "0 < N"
  shows "senders_inv S B K N (fresh_senders B K N)"
proof -
  have "wrap_int 32 K = K" using assms by (intro wrap_small) (auto simp: limits_ok_def)
  moreover have "0 \<le> (int N - 1) * S" using assms by (simp add: limits_ok_def)
  ultimately show ?thesis
    using assms by (auto simp: senders_inv_def fresh_senders_def NewRateLimiter_def total_def sum_list_replicate
        limits_ok_def list_all_iff)
qed

lemma senders_inv_reachable:
  assumes "(rl_step S)\<^sup>*\<^sup>* c c'" "senders_inv S B K N c" "limits_ok S B K N"
  shows "senders_inv S B K N c'"
  using assms by (induction rule: rtranclp_induct) (auto intro: senders_inv_step)

lemma senders_inv_limits:
  assumes "senders_inv S B K N c" "limits_ok S B K N"
  shows "rl_currentBytes (limiter c) \<le> B + (int N - 1) * S \<and> rl_currentBatches (limiter c) \<le> K + int N - 1"
proof -
  have "0 \<le> total pendingBatch c" "0 \<le> total pendingBytes c"
    using assms pending_bounds by (auto simp: total_def senders_inv_def limits_ok_def list_all_iff
        intro!: sum_list_nonneg_int)
  with assms(1) show ?thesis by (simp add: senders_inv_def)
qed

text \<open>
  C38: the race between concurrent senders is bounded. With \<open>N\<close> callers of \<^verbatim>\<open>Allow\<close> whose atomic
  accesses interleave in any way with each other, with the reset ticker and with \<^verbatim>\<open>Stop\<close>, the
  counters never exceed the byte limit by more than \<open>N - 1\<close> batches of the largest size, nor the
  batch limit by more than \<open>N - 1\<close>; in particular one sender never exceeds them.
\<close>

theorem concurrent_overshoot_bounded:
  assumes "limits_ok S B K N" "0 < N" "(rl_step S)\<^sup>*\<^sup>* (fresh_senders B K N) c"
  shows "rl_currentBytes (limiter c) \<le> B + (int N - 1) * S \<and> rl_currentBatches (limiter c) \<le> K + int N - 1"
  using senders_inv_limits [OF senders_inv_reachable [OF assms(3) senders_inv_fresh [OF assms(1,2)] assms(1)] assms(1)] .

text \<open>The bound is reached: two senders pass a limit of one batch.\<close>

definition raced :: senders where
  "raced =
     \<lparr> limiter = \<lparr> rl_maxBytes = 100, rl_maxBatches = 1, rl_currentBytes = 20, rl_currentBatches = 2, rl_stopped = False \<rparr>,
       calls = [Ready, Ready], resetting = False \<rparr>"

text \<open>The schedule: both callers read the counters before either of them adds to them.\<close>

definition sched :: "nat list" where
  "sched = [0, 0, 0, 0, 1, 1, 1, 1, 0, 0, 1, 1]"

definition turn :: "senders \<Rightarrow> nat \<Rightarrow> senders" where
  "turn c i = (case call_step (limiter c) (calls c ! i) of
     (rl', p') \<Rightarrow> c \<lparr> limiter := rl', calls := (calls c)[i := p'] \<rparr>)"

lemma turn_steps: "\<forall>i \<in> set is. i < length (calls c) \<Longrightarrow> (rl_step S)\<^sup>*\<^sup>* c (foldl turn c is)"
proof (induction "is" arbitrary: c)
  case (Cons i js)
  have "rl_step S c (turn c i)"
    using Cons.prems by (auto simp: turn_def split: prod.splits intro: rl_step.call)
  moreover have "length (calls (turn c i)) = length (calls c)" by (simp add: turn_def split: prod.splits)
  ultimately show ?case using Cons.IH [of "turn c i"] Cons.prems by (auto intro: converse_rtranclp_into_rtranclp)
qed simp

lemma raced_reachable: "(rl_step 10)\<^sup>*\<^sup>* (fresh_senders 100 1 2) raced"
proof -
  let ?c0 = "fresh_senders 100 1 2"
  let ?c1 = "?c0 \<lparr> calls := (calls ?c0)[0 := LoadMaxBytes 10] \<rparr>"
  let ?c2 = "?c1 \<lparr> calls := (calls ?c1)[1 := LoadMaxBytes 10] \<rparr>"
  have "rl_step 10 ?c0 ?c1" by (rule rl_step.start) (simp_all add: fresh_senders_def)
  moreover have "rl_step 10 ?c1 ?c2" by (rule rl_step.start) (simp_all add: fresh_senders_def eval_nat_numeral)
  moreover have "(rl_step 10)\<^sup>*\<^sup>* ?c2 (foldl turn ?c2 sched)"
    by (rule turn_steps) (simp add: sched_def fresh_senders_def)
  moreover have "foldl turn ?c2 sched = raced"
    by (simp add: sched_def turn_def fresh_senders_def NewRateLimiter_def raced_def wrap_int_def eval_nat_numeral)
  ultimately show ?thesis by (metis converse_rtranclp_into_rtranclp)
qed

lemma concurrent_overshoot_bounded_witness:
  "(rl_step 10)\<^sup>*\<^sup>* (fresh_senders 100 1 2) raced \<and> 1 < rl_currentBatches (limiter raced) \<and>
   rl_currentBatches (limiter raced) \<le> 2"
  using concurrent_overshoot_bounded [OF _ _ raced_reachable] raced_reachable
  by (simp add: limits_ok_def raced_def)

end
