(* ===== verification/Batch_Sender.thy ===== *)
theory Batch_Sender
  imports Rate_Limiter Go_Value
begin

text \<open>
  The batch sender of the agent (\<^verbatim>\<open>internal/agent/transport/sender.go\<close>): one batch is compressed, put to
  the rate limiter and posted with retries and doubling delays; a request that is answered with 401 is
  repeated once with refreshed credentials. What the network, the credentials and the context do is
  given per attempt: the answer to the first request, to the refresh and to the second request, and
  whether the context ends during the wait that follows. \<open>compress\<close> stands for \<^verbatim>\<open>CompressBatch\<close>.
\<close>

subsection \<open>Configuration\<close>

record SenderConfig =
  sn_ServerURL :: string
  sn_Endpoint :: string
  sn_Timeout :: int
  sn_MaxRetries :: int
  sn_RetryDelay :: int

definition DefaultSenderConfig :: "string \<Rightarrow> SenderConfig" where
  "DefaultSenderConfig serverURL =
     \<lparr> sn_ServerURL = serverURL, sn_Endpoint = ''/api/v1/agent/batch'', sn_Timeout = 30 * 10 ^ 9,
       sn_MaxRetries = 2, sn_RetryDelay = 10 ^ 9 \<rparr>"

record CompressResult =
  cr_Data :: string
  cr_OriginalSize :: int
  cr_CompressedSize :: int

definition zeroResult :: CompressResult where
  "zeroResult = \<lparr> cr_Data = [], cr_OriginalSize = 0, cr_CompressedSize = 0 \<rparr>"

definition Ratio :: "CompressResult \<Rightarrow> go_float" where
  "Ratio r = (if cr_OriginalSize r = 0 then Fin 1 else fdiv (float64_of_int (cr_CompressedSize r)) (float64_of_int (cr_OriginalSize r)))"

text \<open>\<open>marshal\<close> is \<^verbatim>\<open>json.Marshal\<close> and \<open>gzip\<close> the writer of \<^verbatim>\<open>compress/gzip\<close> at a level, with the steps that can fail.\<close>

definition CompressBatchLevel ::
  "('b \<Rightarrow> msg + string) \<Rightarrow> (int \<Rightarrow> string \<Rightarrow> msg + string) \<Rightarrow> 'b \<Rightarrow> int \<Rightarrow> msg + CompressResult" where
  "CompressBatchLevel marshal gzip batch level =
     (case marshal batch of
        Inl e \<Rightarrow> Inl ([S ''marshal batch: ''] @ e)
      | Inr data \<Rightarrow>
          (case gzip level data of
             Inl e \<Rightarrow> Inl ([S ''gzip batch: ''] @ e)
           | Inr compressed \<Rightarrow>
               Inr \<lparr> cr_Data = compressed, cr_OriginalSize = int (length data), cr_CompressedSize = int (length compressed) \<rparr>))"

definition CompressBatch :: "('b \<Rightarrow> msg + string) \<Rightarrow> (int \<Rightarrow> string \<Rightarrow> msg + string) \<Rightarrow> 'b \<Rightarrow> msg + CompressResult" where
  "CompressBatch marshal gzip batch = CompressBatchLevel marshal gzip batch (- 1)"

subsection \<open>One attempt\<close>

text \<open>The answers to one attempt, and the requests it made.\<close>

record answers =
  an_first :: "msg + int"
  an_refresh :: "msg + string"
  an_second :: "msg + int"

definition statusResult :: "int \<Rightarrow> msg option" where
  "statusResult status = (if status < 200 \<or> status \<ge> 300 then Some [S ''server returned '', D status] else None)"

definition Sender_post :: "answers \<Rightarrow> msg option" where
  "Sender_post a =
     (case an_first a of
        Inl e \<Rightarrow> Some e
      | Inr status \<Rightarrow>
          if status = 401 then
            (case an_refresh a of
               Inl e \<Rightarrow> Some ([S ''server returned 401 and refresh failed: ''] @ e)
             | Inr newKey \<Rightarrow> (case an_second a of Inl e \<Rightarrow> Some e | Inr status' \<Rightarrow> statusResult status'))
          else statusResult status)"

definition requestsOf :: "answers \<Rightarrow> nat" where
  "requestsOf a =
     (case an_first a of
        Inl _ \<Rightarrow> 1
      | Inr status \<Rightarrow> if status = 401 then (case an_refresh a of Inl _ \<Rightarrow> 1 | Inr _ \<Rightarrow> 2) else 1)"

subsection \<open>The retry loop\<close>

datatype outcome =
    NotCompressed msg
  | DroppedRateLimit
  | Sent
  | DroppedCanceled msg
  | DroppedRetries "msg option"

datatype action = Post nat | Wait int

function retryLoop ::
  "(nat \<Rightarrow> answers) \<Rightarrow> (nat \<Rightarrow> bool) \<Rightarrow> int \<Rightarrow> nat \<Rightarrow> int \<Rightarrow> msg option \<Rightarrow> outcome \<times> action list" where
  "retryLoop env canceled maxAttempts attempt delay lastErr =
     (if int attempt > maxAttempts then (DroppedRetries lastErr, [])
      else case Sender_post (env attempt) of
        None \<Rightarrow> (Sent, [Post attempt])
      | Some err \<Rightarrow>
          if int attempt < maxAttempts then
            (if canceled attempt then (DroppedCanceled err, [Post attempt, Wait delay])
             else case retryLoop env canceled maxAttempts (attempt + 1) (wrap_int 64 (delay * 2)) (Some err) of
                    (res, acts) \<Rightarrow> (res, Post attempt # Wait delay # acts))
          else
            (case retryLoop env canceled maxAttempts (attempt + 1) delay (Some err) of
               (res, acts) \<Rightarrow> (res, Post attempt # acts)))"
  by pat_completeness auto
termination
  by (relation "measure (\<lambda>(_, _, m, a, _, _). nat (m + 1 - int a))") auto

declare retryLoop.simps [simp del]

definition sendBatch ::
  "SenderConfig \<Rightarrow> ('b \<Rightarrow> msg + CompressResult) \<Rightarrow> (nat \<Rightarrow> answers) \<Rightarrow> (nat \<Rightarrow> bool) \<Rightarrow> 'b \<Rightarrow> RateLimiter option \<Rightarrow>
     outcome \<times> action list \<times> RateLimiter option" where
  "sendBatch cfg compress env canceled batch rlo =
     (case compress batch of
        Inl err \<Rightarrow> (NotCompressed err, [], rlo)
      | Inr cr \<Rightarrow>
          (case (case rlo of
                   None \<Rightarrow> (True, None)
                 | Some rl \<Rightarrow> (case RL_Allow (cr_CompressedSize cr) rl of (ok, rl') \<Rightarrow> (ok, Some rl'))) of
             (allowed, rlo') \<Rightarrow>
               if \<not> allowed then (DroppedRateLimit, [], rlo')
               else case retryLoop env canceled (1 + sn_MaxRetries cfg) 1 (sn_RetryDelay cfg) None of
                      (res, acts) \<Rightarrow> (res, acts, rlo')))"

text \<open>
  \<^verbatim>\<open>SendBatch\<close>, the exported form: one attempt without the rate limiter.
\<close>

definition SendBatch :: "('b \<Rightarrow> msg + CompressResult) \<Rightarrow> answers \<Rightarrow> 'b \<Rightarrow> CompressResult \<times> msg option" where
  "SendBatch compress a batch =
     (case compress batch of
        Inl e \<Rightarrow> (zeroResult, Some ([S ''compress: ''] @ e))
      | Inr cr \<Rightarrow> (cr, Sender_post a))"

subsection \<open>The run loop\<close>

text \<open>
  What the \<^verbatim>\<open>select\<close> of \<^verbatim>\<open>Run\<close> yields, turn by turn: a batch, the end of the channel, or the end of the context
  with the batches that are still in the channel, which the inner loop sends before it returns.
\<close>

datatype 'b turn = Received 'b | ChannelClosed | ContextDone "'b list"

fun Sender_Run :: "('b \<Rightarrow> 's \<Rightarrow> 's) \<Rightarrow> 'b turn list \<Rightarrow> 's \<Rightarrow> 's" where
  "Sender_Run send [] s = s"
| "Sender_Run send (Received b # ts) s = Sender_Run send ts (send b s)"
| "Sender_Run send (ChannelClosed # ts) s = s"
| "Sender_Run send (ContextDone rest # ts) s = fold send rest s"

subsection \<open>Properties of the retries\<close>

text \<open>
  The first attempt at which the loop stops: a success, or a failure with the context done before the
  next attempt.
\<close>

definition failsAt :: "(nat \<Rightarrow> answers) \<Rightarrow> nat \<Rightarrow> bool" where
  "failsAt env k \<longleftrightarrow> Sender_post (env k) \<noteq> None"

definition reaches :: "(nat \<Rightarrow> answers) \<Rightarrow> (nat \<Rightarrow> bool) \<Rightarrow> nat \<Rightarrow> nat \<Rightarrow> bool" where
  "reaches env canceled a k \<longleftrightarrow> (\<forall>j. a \<le> j \<and> j < k \<longrightarrow> failsAt env j \<and> \<not> canceled j)"

fun posts :: "action list \<Rightarrow> nat list" where
  "posts [] = []"
| "posts (Post k # as) = k # posts as"
| "posts (Wait d # as) = posts as"

fun waits :: "action list \<Rightarrow> int list" where
  "waits [] = []"
| "waits (Post k # as) = waits as"
| "waits (Wait d # as) = d # waits as"

fun delays :: "int \<Rightarrow> nat \<Rightarrow> int list" where
  "delays d 0 = []"
| "delays d (Suc n) = d # delays (wrap_int 64 (d * 2)) n"

lemma reaches_refl [simp]: "reaches env canceled a a"
  by (auto simp: reaches_def)

lemma reaches_step: "failsAt env a \<Longrightarrow> \<not> canceled a \<Longrightarrow> reaches env canceled (Suc a) k \<Longrightarrow> reaches env canceled a k"
  unfolding reaches_def by (metis Suc_leI le_less)

lemma retryLoop_end: "m < int a \<Longrightarrow> retryLoop env canceled m a d e = (DroppedRetries e, [])"
  by (simp add: retryLoop.simps)

text \<open>
  A run of the loop makes the attempts \<open>a\<close> to \<open>k\<close> in order and waits after each but the last, with
  doubling delays; only its last wait may be cut short.
\<close>

lemma retryLoop_spec:
  assumes "retryLoop env canceled m a d e = (res, acts)" "int a \<le> m"
  shows "\<exists>k. a \<le> k \<and> int k \<le> m \<and> reaches env canceled a k \<and> posts acts = [a..<Suc k] \<and>
    (res = Sent \<and> \<not> failsAt env k \<and> waits acts = delays d (k - a) \<or>
     (\<exists>err. res = DroppedCanceled err \<and> failsAt env k \<and> canceled k \<and> int k < m \<and> waits acts = delays d (Suc k - a)) \<or>
     (\<exists>err. res = DroppedRetries (Some err) \<and> failsAt env k \<and> int k = m \<and> waits acts = delays d (k - a)))"
  using assms
proof (induction env canceled m a d e arbitrary: res acts rule: retryLoop.induct)
  case (1 env canceled m a d e)
  show ?case
  proof (cases "Sender_post (env a)")
    case None
    then have "res = Sent" "acts = [Post a]" using 1(3,4) by (simp_all add: retryLoop.simps [of env canceled m a])
    with None 1(4) show ?thesis by (intro exI [of _ a]) (simp add: failsAt_def)
  next
    case (Some err)
    then have f: "failsAt env a" by (simp add: failsAt_def)
    consider (canceled) "int a < m" "canceled a" | (again) "int a < m" "\<not> canceled a" | (last) "int a = m"
      using 1(4) by linarith
    then show ?thesis
    proof cases
      case canceled
      then have "res = DroppedCanceled err" "acts = [Post a, Wait d]"
        using 1(3) Some by (simp_all add: retryLoop.simps [of env canceled m a])
      with canceled f show ?thesis by (intro exI [of _ a]) simp
    next
      case again
      obtain res' acts' where r: "retryLoop env canceled m (a + 1) (wrap_int 64 (d * 2)) (Some err) = (res', acts')"
        by (cases "retryLoop env canceled m (a + 1) (wrap_int 64 (d * 2)) (Some err)")
      then have eq: "res = res'" "acts = Post a # Wait d # acts'"
        using 1(3) Some again by (simp_all add: retryLoop.simps [of env canceled m a])
      from 1(1) [OF _ Some again r] again obtain k where k: "Suc a \<le> k" "int k \<le> m"
        "reaches env canceled (Suc a) k" "posts acts' = [Suc a..<Suc k]"
        "res' = Sent \<and> \<not> failsAt env k \<and> waits acts' = delays (wrap_int 64 (d * 2)) (k - Suc a) \<or>
         (\<exists>err. res' = DroppedCanceled err \<and> failsAt env k \<and> canceled k \<and> int k < m \<and>
           waits acts' = delays (wrap_int 64 (d * 2)) (Suc k - Suc a)) \<or>
         (\<exists>err. res' = DroppedRetries (Some err) \<and> failsAt env k \<and> int k = m \<and>
           waits acts' = delays (wrap_int 64 (d * 2)) (k - Suc a))"
        by auto
      have s: "k - a = Suc (k - Suc a)" "Suc k - a = Suc (Suc k - Suc a)" using k(1) by auto
      have "posts acts = [a..<Suc k]" using k(1,4) eq by (simp add: upt_conv_Cons del: upt_Suc)
      then show ?thesis
        using k(1-3,5) eq s reaches_step [OF f again(2) k(3)] by (intro exI [of _ k]) auto
    next
      case last
      then have "res = DroppedRetries (Some err)" "acts = [Post a]"
        using 1(3) Some by (simp_all add: retryLoop.simps [of env canceled m a] retryLoop_end)
      with last f show ?thesis by (intro exI [of _ a]) simp
    qed
  qed
qed

lemma length_delays [simp]: "length (delays d n) = n"
  by (induction n arbitrary: d) auto

lemma requestsOf_le: "requestsOf a \<le> 2"
  by (simp add: requestsOf_def split: sum.splits)

definition requestCount :: "(nat \<Rightarrow> answers) \<Rightarrow> action list \<Rightarrow> nat" where
  "requestCount env acts = sum_list (map (\<lambda>k. requestsOf (env k)) (posts acts))"

lemma requestCount_le: "requestCount env acts \<le> 2 * length (posts acts)"
  unfolding requestCount_def
  by (induction "posts acts" rule: list.induct) (use sum_list_mono [of "posts acts" "\<lambda>k. requestsOf (env k)" "\<lambda>_. 2"] requestsOf_le in \<open>auto simp: sum_list_triv\<close>)

lemma sent_iff_reached:
  assumes "reaches env canceled a k" "\<not> failsAt env k" "reaches env canceled a k'" "failsAt env k' \<and> canceled k' \<or> failsAt env k' \<and> int k' = m"
    "a \<le> k" "int k \<le> m" "a \<le> k'"
  shows False
proof (cases "k < k'")
  case True
  with assms(2,3,5) show False by (auto simp: reaches_def)
next
  case False
  then consider "k = k'" | "k' < k" by linarith
  then show False
  proof cases
    case 1
    with assms(2,4) show False by auto
  next
    case 2
    with assms(1,4,6,7) show False by (auto simp: reaches_def)
  qed
qed

text \<open>
  C32: a batch that passes the rate limiter is tried until it is accepted, and not more often than
  configured. The attempts are numbered from one without gaps, at most \<open>1 + MaxRetries\<close> of them, each
  of one or two requests; between them the sender waits with doubling delays; and the batch is sent
  exactly when one of these attempts succeeds that the context lets it reach, in particular when the
  server fails at most \<open>MaxRetries\<close> times and the context stays alive.
\<close>

theorem sendBatch_retries:
  assumes "0 \<le> sn_MaxRetries cfg" "compress batch = Inr cr"
    "rlo = None \<or> (\<exists>rl. rlo = Some rl \<and> fst (RL_Allow (cr_CompressedSize cr) rl))"
    "sendBatch cfg compress env canceled batch rlo = (res, acts, rlo')"
  shows "posts acts = [1..<Suc (length (posts acts))] \<and> int (length (posts acts)) \<le> 1 + sn_MaxRetries cfg \<and>
    int (requestCount env acts) \<le> 2 * (1 + sn_MaxRetries cfg) \<and>
    waits acts = delays (sn_RetryDelay cfg) (length (waits acts)) \<and> int (length (waits acts)) \<le> sn_MaxRetries cfg \<and>
    (res = Sent \<longleftrightarrow>
      (\<exists>k. 1 \<le> k \<and> int k \<le> 1 + sn_MaxRetries cfg \<and> \<not> failsAt env k \<and>
           (\<forall>j. 1 \<le> j \<and> j < k \<longrightarrow> failsAt env j \<and> \<not> canceled j)))"
proof -
  have r: "retryLoop env canceled (1 + sn_MaxRetries cfg) 1 (sn_RetryDelay cfg) None = (res, acts)"
    using assms(2-4) by (auto simp: sendBatch_def split: prod.splits if_splits)
  have m: "int 1 \<le> 1 + sn_MaxRetries cfg" using assms(1) by simp
  from retryLoop_spec [OF r m] obtain k where k: "1 \<le> k" "int k \<le> 1 + sn_MaxRetries cfg"
    "reaches env canceled 1 k" "posts acts = [1..<Suc k]"
    "res = Sent \<and> \<not> failsAt env k \<and> waits acts = delays (sn_RetryDelay cfg) (k - 1) \<or>
     (\<exists>err. res = DroppedCanceled err \<and> failsAt env k \<and> canceled k \<and> int k < 1 + sn_MaxRetries cfg \<and>
        waits acts = delays (sn_RetryDelay cfg) (Suc k - 1)) \<or>
     (\<exists>err. res = DroppedRetries (Some err) \<and> failsAt env k \<and> int k = 1 + sn_MaxRetries cfg \<and>
        waits acts = delays (sn_RetryDelay cfg) (k - 1))"
    by auto
  have sent: "res = Sent \<longleftrightarrow>
      (\<exists>k. 1 \<le> k \<and> int k \<le> 1 + sn_MaxRetries cfg \<and> \<not> failsAt env k \<and> reaches env canceled 1 k)"
  proof (cases "res = Sent")
    case True
    with k show ?thesis by auto
  next
    case False
    with k(5) have "failsAt env k \<and> canceled k \<or> failsAt env k \<and> int k = 1 + sn_MaxRetries cfg" by auto
    with False show ?thesis
      using sent_iff_reached [OF _ _ k(3), of _ "1 + sn_MaxRetries cfg"] k(1) by auto
  qed
  have n: "length (posts acts) = k" using k(4) by simp
  have "requestCount env acts \<le> 2 * k" using requestCount_le [of env acts] n by simp
  moreover have "waits acts = delays (sn_RetryDelay cfg) (length (waits acts)) \<and> int (length (waits acts)) \<le> sn_MaxRetries cfg"
    using k(1,2,5) by auto
  ultimately show ?thesis
    using k(2,4) n sent by (simp add: reaches_def)
qed

text \<open>
  The rate limiter counts a batch once, however often it is posted: a server that answers every first
  request with 401 and every second one with 500 gets six requests for one admitted batch.
\<close>

definition unwilling :: answers where
  "unwilling = \<lparr> an_first = Inr 401, an_refresh = Inr ''k'', an_second = Inr 500 \<rparr>"

lemma retries_not_counted:
  "case sendBatch (DefaultSenderConfig []) (\<lambda>_. Inr \<lparr> cr_Data = [], cr_OriginalSize = 10, cr_CompressedSize = 7 \<rparr>) (\<lambda>_. unwilling)
      (\<lambda>_. False) () (Some (NewRateLimiter \<lparr> rc_MaxBytesPerMinute = 10, rc_MaxBatchesPerMinute = 1 \<rparr>)) of
    (res, acts, rlo) \<Rightarrow> requestCount (\<lambda>_. unwilling) acts = 6 \<and> map_option rl_currentBytes rlo = Some 7"
proof -
  have "Sender_post unwilling \<noteq> None" by (simp add: Sender_post_def unwilling_def statusResult_def)
  then obtain e where "Sender_post unwilling = Some e" by auto
  then show ?thesis
    by (simp add: sendBatch_def DefaultSenderConfig_def NewRateLimiter_def RL_Allow_def wrap_int_def retryLoop.simps
        requestCount_def requestsOf_def unwilling_def)
qed

definition recovering :: "nat \<Rightarrow> answers" where
  "recovering k = \<lparr> an_first = Inr (if k < 3 then 503 else 200), an_refresh = Inl [], an_second = Inl [] \<rparr>"

lemma sendBatch_retries_witness:
  "fst (sendBatch (DefaultSenderConfig []) (\<lambda>_. Inr \<lparr> cr_Data = [], cr_OriginalSize = 10, cr_CompressedSize = 7 \<rparr>) recovering (\<lambda>_. False) () None) = Sent"
proof -
  let ?c = "\<lambda>_. Inr \<lparr> cr_Data = [], cr_OriginalSize = 10, cr_CompressedSize = 7 \<rparr>"
  obtain res acts rlo' where r: "sendBatch (DefaultSenderConfig []) ?c recovering (\<lambda>_. False) () None = (res, acts, rlo')"
    by (metis prod_cases3)
  have p: "failsAt recovering k \<longleftrightarrow> k < 3" for k
    by (simp add: failsAt_def Sender_post_def recovering_def statusResult_def)
  have "0 \<le> sn_MaxRetries (DefaultSenderConfig [])" by (simp add: DefaultSenderConfig_def)
  from sendBatch_retries [OF this _ _ r] have "res = Sent \<longleftrightarrow>
      (\<exists>k. 1 \<le> k \<and> int k \<le> 3 \<and> \<not> failsAt recovering k \<and> (\<forall>j. 1 \<le> j \<and> j < k \<longrightarrow> failsAt recovering j \<and> \<not> False))"
    by (simp add: DefaultSenderConfig_def)
  then have "res = Sent" using p by (auto intro: exI [of _ 3])
  with r show ?thesis by simp
qed

end
