(* ===== verification/Compute_Chain.thy ===== *)
theory Compute_Chain
  imports Go_Strings "HOL-Library.Multiset"
begin

text \<open>
  The compute chain of the profiler service (\<^verbatim>\<open>internal/service/profiler_service.go\<close>, second half): the
  ingest worker turns compute events into a chain of nodes with depths and parents, stored as JSON; a
  request for a recording turns the stored nodes into the chain with its edges and summary.

  \<open>marshal\<close> and \<open>unmarshal\<close> stand for \<^verbatim>\<open>encoding/json\<close> on the nodes and \<open>sorter\<close> for \<^verbatim>\<open>sort.Slice\<close>, which is not
  stable: all that is known of its result is that it is sorted and has the same events. Durations are
  in milliseconds and their sums stay far below the range of \<^verbatim>\<open>int\<close>.
\<close>

subsection \<open>Data\<close>

record ProfilerEvent =
  pe_Category :: string
  pe_Model :: string
  pe_Method :: string
  pe_DurationMS :: int
  pe_IsError :: bool
  pe_IsN1 :: bool
  pe_SQL :: string
  pe_Module :: string
  pe_Traceback :: string
  pe_UserID :: int
  pe_Timestamp :: int
  pe_FieldName :: string
  pe_IsCompute :: bool
  pe_DependsOn :: "string list"
  pe_TriggerField :: string

record rawComputeNode =
  rn_Model :: string
  rn_FieldName :: string
  rn_Method :: string
  rn_Module :: string
  rn_DurationMS :: int
  rn_DependsOn :: "string list"
  rn_TriggerField :: string
  rn_SQLCount :: int
  rn_Depth :: int
  rn_ParentID :: string

record ComputeNode =
  cn_ID :: string
  cn_Model :: string
  cn_FieldName :: string
  cn_Method :: string
  cn_Module :: string
  cn_DurationMS :: int
  cn_DependsOn :: "string list"
  cn_ParentID :: string
  cn_Depth :: int
  cn_SQLCount :: int
  cn_IsBottleneck :: bool

record ComputeEdge =
  ce_From :: string
  ce_To :: string
  ce_TriggerField :: string

record ComputeChainSummary =
  cs_TotalMS :: int
  cs_NodeCount :: int
  cs_MaxDepth :: int
  cs_BottleneckCount :: int
  cs_SlowestNode :: string
  cs_SlowestMS :: int
  cs_TriggerField :: string

record ComputeChain =
  cc_Nodes :: "ComputeNode list"
  cc_Edges :: "ComputeEdge list"
  cc_Summary :: ComputeChainSummary

definition nodeID :: "nat \<Rightarrow> string" where
  "nodeID i = ''compute-'' @ Itoa (int i)"

definition fieldKey :: "string \<Rightarrow> string \<Rightarrow> string" where
  "fieldKey model field = model @ ''.'' @ field"

subsection \<open>Building the stored nodes\<close>

definition filterComputeEvents :: "ProfilerEvent list \<Rightarrow> ProfilerEvent list" where
  "filterComputeEvents events = filter (\<lambda>ev. pe_IsCompute ev \<and> (pe_FieldName ev \<noteq> [] \<or> pe_Method ev \<noteq> [])) events"

text \<open>The two loops of \<^verbatim>\<open>determineDepthAndParent\<close>; the state is \<^verbatim>\<open>maxParentDepth\<close> and \<^verbatim>\<open>parentID\<close>.\<close>

fun scanPrev :: "string \<Rightarrow> string \<Rightarrow> rawComputeNode list \<Rightarrow> int \<times> string \<Rightarrow> int \<times> string" where
  "scanPrev depKey pid [] st = st"
| "scanPrev depKey pid (prev # ps) (maxParentDepth, parentID) =
     scanPrev depKey pid ps
       (if fieldKey (rn_Model prev) (rn_FieldName prev) = depKey \<and> rn_Depth prev > maxParentDepth
        then (rn_Depth prev, pid) else (maxParentDepth, parentID))"

fun scanDeps ::
  "string \<Rightarrow> rawComputeNode list \<Rightarrow> (string, string) gomap \<Rightarrow> string list \<Rightarrow> int \<times> string \<Rightarrow> int \<times> string" where
  "scanDeps model nodes fieldToNodeID [] st = st"
| "scanDeps model nodes fieldToNodeID (dep # deps) st =
     scanDeps model nodes fieldToNodeID deps
       (case map_of fieldToNodeID (fieldKey model dep) of
          None \<Rightarrow> st
        | Some pid \<Rightarrow> scanPrev (fieldKey model dep) pid nodes st)"

definition determineDepthAndParent ::
  "ProfilerEvent \<Rightarrow> rawComputeNode list \<Rightarrow> (string, string) gomap \<Rightarrow> int \<times> string" where
  "determineDepthAndParent ev nodes fieldToNodeID =
     (case scanDeps (pe_Model ev) nodes fieldToNodeID (pe_DependsOn ev) (- 1, []) of
        (maxParentDepth, parentID) \<Rightarrow> (if parentID \<noteq> [] then maxParentDepth + 1 else 0, parentID))"

definition keyField :: "ProfilerEvent \<Rightarrow> string" where
  "keyField ev = (if pe_FieldName ev = [] then pe_Method ev else pe_FieldName ev)"

fun chainNodes ::
  "ProfilerEvent list \<Rightarrow> rawComputeNode list \<Rightarrow> (string, string) gomap \<Rightarrow> rawComputeNode list" where
  "chainNodes [] nodes fieldToNodeID = nodes"
| "chainNodes (ev # evs) nodes fieldToNodeID =
     (let nid = nodeID (length nodes);
          fieldToNodeID' = AList.update (fieldKey (pe_Model ev) (keyField ev)) nid fieldToNodeID
      in case determineDepthAndParent ev nodes fieldToNodeID' of
           (depth, parentID) \<Rightarrow>
             chainNodes evs
               (nodes @ [\<lparr> rn_Model = pe_Model ev, rn_FieldName = pe_FieldName ev, rn_Method = pe_Method ev,
                  rn_Module = pe_Module ev, rn_DurationMS = pe_DurationMS ev, rn_DependsOn = pe_DependsOn ev,
                  rn_TriggerField = pe_TriggerField ev, rn_SQLCount = 0, rn_Depth = depth, rn_ParentID = parentID \<rparr>])
               fieldToNodeID')"

definition BuildComputeChainFromEvents ::
  "(ProfilerEvent list \<Rightarrow> ProfilerEvent list) \<Rightarrow> (rawComputeNode list \<Rightarrow> 'e + 'json) \<Rightarrow> ProfilerEvent list \<Rightarrow> 'json option" where
  "BuildComputeChainFromEvents sorter marshal events =
     (let computeEvents = filterComputeEvents events in
      if length computeEvents = 0 then None
      else case marshal (chainNodes (sorter computeEvents) [] []) of Inl _ \<Rightarrow> None | Inr raw \<Rightarrow> Some raw)"

subsection \<open>Building the chain of a recording\<close>

record computeChainStats =
  st_totalMS :: int
  st_maxDepth :: int
  st_slowestMS :: int
  st_slowestNodeID :: string
  st_bottleneckCnt :: int

definition zeroStats :: computeChainStats where
  "zeroStats = \<lparr> st_totalMS = 0, st_maxDepth = 0, st_slowestMS = 0, st_slowestNodeID = [], st_bottleneckCnt = 0 \<rparr>"

definition bottleneckThreshold :: "rawComputeNode list \<Rightarrow> int" where
  "bottleneckThreshold rawNodes =
     (let sumMS = sum_list (map rn_DurationMS rawNodes);
          avgMS = sumMS sdiv int (length rawNodes);
          threshold = avgMS * 2
      in if threshold < 10 then 10 else threshold)"

definition statStep :: "int \<Rightarrow> nat \<Rightarrow> rawComputeNode \<Rightarrow> computeChainStats \<Rightarrow> computeChainStats" where
  "statStep threshold i rn st =
     \<lparr> st_totalMS = st_totalMS st + rn_DurationMS rn,
       st_maxDepth = (if rn_Depth rn > st_maxDepth st then rn_Depth rn else st_maxDepth st),
       st_slowestMS = (if rn_DurationMS rn > st_slowestMS st then rn_DurationMS rn else st_slowestMS st),
       st_slowestNodeID = (if rn_DurationMS rn > st_slowestMS st then nodeID i else st_slowestNodeID st),
       st_bottleneckCnt = (if rn_DurationMS rn \<ge> threshold then st_bottleneckCnt st + 1 else st_bottleneckCnt st) \<rparr>"

definition nodeOf :: "int \<Rightarrow> nat \<Rightarrow> rawComputeNode \<Rightarrow> ComputeNode" where
  "nodeOf threshold i rn =
     \<lparr> cn_ID = nodeID i, cn_Model = rn_Model rn, cn_FieldName = rn_FieldName rn, cn_Method = rn_Method rn,
       cn_Module = rn_Module rn, cn_DurationMS = rn_DurationMS rn, cn_DependsOn = rn_DependsOn rn,
       cn_ParentID = rn_ParentID rn, cn_Depth = rn_Depth rn, cn_SQLCount = rn_SQLCount rn,
       cn_IsBottleneck = (rn_DurationMS rn \<ge> threshold) \<rparr>"

fun buildComputeNodes ::
  "int \<Rightarrow> nat \<Rightarrow> rawComputeNode list \<Rightarrow> (string, string) gomap \<Rightarrow> computeChainStats \<Rightarrow>
     ComputeNode list \<times> computeChainStats \<times> (string, string) gomap" where
  "buildComputeNodes threshold i [] fieldToNodeID st = ([], st, fieldToNodeID)"
| "buildComputeNodes threshold i (rn # rns) fieldToNodeID st =
     (case buildComputeNodes threshold (Suc i) rns
             (AList.update (fieldKey (rn_Model rn) (rn_FieldName rn)) (nodeID i) fieldToNodeID) (statStep threshold i rn st) of
        (nodes, st', m) \<Rightarrow> (nodeOf threshold i rn # nodes, st', m))"

definition depEdges :: "(string, string) gomap \<Rightarrow> nat \<Rightarrow> rawComputeNode \<Rightarrow> ComputeEdge list" where
  "depEdges fieldToNodeID i rn =
     List.map_filter (\<lambda>dep.
       case map_of fieldToNodeID (fieldKey (rn_Model rn) dep) of
         None \<Rightarrow> None
       | Some fromID \<Rightarrow>
           if fromID \<noteq> nodeID i then Some \<lparr> ce_From = fromID, ce_To = nodeID i, ce_TriggerField = dep \<rparr> else None)
     (rn_DependsOn rn)"

fun buildComputeEdges :: "nat \<Rightarrow> rawComputeNode list \<Rightarrow> (string, string) gomap \<Rightarrow> ComputeEdge list" where
  "buildComputeEdges i [] fieldToNodeID = []"
| "buildComputeEdges i (rn # rns) fieldToNodeID =
     (if rn_ParentID rn \<noteq> []
      then [\<lparr> ce_From = rn_ParentID rn, ce_To = nodeID i, ce_TriggerField = rn_TriggerField rn \<rparr>] else []) @
     depEdges fieldToNodeID i rn @ buildComputeEdges (Suc i) rns fieldToNodeID"

fun rootTrigger :: "rawComputeNode list \<Rightarrow> string" where
  "rootTrigger [] = []"
| "rootTrigger (rn # rns) = (if rn_Depth rn = 0 \<and> rn_TriggerField rn \<noteq> [] then rn_TriggerField rn else rootTrigger rns)"

text \<open>\<open>isNull\<close> tells whether the stored text is empty or the literal \<^verbatim>\<open>null\<close>.\<close>

definition BuildComputeChain :: "('json \<Rightarrow> bool) \<Rightarrow> ('json \<Rightarrow> 'e + rawComputeNode list) \<Rightarrow> 'json option \<Rightarrow> ComputeChain option" where
  "BuildComputeChain isNull unmarshal chainJSON =
     (case chainJSON of
        None \<Rightarrow> None
      | Some raw \<Rightarrow>
          if isNull raw then None
          else (case unmarshal raw of
            Inl _ \<Rightarrow> None
          | Inr rawNodes \<Rightarrow>
              if length rawNodes = 0 then None
              else
                (case buildComputeNodes (bottleneckThreshold rawNodes) 0 rawNodes [] zeroStats of
                   (nodes, stats, fieldToNodeID) \<Rightarrow>
                     Some \<lparr> cc_Nodes = nodes, cc_Edges = buildComputeEdges 0 rawNodes fieldToNodeID,
                       cc_Summary =
                         \<lparr> cs_TotalMS = st_totalMS stats, cs_NodeCount = int (length nodes),
                           cs_MaxDepth = st_maxDepth stats, cs_BottleneckCount = st_bottleneckCnt stats,
                           cs_SlowestNode = st_slowestNodeID stats, cs_SlowestMS = st_slowestMS stats,
                           cs_TriggerField = rootTrigger rawNodes \<rparr> \<rparr>)))"

subsection \<open>The parent of a node\<close>

text \<open>
  \<open>regKey\<close> is the key a node is registered under in \<^verbatim>\<open>fieldToNodeID\<close>, \<open>nodeKey\<close> the key it is searched by, and
  \<open>lastReg evs i k key\<close> says that \<open>k\<close> is the last node up to \<open>i\<close> registered under \<open>key\<close>.
\<close>

definition regKey :: "ProfilerEvent \<Rightarrow> string" where
  "regKey ev = fieldKey (pe_Model ev) (keyField ev)"

definition nodeKey :: "rawComputeNode \<Rightarrow> string" where
  "nodeKey rn = fieldKey (rn_Model rn) (rn_FieldName rn)"

definition depKeys :: "ProfilerEvent \<Rightarrow> string set" where
  "depKeys ev = fieldKey (pe_Model ev) ` set (pe_DependsOn ev)"

definition lastReg :: "ProfilerEvent list \<Rightarrow> nat \<Rightarrow> nat \<Rightarrow> string \<Rightarrow> bool" where
  "lastReg evs i k key \<longleftrightarrow> k \<le> i \<and> regKey (evs ! k) = key \<and> (\<forall>l. k < l \<and> l \<le> i \<longrightarrow> regKey (evs ! l) \<noteq> key)"

definition regInv :: "ProfilerEvent list \<Rightarrow> (string, string) gomap \<Rightarrow> bool" where
  "regInv evs m \<longleftrightarrow>
     (\<forall>key v. map_of m key = Some v \<longleftrightarrow> (\<exists>k. evs \<noteq> [] \<and> lastReg evs (length evs - 1) k key \<and> v = nodeID k))"

definition cands :: "ProfilerEvent list \<Rightarrow> rawComputeNode list \<Rightarrow> nat \<Rightarrow> (nat \<times> nat) set" where
  "cands evs nodes i =
     {(j, k). j < i \<and> nodeKey (nodes ! j) \<in> depKeys (evs ! i) \<and> lastReg evs i k (nodeKey (nodes ! j))}"

definition parentSpec :: "ProfilerEvent list \<Rightarrow> rawComputeNode list \<Rightarrow> nat \<Rightarrow> bool" where
  "parentSpec evs nodes i \<longleftrightarrow>
     (cands evs nodes i = {} \<and> rn_Depth (nodes ! i) = 0 \<and> rn_ParentID (nodes ! i) = [] \<or>
      (\<exists>j k. (j, k) \<in> cands evs nodes i \<and> rn_ParentID (nodes ! i) = nodeID k \<and>
         rn_Depth (nodes ! i) = rn_Depth (nodes ! j) + 1 \<and>
         (\<forall>j' k'. (j', k') \<in> cands evs nodes i \<longrightarrow> rn_Depth (nodes ! j') \<le> rn_Depth (nodes ! j))))"

definition pick :: "int \<times> string \<Rightarrow> int \<times> string \<Rightarrow> int \<times> string" where
  "pick st c = (if fst c > fst st then c else st)"

lemma scanPrev_pick:
  "scanPrev depKey pid ps st = foldl pick st (map (\<lambda>prev. (rn_Depth prev, pid)) (filter (\<lambda>prev. nodeKey prev = depKey) ps))"
  by (induction depKey pid ps st rule: scanPrev.induct) (auto simp: pick_def nodeKey_def)

definition depCands :: "string \<Rightarrow> rawComputeNode list \<Rightarrow> (string, string) gomap \<Rightarrow> string \<Rightarrow> (int \<times> string) list" where
  "depCands model nodes m dep =
     (case map_of m (fieldKey model dep) of
        None \<Rightarrow> []
      | Some pid \<Rightarrow> map (\<lambda>prev. (rn_Depth prev, pid)) (filter (\<lambda>prev. nodeKey prev = fieldKey model dep) nodes))"

lemma scanDeps_pick:
  "scanDeps model nodes m deps st = foldl pick st (concat (map (depCands model nodes m) deps))"
  by (induction model nodes m deps st rule: scanDeps.induct)
     (auto simp: depCands_def scanPrev_pick split: option.splits)

lemma foldl_pick:
  "(foldl pick st cs = st \<and> (\<forall>c\<in>set cs. fst c \<le> fst st)) \<or>
   (foldl pick st cs \<in> set cs \<and> fst st < fst (foldl pick st cs) \<and> (\<forall>c\<in>set cs. fst c \<le> fst (foldl pick st cs)))"
proof (induction cs arbitrary: st)
  case (Cons c cs)
  show ?case using Cons.IH [of "pick st c"] by (auto simp: pick_def split: if_splits)
qed simp

lemma depCands_iff:
  "(d, pid) \<in> set (concat (map (depCands model nodes m) deps)) \<longleftrightarrow>
     (\<exists>prev\<in>set nodes. rn_Depth prev = d \<and> nodeKey prev \<in> fieldKey model ` set deps \<and> map_of m (nodeKey prev) = Some pid)"
  by (force simp: depCands_def split: option.splits)

lemma nodeID_nonempty [simp]: "nodeID i \<noteq> []"
  by (simp add: nodeID_def)

lemma decDigits_inject: "0 \<le> i \<Longrightarrow> 0 \<le> j \<Longrightarrow> decDigits i = decDigits j \<Longrightarrow> i = j"
  by (metis digitsVal_decDigits)

lemma nodeID_inject [simp]: "nodeID i = nodeID j \<longleftrightarrow> i = j"
  using decDigits_inject [of "int i" "int j"] by (auto simp: nodeID_def Itoa_def)

definition nodeFrom :: "ProfilerEvent \<Rightarrow> int \<times> string \<Rightarrow> rawComputeNode" where
  "nodeFrom ev dp =
     \<lparr> rn_Model = pe_Model ev, rn_FieldName = pe_FieldName ev, rn_Method = pe_Method ev,
       rn_Module = pe_Module ev, rn_DurationMS = pe_DurationMS ev, rn_DependsOn = pe_DependsOn ev,
       rn_TriggerField = pe_TriggerField ev, rn_SQLCount = 0, rn_Depth = fst dp, rn_ParentID = snd dp \<rparr>"

definition chainInv :: "ProfilerEvent list \<Rightarrow> rawComputeNode list \<Rightarrow> (string, string) gomap \<Rightarrow> bool" where
  "chainInv evs nodes m \<longleftrightarrow>
     length nodes = length evs \<and> regInv evs m \<and>
     (\<forall>i<length evs. 0 \<le> rn_Depth (nodes ! i) \<and> parentSpec evs nodes i \<and>
        nodes ! i = nodeFrom (evs ! i) (rn_Depth (nodes ! i), rn_ParentID (nodes ! i)))"

lemma lastReg_append: "i < length evs \<Longrightarrow> lastReg (evs @ es) i k key = lastReg evs i k key"
  by (auto simp: lastReg_def nth_append)

lemma cands_append:
  "i < length evs \<Longrightarrow> length nodes = length evs \<Longrightarrow> cands (evs @ es) (nodes @ ns) i = cands evs nodes i"
  by (auto simp: cands_def lastReg_append nth_append)

lemma parentSpec_append:
  assumes "i < length evs" "length nodes = length evs"
  shows "parentSpec (evs @ es) (nodes @ ns) i = parentSpec evs nodes i"
proof -
  have "(nodes @ ns) ! j = nodes ! j" if "(j, k) \<in> cands evs nodes i" for j k
    using that assms by (auto simp: cands_def nth_append)
  moreover have "(nodes @ ns) ! i = nodes ! i" using assms by (simp add: nth_append)
  ultimately show ?thesis
    unfolding parentSpec_def cands_append [OF assms] by (metis)
qed

lemma regInv_snoc:
  assumes "regInv evs m"
  shows "regInv (evs @ [ev]) (AList.update (regKey ev) (nodeID (length evs)) m)"
proof -
  have old: "lastReg (evs @ [ev]) (length evs) k key \<longleftrightarrow>
      (if key = regKey ev then k = length evs else evs \<noteq> [] \<and> lastReg evs (length evs - 1) k key)" for k key
  proof (cases "k < length evs")
    case True
    have "l \<le> length evs \<longleftrightarrow> l = length evs \<or> l \<le> length evs - 1" for l
      using True by linarith
    moreover have "regKey ((evs @ [ev]) ! l) = regKey (evs ! l)" if "l \<le> length evs - 1" for l
    proof -
      have "l < length evs" using that True by linarith
      then show ?thesis by (simp add: nth_append)
    qed
    ultimately have "(\<forall>l. k < l \<and> l \<le> length evs \<longrightarrow> regKey ((evs @ [ev]) ! l) \<noteq> key) \<longleftrightarrow>
        regKey ev \<noteq> key \<and> (\<forall>l. k < l \<and> l \<le> length evs - 1 \<longrightarrow> regKey (evs ! l) \<noteq> key)"
      using True by (metis nth_append_length)
    with True show ?thesis by (auto simp: lastReg_def nth_append)
  next
    case False
    then have "evs \<noteq> [] \<Longrightarrow> \<not> k \<le> length evs - 1" by (cases evs) auto
    with False show ?thesis by (cases "evs = []") (auto simp: lastReg_def nth_append)
  qed
  show ?thesis
    using assms by (auto simp: regInv_def old update_conv')
qed

lemma parentSpec_snoc:
  assumes inv: "chainInv evs nodes m" and m': "regInv (evs @ [ev]) m'"
  defines "dp \<equiv> determineDepthAndParent ev nodes m'"
  shows "parentSpec (evs @ [ev]) (nodes @ [nodeFrom ev dp]) (length evs) \<and> 0 \<le> fst dp"
proof -
  have len: "length nodes = length evs" and pos: "\<And>j. j < length nodes \<Longrightarrow> 0 \<le> rn_Depth (nodes ! j)"
    using inv by (auto simp: chainInv_def)
  define cs where "cs = concat (map (depCands (pe_Model ev) nodes m') (pe_DependsOn ev))"
  define C where "C = cands (evs @ [ev]) (nodes @ [nodeFrom ev dp]) (length evs)"
  have C_iff: "(j, k) \<in> C \<longleftrightarrow> j < length nodes \<and> nodeKey (nodes ! j) \<in> depKeys ev \<and>
      lastReg (evs @ [ev]) (length evs) k (nodeKey (nodes ! j))" for j k
    using len by (auto simp: C_def cands_def nth_append)
  have reg: "map_of m' key = Some v \<longleftrightarrow> (\<exists>k. lastReg (evs @ [ev]) (length evs) k key \<and> v = nodeID k)" for key v
    using m' by (simp add: regInv_def)
  have cs_iff: "(d, pid) \<in> set cs \<longleftrightarrow> (\<exists>j k. (j, k) \<in> C \<and> rn_Depth (nodes ! j) = d \<and> pid = nodeID k)" for d pid
    unfolding cs_def depCands_iff C_iff depKeys_def reg by (fastforce simp: in_set_conv_nth)
  have dp: "dp = (case foldl pick (- 1, []) cs of (d, p) \<Rightarrow> (if p \<noteq> [] then d + 1 else 0, p))"
    by (simp add: dp_def determineDepthAndParent_def scanDeps_pick cs_def)
  have nth: "(nodes @ [nodeFrom ev dp]) ! j = nodes ! j" if "(j, k) \<in> C" for j k
    using that by (simp add: C_iff nth_append)
  have last: "(nodes @ [nodeFrom ev dp]) ! length evs = nodeFrom ev dp"
    using len by (metis nth_append_length)
  have ge: "0 \<le> fst c" if c: "c \<in> set cs" for c
  proof -
    obtain j k where "(j, k) \<in> C" "rn_Depth (nodes ! j) = fst c"
      using c cs_iff [of "fst c" "snd c"] by auto
    then show ?thesis using pos [of j] by (simp add: C_iff)
  qed
  show ?thesis
  proof (cases "cs = []")
    case True
    then have "C = {}" using cs_iff by auto
    moreover have "dp = (0, [])" using True by (simp add: dp)
    ultimately show ?thesis
      unfolding parentSpec_def last C_def [symmetric] by (simp add: nodeFrom_def)
  next
    case False
    let ?r = "foldl pick (- 1, []) cs"
    obtain c where "c \<in> set cs" using False by (cases cs) auto
    with ge [of c] foldl_pick [of "(- 1, [])" cs]
    have r: "?r \<in> set cs" and max: "\<forall>c\<in>set cs. fst c \<le> fst ?r" by force+
    obtain j k where jk: "(j, k) \<in> C" "rn_Depth (nodes ! j) = fst ?r" "snd ?r = nodeID k"
      using r cs_iff [of "fst ?r" "snd ?r"] by auto
    have le: "rn_Depth (nodes ! j') \<le> fst ?r" if "(j', k') \<in> C" for j' k'
      using max cs_iff [of "rn_Depth (nodes ! j')" "nodeID k'"] that by force
    have "?r = (rn_Depth (nodes ! j), nodeID k)" using jk by (simp add: prod_eq_iff)
    then have dp': "dp = (rn_Depth (nodes ! j) + 1, nodeID k)" by (simp add: dp)
    have "0 \<le> fst ?r" by (rule ge [OF r])
    moreover have "parentSpec (evs @ [ev]) (nodes @ [nodeFrom ev dp]) (length evs)"
      unfolding parentSpec_def last C_def [symmetric]
      using jk le nth by (intro disjI2 exI [of _ j] exI [of _ k]) (auto simp: dp' nodeFrom_def)
    ultimately show ?thesis using dp' jk by simp
  qed
qed

lemma chainInv_snoc:
  fixes ev :: ProfilerEvent
  assumes "chainInv evs nodes m"
  defines "m' \<equiv> AList.update (regKey ev) (nodeID (length nodes)) m"
  shows "chainInv (evs @ [ev]) (nodes @ [nodeFrom ev (determineDepthAndParent ev nodes m')]) m'"
proof -
  have len: "length nodes = length evs" and reg: "regInv evs m" using assms by (auto simp: chainInv_def)
  have m': "regInv (evs @ [ev]) m'" unfolding m'_def len by (rule regInv_snoc [OF reg])
  note new = parentSpec_snoc [OF assms(1) m']
  have "i < length (evs @ [ev]) \<Longrightarrow> i < length evs \<or> i = length evs" for i by auto
  with assms(1) m' new show ?thesis
    unfolding chainInv_def
    by (auto simp: parentSpec_append nth_append less_Suc_eq nodeFrom_def)
qed

lemma chainNodes_inv: "chainInv evs0 nodes m \<Longrightarrow> \<exists>m'. chainInv (evs0 @ evs) (chainNodes evs nodes m) m'"
proof (induction evs arbitrary: evs0 nodes m)
  case (Cons ev evs)
  let ?m = "AList.update (regKey ev) (nodeID (length nodes)) m"
  have "chainNodes (ev # evs) nodes m = chainNodes evs (nodes @ [nodeFrom ev (determineDepthAndParent ev nodes ?m)]) ?m"
    by (simp add: Let_def nodeFrom_def regKey_def split: prod.splits)
  with Cons.IH [OF chainInv_snoc [OF Cons.prems, of ev]] show ?case by simp
qed auto

lemma chainNodes_parents: "\<exists>m. chainInv evs (chainNodes evs [] []) m"
proof -
  have "chainInv [] [] []" by (simp add: chainInv_def regInv_def)
  from chainNodes_inv [OF this, of evs] show ?thesis by simp
qed

lemma lastReg_distinct:
  assumes "distinct (map regKey evs)" "i < length evs" "j \<le> i" "regKey (evs ! j) = key"
  shows "lastReg evs i k key \<longleftrightarrow> k = j"
proof -
  have "regKey (evs ! l) = key \<longleftrightarrow> l = j" if "l \<le> i" for l
    using assms that nth_eq_iff_index_eq [OF assms(1), of l j] by simp
  then show ?thesis using assms(3) by (auto simp: lastReg_def)
qed

lemma nodeKey_nodeFrom: "pe_FieldName ev \<noteq> [] \<Longrightarrow> nodeKey (nodeFrom ev dp) = regKey ev"
  by (simp add: nodeKey_def nodeFrom_def regKey_def keyField_def)

lemma cands_distinct:
  assumes "chainInv evs nodes m" "distinct (map regKey evs)" "\<forall>ev\<in>set evs. pe_FieldName ev \<noteq> []" "i < length evs"
  shows "cands evs nodes i = {(j, k). k = j \<and> j < i \<and> regKey (evs ! j) \<in> depKeys (evs ! i)}"
proof -
  have "nodeKey (nodes ! j) = regKey (evs ! j)" if "j < i" for j
    using assms that nodeKey_nodeFrom [of "evs ! j"] unfolding chainInv_def by (metis nth_mem order.strict_trans)
  moreover have "lastReg evs i k (regKey (evs ! j)) \<longleftrightarrow> k = j" if "j < i" for j k
    using lastReg_distinct [OF assms(2,4) _ refl] that by simp
  ultimately show ?thesis by (auto simp: cands_def)
qed


definition computeEvent :: "string \<Rightarrow> string list \<Rightarrow> int \<Rightarrow> int \<Rightarrow> ProfilerEvent" where
  "computeEvent field deps ms t =
     \<lparr> pe_Category = ''python'', pe_Model = ''sale.order'', pe_Method = ''_compute'', pe_DurationMS = ms,
       pe_IsError = False, pe_IsN1 = False, pe_SQL = [], pe_Module = ''sale'', pe_Traceback = [], pe_UserID = 1,
       pe_Timestamp = t, pe_FieldName = field, pe_IsCompute = True, pe_DependsOn = deps, pe_TriggerField = [] \<rparr>"


text \<open>
  A field that depends on itself, as recursive fields do, and is computed twice becomes its own parent: the
  node is registered before its parent is searched.
\<close>

lemma self_parent:
  "rn_ParentID (chainNodes [computeEvent ''child_ids'' [''child_ids''] 5 0, computeEvent ''child_ids'' [''child_ids''] 7 1] [] [] ! 1)
   = nodeID 1"
  by (simp add: fieldKey_def keyField_def computeEvent_def determineDepthAndParent_def)

subsection \<open>From the events to the chain of the recording\<close>

lemma buildComputeNodes_nodes:
  "fst (buildComputeNodes th i rns m st) = map2 (nodeOf th) [i..<i + length rns] rns"
proof (induction rns arbitrary: i m st)
  case (Cons rn rns)
  show ?case
    using Cons.IH [of "Suc i" "AList.update (fieldKey (rn_Model rn) (rn_FieldName rn)) (nodeID i) m" "statStep th i rn st"]
    by (simp add: upt_conv_Cons del: upt_Suc split: prod.splits) auto
qed simp

lemma buildComputeNodes_sums:
  "st_totalMS (fst (snd (buildComputeNodes th i rns m st))) = st_totalMS st + sum_list (map rn_DurationMS rns)"
  "st_bottleneckCnt (fst (snd (buildComputeNodes th i rns m st))) =
     st_bottleneckCnt st + int (length (filter (\<lambda>rn. th \<le> rn_DurationMS rn) rns))"
  "st_maxDepth (fst (snd (buildComputeNodes th i rns m st))) = fold (max \<circ> rn_Depth) rns (st_maxDepth st)"
  by (induction th i rns m st rule: buildComputeNodes.induct) (auto simp: statStep_def max_def split: prod.splits)

lemma buildComputeNodes_slowest:
  assumes "buildComputeNodes th i rns m st = (nodes, st', m')"
  shows "st_slowestMS st \<le> st_slowestMS st' \<and> (\<forall>rn\<in>set rns. rn_DurationMS rn \<le> st_slowestMS st') \<and>
    ((st_slowestMS st' = st_slowestMS st \<and> st_slowestNodeID st' = st_slowestNodeID st) \<or>
     (\<exists>n\<in>set nodes. cn_ID n = st_slowestNodeID st' \<and> cn_DurationMS n = st_slowestMS st'))"
  using assms
proof (induction th i rns m st arbitrary: nodes rule: buildComputeNodes.induct)
  case (2 th i rn rns m st)
  obtain nodes2 where "buildComputeNodes th (Suc i) rns
      (AList.update (fieldKey (rn_Model rn) (rn_FieldName rn)) (nodeID i) m) (statStep th i rn st) = (nodes2, st', m')"
    and "nodes = nodeOf th i rn # nodes2"
    using "2.prems" by (auto split: prod.splits)
  with "2.IH" [OF this(1)] show ?case by (auto simp: statStep_def nodeOf_def split: if_splits)
qed auto

lemma buildComputeNodes_map:
  "map_of (snd (snd (buildComputeNodes th i rns m st))) key = Some v \<Longrightarrow>
     map_of m key = Some v \<or> v \<in> nodeID ` {i..<i + length rns}"
proof (induction rns arbitrary: i m st)
  case (Cons rn rns)
  have "map_of (AList.update (fieldKey (rn_Model rn) (rn_FieldName rn)) (nodeID i) m) key = Some v \<or>
      v \<in> nodeID ` {Suc i..<Suc i + length rns}"
    using Cons.IH [of "Suc i" "AList.update (fieldKey (rn_Model rn) (rn_FieldName rn)) (nodeID i) m" "statStep th i rn st"]
      Cons.prems by (auto split: prod.splits)
  then show ?case by (auto simp: update_conv' split: if_splits)
qed simp

lemma buildComputeEdges_ends:
  assumes "\<And>key v. map_of m key = Some v \<Longrightarrow> v \<in> A"
    and "\<And>rn. rn \<in> set rns \<Longrightarrow> rn_ParentID rn \<noteq> [] \<Longrightarrow> rn_ParentID rn \<in> A"
    and "nodeID ` {i..<i + length rns} \<subseteq> A"
    and "e \<in> set (buildComputeEdges i rns m)"
  shows "ce_From e \<in> A \<and> ce_To e \<in> A"
  using assms
proof (induction i rns m rule: buildComputeEdges.induct)
  case (2 i rn rns m)
  have "nodeID i \<in> A" "nodeID ` {Suc i..<Suc i + length rns} \<subseteq> A"
    using "2.prems"(3) by auto
  with 2 show ?case
    by (auto simp: depEdges_def List.map_filter_def split: if_splits option.splits)
qed simp

lemma chainNodes_copies:
  "map (\<lambda>rn. (rn_Model rn, rn_FieldName rn, rn_Method rn, rn_DurationMS rn)) (chainNodes evs [] []) =
   map (\<lambda>ev. (pe_Model ev, pe_FieldName ev, pe_Method ev, pe_DurationMS ev)) evs"
proof -
  obtain m where "chainInv evs (chainNodes evs [] []) m" using chainNodes_parents by blast
  then show ?thesis
    unfolding chainInv_def by (intro nth_equalityI) (auto, (metis nodeFrom_def rawComputeNode.select_convs)+)
qed

lemma chainNodes_parent_ids:
  assumes "rn \<in> set (chainNodes evs [] [])" "rn_ParentID rn \<noteq> []"
  shows "rn_ParentID rn \<in> nodeID ` {0..<length evs}"
proof -
  obtain m where inv: "chainInv evs (chainNodes evs [] []) m" using chainNodes_parents by blast
  then obtain i where i: "i < length evs" "rn = chainNodes evs [] [] ! i"
    using assms(1) by (auto simp: in_set_conv_nth chainInv_def)
  with inv assms(2) obtain k where "k \<le> i" "rn_ParentID rn = nodeID k"
    unfolding chainInv_def parentSpec_def cands_def lastReg_def by auto
  with i show ?thesis by auto
qed

lemma buildComputeNodes_report:
  assumes b: "buildComputeNodes th 0 ns [] zeroStats = (nodes, stats, m)"
  shows "map (\<lambda>n. (cn_Model n, cn_FieldName n, cn_Method n, cn_DurationMS n)) nodes =
      map (\<lambda>rn. (rn_Model rn, rn_FieldName rn, rn_Method rn, rn_DurationMS rn)) ns"
    and "map cn_ID nodes = map nodeID [0..<length ns]"
    and "st_totalMS stats = sum_list (map rn_DurationMS ns)"
    and "st_bottleneckCnt stats = int (length (filter cn_IsBottleneck nodes))"
    and "\<forall>n\<in>set nodes. cn_DurationMS n \<le> st_slowestMS stats"
    and "map_of m key = Some v \<Longrightarrow> v \<in> nodeID ` {0..<length ns}"
proof -
  have nodes: "nodes = map2 (nodeOf th) [0..<length ns] ns"
    using buildComputeNodes_nodes [of th 0 ns "[]" zeroStats] by (simp add: b)
  show "map (\<lambda>n. (cn_Model n, cn_FieldName n, cn_Method n, cn_DurationMS n)) nodes =
      map (\<lambda>rn. (rn_Model rn, rn_FieldName rn, rn_Method rn, rn_DurationMS rn)) ns"
    unfolding nodes by (rule nth_equalityI) (simp_all add: nodeOf_def)
  show "map cn_ID nodes = map nodeID [0..<length ns]"
    unfolding nodes by (rule nth_equalityI) (simp_all add: nodeOf_def)
  show "st_totalMS stats = sum_list (map rn_DurationMS ns)"
    using buildComputeNodes_sums(1) [of th 0 ns "[]" zeroStats] unfolding b by (simp add: zeroStats_def)
  have flags: "map cn_IsBottleneck nodes = map (\<lambda>rn. th \<le> rn_DurationMS rn) ns"
    unfolding nodes by (rule nth_equalityI) (simp_all add: nodeOf_def)
  show "st_bottleneckCnt stats = int (length (filter cn_IsBottleneck nodes))"
    using buildComputeNodes_sums(2) [of th 0 ns "[]" zeroStats] arg_cong [OF flags, of "length \<circ> filter (\<lambda>x. x)"]
    unfolding b by (simp add: zeroStats_def filter_map comp_def)
  show "\<forall>n\<in>set nodes. cn_DurationMS n \<le> st_slowestMS stats"
    using buildComputeNodes_slowest [OF b] by (force simp: nodes nodeOf_def set_zip)
  show "map_of m key = Some v \<Longrightarrow> v \<in> nodeID ` {0..<length ns}"
    using buildComputeNodes_map [of th 0 ns "[]" zeroStats key v] by (simp add: b)
qed

text \<open>
  The chain shown for a recording agrees with the events it was built from, provided the stored nodes
  are read back as they were written and sorting permutes the events. It has one node per
  compute event, with that event's model, field, method and duration; its total is the sum of the
  durations; the counted bottlenecks are the flagged nodes; no node is slower than the slowest one
  named; and both ends of every edge are nodes of the chain.
\<close>

theorem compute_chain_roundtrip:
  fixes sorter :: "ProfilerEvent list \<Rightarrow> ProfilerEvent list" and events :: "ProfilerEvent list"
  defines "evs \<equiv> filterComputeEvents events"
  assumes sorter: "mset (sorter evs) = mset evs"
    and stored: "marshal (chainNodes (sorter evs) [] []) = Inr raw" "\<not> isNull raw"
      "unmarshal raw = Inr (chainNodes (sorter evs) [] [])"
    and some: "evs \<noteq> []"
  shows "\<exists>c. BuildComputeChain isNull unmarshal (BuildComputeChainFromEvents sorter marshal events) = Some c \<and>
    mset (map (\<lambda>n. (cn_Model n, cn_FieldName n, cn_Method n, cn_DurationMS n)) (cc_Nodes c)) =
      mset (map (\<lambda>ev. (pe_Model ev, pe_FieldName ev, pe_Method ev, pe_DurationMS ev)) evs) \<and>
    map cn_ID (cc_Nodes c) = map nodeID [0..<length evs] \<and>
    cs_NodeCount (cc_Summary c) = int (length evs) \<and>
    cs_TotalMS (cc_Summary c) = sum_list (map pe_DurationMS evs) \<and>
    cs_BottleneckCount (cc_Summary c) = int (length (filter cn_IsBottleneck (cc_Nodes c))) \<and>
    (\<forall>n\<in>set (cc_Nodes c). cn_DurationMS n \<le> cs_SlowestMS (cc_Summary c)) \<and>
    (\<forall>e\<in>set (cc_Edges c). ce_From e \<in> cn_ID ` set (cc_Nodes c) \<and> ce_To e \<in> cn_ID ` set (cc_Nodes c))"
proof -
  define ns where "ns = chainNodes (sorter evs) [] []"
  obtain nodes stats m where b: "buildComputeNodes (bottleneckThreshold ns) 0 ns [] zeroStats = (nodes, stats, m)"
    by (metis surj_pair)
  note report = buildComputeNodes_report [OF b]
  define c where "c = \<lparr> cc_Nodes = nodes, cc_Edges = buildComputeEdges 0 ns m,
      cc_Summary = \<lparr> cs_TotalMS = st_totalMS stats, cs_NodeCount = int (length nodes),
        cs_MaxDepth = st_maxDepth stats, cs_BottleneckCount = st_bottleneckCnt stats,
        cs_SlowestNode = st_slowestNodeID stats, cs_SlowestMS = st_slowestMS stats, cs_TriggerField = rootTrigger ns \<rparr> \<rparr>"
  have len: "length (sorter evs) = length evs" using sorter by (metis size_mset)
  have lenns: "length ns = length evs"
    using arg_cong [OF chainNodes_copies [of "sorter evs"], of length] len by (simp add: ns_def)
  have result: "BuildComputeChain isNull unmarshal (BuildComputeChainFromEvents sorter marshal events) = Some c"
    using stored some lenns
    by (auto simp: BuildComputeChain_def BuildComputeChainFromEvents_def evs_def [symmetric] ns_def [symmetric] b c_def Let_def)
  have "map rn_DurationMS ns = map pe_DurationMS (sorter evs)"
    using arg_cong [OF chainNodes_copies [of "sorter evs"], of "map (snd \<circ> snd \<circ> snd)"]
    by (simp add: ns_def comp_def)
  then have total: "st_totalMS stats = sum_list (map pe_DurationMS evs)"
    using report(3) sorter by simp (metis mset_map sum_mset_sum_list)
  have copies: "mset (map (\<lambda>n. (cn_Model n, cn_FieldName n, cn_Method n, cn_DurationMS n)) nodes) =
      mset (map (\<lambda>ev. (pe_Model ev, pe_FieldName ev, pe_Method ev, pe_DurationMS ev)) evs)"
    using report(1) chainNodes_copies [of "sorter evs"] sorter by (simp add: ns_def [symmetric])
  have ids: "cn_ID ` set nodes = nodeID ` {0..<length ns}"
    using arg_cong [OF report(2), of set] by simp
  have edges: "ce_From e \<in> cn_ID ` set nodes \<and> ce_To e \<in> cn_ID ` set nodes" if "e \<in> set (buildComputeEdges 0 ns m)" for e
    unfolding ids using chainNodes_parent_ids [of _ "sorter evs"] report(6) len lenns
    by (intro buildComputeEdges_ends [OF _ _ _ that]) (simp_all add: ns_def [symmetric])
  have "length nodes = length evs" using arg_cong [OF report(2), of length] lenns by simp
  then show ?thesis
    using result copies report(2,4,5) total edges
    by (intro exI [of _ c] conjI) (auto simp: c_def lenns)
qed

lemma compute_chain_roundtrip_witness:
  "\<exists>c. BuildComputeChain (\<lambda>_. False) (Inr :: _ \<Rightarrow> string + _)
     (BuildComputeChainFromEvents (sort_key pe_Timestamp) (Inr :: _ \<Rightarrow> string + _)
       [computeEvent ''total'' [''price''] 7 1, computeEvent ''price'' [] 5 0]) = Some c \<and>
   cs_TotalMS (cc_Summary c) = 12"
proof -
  let ?evs = "[computeEvent ''total'' [''price''] 7 1, computeEvent ''price'' [] 5 0]"
  have evs: "filterComputeEvents ?evs = ?evs" by (simp add: filterComputeEvents_def computeEvent_def)
  have sum: "sum_list (map pe_DurationMS ?evs) = 12" by (simp add: computeEvent_def)
  have nonempty: "filterComputeEvents ?evs \<noteq> []" by (simp only: evs) simp
  have "\<not> False" by simp
  then obtain c where "BuildComputeChain (\<lambda>_. False) (Inr :: _ \<Rightarrow> string + _) (BuildComputeChainFromEvents (sort_key pe_Timestamp) (Inr :: _ \<Rightarrow> string + _) ?evs) = Some c"
    "cs_TotalMS (cc_Summary c) = sum_list (map pe_DurationMS (filterComputeEvents ?evs))"
    using compute_chain_roundtrip [of "sort_key pe_Timestamp" ?evs "Inr :: _ \<Rightarrow> string + _" _ "\<lambda>_. False" "Inr :: _ \<Rightarrow> string + _",
        OF mset_sort refl _ refl nonempty] by blast
  then show ?thesis unfolding evs sum by blast
qed

end
