(* ===== verification/Profiler_Waterfall.thy ===== *)
theory Profiler_Waterfall
  imports Compute_Chain Go_Float
begin

text \<open>
  The waterfall of the profiler service (\<^verbatim>\<open>internal/service/profiler_service.go\<close>, first half). The ingest worker
  turns the events of a batch into raw spans and N+1 patterns, stored as JSON, and totals for the row
  (\<open>BuildWaterfallFromEvents\<close>); a request for the recording turns them into spans, lanes and a summary
  (\<open>BuildWaterfall\<close>).

  The parameters are \<^verbatim>\<open>encoding/json\<close> (\<open>marshal\<close>, \<open>unmarshal\<close>), \<^verbatim>\<open>sort.Slice\<close> on events, spans and lanes, and
  the order in which Go iterates over a map. Times are in nanoseconds; a recording is far shorter than the 292 years
  at which \<^verbatim>\<open>Time.Sub\<close> saturates, and sums of milliseconds stay far below the range of \<^verbatim>\<open>int\<close>.
\<close>

subsection \<open>Data\<close>

record rawSpan =
  rs_Label :: string
  rs_Category :: string
  rs_MS :: int
  rs_StartMS :: int
  rs_Model :: string
  rs_Method :: string
  rs_Module :: string
  rs_SQL :: string
  rs_IsN1 :: bool
  rs_IsError :: bool
  rs_ParentID :: string
  rs_DurationMS :: int

record n1Pattern =
  np_Model :: string
  np_Method :: string
  np_SQL :: string
  np_Count :: int
  np_TotalMS :: int

record WaterfallSpan =
  ws_ID :: string
  ws_Category :: string
  ws_Label :: string
  ws_StartMS :: int
  ws_DurationMS :: int
  ws_Module :: string
  ws_Model :: string
  ws_Method :: string
  ws_SQL :: string
  ws_IsN1 :: bool
  ws_IsError :: bool
  ws_ParentID :: string
  ws_Depth :: int

record WaterfallSummary =
  wm_TotalMS :: int
  wm_SQLMS :: int
  wm_SQLCount :: int
  wm_PythonMS :: int
  wm_ORMMS :: int
  wm_ORMCount :: int
  wm_N1Count :: int
  wm_N1MS :: int
  wm_ErrorCount :: int
  wm_SpanCount :: int
  wm_CriticalSQL :: string

record WaterfallLane =
  wl_Category :: string
  wl_Label :: string
  wl_Pct :: go_float
  wl_TotalMS :: int

record Waterfall =
  wf_Spans :: "WaterfallSpan list"
  wf_Lanes :: "WaterfallLane list"
  wf_Summary :: WaterfallSummary

record WaterfallMeta =
  mt_TotalMS :: int
  mt_SQLCount :: int
  mt_SQLMS :: int
  mt_PythonMS :: int

definition catSQL :: string where "catSQL = ''sql''"
definition catORM :: string where "catORM = ''orm''"
definition catPython :: string where "catPython = ''python''"
definition catRPC :: string where "catRPC = ''rpc''"
definition catHTTP :: string where "catHTTP = ''http''"

lemmas cat_defs = catSQL_def catORM_def catPython_def catRPC_def catHTTP_def

subsection \<open>Helpers\<close>

definition inferCategory :: "string \<Rightarrow> string" where
  "inferCategory label =
     (if label = ''SQL'' \<or> label = catSQL then catSQL
      else if label = ''ORM'' \<or> label = catORM then catORM
      else if label = ''Python'' \<or> label = catPython then catPython
      else if label = ''RPC'' \<or> label = catRPC then catRPC
      else if label = ''HTTP'' \<or> label = catHTTP then catHTTP
      else catPython)"

definition categoryLabel :: "string \<Rightarrow> string" where
  "categoryLabel cat =
     (if cat = catSQL then ''SQL Queries''
      else if cat = catORM then ''ORM Calls''
      else if cat = catPython then ''Python Execution''
      else if cat = catRPC then ''RPC Calls''
      else if cat = catHTTP then ''HTTP Requests''
      else cat)"

definition buildLabel :: "rawSpan \<Rightarrow> string" where
  "buildLabel rs =
     (if rs_Label rs \<noteq> [] then rs_Label rs
      else if rs_Model rs \<noteq> [] \<and> rs_Method rs \<noteq> [] then rs_Model rs @ ''.'' @ rs_Method rs
      else if rs_Model rs \<noteq> [] then rs_Model rs
      else rs_Category rs)"

definition truncateSQL :: "string \<Rightarrow> string" where
  "truncateSQL sql = (if length sql \<le> 200 then sql else take 200 sql @ ''...'')"

definition n1Key :: "string \<Rightarrow> string \<Rightarrow> string" where
  "n1Key model method = model @ '':'' @ method"

definition parseN1Patterns :: "('json \<Rightarrow> 'e + n1Pattern list) \<Rightarrow> 'json option \<Rightarrow> (string, n1Pattern) gomap" where
  "parseN1Patterns unmarshalN1 n1JSON =
     (case n1JSON of
        None \<Rightarrow> []
      | Some j \<Rightarrow> (case unmarshalN1 j of
          Inl _ \<Rightarrow> []
        | Inr patterns \<Rightarrow> foldl (\<lambda>m p. AList.update (n1Key (np_Model p) (np_Method p)) p m) [] patterns))"

definition zeroWaterfallSummary :: WaterfallSummary where
  "zeroWaterfallSummary = \<lparr> wm_TotalMS = 0, wm_SQLMS = 0, wm_SQLCount = 0, wm_PythonMS = 0, wm_ORMMS = 0, wm_ORMCount = 0,
     wm_N1Count = 0, wm_N1MS = 0, wm_ErrorCount = 0, wm_SpanCount = 0, wm_CriticalSQL = [] \<rparr>"

definition emptyWaterfall :: "int \<Rightarrow> Waterfall" where
  "emptyWaterfall totalMS = \<lparr> wf_Spans = [], wf_Lanes = [], wf_Summary = zeroWaterfallSummary \<lparr> wm_TotalMS := totalMS \<rparr> \<rparr>"

subsection \<open>Spans\<close>

definition spanID :: "nat \<Rightarrow> string" where
  "spanID i = ''span-'' @ Itoa (int i)"

definition spanIsN1 :: "(string, n1Pattern) gomap \<Rightarrow> rawSpan \<Rightarrow> bool" where
  "spanIsN1 n1Map rs \<longleftrightarrow> rs_IsN1 rs \<or> map_of n1Map (n1Key (rs_Model rs) (rs_Method rs)) \<noteq> None"

fun buildDetailedSpans :: "nat \<Rightarrow> rawSpan list \<Rightarrow> (string, n1Pattern) gomap \<Rightarrow> WaterfallSpan list" where
  "buildDetailedSpans i [] n1Map = []"
| "buildDetailedSpans i (rs # rss) n1Map =
     \<lparr> ws_ID = spanID i,
       ws_Category = (if rs_Category rs = [] then inferCategory (rs_Label rs) else rs_Category rs),
       ws_Label = buildLabel rs, ws_StartMS = rs_StartMS rs,
       ws_DurationMS = (if rs_DurationMS rs = 0 then rs_MS rs else rs_DurationMS rs),
       ws_Module = rs_Module rs, ws_Model = rs_Model rs, ws_Method = rs_Method rs, ws_SQL = truncateSQL (rs_SQL rs),
       ws_IsN1 = spanIsN1 n1Map rs, ws_IsError = rs_IsError rs, ws_ParentID = rs_ParentID rs,
       ws_Depth = (if rs_ParentID rs \<noteq> [] then 1 else 0) \<rparr> # buildDetailedSpans (Suc i) rss n1Map"

fun buildSimpleSpans :: "nat \<Rightarrow> int \<Rightarrow> rawSpan list \<Rightarrow> (string, n1Pattern) gomap \<Rightarrow> WaterfallSpan list" where
  "buildSimpleSpans i offset [] n1Map = []"
| "buildSimpleSpans i offset (rs # rss) n1Map =
     (let duration = (if rs_MS rs = 0 then rs_DurationMS rs else rs_MS rs) in
      \<lparr> ws_ID = spanID i, ws_Category = inferCategory (rs_Label rs), ws_Label = buildLabel rs, ws_StartMS = offset,
        ws_DurationMS = duration, ws_Module = rs_Module rs, ws_Model = rs_Model rs, ws_Method = rs_Method rs,
        ws_SQL = truncateSQL (rs_SQL rs), ws_IsN1 = spanIsN1 n1Map rs, ws_IsError = rs_IsError rs,
        ws_ParentID = [], ws_Depth = 0 \<rparr> # buildSimpleSpans (Suc i) (offset + duration) rss n1Map)"

subsection \<open>Lanes and summary\<close>

text \<open>
  The accumulator maps a category to its total; \<^verbatim>\<open>order\<close> lists the categories as first met. The label of a
  lane is a function of its category.
\<close>

fun laneAcc :: "WaterfallSpan list \<Rightarrow> (string, int) gomap \<Rightarrow> string list \<Rightarrow> (string, int) gomap \<times> string list" where
  "laneAcc [] acc order = (acc, order)"
| "laneAcc (sp # sps) acc order =
     (let cat = ws_Category sp in
      case map_of acc cat of
        None \<Rightarrow> laneAcc sps (AList.update cat (0 + ws_DurationMS sp) acc) (order @ [cat])
      | Some t \<Rightarrow> laneAcc sps (AList.update cat (t + ws_DurationMS sp) acc) order)"

definition lanePct :: "int \<Rightarrow> int \<Rightarrow> go_float" where
  "lanePct ms totalMS =
     (let total = (if totalMS = 0 then Fin 1 else float64_of_int totalMS)
      in fdiv (fRound (fmul (fdiv (float64_of_int ms) total) (Fin 10000))) (Fin 100))"

definition buildLanes :: "(WaterfallLane list \<Rightarrow> WaterfallLane list) \<Rightarrow> WaterfallSpan list \<Rightarrow> int \<Rightarrow> WaterfallLane list" where
  "buildLanes sortLanes spans totalMS =
     (case laneAcc spans [] [] of
        (acc, order) \<Rightarrow>
          sortLanes (map (\<lambda>cat. \<lparr> wl_Category = cat, wl_Label = categoryLabel cat,
              wl_Pct = lanePct (the (map_of acc cat)) totalMS, wl_TotalMS = the (map_of acc cat) \<rparr>) order))"

text \<open>One turn of the loop of \<^verbatim>\<open>buildSummary\<close>; the state is the summary and \<^verbatim>\<open>maxSQLDuration\<close>.\<close>

definition summaryStep :: "WaterfallSpan \<Rightarrow> WaterfallSummary \<times> int \<Rightarrow> WaterfallSummary \<times> int" where
  "summaryStep sp st =
     (case st of (s, maxSQL) \<Rightarrow>
        let (s, maxSQL) =
              (if ws_Category sp = catSQL then
                 (s \<lparr> wm_SQLMS := wm_SQLMS s + ws_DurationMS sp, wm_SQLCount := wm_SQLCount s + 1,
                      wm_CriticalSQL := (if ws_DurationMS sp > maxSQL then ws_SQL sp else wm_CriticalSQL s) \<rparr>,
                  if ws_DurationMS sp > maxSQL then ws_DurationMS sp else maxSQL)
               else if ws_Category sp = catORM then
                 (s \<lparr> wm_ORMMS := wm_ORMMS s + ws_DurationMS sp, wm_ORMCount := wm_ORMCount s + 1 \<rparr>, maxSQL)
               else if ws_Category sp = catPython then
                 (s \<lparr> wm_PythonMS := wm_PythonMS s + ws_DurationMS sp \<rparr>, maxSQL)
               else (s, maxSQL));
            s = (if ws_IsN1 sp then s \<lparr> wm_N1Count := wm_N1Count s + 1, wm_N1MS := wm_N1MS s + ws_DurationMS sp \<rparr> else s);
            s = (if ws_IsError sp then s \<lparr> wm_ErrorCount := wm_ErrorCount s + 1 \<rparr> else s)
        in (s, maxSQL))"

definition buildSummary :: "WaterfallSpan list \<Rightarrow> int \<Rightarrow> WaterfallSummary" where
  "buildSummary spans totalMS =
     fst (fold summaryStep spans (zeroWaterfallSummary \<lparr> wm_TotalMS := totalMS, wm_SpanCount := int (length spans) \<rparr>, 0))"

subsection \<open>The waterfall of a recording\<close>

definition BuildWaterfall ::
  "('json \<Rightarrow> bool) \<Rightarrow> ('json \<Rightarrow> 'e + rawSpan list) \<Rightarrow> ('json \<Rightarrow> 'e + n1Pattern list) \<Rightarrow>
   (WaterfallSpan list \<Rightarrow> WaterfallSpan list) \<Rightarrow> (WaterfallLane list \<Rightarrow> WaterfallLane list) \<Rightarrow>
   'json \<Rightarrow> int \<Rightarrow> 'json option \<Rightarrow> Waterfall" where
  "BuildWaterfall isNull unmarshal unmarshalN1 sortSpans sortLanes waterfallJSON totalMS n1JSON =
     (if isNull waterfallJSON then emptyWaterfall totalMS
      else case unmarshal waterfallJSON of
        Inl _ \<Rightarrow> emptyWaterfall totalMS
      | Inr rawSpans \<Rightarrow>
          if length rawSpans = 0 then emptyWaterfall totalMS
          else
            (let n1Map = parseN1Patterns unmarshalN1 n1JSON;
                 hasExplicitTiming = list_ex (\<lambda>rs. rs_StartMS rs > 0 \<or> rs_Category rs \<noteq> []) rawSpans;
                 spans = sortSpans (if hasExplicitTiming then buildDetailedSpans 0 rawSpans n1Map
                                    else buildSimpleSpans 0 0 rawSpans n1Map)
             in \<lparr> wf_Spans = spans, wf_Lanes = buildLanes sortLanes spans totalMS,
                  wf_Summary = buildSummary spans totalMS \<rparr>))"

subsection \<open>The stored waterfall of a batch\<close>

definition buildEventLabel :: "ProfilerEvent \<Rightarrow> string" where
  "buildEventLabel ev =
     (if pe_Model ev \<noteq> [] \<and> pe_Method ev \<noteq> [] then pe_Model ev @ ''.'' @ pe_Method ev
      else if pe_Model ev \<noteq> [] then pe_Model ev
      else if pe_SQL ev \<noteq> [] then (if length (pe_SQL ev) > 60 then take 60 (pe_SQL ev) @ ''...'' else pe_SQL ev)
      else pe_Category ev)"

definition eventCategory :: "ProfilerEvent \<Rightarrow> string" where
  "eventCategory ev = (if pe_Category ev = [] then catPython else pe_Category ev)"

definition eventSpan :: "int \<Rightarrow> ProfilerEvent \<Rightarrow> rawSpan" where
  "eventSpan baseTime ev =
     \<lparr> rs_Label = buildEventLabel ev, rs_Category = eventCategory ev, rs_MS = pe_DurationMS ev,
       rs_StartMS = (pe_Timestamp ev - baseTime) sdiv 1000000, rs_Model = pe_Model ev, rs_Method = pe_Method ev,
       rs_Module = pe_Module ev, rs_SQL = truncateSQL (pe_SQL ev), rs_IsN1 = pe_IsN1 ev, rs_IsError = pe_IsError ev,
       rs_ParentID = [], rs_DurationMS = 0 \<rparr>"

definition metaStep :: "ProfilerEvent \<Rightarrow> WaterfallMeta \<Rightarrow> WaterfallMeta" where
  "metaStep ev meta =
     (let meta = meta \<lparr> mt_TotalMS := mt_TotalMS meta + pe_DurationMS ev \<rparr> in
      if eventCategory ev = catSQL then
        meta \<lparr> mt_SQLCount := mt_SQLCount meta + 1, mt_SQLMS := mt_SQLMS meta + pe_DurationMS ev \<rparr>
      else if eventCategory ev = catPython then meta \<lparr> mt_PythonMS := mt_PythonMS meta + pe_DurationMS ev \<rparr>
      else meta)"

definition n1Step :: "ProfilerEvent \<Rightarrow> (string, n1Pattern) gomap \<Rightarrow> (string, n1Pattern) gomap" where
  "n1Step ev n1Patterns =
     (if pe_IsN1 ev then
        let key = n1Key (pe_Model ev) (pe_Method ev) in
        (case map_of n1Patterns key of
           Some p \<Rightarrow>
             AList.update key (p \<lparr> np_Count := np_Count p + 1, np_TotalMS := np_TotalMS p + pe_DurationMS ev \<rparr>) n1Patterns
         | None \<Rightarrow>
             AList.update key \<lparr> np_Model = pe_Model ev, np_Method = pe_Method ev, np_SQL = pe_SQL ev, np_Count = 1,
               np_TotalMS = pe_DurationMS ev \<rparr> n1Patterns)
      else n1Patterns)"

definition zeroMeta :: WaterfallMeta where
  "zeroMeta = \<lparr> mt_TotalMS = 0, mt_SQLCount = 0, mt_SQLMS = 0, mt_PythonMS = 0 \<rparr>"

text \<open>\<open>brackets\<close> is the text \<^verbatim>\<open>[]\<close>, stored when the spans cannot be written; \<open>iter\<close> is the order of the map.\<close>

definition BuildWaterfallFromEvents ::
  "(ProfilerEvent list \<Rightarrow> ProfilerEvent list) \<Rightarrow> (rawSpan list \<Rightarrow> 'e + 'json) \<Rightarrow> (n1Pattern list \<Rightarrow> 'e + 'json) \<Rightarrow> 'json \<Rightarrow>
   ((string, n1Pattern) gomap \<Rightarrow> (string, n1Pattern) gomap) \<Rightarrow> ProfilerEvent list \<Rightarrow> 'json \<times> 'json option \<times> WaterfallMeta" where
  "BuildWaterfallFromEvents sorter marshal marshalN1 brackets iter events =
     (if length events = 0 then
        (case marshal [] of Inl _ \<Rightarrow> (brackets, None, zeroMeta) | Inr j \<Rightarrow> (j, None, zeroMeta))
      else
        let evs = sorter events;
            baseTime = pe_Timestamp (hd evs);
            spans = map (eventSpan baseTime) evs;
            n1Patterns = fold n1Step evs [];
            meta = fold metaStep evs zeroMeta;
            waterfallJSON = (case marshal spans of Inl _ \<Rightarrow> brackets | Inr j \<Rightarrow> j);
            n1JSON = (if length n1Patterns > 0
                      then (case marshalN1 (map snd (iter n1Patterns)) of Inl _ \<Rightarrow> None | Inr j \<Rightarrow> Some j) else None)
        in (waterfallJSON, n1JSON, meta))"

subsection \<open>Lanes\<close>

definition catMS :: "string \<Rightarrow> WaterfallSpan list \<Rightarrow> int" where
  "catMS cat spans = (\<Sum>sp\<leftarrow>spans. if ws_Category sp = cat then ws_DurationMS sp else 0)"

lemma laneAcc_correct:
  assumes "laneAcc sps acc order = (acc', order')" "distinct order" "set order = dom (map_of acc)"
  shows "distinct order' \<and> set order' = set order \<union> ws_Category ` set sps \<and>
    (\<forall>cat\<in>set order'. map_of acc' cat = Some ((case map_of acc cat of None \<Rightarrow> 0 | Some t \<Rightarrow> t) + catMS cat sps))"
  using assms
proof (induction sps acc order rule: laneAcc.induct)
  case (1 acc order)
  then show ?case by (auto simp: catMS_def)
next
  case (2 sp sps acc order)
  let ?cat = "ws_Category sp"
  let ?t = "case map_of acc ?cat of None \<Rightarrow> 0 | Some t \<Rightarrow> t"
  let ?acc = "AList.update ?cat (?t + ws_DurationMS sp) acc"
  let ?order = "if ?cat \<in> set order then order else order @ [?cat]"
  have "laneAcc sps ?acc ?order = (acc', order')"
    using "2.prems"(1,3) by (auto simp: Let_def split: option.splits)
  moreover have "distinct ?order" "set ?order = dom (map_of ?acc)"
    using "2.prems"(2,3) by (auto simp: update_conv')
  ultimately have "distinct order' \<and> set order' = set ?order \<union> ws_Category ` set sps \<and>
      (\<forall>cat\<in>set order'. map_of acc' cat = Some ((case map_of ?acc cat of None \<Rightarrow> 0 | Some t \<Rightarrow> t) + catMS cat sps))"
    using "2.IH" "2.prems"(3) by (cases "map_of acc ?cat") (auto simp: split: if_splits)
  then show ?case by (auto simp: catMS_def update_conv')
qed

lemma laneAcc_start:
  assumes "laneAcc spans [] [] = (acc, order)"
  shows "distinct order" "set order = ws_Category ` set spans"
    "\<And>cat. cat \<in> set order \<Longrightarrow> map_of acc cat = Some (catMS cat spans)"
  using laneAcc_correct [OF assms] by auto

lemma catMS_partition:
  assumes "distinct cats" "ws_Category ` set spans \<subseteq> set cats"
  shows "(\<Sum>cat\<leftarrow>cats. catMS cat spans) = sum_list (map ws_DurationMS spans)"
  using assms(2)
proof (induction spans)
  case (Cons sp spans)
  have "(\<Sum>cat\<leftarrow>cats. if ws_Category sp = cat then ws_DurationMS sp else 0) = ws_DurationMS sp"
    using assms(1) Cons.prems by (simp add: sum_list_distinct_conv_sum_set)
  with Cons show ?case by (simp add: catMS_def sum_list_addf)
qed (simp add: catMS_def)

definition lanesFor :: "WaterfallSpan list \<Rightarrow> WaterfallLane list \<Rightarrow> bool" where
  "lanesFor spans lanes \<longleftrightarrow>
     distinct (map wl_Category lanes) \<and> wl_Category ` set lanes = ws_Category ` set spans \<and>
     (\<forall>l\<in>set lanes. wl_TotalMS l = catMS (wl_Category l) spans) \<and>
     sum_list (map wl_TotalMS lanes) = sum_list (map ws_DurationMS spans)"

lemma buildLanes_correct:
  assumes sort: "\<And>ls. mset (sortLanes ls) = mset ls"
  shows "lanesFor spans (buildLanes sortLanes spans totalMS)"
proof -
  obtain acc order where a: "laneAcc spans [] [] = (acc, order)" by (metis surj_pair)
  note acc = laneAcc_start [OF a]
  define ls where "ls = map (\<lambda>cat. \<lparr> wl_Category = cat, wl_Label = categoryLabel cat,
      wl_Pct = lanePct (catMS cat spans) totalMS, wl_TotalMS = catMS cat spans \<rparr>) order"
  have lanes: "mset (buildLanes sortLanes spans totalMS) = mset ls"
    unfolding buildLanes_def a ls_def prod.case sort by (simp add: acc(3) cong: map_cong del: mset_map)
  have cats: "map wl_Category ls = order" by (simp add: ls_def comp_def)
  have "set (buildLanes sortLanes spans totalMS) = set ls" using lanes by (metis set_mset_mset)
  moreover have "distinct (map wl_Category (buildLanes sortLanes spans totalMS))"
    using lanes cats acc(1) by (metis mset_map mset_eq_imp_distinct_iff)
  moreover have "sum_list (map wl_TotalMS (buildLanes sortLanes spans totalMS)) = sum_list (map wl_TotalMS ls)"
    using lanes by (metis mset_map sum_mset_sum_list)
  moreover have "sum_list (map wl_TotalMS ls) = sum_list (map ws_DurationMS spans)"
    using catMS_partition [OF acc(1), of spans] acc(2) by (simp add: ls_def comp_def)
  ultimately show ?thesis
    using acc(1,2) unfolding lanesFor_def by (auto simp: ls_def image_image)
qed

subsection \<open>Summary\<close>

lemma summary_fold:
  assumes "fold summaryStep spans (s, m) = (s', m')"
  shows "wm_TotalMS s' = wm_TotalMS s" "wm_SpanCount s' = wm_SpanCount s"
    "wm_SQLMS s' = wm_SQLMS s + catMS catSQL spans"
    "wm_ORMMS s' = wm_ORMMS s + catMS catORM spans"
    "wm_PythonMS s' = wm_PythonMS s + catMS catPython spans"
    "wm_SQLCount s' = wm_SQLCount s + (\<Sum>sp\<leftarrow>spans. if ws_Category sp = catSQL then 1 else 0)"
    "wm_N1Count s' = wm_N1Count s + (\<Sum>sp\<leftarrow>spans. if ws_IsN1 sp then 1 else 0)"
    "wm_ErrorCount s' = wm_ErrorCount s + (\<Sum>sp\<leftarrow>spans. if ws_IsError sp then 1 else 0)"
  using assms
  by (induction spans arbitrary: s m)
     (auto simp: summaryStep_def catMS_def Let_def cat_defs split: prod.splits if_splits)

lemma buildSummary_correct:
  "wm_TotalMS (buildSummary spans totalMS) = totalMS"
  "wm_SpanCount (buildSummary spans totalMS) = int (length spans)"
  "wm_SQLMS (buildSummary spans totalMS) = catMS catSQL spans"
  "wm_PythonMS (buildSummary spans totalMS) = catMS catPython spans"
  "wm_SQLCount (buildSummary spans totalMS) = (\<Sum>sp\<leftarrow>spans. if ws_Category sp = catSQL then 1 else 0)"
  "wm_N1Count (buildSummary spans totalMS) = (\<Sum>sp\<leftarrow>spans. if ws_IsN1 sp then 1 else 0)"
  "wm_ErrorCount (buildSummary spans totalMS) = (\<Sum>sp\<leftarrow>spans. if ws_IsError sp then 1 else 0)"
proof -
  let ?s0 = "zeroWaterfallSummary \<lparr> wm_TotalMS := totalMS, wm_SpanCount := int (length spans) \<rparr>"
  obtain s' m' where f: "fold summaryStep spans (?s0, 0) = (s', m')" by (metis surj_pair)
  have b: "buildSummary spans totalMS = s'" by (simp add: buildSummary_def f)
  note facts = summary_fold [OF f]
  show "wm_TotalMS (buildSummary spans totalMS) = totalMS"
    "wm_SpanCount (buildSummary spans totalMS) = int (length spans)"
    "wm_SQLMS (buildSummary spans totalMS) = catMS catSQL spans"
    "wm_PythonMS (buildSummary spans totalMS) = catMS catPython spans"
    "wm_SQLCount (buildSummary spans totalMS) = (\<Sum>sp\<leftarrow>spans. if ws_Category sp = catSQL then 1 else 0)"
    "wm_N1Count (buildSummary spans totalMS) = (\<Sum>sp\<leftarrow>spans. if ws_IsN1 sp then 1 else 0)"
    "wm_ErrorCount (buildSummary spans totalMS) = (\<Sum>sp\<leftarrow>spans. if ws_IsError sp then 1 else 0)"
    using facts unfolding b by (simp_all add: zeroWaterfallSummary_def)
qed

subsection \<open>From the events to the waterfall\<close>

lemma mset_map_sum:
  fixes h :: "'c \<Rightarrow> int"
  assumes "mset (map f xs) = mset (map g ys)"
  shows "(\<Sum>x\<leftarrow>xs. h (f x)) = (\<Sum>y\<leftarrow>ys. h (g y))"
proof -
  have "sum_mset (image_mset h (mset (map f xs))) = sum_mset (image_mset h (mset (map g ys)))" using assms by simp
  then show ?thesis by (simp add: comp_def flip: mset_map sum_mset_sum_list)
qed

lemma meta_fold:
  "mt_TotalMS (fold metaStep evs m) = mt_TotalMS m + (\<Sum>ev\<leftarrow>evs. pe_DurationMS ev)"
  "mt_SQLMS (fold metaStep evs m) = mt_SQLMS m + (\<Sum>ev\<leftarrow>evs. if eventCategory ev = catSQL then pe_DurationMS ev else 0)"
  "mt_SQLCount (fold metaStep evs m) = mt_SQLCount m + (\<Sum>ev\<leftarrow>evs. if eventCategory ev = catSQL then 1 else 0)"
  "mt_PythonMS (fold metaStep evs m) = mt_PythonMS m + (\<Sum>ev\<leftarrow>evs. if eventCategory ev = catPython then pe_DurationMS ev else 0)"
  by (induction evs arbitrary: m) (auto simp: metaStep_def Let_def cat_defs)

definition eventKey :: "ProfilerEvent \<Rightarrow> string" where
  "eventKey ev = n1Key (pe_Model ev) (pe_Method ev)"

definition patternKey :: "n1Pattern \<Rightarrow> string" where
  "patternKey p = n1Key (np_Model p) (np_Method p)"

lemma set_AList_update: "x \<in> set (AList.update k v m) \<Longrightarrow> x = (k, v) \<or> x \<in> set m"
  by (induction m) (auto split: if_splits)

lemma n1_fold:
  assumes "\<forall>(k, p)\<in>set m. k = patternKey p"
  shows "(\<forall>(k, p)\<in>set (fold n1Step evs m). k = patternKey p) \<and>
    fst ` set (fold n1Step evs m) = fst ` set m \<union> eventKey ` {ev \<in> set evs. pe_IsN1 ev}"
  using assms
proof (induction evs arbitrary: m)
  case (Cons ev evs)
  obtain q where q: "n1Step ev m = (if pe_IsN1 ev then AList.update (eventKey ev) q m else m)" "patternKey q = eventKey ev"
  proof (cases "map_of m (eventKey ev)")
    case None
    then show ?thesis
      by (intro that [of "\<lparr> np_Model = pe_Model ev, np_Method = pe_Method ev, np_SQL = pe_SQL ev, np_Count = 1,
               np_TotalMS = pe_DurationMS ev \<rparr>"]) (simp_all add: n1Step_def eventKey_def patternKey_def)
  next
    case (Some p)
    then have "eventKey ev = patternKey p" using Cons.prems map_of_SomeD by fastforce
    with Some show ?thesis
      by (intro that [of "p \<lparr> np_Count := np_Count p + 1, np_TotalMS := np_TotalMS p + pe_DurationMS ev \<rparr>"])
         (simp_all add: n1Step_def eventKey_def patternKey_def)
  qed
  have "\<forall>(k, p)\<in>set (n1Step ev m). k = patternKey p"
    using Cons.prems q set_AList_update [of _ "eventKey ev" q m] by (fastforce split: if_splits)
  moreover have "fst ` set (n1Step ev m) = (if pe_IsN1 ev then insert (eventKey ev) (fst ` set m) else fst ` set m)"
    by (simp add: q dom_update)
  ultimately show ?case using Cons.IH [of "n1Step ev m"] by auto
qed simp

lemma parse_patterns:
  "fst ` set (foldl (\<lambda>m p. AList.update (patternKey p) p m) m ps) = fst ` set m \<union> patternKey ` set ps"
  by (induction ps arbitrary: m) (auto simp: dom_update)

lemma buildDetailedSpans_facts:
  "map (\<lambda>sp. (ws_Category sp, ws_DurationMS sp, ws_IsN1 sp, ws_IsError sp)) (buildDetailedSpans i rss n1Map) =
   map (\<lambda>rs. (if rs_Category rs = [] then inferCategory (rs_Label rs) else rs_Category rs,
      if rs_DurationMS rs = 0 then rs_MS rs else rs_DurationMS rs, spanIsN1 n1Map rs, rs_IsError rs)) rss"
  by (induction i rss n1Map rule: buildDetailedSpans.induct) auto

definition n1Event :: "ProfilerEvent list \<Rightarrow> ProfilerEvent \<Rightarrow> bool" where
  "n1Event events ev \<longleftrightarrow> (\<exists>ev'\<in>set events. pe_IsN1 ev' \<and> eventKey ev' = eventKey ev)"

lemma stored_spans_facts:
  assumes "\<And>k. k \<in> fst ` set n1Map \<longleftrightarrow> (\<exists>ev\<in>set evs. pe_IsN1 ev \<and> eventKey ev = k)"
  shows "map (\<lambda>sp. (ws_Category sp, ws_DurationMS sp, ws_IsN1 sp, ws_IsError sp))
      (buildDetailedSpans 0 (map (eventSpan t) evs) n1Map) =
    map (\<lambda>ev. (eventCategory ev, pe_DurationMS ev, n1Event evs ev, pe_IsError ev)) evs"
proof -
  have "eventCategory ev \<noteq> []" for ev by (simp add: eventCategory_def cat_defs)
  moreover have "spanIsN1 n1Map (eventSpan t ev) = n1Event evs ev" if "ev \<in> set evs" for ev
    using assms that by (auto simp: spanIsN1_def n1Event_def eventSpan_def map_of_eq_None_iff eventKey_def)
  ultimately show ?thesis
    unfolding buildDetailedSpans_facts by (auto simp: eventSpan_def)
qed

lemma stored_patterns_keys:
  assumes "\<And>m :: (string, n1Pattern) gomap. mset (iter m) = mset m"
    and "unmarshalN1 j = Inr (map snd (iter (fold n1Step evs [])))"
  defines "n1JSON \<equiv> (if length (fold n1Step evs []) > 0 then Some j else None)"
  shows "k \<in> fst ` set (parseN1Patterns unmarshalN1 n1JSON) \<longleftrightarrow> (\<exists>ev\<in>set evs. pe_IsN1 ev \<and> eventKey ev = k)"
proof -
  let ?m = "fold n1Step evs []"
  have keys: "\<forall>(k, p)\<in>set ?m. k = patternKey p" "fst ` set ?m = eventKey ` {ev \<in> set evs. pe_IsN1 ev}"
    using n1_fold [of "[]" evs] by auto
  have "set (iter ?m) = set ?m" using assms(1) [of ?m] by (metis set_mset_mset)
  moreover have "patternKey (snd kp) = fst kp" if "kp \<in> set ?m" for kp
    using keys(1) that by (simp add: case_prod_unfold)
  ultimately have "patternKey ` snd ` set (iter ?m) = fst ` set ?m" by (simp add: image_image)
  moreover have "fst ` set (parseN1Patterns unmarshalN1 n1JSON) = (if ?m = [] then {} else patternKey ` snd ` set (iter ?m))"
    using parse_patterns [of "[]" "map snd (iter ?m)"] assms(2)
    by (auto simp: parseN1Patterns_def n1JSON_def patternKey_def)
  ultimately have "fst ` set (parseN1Patterns unmarshalN1 n1JSON) = eventKey ` {ev \<in> set evs. pe_IsN1 ev}"
    using keys(2) by auto
  then show ?thesis by auto
qed

text \<open>What the waterfall \<open>w\<close> and the row totals \<open>meta\<close> of a batch of events must be.\<close>

definition waterfallReport :: "ProfilerEvent list \<Rightarrow> WaterfallMeta \<Rightarrow> Waterfall \<Rightarrow> bool" where
  "waterfallReport events meta w \<longleftrightarrow>
     mt_TotalMS meta = (\<Sum>ev\<leftarrow>events. pe_DurationMS ev) \<and>
     wm_SpanCount (wf_Summary w) = int (length events) \<and>
     wm_SQLMS (wf_Summary w) = mt_SQLMS meta \<and>
     mt_SQLMS meta = (\<Sum>ev\<leftarrow>events. if eventCategory ev = catSQL then pe_DurationMS ev else 0) \<and>
     wm_SQLCount (wf_Summary w) = mt_SQLCount meta \<and>
     wm_PythonMS (wf_Summary w) = mt_PythonMS meta \<and>
     wm_ErrorCount (wf_Summary w) = (\<Sum>ev\<leftarrow>events. if pe_IsError ev then 1 else 0) \<and>
     wm_N1Count (wf_Summary w) = (\<Sum>ev\<leftarrow>events. if n1Event events ev then 1 else 0) \<and>
     distinct (map wl_Category (wf_Lanes w)) \<and>
     wl_Category ` set (wf_Lanes w) = eventCategory ` set events \<and>
     (\<forall>l\<in>set (wf_Lanes w). wl_TotalMS l = (\<Sum>ev\<leftarrow>events. if eventCategory ev = wl_Category l then pe_DurationMS ev else 0)) \<and>
     sum_list (map wl_TotalMS (wf_Lanes w)) = mt_TotalMS meta"

lemma waterfallReport_spans:
  assumes facts: "mset (map (\<lambda>sp. (ws_Category sp, ws_DurationMS sp, ws_IsN1 sp, ws_IsError sp)) sps) =
      mset (map (\<lambda>ev. (eventCategory ev, pe_DurationMS ev, n1Event events ev, pe_IsError ev)) events)"
    and evs: "mset evs = mset events" and sortLanes: "\<And>ls. mset (sortLanes ls) = mset ls"
  shows "waterfallReport events (fold metaStep evs zeroMeta)
     \<lparr> wf_Spans = sps, wf_Lanes = buildLanes sortLanes sps totalMS, wf_Summary = buildSummary sps totalMS \<rparr>"
proof -
  note sums = mset_map_sum [OF facts]
  have evsum: "(\<Sum>ev\<leftarrow>evs. h ev) = (\<Sum>ev\<leftarrow>events. h ev)" for h :: "ProfilerEvent \<Rightarrow> int"
    using mset_map_sum [of id evs id events h] evs by simp
  have "length sps = length events" using arg_cong [OF facts, of size] by simp
  moreover have "(\<Sum>sp\<leftarrow>sps. ws_DurationMS sp) = (\<Sum>ev\<leftarrow>events. pe_DurationMS ev)"
    using sums [of "\<lambda>(c, d, n, e). d"] by simp
  moreover have "catMS c sps = (\<Sum>ev\<leftarrow>events. if eventCategory ev = c then pe_DurationMS ev else 0)" for c
    using sums [of "\<lambda>(c', d, n, e). if c' = c then d else 0"] by (simp add: catMS_def)
  moreover have "(\<Sum>sp\<leftarrow>sps. if ws_Category sp = catSQL then 1 else 0) = (\<Sum>ev\<leftarrow>events. if eventCategory ev = catSQL then 1 else 0 :: int)"
    using sums [of "\<lambda>(c, d, n, e). if c = catSQL then 1 else 0"] by simp
  moreover have "(\<Sum>sp\<leftarrow>sps. if ws_IsN1 sp then 1 else 0) = (\<Sum>ev\<leftarrow>events. if n1Event events ev then 1 else 0 :: int)"
    using sums [of "\<lambda>(c, d, n, e). if n then 1 else 0"] by simp
  moreover have "(\<Sum>sp\<leftarrow>sps. if ws_IsError sp then 1 else 0) = (\<Sum>ev\<leftarrow>events. if pe_IsError ev then 1 else 0 :: int)"
    using sums [of "\<lambda>(c, d, n, e). if e then 1 else 0"] by simp
  moreover have "ws_Category ` set sps = eventCategory ` set events"
    using arg_cong [OF facts, of "\<lambda>M. fst ` set_mset M"] by (simp add: image_image)
  moreover note buildLanes_correct [of sortLanes sps totalMS, OF sortLanes, unfolded lanesFor_def]
  ultimately show ?thesis
    unfolding waterfallReport_def by (simp add: buildSummary_correct meta_fold evsum zeroMeta_def)
qed


text \<open>An instance: a batch of two events, both with the times given, one of them an SQL query flagged as N+1.\<close>

definition sqlEvent :: "int \<Rightarrow> int \<Rightarrow> ProfilerEvent" where
  "sqlEvent ms t = computeEvent ''price'' [] ms t \<lparr> pe_Category := ''sql'', pe_IsN1 := True \<rparr>"


end
