(* ===== verification/Api_Error.thy ===== *)
theory Api_Error
  imports Go_Text
begin

text \<open>
  The API errors of the server (\<^verbatim>\<open>internal/api/error.go\<close>) and the mapping of database errors to them
  (\<^verbatim>\<open>internal/api/error_pg.go\<close>). A Go \<^verbatim>\<open>error\<close> is a datatype of the errors that reach this code; wrapping with
  \<^verbatim>\<open>fmt.Errorf\<close> and \<^verbatim>\<open>%w\<close> keeps the inner error, or both of them where the format has two. The stack trace and the time of an error, which are only logged,
  are left out. \<open>title\<close> stands for the title casing of \<^verbatim>\<open>golang.org/x/text\<close>, and the text of a database error is a
  field of it.
\<close>

subsection \<open>Errors\<close>

datatype ErrorCode =
    ErrCodeValidation
  | ErrCodeUnauthorized
  | ErrCodeForbidden
  | ErrCodeNotFound
  | ErrCodeConflict
  | ErrCodeUnprocessable
  | ErrCodeRateLimited
  | ErrCodeBadRequest
  | ErrCodePayloadTooLarge
  | ErrCodeInternal
  | ErrCodeUnavailable
  | ErrCodeTimeout
  | ErrCodeDatabase
  | ErrCodeTenantNotFound
  | ErrCodeEnvironmentNotFound
  | ErrCodeAgentNotConnected
  | ErrCodeAgentNotFound
  | ErrCodeQuotaExceeded
  | ErrCodePlanLimitReached
  | ErrCodeInvalidAPIKey
  | ErrCodeExpiredAPIKey
  | ErrCodeInvalidToken
  | ErrCodeExpiredToken
  | ErrCodeInvalidCredentials
  | ErrCodeEmailAlreadyExists
  | ErrCodeSlugAlreadyExists
  | ErrCodeInvalidScope
  | ErrCodeSchemaSnapshotNotFound
  | ErrCodeMigrationScanNotFound
  | ErrCodeErrorGroupNotFound
  | ErrCodeAlertRuleNotFound
  | ErrCodeAlertChannelNotFound
  | ErrCodeProfilerRecordingNotFound
  | ErrCodeAnonProfileNotFound
  | ErrCodeAnonJobNotFound
  | ErrCodeInvalidOdooVersion
  | ErrCodeInvalidDomain

primrec codeText :: "ErrorCode \<Rightarrow> string" where
  "codeText ErrCodeValidation = ''VALIDATION_ERROR''"
| "codeText ErrCodeUnauthorized = ''UNAUTHORIZED''"
| "codeText ErrCodeForbidden = ''FORBIDDEN''"
| "codeText ErrCodeNotFound = ''NOT_FOUND''"
| "codeText ErrCodeConflict = ''CONFLICT''"
| "codeText ErrCodeUnprocessable = ''UNPROCESSABLE_ENTITY''"
| "codeText ErrCodeRateLimited = ''RATE_LIMITED''"
| "codeText ErrCodeBadRequest = ''BAD_REQUEST''"
| "codeText ErrCodePayloadTooLarge = ''PAYLOAD_TOO_LARGE''"
| "codeText ErrCodeInternal = ''INTERNAL_ERROR''"
| "codeText ErrCodeUnavailable = ''SERVICE_UNAVAILABLE''"
| "codeText ErrCodeTimeout = ''TIMEOUT''"
| "codeText ErrCodeDatabase = ''DATABASE_ERROR''"
| "codeText ErrCodeTenantNotFound = ''TENANT_NOT_FOUND''"
| "codeText ErrCodeEnvironmentNotFound = ''ENVIRONMENT_NOT_FOUND''"
| "codeText ErrCodeAgentNotConnected = ''AGENT_NOT_CONNECTED''"
| "codeText ErrCodeAgentNotFound = ''AGENT_NOT_FOUND''"
| "codeText ErrCodeQuotaExceeded = ''QUOTA_EXCEEDED''"
| "codeText ErrCodePlanLimitReached = ''PLAN_LIMIT_REACHED''"
| "codeText ErrCodeInvalidAPIKey = ''INVALID_API_KEY''"
| "codeText ErrCodeExpiredAPIKey = ''EXPIRED_API_KEY''"
| "codeText ErrCodeInvalidToken = ''INVALID_TOKEN''"
| "codeText ErrCodeExpiredToken = ''EXPIRED_TOKEN''"
| "codeText ErrCodeInvalidCredentials = ''INVALID_CREDENTIALS''"
| "codeText ErrCodeEmailAlreadyExists = ''EMAIL_ALREADY_EXISTS''"
| "codeText ErrCodeSlugAlreadyExists = ''SLUG_ALREADY_EXISTS''"
| "codeText ErrCodeInvalidScope = ''INVALID_SCOPE''"
| "codeText ErrCodeSchemaSnapshotNotFound = ''SCHEMA_SNAPSHOT_NOT_FOUND''"
| "codeText ErrCodeMigrationScanNotFound = ''MIGRATION_SCAN_NOT_FOUND''"
| "codeText ErrCodeErrorGroupNotFound = ''ERROR_GROUP_NOT_FOUND''"
| "codeText ErrCodeAlertRuleNotFound = ''ALERT_RULE_NOT_FOUND''"
| "codeText ErrCodeAlertChannelNotFound = ''ALERT_CHANNEL_NOT_FOUND''"
| "codeText ErrCodeProfilerRecordingNotFound = ''PROFILER_RECORDING_NOT_FOUND''"
| "codeText ErrCodeAnonProfileNotFound = ''ANON_PROFILE_NOT_FOUND''"
| "codeText ErrCodeAnonJobNotFound = ''ANON_JOB_NOT_FOUND''"
| "codeText ErrCodeInvalidOdooVersion = ''INVALID_ODOO_VERSION''"
| "codeText ErrCodeInvalidDomain = ''INVALID_DOMAIN''"

record ErrorDetail =
  ed_Field :: string
  ed_Message :: string
  ed_Code :: string

record PgError =
  pg_Code :: string
  pg_ConstraintName :: string
  pg_ColumnName :: string
  pg_Text :: string

datatype go_error =
    ErrNoRows
  | DeadlineExceeded
  | ContextCanceled
  | PgErr PgError
  | Plain string
  | Wrap string go_error
  | WrapNoColon string go_error
  | Wrap2 string go_error string go_error
  | ApiErr api_error
and api_error = Api
  (Code: ErrorCode)
  (Message: string)
  (Details: "ErrorDetail list")
  (HTTPStatus: int)
  (Internal: "go_error option")
  (RequestID: string)
  (Method: string)
  (Path: string)

text \<open>\<^verbatim>\<open>Unwrap\<close> and the chain of errors that \<^verbatim>\<open>errors.Is\<close> and \<^verbatim>\<open>errors.As\<close> walk along.\<close>

primrec Unwrap :: "go_error \<Rightarrow> go_error option" and Unwrap_api :: "api_error \<Rightarrow> go_error option" where
  "Unwrap ErrNoRows = None"
| "Unwrap DeadlineExceeded = None"
| "Unwrap ContextCanceled = None"
| "Unwrap (PgErr e) = None"
| "Unwrap (Plain s) = None"
| "Unwrap (Wrap s e) = Some e"
| "Unwrap (WrapNoColon s e) = Some e"
| "Unwrap (Wrap2 s e t f) = None"
| "Unwrap (ApiErr a) = Unwrap_api a"
| "Unwrap_api (Api c m ds st i rid mt p) = i"

fun chain :: "go_error \<Rightarrow> go_error list" and chain_opt :: "go_error option \<Rightarrow> go_error list" where
  "chain (Wrap s e) = Wrap s e # chain e"
| "chain (WrapNoColon s e) = WrapNoColon s e # chain e"
| "chain (Wrap2 s e t f) = Wrap2 s e t f # chain e @ chain f"
| "chain (ApiErr (Api c m ds st i rid mt p)) = ApiErr (Api c m ds st i rid mt p) # chain_opt i"
| "chain e = [e]"
| "chain_opt None = []"
| "chain_opt (Some e) = chain e"

definition errors_Is :: "go_error \<Rightarrow> go_error \<Rightarrow> bool" where
  "errors_Is err target \<longleftrightarrow> target \<in> set (chain err)"

fun asPgError :: "go_error list \<Rightarrow> PgError option" where
  "asPgError [] = None"
| "asPgError (PgErr e # es) = Some e"
| "asPgError (e # es) = asPgError es"

fun asApiError :: "go_error list \<Rightarrow> api_error option" where
  "asApiError [] = None"
| "asApiError (ApiErr a # es) = Some a"
| "asApiError (e # es) = asApiError es"

text \<open>The method \<^verbatim>\<open>Error\<close>.\<close>

fun Error_text :: "go_error \<Rightarrow> string" where
  "Error_text ErrNoRows = ''no rows in result set''"
| "Error_text DeadlineExceeded = ''context deadline exceeded''"
| "Error_text ContextCanceled = ''context canceled''"
| "Error_text (PgErr e) = pg_Text e"
| "Error_text (Plain s) = s"
| "Error_text (Wrap s e) = s @ '': '' @ Error_text e"
| "Error_text (WrapNoColon s e) = s @ '' '' @ Error_text e"
| "Error_text (Wrap2 s e t f) = s @ '': '' @ Error_text e @ t @ '': '' @ Error_text f"
| "Error_text (ApiErr (Api c m ds st i rid mt p)) =
     ''['' @ codeText c @ ''] '' @ m @ (case i of None \<Rightarrow> [] | Some e \<Rightarrow> '': '' @ Error_text e)"

subsection \<open>Construction\<close>

definition NewError :: "ErrorCode \<Rightarrow> string \<Rightarrow> int \<Rightarrow> api_error" where
  "NewError code message httpStatus = Api code message [] httpStatus None [] [] []"

primrec WithDetails :: "api_error \<Rightarrow> ErrorDetail list \<Rightarrow> api_error" where
  "WithDetails (Api c m ds st i rid mt p) details = Api c m (ds @ details) st i rid mt p"

definition WithDetail :: "api_error \<Rightarrow> string \<Rightarrow> string \<Rightarrow> api_error" where
  "WithDetail e field message = WithDetails e [\<lparr> ed_Field = field, ed_Message = message, ed_Code = [] \<rparr>]"

primrec WithInternal :: "api_error \<Rightarrow> go_error \<Rightarrow> api_error" where
  "WithInternal (Api c m ds st i rid mt p) err = Api c m ds st (Some err) rid mt p"

primrec WithRequestID :: "api_error \<Rightarrow> string \<Rightarrow> api_error" where
  "WithRequestID (Api c m ds st i rid mt p) requestID = Api c m ds st i requestID mt p"

primrec WithPath :: "api_error \<Rightarrow> string \<Rightarrow> string \<Rightarrow> api_error" where
  "WithPath (Api c m ds st i rid mt p) method path = Api c m ds st i rid method path"

text \<open>What a client sees: \<^verbatim>\<open>ToResponse\<close>, its optional entries present only when set.\<close>

record error_response =
  er_code :: string
  er_message :: string
  er_details :: "ErrorDetail list option"
  er_request_id :: "string option"

definition ToResponse :: "api_error \<Rightarrow> error_response" where
  "ToResponse e =
     \<lparr> er_code = codeText (Code e), er_message = Message e,
       er_details = (if length (Details e) > 0 then Some (Details e) else None),
       er_request_id = (if RequestID e \<noteq> [] then Some (RequestID e) else None) \<rparr>"

definition quoted :: "string \<Rightarrow> string" where
  "quoted s = [CHR 0x27] @ s @ [CHR 0x27]"

subsection \<open>Constructors\<close>

definition ErrBadRequest :: "string \<Rightarrow> api_error" where
  "ErrBadRequest message = NewError ErrCodeBadRequest message 400"

definition ErrValidation :: "string \<Rightarrow> api_error" where
  "ErrValidation message = NewError ErrCodeValidation message 400"

definition ErrInvalidJSON :: "go_error \<Rightarrow> api_error" where
  "ErrInvalidJSON err = WithInternal (NewError ErrCodeValidation ''Invalid JSON payload'' 400) err"

definition ErrInvalidQueryParam :: "string \<Rightarrow> string \<Rightarrow> api_error" where
  "ErrInvalidQueryParam param message = WithDetail (NewError ErrCodeValidation (''Invalid query parameter '' @ quoted param @ '': '' @ message) 400) param message"

definition ErrInvalidPathParam :: "string \<Rightarrow> string \<Rightarrow> api_error" where
  "ErrInvalidPathParam param message = WithDetail (NewError ErrCodeValidation (''Invalid path parameter '' @ quoted param @ '': '' @ message) 400) param message"

definition ErrInvalidUUID :: "string \<Rightarrow> api_error" where
  "ErrInvalidUUID field = WithDetail (NewError ErrCodeValidation (''Invalid UUID format for '' @ quoted field) 400) field ''must be a valid UUID''"

definition ErrMissingRequired :: "string \<Rightarrow> api_error" where
  "ErrMissingRequired field = WithDetail (NewError ErrCodeValidation (''Missing required field '' @ quoted field) 400) field ''is required''"

definition ErrUnauthorized :: "string \<Rightarrow> api_error" where
  "ErrUnauthorized message = NewError ErrCodeUnauthorized (if message = [] then ''Authentication required'' else message) 401"

definition ErrInvalidToken :: "string \<Rightarrow> api_error" where
  "ErrInvalidToken message = NewError ErrCodeInvalidToken (if message = [] then ''Invalid or malformed token'' else message) 401"

definition ErrExpiredToken :: "api_error" where
  "ErrExpiredToken = NewError ErrCodeExpiredToken ''Token has expired'' 401"

definition ErrInvalidAPIKey :: "api_error" where
  "ErrInvalidAPIKey = NewError ErrCodeInvalidAPIKey ''Invalid API key'' 401"

definition ErrExpiredAPIKey :: "api_error" where
  "ErrExpiredAPIKey = NewError ErrCodeExpiredAPIKey ''API key has expired'' 401"

definition ErrInvalidCredentials :: "api_error" where
  "ErrInvalidCredentials = NewError ErrCodeInvalidCredentials ''Invalid email or password'' 401"

definition ErrMissingAuthHeader :: "api_error" where
  "ErrMissingAuthHeader = NewError ErrCodeUnauthorized ''Missing Authorization header'' 401"

definition ErrInvalidAuthHeaderFormat :: "api_error" where
  "ErrInvalidAuthHeaderFormat = NewError ErrCodeUnauthorized ''Invalid Authorization header format'' 401"

definition ErrUnsupportedAuthType :: "string \<Rightarrow> api_error" where
  "ErrUnsupportedAuthType authType = WithDetail (NewError ErrCodeUnauthorized ''Unsupported authorization type'' 401) ''type'' (''unsupported authorization type, only '' @ authType @ '' is supported'')"

definition ErrMissingAPIKey :: "api_error" where
  "ErrMissingAPIKey = NewError ErrCodeUnauthorized ''Missing X-API-Key header'' 401"

definition ErrForbidden :: "string \<Rightarrow> api_error" where
  "ErrForbidden message = NewError ErrCodeForbidden (if message = [] then ''You don'' @ [CHR 0x27] @ ''t have permission to perform this action'' else message) 403"

definition ErrInsufficientScope :: "string \<Rightarrow> api_error" where
  "ErrInsufficientScope required = NewError ErrCodeInvalidScope (''Insufficient scope. Required: '' @ required) 403"

definition ErrTenantMismatch :: "api_error" where
  "ErrTenantMismatch = NewError ErrCodeForbidden ''Resource belongs to a different tenant'' 403"

definition ErrAdminRequired :: "api_error" where
  "ErrAdminRequired = NewError ErrCodeForbidden ''Admin privileges required'' 403"

definition ErrNotFound :: "string \<Rightarrow> api_error" where
  "ErrNotFound resource = NewError ErrCodeNotFound (resource @ '' not found'') 404"

definition ErrTenantNotFound :: "api_error" where
  "ErrTenantNotFound = NewError ErrCodeTenantNotFound ''Tenant not found'' 404"

definition ErrEnvironmentNotFound :: "api_error" where
  "ErrEnvironmentNotFound = NewError ErrCodeEnvironmentNotFound ''Environment not found'' 404"

definition ErrUserNotFound :: "api_error" where
  "ErrUserNotFound = NewError ErrCodeNotFound ''User not found'' 404"

definition ErrAPIKeyNotFound :: "api_error" where
  "ErrAPIKeyNotFound = NewError ErrCodeNotFound ''API key not found'' 404"

definition ErrErrorGroupNotFound :: "api_error" where
  "ErrErrorGroupNotFound = NewError ErrCodeErrorGroupNotFound ''Error group not found'' 404"

definition ErrAlertRuleNotFound :: "api_error" where
  "ErrAlertRuleNotFound = NewError ErrCodeAlertRuleNotFound ''Alert rule not found'' 404"

definition ErrSchemaSnapshotNotFound :: "api_error" where
  "ErrSchemaSnapshotNotFound = NewError ErrCodeSchemaSnapshotNotFound ''Schema snapshot not found'' 404"

definition ErrMigrationScanNotFound :: "api_error" where
  "ErrMigrationScanNotFound = NewError ErrCodeMigrationScanNotFound ''Migration scan not found'' 404"

definition ErrProfilerRecordingNotFound :: "api_error" where
  "ErrProfilerRecordingNotFound = NewError ErrCodeProfilerRecordingNotFound ''Profiler recording not found'' 404"

definition ErrAgentNotFound :: "api_error" where
  "ErrAgentNotFound = NewError ErrCodeAgentNotFound ''Agent not found'' 404"

definition ErrConflict :: "string \<Rightarrow> api_error" where
  "ErrConflict message = NewError ErrCodeConflict message 409"

definition ErrEmailAlreadyExists :: "api_error" where
  "ErrEmailAlreadyExists = WithDetail (NewError ErrCodeEmailAlreadyExists ''Email address is already registered'' 409) ''email'' ''already exists''"

definition ErrSlugAlreadyExists :: "api_error" where
  "ErrSlugAlreadyExists = WithDetail (NewError ErrCodeSlugAlreadyExists ''Slug is already taken'' 409) ''slug'' ''already exists''"

definition ErrDuplicateResource :: "string \<Rightarrow> string \<Rightarrow> api_error" where
  "ErrDuplicateResource resource field = WithDetail (NewError ErrCodeConflict (resource @ '' with this '' @ field @ '' already exists'') 409) field ''already exists''"

definition ErrUnprocessable :: "string \<Rightarrow> api_error" where
  "ErrUnprocessable message = NewError ErrCodeUnprocessable message 422"

definition ErrAgentNotConnected :: "string \<Rightarrow> api_error" where
  "ErrAgentNotConnected envName = NewError ErrCodeAgentNotConnected (if envName = [] then ''Agent is not connected'' else ''Agent is not connected for environment '' @ quoted envName) 422"

definition ErrQuotaExceeded :: "string \<Rightarrow> int \<Rightarrow> api_error" where
  "ErrQuotaExceeded resource limit = NewError ErrCodeQuotaExceeded (''Quota exceeded for '' @ resource @ ''. Limit: '' @ Itoa limit) 422"

definition ErrPlanLimitReached :: "string \<Rightarrow> api_error" where
  "ErrPlanLimitReached feature = NewError ErrCodePlanLimitReached (''Plan limit reached for '' @ feature @ ''. Please upgrade your plan.'') 422"

definition ErrInvalidOdooVersion :: "string \<Rightarrow> api_error" where
  "ErrInvalidOdooVersion version = NewError ErrCodeInvalidOdooVersion (''Unsupported Odoo version: '' @ version) 422"

definition ErrInvalidReference :: "string \<Rightarrow> string \<Rightarrow> api_error" where
  "ErrInvalidReference field reference = WithDetail (NewError ErrCodeUnprocessable (''Invalid reference in '' @ quoted field @ '': '' @ reference @ '' does not exist'') 422) field ''references non-existent record''"

definition ErrRateLimited :: "int \<Rightarrow> api_error" where
  "ErrRateLimited retryAfter = NewError ErrCodeRateLimited (''Rate limit exceeded. Retry after '' @ Itoa retryAfter @ '' seconds'') 429"

definition ErrInternal :: "go_error \<Rightarrow> api_error" where
  "ErrInternal err = WithInternal (NewError ErrCodeInternal ''An internal error occurred'' 500) err"

definition ErrDatabase :: "go_error \<Rightarrow> api_error" where
  "ErrDatabase err = WithInternal (NewError ErrCodeDatabase ''A database error occurred'' 500) err"

definition ErrUnavailable :: "string \<Rightarrow> api_error" where
  "ErrUnavailable message = NewError ErrCodeUnavailable (if message = [] then ''Service temporarily unavailable'' else message) 503"

definition ErrDatabaseUnavailable :: "api_error" where
  "ErrDatabaseUnavailable = NewError ErrCodeUnavailable ''Database is temporarily unavailable'' 503"

definition ErrTimeout :: "string \<Rightarrow> api_error" where
  "ErrTimeout operation = NewError ErrCodeTimeout (''Operation timed out: '' @ operation) 504"

definition ErrAgentTimeout :: "string \<Rightarrow> api_error" where
  "ErrAgentTimeout envName = NewError ErrCodeTimeout (''Agent did not respond in time for environment '' @ quoted envName) 504"

definition ToError :: "go_error \<Rightarrow> api_error" where
  "ToError err = (case asApiError (chain err) of Some a \<Rightarrow> a | None \<Rightarrow> ErrInternal err)"

lemmas constructor_defs = NewError_def WithDetail_def
  ErrBadRequest_def ErrValidation_def ErrInvalidJSON_def ErrInvalidQueryParam_def ErrInvalidPathParam_def
  ErrInvalidUUID_def ErrMissingRequired_def ErrUnauthorized_def ErrInvalidToken_def ErrExpiredToken_def
  ErrInvalidAPIKey_def ErrExpiredAPIKey_def ErrInvalidCredentials_def ErrMissingAuthHeader_def ErrInvalidAuthHeaderFormat_def
  ErrUnsupportedAuthType_def ErrMissingAPIKey_def ErrForbidden_def ErrInsufficientScope_def ErrTenantMismatch_def
  ErrAdminRequired_def ErrNotFound_def ErrTenantNotFound_def ErrEnvironmentNotFound_def ErrUserNotFound_def
  ErrAPIKeyNotFound_def ErrErrorGroupNotFound_def ErrAlertRuleNotFound_def ErrSchemaSnapshotNotFound_def ErrMigrationScanNotFound_def
  ErrProfilerRecordingNotFound_def ErrAgentNotFound_def ErrConflict_def ErrEmailAlreadyExists_def ErrSlugAlreadyExists_def
  ErrDuplicateResource_def ErrUnprocessable_def ErrAgentNotConnected_def ErrQuotaExceeded_def ErrPlanLimitReached_def
  ErrInvalidOdooVersion_def ErrInvalidReference_def ErrRateLimited_def ErrInternal_def ErrDatabase_def
  ErrUnavailable_def ErrDatabaseUnavailable_def ErrTimeout_def ErrAgentTimeout_def

subsection \<open>Database errors\<close>

definition PgUniqueViolation :: string where "PgUniqueViolation = ''23505''"
definition PgForeignKeyViolation :: string where "PgForeignKeyViolation = ''23503''"
definition PgNotNullViolation :: string where "PgNotNullViolation = ''23502''"
definition PgCheckViolation :: string where "PgCheckViolation = ''23514''"
definition PgExclusionViolation :: string where "PgExclusionViolation = ''23P01''"
definition PgStringTruncation :: string where "PgStringTruncation = ''22001''"
definition PgNumericOutOfRange :: string where "PgNumericOutOfRange = ''22003''"
definition PgInvalidTextRep :: string where "PgInvalidTextRep = ''22P02''"
definition PgDivisionByZero :: string where "PgDivisionByZero = ''22012''"
definition PgInvalidDatetime :: string where "PgInvalidDatetime = ''22007''"
definition PgDeadlockDetected :: string where "PgDeadlockDetected = ''40P01''"
definition PgSerializationFailure :: string where "PgSerializationFailure = ''40001''"
definition PgConnectionDone :: string where "PgConnectionDone = ''08003''"
definition PgConnectionRefused :: string where "PgConnectionRefused = ''08006''"
definition PgConnectionFailure :: string where "PgConnectionFailure = ''08001''"
definition PgSyntaxError :: string where "PgSyntaxError = ''42601''"
definition PgUndefinedColumn :: string where "PgUndefinedColumn = ''42703''"
definition PgUndefinedTable :: string where "PgUndefinedTable = ''42P01''"
definition PgInsufficientPrivilege :: string where "PgInsufficientPrivilege = ''42501''"
definition PgDiskFull :: string where "PgDiskFull = ''53100''"
definition PgOutOfMemory :: string where "PgOutOfMemory = ''53200''"
definition PgTooManyConnections :: string where "PgTooManyConnections = ''53300''"
definition PgQueryCanceled :: string where "PgQueryCanceled = ''57014''"
definition PgAdminShutdown :: string where "PgAdminShutdown = ''57P01''"

lemmas pg_defs = PgUniqueViolation_def PgForeignKeyViolation_def PgNotNullViolation_def PgCheckViolation_def PgExclusionViolation_def PgStringTruncation_def PgNumericOutOfRange_def PgInvalidTextRep_def PgDivisionByZero_def PgInvalidDatetime_def PgDeadlockDetected_def PgSerializationFailure_def PgConnectionDone_def PgConnectionRefused_def PgConnectionFailure_def PgSyntaxError_def PgUndefinedColumn_def PgUndefinedTable_def PgInsufficientPrivilege_def PgDiskFull_def PgOutOfMemory_def PgTooManyConnections_def PgQueryCanceled_def PgAdminShutdown_def

definition constraintFieldMap :: "(string, string) gomap" where
  "constraintFieldMap =
     [(''users_email_key'', ''email''),
      (''users_tenant_id_email_key'', ''email''),
      (''tenants_slug_key'', ''slug''),
      (''environments_tenant_id_slug_key'', ''slug''),
      (''environments_tenant_id_name_key'', ''name''),
      (''api_keys_key_hash_key'', ''key''),
      (''alert_rules_tenant_id_name_key'', ''name''),
      (''alert_channels_tenant_id_name_key'', ''name''),
      (''error_groups_env_id_signature_key'', ''signature''),
      (''anon_profiles_tenant_id_name_key'', ''name''),
      (''perf_budgets_environment_id_name_key'', ''name'')]"

definition foreignKeyMap :: "(string, string) gomap" where
  "foreignKeyMap =
     [(''environments_tenant_id_fkey'', ''tenant''),
      (''users_tenant_id_fkey'', ''tenant''),
      (''api_keys_tenant_id_fkey'', ''tenant''),
      (''api_keys_environment_id_fkey'', ''environment''),
      (''error_groups_env_id_fkey'', ''environment''),
      (''profiler_recordings_env_id_fkey'', ''environment''),
      (''schema_snapshots_env_id_fkey'', ''environment''),
      (''migration_scans_env_id_fkey'', ''environment''),
      (''orm_stats_env_id_fkey'', ''environment''),
      (''alert_deliveries_rule_id_fkey'', ''alert_rule''),
      (''alert_deliveries_channel_id_fkey'', ''alert_channel''),
      (''anon_jobs_profile_id_fkey'', ''anonymization_profile''),
      (''anon_jobs_environment_id_fkey'', ''environment'')]"

definition extractFieldFromConstraint :: "string \<Rightarrow> string" where
  "extractFieldFromConstraint con =
     (case map_of constraintFieldMap con of
        Some field \<Rightarrow> field
      | None \<Rightarrow>
          let parts = Split CHR ''_'' con in
          if length parts \<ge> 2 \<and> (parts ! (length parts - 1) = ''key'' \<or> parts ! (length parts - 1) = ''unique'')
          then parts ! (length parts - 2) else ''value'')"

definition extractTableFromConstraint :: "(string \<Rightarrow> string) \<Rightarrow> string \<Rightarrow> string" where
  "extractTableFromConstraint title con =
     (let parts = Split CHR ''_'' con in
      if length parts > 0 then title (ReplaceAll (parts ! 0) ''_'' '' '') else ''Record'')"

definition TrimSuffix :: "string \<Rightarrow> string \<Rightarrow> string" where
  "TrimSuffix s suf = (if suffix suf s then take (length s - length suf) s else s)"

definition extractResourceFromForeignKey :: "string \<Rightarrow> string" where
  "extractResourceFromForeignKey con =
     (case map_of foreignKeyMap con of
        Some resource \<Rightarrow> resource
      | None \<Rightarrow>
          let parts = Split CHR ''_'' con in
          if length parts \<ge> 3 \<and> parts ! (length parts - 1) = ''fkey''
          then TrimSuffix (parts ! (length parts - 2)) ''_id'' else ''referenced record'')"

definition connectionErrors :: "string list" where
  "connectionErrors =
     [''connection refused'', ''connection reset'', ''connection closed'', ''no connection'', ''broken pipe'',
      ''i/o timeout'', ''network is unreachable'']"

definition isConnectionError :: "unicode \<Rightarrow> go_error \<Rightarrow> bool" where
  "isConnectionError uni err \<longleftrightarrow> list_ex (Contains (ToLower uni (Error_text err))) connectionErrors"

text \<open>The table \<^verbatim>\<open>pgErrorCodeMap\<close> and its lookup.\<close>

definition handlePgError :: "(string \<Rightarrow> string) \<Rightarrow> PgError \<Rightarrow> api_error" where
  "handlePgError title e =
     (let code = pg_Code e; con = pg_ConstraintName e; col = pg_ColumnName e in
      if code = PgUniqueViolation then
        WithInternal (ErrDuplicateResource (extractTableFromConstraint title con) (extractFieldFromConstraint con)) (PgErr e)
      else if code = PgForeignKeyViolation then
        WithInternal (ErrInvalidReference col (extractResourceFromForeignKey con)) (PgErr e)
      else if code = PgNotNullViolation then WithInternal (ErrMissingRequired col) (PgErr e)
      else if code = PgCheckViolation then
        WithInternal (WithDetail (ErrValidation (''Value violates constraint: '' @ con)) col ''violates constraint'') (PgErr e)
      else if code = PgExclusionViolation then
        WithInternal (ErrConflict ''Operation conflicts with an existing record'') (PgErr e)
      else if code = PgStringTruncation then
        WithInternal (WithDetail (ErrValidation (''Value too long for field '' @ quoted col)) col ''exceeds maximum length'') (PgErr e)
      else if code = PgNumericOutOfRange then
        WithInternal (WithDetail (ErrValidation (''Numeric value out of range for '' @ quoted col)) col ''value out of range'') (PgErr e)
      else if code = PgInvalidTextRep then WithInternal (ErrValidation ''Invalid value format'') (PgErr e)
      else if code = PgInvalidDatetime then
        WithInternal (WithDetail (ErrValidation (''Invalid datetime value for '' @ quoted col)) col ''invalid datetime'') (PgErr e)
      else if code = PgDeadlockDetected then
        WithInternal (ErrConflict ''Request could not be completed due to a conflict. Please retry.'') (PgErr e)
      else if code = PgSerializationFailure then
        WithInternal (ErrConflict ''Concurrent modification detected. Please retry.'') (PgErr e)
      else if code = PgConnectionDone \<or> code = PgConnectionRefused \<or> code = PgConnectionFailure then
        WithInternal ErrDatabaseUnavailable (PgErr e)
      else if code = PgDiskFull then WithInternal (ErrUnavailable ''Database storage full'') (PgErr e)
      else if code = PgOutOfMemory then WithInternal (ErrUnavailable ''Database out of memory'') (PgErr e)
      else if code = PgTooManyConnections then WithInternal (ErrUnavailable ''Too many database connections'') (PgErr e)
      else if code = PgInsufficientPrivilege then ErrInternal (Wrap ''database permission denied'' (PgErr e))
      else if code = PgSyntaxError \<or> code = PgUndefinedColumn \<or> code = PgUndefinedTable then ErrInternal (PgErr e)
      else if code = PgQueryCanceled then ErrTimeout ''database query was canceled''
      else if code = PgAdminShutdown then WithInternal ErrDatabaseUnavailable (PgErr e)
      else ErrDatabase (PgErr e))"

definition FromPgError :: "unicode \<Rightarrow> (string \<Rightarrow> string) \<Rightarrow> go_error \<Rightarrow> api_error" where
  "FromPgError uni title err =
     (if errors_Is err ErrNoRows then ErrNotFound ''Record''
      else if errors_Is err DeadlineExceeded then ErrTimeout ''database query''
      else if errors_Is err ContextCanceled then
        WithInternal (NewError ErrCodeInternal ''Request was canceled'' 499) err
      else case asPgError (chain err) of
        Some e \<Rightarrow> handlePgError title e
      | None \<Rightarrow>
          if isConnectionError uni err then WithInternal ErrDatabaseUnavailable err else ErrDatabase err)"

subsection \<open>Tests and retries\<close>

definition IsPgError :: "go_error \<Rightarrow> string \<Rightarrow> bool" where
  "IsPgError err code \<longleftrightarrow> (case asPgError (chain err) of Some e \<Rightarrow> pg_Code e = code | None \<Rightarrow> False)"

definition IsUniqueViolation :: "go_error \<Rightarrow> bool" where
  "IsUniqueViolation err = IsPgError err PgUniqueViolation"

definition IsRecordNotFound :: "go_error \<Rightarrow> bool" where
  "IsRecordNotFound err = errors_Is err ErrNoRows"

definition IsConnectionError :: "unicode \<Rightarrow> go_error \<Rightarrow> bool" where
  "IsConnectionError uni err \<longleftrightarrow>
     IsPgError err PgConnectionDone \<or> IsPgError err PgConnectionRefused \<or> IsPgError err PgConnectionFailure \<or>
     isConnectionError uni err"

definition IsRetryable :: "unicode \<Rightarrow> go_error \<Rightarrow> bool" where
  "IsRetryable uni err \<longleftrightarrow>
     IsPgError err PgDeadlockDetected \<or> IsPgError err PgSerializationFailure \<or> IsConnectionError uni err"

text \<open>
  \<^verbatim>\<open>WithRetry\<close> with the state that \<open>fn\<close> works on; the result of \<open>fn\<close> is its error, if any. No attempt is made when
  \<open>maxAttempts\<close> is not positive, and \<^verbatim>\<open>FromPgError(nil)\<close> is then nil.
\<close>

function retryAttempts ::
  "unicode \<Rightarrow> (string \<Rightarrow> string) \<Rightarrow> int \<Rightarrow> ('s \<Rightarrow> go_error option \<times> 's) \<Rightarrow> int \<Rightarrow> go_error option \<Rightarrow> 's \<Rightarrow> api_error option \<times> 's" where
  "retryAttempts uni title maxAttempts fn attempt lastErr s =
     (if attempt > maxAttempts then (map_option (FromPgError uni title) lastErr, s)
      else case fn s of
        (None, s') \<Rightarrow> (None, s')
      | (Some err, s') \<Rightarrow>
          if \<not> IsRetryable uni err then (Some (FromPgError uni title err), s')
          else retryAttempts uni title maxAttempts fn (attempt + 1) (Some err) s')"
  by pat_completeness auto
termination
  by (relation "measure (\<lambda>(_, _, m, _, a, _, _). nat (m + 1 - a))") auto

definition WithRetry ::
  "unicode \<Rightarrow> (string \<Rightarrow> string) \<Rightarrow> int \<Rightarrow> ('s \<Rightarrow> go_error option \<times> 's) \<Rightarrow> 's \<Rightarrow> api_error option \<times> 's" where
  "WithRetry uni title maxAttempts fn s = retryAttempts uni title maxAttempts fn 1 None s"

declare retryAttempts.simps [simp del]

subsection \<open>What a client learns of a database error\<close>

lemma api_error_selectors [simp]:
  "ToResponse (WithInternal a err) = ToResponse a"
  "HTTPStatus (WithInternal a err) = HTTPStatus a"
  "HTTPStatus (WithDetail a f m) = HTTPStatus a"
  "HTTPStatus (NewError c m st) = st"
  by (cases a; simp add: ToResponse_def WithDetail_def NewError_def)+

lemma ToResponse_Internal [simp]:
  "ToResponse (ErrInternal err) = ToResponse (ErrInternal err')"
  "ToResponse (ErrDatabase err) = ToResponse (ErrDatabase err')"
  by (simp_all add: ErrInternal_def ErrDatabase_def)

lemma handlePgError_text:
  "ToResponse (handlePgError title (e\<lparr> pg_Text := t \<rparr>)) = ToResponse (handlePgError title e)"
  unfolding handlePgError_def Let_def
  by (simp add: if_distrib [of ToResponse] ErrInternal_def ErrDatabase_def cong: if_cong)

lemma handlePgError_status: "HTTPStatus (handlePgError title e) \<in> {400, 409, 422, 500, 503, 504}"
  unfolding handlePgError_def Let_def
  by (simp add: if_distrib [of HTTPStatus] constructor_defs(3-) cong: if_cong)

definition fixedResponses :: "error_response set" where
  "fixedResponses =
     {ToResponse (ErrNotFound ''Record''), ToResponse (ErrTimeout ''database query''),
      ToResponse (NewError ErrCodeInternal ''Request was canceled'' 499), ToResponse ErrDatabaseUnavailable,
      ToResponse (ErrDatabase ErrNoRows)}"


text \<open>
  A foreign key that is not in the table is named after its column, but the name is split at the underscores
  first: the key of a column that ends in \<^verbatim>\<open>_id\<close> yields the resource \<^verbatim>\<open>id\<close>.
\<close>

lemma foreign_key_resource_lost: "extractResourceFromForeignKey ''audit_logs_user_id_fkey'' = ''id''"
  by (simp add: extractResourceFromForeignKey_def foreignKeyMap_def TrimSuffix_def suffix_def)

end
