(* ===== verification/Redis_Cache.thy ===== *)
theory Redis_Cache
  imports Api_Error
begin

text \<open>
  The Redis-backed cache of the server (\<^verbatim>\<open>internal/cache/redis.go\<close>): sessions, revoked tokens, one-time tokens, login
  attempts and the sliding-window limiter. The Redis server is a parameter: the record \<open>redis\<close> holds the
  commands the code sends, each at a time of the server's clock and with a reply or an error. \<open>redisServer\<close>
  states what Redis documents of those commands, as laws on an abstract store of values with an expiry time.
  Times and durations are in nanoseconds, and the server and Redis are taken to
  read the same clock. \<open>json\<close> stands for \<^verbatim>\<open>encoding/json\<close> on the values stored.
\<close>

subsection \<open>Commands\<close>

type_synonym ('r, 'a) command = "'r \<Rightarrow> (go_error + 'a) \<times> 'r"

record 'r redis =
  cmdSet :: "int \<Rightarrow> string \<Rightarrow> string \<Rightarrow> int \<Rightarrow> ('r, unit) command"
  cmdGet :: "int \<Rightarrow> string \<Rightarrow> ('r, string option) command"
  cmdDel :: "int \<Rightarrow> string list \<Rightarrow> ('r, int) command"
  cmdExists :: "int \<Rightarrow> string \<Rightarrow> ('r, int) command"
  cmdIncr :: "int \<Rightarrow> string \<Rightarrow> ('r, int) command"
  cmdExpire :: "int \<Rightarrow> string \<Rightarrow> int \<Rightarrow> ('r, bool) command"
  cmdSAdd :: "int \<Rightarrow> string \<Rightarrow> string \<Rightarrow> ('r, int) command"
  cmdSRem :: "int \<Rightarrow> string \<Rightarrow> string \<Rightarrow> ('r, int) command"
  cmdSMembers :: "int \<Rightarrow> string \<Rightarrow> ('r, string list) command"

definition andThen :: "('r, 'a) command \<Rightarrow> ('a \<Rightarrow> ('r, 'b) command) \<Rightarrow> ('r, 'b) command" where
  "andThen c k r = (case c r of (Inl e, r') \<Rightarrow> (Inl e, r') | (Inr x, r') \<Rightarrow> k x r')"

definition reply :: "'a \<Rightarrow> ('r, 'a) command" where
  "reply x r = (Inr x, r)"

definition failWith :: "go_error \<Rightarrow> ('r, 'a) command" where
  "failWith e r = (Inl e, r)"

text \<open>A command whose reply and error the code ignores.\<close>

definition ignoring :: "('r, 'a) command \<Rightarrow> 'r \<Rightarrow> 'r" where
  "ignoring c r = snd (c r)"

definition wrapping :: "string \<Rightarrow> ('r, 'a) command \<Rightarrow> ('r, 'a) command" where
  "wrapping s c r = (case c r of (Inl e, r') \<Rightarrow> (Inl (Wrap s e), r') | x \<Rightarrow> x)"

text \<open>A pipeline sends all its commands; its error is the first of theirs.\<close>

definition pipe :: "('r, 'a) command \<Rightarrow> ('r, 'b) command \<Rightarrow> ('r, 'b) command" where
  "pipe c d r = (case c r of (x, r') \<Rightarrow> case d r' of (y, r'') \<Rightarrow> (case x of Inl e \<Rightarrow> Inl e | Inr _ \<Rightarrow> y, r''))"

subsection \<open>Keys\<close>

definition Key :: "string \<Rightarrow> string list \<Rightarrow> string" where
  "Key pre parts = butlast (pre @ concat (map (\<lambda>part. part @ '':'') parts))"

abbreviation sessionPrefix :: string where "sessionPrefix \<equiv> ''session''"
abbreviation userSessionPrefix :: string where "userSessionPrefix \<equiv> ''user_sessions''"
abbreviation blacklistPrefix :: string where "blacklistPrefix \<equiv> ''blacklist''"
abbreviation resetTokenPrefix :: string where "resetTokenPrefix \<equiv> ''reset_token''"
abbreviation verifyEmailPrefix :: string where "verifyEmailPrefix \<equiv> ''verify_email''"
abbreviation loginAttemptPrefix :: string where "loginAttemptPrefix \<equiv> ''login_attempts''"

definition sec :: int where "sec = 10 ^ 9"
definition resetTokenTTL :: int where "resetTokenTTL = 3600 * sec"
definition verifyEmailTTL :: int where "verifyEmailTTL = 600 * sec"
definition loginAttemptWindow :: int where "loginAttemptWindow = 900 * sec"
definition maxLoginAttempts :: int where "maxLoginAttempts = 5"
definition loginLockoutDuration :: int where "loginLockoutDuration = 1800 * sec"

lemmas duration_defs = sec_def resetTokenTTL_def verifyEmailTTL_def loginAttemptWindow_def loginLockoutDuration_def

subsection \<open>Sessions\<close>

record Session =
  se_ID :: string
  se_UserID :: string
  se_TenantID :: string
  se_RefreshToken :: string
  se_UserAgent :: string
  se_IPAddress :: string
  se_CreatedAt :: int
  se_ExpiresAt :: int
  se_LastActiveAt :: int

record 'v json =
  marshal :: "'v \<Rightarrow> go_error + string"
  unmarshal :: "string \<Rightarrow> go_error + 'v"

definition ofResult :: "go_error + 'a \<Rightarrow> ('r, 'a) command" where
  "ofResult x = (case x of Inl e \<Rightarrow> failWith e | Inr v \<Rightarrow> reply v)"

definition Cache_CreateSession :: "'r redis \<Rightarrow> Session json \<Rightarrow> string \<Rightarrow> int \<Rightarrow> Session \<Rightarrow> ('r, unit) command" where
  "Cache_CreateSession C J pre now session =
     andThen (wrapping ''failed to marshal session'' (ofResult (marshal J session))) (\<lambda>data.
       let ttl = se_ExpiresAt session - now in
       if ttl \<le> 0 then failWith (Plain ''session expired'')
       else
         andThen (wrapping ''failed to store session'' (cmdSet C now (Key pre [sessionPrefix, se_ID session]) data ttl)) (\<lambda>_.
         andThen (wrapping ''failed to add session to user set''
                    (cmdSAdd C now (Key pre [userSessionPrefix, se_UserID session]) (se_ID session))) (\<lambda>_ r.
         (Inr (), ignoring (cmdExpire C now (Key pre [userSessionPrefix, se_UserID session]) (ttl + 3600 * sec)) r))))"

definition ErrSessionNotFound :: go_error where "ErrSessionNotFound = Plain ''session not found''"
definition ErrTokenNotFound :: go_error where "ErrTokenNotFound = Plain ''token not found''"

definition GetSession :: "'r redis \<Rightarrow> Session json \<Rightarrow> string \<Rightarrow> int \<Rightarrow> string \<Rightarrow> ('r, Session) command" where
  "GetSession C J pre now sessionID =
     andThen (wrapping ''failed to get session'' (cmdGet C now (Key pre [sessionPrefix, sessionID]))) (\<lambda>d.
       case d of
         None \<Rightarrow> failWith ErrSessionNotFound
       | Some data \<Rightarrow> wrapping ''failed to unmarshal session'' (ofResult (unmarshal J data)))"

definition UpdateSessionActivity :: "'r redis \<Rightarrow> Session json \<Rightarrow> string \<Rightarrow> int \<Rightarrow> string \<Rightarrow> ('r, unit) command" where
  "UpdateSessionActivity C J pre now sessionID =
     andThen (GetSession C J pre now sessionID) (\<lambda>session.
       let session = session \<lparr> se_LastActiveAt := now \<rparr> in
       andThen (wrapping ''failed to marshal session'' (ofResult (marshal J session))) (\<lambda>data.
         cmdSet C now (Key pre [sessionPrefix, sessionID]) data (se_ExpiresAt session - now)))"

definition DeleteSession :: "'r redis \<Rightarrow> string \<Rightarrow> int \<Rightarrow> string \<Rightarrow> string \<Rightarrow> ('r, unit) command" where
  "DeleteSession C pre now sessionID userID =
     pipe (cmdDel C now [Key pre [sessionPrefix, sessionID]])
       (pipe (cmdSRem C now (Key pre [userSessionPrefix, userID]) sessionID) (reply ()))"

fun delSessions :: "'r redis \<Rightarrow> string \<Rightarrow> int \<Rightarrow> string list \<Rightarrow> ('r, 'a) command \<Rightarrow> ('r, 'a) command" where
  "delSessions C pre now [] rest = rest"
| "delSessions C pre now (sid # sids) rest = pipe (cmdDel C now [Key pre [sessionPrefix, sid]]) (delSessions C pre now sids rest)"

definition DeleteAllUserSessions :: "'r redis \<Rightarrow> string \<Rightarrow> int \<Rightarrow> string \<Rightarrow> ('r, unit) command" where
  "DeleteAllUserSessions C pre now userID =
     (let userSessionsKey = Key pre [userSessionPrefix, userID] in
      andThen (wrapping ''failed to get user sessions'' (cmdSMembers C now userSessionsKey)) (\<lambda>sessionIDs.
        if length sessionIDs = 0 then reply ()
        else delSessions C pre now sessionIDs (pipe (cmdDel C now [userSessionsKey]) (reply ()))))"

fun collectSessions :: "'r redis \<Rightarrow> Session json \<Rightarrow> string \<Rightarrow> int \<Rightarrow> string list \<Rightarrow> 'r \<Rightarrow> Session list \<times> 'r" where
  "collectSessions C J pre now [] r = ([], r)"
| "collectSessions C J pre now (sid # sids) r =
     (case GetSession C J pre now sid r of (x, r') \<Rightarrow>
        case collectSessions C J pre now sids r' of (ss, r'') \<Rightarrow> (case x of Inl _ \<Rightarrow> ss | Inr s \<Rightarrow> s # ss, r''))"

definition Cache_GetUserSessions :: "'r redis \<Rightarrow> Session json \<Rightarrow> string \<Rightarrow> int \<Rightarrow> string \<Rightarrow> ('r, Session list) command" where
  "Cache_GetUserSessions C J pre now userID =
     andThen (wrapping ''failed to get user session IDs'' (cmdSMembers C now (Key pre [userSessionPrefix, userID])))
       (\<lambda>sessionIDs r. case collectSessions C J pre now sessionIDs r of (ss, r') \<Rightarrow> (Inr ss, r'))"

subsection \<open>Revoked tokens\<close>

definition BlacklistToken :: "'r redis \<Rightarrow> string \<Rightarrow> int \<Rightarrow> string \<Rightarrow> int \<Rightarrow> ('r, unit) command" where
  "BlacklistToken C pre now tokenID expiresAt =
     (let ttl = expiresAt - now in
      if ttl \<le> 0 then reply () else cmdSet C now (Key pre [blacklistPrefix, tokenID]) ''1'' ttl)"

definition IsTokenBlacklisted :: "'r redis \<Rightarrow> string \<Rightarrow> int \<Rightarrow> string \<Rightarrow> ('r, bool) command" where
  "IsTokenBlacklisted C pre now tokenID =
     andThen (cmdExists C now (Key pre [blacklistPrefix, tokenID])) (\<lambda>n. reply (n > 0))"

subsection \<open>One-time tokens\<close>

record ResetToken =
  rt_UserID :: string
  rt_Email :: string
  rt_Token :: string
  rt_CreatedAt :: int
  rt_ExpiresAt :: int

definition StoreResetToken :: "'r redis \<Rightarrow> ResetToken json \<Rightarrow> string \<Rightarrow> int \<Rightarrow> ResetToken \<Rightarrow> ('r, unit) command" where
  "StoreResetToken C J pre now token =
     andThen (wrapping ''failed to marshal reset token'' (ofResult (marshal J token))) (\<lambda>data.
       cmdSet C now (Key pre [resetTokenPrefix, rt_Token token]) data resetTokenTTL)"

definition GetResetToken :: "'r redis \<Rightarrow> ResetToken json \<Rightarrow> string \<Rightarrow> int \<Rightarrow> string \<Rightarrow> ('r, ResetToken) command" where
  "GetResetToken C J pre now token =
     andThen (cmdGet C now (Key pre [resetTokenPrefix, token])) (\<lambda>d.
       case d of None \<Rightarrow> failWith ErrTokenNotFound | Some data \<Rightarrow> ofResult (unmarshal J data))"

definition DeleteResetToken :: "'r redis \<Rightarrow> string \<Rightarrow> int \<Rightarrow> string \<Rightarrow> ('r, unit) command" where
  "DeleteResetToken C pre now token = andThen (cmdDel C now [Key pre [resetTokenPrefix, token]]) (\<lambda>_. reply ())"

record VerifyEmailToken =
  vt_UserID :: string
  vt_Email :: string
  vt_Code :: string
  vt_CreatedAt :: int

definition StoreVerifyEmailToken ::
  "'r redis \<Rightarrow> VerifyEmailToken json \<Rightarrow> string \<Rightarrow> int \<Rightarrow> VerifyEmailToken \<Rightarrow> ('r, unit) command" where
  "StoreVerifyEmailToken C J pre now token =
     andThen (wrapping ''failed to marshal verify email token'' (ofResult (marshal J token))) (\<lambda>data.
       cmdSet C now (Key pre [verifyEmailPrefix, vt_Email token]) data verifyEmailTTL)"

definition GetVerifyEmailToken ::
  "'r redis \<Rightarrow> VerifyEmailToken json \<Rightarrow> string \<Rightarrow> int \<Rightarrow> string \<Rightarrow> ('r, VerifyEmailToken) command" where
  "GetVerifyEmailToken C J pre now email =
     andThen (cmdGet C now (Key pre [verifyEmailPrefix, email])) (\<lambda>d.
       case d of None \<Rightarrow> failWith ErrTokenNotFound | Some data \<Rightarrow> ofResult (unmarshal J data))"

definition DeleteVerifyEmailToken :: "'r redis \<Rightarrow> string \<Rightarrow> int \<Rightarrow> string \<Rightarrow> ('r, unit) command" where
  "DeleteVerifyEmailToken C pre now email = andThen (cmdDel C now [Key pre [verifyEmailPrefix, email]]) (\<lambda>_. reply ())"

subsection \<open>Login attempts\<close>

record LoginAttemptResult =
  la_Allowed :: bool
  la_AttemptsLeft :: int
  la_LockedUntil :: "int option"
  la_LockoutDuration :: int

definition attemptKey :: "string \<Rightarrow> string \<Rightarrow> string" where
  "attemptKey pre identifier = Key pre [loginAttemptPrefix, identifier]"

definition lockoutKey :: "string \<Rightarrow> string \<Rightarrow> string" where
  "lockoutKey pre identifier = Key pre [loginAttemptPrefix, ''lockout'', identifier]"

definition countedAttempt :: "'r redis \<Rightarrow> string \<Rightarrow> int \<Rightarrow> string \<Rightarrow> int \<Rightarrow> ('r, LoginAttemptResult) command" where
  "countedAttempt C pre now identifier count r1 =
     (let r2 = (if count = 1 then ignoring (cmdExpire C now (attemptKey pre identifier) loginAttemptWindow) r1 else r1);
          left = (if maxLoginAttempts - count < 0 then 0 else maxLoginAttempts - count);
          lockedUntil = now + loginLockoutDuration
      in if count \<ge> maxLoginAttempts then
           (Inr \<lparr> la_Allowed = False, la_AttemptsLeft = left, la_LockedUntil = Some lockedUntil,
              la_LockoutDuration = loginLockoutDuration \<rparr>,
            ignoring (cmdSet C now (lockoutKey pre identifier) (Itoa (lockedUntil div sec)) loginLockoutDuration) r2)
         else
           (Inr \<lparr> la_Allowed = True, la_AttemptsLeft = left, la_LockedUntil = None, la_LockoutDuration = 0 \<rparr>, r2))"

definition RecordLoginAttempt :: "'r redis \<Rightarrow> string \<Rightarrow> int \<Rightarrow> string \<Rightarrow> bool \<Rightarrow> ('r, LoginAttemptResult) command" where
  "RecordLoginAttempt C pre now identifier success =
     (if success then
        (\<lambda>r. (Inr \<lparr> la_Allowed = True, la_AttemptsLeft = maxLoginAttempts, la_LockedUntil = None, la_LockoutDuration = 0 \<rparr>,
              ignoring (cmdDel C now [attemptKey pre identifier]) r))
      else andThen (cmdIncr C now (attemptKey pre identifier)) (countedAttempt C pre now identifier))"

text \<open>The reply of \<^verbatim>\<open>IsLoginLocked\<close> is the end of the lockout, if there is one.\<close>

definition IsLoginLocked :: "'r redis \<Rightarrow> string \<Rightarrow> int \<Rightarrow> string \<Rightarrow> ('r, int option) command" where
  "IsLoginLocked C pre now identifier =
     andThen (cmdGet C now (lockoutKey pre identifier)) (\<lambda>d.
       case d of
         None \<Rightarrow> reply None
       | Some text \<Rightarrow>
           (case ParseInt text of
              Inl _ \<Rightarrow> failWith (Plain ''value is not an integer'')
            | Inr timestamp \<Rightarrow>
                (\<lambda>r. if now > timestamp * sec then (Inr None, ignoring (cmdDel C now [lockoutKey pre identifier]) r)
                     else (Inr (Some (timestamp * sec)), r))))"

definition ClearLoginAttempts :: "'r redis \<Rightarrow> string \<Rightarrow> int \<Rightarrow> string \<Rightarrow> ('r, unit) command" where
  "ClearLoginAttempts C pre now identifier =
     andThen (cmdDel C now [attemptKey pre identifier, lockoutKey pre identifier]) (\<lambda>_. reply ())"

subsection \<open>What Redis documents\<close>

datatype rval = RStr string | RSet "string list"

type_synonym store = "string \<Rightarrow> (rval \<times> int option) option"

definition live :: "store \<Rightarrow> int \<Rightarrow> string \<Rightarrow> (rval \<times> int option) option" where
  "live st now k =
     (case st k of
        None \<Rightarrow> None
      | Some (v, ex) \<Rightarrow> (case ex of None \<Rightarrow> Some (v, ex) | Some t \<Rightarrow> if now < t then Some (v, ex) else None))"

definition wrongType :: go_error where
  "wrongType = Plain ''WRONGTYPE Operation against a key holding the wrong kind of value''"

definition idSet :: "int \<Rightarrow> string \<Rightarrow> string \<Rightarrow> int \<Rightarrow> (store, unit) command" where
  "idSet now k v ttl st = (Inr (), st(k \<mapsto> (RStr v, Some (now + ttl))))"

definition idGet :: "int \<Rightarrow> string \<Rightarrow> (store, string option) command" where
  "idGet now k st =
     (case live st now k of
        None \<Rightarrow> (Inr None, st) | Some (RStr v, ex) \<Rightarrow> (Inr (Some v), st) | Some (RSet ms, ex) \<Rightarrow> (Inl wrongType, st))"

definition idDel :: "int \<Rightarrow> string list \<Rightarrow> (store, int) command" where
  "idDel now ks st = (Inr (int (length (filter (\<lambda>k. live st now k \<noteq> None) (remdups ks)))), st |` (- set ks))"

definition idExists :: "int \<Rightarrow> string \<Rightarrow> (store, int) command" where
  "idExists now k st = (Inr (if live st now k = None then 0 else 1), st)"

definition idIncr :: "int \<Rightarrow> string \<Rightarrow> (store, int) command" where
  "idIncr now k st =
     (case live st now k of
        None \<Rightarrow> (Inr 1, st(k \<mapsto> (RStr ''1'', None)))
      | Some (RStr v, ex) \<Rightarrow>
          (case ParseInt v of
             Inl _ \<Rightarrow> (Inl (Plain ''ERR value is not an integer or out of range''), st)
           | Inr n \<Rightarrow> (Inr (n + 1), st(k \<mapsto> (RStr (Itoa (n + 1)), ex))))
      | Some (RSet ms, ex) \<Rightarrow> (Inl wrongType, st))"

definition idExpire :: "int \<Rightarrow> string \<Rightarrow> int \<Rightarrow> (store, bool) command" where
  "idExpire now k ttl st =
     (case live st now k of
        None \<Rightarrow> (Inr False, st) | Some (v, ex) \<Rightarrow> (Inr True, st(k \<mapsto> (v, Some (now + ttl)))))"

definition idSAdd :: "int \<Rightarrow> string \<Rightarrow> string \<Rightarrow> (store, int) command" where
  "idSAdd now k m st =
     (case live st now k of
        None \<Rightarrow> (Inr 1, st(k \<mapsto> (RSet [m], None)))
      | Some (RSet ms, ex) \<Rightarrow> (Inr (if m \<in> set ms then 0 else 1), st(k \<mapsto> (RSet (List.insert m ms), ex)))
      | Some (RStr v, ex) \<Rightarrow> (Inl wrongType, st))"

definition idSRem :: "int \<Rightarrow> string \<Rightarrow> string \<Rightarrow> (store, int) command" where
  "idSRem now k m st =
     (case live st now k of
        None \<Rightarrow> (Inr 0, st)
      | Some (RSet ms, ex) \<Rightarrow>
          (Inr (if m \<in> set ms then 1 else 0),
           if removeAll m ms = [] then st(k := None) else st(k \<mapsto> (RSet (removeAll m ms), ex)))
      | Some (RStr v, ex) \<Rightarrow> (Inl wrongType, st))"

definition idSMembers :: "int \<Rightarrow> string \<Rightarrow> (store, string list) command" where
  "idSMembers now k st =
     (case live st now k of
        None \<Rightarrow> (Inr [], st) | Some (RSet ms, ex) \<Rightarrow> (Inr ms, st) | Some (RStr v, ex) \<Rightarrow> (Inl wrongType, st))"

definition memRedis :: "store redis" where
  "memRedis = \<lparr> cmdSet = idSet, cmdGet = idGet, cmdDel = idDel, cmdExists = idExists, cmdIncr = idIncr,
     cmdExpire = idExpire, cmdSAdd = idSAdd, cmdSRem = idSRem, cmdSMembers = idSMembers \<rparr>"

text \<open>
  A command of a server simulates one of the abstract store when it gives the same reply and leads to the
  state that the abstraction relates to the new store.
\<close>

definition simulates :: "('r \<Rightarrow> store) \<Rightarrow> ('r, 'a) command \<Rightarrow> (store, 'a) command \<Rightarrow> bool" where
  "simulates view c d \<longleftrightarrow> (\<forall>r. fst (c r) = fst (d (view r)) \<and> view (snd (c r)) = snd (d (view r)))"

definition redisServer :: "'r redis \<Rightarrow> ('r \<Rightarrow> store) \<Rightarrow> bool" where
  "redisServer C view \<longleftrightarrow>
     (\<forall>now k v ttl. 0 < ttl \<longrightarrow> simulates view (cmdSet C now k v ttl) (idSet now k v ttl)) \<and>
     (\<forall>now k. simulates view (cmdGet C now k) (idGet now k)) \<and>
     (\<forall>now ks. simulates view (cmdDel C now ks) (idDel now ks)) \<and>
     (\<forall>now k. simulates view (cmdExists C now k) (idExists now k)) \<and>
     (\<forall>now k. simulates view (cmdIncr C now k) (idIncr now k)) \<and>
     (\<forall>now k ttl. 0 < ttl \<longrightarrow> simulates view (cmdExpire C now k ttl) (idExpire now k ttl)) \<and>
     (\<forall>now k m. simulates view (cmdSAdd C now k m) (idSAdd now k m)) \<and>
     (\<forall>now k m. simulates view (cmdSRem C now k m) (idSRem now k m)) \<and>
     (\<forall>now k. simulates view (cmdSMembers C now k) (idSMembers now k))"

lemma memRedis_ok: "redisServer memRedis id"
  by (simp add: redisServer_def memRedis_def simulates_def)

subsection \<open>Simulation of the cache operations\<close>

named_theorems sim_intros \<open>simulation of commands and their combinations\<close>

lemma simulates_reply [sim_intros]: "simulates view (reply x) (reply x)"
  by (simp add: simulates_def reply_def)

lemma simulates_failWith [sim_intros]: "simulates view (failWith e) (failWith e)"
  by (simp add: simulates_def failWith_def)

lemma simulates_andThen [sim_intros]:
  assumes "simulates view c d" "\<And>x. simulates view (k x) (l x)"
  shows "simulates view (andThen c k) (andThen d l)"
  unfolding simulates_def
proof
  fix r
  obtain x r' where c: "c r = (x, r')" by (cases "c r")
  with assms(1) have d: "d (view r) = (x, view r')" unfolding simulates_def by (metis fst_conv snd_conv prod.collapse)
  show "fst (andThen c k r) = fst (andThen d l (view r)) \<and> view (snd (andThen c k r)) = snd (andThen d l (view r))"
    using assms(2) by (cases x) (auto simp: andThen_def c d simulates_def)
qed

lemma simulates_wrapping [sim_intros]:
  assumes "simulates view c d"
  shows "simulates view (wrapping s c) (wrapping s d)"
  unfolding simulates_def
proof
  fix r
  obtain x r' where c: "c r = (x, r')" by (cases "c r")
  with assms(1) have d: "d (view r) = (x, view r')" unfolding simulates_def by (metis fst_conv snd_conv prod.collapse)
  show "fst (wrapping s c r) = fst (wrapping s d (view r)) \<and> view (snd (wrapping s c r)) = snd (wrapping s d (view r))"
    by (cases x) (auto simp: wrapping_def c d)
qed

lemma simulates_pipe [sim_intros]:
  assumes "simulates view c d" "simulates view c' d'"
  shows "simulates view (pipe c c') (pipe d d')"
  unfolding simulates_def
proof
  fix r
  obtain x r' where c: "c r = (x, r')" by (cases "c r")
  with assms(1) have d: "d (view r) = (x, view r')" unfolding simulates_def by (metis fst_conv snd_conv prod.collapse)
  obtain y r'' where c': "c' r' = (y, r'')" by (cases "c' r'")
  with assms(2) have d': "d' (view r') = (y, view r'')" unfolding simulates_def by (metis fst_conv snd_conv prod.collapse)
  show "fst (pipe c c' r) = fst (pipe d d' (view r)) \<and> view (snd (pipe c c' r)) = snd (pipe d d' (view r))"
    by (simp add: pipe_def c d c' d')
qed

lemma simulates_ignoring: "simulates view c d \<Longrightarrow> view (ignoring c r) = ignoring d (view r)"
  by (simp add: simulates_def ignoring_def)

lemma simulates_ignoringI [sim_intros]:
  assumes "simulates view c d"
  shows "simulates view (\<lambda>r. (x, ignoring c r)) (\<lambda>r. (x, ignoring d r))"
  using assms by (simp add: simulates_def ignoring_def)

lemma simulates_ofResult [sim_intros]: "simulates view (ofResult x) (ofResult x)"
  by (cases x) (simp_all add: ofResult_def sim_intros)

lemma redisServer_commands [sim_intros]:
  assumes "redisServer C view"
  shows "0 < ttl \<Longrightarrow> simulates view (cmdSet C now k v ttl) (idSet now k v ttl)"
    "simulates view (cmdGet C now k) (idGet now k)"
    "simulates view (cmdDel C now ks) (idDel now ks)"
    "simulates view (cmdExists C now k) (idExists now k)"
    "simulates view (cmdIncr C now k) (idIncr now k)"
    "0 < ttl \<Longrightarrow> simulates view (cmdExpire C now k ttl) (idExpire now k ttl)"
    "simulates view (cmdSAdd C now k m) (idSAdd now k m)"
    "simulates view (cmdSRem C now k m) (idSRem now k m)"
    "simulates view (cmdSMembers C now k) (idSMembers now k)"
  using assms by (simp_all add: redisServer_def)

lemma memRedis_simps [simp]:
  "cmdSet memRedis = idSet" "cmdGet memRedis = idGet" "cmdDel memRedis = idDel" "cmdExists memRedis = idExists"
  "cmdIncr memRedis = idIncr" "cmdExpire memRedis = idExpire" "cmdSAdd memRedis = idSAdd" "cmdSRem memRedis = idSRem"
  "cmdSMembers memRedis = idSMembers"
  by (simp_all add: memRedis_def)

text \<open>Every operation of the cache that the account service uses behaves on a server as on the abstract store.\<close>

lemma BlacklistToken_sim [sim_intros]:
  "redisServer C view \<Longrightarrow> simulates view (BlacklistToken C pre now tid ex) (BlacklistToken memRedis pre now tid ex)"
  by (simp add: BlacklistToken_def Let_def sim_intros)

lemma IsTokenBlacklisted_sim [sim_intros]:
  "redisServer C view \<Longrightarrow> simulates view (IsTokenBlacklisted C pre now tid) (IsTokenBlacklisted memRedis pre now tid)"
  by (simp add: IsTokenBlacklisted_def sim_intros)

lemma Cache_CreateSession_sim [sim_intros]:
  assumes "redisServer C view"
  shows "simulates view (Cache_CreateSession C J pre now s) (Cache_CreateSession memRedis J pre now s)"
  unfolding Cache_CreateSession_def Let_def
  by (intro sim_intros simulates_andThen; use assms in \<open>simp add: sim_intros duration_defs\<close>)

lemma DeleteSession_sim [sim_intros]:
  "redisServer C view \<Longrightarrow> simulates view (DeleteSession C pre now sid uid) (DeleteSession memRedis pre now sid uid)"
  by (simp add: DeleteSession_def sim_intros)

lemma IsLoginLocked_sim [sim_intros]:
  assumes "redisServer C view"
  shows "simulates view (IsLoginLocked C pre now e) (IsLoginLocked memRedis pre now e)"
  unfolding IsLoginLocked_def
proof (rule simulates_andThen)
  show "simulates view (cmdGet C now (lockoutKey pre e)) (cmdGet memRedis now (lockoutKey pre e))"
    using assms by (simp add: sim_intros)
  have del: "view (ignoring (cmdDel C now [lockoutKey pre e]) r) = ignoring (idDel now [lockoutKey pre e]) (view r)" for r
    using assms by (intro simulates_ignoring) (simp add: sim_intros)
  show "simulates view
      (case d of None \<Rightarrow> reply None | Some text \<Rightarrow> (case ParseInt text of Inl _ \<Rightarrow> failWith (Plain ''value is not an integer'')
         | Inr timestamp \<Rightarrow> (\<lambda>r. if now > timestamp * sec then (Inr None, ignoring (cmdDel C now [lockoutKey pre e]) r)
              else (Inr (Some (timestamp * sec)), r))))
      (case d of None \<Rightarrow> reply None | Some text \<Rightarrow> (case ParseInt text of Inl _ \<Rightarrow> failWith (Plain ''value is not an integer'')
         | Inr timestamp \<Rightarrow> (\<lambda>r. if now > timestamp * sec then (Inr None, ignoring (cmdDel memRedis now [lockoutKey pre e]) r)
              else (Inr (Some (timestamp * sec)), r))))" for d
    using del by (auto simp: sim_intros simulates_def reply_def failWith_def split: option.splits sum.splits)
qed

lemma countedAttempt_sim [sim_intros]:
  assumes "redisServer C view"
  shows "simulates view (countedAttempt C pre now e n) (countedAttempt memRedis pre now e n)"
proof -
  have ex: "view (ignoring (cmdExpire C now k loginAttemptWindow) r) = ignoring (idExpire now k loginAttemptWindow) (view r)" for k r
    using assms by (intro simulates_ignoring) (simp add: sim_intros duration_defs)
  have set: "view (ignoring (cmdSet C now k v loginLockoutDuration) r) = ignoring (idSet now k v loginLockoutDuration) (view r)" for k v r
    using assms by (intro simulates_ignoring) (simp add: sim_intros duration_defs)
  show ?thesis
    by (simp add: simulates_def countedAttempt_def Let_def ex set)
qed

lemma RecordLoginAttempt_sim [sim_intros]:
  "redisServer C view \<Longrightarrow> simulates view (RecordLoginAttempt C pre now e ok) (RecordLoginAttempt memRedis pre now e ok)"
  by (simp add: RecordLoginAttempt_def sim_intros)

subsection \<open>Keys that an operation leaves alone\<close>

definition keeps :: "('r \<Rightarrow> store) \<Rightarrow> string \<Rightarrow> ('r, 'a) command \<Rightarrow> bool" where
  "keeps view k c \<longleftrightarrow> (\<forall>r. view (snd (c r)) k = view r k)"

named_theorems keeps_intros \<open>commands that leave a key alone\<close>

lemma keeps_sim: "simulates view c d \<Longrightarrow> (\<And>st. snd (d st) k = st k) \<Longrightarrow> keeps view k c"
  by (simp add: keeps_def simulates_def)

lemma keeps_commands [keeps_intros]:
  assumes "redisServer C view"
  shows "k \<noteq> k' \<Longrightarrow> 0 < ttl \<Longrightarrow> keeps view k (cmdSet C now k' v ttl)"
    "keeps view k (cmdGet C now k')"
    "k \<notin> set ks \<Longrightarrow> keeps view k (cmdDel C now ks)"
    "keeps view k (cmdExists C now k')"
    "k \<noteq> k' \<Longrightarrow> keeps view k (cmdIncr C now k')"
    "k \<noteq> k' \<Longrightarrow> 0 < ttl \<Longrightarrow> keeps view k (cmdExpire C now k' ttl)"
    "k \<noteq> k' \<Longrightarrow> keeps view k (cmdSAdd C now k' m)"
    "k \<noteq> k' \<Longrightarrow> keeps view k (cmdSRem C now k' m)"
    "keeps view k (cmdSMembers C now k')"
  by (rule keeps_sim, rule redisServer_commands [OF assms], assumption?,
      auto simp: idSet_def idGet_def idDel_def idExists_def idIncr_def idExpire_def idSAdd_def idSRem_def idSMembers_def
        restrict_map_def split: option.split rval.split sum.split)+

lemma keeps_reply [keeps_intros]: "keeps view k (reply x)" "keeps view k (failWith e)" "keeps view k (ofResult res)"
  by (auto simp: keeps_def reply_def failWith_def ofResult_def split: sum.split)

lemma keeps_andThen [keeps_intros]:
  assumes "keeps view k c" "\<And>x. keeps view k (f x)"
  shows "keeps view k (andThen c f)"
  unfolding keeps_def
proof
  fix r
  obtain x r' where c: "c r = (x, r')" by (cases "c r")
  with assms(1) have "view r' k = view r k" by (metis keeps_def snd_conv)
  with assms(2) show "view (snd (andThen c f r)) k = view r k"
    by (cases x) (simp_all add: andThen_def c keeps_def)
qed

lemma keeps_wrapping [keeps_intros]: "keeps view k c \<Longrightarrow> keeps view k (wrapping s c)"
  by (auto simp: keeps_def wrapping_def split: prod.split sum.split) (metis snd_conv)+

lemma keeps_pipe [keeps_intros]: "keeps view k c \<Longrightarrow> keeps view k d \<Longrightarrow> keeps view k (pipe c d)"
  by (auto simp: keeps_def pipe_def split: prod.split) (metis snd_conv)

lemma keeps_ignoring [keeps_intros]: "keeps view k c \<Longrightarrow> keeps view k (\<lambda>r. (x, ignoring c r))"
  by (simp add: keeps_def ignoring_def)

lemma keeps_case_option [keeps_intros]:
  "keeps view k f \<Longrightarrow> (\<And>v. keeps view k (g v)) \<Longrightarrow> keeps view k (case x of None \<Rightarrow> f | Some v \<Rightarrow> g v)"
  by (cases x) simp_all

lemma keeps_if [keeps_intros]:
  "(b \<Longrightarrow> keeps view k f) \<Longrightarrow> (\<not> b \<Longrightarrow> keeps view k g) \<Longrightarrow> keeps view k (if b then f else g)"
  by simp

text \<open>The keys of sessions and of one-time tokens.\<close>

definition sessionKey :: "string \<Rightarrow> string \<Rightarrow> bool" where
  "sessionKey pre k \<longleftrightarrow>
     (\<exists>x. k \<in> {Key pre [sessionPrefix, x], Key pre [userSessionPrefix, x], Key pre [resetTokenPrefix, x], Key pre [verifyEmailPrefix, x]})"

lemma Key_simps: "Key pre [a, b] = pre @ a @ '':'' @ b" "Key pre [a, b, c] = pre @ a @ '':'' @ b @ '':'' @ c"
  by (simp_all add: Key_def butlast_append)

lemma not_sessionKey:
  "\<not> sessionKey pre (Key pre [blacklistPrefix, i])" "\<not> sessionKey pre (attemptKey pre e)" "\<not> sessionKey pre (lockoutKey pre e)"
  by (simp_all add: sessionKey_def Key_simps attemptKey_def lockoutKey_def)

lemma not_sessionKeyD:
  "\<not> sessionKey pre k \<Longrightarrow> k \<noteq> Key pre [sessionPrefix, x] \<and> k \<noteq> Key pre [userSessionPrefix, x] \<and>
    k \<noteq> Key pre [resetTokenPrefix, x] \<and> k \<noteq> Key pre [verifyEmailPrefix, x]"
  by (auto simp: sessionKey_def)

lemma keeps_GetSession [keeps_intros]: "redisServer C view \<Longrightarrow> keeps view k (GetSession C J pre now i)"
  unfolding GetSession_def by (intro keeps_intros)

lemma keeps_collectSessions:
  assumes "redisServer C view"
  shows "view (snd (collectSessions C J pre now ids r)) k = view r k"
proof (induction ids arbitrary: r)
  case (Cons i ids)
  show ?case
    using keeps_GetSession [OF assms, of k J pre now i] Cons.IH
    by (auto simp: keeps_def split: prod.split) (metis snd_conv)
qed simp

lemma keeps_GetUserSessions [keeps_intros]: "redisServer C view \<Longrightarrow> keeps view k (Cache_GetUserSessions C J pre now u)"
  unfolding Cache_GetUserSessions_def
  by (intro keeps_intros) (auto simp: keeps_def keeps_collectSessions split: prod.split, metis keeps_collectSessions snd_conv)

lemma keeps_delSessions:
  "redisServer C view \<Longrightarrow> \<not> sessionKey pre k \<Longrightarrow> keeps view k rest \<Longrightarrow> keeps view k (delSessions C pre now ids rest)"
  by (induction ids) (auto intro!: keeps_intros dest: not_sessionKeyD)

lemma keeps_sessions [keeps_intros]:
  assumes "redisServer C view" "\<not> sessionKey pre k"
  shows "keeps view k (Cache_CreateSession C J pre now session)"
    "keeps view k (DeleteSession C pre now i u)"
    "keeps view k (DeleteAllUserSessions C pre now u)"
  unfolding Cache_CreateSession_def DeleteSession_def DeleteAllUserSessions_def Let_def
  using not_sessionKeyD [OF assms(2)]
  by (auto intro!: keeps_intros keeps_delSessions assms simp: duration_defs)

lemma keeps_tokens [keeps_intros]:
  assumes "redisServer C view" "\<not> sessionKey pre k"
  shows "keeps view k (StoreResetToken C JR pre now rt)" "keeps view k (GetResetToken C JR pre now t)"
    "keeps view k (DeleteResetToken C pre now t)"
    "keeps view k (StoreVerifyEmailToken C JV pre now vt)" "keeps view k (GetVerifyEmailToken C JV pre now e)"
    "keeps view k (DeleteVerifyEmailToken C pre now e)"
  unfolding StoreResetToken_def GetResetToken_def DeleteResetToken_def StoreVerifyEmailToken_def GetVerifyEmailToken_def
    DeleteVerifyEmailToken_def
  using not_sessionKeyD [OF assms(2)]
  by (auto intro!: keeps_intros assms(1) simp: duration_defs)

lemma keeps_blacklist [keeps_intros]:
  assumes "redisServer C view"
  shows "k \<noteq> Key pre [blacklistPrefix, i] \<Longrightarrow> keeps view k (BlacklistToken C pre now i ex)"
    "keeps view k (IsTokenBlacklisted C pre now i)"
  unfolding BlacklistToken_def IsTokenBlacklisted_def Let_def by (auto intro!: keeps_intros assms)

lemma keeps_login [keeps_intros]:
  assumes "redisServer C view" "k \<noteq> attemptKey pre e" "k \<noteq> lockoutKey pre e"
  shows "keeps view k (IsLoginLocked C pre now e)" "keeps view k (RecordLoginAttempt C pre now e ok)"
proof -
  show "keeps view k (IsLoginLocked C pre now e)"
    by (rule keeps_sim [OF IsLoginLocked_sim [OF assms(1)]])
      (use assms(3) in \<open>auto simp: IsLoginLocked_def andThen_def idGet_def reply_def failWith_def ignoring_def idDel_def
        restrict_map_def split: option.split rval.split sum.split\<close>)
  show "keeps view k (RecordLoginAttempt C pre now e ok)"
    by (rule keeps_sim [OF RecordLoginAttempt_sim [OF assms(1)]])
      (use assms(2,3) in \<open>auto simp: RecordLoginAttempt_def countedAttempt_def Let_def andThen_def idIncr_def idSet_def idExpire_def
        ignoring_def idDel_def restrict_map_def split: option.split rval.split sum.split\<close>)
qed

end
