(* ===== verification/Auth_Token.thy ===== *)
theory Auth_Token
  imports Api_Error
begin

text \<open>
  Access and refresh tokens (\<^verbatim>\<open>internal/token\<close>). The JWT library is a parameter: rounding of dates, signing, and
  parsing with a leeway, which checks the signature and the expiry. \<open>jwtLibrary\<close> states what it documents. Tokens that
  carry the server's signature are made by \<open>CreateToken\<close> only, which sets both dates, so the claims that
  parsing yields have them. An identifier is its canonical text; \<open>uuidParse\<close> is \<^verbatim>\<open>uuid.Parse\<close>.
\<close>

record Payload =
  p_ID :: string
  p_Username :: string
  p_IssuedAt :: int
  p_ExpiredAt :: int

datatype token_error = ErrTokenInvalid | ErrTokenExpired

record claims =
  c_ID :: string
  c_Issuer :: string
  c_ExpiresAt :: int
  c_IssuedAt :: int

datatype jwt_error = JwtExpired | JwtOther

record jwt =
  newNumericDate :: "int \<Rightarrow> int"
  signedString :: "string \<Rightarrow> claims \<Rightarrow> go_error + string"
  parseWithClaims :: "int \<Rightarrow> int \<Rightarrow> string \<Rightarrow> string \<Rightarrow> jwt_error + claims"

definition leeway :: int where "leeway = 5 * 10 ^ 9"

definition minSecretKeySize :: nat where "minSecretKeySize = 32"

definition NewJWTMaker :: "string \<Rightarrow> go_error + string" where
  "NewJWTMaker secretKey =
     (if length secretKey < minSecretKeySize
      then Inl (Plain (''invalid key size: must be at least '' @ Itoa (int minSecretKeySize) @ '' characters''))
      else Inr secretKey)"

text \<open>\<open>uid\<close> is the outcome of \<^verbatim>\<open>uuid.NewRandom\<close>; the two clock readings may differ.\<close>

definition NewPayload :: "int \<Rightarrow> int \<Rightarrow> go_error + string \<Rightarrow> string \<Rightarrow> int \<Rightarrow> go_error + Payload" where
  "NewPayload now now' uid username duration =
     res_bind uid (\<lambda>tokenUID. Inr \<lparr> p_ID = tokenUID, p_Username = username, p_IssuedAt = now, p_ExpiredAt = now' + duration \<rparr>)"

definition claimsOf :: "jwt \<Rightarrow> Payload \<Rightarrow> claims" where
  "claimsOf L p =
     \<lparr> c_ID = p_ID p, c_Issuer = p_Username p, c_ExpiresAt = newNumericDate L (p_ExpiredAt p),
       c_IssuedAt = newNumericDate L (p_IssuedAt p) \<rparr>"

definition CreateToken ::
  "jwt \<Rightarrow> string \<Rightarrow> int \<Rightarrow> int \<Rightarrow> go_error + string \<Rightarrow> string \<Rightarrow> int \<Rightarrow> go_error + (string \<times> Payload)" where
  "CreateToken L secretKey now now' uid username duration =
     res_bind (NewPayload now now' uid username duration) (\<lambda>payload.
     res_bind (signedString L secretKey (claimsOf L payload)) (\<lambda>jwtToken. Inr (jwtToken, payload)))"

definition VerifyToken :: "jwt \<Rightarrow> (string \<Rightarrow> string option) \<Rightarrow> string \<Rightarrow> int \<Rightarrow> string \<Rightarrow> token_error + Payload" where
  "VerifyToken L uuidParse secretKey now tokenString =
     (case parseWithClaims L now leeway secretKey tokenString of
        Inl err \<Rightarrow> Inl (if err = JwtExpired then ErrTokenExpired else ErrTokenInvalid)
      | Inr cl \<Rightarrow>
          (case uuidParse (c_ID cl) of
             None \<Rightarrow> Inl ErrTokenInvalid
           | Some i \<Rightarrow>
               Inr \<lparr> p_ID = i, p_Username = c_Issuer cl, p_IssuedAt = c_IssuedAt cl, p_ExpiredAt = c_ExpiresAt cl \<rparr>))"

text \<open>What the library documents: a signed token parses to its claims until its expiry plus the leeway.\<close>

definition jwtLibrary :: "jwt \<Rightarrow> bool" where
  "jwtLibrary L \<longleftrightarrow>
     (\<forall>key cl s. signedString L key cl = Inr s \<longrightarrow>
        (\<forall>now lw. parseWithClaims L now lw key s = (if now < c_ExpiresAt cl + lw then Inr cl else Inl JwtExpired)))"

lemma signedString_inject:
  assumes "jwtLibrary L" "signedString L key cl = Inr s" "signedString L key cl' = Inr s"
  shows "cl = cl'"
proof -
  let ?now = "min (c_ExpiresAt cl) (c_ExpiresAt cl') - 1"
  have "parseWithClaims L ?now 0 key s = Inr cl" "parseWithClaims L ?now 0 key s = Inr cl'"
    using assms unfolding jwtLibrary_def by (metis (no_types) add.right_neutral diff_add_cancel min.cobounded1 min.cobounded2 zless_add1_eq order_less_le_trans less_add_one)+
  then show ?thesis by simp
qed

end
