(* ===== verification/Sql_Store.thy ===== *)
theory Sql_Store
  imports Api_Error
begin

text \<open>
  Statements on the tables of the database and transactions (\<^verbatim>\<open>db/sqlc/exec_tx.go\<close>), for any record \<open>'d\<close> of tables. A
  statement can also fail for reasons outside the tables: \<open>fault\<close> gives the error of a statement
  by its name, if it has one.
\<close>

type_synonym faults = "string \<Rightarrow> go_error option"

definition query :: "faults \<Rightarrow> string \<Rightarrow> go_error + 'a \<Rightarrow> go_error + 'a" where
  "query fault name res = (case fault name of Some e \<Rightarrow> Inl e | None \<Rightarrow> res)"

definition exec :: "faults \<Rightarrow> string \<Rightarrow> 'd \<Rightarrow> 'd \<Rightarrow> go_error option \<times> 'd" where
  "exec fault name d d' = (case fault name of Some e \<Rightarrow> (Some e, d) | None \<Rightarrow> (None, d'))"

definition violation :: "string \<Rightarrow> string \<Rightarrow> go_error" where
  "violation code con = PgErr \<lparr> pg_Code = code, pg_ConstraintName = con, pg_ColumnName = [], pg_Text = ''violates constraint '' @ con \<rparr>"

text \<open>An insertion checks the unique constraints, then the foreign keys; the first that fails is the error.\<close>

definition insertRow :: "faults \<Rightarrow> string \<Rightarrow> (bool \<times> go_error) list \<Rightarrow> 'row \<Rightarrow> 'd \<Rightarrow> 'd \<Rightarrow> (go_error + 'row) \<times> 'd" where
  "insertRow fault name checks row d d' =
     (case fault name of
        Some e \<Rightarrow> (Inl e, d)
      | None \<Rightarrow> (case filter fst checks of [] \<Rightarrow> (Inr row, d') | (_, e) # _ \<Rightarrow> (Inl e, d)))"

definition limit1 :: "('a list \<Rightarrow> 'a) \<Rightarrow> 'a list \<Rightarrow> go_error + 'a" where
  "limit1 pick rows = (if rows = [] then Inl ErrNoRows else Inr (pick rows))"

text \<open>A transaction: a commit that fails leaves the tables as they were.\<close>

definition execTx :: "faults \<Rightarrow> ('d \<Rightarrow> (go_error + 'a) \<times> 'd) \<Rightarrow> 'd \<Rightarrow> (go_error + 'a) \<times> 'd" where
  "execTx fault fn d =
     (case fault ''Begin'' of
        Some e \<Rightarrow> (Inl (WrapNoColon ''failed to begin transaction'' e), d)
      | None \<Rightarrow>
          (case fn d of
             (Inl err, d') \<Rightarrow>
               (Inl (case fault ''Rollback'' of Some rbErr \<Rightarrow> Wrap2 ''tx err'' err '', rollback err'' rbErr | None \<Rightarrow> err), d)
           | (Inr x, d') \<Rightarrow> (case fault ''Commit'' of Some e \<Rightarrow> (Inl e, d) | None \<Rightarrow> (Inr x, d'))))"

lemma exec_cases: "exec fault name d d' = (e, d'') \<Longrightarrow> (e = None \<and> d'' = d') \<or> (e \<noteq> None \<and> d'' = d)"
  by (auto simp: exec_def split: option.splits)

lemma execTx_cases:
  assumes "execTx fault fn d = (x, d')"
  shows "(\<exists>e. x = Inl e \<and> d' = d) \<or> (\<exists>v. x = Inr v \<and> fn d = (Inr v, d'))"
  using assms by (auto simp: execTx_def split: option.splits prod.splits sum.splits)

end
