(* ===== verification/Auth_Store.thy ===== *)
theory Auth_Store
  imports Sql_Store
begin

text \<open>
  The tables of users, tenants and sessions and the queries of the account service, translated from the SQL of
  \<^verbatim>\<open>db/sqlc/sessions.sql.go\<close> and \<^verbatim>\<open>db/sqlc/multi_tenant.sql.go\<close> and the constraints of \<^verbatim>\<open>db/migrations\<close>. Columns that no query
  here reads or writes are left out. \<open>pick\<close> is the row that \<^verbatim>\<open>LIMIT 1\<close> without an order returns.
\<close>

record user_row =
  u_ID :: string
  u_TenantID :: string
  u_Email :: string
  u_PasswordHash :: string
  u_FullName :: "string option"
  u_EmailVerified :: bool
  u_IsActive :: bool
  u_LastLoginAt :: "int option"
  u_CreatedAt :: int
  u_UpdatedAt :: int

record tenant_row =
  tn_ID :: string
  tn_Name :: string
  tn_Slug :: string
  tn_Plan :: string
  tn_PlanStatus :: string
  tn_TrialEndsAt :: "int option"
  tn_CreatedAt :: int
  tn_UpdatedAt :: int
  tn_Settings :: string
  tn_RetentionConfig :: string

record subscription_row =
  sb_ID :: string
  sb_TenantID :: string
  sb_Plan :: string
  sb_Status :: string

record session_row =
  s_ID :: string
  s_UserID :: string
  s_TenantID :: string
  s_RefreshToken :: string
  s_UserAgent :: "string option"
  s_ExpiresAt :: int
  s_CreatedAt :: int
  s_LastUsedAt :: int

record db =
  db_users :: "user_row list"
  db_tenants :: "tenant_row list"
  db_subscriptions :: "subscription_row list"
  db_sessions :: "session_row list"

definition withTenant :: "db \<Rightarrow> user_row list \<Rightarrow> (user_row \<times> tenant_row) list" where
  "withTenant d us = concat (map (\<lambda>u. map (\<lambda>t. (u, t)) (filter (\<lambda>t. tn_ID t = u_TenantID u) (db_tenants d))) us)"

definition GetUserByEmailGlobal ::
  "faults \<Rightarrow> ((user_row \<times> tenant_row) list \<Rightarrow> user_row \<times> tenant_row) \<Rightarrow> string \<Rightarrow> db \<Rightarrow> go_error + (user_row \<times> tenant_row)" where
  "GetUserByEmailGlobal fault pick email d =
     query fault ''GetUserByEmailGlobal''
       (limit1 pick (withTenant d (filter (\<lambda>u. u_Email u = email \<and> u_IsActive u) (db_users d))))"

definition GetUserByIDGlobal ::
  "faults \<Rightarrow> ((user_row \<times> tenant_row) list \<Rightarrow> user_row \<times> tenant_row) \<Rightarrow> string \<Rightarrow> db \<Rightarrow> go_error + (user_row \<times> tenant_row)" where
  "GetUserByIDGlobal fault pick uid d =
     query fault ''GetUserByIDGlobal'' (limit1 pick (withTenant d (filter (\<lambda>u. u_ID u = uid) (db_users d))))"

definition GetUserByID :: "faults \<Rightarrow> string \<Rightarrow> string \<Rightarrow> db \<Rightarrow> go_error + user_row" where
  "GetUserByID fault uid tid d =
     query fault ''GetUserByID'' (limit1 hd (filter (\<lambda>u. u_ID u = uid \<and> u_TenantID u = tid) (db_users d)))"

definition UpdateUserPassword :: "faults \<Rightarrow> int \<Rightarrow> string \<Rightarrow> string \<Rightarrow> string \<Rightarrow> db \<Rightarrow> go_error option \<times> db" where
  "UpdateUserPassword fault now uid tid hash d =
     exec fault ''UpdateUserPassword'' d
       (d \<lparr> db_users := map (\<lambda>u. if u_ID u = uid \<and> u_TenantID u = tid then u \<lparr> u_PasswordHash := hash, u_UpdatedAt := now \<rparr> else u) (db_users d) \<rparr>)"

definition VerifyUserEmail :: "faults \<Rightarrow> int \<Rightarrow> string \<Rightarrow> string \<Rightarrow> db \<Rightarrow> go_error option \<times> db" where
  "VerifyUserEmail fault now uid tid d =
     exec fault ''VerifyUserEmail'' d
       (d \<lparr> db_users := map (\<lambda>u. if u_ID u = uid \<and> u_TenantID u = tid then u \<lparr> u_EmailVerified := True, u_UpdatedAt := now \<rparr> else u) (db_users d) \<rparr>)"

definition UpdateTenantPlan ::
  "faults \<Rightarrow> int \<Rightarrow> string \<Rightarrow> string \<Rightarrow> string \<Rightarrow> int option \<Rightarrow> db \<Rightarrow> go_error option \<times> db" where
  "UpdateTenantPlan fault now tid plan status trial d =
     (if fault ''UpdateTenantPlan'' = None \<and> filter (\<lambda>t. tn_ID t = tid) (db_tenants d) = [] then (Some ErrNoRows, d)
      else exec fault ''UpdateTenantPlan'' d
        (d \<lparr> db_tenants := map (\<lambda>t. if tn_ID t = tid then t \<lparr> tn_Plan := plan, tn_PlanStatus := status, tn_TrialEndsAt := trial,
             tn_UpdatedAt := now \<rparr> else t) (db_tenants d) \<rparr>))"

definition UnverifyUserEmail :: "faults \<Rightarrow> int \<Rightarrow> string \<Rightarrow> string \<Rightarrow> db \<Rightarrow> go_error option \<times> db" where
  "UnverifyUserEmail fault now uid tid d =
     exec fault ''UnverifyUserEmail'' d
       (d \<lparr> db_users := map (\<lambda>u. if u_ID u = uid \<and> u_TenantID u = tid then u \<lparr> u_EmailVerified := False, u_UpdatedAt := now \<rparr> else u) (db_users d) \<rparr>)"

record UpdateUserProfileParams =
  up_ID :: string
  up_TenantID :: string
  up_FullName :: "string option"
  up_Email :: "string option"

text \<open>The new row: a null argument keeps the column, and a new address is not verified.\<close>

definition profileRow :: "int \<Rightarrow> UpdateUserProfileParams \<Rightarrow> user_row \<Rightarrow> user_row" where
  "profileRow now p u =
     u \<lparr> u_FullName := (case up_FullName p of None \<Rightarrow> u_FullName u | Some n \<Rightarrow> Some n),
        u_Email := (case up_Email p of None \<Rightarrow> u_Email u | Some e \<Rightarrow> e),
        u_EmailVerified := (case up_Email p of None \<Rightarrow> u_EmailVerified u | Some e \<Rightarrow> if e \<noteq> u_Email u then False else u_EmailVerified u),
        u_UpdatedAt := now \<rparr>"

definition UpdateUserProfile :: "faults \<Rightarrow> int \<Rightarrow> UpdateUserProfileParams \<Rightarrow> db \<Rightarrow> (go_error + user_row) \<times> db" where
  "UpdateUserProfile fault now p d =
     (let target = (\<lambda>u. u_ID u = up_ID p \<and> u_TenantID u = up_TenantID p) in
      case fault ''UpdateUserProfile'' of
        Some e \<Rightarrow> (Inl e, d)
      | None \<Rightarrow>
          (case filter target (db_users d) of
             [] \<Rightarrow> (Inl ErrNoRows, d)
           | u # _ \<Rightarrow>
               if list_ex (\<lambda>v. \<not> target v \<and> u_TenantID v = u_TenantID u \<and> u_Email v = u_Email (profileRow now p u)) (db_users d)
               then (Inl (violation PgUniqueViolation ''users_tenant_id_email_key''), d)
               else (Inr (profileRow now p u),
                     d \<lparr> db_users := map (\<lambda>v. if target v then profileRow now p v else v) (db_users d) \<rparr>)))"

subsection \<open>Registration\<close>

record CreateTenantParams =
  ct_Name :: string
  ct_Slug :: string
  ct_Plan :: string
  ct_PlanStatus :: string
  ct_TrialEndsAt :: "int option"
  ct_Settings :: string
  ct_RetentionConfig :: string

definition CreateTenant :: "faults \<Rightarrow> string \<Rightarrow> int \<Rightarrow> CreateTenantParams \<Rightarrow> db \<Rightarrow> (go_error + tenant_row) \<times> db" where
  "CreateTenant fault tid now p d =
     (let row = \<lparr> tn_ID = tid, tn_Name = ct_Name p, tn_Slug = ct_Slug p, tn_Plan = ct_Plan p, tn_PlanStatus = ct_PlanStatus p,
                  tn_TrialEndsAt = ct_TrialEndsAt p, tn_CreatedAt = now, tn_UpdatedAt = now, tn_Settings = ct_Settings p,
                  tn_RetentionConfig = ct_RetentionConfig p \<rparr>
      in insertRow fault ''CreateTenant''
           [(tid \<in> set (map tn_ID (db_tenants d)), violation PgUniqueViolation ''tenants_pkey''),
            (ct_Slug p \<in> set (map tn_Slug (db_tenants d)), violation PgUniqueViolation ''tenants_slug_key'')]
           row d (d \<lparr> db_tenants := db_tenants d @ [row] \<rparr>))"

record CreateUserParams =
  cu_TenantID :: string
  cu_Email :: string
  cu_PasswordHash :: string
  cu_FullName :: "string option"
  cu_EmailVerified :: bool
  cu_IsActive :: bool

definition CreateUser :: "faults \<Rightarrow> string \<Rightarrow> int \<Rightarrow> CreateUserParams \<Rightarrow> db \<Rightarrow> (go_error + user_row) \<times> db" where
  "CreateUser fault uid now p d =
     (let row = \<lparr> u_ID = uid, u_TenantID = cu_TenantID p, u_Email = cu_Email p, u_PasswordHash = cu_PasswordHash p,
                  u_FullName = cu_FullName p, u_EmailVerified = cu_EmailVerified p, u_IsActive = cu_IsActive p,
                  u_LastLoginAt = None, u_CreatedAt = now, u_UpdatedAt = now \<rparr>
      in insertRow fault ''CreateUser''
           [(uid \<in> set (map u_ID (db_users d)), violation PgUniqueViolation ''users_pkey''),
            ((cu_TenantID p, cu_Email p) \<in> set (map (\<lambda>u. (u_TenantID u, u_Email u)) (db_users d)),
             violation PgUniqueViolation ''users_tenant_id_email_key''),
            (cu_TenantID p \<notin> set (map tn_ID (db_tenants d)), violation PgForeignKeyViolation ''users_tenant_id_fkey'')]
           row d (d \<lparr> db_users := db_users d @ [row] \<rparr>))"

definition CreateSubscription :: "faults \<Rightarrow> string \<Rightarrow> string \<Rightarrow> string \<Rightarrow> string \<Rightarrow> db \<Rightarrow> (go_error + subscription_row) \<times> db" where
  "CreateSubscription fault bid tid plan status d =
     (let row = \<lparr> sb_ID = bid, sb_TenantID = tid, sb_Plan = plan, sb_Status = status \<rparr>
      in insertRow fault ''CreateSubscription''
           [(bid \<in> set (map sb_ID (db_subscriptions d)), violation PgUniqueViolation ''subscriptions_pkey''),
            (tid \<in> set (map sb_TenantID (db_subscriptions d)), violation PgUniqueViolation ''subscriptions_tenant_id_key''),
            (tid \<notin> set (map tn_ID (db_tenants d)), violation PgForeignKeyViolation ''subscriptions_tenant_id_fkey'')]
           row d (d \<lparr> db_subscriptions := db_subscriptions d @ [row] \<rparr>))"

text \<open>The rows of other tables that refer to a tenant or to a user go with it.\<close>

definition DeleteTenant :: "faults \<Rightarrow> string \<Rightarrow> db \<Rightarrow> go_error option \<times> db" where
  "DeleteTenant fault tid d =
     exec fault ''DeleteTenant'' d
       \<lparr> db_users = filter (\<lambda>u. u_TenantID u \<noteq> tid) (db_users d),
         db_tenants = filter (\<lambda>t. tn_ID t \<noteq> tid) (db_tenants d),
         db_subscriptions = filter (\<lambda>b. sb_TenantID b \<noteq> tid) (db_subscriptions d),
         db_sessions = filter (\<lambda>s. s_TenantID s \<noteq> tid \<and> s_UserID s \<notin> set (map u_ID (filter (\<lambda>u. u_TenantID u = tid) (db_users d))))
           (db_sessions d) \<rparr>"

record RegisterTenantParams =
  rp_TenantName :: string
  rp_Slug :: string
  rp_Plan :: string
  rp_OwnerEmail :: string
  rp_PasswordHash :: string
  rp_FullName :: string

record RegisterTenantResult =
  rr_Tenant :: tenant_row
  rr_User :: user_row
  rr_Subscription :: subscription_row

definition optionalStringPtr :: "string \<Rightarrow> string option" where
  "optionalStringPtr s = (if s = [] then None else Some s)"

text \<open>The retention policies, JSON text in the source, without its line breaks.\<close>

definition retention :: "string \<Rightarrow> string \<Rightarrow> string \<Rightarrow> string \<Rightarrow> string \<Rightarrow> string" where
  "retention e p b s r =
     ''{\"error_traces_days\": '' @ e @ '', \"profiler_recordings_days\": '' @ p @ '', \"budget_samples_days\": '' @ b @
     '', \"schema_snapshots_keep\": '' @ s @ '', \"raw_logs_days\": '' @ r @ ''}''"

definition defaultRetentionConfig :: "string \<Rightarrow> string" where
  "defaultRetentionConfig plan =
     (if plan = ''onprem'' then retention ''30'' ''30'' ''90'' ''30'' ''14''
      else if plan = ''enterprise'' then retention ''-1'' ''-1'' ''-1'' ''-1'' ''90''
      else retention ''7'' ''7'' ''30'' ''10'' ''3'')"

text \<open>\<open>tid\<close>, \<open>uid\<close> and \<open>bid\<close> are the identifiers that the database draws for the three rows.\<close>

definition RegisterTenantTx ::
  "faults \<Rightarrow> string \<Rightarrow> string \<Rightarrow> string \<Rightarrow> int \<Rightarrow> RegisterTenantParams \<Rightarrow> db \<Rightarrow> (go_error + RegisterTenantResult) \<times> db" where
  "RegisterTenantTx fault tid uid bid now arg =
     execTx fault (\<lambda>d.
       case CreateTenant fault tid now
              \<lparr> ct_Name = rp_TenantName arg, ct_Slug = rp_Slug arg, ct_Plan = rp_Plan arg, ct_PlanStatus = ''trialing'',
                ct_TrialEndsAt = None, ct_Settings = ''{}'', ct_RetentionConfig = defaultRetentionConfig (rp_Plan arg) \<rparr> d of
         (Inl err, d1) \<Rightarrow> (Inl err, d1)
       | (Inr tenant, d1) \<Rightarrow>
           (case CreateUser fault uid now
                   \<lparr> cu_TenantID = tn_ID tenant, cu_Email = rp_OwnerEmail arg, cu_PasswordHash = rp_PasswordHash arg,
                     cu_FullName = optionalStringPtr (rp_FullName arg), cu_EmailVerified = False, cu_IsActive = True \<rparr> d1 of
              (Inl err, d2) \<Rightarrow> (Inl err, d2)
            | (Inr user, d2) \<Rightarrow>
                (case CreateSubscription fault bid (tn_ID tenant) (rp_Plan arg) ''trialing'' d2 of
                   (Inl err, d3) \<Rightarrow> (Inl err, d3)
                 | (Inr sub, d3) \<Rightarrow> (Inr \<lparr> rr_Tenant = tenant, rr_User = user, rr_Subscription = sub \<rparr>, d3))))"

subsection \<open>Sessions\<close>

record CreateSessionParams =
  cp_UserID :: string
  cp_TenantID :: string
  cp_RefreshToken :: string
  cp_UserAgent :: "string option"
  cp_ExpiresAt :: int

text \<open>\<open>sid\<close> is the identifier that the database draws for the new row.\<close>

definition CreateSession ::
  "faults \<Rightarrow> string \<Rightarrow> int \<Rightarrow> CreateSessionParams \<Rightarrow> db \<Rightarrow> (go_error + session_row) \<times> db" where
  "CreateSession fault sid now p d =
     (let row = \<lparr> s_ID = sid, s_UserID = cp_UserID p, s_TenantID = cp_TenantID p, s_RefreshToken = cp_RefreshToken p,
                  s_UserAgent = cp_UserAgent p, s_ExpiresAt = cp_ExpiresAt p, s_CreatedAt = now, s_LastUsedAt = now \<rparr>
      in insertRow fault ''CreateSession''
           [(sid \<in> set (map s_ID (db_sessions d)), violation PgUniqueViolation ''sessions_pkey''),
            (cp_RefreshToken p \<in> set (map s_RefreshToken (db_sessions d)), violation PgUniqueViolation ''sessions_refresh_token_key''),
            (cp_UserID p \<notin> set (map u_ID (db_users d)), violation PgForeignKeyViolation ''sessions_user_id_fkey''),
            (cp_TenantID p \<notin> set (map tn_ID (db_tenants d)), violation PgForeignKeyViolation ''sessions_tenant_id_fkey'')]
           row d (d \<lparr> db_sessions := db_sessions d @ [row] \<rparr>))"

definition sessionUser :: "db \<Rightarrow> session_row \<Rightarrow> (session_row \<times> bool) list" where
  "sessionUser d s = map (\<lambda>u. (s, u_IsActive u)) (filter (\<lambda>u. u_ID u = s_UserID s) (db_users d))"

definition GetSessionByToken :: "faults \<Rightarrow> int \<Rightarrow> string \<Rightarrow> db \<Rightarrow> go_error + (session_row \<times> bool)" where
  "GetSessionByToken fault now tok d =
     query fault ''GetSessionByToken''
       (limit1 hd (concat (map (sessionUser d) (filter (\<lambda>s. s_RefreshToken s = tok \<and> s_ExpiresAt s > now) (db_sessions d)))))"

definition ListSessions :: "faults \<Rightarrow> int \<Rightarrow> string \<Rightarrow> db \<Rightarrow> go_error + session_row list" where
  "ListSessions fault now uid d =
     query fault ''ListSessions''
       (Inr (sort_key (\<lambda>s. - s_CreatedAt s) (filter (\<lambda>s. s_UserID s = uid \<and> s_ExpiresAt s > now) (db_sessions d))))"

definition UpdateSessionToken :: "faults \<Rightarrow> int \<Rightarrow> string \<Rightarrow> string \<Rightarrow> int \<Rightarrow> db \<Rightarrow> go_error option \<times> db" where
  "UpdateSessionToken fault now sid tok ex d =
     (if fault ''UpdateSessionToken'' = None \<and> list_ex (\<lambda>s. s_ID s = sid) (db_sessions d) \<and>
         list_ex (\<lambda>s. s_ID s \<noteq> sid \<and> s_RefreshToken s = tok) (db_sessions d)
      then (Some (violation PgUniqueViolation ''sessions_refresh_token_key''), d)
      else exec fault ''UpdateSessionToken'' d
        (d \<lparr> db_sessions := map (\<lambda>s. if s_ID s = sid
             then s \<lparr> s_RefreshToken := tok, s_ExpiresAt := ex, s_LastUsedAt := now \<rparr> else s) (db_sessions d) \<rparr>))"

definition Db_RevokeSession :: "faults \<Rightarrow> string \<Rightarrow> string \<Rightarrow> db \<Rightarrow> go_error option \<times> db" where
  "Db_RevokeSession fault sid uid d =
     exec fault ''RevokeSession'' d
       (d \<lparr> db_sessions := filter (\<lambda>s. \<not> (s_ID s = sid \<and> s_UserID s = uid)) (db_sessions d) \<rparr>)"

definition RevokeAllSessions :: "faults \<Rightarrow> string \<Rightarrow> db \<Rightarrow> go_error option \<times> db" where
  "RevokeAllSessions fault uid d =
     exec fault ''RevokeAllSessions'' d (d \<lparr> db_sessions := filter (\<lambda>s. s_UserID s \<noteq> uid) (db_sessions d) \<rparr>)"

text \<open>The constraints of the table of sessions: its primary key and the unique refresh token.\<close>

definition sessions_ok :: "db \<Rightarrow> bool" where
  "sessions_ok d \<longleftrightarrow> distinct (map s_ID (db_sessions d)) \<and> distinct (map s_RefreshToken (db_sessions d))"

end
