(* ===== verification/Auth_Service.thy ===== *)
theory Auth_Service
  imports Redis_Cache Auth_Token Auth_Store Error_Signature "HOL-Library.Word"
begin

unbundle bit_operations_syntax

text \<open>
  The account service (\<^verbatim>\<open>internal/service/auth_service.go\<close> and \<^verbatim>\<open>helper.go\<close>): registration, login with lockout, rotation of
  refresh tokens, logout, passwords, verification of addresses, sessions. The state is that of the database and of
  Redis and the mail sent. The record \<open>auth\<close> holds what the service is built from: the cache client, the
  token maker, \<^verbatim>\<open>bcrypt\<close>, the JSON codecs and its configuration. The record \<open>call\<close> holds what one request
  draws from its surroundings: the time, new identifiers, random bytes, failures of statements and of the
  mail server. A request reads the clock once here, and is not interleaved with another. Identifiers are
  their canonical texts. The update of \<^verbatim>\<open>last_login_at\<close>, done in the background, is left out, as no operation reads it
  but for display.
\<close>

subsection \<open>Surroundings\<close>

record AuthConfig =
  ac_AccessTokenDuration :: int
  ac_RefreshTokenDuration :: int
  ac_PasswordMinLength :: int
  ac_SMTPFrom :: string
  ac_AppBaseURL :: string

record 'r auth =
  au_redis :: "'r redis"
  au_prefix :: string
  au_sessionJson :: "Session json"
  au_resetJson :: "ResetToken json"
  au_verifyJson :: "VerifyEmailToken json"
  au_jwt :: jwt
  au_secretKey :: string
  au_uuidParse :: "string \<Rightarrow> string option"
  au_bcryptHash :: "string \<Rightarrow> go_error + string"
  au_bcryptCompare :: "string \<Rightarrow> string \<Rightarrow> bool"
  au_unicode :: unicode
  au_title :: "string \<Rightarrow> string"
  au_formatTime :: "int \<Rightarrow> string"
  au_config :: AuthConfig

record call =
  cl_now :: int
  cl_access :: "go_error + string"
  cl_refresh :: "go_error + string"
  cl_session :: string
  cl_tenant :: string
  cl_user :: string
  cl_subscription :: string
  cl_random :: "go_error + string"
  cl_fault :: faults
  cl_pick :: "(user_row \<times> tenant_row) list \<Rightarrow> user_row \<times> tenant_row"
  cl_mail :: "go_error option"

record 'r astate =
  st_db :: db
  st_cache :: 'r
  st_mail :: "(string \<times> string) list"

type_synonym ('r, 'a) request = "'r astate \<Rightarrow> (go_error + 'a) \<times> 'r astate"

definition onCache :: "('r, 'a) command \<Rightarrow> ('r, 'a) request" where
  "onCache c s = (case c (st_cache s) of (x, r) \<Rightarrow> (x, s \<lparr> st_cache := r \<rparr>))"

definition onDb :: "(db \<Rightarrow> 'e \<times> db) \<Rightarrow> 'r astate \<Rightarrow> 'e \<times> 'r astate" where
  "onDb f s = (case f (st_db s) of (x, d) \<Rightarrow> (x, s \<lparr> st_db := d \<rparr>))"

text \<open>A call of the cache whose outcome the code drops.\<close>

abbreviation dropCache :: "('r, 'a) command \<Rightarrow> 'r astate \<Rightarrow> 'r astate" where
  "dropCache c s \<equiv> snd (onCache c s)"

definition pgError :: "'r auth \<Rightarrow> go_error \<Rightarrow> go_error" where
  "pgError A err = ApiErr (FromPgError (au_unicode A) (au_title A) err)"

definition internal :: "string \<Rightarrow> go_error \<Rightarrow> go_error" where
  "internal s err = ApiErr (ErrInternal (Wrap s err))"

definition lowerTrim :: "'r auth \<Rightarrow> string \<Rightarrow> string" where
  "lowerTrim A email = ToLower (au_unicode A) (TrimSpace email)"

definition createToken :: "'r auth \<Rightarrow> call \<Rightarrow> go_error + string \<Rightarrow> string \<Rightarrow> int \<Rightarrow> go_error + (string \<times> Payload)" where
  "createToken A c uid username duration =
     CreateToken (au_jwt A) (au_secretKey A) (cl_now c) (cl_now c) uid username duration"

definition verifyToken :: "'r auth \<Rightarrow> call \<Rightarrow> string \<Rightarrow> token_error + Payload" where
  "verifyToken A c tok = VerifyToken (au_jwt A) (au_uuidParse A) (au_secretKey A) (cl_now c) tok"

subsection \<open>Passwords\<close>

definition HashPassword :: "'r auth \<Rightarrow> string \<Rightarrow> go_error + string" where
  "HashPassword A password =
     (case au_bcryptHash A password of Inl err \<Rightarrow> Inl (Wrap ''failed to hash password'' err) | Inr h \<Rightarrow> Inr h)"

definition CheckPassword :: "'r auth \<Rightarrow> string \<Rightarrow> string \<Rightarrow> bool" where
  "CheckPassword A password hashPassword = au_bcryptCompare A hashPassword password"

definition ValidatePassword :: "string \<Rightarrow> int \<Rightarrow> string option" where
  "ValidatePassword password passwordMinLength =
     (if int (length password) < passwordMinLength
      then Some (''password does not meet requirements: password must be at least '' @ Itoa passwordMinLength @ '' characters'')
      else None)"

subsection \<open>Sessions and mail\<close>

definition persistSession :: "'r auth \<Rightarrow> call \<Rightarrow> CreateSessionParams \<Rightarrow> string \<Rightarrow> string \<Rightarrow> ('r, unit) request" where
  "persistSession A c params ipAddress userAgent s =
     (case onDb (CreateSession (cl_fault c) (cl_session c) (cl_now c) params) s of
        (Inl err, s1) \<Rightarrow> (Inl (pgError A err), s1)
      | (Inr row, s1) \<Rightarrow>
          (Inr (), dropCache (Cache_CreateSession (au_redis A) (au_sessionJson A) (au_prefix A) (cl_now c)
             \<lparr> se_ID = s_ID row, se_UserID = cp_UserID params, se_TenantID = cp_TenantID params,
               se_RefreshToken = cp_RefreshToken params, se_UserAgent = userAgent, se_IPAddress = ipAddress,
               se_CreatedAt = s_CreatedAt row, se_ExpiresAt = s_ExpiresAt row, se_LastActiveAt = s_LastUsedAt row \<rparr>) s1))"

text \<open>A number of at most six digits, padded with zeros.\<close>

definition pad6 :: "int \<Rightarrow> string" where
  "pad6 n = replicate (6 - length (Itoa n)) (CHR ''0'') @ Itoa n"

definition byte32 :: "char \<Rightarrow> 32 word" where
  "byte32 b = of_char b"

text \<open>\<open>b\<close> is the outcome of \<^verbatim>\<open>rand.Read\<close> on four bytes.\<close>

definition generate6DigitCode :: "go_error + string \<Rightarrow> go_error + string" where
  "generate6DigitCode b =
     res_bind b (\<lambda>b.
       let n = (push_bit 24 (byte32 (b ! 0)) OR push_bit 16 (byte32 (b ! 1)) OR push_bit 8 (byte32 (b ! 2)) OR byte32 (b ! 3)) mod 1000000
       in Inr (pad6 (uint n)))"

definition crlf :: string where
  "crlf = [CHR 0x0D, CHR 0x0A]"

definition sendMail :: "call \<Rightarrow> string \<Rightarrow> string \<Rightarrow> 'r astate \<Rightarrow> go_error option \<times> 'r astate" where
  "sendMail c recipient body s =
     (case cl_mail c of Some err \<Rightarrow> (Some err, s) | None \<Rightarrow> (None, s \<lparr> st_mail := st_mail s @ [(recipient, body)] \<rparr>))"

definition verificationMail :: "AuthConfig \<Rightarrow> string \<Rightarrow> string \<Rightarrow> string" where
  "verificationMail cfg email code =
     ''From: '' @ ac_SMTPFrom cfg @ crlf @ ''To: '' @ email @ crlf @ ''Subject: Verify your email address'' @ crlf @ crlf @
     ''Hello,'' @ crlf @ crlf @ ''Your email verification code is:'' @ crlf @ crlf @ ''  '' @ code @ crlf @ crlf @
     ''Enter this 6-digit code to verify your email address.'' @ crlf @ crlf @ ''This code expires in 10 minutes.'' @ crlf @ crlf @
     ''If you did not create an account, you can safely ignore this email.'' @ crlf"

definition sendVerificationEmail :: "'r auth \<Rightarrow> call \<Rightarrow> string \<Rightarrow> string \<Rightarrow> 'r astate \<Rightarrow> go_error option \<times> 'r astate" where
  "sendVerificationEmail A c userID email s =
     (case generate6DigitCode (cl_random c) of
        Inl err \<Rightarrow> (Some err, s)
      | Inr code \<Rightarrow>
          (case onCache (StoreVerifyEmailToken (au_redis A) (au_verifyJson A) (au_prefix A) (cl_now c)
                  \<lparr> vt_UserID = userID, vt_Email = email, vt_Code = code, vt_CreatedAt = cl_now c \<rparr>) s of
             (Inl err, s1) \<Rightarrow> (Some err, s1)
           | (Inr _, s1) \<Rightarrow> sendMail c email (verificationMail (au_config A) email code) s1))"

text \<open>The reset mail is sent in the background; its failure is only logged.\<close>

definition sendPasswordResetEmail :: "'r auth \<Rightarrow> call \<Rightarrow> string \<Rightarrow> string \<Rightarrow> 'r astate \<Rightarrow> 'r astate" where
  "sendPasswordResetEmail A c email resetToken s =
     (let cfg = au_config A; resetURL = ac_AppBaseURL cfg @ ''/reset-password?token='' @ resetToken in
      snd (sendMail c email
        (''From: '' @ ac_SMTPFrom cfg @ crlf @ ''To: '' @ email @ crlf @ ''Subject: Reset your password'' @ crlf @ crlf @
         ''Hello,'' @ crlf @ crlf @ ''Click the link below to reset your password:'' @ crlf @ crlf @ ''  '' @ resetURL @ crlf @ crlf @
         ''This link expires in 1 hour.'' @ crlf @ crlf @
         ''If you did not request a password reset, please ignore this email.'' @ crlf) s))"

subsection \<open>Requests and responses\<close>

record UserResponse =
  ur_ID :: string
  ur_Email :: string
  ur_FullName :: "string option"
  ur_TenantID :: string
  ur_EmailVerified :: bool
  ur_IsActive :: bool
  ur_CreatedAt :: int
  ur_UpdatedAt :: int
  ur_LastLoginAt :: "int option"

definition ToUserResponse :: "user_row \<Rightarrow> UserResponse" where
  "ToUserResponse u =
     \<lparr> ur_ID = u_ID u, ur_Email = u_Email u, ur_FullName = u_FullName u, ur_TenantID = u_TenantID u,
       ur_EmailVerified = u_EmailVerified u, ur_IsActive = u_IsActive u, ur_CreatedAt = u_CreatedAt u,
       ur_UpdatedAt = u_UpdatedAt u, ur_LastLoginAt = u_LastLoginAt u \<rparr>"

record TenantResponse =
  tr_ID :: string
  tr_Name :: string
  tr_Slug :: string
  tr_Plan :: string
  tr_PlanStatus :: string
  tr_CreatedAt :: int

definition ToTenantResponse :: "tenant_row \<Rightarrow> TenantResponse" where
  "ToTenantResponse t =
     \<lparr> tr_ID = tn_ID t, tr_Name = tn_Name t, tr_Slug = tn_Slug t, tr_Plan = tn_Plan t, tr_PlanStatus = tn_PlanStatus t,
       tr_CreatedAt = tn_CreatedAt t \<rparr>"

record RegisterRequest =
  rg_Email :: string
  rg_Password :: string
  rg_ConfirmPassword :: string
  rg_TenantName :: string
  rg_TenantSlug :: string
  rg_FullName :: string

text \<open>The answer of a registration, a login or a refresh; the expiry is in whole seconds.\<close>

record token_pair =
  tp_AccessToken :: string
  tp_RefreshToken :: string
  tp_ExpiresIn :: int
  tp_TokenType :: string

definition tokenPair :: "'r auth \<Rightarrow> string \<Rightarrow> string \<Rightarrow> token_pair" where
  "tokenPair A access refresh =
     \<lparr> tp_AccessToken = access, tp_RefreshToken = refresh,
       tp_ExpiresIn = ac_AccessTokenDuration (au_config A) div sec, tp_TokenType = ''Bearer'' \<rparr>"

text \<open>Both tokens for a user; the second is the refresh token with its payload.\<close>

definition issueTokens :: "'r auth \<Rightarrow> call \<Rightarrow> string \<Rightarrow> go_error + (string \<times> string \<times> Payload)" where
  "issueTokens A c userID =
     (case createToken A c (cl_access c) userID (ac_AccessTokenDuration (au_config A)) of
        Inl err \<Rightarrow> Inl (internal ''create access token'' err)
      | Inr (accessToken, _) \<Rightarrow>
          (case createToken A c (cl_refresh c) userID (ac_RefreshTokenDuration (au_config A)) of
             Inl err \<Rightarrow> Inl (internal ''create refresh token'' err)
           | Inr (refreshToken, payload) \<Rightarrow> Inr (accessToken, refreshToken, payload)))"

definition newSession :: "string \<Rightarrow> string \<Rightarrow> string \<Rightarrow> string \<Rightarrow> int \<Rightarrow> CreateSessionParams" where
  "newSession userID tenantID refreshToken userAgent expiresAt =
     \<lparr> cp_UserID = userID, cp_TenantID = tenantID, cp_RefreshToken = refreshToken, cp_UserAgent = Some userAgent,
       cp_ExpiresAt = expiresAt \<rparr>"

subsection \<open>Registration\<close>

fun detailField :: "ErrorDetail list \<Rightarrow> api_error" where
  "detailField [] = ErrSlugAlreadyExists"
| "detailField (d # ds) =
     (if ed_Field d = ''slug'' then ErrSlugAlreadyExists
      else if ed_Field d = ''email'' then ErrEmailAlreadyExists
      else detailField ds)"

definition mapRegisterUniqueViolation :: "'r auth \<Rightarrow> go_error \<Rightarrow> go_error" where
  "mapRegisterUniqueViolation A err = ApiErr (detailField (Details (FromPgError (au_unicode A) (au_title A) err)))"

definition registerParams :: "'r auth \<Rightarrow> RegisterRequest \<Rightarrow> string \<Rightarrow> RegisterTenantParams" where
  "registerParams A req hash =
     \<lparr> rp_TenantName = rg_TenantName req, rp_Slug = lowerTrim A (rg_TenantSlug req), rp_Plan = ''cloud'',
       rp_OwnerEmail = lowerTrim A (rg_Email req), rp_PasswordHash = hash, rp_FullName = rg_FullName req \<rparr>"

definition Register ::
  "'r auth \<Rightarrow> call \<Rightarrow> RegisterRequest \<Rightarrow> string \<Rightarrow> string \<Rightarrow> ('r, UserResponse \<times> TenantResponse \<times> token_pair) request" where
  "Register A c req ipAddress userAgent s =
     (if rg_Password req \<noteq> rg_ConfirmPassword req
      then (Inl (ApiErr (ErrValidation ''Password and confirm password do not match'')), s)
      else case ValidatePassword (rg_Password req) (ac_PasswordMinLength (au_config A)) of
        Some msg \<Rightarrow> (Inl (ApiErr (ErrValidation msg)), s)
      | None \<Rightarrow>
      case HashPassword A (rg_Password req) of
        Inl err \<Rightarrow> (Inl (internal ''hash password'' err), s)
      | Inr hashedPassword \<Rightarrow>
      case onDb (RegisterTenantTx (cl_fault c) (cl_tenant c) (cl_user c) (cl_subscription c) (cl_now c)
                   (registerParams A req hashedPassword)) s of
        (Inl err, s1) \<Rightarrow> (Inl (if IsUniqueViolation err then mapRegisterUniqueViolation A err else pgError A err), s1)
      | (Inr result, s1) \<Rightarrow>
      case sendVerificationEmail A c (u_ID (rr_User result)) (lowerTrim A (rg_Email req)) s1 of
        (Some err, s2) \<Rightarrow>
          (Inl (internal ''send verification email'' err), snd (onDb (DeleteTenant (cl_fault c) (tn_ID (rr_Tenant result))) s2))
      | (None, s2) \<Rightarrow>
      case issueTokens A c (u_ID (rr_User result)) of
        Inl err \<Rightarrow> (Inl err, s2)
      | Inr (accessToken, refreshToken, payload) \<Rightarrow>
      case persistSession A c (newSession (u_ID (rr_User result)) (tn_ID (rr_Tenant result)) refreshToken userAgent
                                 (p_ExpiredAt payload)) ipAddress userAgent s2 of
        (Inl err, s3) \<Rightarrow> (Inl err, s3)
      | (Inr _, s3) \<Rightarrow>
          (Inr (ToUserResponse (rr_User result), ToTenantResponse (rr_Tenant result), tokenPair A accessToken refreshToken), s3))"

subsection \<open>Login\<close>

record LoginRequest =
  lq_Email :: string
  lq_Password :: string

text \<open>\<^verbatim>\<open>%v\<close> of a duration of whole seconds, at least one.\<close>

definition durationText :: "int \<Rightarrow> string" where
  "durationText d =
     (let t = d div sec; h = t div 3600; m = t div 60 mod 60 in
      (if t \<ge> 3600 then Itoa h @ ''h'' else []) @ (if t \<ge> 60 then Itoa m @ ''m'' else []) @ Itoa (t mod 60) @ ''s'')"

definition tooMany :: "string \<Rightarrow> go_error" where
  "tooMany msg = ApiErr (NewError ErrCodeRateLimited msg 429)"

definition forbidden :: "string \<Rightarrow> go_error" where
  "forbidden msg = ApiErr (NewError ErrCodeForbidden msg 403)"

definition Login :: "'r auth \<Rightarrow> call \<Rightarrow> LoginRequest \<Rightarrow> string \<Rightarrow> string \<Rightarrow> ('r, token_pair \<times> UserResponse) request" where
  "Login A c req ipAddress userAgent s =
     (let email = lowerTrim A (lq_Email req);
          attempt = RecordLoginAttempt (au_redis A) (au_prefix A) (cl_now c) email
      in
      case onCache (IsLoginLocked (au_redis A) (au_prefix A) (cl_now c) email) s of (lock, s1) \<Rightarrow>
      case lock of
        Inr (Some lockedUntil) \<Rightarrow> (Inl (tooMany (''Account locked until '' @ au_formatTime A lockedUntil @ ''.'')), s1)
      | _ \<Rightarrow>
      case GetUserByEmailGlobal (cl_fault c) (cl_pick c) email (st_db s1) of
        Inl _ \<Rightarrow> (Inl (ApiErr ErrInvalidCredentials), dropCache (attempt False) s1)
      | Inr (user, _) \<Rightarrow>
          if \<not> u_IsActive user then (Inl (forbidden ''Account has been deactivated''), s1)
          else if \<not> u_EmailVerified user
          then (Inl (forbidden ''Please verify your email address before logging in''), s1)
          else if \<not> CheckPassword A (lq_Password req) (u_PasswordHash user) then
            (case onCache (attempt False) s1 of
               (Inr result, s2) \<Rightarrow>
                 (Inl (if la_Allowed result then ApiErr ErrInvalidCredentials
                       else tooMany (if la_LockoutDuration result > 0
                              then ''Too many failed attempts. Account locked for '' @ durationText (la_LockoutDuration result) @ ''.''
                              else ''Too many failed login attempts.'')), s2)
             | (Inl _, s2) \<Rightarrow> (Inl (ApiErr ErrInvalidCredentials), s2))
          else
            let s2 = dropCache (attempt True) s1 in
            case issueTokens A c (u_ID user) of
              Inl err \<Rightarrow> (Inl err, s2)
            | Inr (accessToken, refreshToken, payload) \<Rightarrow>
            case persistSession A c (newSession (u_ID user) (u_TenantID user) refreshToken userAgent (p_ExpiredAt payload))
                   ipAddress userAgent s2 of
              (Inl err, s3) \<Rightarrow> (Inl err, s3)
            | (Inr _, s3) \<Rightarrow> (Inr (tokenPair A accessToken refreshToken, ToUserResponse user), s3))"

subsection \<open>Tokens\<close>

definition RefreshToken :: "'r auth \<Rightarrow> call \<Rightarrow> string \<Rightarrow> string \<Rightarrow> string \<Rightarrow> ('r, token_pair) request" where
  "RefreshToken A c tok ipAddress userAgent s =
     (case verifyToken A c tok of
        Inl _ \<Rightarrow> (Inl (ApiErr (ErrInvalidToken ''Invalid or expired refresh token'')), s)
      | Inr refreshPayload \<Rightarrow>
      case onCache (IsTokenBlacklisted (au_redis A) (au_prefix A) (cl_now c) (p_ID refreshPayload)) s of
        (Inl err, s1) \<Rightarrow> (Inl (internal ''checking token blacklist'' err), s1)
      | (Inr blacklisted, s1) \<Rightarrow>
      if blacklisted then (Inl (ApiErr (ErrInvalidToken ''Refresh token has been revoked'')), s1)
      else case GetSessionByToken (cl_fault c) (cl_now c) tok (st_db s1) of
        Inl _ \<Rightarrow> (Inl (ApiErr (ErrInvalidToken ''Session not found or already expired'')), s1)
      | Inr (session, userIsActive) \<Rightarrow>
      if s_UserID session \<noteq> p_Username refreshPayload then (Inl (ApiErr (ErrInvalidToken ''Token/session mismatch'')), s1)
      else if \<not> userIsActive then (Inl (forbidden ''Account has been deactivated''), s1)
      else
        let s2 = dropCache (BlacklistToken (au_redis A) (au_prefix A) (cl_now c) (p_ID refreshPayload) (p_ExpiredAt refreshPayload)) s1 in
        case issueTokens A c (s_UserID session) of
          Inl err \<Rightarrow> (Inl err, s2)
        | Inr (newAccessToken, newRefreshToken, newRefreshPayload) \<Rightarrow>
        case onDb (UpdateSessionToken (cl_fault c) (cl_now c) (s_ID session) newRefreshToken (p_ExpiredAt newRefreshPayload)) s2 of
          (Some err, s3) \<Rightarrow> (Inl (pgError A err), s3)
        | (None, s3) \<Rightarrow>
            let s4 = dropCache (DeleteSession (au_redis A) (au_prefix A) (cl_now c) (s_ID session) (s_UserID session)) s3;
                s5 = dropCache (Cache_CreateSession (au_redis A) (au_sessionJson A) (au_prefix A) (cl_now c)
                       \<lparr> se_ID = s_ID session, se_UserID = s_UserID session, se_TenantID = s_TenantID session,
                         se_RefreshToken = newRefreshToken, se_UserAgent = userAgent, se_IPAddress = ipAddress,
                         se_CreatedAt = s_CreatedAt session, se_ExpiresAt = p_ExpiredAt newRefreshPayload,
                         se_LastActiveAt = cl_now c \<rparr>) s4
            in (Inr (tokenPair A newAccessToken newRefreshToken), s5))"

record LogoutRequest =
  lo_SessionID :: string
  lo_LogoutAll :: bool

text \<open>\<^verbatim>\<open>uuid.MustParse\<close> panics where \<^verbatim>\<open>uuid.Parse\<close> fails.\<close>

datatype logout_result = Done | Failed go_error | Panicked

definition doneOr :: "go_error + unit \<Rightarrow> logout_result" where
  "doneOr x = (case x of Inl err \<Rightarrow> Failed err | Inr _ \<Rightarrow> Done)"

definition Logout :: "'r auth \<Rightarrow> call \<Rightarrow> string \<Rightarrow> LogoutRequest \<Rightarrow> 'r astate \<Rightarrow> logout_result \<times> 'r astate" where
  "Logout A c accessToken req s =
     (case verifyToken A c accessToken of
        Inl _ \<Rightarrow> (Done, s)
      | Inr payload \<Rightarrow>
      let userID = p_Username payload in
      if lo_LogoutAll req then
        (case au_uuidParse A userID of
           None \<Rightarrow> (Panicked, s)
         | Some uid \<Rightarrow>
             (case onDb (RevokeAllSessions (cl_fault c) uid) s of
                (Some err, s1) \<Rightarrow> (Failed (pgError A err), s1)
              | (None, s1) \<Rightarrow>
                  (case onCache (DeleteAllUserSessions (au_redis A) (au_prefix A) (cl_now c) userID) s1 of
                     (x, s2) \<Rightarrow> (doneOr x, s2))))
      else if lo_SessionID req \<noteq> [] then
        (case au_uuidParse A (lo_SessionID req) of
           None \<Rightarrow> (Failed (ApiErr (ErrInvalidPathParam ''session_id'' ''must be a valid UUID'')), s)
         | Some sessUUID \<Rightarrow>
             (case au_uuidParse A userID of
                None \<Rightarrow> (Panicked, s)
              | Some uid \<Rightarrow>
                  (case onDb (Db_RevokeSession (cl_fault c) sessUUID uid) s of
                     (Some err, s1) \<Rightarrow> (Failed (pgError A err), s1)
                   | (None, s1) \<Rightarrow>
                       (Done, dropCache (DeleteSession (au_redis A) (au_prefix A) (cl_now c) (lo_SessionID req) userID) s1))))
      else
        (Done, dropCache (BlacklistToken (au_redis A) (au_prefix A) (cl_now c) (p_ID payload) (p_ExpiredAt payload)) s))"

definition ValidateAccessToken :: "'r auth \<Rightarrow> call \<Rightarrow> string \<Rightarrow> ('r, Payload) request" where
  "ValidateAccessToken A c tokenStr s =
     (case verifyToken A c tokenStr of
        Inl _ \<Rightarrow> (Inl (ApiErr (ErrInvalidToken [])), s)
      | Inr payload \<Rightarrow>
          (case onCache (IsTokenBlacklisted (au_redis A) (au_prefix A) (cl_now c) (p_ID payload)) s of (x, s1) \<Rightarrow>
             (if x = Inr True then Inl (ApiErr (ErrInvalidToken ''Token has been revoked'')) else Inr payload, s1)))"

subsection \<open>Passwords and addresses\<close>

definition ForgotPassword :: "'r auth \<Rightarrow> call \<Rightarrow> string \<Rightarrow> ('r, unit) request" where
  "ForgotPassword A c reqEmail s =
     (let email = lowerTrim A reqEmail in
      case GetUserByEmailGlobal (cl_fault c) (cl_pick c) email (st_db s) of
        Inl err \<Rightarrow> (if IsRecordNotFound err then Inr () else Inl (pgError A err), s)
      | Inr (user, _) \<Rightarrow>
      case cl_random c of
        Inl err \<Rightarrow> (Inl (internal ''generate reset token'' err), s)
      | Inr tokenBytes \<Rightarrow>
      let tokenStr = hexEncode tokenBytes in
      case onCache (StoreResetToken (au_redis A) (au_resetJson A) (au_prefix A) (cl_now c)
             \<lparr> rt_UserID = u_ID user, rt_Email = email, rt_Token = tokenStr, rt_CreatedAt = cl_now c,
               rt_ExpiresAt = cl_now c + 3600 * sec \<rparr>) s of
        (Inl err, s1) \<Rightarrow> (Inl (internal ''store reset token'' err), s1)
      | (Inr _, s1) \<Rightarrow> (Inr (), sendPasswordResetEmail A c email tokenStr s1))"

record ResetPasswordRequest =
  rq_Token :: string
  rq_NewPassword :: string
  rq_ConfirmNewPassword :: string

text \<open>Both stores forget the sessions of a user; failures are dropped.\<close>

definition dropSessions :: "'r auth \<Rightarrow> call \<Rightarrow> string \<Rightarrow> 'r astate \<Rightarrow> 'r astate" where
  "dropSessions A c userID s =
     dropCache (DeleteAllUserSessions (au_redis A) (au_prefix A) (cl_now c) userID)
       (snd (onDb (RevokeAllSessions (cl_fault c) userID) s))"

definition ResetPassword :: "'r auth \<Rightarrow> call \<Rightarrow> ResetPasswordRequest \<Rightarrow> ('r, unit) request" where
  "ResetPassword A c req s =
     (if rq_NewPassword req \<noteq> rq_ConfirmNewPassword req
      then (Inl (ApiErr (ErrValidation ''Password and confirm password do not match'')), s)
      else case onCache (GetResetToken (au_redis A) (au_resetJson A) (au_prefix A) (cl_now c) (rq_Token req)) s of
        (Inl _, s1) \<Rightarrow> (Inl (ApiErr (ErrInvalidToken ''Invalid or expired password reset token'')), s1)
      | (Inr resetToken, s1) \<Rightarrow>
      case au_uuidParse A (rt_UserID resetToken) of
        None \<Rightarrow> (Inl (internal ''parse userID from reset token'' (Plain ''invalid UUID'')), s1)
      | Some userID \<Rightarrow>
      case ValidatePassword (rq_NewPassword req) (ac_PasswordMinLength (au_config A)) of
        Some msg \<Rightarrow> (Inl (ApiErr (ErrValidation msg)), s1)
      | None \<Rightarrow>
      case HashPassword A (rq_NewPassword req) of
        Inl err \<Rightarrow> (Inl (internal ''hash password'' err), s1)
      | Inr hashedPassword \<Rightarrow>
      case GetUserByIDGlobal (cl_fault c) (cl_pick c) userID (st_db s1) of
        Inl err \<Rightarrow> (Inl (if IsRecordNotFound err then ApiErr ErrUserNotFound else pgError A err), s1)
      | Inr (user, _) \<Rightarrow>
      case onDb (UpdateUserPassword (cl_fault c) (cl_now c) userID (u_TenantID user) hashedPassword) s1 of
        (Some err, s2) \<Rightarrow> (Inl (pgError A err), s2)
      | (None, s2) \<Rightarrow>
          (Inr (), dropSessions A c userID
             (dropCache (DeleteResetToken (au_redis A) (au_prefix A) (cl_now c) (rq_Token req)) s2)))"

record ChangePasswordRequest =
  cq_CurrentPassword :: string
  cq_NewPassword :: string

definition userNotFoundOr :: "'r auth \<Rightarrow> go_error \<Rightarrow> go_error" where
  "userNotFoundOr A err = (if IsRecordNotFound err then ApiErr ErrUserNotFound else pgError A err)"

definition ChangePassword :: "'r auth \<Rightarrow> call \<Rightarrow> string \<Rightarrow> string \<Rightarrow> ChangePasswordRequest \<Rightarrow> ('r, unit) request" where
  "ChangePassword A c userID tenantID req s =
     (case GetUserByID (cl_fault c) userID tenantID (st_db s) of
        Inl err \<Rightarrow> (Inl (userNotFoundOr A err), s)
      | Inr user \<Rightarrow>
      if \<not> CheckPassword A (cq_CurrentPassword req) (u_PasswordHash user)
      then (Inl (ApiErr (WithDetail (ErrValidation ''Current password is incorrect'') ''current_password'' ''does not match'')), s)
      else if CheckPassword A (cq_NewPassword req) (u_PasswordHash user)
      then (Inl (ApiErr (ErrValidation ''New password must be different from the current password'')), s)
      else case ValidatePassword (cq_NewPassword req) (ac_PasswordMinLength (au_config A)) of
        Some msg \<Rightarrow> (Inl (ApiErr (ErrValidation msg)), s)
      | None \<Rightarrow>
      case HashPassword A (cq_NewPassword req) of
        Inl err \<Rightarrow> (Inl (internal ''hash password'' err), s)
      | Inr hashedPassword \<Rightarrow>
      case onDb (UpdateUserPassword (cl_fault c) (cl_now c) userID tenantID hashedPassword) s of
        (Some err, s1) \<Rightarrow> (Inl (pgError A err), s1)
      | (None, s1) \<Rightarrow> (Inr (), dropSessions A c userID s1))"

record VerifyEmailRequest =
  vq_Email :: string
  vq_Code :: string

definition VerifyEmail :: "'r auth \<Rightarrow> call \<Rightarrow> VerifyEmailRequest \<Rightarrow> ('r, unit) request" where
  "VerifyEmail A c req s =
     (let email = lowerTrim A (vq_Email req);
          consume = dropCache (DeleteVerifyEmailToken (au_redis A) (au_prefix A) (cl_now c) email)
      in
      case onCache (GetVerifyEmailToken (au_redis A) (au_verifyJson A) (au_prefix A) (cl_now c) email) s of
        (Inl _, s1) \<Rightarrow> (Inl (ApiErr (ErrInvalidToken ''Invalid or expired verification code'')), s1)
      | (Inr verifyTok, s1) \<Rightarrow>
      if vt_Code verifyTok \<noteq> vq_Code req then (Inl (ApiErr (ErrValidation ''Incorrect verification code'')), s1)
      else case au_uuidParse A (vt_UserID verifyTok) of
        None \<Rightarrow> (Inl (internal ''parse userID from verify token'' (Plain ''invalid UUID'')), s1)
      | Some userID \<Rightarrow>
      case GetUserByIDGlobal (cl_fault c) (cl_pick c) userID (st_db s1) of
        Inl err \<Rightarrow> (Inl (userNotFoundOr A err), s1)
      | Inr (user, tenant) \<Rightarrow>
      if u_EmailVerified user then (Inr (), consume s1)
      else case onDb (VerifyUserEmail (cl_fault c) (cl_now c) userID (u_TenantID user)) s1 of
        (Some err, s2) \<Rightarrow> (Inl (pgError A err), s2)
      | (None, s2) \<Rightarrow>
      case onDb (UpdateTenantPlan (cl_fault c) (cl_now c) (u_TenantID user) (tn_Plan tenant) ''active'' None) s2 of
        (Some err, s3) \<Rightarrow> (Inl (pgError A err), s3)
      | (None, s3) \<Rightarrow> (Inr (), consume s3))"

definition ResendVerificationEmail :: "'r auth \<Rightarrow> call \<Rightarrow> string \<Rightarrow> string \<Rightarrow> ('r, unit) request" where
  "ResendVerificationEmail A c userID tenantID s =
     (case GetUserByID (cl_fault c) userID tenantID (st_db s) of
        Inl err \<Rightarrow> (Inl (userNotFoundOr A err), s)
      | Inr user \<Rightarrow>
      if u_EmailVerified user then (Inl (ApiErr (NewError ErrCodeConflict ''Email is already verified'' 409)), s)
      else case sendVerificationEmail A c userID (u_Email user) s of
        (Some err, s1) \<Rightarrow> (Inl (internal ''send verification email'' err), s1)
      | (None, s1) \<Rightarrow> (Inr (), s1))"

subsection \<open>Profile and sessions\<close>

definition GetCurrentUser :: "'r auth \<Rightarrow> call \<Rightarrow> string \<Rightarrow> string \<Rightarrow> ('r, UserResponse) request" where
  "GetCurrentUser A c userID tenantID s =
     (case GetUserByID (cl_fault c) userID tenantID (st_db s) of
        Inl err \<Rightarrow> (Inl (userNotFoundOr A err), s)
      | Inr user \<Rightarrow> (Inr (ToUserResponse user), s))"

record UpdateUserRequest =
  uq_Email :: "string option"
  uq_FullName :: "string option"

definition profileParams :: "'r auth \<Rightarrow> string \<Rightarrow> string \<Rightarrow> UpdateUserRequest \<Rightarrow> user_row \<Rightarrow> UpdateUserProfileParams" where
  "profileParams A userID tenantID req u =
     \<lparr> up_ID = userID, up_TenantID = tenantID,
       up_FullName = (case uq_FullName req of None \<Rightarrow> None | Some n \<Rightarrow> if TrimSpace n \<noteq> [] then Some (TrimSpace n) else None),
       up_Email = (case uq_Email req of
          None \<Rightarrow> None
        | Some e \<Rightarrow> (let email = lowerTrim A e in if email \<noteq> [] \<and> email \<noteq> u_Email u then Some email else None)) \<rparr>"

definition UpdateCurrentUser :: "'r auth \<Rightarrow> call \<Rightarrow> string \<Rightarrow> string \<Rightarrow> UpdateUserRequest \<Rightarrow> ('r, UserResponse) request" where
  "UpdateCurrentUser A c userID tenantID req s =
     (case GetUserByID (cl_fault c) userID tenantID (st_db s) of
        Inl err \<Rightarrow> (Inl (userNotFoundOr A err), s)
      | Inr userBeforeUpdate \<Rightarrow>
      let params = profileParams A userID tenantID req userBeforeUpdate in
      case onDb (UpdateUserProfile (cl_fault c) (cl_now c) params) s of
        (Inl err, s1) \<Rightarrow>
          (Inl (if IsUniqueViolation err then ApiErr ErrEmailAlreadyExists else userNotFoundOr A err), s1)
      | (Inr user, s1) \<Rightarrow>
      case up_Email params of
        None \<Rightarrow> (Inr (ToUserResponse user), s1)
      | Some newEmail \<Rightarrow>
      case onDb (UnverifyUserEmail (cl_fault c) (cl_now c) userID tenantID) s1 of
        (Some err, s2) \<Rightarrow>
          (Inl (pgError A err),
           snd (onDb (UpdateUserProfile (cl_fault c) (cl_now c)
             \<lparr> up_ID = userID, up_TenantID = tenantID, up_FullName = None, up_Email = Some (u_Email userBeforeUpdate) \<rparr>) s2))
      | (None, s2) \<Rightarrow>
      case sendVerificationEmail A c userID newEmail s2 of
        (Some err, s3) \<Rightarrow> (Inl (internal ''send verification email'' err), s3)
      | (None, s3) \<Rightarrow> (Inr (ToUserResponse (user \<lparr> u_EmailVerified := False \<rparr>)), s3))"

record SessionResponse =
  sr_ID :: string
  sr_UserAgent :: string
  sr_IPAddress :: string
  sr_CreatedAt :: int
  sr_ExpiresAt :: int
  sr_LastActiveAt :: int

definition CacheSessionToResponse :: "Session \<Rightarrow> SessionResponse" where
  "CacheSessionToResponse s =
     \<lparr> sr_ID = se_ID s, sr_UserAgent = se_UserAgent s, sr_IPAddress = se_IPAddress s, sr_CreatedAt = se_CreatedAt s,
       sr_ExpiresAt = se_ExpiresAt s, sr_LastActiveAt = se_LastActiveAt s \<rparr>"

text \<open>The address of a session is never stored in the database, so that it is empty here.\<close>

definition DbSessionToResponse :: "session_row \<Rightarrow> SessionResponse" where
  "DbSessionToResponse s =
     \<lparr> sr_ID = s_ID s, sr_UserAgent = (case s_UserAgent s of Some a \<Rightarrow> a | None \<Rightarrow> []), sr_IPAddress = [],
       sr_CreatedAt = s_CreatedAt s, sr_ExpiresAt = s_ExpiresAt s, sr_LastActiveAt = s_LastUsedAt s \<rparr>"

definition GetUserSessions :: "'r auth \<Rightarrow> call \<Rightarrow> string \<Rightarrow> ('r, SessionResponse list) request" where
  "GetUserSessions A c userID s =
     (case onCache (Cache_GetUserSessions (au_redis A) (au_sessionJson A) (au_prefix A) (cl_now c) userID) s of (x, s1) \<Rightarrow>
      let fallback = (case ListSessions (cl_fault c) (cl_now c) userID (st_db s1) of
             Inl err \<Rightarrow> (Inl (pgError A err), s1)
           | Inr rows \<Rightarrow> (Inr (map DbSessionToResponse rows), s1))
      in case x of
           Inr cached \<Rightarrow> if length cached > 0 then (Inr (map CacheSessionToResponse cached), s1) else fallback
         | Inl _ \<Rightarrow> fallback)"

definition RevokeSession :: "'r auth \<Rightarrow> call \<Rightarrow> string \<Rightarrow> string \<Rightarrow> ('r, unit) request" where
  "RevokeSession A c userID sessionID s =
     (case au_uuidParse A sessionID of
        None \<Rightarrow> (Inl (ApiErr (ErrInvalidPathParam ''session_id'' ''must be a valid UUID'')), s)
      | Some sessUUID \<Rightarrow>
      case onDb (Db_RevokeSession (cl_fault c) sessUUID userID) s of
        (Some err, s1) \<Rightarrow> (Inl (if IsRecordNotFound err then ApiErr (ErrNotFound ''Session'') else pgError A err), s1)
      | (None, s1) \<Rightarrow> (Inr (), dropCache (DeleteSession (au_redis A) (au_prefix A) (cl_now c) sessionID userID) s1))"

text \<open>
  When the address was changed but could not be marked as not verified, the old address is written back;
  that write is a change of address too, so that the user, who was verified, is not any more.
\<close>

lemma rollback_loses_verification:
  assumes "up_Email p = Some e" "e \<noteq> u_Email u"
    and "back = \<lparr> up_ID = i, up_TenantID = t, up_FullName = None, up_Email = Some (u_Email u) \<rparr>"
  shows "u_Email (profileRow now' back (profileRow now p u)) = u_Email u \<and>
    \<not> u_EmailVerified (profileRow now' back (profileRow now p u))"
  using assms by (simp add: profileRow_def)

end
