(* ===== verification/State_Relation.thy ===== *)
theory State_Relation
  imports Main
begin

text \<open>
  A request is a sequence of steps with branches. A relation that is reflexive and transitive holds around
  it when it holds around each of the steps.
\<close>

locale state_relation =
  fixes R :: "'s \<Rightarrow> 's \<Rightarrow> bool"
  assumes refl: "R s s"
    and trans: "R s s' \<Longrightarrow> R s' s'' \<Longrightarrow> R s s''"
begin

lemma bind:
  assumes "R s (snd m)" "\<And>x s1. m = (x, s1) \<Longrightarrow> R s1 (snd (k x s1))"
  shows "R s (snd (case m of (x, s1) \<Rightarrow> k x s1))"
  using assms by (cases m) (auto intro: trans)

lemma case_pair: "(\<And>x y. m = (x, y) \<Longrightarrow> R s (snd (k x y))) \<Longrightarrow> R s (snd (case m of (x, y) \<Rightarrow> k x y))"
  by (cases m) simp

lemma case_result:
  "(\<And>e. x = Inl e \<Longrightarrow> R s (snd (f e))) \<Longrightarrow> (\<And>v. x = Inr v \<Longrightarrow> R s (snd (g v))) \<Longrightarrow>
    R s (snd (case x of Inl e \<Rightarrow> f e | Inr v \<Rightarrow> g v))"
  by (cases x) simp_all

lemma case_opt:
  "(x = None \<Longrightarrow> R s (snd f)) \<Longrightarrow> (\<And>v. x = Some v \<Longrightarrow> R s (snd (g v))) \<Longrightarrow>
    R s (snd (case x of None \<Rightarrow> f | Some v \<Rightarrow> g v))"
  by (cases x) simp_all

lemma branch: "R s (snd f) \<Longrightarrow> R s (snd g) \<Longrightarrow> R s (snd (if b then f else g))"
  by simp

lemma return: "R s s' \<Longrightarrow> R s (snd (x, s'))"
  by simp

lemmas rules = bind case_pair case_result case_opt branch return refl

end

end
