(* ===== verification/Auth_Sessions.thy ===== *)
theory Auth_Sessions
  imports Auth_Service State_Relation
begin

text \<open>
  Requests of the account service as a sequence of steps, and the invariant of the table of sessions: every
  operation keeps its constraints and adds no refresh token but the one it creates.
\<close>

datatype auth_request =
    ReqRegister RegisterRequest string string
  | ReqLogin LoginRequest string string
  | ReqRefresh string string string
  | ReqLogout string LogoutRequest
  | ReqValidate string
  | ReqForgot string
  | ReqReset ResetPasswordRequest
  | ReqChange string string ChangePasswordRequest
  | ReqVerify VerifyEmailRequest
  | ReqResend string string
  | ReqUser string string
  | ReqUpdate string string UpdateUserRequest
  | ReqSessions string
  | ReqRevoke string string

primrec serve :: "'r auth \<Rightarrow> call \<Rightarrow> auth_request \<Rightarrow> 'r astate \<Rightarrow> 'r astate" where
  "serve A c (ReqRegister r ip ua) s = snd (Register A c r ip ua s)"
| "serve A c (ReqLogin r ip ua) s = snd (Login A c r ip ua s)"
| "serve A c (ReqRefresh t ip ua) s = snd (RefreshToken A c t ip ua s)"
| "serve A c (ReqLogout t r) s = snd (Logout A c t r s)"
| "serve A c (ReqValidate t) s = snd (ValidateAccessToken A c t s)"
| "serve A c (ReqForgot e) s = snd (ForgotPassword A c e s)"
| "serve A c (ReqReset r) s = snd (ResetPassword A c r s)"
| "serve A c (ReqChange u t r) s = snd (ChangePassword A c u t r s)"
| "serve A c (ReqVerify r) s = snd (VerifyEmail A c r s)"
| "serve A c (ReqResend u t) s = snd (ResendVerificationEmail A c u t s)"
| "serve A c (ReqUser u t) s = snd (GetCurrentUser A c u t s)"
| "serve A c (ReqUpdate u t r) s = snd (UpdateCurrentUser A c u t r s)"
| "serve A c (ReqSessions u) s = snd (GetUserSessions A c u s)"
| "serve A c (ReqRevoke u i) s = snd (RevokeSession A c u i s)"

fun serveAll :: "'r auth \<Rightarrow> (call \<times> auth_request) list \<Rightarrow> 'r astate \<Rightarrow> 'r astate" where
  "serveAll A [] s = s"
| "serveAll A ((c, r) # rs) s = serveAll A rs (serve A c r s)"

subsection \<open>State changes\<close>

lemma onCache_db [simp]: "st_db (snd (onCache c s)) = st_db s"
  by (simp add: onCache_def split: prod.split)

lemma onCacheD: "onCache c s = (x, s') \<Longrightarrow> st_db s' = st_db s"
  by (auto simp: onCache_def split: prod.splits)

lemma onCache_cache: "onCache c s = (x, s') \<longleftrightarrow> c (st_cache s) = (x, st_cache s') \<and> s' = s \<lparr> st_cache := st_cache s' \<rparr>"
  by (auto simp: onCache_def split: prod.splits)

lemma onDb_cache [simp]: "st_cache (snd (onDb f s)) = st_cache s"
  by (simp add: onDb_def split: prod.split)

lemma onDbD: "onDb f s = (x, s') \<Longrightarrow> f (st_db s) = (x, st_db s') \<and> st_cache s' = st_cache s"
  by (auto simp: onDb_def split: prod.splits)

subsection \<open>The table of sessions\<close>

definition refreshTokens :: "db \<Rightarrow> string set" where
  "refreshTokens d = s_RefreshToken ` set (db_sessions d)"

definition newTokens :: "'r auth \<Rightarrow> call \<Rightarrow> string set" where
  "newTokens A c = {t. \<exists>u p. createToken A c (cl_refresh c) u (ac_RefreshTokenDuration (au_config A)) = Inr (t, p)}"

definition sessionStep :: "string set \<Rightarrow> db \<Rightarrow> db \<Rightarrow> bool" where
  "sessionStep N d d' \<longleftrightarrow>
     refreshTokens d' \<subseteq> refreshTokens d \<union> N \<and> (sessions_ok d \<longrightarrow> sessions_ok d')"

lemma sessionStep_refl [simp]: "sessionStep N d d"
  by (simp add: sessionStep_def)

lemma sessionStep_trans: "sessionStep N d d' \<Longrightarrow> sessionStep N d' d'' \<Longrightarrow> sessionStep N d d''"
  by (auto simp: sessionStep_def)

lemma sessionStep_same: "db_sessions d' = db_sessions d \<Longrightarrow> sessionStep N d d'"
  by (simp add: sessionStep_def refreshTokens_def sessions_ok_def)

lemma sessionStep_filter: "db_sessions d' = filter P (db_sessions d) \<Longrightarrow> sessionStep N d d'"
  by (auto simp: sessionStep_def refreshTokens_def sessions_ok_def distinct_map_filter)

lemma sessionStep_exec: "sessionStep N d d' \<Longrightarrow> sessionStep N d (snd (exec fault name d d'))"
  by (simp add: exec_def split: option.split)

named_theorems session_steps \<open>what the statements do to the table of sessions\<close>

lemma sessionStep_update_users [session_steps]:
  "sessionStep N d (snd (UpdateUserPassword fault now u t h d))"
  "sessionStep N d (snd (VerifyUserEmail fault now u t d))"
  "sessionStep N d (snd (UnverifyUserEmail fault now u t d))"
  "sessionStep N d (snd (UpdateTenantPlan fault now t pl st tr d))"
  "sessionStep N d (snd (UpdateUserProfile fault now p d))"
  by (auto simp: UpdateUserPassword_def VerifyUserEmail_def UnverifyUserEmail_def UpdateTenantPlan_def UpdateUserProfile_def
      Let_def exec_def intro!: sessionStep_same split: option.split list.split)

lemma sessionStep_deletes [session_steps]:
  "sessionStep N d (snd (Db_RevokeSession fault i u d))"
  "sessionStep N d (snd (RevokeAllSessions fault u d))"
  "sessionStep N d (snd (DeleteTenant fault t d))"
  unfolding Db_RevokeSession_def RevokeAllSessions_def DeleteTenant_def
  by (rule sessionStep_exec, rule sessionStep_filter, simp)+

lemma insertRow_step:
  "(list_all (\<lambda>x. \<not> fst x) checks \<Longrightarrow> sessionStep N d d') \<Longrightarrow>
    sessionStep N d (snd (insertRow fault name checks row d d'))"
  by (auto simp: insertRow_def filter_empty_conv list_all_iff dest: list.discI split: option.split list.split)

lemma sessionStep_inserts [session_steps]:
  "sessionStep N d (snd (CreateTenant fault tid now tp d))"
  "sessionStep N d (snd (CreateUser fault uid now up d))"
  "sessionStep N d (snd (CreateSubscription fault bid tid pl st d))"
  unfolding CreateTenant_def CreateUser_def CreateSubscription_def Let_def
  by (rule insertRow_step, rule sessionStep_same, simp)+

lemma sessionStep_CreateSession:
  "cp_RefreshToken p \<in> N \<Longrightarrow> sessionStep N d (snd (CreateSession fault sid now p d))"
  unfolding CreateSession_def Let_def
  by (rule insertRow_step) (auto simp: sessionStep_def refreshTokens_def sessions_ok_def)

lemma sessionStep_RegisterTenantTx [session_steps]:
  "sessionStep N d (snd (RegisterTenantTx fault tid uid bid now arg d))"
proof -
  have step: "sessionStep N e e'" if "CreateTenant fault tid now p e = (x, e')" for p e x e'
    using sessionStep_inserts(1) [of N e fault tid now p] that by simp
  have step': "sessionStep N e e'" if "CreateUser fault uid now p e = (x, e')" for p e x e'
    using sessionStep_inserts(2) [of N e fault uid now p] that by simp
  have step'': "sessionStep N e e'" if "CreateSubscription fault bid t pl st e = (x, e')" for t pl st e x e'
    using sessionStep_inserts(3) [of N e fault bid t pl st] that by simp
  show ?thesis
    unfolding RegisterTenantTx_def execTx_def
    by (auto split: option.split prod.split sum.split dest!: step step' step'' intro: sessionStep_trans)
qed

lemma sessionStep_UpdateSessionToken:
  assumes "tok \<in> N"
  shows "sessionStep N d (snd (UpdateSessionToken fault now sid tok ex d))"
proof (cases "list_ex (\<lambda>s. s_ID s = sid) (db_sessions d) \<and> list_ex (\<lambda>s. s_ID s \<noteq> sid \<and> s_RefreshToken s = tok) (db_sessions d)")
  case True
  then show ?thesis by (auto simp: UpdateSessionToken_def exec_def split: option.split)
next
  case False
  let ?up = "\<lambda>s. if s_ID s = sid then s \<lparr> s_RefreshToken := tok, s_ExpiresAt := ex, s_LastUsedAt := now \<rparr> else s"
  have ids: "map s_ID (map ?up xs) = map s_ID xs" for xs :: "session_row list" by simp
  have "distinct (map s_RefreshToken (map ?up xs))"
    if "distinct (map s_ID xs)" "distinct (map s_RefreshToken xs)"
      "(\<forall>s\<in>set xs. s_ID s \<noteq> sid) \<or> (\<forall>s\<in>set xs. s_ID s = sid \<or> s_RefreshToken s \<noteq> tok)" for xs :: "session_row list"
    using that by (auto simp: distinct_map inj_on_def)
  with False assms show ?thesis
    by (auto simp: UpdateSessionToken_def sessionStep_def refreshTokens_def sessions_ok_def list_ex_iff exec_def ids
        simp del: map_map split: option.split)
qed

subsection \<open>Requests\<close>

definition keepsSessions :: "'r auth \<Rightarrow> call \<Rightarrow> 'r astate \<Rightarrow> 'r astate \<Rightarrow> bool" where
  "keepsSessions A c s s' \<longleftrightarrow> sessionStep (newTokens A c) (st_db s) (st_db s')"

lemma keepsSessions_refl [simp]: "keepsSessions A c s s"
  by (simp add: keepsSessions_def)

lemma keepsSessions_trans: "keepsSessions A c s s' \<Longrightarrow> keepsSessions A c s' s'' \<Longrightarrow> keepsSessions A c s s''"
  unfolding keepsSessions_def by (rule sessionStep_trans)

lemma keepsSessions_onCache [session_steps]: "keepsSessions A c s (snd (onCache cmd s))"
  by (simp add: keepsSessions_def)

lemma keepsSessions_onDb [session_steps]:
  "(\<And>d. sessionStep (newTokens A c) d (snd (f d))) \<Longrightarrow> keepsSessions A c s (snd (onDb f s))"
  by (simp add: keepsSessions_def onDb_def split: prod.split) (metis snd_conv)

interpretation ks: state_relation "keepsSessions A c" for A c
  by unfold_locales (simp, rule keepsSessions_trans)

lemma keepsSessions_then:
  "keepsSessions A c s s1 \<Longrightarrow> keepsSessions A c s (snd (onCache cmd s1))"
  "keepsSessions A c s s1 \<Longrightarrow> (\<And>d. sessionStep (newTokens A c) d (snd (f d))) \<Longrightarrow> keepsSessions A c s (snd (onDb f s1))"
  by (blast intro: keepsSessions_trans session_steps)+

lemmas keepsSessions_rules = ks.rules keepsSessions_then

lemma keepsSessions_sendMail [session_steps]: "keepsSessions A c s s1 \<Longrightarrow> keepsSessions A c s (snd (sendMail c' r b s1))"
  by (simp add: keepsSessions_def sendMail_def split: option.split)

lemma keepsSessions_sendVerificationEmail [session_steps]:
  "keepsSessions A c s s1 \<Longrightarrow> keepsSessions A c s (snd (sendVerificationEmail A c u e s1))"
  unfolding sendVerificationEmail_def by (intro keepsSessions_rules session_steps)

lemma issueTokens_new: "issueTokens A c u = Inr (a, t, p) \<Longrightarrow> t \<in> newTokens A c"
  by (auto simp: issueTokens_def newTokens_def split: sum.splits prod.splits)

lemma keepsSessions_persistSession:
  "keepsSessions A c s s1 \<Longrightarrow> cp_RefreshToken params \<in> newTokens A c \<Longrightarrow>
    keepsSessions A c s (snd (persistSession A c params ip ua s1))"
  unfolding persistSession_def by (intro keepsSessions_rules sessionStep_CreateSession)

lemma newSession_token [simp]: "cp_RefreshToken (newSession u t tok ua ex) = tok"
  by (simp add: newSession_def)

lemma keepsSessions_dropSessions [session_steps]: "keepsSessions A c s s1 \<Longrightarrow> keepsSessions A c s (dropSessions A c u s1)"
  unfolding dropSessions_def by (intro keepsSessions_rules session_steps)

text \<open>Every request keeps the table's constraints and adds no refresh token but the one that it creates.\<close>

lemma keepsSessions_Login: "keepsSessions A c s (snd (Login A c r ip ua s))"
  unfolding Login_def Let_def
  by (intro keepsSessions_rules session_steps keepsSessions_persistSession) (simp_all add: issueTokens_new)

lemma keepsSessions_Register: "keepsSessions A c s (snd (Register A c r ip ua s))"
  unfolding Register_def
  by (intro keepsSessions_rules session_steps keepsSessions_persistSession) (simp_all add: issueTokens_new)

lemma keepsSessions_RefreshToken: "keepsSessions A c s (snd (RefreshToken A c t ip ua s))"
  unfolding RefreshToken_def Let_def
  by (intro keepsSessions_rules session_steps sessionStep_UpdateSessionToken) (simp_all add: issueTokens_new)

lemma keepsSessions_tokens:
  "keepsSessions A c s (snd (Logout A c t lr s))" "keepsSessions A c s (snd (ValidateAccessToken A c t s))"
  unfolding Logout_def ValidateAccessToken_def Let_def by (intro keepsSessions_rules session_steps)+

lemma keepsSessions_passwords:
  "keepsSessions A c s (snd (ForgotPassword A c e s))" "keepsSessions A c s (snd (ResetPassword A c rr s))"
  "keepsSessions A c s (snd (ChangePassword A c u tn cr s))"
  unfolding ForgotPassword_def ResetPassword_def ChangePassword_def sendPasswordResetEmail_def Let_def
  by (intro keepsSessions_rules session_steps)+

lemma keepsSessions_profile:
  "keepsSessions A c s (snd (VerifyEmail A c vr s))" "keepsSessions A c s (snd (ResendVerificationEmail A c u tn s))"
  "keepsSessions A c s (snd (GetCurrentUser A c u tn s))" "keepsSessions A c s (snd (UpdateCurrentUser A c u tn ur s))"
  "keepsSessions A c s (snd (GetUserSessions A c u s))" "keepsSessions A c s (snd (RevokeSession A c u i s))"
  unfolding VerifyEmail_def ResendVerificationEmail_def GetCurrentUser_def UpdateCurrentUser_def GetUserSessions_def
    RevokeSession_def Let_def
  by (intro keepsSessions_rules session_steps)+

lemma keepsSessions_serve: "keepsSessions A c s (serve A c r s)"
  by (cases r) (simp_all add: keepsSessions_Login keepsSessions_Register keepsSessions_RefreshToken keepsSessions_tokens
      keepsSessions_passwords keepsSessions_profile)

lemma serveAll_sessions:
  assumes "\<And>c r. (c, r) \<in> set rs \<Longrightarrow> newTokens A c \<subseteq> N"
  shows "sessionStep N (st_db s) (st_db (serveAll A rs s))"
  using assms
proof (induction rs arbitrary: s)
  case (Cons cr rs)
  obtain c r where cr: "cr = (c, r)" by fastforce
  have "sessionStep N (st_db s) (st_db (serve A c r s))"
    using keepsSessions_serve [of A c s r] Cons.prems [of c r] by (auto simp: cr keepsSessions_def sessionStep_def)
  then show ?case
    using Cons.IH [of "serve A c r s"] Cons.prems by (auto simp: cr intro: sessionStep_trans)
qed simp

lemma serveAll_sessions_ok: "sessions_ok (st_db s) \<Longrightarrow> sessions_ok (st_db (serveAll A rs s))"
  using serveAll_sessions [of rs A UNIV s] by (auto simp: sessionStep_def)

subsection \<open>Rotation of refresh tokens\<close>

text \<open>The identifier that a request draws for a refresh token is not that of an earlier one.\<close>

definition drawsFresh :: "'r auth \<Rightarrow> string \<Rightarrow> call \<Rightarrow> bool" where
  "drawsFresh A i c = (case cl_refresh c of Inl _ \<Rightarrow> True | Inr uid \<Rightarrow> au_uuidParse A uid \<noteq> Some i)"

lemma newTokens_fresh:
  assumes "jwtLibrary (au_jwt A)" "verifyToken A c tok = Inr p" "drawsFresh A (p_ID p) c'"
  shows "tok \<notin> newTokens A c'"
proof
  assume "tok \<in> newTokens A c'"
  then obtain uid cl where uid: "cl_refresh c' = Inr uid" "c_ID cl = uid" "signedString (au_jwt A) (au_secretKey A) cl = Inr tok"
    by (force simp: newTokens_def createToken_def CreateToken_def NewPayload_def claimsOf_def res_bind_def split: sum.splits)
  then have "parseWithClaims (au_jwt A) (cl_now c) leeway (au_secretKey A) tok =
      (if cl_now c < c_ExpiresAt cl + leeway then Inr cl else Inl JwtExpired)"
    using assms(1) by (simp add: jwtLibrary_def)
  with assms(2) uid have "au_uuidParse A uid = Some (p_ID p)"
    by (auto simp: verifyToken_def VerifyToken_def split: if_splits option.splits)
  with assms(3) uid show False by (simp add: drawsFresh_def)
qed

lemma limit1_Inr: "limit1 hd rows = Inr x \<Longrightarrow> x \<in> set rows"
  by (auto simp: limit1_def split: if_splits)

lemma GetSessionByToken_Inr:
  assumes "GetSessionByToken fault now tok d = Inr (session, active)"
  shows "session \<in> set (db_sessions d)" "s_RefreshToken session = tok"
proof -
  have "limit1 hd (concat (map (sessionUser d) (filter (\<lambda>s. s_RefreshToken s = tok \<and> s_ExpiresAt s > now) (db_sessions d))))
      = Inr (session, active)"
    using assms by (simp add: GetSessionByToken_def query_def split: option.splits)
  from limit1_Inr [OF this] show "session \<in> set (db_sessions d)" "s_RefreshToken session = tok"
    by (auto simp: sessionUser_def)
qed

lemma UpdateSessionToken_rotates:
  assumes "sessions_ok d" "session \<in> set (db_sessions d)" "tok \<noteq> s_RefreshToken session"
    "UpdateSessionToken fault now (s_ID session) tok ex d = (None, d')"
  shows "s_RefreshToken session \<notin> refreshTokens d'"
proof
  let ?up = "\<lambda>s. if s_ID s = s_ID session then s \<lparr> s_RefreshToken := tok, s_ExpiresAt := ex, s_LastUsedAt := now \<rparr> else s"
  assume "s_RefreshToken session \<in> refreshTokens d'"
  moreover have "db_sessions d' = map ?up (db_sessions d)"
    using assms(4) by (auto simp: UpdateSessionToken_def exec_def split: option.splits if_splits)
  ultimately obtain x where x: "x \<in> set (db_sessions d)" "s_RefreshToken (?up x) = s_RefreshToken session"
    by (auto simp: refreshTokens_def)
  with assms(3) have "s_ID x \<noteq> s_ID session" "s_RefreshToken x = s_RefreshToken session"
    by (auto split: if_splits)
  with assms(1,2) x(1) show False
    by (auto simp: sessions_ok_def distinct_map inj_on_def)
qed

lemma RefreshToken_rotates:
  assumes "sessions_ok (st_db s)" "tok \<notin> newTokens A c" "RefreshToken A c tok ip ua s = (Inr pair, s')"
  shows "tok \<notin> refreshTokens (st_db s')"
proof -
  have "tok \<notin> refreshTokens d'"
    if "GetSessionByToken f now tok (st_db s) = Inr (session, active)" "issueTokens A c u = Inr (access, newTok, payload)"
      "UpdateSessionToken f now (s_ID session) newTok ex (st_db s) = (None, d')" for f now session active u access newTok payload ex d'
    using UpdateSessionToken_rotates [OF assms(1) GetSessionByToken_Inr(1) [OF that(1)], of newTok] GetSessionByToken_Inr(2) [OF that(1)]
      issueTokens_new [OF that(2)] assms(2) that(3) by metis
  with assms(3) show ?thesis
    by (auto simp: RefreshToken_def Let_def split: sum.splits prod.splits if_splits option.splits dest!: onCacheD onDbD)
qed

lemma RefreshToken_unknown:
  assumes "tok \<notin> refreshTokens (st_db s)"
  shows "\<exists>err. fst (RefreshToken A c tok ip ua s) = Inl err"
proof -
  have "GetSessionByToken (cl_fault c) (cl_now c) tok (st_db s1) = Inr x \<Longrightarrow> st_db s1 \<noteq> st_db s" for s1 :: "'a astate" and x
    using assms GetSessionByToken_Inr [of "cl_fault c" "cl_now c" tok "st_db s1" "fst x" "snd x"]
    by (auto simp: refreshTokens_def)
  then show ?thesis
    by (auto simp: RefreshToken_def split: sum.split prod.split dest!: onCacheD)
qed

text \<open>
  C19: a refresh token works once. After a refresh with it has succeeded, a refresh with the same token
  fails, at any later time and whatever requests were served in between, even when Redis, which holds the list of
  revoked tokens, loses everything or answers wrongly: the token is replaced in the table of sessions,
  where tokens are unique, and no later request can bring it back. The identifiers drawn for
  later tokens are taken to differ from its own.
\<close>

theorem refresh_token_single_use:
  assumes "jwtLibrary (au_jwt A)" "sessions_ok (st_db s)"
    and "verifyToken A c tok = Inr p" "fst (RefreshToken A c tok ip ua s) = Inr pair"
    and "\<forall>(c', r) \<in> set ((c, ReqRefresh tok ip ua) # rs). drawsFresh A (p_ID p) c'"
  shows "\<exists>err. fst (RefreshToken A c'' tok ip' ua' (serveAll A ((c, ReqRefresh tok ip ua) # rs) s)) = Inl err"
proof (rule RefreshToken_unknown)
  define s' where "s' = snd (RefreshToken A c tok ip ua s)"
  have "tok \<notin> refreshTokens (st_db s')"
    using RefreshToken_rotates [OF assms(2) newTokens_fresh [OF assms(1,3)], of c ip ua pair s'] assms(4,5)
    by (cases "RefreshToken A c tok ip ua s") (simp add: s'_def)
  moreover have "sessionStep (- {tok}) (st_db s') (st_db (serveAll A rs s'))"
    using newTokens_fresh [OF assms(1,3)] assms(5) by (intro serveAll_sessions) fastforce
  ultimately show "tok \<notin> refreshTokens (st_db (serveAll A ((c, ReqRefresh tok ip ua) # rs) s))"
    by (auto simp: sessionStep_def s'_def)
qed

text \<open>
  Surroundings to try the service in: the Redis of the documentation, a token library that can sign three sets of
  claims, and one user with one session.
\<close>

definition exampleClaims :: "(claims \<times> string) list" where
  "exampleClaims =
     [(\<lparr> c_ID = ''r0'', c_Issuer = ''u1'', c_ExpiresAt = 100 * sec, c_IssuedAt = 0 \<rparr>, ''first''),
      (\<lparr> c_ID = ''a1'', c_Issuer = ''u1'', c_ExpiresAt = 900 * sec, c_IssuedAt = 0 \<rparr>, ''access''),
      (\<lparr> c_ID = ''r1'', c_Issuer = ''u1'', c_ExpiresAt = 1000 * sec, c_IssuedAt = 0 \<rparr>, ''second'')]"

definition exampleJwt :: jwt where
  "exampleJwt =
     \<lparr> newNumericDate = \<lambda>t. t div sec * sec,
       signedString = \<lambda>key cl. (case map_of exampleClaims cl of None \<Rightarrow> Inl (Plain ''no key'') | Some t \<Rightarrow> Inr t),
       parseWithClaims = \<lambda>now lw key t.
         (case map_of (map (\<lambda>(cl, t). (t, cl)) exampleClaims) t of
            None \<Rightarrow> Inl JwtOther
          | Some cl \<Rightarrow> if now < c_ExpiresAt cl + lw then Inr cl else Inl JwtExpired) \<rparr>"

lemma exampleJwt_ok: "jwtLibrary exampleJwt"
  by (auto simp: jwtLibrary_def exampleJwt_def exampleClaims_def split: option.splits if_splits)

definition exampleAuthConfig :: AuthConfig where
  "exampleAuthConfig =
     \<lparr> ac_AccessTokenDuration = 900 * sec, ac_RefreshTokenDuration = 1000 * sec, ac_PasswordMinLength = 8,
       ac_SMTPFrom = ''noreply'', ac_AppBaseURL = ''http://localhost'' \<rparr>"

definition exampleAuth :: "store auth" where
  "exampleAuth =
     \<lparr> au_redis = memRedis, au_prefix = ''odt:'',
       au_sessionJson = \<lparr> marshal = \<lambda>s. Inr (se_ID s), unmarshal = \<lambda>t. Inl (Plain ''json'') \<rparr>,
       au_resetJson = \<lparr> marshal = \<lambda>t. Inr (rt_UserID t), unmarshal = \<lambda>t. Inl (Plain ''json'') \<rparr>,
       au_verifyJson = \<lparr> marshal = \<lambda>t. Inr (vt_UserID t), unmarshal = \<lambda>t. Inl (Plain ''json'') \<rparr>,
       au_jwt = exampleJwt, au_secretKey = ''key'', au_uuidParse = Some,
       au_bcryptHash = Inr, au_bcryptCompare = (=),
       au_unicode = \<lparr> is_print = \<lambda>r. False, to_lower = \<lambda>r. r \<rparr>, au_title = \<lambda>t. t, au_formatTime = \<lambda>t. Itoa (t div sec),
       au_config = exampleAuthConfig \<rparr>"

definition exampleCall :: "int \<Rightarrow> call" where
  "exampleCall now =
     \<lparr> cl_now = now, cl_access = Inr ''a1'', cl_refresh = Inr ''r1'', cl_session = ''s1'', cl_tenant = ''t2'', cl_user = ''u2'',
       cl_subscription = ''b2'', cl_random = Inr ''abcd'', cl_fault = \<lambda>_. None, cl_pick = hd, cl_mail = None \<rparr>"

definition exampleUser :: user_row where
  "exampleUser =
     \<lparr> u_ID = ''u1'', u_TenantID = ''t1'', u_Email = ''a@b'', u_PasswordHash = ''secret'', u_FullName = None,
       u_EmailVerified = True, u_IsActive = True, u_LastLoginAt = None, u_CreatedAt = 0, u_UpdatedAt = 0 \<rparr>"

definition exampleTenant :: tenant_row where
  "exampleTenant =
     \<lparr> tn_ID = ''t1'', tn_Name = ''One'', tn_Slug = ''one'', tn_Plan = ''cloud'', tn_PlanStatus = ''active'', tn_TrialEndsAt = None,
       tn_CreatedAt = 0, tn_UpdatedAt = 0, tn_Settings = ''{}'', tn_RetentionConfig = ''{}'' \<rparr>"

definition exampleSession :: session_row where
  "exampleSession =
     \<lparr> s_ID = ''s0'', s_UserID = ''u1'', s_TenantID = ''t1'', s_RefreshToken = ''first'', s_UserAgent = None,
       s_ExpiresAt = 100 * sec, s_CreatedAt = 0, s_LastUsedAt = 0 \<rparr>"

definition exampleAuthState :: "store astate" where
  "exampleAuthState =
     \<lparr> st_db = \<lparr> db_users = [exampleUser], db_tenants = [exampleTenant], db_subscriptions = [], db_sessions = [exampleSession] \<rparr>,
       st_cache = Map.empty, st_mail = [] \<rparr>"

lemmas example_defs = exampleClaims_def exampleJwt_def exampleAuthConfig_def exampleAuth_def exampleCall_def exampleUser_def
  exampleTenant_def exampleSession_def exampleAuthState_def

lemma example_verify:
  "cl_now c < 100 * sec \<Longrightarrow> verifyToken exampleAuth c ''first'' =
    Inr \<lparr> p_ID = ''r0'', p_Username = ''u1'', p_IssuedAt = 0, p_ExpiredAt = 100 * sec \<rparr>"
  by (simp add: verifyToken_def VerifyToken_def exampleAuth_def exampleJwt_def exampleClaims_def leeway_def)

lemma example_refresh:
  "fst (RefreshToken exampleAuth (exampleCall 0) ''first'' [] [] exampleAuthState) = Inr (tokenPair exampleAuth ''access'' ''second'')"
  by (code_simp)

theorem refresh_token_single_use_witness:
  "\<exists>err. fst (RefreshToken exampleAuth (exampleCall sec) ''first'' [] []
      (serveAll exampleAuth [(exampleCall 0, ReqRefresh ''first'' [] []), (exampleCall 5, ReqRefresh ''second'' [] [])] exampleAuthState)) = Inl err"
proof (rule refresh_token_single_use)
  show "jwtLibrary (au_jwt exampleAuth)" by (simp add: exampleAuth_def exampleJwt_ok)
  show "sessions_ok (st_db exampleAuthState)" by (simp add: exampleAuthState_def sessions_ok_def)
  show "verifyToken exampleAuth (exampleCall 0) ''first'' =
      Inr \<lparr> p_ID = ''r0'', p_Username = ''u1'', p_IssuedAt = 0, p_ExpiredAt = 100 * sec \<rparr>"
    by (rule example_verify) (simp add: exampleCall_def sec_def)
  show "\<forall>(c', r) \<in> set [(exampleCall 0, ReqRefresh ''first'' [] []), (exampleCall 5, ReqRefresh ''second'' [] [])].
      drawsFresh exampleAuth (p_ID \<lparr> p_ID = ''r0'', p_Username = ''u1'', p_IssuedAt = 0, p_ExpiredAt = 100 * sec \<rparr>) c'"
    by (simp add: drawsFresh_def exampleCall_def exampleAuth_def)
qed (rule example_refresh)

end
