(* ===== verification/Auth_Lockout.thy ===== *)
theory Auth_Lockout
  imports Auth_Sessions
begin

text \<open>
  What the account service keeps in Redis: a revoked token stays revoked and a locked account stays locked, whatever requests
  are served in between. Both rest on the keys that an operation can reach.
\<close>

subsection \<open>Entries that requests leave alone\<close>

definition keepsEntry :: "('r \<Rightarrow> store) \<Rightarrow> string \<Rightarrow> (rval \<times> int option) option \<Rightarrow> 'r astate \<Rightarrow> 'r astate \<Rightarrow> bool" where
  "keepsEntry view k v s s' \<longleftrightarrow> (view (st_cache s) k = v \<longrightarrow> view (st_cache s') k = v)"

interpretation ke: state_relation "keepsEntry view k v" for view k v
  by unfold_locales (auto simp: keepsEntry_def)

lemma keepsEntry_onCache:
  assumes "keepsEntry view k v s s1" "\<And>r. view r k = v \<Longrightarrow> view (snd (cmd r)) k = v"
  shows "keepsEntry view k v s (snd (onCache cmd s1))"
  using assms by (auto simp: keepsEntry_def onCache_def split: prod.split) (metis snd_conv)

lemma keepsEntry_then:
  "keepsEntry view k v s s1 \<Longrightarrow> keeps view k cmd \<Longrightarrow> keepsEntry view k v s (snd (onCache cmd s1))"
  "keepsEntry view k v s s1 \<Longrightarrow> keepsEntry view k v s (snd (onDb f s1))"
  "keepsEntry view k v s s1 \<Longrightarrow> keepsEntry view k v s (snd (sendMail c' r b s1))"
  by (auto simp: keeps_def intro!: keepsEntry_onCache)
    (simp_all add: keepsEntry_def sendMail_def split: option.split)

lemmas keepsEntry_rules = ke.rules keepsEntry_then

lemma keepsEntry_helpers:
  assumes "redisServer (au_redis A) view" "\<not> sessionKey (au_prefix A) k" "keepsEntry view k v s s1"
  shows "keepsEntry view k v s (snd (sendVerificationEmail A c u e s1))"
    "keepsEntry view k v s (snd (persistSession A c params ip ua s1))"
    "keepsEntry view k v s (dropSessions A c u s1)"
    "keepsEntry view k v s (sendPasswordResetEmail A c e t s1)"
  unfolding sendVerificationEmail_def persistSession_def dropSessions_def sendPasswordResetEmail_def Let_def
  by (intro keepsEntry_rules keeps_intros assms)+

lemma keepsEntry_others:
  assumes "redisServer (au_redis A) view" "\<not> sessionKey (au_prefix A) k"
  shows "keepsEntry view k v s (snd (Register A c r ip ua s))"
    "keepsEntry view k v s (snd (ValidateAccessToken A c t s))"
    "keepsEntry view k v s (snd (ForgotPassword A c e s))" "keepsEntry view k v s (snd (ResetPassword A c rr s))"
    "keepsEntry view k v s (snd (ChangePassword A c u tn cr s))"
    "keepsEntry view k v s (snd (VerifyEmail A c vr s))" "keepsEntry view k v s (snd (ResendVerificationEmail A c u tn s))"
    "keepsEntry view k v s (snd (GetCurrentUser A c u tn s))" "keepsEntry view k v s (snd (UpdateCurrentUser A c u tn ur s))"
    "keepsEntry view k v s (snd (GetUserSessions A c u s))" "keepsEntry view k v s (snd (RevokeSession A c u i s))"
  unfolding Register_def ValidateAccessToken_def ForgotPassword_def ResetPassword_def ChangePassword_def VerifyEmail_def
    ResendVerificationEmail_def GetCurrentUser_def UpdateCurrentUser_def GetUserSessions_def RevokeSession_def Let_def
  by (intro keepsEntry_rules keepsEntry_helpers keeps_intros assms)+

lemma keepsEntry_Login:
  assumes "redisServer (au_redis A) view" "\<not> sessionKey (au_prefix A) k"
    "k \<noteq> attemptKey (au_prefix A) (lowerTrim A (lq_Email r))" "k \<noteq> lockoutKey (au_prefix A) (lowerTrim A (lq_Email r))"
  shows "keepsEntry view k v s (snd (Login A c r ip ua s))"
  unfolding Login_def Let_def
  by (intro keepsEntry_rules keepsEntry_helpers keeps_intros assms)

lemma keepsEntry_blacklisting:
  assumes "redisServer (au_redis A) view" "\<not> sessionKey (au_prefix A) k"
    "\<And>tok p r. verifyToken A c tok = Inr p \<Longrightarrow> view r k = v \<Longrightarrow>
       view (snd (BlacklistToken (au_redis A) (au_prefix A) (cl_now c) (p_ID p) (p_ExpiredAt p) r)) k = v"
  shows "keepsEntry view k v s (snd (RefreshToken A c t ip ua s))" "keepsEntry view k v s (snd (Logout A c t lr s))"
proof -
  have blacklist: "keepsEntry view k v s
      (dropCache (BlacklistToken (au_redis A) (au_prefix A) (cl_now c) (p_ID p) (p_ExpiredAt p)) s1)"
    if "verifyToken A c tok = Inr p" "keepsEntry view k v s s1" for tok p s s1
    using that assms(3) by (intro keepsEntry_onCache) auto
  show "keepsEntry view k v s (snd (RefreshToken A c t ip ua s))"
    unfolding RefreshToken_def Let_def
    by (rule blacklist keepsEntry_rules keepsEntry_helpers keeps_intros assms(1,2) | assumption)+
  show "keepsEntry view k v s (snd (Logout A c t lr s))"
    unfolding Logout_def Let_def
    by (rule blacklist keepsEntry_rules keepsEntry_helpers keeps_intros assms(1,2) | assumption)+
qed

subsection \<open>Revoked tokens\<close>

lemma BlacklistToken_view:
  assumes "redisServer C view"
  shows "view (snd (BlacklistToken C pre now i ex r)) =
    (if now < ex then (view r)(Key pre [blacklistPrefix, i] \<mapsto> (RStr ''1'', Some ex)) else view r)"
  using BlacklistToken_sim [OF assms, of pre now i ex]
  by (simp add: simulates_def BlacklistToken_def idSet_def reply_def Let_def)

lemma IsTokenBlacklisted_view:
  assumes "redisServer C view"
  shows "fst (IsTokenBlacklisted C pre now i r) = Inr (live (view r) now (Key pre [blacklistPrefix, i]) \<noteq> None)"
  using IsTokenBlacklisted_sim [OF assms, of pre now i]
  by (simp add: simulates_def IsTokenBlacklisted_def andThen_def idExists_def reply_def)

text \<open>No two tokens have the same identifier, so that tokens with the same one expire together.\<close>

definition uniqueExpiry :: "'r auth \<Rightarrow> Payload \<Rightarrow> bool" where
  "uniqueExpiry A p \<longleftrightarrow>
     (\<forall>c tok p'. verifyToken A c tok = Inr p' \<longrightarrow> p_ID p' = p_ID p \<longrightarrow> p_ExpiredAt p' = p_ExpiredAt p)"

abbreviation blacklistKey :: "'r auth \<Rightarrow> Payload \<Rightarrow> string" where
  "blacklistKey A p \<equiv> Key (au_prefix A) [blacklistPrefix, p_ID p]"

lemma serve_keeps_blacklisted:
  assumes "redisServer (au_redis A) view" "uniqueExpiry A p"
  shows "keepsEntry view (blacklistKey A p) (Some (RStr ''1'', Some (p_ExpiredAt p))) s (serve A c r s)"
proof -
  have "view (snd (BlacklistToken (au_redis A) (au_prefix A) (cl_now c) (p_ID q) (p_ExpiredAt q) x)) (blacklistKey A p) =
      Some (RStr ''1'', Some (p_ExpiredAt p))"
    if "verifyToken A c tok = Inr q" "view x (blacklistKey A p) = Some (RStr ''1'', Some (p_ExpiredAt p))" for tok q x
    using that assms(2) by (auto simp: BlacklistToken_view [OF assms(1)] uniqueExpiry_def Key_simps)
  note blacklisting = keepsEntry_blacklisting [OF assms(1) not_sessionKey(1) this]
  have keys: "blacklistKey A p \<noteq> attemptKey (au_prefix A) e" "blacklistKey A p \<noteq> lockoutKey (au_prefix A) e" for e
    by (simp_all add: attemptKey_def lockoutKey_def Key_simps)
  show ?thesis
    by (cases r) (simp_all add: keepsEntry_others keepsEntry_Login blacklisting assms(1) not_sessionKey keys)
qed

lemma serveAll_keeps:
  assumes "\<And>c r s. (c, r) \<in> set rs \<Longrightarrow> keepsEntry view k v s (serve A c r s)"
  shows "keepsEntry view k v s (serveAll A rs s)"
  using assms
proof (induction rs arbitrary: s)
  case (Cons cr rs)
  obtain c r where cr: "cr = (c, r)" by fastforce
  have "keepsEntry view k v s (serve A c r s)"
    using Cons.prems [of c r] cr by simp
  moreover have "keepsEntry view k v (serve A c r s) (serveAll A rs (serve A c r s))"
    using Cons by simp
  ultimately show ?case unfolding cr serveAll.simps by (rule ke.trans)
qed (simp add: ke.refl)

lemma verifyToken_issued:
  assumes "jwtLibrary (au_jwt A)" "createToken A c0 uid u dur = Inr (tok, payload)" "verifyToken A c tok = Inr p"
  shows "verifyToken A c' tok = (if cl_now c' < p_ExpiredAt p + leeway then Inr p else Inl ErrTokenExpired)"
proof -
  obtain cl where cl: "signedString (au_jwt A) (au_secretKey A) cl = Inr tok"
    using assms(2) by (auto simp: createToken_def CreateToken_def res_bind_def split: sum.splits)
  have "parseWithClaims (au_jwt A) now leeway (au_secretKey A) tok =
      (if now < c_ExpiresAt cl + leeway then Inr cl else Inl JwtExpired)" for now
    using assms(1) cl by (simp add: jwtLibrary_def)
  with assms(3) show ?thesis
    by (auto simp: verifyToken_def VerifyToken_def split: if_splits option.splits)
qed

lemma Logout_blacklists:
  assumes "redisServer (au_redis A) view" "verifyToken A c tok = Inr p" "cl_now c < p_ExpiredAt p"
  shows "view (st_cache (snd (Logout A c tok \<lparr> lo_SessionID = [], lo_LogoutAll = False \<rparr> s))) (blacklistKey A p) =
    Some (RStr ''1'', Some (p_ExpiredAt p))"
proof -
  have "view (snd (BlacklistToken (au_redis A) (au_prefix A) (cl_now c) (p_ID p) (p_ExpiredAt p) (st_cache s))) (blacklistKey A p) =
      Some (RStr ''1'', Some (p_ExpiredAt p))"
    using assms(3) by (simp add: BlacklistToken_view [OF assms(1)])
  then show ?thesis
    by (simp add: Logout_def assms(2) onCache_def Let_def split: prod.split) (metis snd_conv)
qed

lemma ValidateAccessToken_revoked:
  assumes "redisServer (au_redis A) view" "verifyToken A c tok = Inr p"
    "view (st_cache s) (blacklistKey A p) = Some (RStr ''1'', Some (p_ExpiredAt p))"
  shows "fst (ValidateAccessToken A c tok s) =
    (if cl_now c < p_ExpiredAt p then Inl (ApiErr (ErrInvalidToken ''Token has been revoked'')) else Inr p)"
  using IsTokenBlacklisted_view [OF assms(1), of "au_prefix A" "cl_now c" "p_ID p" "st_cache s"] assms(2,3)
  by (auto simp: ValidateAccessToken_def onCache_def live_def split: prod.splits if_splits)

text \<open>
  C20: a user who logs out revokes the access token until it expires. From the logout on, and after any
  further requests at any times, a request with that token is rejected as revoked as long as the token has not
  expired. Redis is taken to behave as documented, the token library too, and token identifiers
  to be unique.
\<close>

theorem revoked_token_rejected:
  assumes "redisServer (au_redis A) view" "jwtLibrary (au_jwt A)" "uniqueExpiry A p"
    and "createToken A c0 uid u dur = Inr (tok, payload)" "verifyToken A c tok = Inr p"
    and "cl_now c < p_ExpiredAt p" "cl_now c' < p_ExpiredAt p"
    and "logout = (c, ReqLogout tok \<lparr> lo_SessionID = [], lo_LogoutAll = False \<rparr>)"
  shows "fst (ValidateAccessToken A c' tok (serveAll A (logout # rs) s)) = Inl (ApiErr (ErrInvalidToken ''Token has been revoked''))"
proof -
  define s' where "s' = snd (Logout A c tok \<lparr> lo_SessionID = [], lo_LogoutAll = False \<rparr> s)"
  have "keepsEntry view (blacklistKey A p) (Some (RStr ''1'', Some (p_ExpiredAt p))) s' (serveAll A rs s')"
    using assms(1,3) by (intro serveAll_keeps serve_keeps_blacklisted)
  then have "view (st_cache (serveAll A rs s')) (blacklistKey A p) = Some (RStr ''1'', Some (p_ExpiredAt p))"
    using Logout_blacklists [OF assms(1,5,6)] by (simp add: keepsEntry_def s'_def)
  then show ?thesis
    using verifyToken_issued [OF assms(2,4,5), of c'] assms(7)
    by (simp add: ValidateAccessToken_revoked [OF assms(1)] leeway_def assms(8) flip: s'_def)
qed

text \<open>
  The entry of the list ends with the token, but the token is accepted for the leeway after that: a revoked
  token works again in its last five seconds.
\<close>

lemma revoked_token_returns:
  assumes "redisServer (au_redis A) view" "jwtLibrary (au_jwt A)"
    and "createToken A c0 uid u dur = Inr (tok, payload)" "verifyToken A c tok = Inr p"
    and "cl_now c < p_ExpiredAt p" "p_ExpiredAt p \<le> cl_now c'" "cl_now c' < p_ExpiredAt p + leeway"
  shows "fst (ValidateAccessToken A c' tok (snd (Logout A c tok \<lparr> lo_SessionID = [], lo_LogoutAll = False \<rparr> s))) = Inr p"
proof -
  have "verifyToken A c' tok = Inr p"
    using verifyToken_issued [OF assms(2-4), of c'] assms(7) by simp
  then show ?thesis
    using assms(6) by (simp add: ValidateAccessToken_revoked [OF assms(1) _ Logout_blacklists [OF assms(1,4,5)]])
qed

subsection \<open>Locked accounts\<close>

text \<open>The credentials of a login are wrong: there is no such user, or the password is not the user's.\<close>

definition wrongCredentials :: "'r auth \<Rightarrow> call \<Rightarrow> LoginRequest \<Rightarrow> db \<Rightarrow> bool" where
  "wrongCredentials A c req d =
     (case GetUserByEmailGlobal (cl_fault c) (cl_pick c) (lowerTrim A (lq_Email req)) d of
        Inl _ \<Rightarrow> True
      | Inr (user, _) \<Rightarrow> u_IsActive user \<and> u_EmailVerified user \<and> \<not> CheckPassword A (lq_Password req) (u_PasswordHash user))"

lemma IsLoginLocked_open:
  assumes "redisServer C view" "live (view r) now (lockoutKey pre e) = None"
  shows "fst (IsLoginLocked C pre now e r) = Inr None" "view (snd (IsLoginLocked C pre now e r)) = view r"
  using IsLoginLocked_sim [OF assms(1), of pre now e] assms(2)
  by (simp_all add: simulates_def IsLoginLocked_def andThen_def idGet_def reply_def)

text \<open>A failed login on an account that is not locked counts as an attempt and changes nothing else.\<close>

lemma Login_failed:
  assumes "redisServer (au_redis A) view" "wrongCredentials A c req (st_db s)" "e = lowerTrim A (lq_Email req)"
    "live (view (st_cache s)) (cl_now c) (lockoutKey (au_prefix A) e) = None"
  shows "st_db (snd (Login A c req ip ua s)) = st_db s"
    "view (st_cache (snd (Login A c req ip ua s))) =
       snd (RecordLoginAttempt memRedis (au_prefix A) (cl_now c) e False (view (st_cache s)))"
proof -
  obtain r1 where lock: "IsLoginLocked (au_redis A) (au_prefix A) (cl_now c) e (st_cache s) = (Inr None, r1)" "view r1 = view (st_cache s)"
    using IsLoginLocked_open [OF assms(1,4)] by (metis prod.collapse)
  have attempt: "view (snd (RecordLoginAttempt (au_redis A) (au_prefix A) (cl_now c) e False r1)) =
      snd (RecordLoginAttempt memRedis (au_prefix A) (cl_now c) e False (view (st_cache s)))"
    using RecordLoginAttempt_sim [OF assms(1)] lock(2) by (simp add: simulates_def)
  have "snd (Login A c req ip ua s) =
      s \<lparr> st_cache := snd (RecordLoginAttempt (au_redis A) (au_prefix A) (cl_now c) e False r1) \<rparr>"
    using assms(2,3) lock(1)
    by (auto simp: Login_def Let_def onCache_def wrongCredentials_def split: sum.splits prod.splits)
  with attempt show "st_db (snd (Login A c req ip ua s)) = st_db s"
    "view (st_cache (snd (Login A c req ip ua s))) =
       snd (RecordLoginAttempt memRedis (au_prefix A) (cl_now c) e False (view (st_cache s)))"
    by simp_all
qed

lemma lockout_not_attempt [simp]: "lockoutKey pre e \<noteq> attemptKey pre e" "attemptKey pre e \<noteq> lockoutKey pre e"
  by (simp_all add: lockoutKey_def attemptKey_def Key_simps)

lemma live_later: "live st now k = None \<Longrightarrow> now \<le> now' \<Longrightarrow> live st now' k = None"
  by (auto simp: live_def split: option.splits if_splits)

text \<open>The counter after the first failed attempt, and after each further one.\<close>

lemma first_attempt:
  assumes "live st now (attemptKey pre e) = None"
  shows "snd (RecordLoginAttempt memRedis pre now e False st) = st(attemptKey pre e \<mapsto> (RStr (Itoa 1), Some (now + loginAttemptWindow)))"
proof -
  have "Itoa 1 = ''1''" by code_simp
  with assms show ?thesis
    by (simp add: RecordLoginAttempt_def andThen_def idIncr_def countedAttempt_def Let_def maxLoginAttempts_def ignoring_def
        idExpire_def) (simp add: live_def loginAttemptWindow_def sec_def)
qed

lemma next_attempt:
  assumes "st (attemptKey pre e) = Some (RStr (Itoa n), Some ex)" "now < ex" "1 \<le> n" "n \<le> 4"
  shows "snd (RecordLoginAttempt memRedis pre now e False st) =
    (let st' = st(attemptKey pre e \<mapsto> (RStr (Itoa (n + 1)), Some ex)) in
     if n = 4 then st'(lockoutKey pre e \<mapsto> (RStr (Itoa ((now + loginLockoutDuration) div sec)), Some (now + loginLockoutDuration)))
     else st')"
proof -
  have "ParseInt (Itoa n) = Inr n"
    using assms by (intro ParseInt_Itoa) (simp_all add: int64_min_def int64_max_def)
  with assms show ?thesis
    by (auto simp: RecordLoginAttempt_def andThen_def idIncr_def countedAttempt_def Let_def maxLoginAttempts_def ignoring_def
        live_def idSet_def)
qed

lemma serveAll_append: "serveAll A (rs @ rs') s = serveAll A rs' (serveAll A rs s)"
proof (induction rs arbitrary: s)
  case (Cons cr rs)
  then show ?case by (cases cr) simp
qed simp

text \<open>A run of logins for one address with wrong credentials.\<close>

abbreviation logins :: "string \<Rightarrow> string \<Rightarrow> (call \<times> LoginRequest) list \<Rightarrow> (call \<times> auth_request) list" where
  "logins ip ua fs \<equiv> map (\<lambda>(c, req). (c, ReqLogin req ip ua)) fs"

definition failing :: "'r auth \<Rightarrow> string \<Rightarrow> db \<Rightarrow> call \<times> LoginRequest \<Rightarrow> bool" where
  "failing A e d = (\<lambda>(c, req). lowerTrim A (lq_Email req) = e \<and> wrongCredentials A c req d)"

lemma further_attempts:
  assumes "redisServer (au_redis A) view"
    and "\<And>g. g \<in> set gs \<Longrightarrow> failing A e (st_db s) g \<and> now \<le> cl_now (fst g) \<and> cl_now (fst g) < ex"
    and "live (view (st_cache s)) now (lockoutKey (au_prefix A) e) = None"
    and "view (st_cache s) (attemptKey (au_prefix A) e) = Some (RStr (Itoa n), Some ex)" "1 \<le> n" "n + int (length gs) \<le> 4"
  shows "st_db (serveAll A (logins ip ua gs) s) = st_db s \<and>
    view (st_cache (serveAll A (logins ip ua gs) s)) (lockoutKey (au_prefix A) e) = view (st_cache s) (lockoutKey (au_prefix A) e) \<and>
    view (st_cache (serveAll A (logins ip ua gs) s)) (attemptKey (au_prefix A) e) = Some (RStr (Itoa (n + int (length gs))), Some ex)"
  using assms(2-)
proof (induction gs arbitrary: n s)
  case (Cons g gs)
  obtain c req where g: "g = (c, req)" by fastforce
  define s1 where "s1 = snd (Login A c req ip ua s)"
  have step: "st_db s1 = st_db s"
    "view (st_cache s1) = (view (st_cache s))(attemptKey (au_prefix A) e \<mapsto> (RStr (Itoa (n + 1)), Some ex))"
    using Login_failed [OF assms(1), of c req s e ip ua] Cons.prems(1) [of g] live_later [OF Cons.prems(2)] Cons.prems(3-5)
      next_attempt [of "view (st_cache s)" "au_prefix A" e n ex "cl_now c"]
    by (simp_all add: g failing_def s1_def)
  have "st_db (serveAll A (logins ip ua gs) s1) = st_db s1 \<and>
    view (st_cache (serveAll A (logins ip ua gs) s1)) (lockoutKey (au_prefix A) e) = view (st_cache s1) (lockoutKey (au_prefix A) e) \<and>
    view (st_cache (serveAll A (logins ip ua gs) s1)) (attemptKey (au_prefix A) e) = Some (RStr (Itoa (n + 1 + int (length gs))), Some ex)"
    using Cons.prems by (intro Cons.IH) (auto simp: step live_def)
  then show ?case
    by (simp add: g step flip: s1_def) (simp add: ac_simps)
qed simp

definition lockEnd :: "int \<Rightarrow> int" where
  "lockEnd t = (t + loginLockoutDuration) div sec * sec"

definition lockEntry :: "int \<Rightarrow> (rval \<times> int option) option" where
  "lockEntry t = Some (RStr (Itoa ((t + loginLockoutDuration) div sec)), Some (t + loginLockoutDuration))"

lemma five_failures_lock:
  assumes "redisServer (au_redis A) view" "length fs = 5" "\<forall>f \<in> set fs. failing A e (st_db s) f"
    and "sorted (map (cl_now \<circ> fst) fs)" "cl_now (fst (last fs)) < cl_now (fst (hd fs)) + loginAttemptWindow"
    and "live (view (st_cache s)) (cl_now (fst (hd fs))) (attemptKey (au_prefix A) e) = None"
    and "live (view (st_cache s)) (cl_now (fst (hd fs))) (lockoutKey (au_prefix A) e) = None"
  shows "view (st_cache (serveAll A (logins ip ua fs) s)) (lockoutKey (au_prefix A) e) = lockEntry (cl_now (fst (last fs)))"
proof -
  obtain f1 gs f5 where fs: "fs = f1 # gs @ [f5]" "length gs = 3"
    using assms(2) by (cases fs; cases "tl fs" rule: rev_cases) auto
  obtain c1 r1 c5 r5 where f: "f1 = (c1, r1)" "f5 = (c5, r5)" by fastforce
  let ?ex = "cl_now c1 + loginAttemptWindow"
  define s1 where "s1 = snd (Login A c1 r1 ip ua s)"
  define s4 where "s4 = serveAll A (logins ip ua gs) s1"
  have first: "st_db s1 = st_db s" "view (st_cache s1) = (view (st_cache s))(attemptKey (au_prefix A) e \<mapsto> (RStr (Itoa 1), Some ?ex))"
    using Login_failed [OF assms(1), of c1 r1 s e ip ua] assms(3,6,7) first_attempt
    by (simp_all add: fs f failing_def s1_def)
  have between: "cl_now c1 \<le> cl_now (fst g) \<and> cl_now (fst g) < ?ex" if "g \<in> set gs" for g
    using assms(4,5) that by (force simp: fs f sorted_append)
  have unlocked: "live (view (st_cache s1)) (cl_now c1) (lockoutKey (au_prefix A) e) = None"
    using assms(7) by (simp add: first live_def fs f)
  have mid: "st_db s4 = st_db s1 \<and>
      view (st_cache s4) (lockoutKey (au_prefix A) e) = view (st_cache s1) (lockoutKey (au_prefix A) e) \<and>
      view (st_cache s4) (attemptKey (au_prefix A) e) = Some (RStr (Itoa (1 + int (length gs))), Some ?ex)"
    unfolding s4_def using between assms(3) fs
    by (intro further_attempts [OF assms(1) _ unlocked]) (auto simp: first f)
  have "live (view (st_cache s4)) (cl_now c1) (lockoutKey (au_prefix A) e) = None"
    using unlocked mid by (simp add: live_def)
  moreover have "cl_now c1 \<le> cl_now c5" "cl_now c5 < ?ex"
    using assms(4,5) by (auto simp: fs f sorted_append)
  ultimately have "view (st_cache (snd (Login A c5 r5 ip ua s4))) (lockoutKey (au_prefix A) e) = lockEntry (cl_now c5)"
    using Login_failed [OF assms(1), of c5 r5 s4 e ip ua] assms(3) mid fs(2) live_later
      next_attempt [of "view (st_cache s4)" "au_prefix A" e 4 ?ex "cl_now c5"]
    by (simp add: fs(1) f failing_def first lockEntry_def)
  then show ?thesis
    by (simp add: fs(1) f serveAll_append flip: s1_def s4_def)
qed

lemma IsLoginLocked_locked:
  assumes "redisServer C view" "view r (lockoutKey pre e) = lockEntry t" "now < lockEnd t" "0 \<le> t" "t + loginLockoutDuration \<le> int64_max"
  shows "fst (IsLoginLocked C pre now e r) = Inr (Some (lockEnd t))" "view (snd (IsLoginLocked C pre now e r)) = view r"
proof -
  have secs: "ParseInt (Itoa ((t + loginLockoutDuration) div sec)) = Inr ((t + loginLockoutDuration) div sec)"
    using assms(4,5) by (intro ParseInt_Itoa) (simp_all add: int64_min_def int64_max_def duration_defs)
  have "lockEnd t \<le> t + loginLockoutDuration"
    by (simp add: lockEnd_def duration_defs)
  with assms(2,3) have "live (view r) now (lockoutKey pre e) = lockEntry t"
    by (simp add: live_def lockEntry_def)
  with IsLoginLocked_sim [OF assms(1), of pre now e] secs assms(3)
  show "fst (IsLoginLocked C pre now e r) = Inr (Some (lockEnd t))" "view (snd (IsLoginLocked C pre now e r)) = view r"
    by (simp_all add: simulates_def IsLoginLocked_def andThen_def idGet_def lockEntry_def lockEnd_def)
qed

lemma serve_keeps_lock:
  assumes "redisServer (au_redis A) view" "0 \<le> t" "t + loginLockoutDuration \<le> int64_max" "cl_now c < lockEnd t"
    and "\<And>req ip ua. r = ReqLogin req ip ua \<Longrightarrow> lowerTrim A (lq_Email req) \<noteq> ''lockout:'' @ e"
  shows "keepsEntry view (lockoutKey (au_prefix A) e) (lockEntry t) s (serve A c r s)"
proof (cases "\<exists>req ip ua. r = ReqLogin req ip ua")
  case True
  then obtain req ip ua where r: "r = ReqLogin req ip ua" by blast
  show ?thesis
  proof (cases "lowerTrim A (lq_Email req) = e")
    case True
    have "view (st_cache (snd (Login A c req ip ua s))) = view (st_cache s)"
      if "view (st_cache s) (lockoutKey (au_prefix A) e) = lockEntry t"
      using IsLoginLocked_locked [OF assms(1) that assms(4,2,3)] True
      by (auto simp: Login_def Let_def onCache_def split: prod.splits)
    then show ?thesis by (auto simp: keepsEntry_def r)
  next
    case False
    with assms(5) [OF r] have "lockoutKey (au_prefix A) e \<noteq> attemptKey (au_prefix A) (lowerTrim A (lq_Email req))"
      "lockoutKey (au_prefix A) e \<noteq> lockoutKey (au_prefix A) (lowerTrim A (lq_Email req))"
      by (auto simp: lockoutKey_def attemptKey_def Key_simps)
    then show ?thesis
      by (simp add: r keepsEntry_Login [OF assms(1) not_sessionKey(3)])
  qed
next
  case False
  have "view (snd (BlacklistToken (au_redis A) (au_prefix A) (cl_now c) i ex x)) (lockoutKey (au_prefix A) e) = lockEntry t"
    if "view x (lockoutKey (au_prefix A) e) = lockEntry t" for i ex x
    using that by (auto simp: BlacklistToken_view [OF assms(1)] lockoutKey_def Key_simps)
  note blacklisting = keepsEntry_blacklisting [OF assms(1) not_sessionKey(3) this]
  show ?thesis
    using False by (cases r) (simp_all add: keepsEntry_others blacklisting assms(1) not_sessionKey)
qed


subsection \<open>Examples\<close>

lemma exampleAuth_redis: "redisServer (au_redis exampleAuth) id"
  by (simp add: exampleAuth_def memRedis_ok)

lemma example_payloads:
  assumes "verifyToken exampleAuth c tok = Inr p"
  shows "(p_ID p, p_ExpiredAt p) \<in> {(''r0'', 100 * sec), (''a1'', 900 * sec), (''r1'', 1000 * sec)}"
proof -
  obtain cl where "parseWithClaims exampleJwt (cl_now c) leeway ''key'' tok = Inr cl" "p_ID p = c_ID cl" "p_ExpiredAt p = c_ExpiresAt cl"
    using assms by (auto simp: verifyToken_def VerifyToken_def exampleAuth_def split: sum.splits)
  then show ?thesis
    by (auto simp: exampleJwt_def exampleClaims_def split: option.splits if_splits)
qed

lemma example_unique: "verifyToken exampleAuth c tok = Inr p \<Longrightarrow> uniqueExpiry exampleAuth p"
  unfolding uniqueExpiry_def by (auto dest!: example_payloads)

theorem revoked_token_rejected_witness:
  "fst (ValidateAccessToken exampleAuth (exampleCall (50 * sec)) ''first''
      (serveAll exampleAuth [(exampleCall 0, ReqLogout ''first'' \<lparr> lo_SessionID = [], lo_LogoutAll = False \<rparr>),
         (exampleCall 5, ReqSessions ''u1'')] exampleAuthState)) = Inl (ApiErr (ErrInvalidToken ''Token has been revoked''))"
proof (rule revoked_token_rejected)
  show "redisServer (au_redis exampleAuth) id" by (rule exampleAuth_redis)
  show "jwtLibrary (au_jwt exampleAuth)" by (simp add: exampleAuth_def exampleJwt_ok)
  show verify: "verifyToken exampleAuth (exampleCall 0) ''first'' =
      Inr \<lparr> p_ID = ''r0'', p_Username = ''u1'', p_IssuedAt = 0, p_ExpiredAt = 100 * sec \<rparr>"
    by (rule example_verify) (simp add: exampleCall_def sec_def)
  show "uniqueExpiry exampleAuth \<lparr> p_ID = ''r0'', p_Username = ''u1'', p_IssuedAt = 0, p_ExpiredAt = 100 * sec \<rparr>"
    by (rule example_unique) (rule verify)
  show "createToken exampleAuth (exampleCall 0) (Inr ''r0'') ''u1'' (100 * sec) =
      Inr (''first'', \<lparr> p_ID = ''r0'', p_Username = ''u1'', p_IssuedAt = 0, p_ExpiredAt = 100 * sec \<rparr>)"
    by (simp add: createToken_def CreateToken_def NewPayload_def claimsOf_def exampleAuth_def exampleJwt_def exampleCall_def
        exampleClaims_def sec_def res_bind_def)
qed (simp_all add: exampleCall_def sec_def)


end
