(* ===== verification/Go_Json.thy ===== *)
theory Go_Json
  imports Go_Value Api_Error
begin

text \<open>
  JSON values and the decoding of \<^verbatim>\<open>encoding/json\<close> into the fields of a struct. A number written without fraction and exponent is a
  \<open>JInt\<close>, which \<^verbatim>\<open>encoding/json\<close> accepts for an integer field; the sign of a zero is not kept. Names of
  members match the names of fields whatever the case of their letters; a value of the wrong type is an error, but
  the other members are still decoded, in their order. The text of such an error is left out.
\<close>

datatype json =
    JNull
  | JBool bool
  | JInt int
  | JNum rat
  | JString string
  | JArray "json list"
  | JObject "(string \<times> json) list"

text \<open>The case of the letters of ASCII.\<close>

definition asciiLower :: "char \<Rightarrow> char" where
  "asciiLower c = (if 65 \<le> (of_char c :: nat) \<and> (of_char c :: nat) \<le> 90 then char_of ((of_char c :: nat) + 32) else c)"

definition asciiUpper :: "char \<Rightarrow> char" where
  "asciiUpper c = (if 97 \<le> (of_char c :: nat) \<and> (of_char c :: nat) \<le> 122 then char_of ((of_char c :: nat) - 32) else c)"

definition typeMismatch :: go_error where
  "typeMismatch = Plain ''json: cannot unmarshal''"

type_synonym 's setter = "json \<Rightarrow> 's \<Rightarrow> go_error option \<times> 's"

fun setString :: "(string \<Rightarrow> 's \<Rightarrow> 's) \<Rightarrow> 's setter" where
  "setString upd JNull s = (None, s)"
| "setString upd (JString t) s = (None, upd t s)"
| "setString upd _ s = (Some typeMismatch, s)"

fun setBool :: "(bool \<Rightarrow> 's \<Rightarrow> 's) \<Rightarrow> 's setter" where
  "setBool upd JNull s = (None, s)"
| "setBool upd (JBool b) s = (None, upd b s)"
| "setBool upd _ s = (Some typeMismatch, s)"

text \<open>An integer field of \<open>w\<close> bits.\<close>

fun setInt :: "nat \<Rightarrow> (int \<Rightarrow> 's \<Rightarrow> 's) \<Rightarrow> 's setter" where
  "setInt w upd JNull s = (None, s)"
| "setInt w upd (JInt i) s =
     (if - (2 ^ (w - 1)) \<le> i \<and> i < 2 ^ (w - 1) then (None, upd i s) else (Some typeMismatch, s))"
| "setInt w upd _ s = (Some typeMismatch, s)"

definition setFloatOf :: "(go_float \<Rightarrow> 's \<Rightarrow> 's) \<Rightarrow> rat \<Rightarrow> 's \<Rightarrow> go_error option \<times> 's" where
  "setFloatOf upd r s = (let f = fround binary64 r in if finiteF f then (None, upd f s) else (Some typeMismatch, s))"

fun setFloat :: "(go_float \<Rightarrow> 's \<Rightarrow> 's) \<Rightarrow> 's setter" where
  "setFloat upd JNull s = (None, s)"
| "setFloat upd (JInt i) s = setFloatOf upd (of_int i) s"
| "setFloat upd (JNum r) s = setFloatOf upd r s"
| "setFloat upd _ s = (Some typeMismatch, s)"

definition setRaw :: "(json \<Rightarrow> 's \<Rightarrow> 's) \<Rightarrow> 's setter" where
  "setRaw upd v s = (None, upd v s)"

definition setMember :: "(string \<times> 's setter) list \<Rightarrow> string \<times> json \<Rightarrow> go_error option \<times> 's \<Rightarrow> go_error option \<times> 's" where
  "setMember fs m st =
     (case map_of (map (\<lambda>(n, f). (map asciiLower n, f)) fs) (map asciiLower (fst m)) of
        None \<Rightarrow> st
      | Some f \<Rightarrow> (case f (snd m) (snd st) of (e, s) \<Rightarrow> (case fst st of None \<Rightarrow> (e, s) | Some e' \<Rightarrow> (Some e', s))))"

definition decodeStruct :: "(string \<times> 's setter) list \<Rightarrow> json \<Rightarrow> 's \<Rightarrow> go_error option \<times> 's" where
  "decodeStruct fs v s =
     (case v of
        JNull \<Rightarrow> (None, s)
      | JObject ms \<Rightarrow> fold (setMember fs) ms (None, s)
      | _ \<Rightarrow> (Some typeMismatch, s))"

text \<open>A text is the value it denotes, if it is valid JSON.\<close>

definition Unmarshal :: "(string \<times> 's setter) list \<Rightarrow> json option \<Rightarrow> 's \<Rightarrow> go_error + 's" where
  "Unmarshal fs text s =
     (case text of
        None \<Rightarrow> Inl (Plain ''invalid character'')
      | Some v \<Rightarrow> (case decodeStruct fs v s of (Some e, _) \<Rightarrow> Inl e | (None, s') \<Rightarrow> Inr s'))"

text \<open>The encoding of a float: its shortest decimal, without exponent where it is below \<open>10 ^ 21\<close>.\<close>

definition marshalFloat :: "go_float \<Rightarrow> go_error + json" where
  "marshalFloat f =
     (case f of
        Fin r \<Rightarrow>
          (if r = 0 then Inr (JInt 0)
           else let (ds, dp) = shortest binary64 \<bar>r\<bar>;
                    v = of_int (digitsVal ds) * pow10 (dp - int (length ds));
                    x = (if r < 0 then - v else v)
                in Inr (if x = of_int \<lfloor>x\<rfloor> \<and> \<bar>r\<bar> < 10 ^ 21 then JInt \<lfloor>x\<rfloor> else JNum x))
      | NegZero \<Rightarrow> Inr (JInt 0)
      | _ \<Rightarrow> Inl (Plain (''json: unsupported value: '' @ FormatFloat binary64 f)))"

text \<open>
  The operator \<^verbatim>\<open>@>\<close> of PostgreSQL, for a right side whose members are strings: a column of type JSONB keeps the
  last of several members of one name.
\<close>

definition jsonContains :: "json \<Rightarrow> (string \<times> string) list \<Rightarrow> bool" where
  "jsonContains left right =
     (case left of
        JObject ms \<Rightarrow> list_all (\<lambda>(k, v). map_of (rev ms) k = Some (JString v)) right
      | _ \<Rightarrow> False)"

end
