(* ===== verification/Alert_Store.thy ===== *)
theory Alert_Store
  imports Sql_Store Go_Json
begin

text \<open>
  The tables of alerts, notification channels and deliveries with their queries (\<^verbatim>\<open>db/sqlc/alerts.sql.go\<close>, the columns and
  defaults of \<^verbatim>\<open>db/migrations/000013_alert.up.sql\<close>) and the transaction that raises an alert
  (\<^verbatim>\<open>db/sqlc/tx_alert_deliver.go\<close>). Of the table of environments only the tenant is kept. Times are in microseconds; \<open>now\<close>
  is the \<^verbatim>\<open>now()\<close> of the statement or of its transaction. A column of type JSONB is a JSON value. Rows of equal
  \<^verbatim>\<open>created_at\<close> keep the order of the table.
\<close>

record alert_row =
  al_ID :: string
  al_EnvID :: string
  al_Type :: string
  al_Severity :: string
  al_Message :: string
  al_Metadata :: json
  al_Acknowledged :: bool
  al_AcknowledgedBy :: "string option"
  al_AcknowledgedAt :: "int option"
  al_CreatedAt :: int

record channel_row =
  nc_ID :: string
  nc_TenantID :: string
  nc_Name :: string
  nc_Type :: string
  nc_Config :: json
  nc_IsActive :: bool
  nc_CreatedAt :: int

record delivery_row =
  ad_ID :: string
  ad_AlertID :: string
  ad_ChannelID :: string
  ad_Status :: string
  ad_Attempt :: int
  ad_Error :: "string option"
  ad_SentAt :: "int option"
  ad_CreatedAt :: int

record alert_db =
  ab_envs :: "(string \<times> string) list"
  ab_alerts :: "alert_row list"
  ab_channels :: "channel_row list"
  ab_deliveries :: "delivery_row list"

definition minutes :: "int \<Rightarrow> int" where
  "minutes m = m * 60 * 10 ^ 6"

subsection \<open>Alerts\<close>

definition CreateAlert ::
  "faults \<Rightarrow> string \<Rightarrow> int \<Rightarrow> string \<Rightarrow> string \<Rightarrow> string \<Rightarrow> string \<Rightarrow> json \<Rightarrow> 'z alert_db_scheme \<Rightarrow> (go_error + alert_row) \<times> 'z alert_db_scheme" where
  "CreateAlert fault newID now envID typ sev message meta d =
     (let r = \<lparr> al_ID = newID, al_EnvID = envID, al_Type = typ, al_Severity = sev, al_Message = message, al_Metadata = meta,
                al_Acknowledged = False, al_AcknowledgedBy = None, al_AcknowledgedAt = None, al_CreatedAt = now \<rparr> in
      insertRow fault ''CreateAlert''
        [(newID \<in> al_ID ` set (ab_alerts d), violation ''23505'' ''alerts_pkey''),
         (envID \<notin> fst ` set (ab_envs d), violation ''23503'' ''alerts_env_id_fkey'')]
        r d (d \<lparr> ab_alerts := ab_alerts d @ [r] \<rparr>))"

definition HasRecentAlert :: "faults \<Rightarrow> int \<Rightarrow> string \<Rightarrow> string \<Rightarrow> (string \<times> string) list \<Rightarrow> int \<Rightarrow> 'z alert_db_scheme \<Rightarrow> go_error + bool" where
  "HasRecentAlert fault now envID typ key mins d =
     query fault ''HasRecentAlert''
       (Inr (list_ex (\<lambda>a. al_EnvID a = envID \<and> al_Type a = typ \<and> jsonContains (al_Metadata a) key \<and>
                          now - minutes mins < al_CreatedAt a) (ab_alerts d)))"

definition GetAlert :: "faults \<Rightarrow> string \<Rightarrow> 'z alert_db_scheme \<Rightarrow> go_error + alert_row" where
  "GetAlert fault aid d = query fault ''GetAlert'' (limit1 hd (filter (\<lambda>a. al_ID a = aid) (ab_alerts d)))"

definition GetAlertByID :: "faults \<Rightarrow> string \<Rightarrow> string \<Rightarrow> 'z alert_db_scheme \<Rightarrow> go_error + alert_row" where
  "GetAlertByID fault aid envID d =
     query fault ''GetAlertByID'' (limit1 hd (filter (\<lambda>a. al_ID a = aid \<and> al_EnvID a = envID) (ab_alerts d)))"

definition newestAlerts :: "alert_row list \<Rightarrow> alert_row list" where
  "newestAlerts = sort_key (\<lambda>a. - al_CreatedAt a)"

definition ListAlerts :: "faults \<Rightarrow> string \<Rightarrow> nat \<Rightarrow> nat \<Rightarrow> 'z alert_db_scheme \<Rightarrow> go_error + alert_row list" where
  "ListAlerts fault envID limit offset d =
     query fault ''ListAlerts'' (Inr (take limit (drop offset (newestAlerts (filter (\<lambda>a. al_EnvID a = envID) (ab_alerts d))))))"

definition ListAlertsByType :: "faults \<Rightarrow> string \<Rightarrow> string \<Rightarrow> nat \<Rightarrow> 'z alert_db_scheme \<Rightarrow> go_error + alert_row list" where
  "ListAlertsByType fault envID typ limit d =
     query fault ''ListAlertsByType''
       (Inr (take limit (newestAlerts (filter (\<lambda>a. al_EnvID a = envID \<and> al_Type a = typ) (ab_alerts d)))))"

definition ListUnacknowledgedAlerts :: "faults \<Rightarrow> string \<Rightarrow> nat \<Rightarrow> 'z alert_db_scheme \<Rightarrow> go_error + alert_row list" where
  "ListUnacknowledgedAlerts fault envID limit d =
     query fault ''ListUnacknowledgedAlerts''
       (Inr (take limit (newestAlerts (filter (\<lambda>a. al_EnvID a = envID \<and> \<not> al_Acknowledged a) (ab_alerts d)))))"

definition CountUnacknowledgedAlerts :: "faults \<Rightarrow> string \<Rightarrow> 'z alert_db_scheme \<Rightarrow> go_error + nat" where
  "CountUnacknowledgedAlerts fault envID d =
     query fault ''CountUnacknowledgedAlerts''
       (Inr (length (filter (\<lambda>a. al_EnvID a = envID \<and> \<not> al_Acknowledged a) (ab_alerts d))))"

definition acknowledged :: "int \<Rightarrow> string option \<Rightarrow> alert_row \<Rightarrow> alert_row" where
  "acknowledged now who a = a \<lparr> al_Acknowledged := True, al_AcknowledgedBy := who, al_AcknowledgedAt := Some now \<rparr>"

definition AcknowledgeAlert ::
  "faults \<Rightarrow> int \<Rightarrow> string \<Rightarrow> string option \<Rightarrow> string \<Rightarrow> 'z alert_db_scheme \<Rightarrow> (go_error + alert_row) \<times> 'z alert_db_scheme" where
  "AcknowledgeAlert fault now aid who envID d =
     (case query fault ''AcknowledgeAlert'' (limit1 hd (filter (\<lambda>a. al_ID a = aid \<and> al_EnvID a = envID) (ab_alerts d))) of
        Inl e \<Rightarrow> (Inl e, d)
      | Inr a \<Rightarrow>
          (Inr (acknowledged now who a),
           d \<lparr> ab_alerts := map (\<lambda>a. if al_ID a = aid \<and> al_EnvID a = envID then acknowledged now who a else a) (ab_alerts d) \<rparr>))"

definition AcknowledgeAllAlerts ::
  "faults \<Rightarrow> int \<Rightarrow> string \<Rightarrow> string option \<Rightarrow> 'z alert_db_scheme \<Rightarrow> (go_error + nat) \<times> 'z alert_db_scheme" where
  "AcknowledgeAllAlerts fault now envID who d =
     (let hit = (\<lambda>a. al_EnvID a = envID \<and> \<not> al_Acknowledged a) in
      case fault ''AcknowledgeAllAlerts'' of
        Some e \<Rightarrow> (Inl e, d)
      | None \<Rightarrow>
          (Inr (length (filter hit (ab_alerts d))),
           d \<lparr> ab_alerts := map (\<lambda>a. if hit a then acknowledged now who a else a) (ab_alerts d) \<rparr>))"

text \<open>Deleting an alert deletes its deliveries.\<close>

definition DeleteOldAlerts :: "faults \<Rightarrow> string \<Rightarrow> int \<Rightarrow> 'z alert_db_scheme \<Rightarrow> (go_error + nat) \<times> 'z alert_db_scheme" where
  "DeleteOldAlerts fault tid cutoff d =
     (let old = (\<lambda>a. (al_EnvID a, tid) \<in> set (ab_envs d) \<and> al_CreatedAt a < cutoff) in
      case fault ''DeleteOldAlerts'' of
        Some e \<Rightarrow> (Inl e, d)
      | None \<Rightarrow>
          (Inr (length (filter old (ab_alerts d))),
           d \<lparr> ab_alerts := filter (Not \<circ> old) (ab_alerts d),
               ab_deliveries := filter (\<lambda>v. ad_AlertID v \<notin> al_ID ` set (filter old (ab_alerts d))) (ab_deliveries d) \<rparr>))"

subsection \<open>Channels\<close>

definition CreateNotificationChannel ::
  "faults \<Rightarrow> string list \<Rightarrow> channel_row \<Rightarrow> 'z alert_db_scheme \<Rightarrow> (go_error + channel_row) \<times> 'z alert_db_scheme" where
  "CreateNotificationChannel fault tenants r d =
     insertRow fault ''CreateNotificationChannel''
       [(nc_ID r \<in> nc_ID ` set (ab_channels d), violation ''23505'' ''notification_channels_pkey''),
        (nc_TenantID r \<notin> set tenants, violation ''23503'' ''notification_channels_tenant_id_fkey'')]
       r d (d \<lparr> ab_channels := ab_channels d @ [r] \<rparr>)"

definition GetNotificationChannel :: "faults \<Rightarrow> string \<Rightarrow> string \<Rightarrow> 'z alert_db_scheme \<Rightarrow> go_error + channel_row" where
  "GetNotificationChannel fault cid tid d =
     query fault ''GetNotificationChannel'' (limit1 hd (filter (\<lambda>c. nc_ID c = cid \<and> nc_TenantID c = tid) (ab_channels d)))"

definition ListNotificationChannels :: "faults \<Rightarrow> string \<Rightarrow> 'z alert_db_scheme \<Rightarrow> go_error + channel_row list" where
  "ListNotificationChannels fault tid d =
     query fault ''ListNotificationChannels'' (Inr (sort_key nc_CreatedAt (filter (\<lambda>c. nc_TenantID c = tid) (ab_channels d))))"

definition ListActiveNotificationChannels :: "faults \<Rightarrow> string \<Rightarrow> 'z alert_db_scheme \<Rightarrow> go_error + channel_row list" where
  "ListActiveNotificationChannels fault tid d =
     query fault ''ListActiveNotificationChannels''
       (Inr (sort_key nc_CreatedAt (filter (\<lambda>c. nc_TenantID c = tid \<and> nc_IsActive c) (ab_channels d))))"

definition UpdateNotificationChannel ::
  "faults \<Rightarrow> string \<Rightarrow> string \<Rightarrow> string \<Rightarrow> string \<Rightarrow> json \<Rightarrow> bool \<Rightarrow> 'z alert_db_scheme \<Rightarrow> (go_error + channel_row) \<times> 'z alert_db_scheme" where
  "UpdateNotificationChannel fault cid tid name typ cfg active d =
     (let hit = (\<lambda>c. nc_ID c = cid \<and> nc_TenantID c = tid);
          upd = (\<lambda>c. c \<lparr> nc_Name := name, nc_Type := typ, nc_Config := cfg, nc_IsActive := active \<rparr>) in
      case query fault ''UpdateNotificationChannel'' (limit1 hd (filter hit (ab_channels d))) of
        Inl e \<Rightarrow> (Inl e, d)
      | Inr c \<Rightarrow> (Inr (upd c), d \<lparr> ab_channels := map (\<lambda>c. if hit c then upd c else c) (ab_channels d) \<rparr>))"

text \<open>Deleting a channel deletes its deliveries.\<close>

definition DeleteNotificationChannel :: "faults \<Rightarrow> string \<Rightarrow> string \<Rightarrow> 'z alert_db_scheme \<Rightarrow> go_error option \<times> 'z alert_db_scheme" where
  "DeleteNotificationChannel fault cid tid d =
     (let hit = (\<lambda>c. nc_ID c = cid \<and> nc_TenantID c = tid) in
      exec fault ''DeleteNotificationChannel'' d
        (d \<lparr> ab_channels := filter (Not \<circ> hit) (ab_channels d),
             ab_deliveries := filter (\<lambda>v. ad_ChannelID v \<notin> nc_ID ` set (filter hit (ab_channels d))) (ab_deliveries d) \<rparr>))"

subsection \<open>Deliveries\<close>

text \<open>A statement that runs in a loop has a fault of its own in each round, here by the channel.\<close>

definition CreateAlertDelivery ::
  "faults \<Rightarrow> string \<Rightarrow> int \<Rightarrow> string \<Rightarrow> string \<Rightarrow> 'z alert_db_scheme \<Rightarrow> (go_error + delivery_row) \<times> 'z alert_db_scheme" where
  "CreateAlertDelivery fault newID now alertID channelID d =
     (let r = \<lparr> ad_ID = newID, ad_AlertID = alertID, ad_ChannelID = channelID, ad_Status = ''pending'', ad_Attempt = 1,
                ad_Error = None, ad_SentAt = None, ad_CreatedAt = now \<rparr> in
      insertRow fault (''CreateAlertDelivery '' @ channelID)
        [(newID \<in> ad_ID ` set (ab_deliveries d), violation ''23505'' ''alert_deliveries_pkey''),
         (alertID \<notin> al_ID ` set (ab_alerts d), violation ''23503'' ''alert_deliveries_alert_id_fkey''),
         (channelID \<notin> nc_ID ` set (ab_channels d), violation ''23503'' ''alert_deliveries_channel_id_fkey'')]
        r d (d \<lparr> ab_deliveries := ab_deliveries d @ [r] \<rparr>))"

definition ListAlertDeliveries :: "faults \<Rightarrow> string \<Rightarrow> 'z alert_db_scheme \<Rightarrow> go_error + delivery_row list" where
  "ListAlertDeliveries fault aid d =
     query fault ''ListAlertDeliveries'' (Inr (sort_key ad_CreatedAt (filter (\<lambda>v. ad_AlertID v = aid) (ab_deliveries d))))"

type_synonym pending_row = "delivery_row \<times> channel_row \<times> alert_row"

definition joined :: "delivery_row \<Rightarrow> 'z alert_db_scheme \<Rightarrow> (channel_row \<times> alert_row) list" where
  "joined v d =
     List.product (filter (\<lambda>c. nc_ID c = ad_ChannelID v) (ab_channels d)) (filter (\<lambda>a. al_ID a = ad_AlertID v) (ab_alerts d))"

definition ListPendingDeliveries :: "faults \<Rightarrow> nat \<Rightarrow> 'z alert_db_scheme \<Rightarrow> go_error + pending_row list" where
  "ListPendingDeliveries fault limit d =
     query fault ''ListPendingDeliveries''
       (Inr (take limit (sort_key (\<lambda>r. ad_CreatedAt (fst r))
          (concat (map (\<lambda>v. map (Pair v) (joined v d)) (filter (\<lambda>v. ad_Status v = ''pending'') (ab_deliveries d)))))))"

definition updateDelivery :: "string \<Rightarrow> (delivery_row \<Rightarrow> delivery_row) \<Rightarrow> 'z alert_db_scheme \<Rightarrow> 'z alert_db_scheme" where
  "updateDelivery vid f d = d \<lparr> ab_deliveries := map (\<lambda>v. if ad_ID v = vid then f v else v) (ab_deliveries d) \<rparr>"

definition MarkDeliverySent :: "faults \<Rightarrow> int \<Rightarrow> string \<Rightarrow> 'z alert_db_scheme \<Rightarrow> go_error option \<times> 'z alert_db_scheme" where
  "MarkDeliverySent fault now vid d =
     exec fault (''MarkDeliverySent '' @ vid) d (updateDelivery vid (\<lambda>v. v \<lparr> ad_Status := ''sent'', ad_SentAt := Some now \<rparr>) d)"

definition MarkDeliveryFailed :: "faults \<Rightarrow> string \<Rightarrow> string \<Rightarrow> 'z alert_db_scheme \<Rightarrow> go_error option \<times> 'z alert_db_scheme" where
  "MarkDeliveryFailed fault vid reason d =
     exec fault (''MarkDeliveryFailed '' @ vid) d
       (updateDelivery vid (\<lambda>v. v \<lparr> ad_Status := ''failed'', ad_Error := Some reason, ad_Attempt := ad_Attempt v + 1 \<rparr>) d)"

definition retryable :: "int \<Rightarrow> int \<Rightarrow> delivery_row \<Rightarrow> bool" where
  "retryable now attempts v \<longleftrightarrow>
     ad_Status v = ''failed'' \<and> ad_Attempt v < attempts \<and> now - minutes (24 * 60) < ad_CreatedAt v"

definition RetryFailedDeliveries :: "faults \<Rightarrow> int \<Rightarrow> int \<Rightarrow> 'z alert_db_scheme \<Rightarrow> go_error option \<times> 'z alert_db_scheme" where
  "RetryFailedDeliveries fault now attempts d =
     exec fault ''RetryFailedDeliveries'' d
       (d \<lparr> ab_deliveries := map (\<lambda>v. if retryable now attempts v then v \<lparr> ad_Status := ''pending'' \<rparr> else v) (ab_deliveries d) \<rparr>)"

subsection \<open>Raising an alert\<close>

fun createDeliveries ::
  "faults \<Rightarrow> (string \<Rightarrow> string) \<Rightarrow> int \<Rightarrow> string \<Rightarrow> channel_row list \<Rightarrow> 'z alert_db_scheme \<Rightarrow> (go_error + unit) \<times> 'z alert_db_scheme" where
  "createDeliveries fault newDelivery now aid [] d = (Inr (), d)"
| "createDeliveries fault newDelivery now aid (ch # chs) d =
     (case CreateAlertDelivery fault (newDelivery (nc_ID ch)) now aid (nc_ID ch) d of
        (Inl e, d') \<Rightarrow> (Inl (Wrap (''create delivery for channel '' @ nc_ID ch) e), d')
      | (Inr _, d') \<Rightarrow> createDeliveries fault newDelivery now aid chs d')"

record CreateAlertWithDeliveryParams =
  cp_EnvID :: string
  cp_TenantID :: string
  cp_Type :: string
  cp_Severity :: string
  cp_Message :: string
  cp_Metadata :: json

text \<open>\<open>ids\<close> gives the identifiers that the database draws: of the alert, and of the delivery of a channel.\<close>

definition CreateAlertWithDeliveryTx ::
  "faults \<Rightarrow> string \<times> (string \<Rightarrow> string) \<Rightarrow> int \<Rightarrow> CreateAlertWithDeliveryParams \<Rightarrow> 'z alert_db_scheme \<Rightarrow> (go_error + alert_row) \<times> 'z alert_db_scheme" where
  "CreateAlertWithDeliveryTx fault ids now arg =
     execTx fault (\<lambda>d.
       case CreateAlert fault (fst ids) now (cp_EnvID arg) (cp_Type arg) (cp_Severity arg) (cp_Message arg) (cp_Metadata arg) d of
         (Inl e, d') \<Rightarrow> (Inl (Wrap ''create alert'' e), d')
       | (Inr alert, d') \<Rightarrow>
           case ListActiveNotificationChannels fault (cp_TenantID arg) d' of
             Inl e \<Rightarrow> (Inl (Wrap ''create alert'' e), d')
           | Inr channels \<Rightarrow>
               (case createDeliveries fault (snd ids) now (al_ID alert) channels d' of
                  (Inl e, d'') \<Rightarrow> (Inl e, d'')
                | (Inr _, d'') \<Rightarrow> (Inr alert, d'')))"

subsection \<open>Raising an alert is all or nothing\<close>

definition newAlert :: "string \<Rightarrow> int \<Rightarrow> CreateAlertWithDeliveryParams \<Rightarrow> alert_row" where
  "newAlert aid now arg =
     \<lparr> al_ID = aid, al_EnvID = cp_EnvID arg, al_Type = cp_Type arg, al_Severity = cp_Severity arg, al_Message = cp_Message arg,
       al_Metadata = cp_Metadata arg, al_Acknowledged = False, al_AcknowledgedBy = None, al_AcknowledgedAt = None, al_CreatedAt = now \<rparr>"

definition pendingDelivery :: "(string \<Rightarrow> string) \<Rightarrow> int \<Rightarrow> string \<Rightarrow> channel_row \<Rightarrow> delivery_row" where
  "pendingDelivery newDelivery now aid ch =
     \<lparr> ad_ID = newDelivery (nc_ID ch), ad_AlertID = aid, ad_ChannelID = nc_ID ch, ad_Status = ''pending'', ad_Attempt = 1,
       ad_Error = None, ad_SentAt = None, ad_CreatedAt = now \<rparr>"

definition activeChannels :: "string \<Rightarrow> 'z alert_db_scheme \<Rightarrow> channel_row list" where
  "activeChannels tid d = sort_key nc_CreatedAt (filter (\<lambda>c. nc_TenantID c = tid \<and> nc_IsActive c) (ab_channels d))"

definition alertRaised ::
  "string \<times> (string \<Rightarrow> string) \<Rightarrow> int \<Rightarrow> CreateAlertWithDeliveryParams \<Rightarrow> 'z alert_db_scheme \<Rightarrow> 'z alert_db_scheme" where
  "alertRaised ids now arg d =
     d \<lparr> ab_alerts := ab_alerts d @ [newAlert (fst ids) now arg],
         ab_deliveries := ab_deliveries d @ map (pendingDelivery (snd ids) now (fst ids)) (activeChannels (cp_TenantID arg) d) \<rparr>"

lemma insertRow_Inr: "insertRow fault name checks row d d' = (Inr r, d'') \<longleftrightarrow> fault name = None \<and> filter fst checks = [] \<and> r = row \<and> d'' = d'"
  by (auto simp: insertRow_def split: option.splits list.splits prod.splits)

lemma createDeliveries_rows:
  "createDeliveries fault newDelivery now aid chs d = (Inr u, d') \<Longrightarrow>
   d' = d \<lparr> ab_deliveries := ab_deliveries d @ map (pendingDelivery newDelivery now aid) chs \<rparr>"
proof (induction chs arbitrary: d)
  case (Cons ch chs)
  obtain y d1 where 1: "CreateAlertDelivery fault (newDelivery (nc_ID ch)) now aid (nc_ID ch) d = (Inr y, d1)"
    using Cons.prems by (auto split: sum.splits prod.splits)
  then have "d1 = d \<lparr> ab_deliveries := ab_deliveries d @ [pendingDelivery newDelivery now aid ch] \<rparr>"
    by (simp add: CreateAlertDelivery_def insertRow_Inr Let_def pendingDelivery_def)
  then show ?case
    using Cons.prems Cons.IH [of d1] 1 by simp
qed simp

text \<open>What a successful transaction has done.\<close>

lemma CreateAlertWithDeliveryTx_Inr:
  assumes "CreateAlertWithDeliveryTx fault ids now arg d = (Inr a, d')"
  obtains d1 channels u where
    "CreateAlert fault (fst ids) now (cp_EnvID arg) (cp_Type arg) (cp_Severity arg) (cp_Message arg) (cp_Metadata arg) d = (Inr a, d1)"
    "ListActiveNotificationChannels fault (cp_TenantID arg) d1 = Inr channels"
    "createDeliveries fault (snd ids) now (al_ID a) channels d1 = (Inr u, d')"
  using execTx_cases [OF assms [unfolded CreateAlertWithDeliveryTx_def]]
  by (auto split: sum.splits prod.splits)

lemma CreateAlertWithDeliveryTx_Inl: "CreateAlertWithDeliveryTx fault ids now arg d = (Inl e, d') \<Longrightarrow> d' = d"
  unfolding CreateAlertWithDeliveryTx_def by (drule execTx_cases) auto

lemma CreateAlertWithDeliveryTx_cases:
  assumes "CreateAlertWithDeliveryTx fault ids now arg d = (x, d')"
  obtains e where "x = Inl e" "d' = d" | "x = Inr (newAlert (fst ids) now arg)" "d' = alertRaised ids now arg d"
proof (cases x)
  case (Inr a)
  obtain d1 channels u where
      1: "CreateAlert fault (fst ids) now (cp_EnvID arg) (cp_Type arg) (cp_Severity arg) (cp_Message arg) (cp_Metadata arg) d = (Inr a, d1)"
    and 2: "ListActiveNotificationChannels fault (cp_TenantID arg) d1 = Inr channels"
    and 3: "createDeliveries fault (snd ids) now (al_ID a) channels d1 = (Inr u, d')"
    using assms Inr by (auto elim: CreateAlertWithDeliveryTx_Inr)
  have a: "a = newAlert (fst ids) now arg" and d1: "d1 = d \<lparr> ab_alerts := ab_alerts d @ [newAlert (fst ids) now arg] \<rparr>"
    using 1 by (auto simp: CreateAlert_def insertRow_Inr Let_def newAlert_def)
  have "channels = activeChannels (cp_TenantID arg) d"
    using 2 d1 by (simp add: ListActiveNotificationChannels_def query_def activeChannels_def split: option.splits)
  then show thesis
    using that(2) Inr a createDeliveries_rows [OF 3] by (simp add: alertRaised_def d1 newAlert_def)
qed (use assms that(1) CreateAlertWithDeliveryTx_Inl in blast)

text \<open>The primary keys stay unique.\<close>

definition alert_keys :: "'z alert_db_scheme \<Rightarrow> bool" where
  "alert_keys d \<longleftrightarrow>
     distinct (map al_ID (ab_alerts d)) \<and> distinct (map nc_ID (ab_channels d)) \<and> distinct (map ad_ID (ab_deliveries d))"

lemma createDeliveries_keys:
  "createDeliveries fault newDelivery now aid chs d = (Inr u, d') \<Longrightarrow> alert_keys d \<Longrightarrow> alert_keys d'"
proof (induction chs arbitrary: d)
  case (Cons ch chs)
  obtain y d1 where 1: "CreateAlertDelivery fault (newDelivery (nc_ID ch)) now aid (nc_ID ch) d = (Inr y, d1)"
    using Cons.prems by (auto split: sum.splits prod.splits)
  then have "alert_keys d1"
    using Cons.prems(2) by (auto simp: CreateAlertDelivery_def insertRow_Inr Let_def alert_keys_def split: if_splits)
  then show ?case
    using Cons.prems Cons.IH [of d1] 1 by simp
qed simp

lemma CreateAlertWithDeliveryTx_keys:
  assumes "CreateAlertWithDeliveryTx fault ids now arg d = (x, d')" "alert_keys d"
  shows "alert_keys d'"
proof (cases x)
  case (Inr a)
  then obtain d1 channels u where
      1: "CreateAlert fault (fst ids) now (cp_EnvID arg) (cp_Type arg) (cp_Severity arg) (cp_Message arg) (cp_Metadata arg) d = (Inr a, d1)"
    and 3: "createDeliveries fault (snd ids) now (al_ID a) channels d1 = (Inr u, d')"
    using assms(1) by (auto elim: CreateAlertWithDeliveryTx_Inr)
  have "alert_keys d1"
    using 1 assms(2) by (auto simp: CreateAlert_def insertRow_Inr Let_def alert_keys_def split: if_splits)
  then show ?thesis by (rule createDeliveries_keys [OF 3])
qed (use assms CreateAlertWithDeliveryTx_Inl in blast)

text \<open>
  C25: Raising an alert is all or nothing: it fails and changes no table, or it adds the alert, not acknowledged, and one pending delivery
  for every active channel of the tenant, and nothing else.
\<close>

theorem raise_alert_atomic:
  "case CreateAlertWithDeliveryTx fault ids now arg d of
     (Inl e, d') \<Rightarrow> d' = d
   | (Inr a, d') \<Rightarrow> a = newAlert (fst ids) now arg \<and> d' = alertRaised ids now arg d"
proof -
  obtain x d' where "CreateAlertWithDeliveryTx fault ids now arg d = (x, d')" by fastforce
  then show ?thesis
    by (auto elim: CreateAlertWithDeliveryTx_cases)
qed

end
