(* ===== verification/Stream_Consumer.thy ===== *)
theory Stream_Consumer
  imports Api_Error
begin

text \<open>
  The consumers of a Redis stream (\<^verbatim>\<open>internal/worker/consumer.go\<close>). The stream with its consumer group is modelled as
  Redis documents it: a group hands every entry after the last one delivered to one of its consumers and keeps
  it pending until it is acknowledged. The state \<open>'w\<close> is what the handlers work on. Several consumers of a
  group run at the same time, so \<open>consumer_step\<close> is a step relation: each reads a batch, handles its messages
  one by one, and may crash in between. Logging, blocking and the pause after an error are left out.
\<close>

record stream_message =
  sm_ID :: nat
  sm_Values :: "(string, string) gomap"

record ConsumerConfig =
  cc_Stream :: string
  cc_Group :: string
  cc_BatchSize :: nat
  cc_BlockTime :: int
  cc_MaxRetries :: int
  cc_ClaimTimeout :: int

definition DefaultConsumerConfig :: "string \<Rightarrow> string \<Rightarrow> ConsumerConfig" where
  "DefaultConsumerConfig stream grp =
     \<lparr> cc_Stream = stream, cc_Group = grp, cc_BatchSize = 10, cc_BlockTime = 30 * 10 ^ 9, cc_MaxRetries = 3,
       cc_ClaimTimeout = 30 * 10 ^ 9 \<rparr>"

definition EnsureConsumerGroup :: "string \<Rightarrow> string \<Rightarrow> go_error option \<Rightarrow> go_error option" where
  "EnsureConsumerGroup stream grp reply =
     (case reply of
        None \<Rightarrow> None
      | Some err \<Rightarrow>
          if Error_text err = ''BUSYGROUP Consumer Group name already exists'' then None
          else Some (Wrap (''create consumer group '' @ grp @ '' on '' @ stream) err))"

type_synonym 'w handler = "string \<Rightarrow> string \<Rightarrow> 'w \<Rightarrow> go_error option \<times> 'w"

text \<open>
  \<open>sc_hand\<close> holds the messages that a consumer has read and not yet handled, \<open>sc_done\<close> the outcomes of the handler in the
  order of its calls.
\<close>

record 'w consumers =
  sc_entries :: "stream_message list"
  sc_last :: nat
  sc_pending :: "(nat \<times> string) list"
  sc_hand :: "string \<Rightarrow> stream_message list"
  sc_world :: 'w
  sc_done :: "(nat \<times> bool) list"

definition stringValue :: "stream_message \<Rightarrow> string \<Rightarrow> string" where
  "stringValue msg k = (case map_of (sm_Values msg) k of Some v \<Rightarrow> v | None \<Rightarrow> [])"

text \<open>\<^verbatim>\<open>XREADGROUP\<close> with the identifier \<^verbatim>\<open>>\<close> gives the next entries that no consumer of the group has been given.\<close>

definition undelivered :: "'w consumers \<Rightarrow> stream_message list" where
  "undelivered s = filter (\<lambda>m. sc_last s < sm_ID m) (sc_entries s)"

definition readGroup :: "ConsumerConfig \<Rightarrow> string \<Rightarrow> 'w consumers \<Rightarrow> 'w consumers" where
  "readGroup cfg consumer s =
     (let msgs = take (cc_BatchSize cfg) (undelivered s) in
      if msgs = [] then s
      else s \<lparr> sc_last := sm_ID (last msgs), sc_pending := sc_pending s @ map (\<lambda>m. (sm_ID m, consumer)) msgs,
               sc_hand := (sc_hand s)(consumer := msgs) \<rparr>)"

definition ack :: "nat \<Rightarrow> 'w consumers \<Rightarrow> 'w consumers" where
  "ack i s = s \<lparr> sc_pending := filter (\<lambda>p. fst p \<noteq> i) (sc_pending s) \<rparr>"

text \<open>The body of the loop of \<^verbatim>\<open>processStreams\<close>; \<open>acked\<close> tells whether the acknowledgement reaches Redis.\<close>

definition processMessage :: "'w handler \<Rightarrow> bool \<Rightarrow> stream_message \<Rightarrow> 'w consumers \<Rightarrow> 'w consumers" where
  "processMessage handler acked msg s =
     (case handler (stringValue msg ''tenant_id'') (stringValue msg ''data'') (sc_world s) of
        (Some err, w) \<Rightarrow> s \<lparr> sc_world := w, sc_done := sc_done s @ [(sm_ID msg, False)] \<rparr>
      | (None, w) \<Rightarrow>
          (let s' = s \<lparr> sc_world := w, sc_done := sc_done s @ [(sm_ID msg, True)] \<rparr> in
           if acked then ack (sm_ID msg) s' else s'))"

inductive consumer_step :: "ConsumerConfig \<Rightarrow> 'w handler \<Rightarrow> 'w consumers \<Rightarrow> 'w consumers \<Rightarrow> bool"
  for cfg handler where
  publish: "\<forall>m \<in> set (sc_entries s). sm_ID m < sm_ID new \<Longrightarrow> sc_last s < sm_ID new \<Longrightarrow>
    consumer_step cfg handler s (s \<lparr> sc_entries := sc_entries s @ [new] \<rparr>)"
| trim: "consumer_step cfg handler s (s \<lparr> sc_entries := drop n (sc_entries s) \<rparr>)"
| outside: "consumer_step cfg handler s (s \<lparr> sc_world := w \<rparr>)"
| read: "sc_hand s c = [] \<Longrightarrow> consumer_step cfg handler s (readGroup cfg c s)"
| process: "sc_hand s c = msg # msgs \<Longrightarrow>
    consumer_step cfg handler s (processMessage handler acked msg (s \<lparr> sc_hand := (sc_hand s)(c := msgs) \<rparr>))"
| crash: "consumer_step cfg handler s (s \<lparr> sc_hand := (sc_hand s)(c := []) \<rparr>)"

inductive_cases consumer_stepE: "consumer_step cfg handler s s'"

definition consumers_start :: "'w \<Rightarrow> 'w consumers" where
  "consumers_start w =
     \<lparr> sc_entries = [], sc_last = 0, sc_pending = [], sc_hand = \<lambda>_. [], sc_world = w, sc_done = [] \<rparr>"

subsection \<open>Every message is handled at most once\<close>

text \<open>What has been handed out is handled or in one hand, is not handed out again, and is pending unless acknowledged.\<close>

abbreviation handledIds :: "'w consumers \<Rightarrow> nat set" where
  "handledIds s \<equiv> fst ` set (sc_done s)"

abbreviation pendingIds :: "'w consumers \<Rightarrow> nat set" where
  "pendingIds s \<equiv> fst ` set (sc_pending s)"

abbreviation handIds :: "'w consumers \<Rightarrow> string \<Rightarrow> nat set" where
  "handIds s c \<equiv> sm_ID ` set (sc_hand s c)"

definition hand_ok :: "'w consumers \<Rightarrow> string \<Rightarrow> bool" where
  "hand_ok s c \<longleftrightarrow> distinct (map sm_ID (sc_hand s c)) \<and> handIds s c \<subseteq> {..sc_last s} \<inter> pendingIds s - handledIds s"

definition consumers_ok :: "'w consumers \<Rightarrow> bool" where
  "consumers_ok s \<longleftrightarrow>
     sorted_wrt (<) (map sm_ID (sc_entries s)) \<and> distinct (map fst (sc_done s)) \<and> handledIds s \<subseteq> {..sc_last s} \<and>
     (\<forall>c. hand_ok s c) \<and> (\<forall>c c'. c \<noteq> c' \<longrightarrow> handIds s c \<inter> handIds s c' = {}) \<and>
     {i. (i, False) \<in> set (sc_done s)} \<subseteq> pendingIds s"

lemma consumers_start_ok: "consumers_ok (consumers_start w)"
  by (simp add: consumers_ok_def hand_ok_def consumers_start_def)

lemma sorted_le_last: "sorted_wrt (<) (xs :: nat list) \<Longrightarrow> x \<in> set xs \<Longrightarrow> x \<le> last xs"
  by (induction xs) (auto simp: order.strict_implies_order)

lemma readGroup_ok:
  assumes ok: "consumers_ok s" and idle: "sc_hand s c = []"
  shows "consumers_ok (readGroup cfg c s)"
proof (cases "take (cc_BatchSize cfg) (undelivered s) = []")
  case False
  define msgs where "msgs = take (cc_BatchSize cfg) (undelivered s)"
  define s' where "s' = s \<lparr> sc_last := sm_ID (last msgs), sc_pending := sc_pending s @ map (\<lambda>m. (sm_ID m, c)) msgs,
               sc_hand := (sc_hand s)(c := msgs) \<rparr>"
  have sorted: "sorted_wrt (<) (map sm_ID msgs)"
    using ok by (simp add: msgs_def undelivered_def consumers_ok_def sorted_wrt_map sorted_wrt_take sorted_wrt_filter)
  have ne: "msgs \<noteq> []" using False by (simp add: msgs_def)
  have new: "\<forall>m \<in> set msgs. sc_last s < sm_ID m"
    by (auto simp: msgs_def undelivered_def dest: in_set_takeD)
  have upto: "\<forall>m \<in> set msgs. sm_ID m \<le> sm_ID (last msgs)"
    using sorted_le_last [OF sorted] ne by (simp add: last_map)
  have dist: "distinct (map sm_ID msgs)"
    using sorted by (simp add: strict_sorted_iff)
  have le: "sc_last s < sm_ID (last msgs)"
    using new ne by simp
  have before: "handIds s e \<subseteq> {..sc_last s} \<inter> pendingIds s - handledIds s" "distinct (map sm_ID (sc_hand s e))" for e
    using ok by (simp_all add: consumers_ok_def hand_ok_def)
  have done_: "handledIds s \<subseteq> {..sc_last s}" using ok by (simp add: consumers_ok_def)
  have pending': "pendingIds s' = pendingIds s \<union> sm_ID ` set msgs"
    by (simp add: s'_def image_Un image_image)
  have fresh: "sm_ID ` set msgs \<inter> {..sc_last s} = {}" using new by auto
  have hand: "hand_ok s' d" for d
  proof (cases "d = c")
    case True
    have "sm_ID ` set msgs \<subseteq> {..sm_ID (last msgs)}" using upto by auto
    moreover have "sm_ID ` set msgs \<inter> handledIds s = {}" using fresh done_ by blast
    ultimately show ?thesis
      using True dist pending' by (auto simp: hand_ok_def s'_def)
  next
    case False
    have "handIds s d \<subseteq> {..sm_ID (last msgs)}"
      using before(1) [of d] le by auto
    then show ?thesis
      unfolding hand_ok_def pending' using False before [of d] by (simp add: s'_def) blast
  qed
  have apart: "handIds s' d \<inter> handIds s' d' = {}" if "d \<noteq> d'" for d d'
  proof -
    have "handIds s d \<inter> handIds s d' = {}"
      using ok that by (simp add: consumers_ok_def)
    moreover have "handIds s e \<inter> sm_ID ` set msgs = {}" for e
      using fresh before(1) [of e] by blast
    ultimately show ?thesis
      using that by (simp add: s'_def Int_commute)
  qed
  have "readGroup cfg c s = s'"
    using ne by (simp add: readGroup_def msgs_def s'_def Let_def)
  moreover have "consumers_ok s'"
    unfolding consumers_ok_def
  proof (intro conjI allI impI)
    show "sorted_wrt (<) (map sm_ID (sc_entries s'))" "distinct (map fst (sc_done s'))"
      using ok by (simp_all add: consumers_ok_def s'_def)
    show "handledIds s' \<subseteq> {..sc_last s'}" using done_ le by (auto simp: s'_def)
    have "{i. (i, False) \<in> set (sc_done s)} \<subseteq> pendingIds s" using ok by (simp add: consumers_ok_def)
    then show "{i. (i, False) \<in> set (sc_done s')} \<subseteq> pendingIds s'"
      unfolding pending' by (simp add: s'_def) blast
  qed (use hand apart in auto)
  ultimately show ?thesis by simp
qed (use ok in \<open>simp add: readGroup_def Let_def\<close>)

lemma if_diff_subset: "A - (if r then X else {}) \<subseteq> B \<Longrightarrow> A - X \<subseteq> B"
  by (cases r) auto

lemma subset_without:
  "x \<notin> H' \<Longrightarrow> H' \<subseteq> H \<Longrightarrow> H \<subseteq> L \<inter> P - D \<Longrightarrow> P - {x} \<subseteq> Q \<Longrightarrow> H' \<subseteq> L \<inter> Q - insert x D"
  by auto

lemma handled_ok:
  assumes ok: "consumers_ok s" and hand: "sc_hand s c = msg # msgs"
    and p: "pendingIds s - (if r then {sm_ID msg} else {}) \<subseteq> fst ` set p"
  shows "consumers_ok (s \<lparr> sc_hand := (sc_hand s)(c := msgs), sc_world := w, sc_done := sc_done s @ [(sm_ID msg, r)], sc_pending := p \<rparr>)"
    (is "consumers_ok ?s")
proof -
  have c: "hand_ok s c" and apart: "\<And>d. d \<noteq> c \<Longrightarrow> handIds s c \<inter> handIds s d = {}"
    using ok by (auto simp: consumers_ok_def)
  have other: "sm_ID msg \<notin> handIds s d" if "d \<noteq> c" for d
    using apart [OF that] hand by auto
  have msg: "sm_ID msg \<notin> handledIds s" "sm_ID msg \<le> sc_last s" "sm_ID msg \<in> pendingIds s"
    using c hand by (simp_all add: hand_ok_def)
  have hd: "hand_ok ?s d" for d
  proof -
    have h: "hand_ok s d" using ok by (simp add: consumers_ok_def)
    have new: "sm_ID msg \<notin> handIds ?s d" and sub: "handIds ?s d \<subseteq> handIds s d" and dist: "distinct (map sm_ID (sc_hand ?s d))"
      using c h hand other [of d] by (auto simp: hand_ok_def)
    have old: "handIds s d \<subseteq> {..sc_last s} \<inter> pendingIds s - handledIds s"
      using h by (simp add: hand_ok_def)
    have eqs: "handledIds ?s = insert (sm_ID msg) (handledIds s)" "pendingIds ?s = fst ` set p" "sc_last ?s = sc_last s"
      by simp_all
    show ?thesis
      unfolding hand_ok_def eqs using dist subset_without [OF new sub old if_diff_subset [OF p]] by (rule conjI)
  qed
  have sub: "handIds ?s d \<subseteq> handIds s d" for d
    using hand by auto
  have ap: "handIds ?s d \<inter> handIds ?s d' = {}" if "d \<noteq> d'" for d d'
  proof -
    have "handIds s d \<inter> handIds s d' = {}" using ok that by (simp add: consumers_ok_def)
    then show ?thesis using sub [of d] sub [of d'] by blast
  qed
  have "{i. (i, False) \<in> set (sc_done ?s)} \<subseteq> pendingIds ?s"
  proof
    fix i assume "i \<in> {i. (i, False) \<in> set (sc_done ?s)}"
    then have "i \<in> pendingIds s \<and> (r \<longrightarrow> i \<noteq> sm_ID msg)"
      using ok msg by (auto simp: consumers_ok_def rev_image_eqI)
    then have "i \<in> pendingIds s - (if r then {sm_ID msg} else {})" by simp
    then have "i \<in> fst ` set p" using p by (rule subsetD [rotated])
    then show "i \<in> pendingIds ?s" by simp
  qed
  moreover have "distinct (map fst (sc_done ?s))" "handledIds ?s \<subseteq> {..sc_last ?s}" "sorted_wrt (<) (map sm_ID (sc_entries ?s))"
    using ok msg by (simp_all add: consumers_ok_def)
  ultimately show ?thesis
    unfolding consumers_ok_def using hd ap by (intro conjI allI impI) assumption+
qed

lemma processMessage_ok:
  assumes "consumers_ok s" "sc_hand s c = msg # msgs"
  shows "consumers_ok (processMessage handler acked msg (s \<lparr> sc_hand := (sc_hand s)(c := msgs) \<rparr>))"
proof -
  note step = handled_ok [OF assms]
  obtain e w where h: "handler (stringValue msg ''tenant_id'') (stringValue msg ''data'') (sc_world s) = (e, w)"
    by fastforce
  have "processMessage handler acked msg (s \<lparr> sc_hand := (sc_hand s)(c := msgs) \<rparr>) =
      s \<lparr> sc_hand := (sc_hand s)(c := msgs), sc_world := w, sc_done := sc_done s @ [(sm_ID msg, e = None)],
          sc_pending := if e = None \<and> acked then filter (\<lambda>p. fst p \<noteq> sm_ID msg) (sc_pending s) else sc_pending s \<rparr>"
    by (simp add: processMessage_def h ack_def Let_def split: option.splits)
  also have "consumers_ok \<dots>"
    by (rule step) auto
  finally show ?thesis .
qed

lemma consumer_step_ok: "consumer_step cfg handler s s' \<Longrightarrow> consumers_ok s \<Longrightarrow> consumers_ok s'"
proof (induction rule: consumer_step.induct)
  case (publish s new)
  then show ?case
    by (auto simp: consumers_ok_def hand_ok_def sorted_wrt_append)
next
  case (trim s n)
  then show ?case
    by (auto simp: consumers_ok_def hand_ok_def drop_map [symmetric] sorted_wrt_drop)
next
  case (outside s w)
  then show ?case
    by (simp add: consumers_ok_def hand_ok_def)
next
  case (read s c)
  then show ?case by (intro readGroup_ok)
next
  case (process s c msg msgs acked)
  then show ?case by (intro processMessage_ok)
next
  case (crash s c)
  then show ?case
    by (auto simp: consumers_ok_def hand_ok_def)
qed

lemma consumers_reachable_ok: "(consumer_step cfg handler)\<^sup>*\<^sup>* (consumers_start w) s \<Longrightarrow> consumers_ok s"
  by (induction rule: rtranclp_induct) (auto intro: consumers_start_ok consumer_step_ok)

lemma processMessage_done: "\<exists>r. sc_done (processMessage handler acked msg s) = sc_done s @ [(sm_ID msg, r)]"
  by (cases "handler (stringValue msg ''tenant_id'') (stringValue msg ''data'') (sc_world s)")
    (auto simp: processMessage_def ack_def Let_def split: option.splits)

lemma consumer_step_done: "consumer_step cfg handler s s' \<Longrightarrow> \<exists>more. sc_done s' = sc_done s @ more"
proof (induction rule: consumer_step.induct)
  case (process s c msg msgs acked)
  then show ?case
    using processMessage_done [of handler acked msg "s \<lparr> sc_hand := (sc_hand s)(c := msgs) \<rparr>"] by auto
qed (simp_all add: readGroup_def Let_def)

lemma consumer_steps_done: "(consumer_step cfg handler)\<^sup>*\<^sup>* s s' \<Longrightarrow> \<exists>more. sc_done s' = sc_done s @ more"
  by (induction rule: rtranclp_induct) (auto dest: consumer_step_done)


text \<open>A handler that refuses its message, with one consumer that later reads again.\<close>

definition failing_handler :: "unit handler" where
  "failing_handler tenantID data w = (Some (Plain ''unmarshal breach''), w)"

definition after_read :: "unit consumers" where
  "after_read =
     readGroup (DefaultConsumerConfig ''agent:alert'' ''alert-workers'') ''alert-0''
       ((consumers_start ()) \<lparr> sc_entries := [\<lparr> sm_ID = 1, sm_Values = [] \<rparr>] \<rparr>)"

definition after_failure :: "unit consumers" where
  "after_failure =
     processMessage failing_handler True \<lparr> sm_ID = 1, sm_Values = [] \<rparr>
       (after_read \<lparr> sc_hand := (sc_hand after_read)(''alert-0'' := []) \<rparr>)"

lemma after_failure_reachable:
  "(consumer_step (DefaultConsumerConfig ''agent:alert'' ''alert-workers'') failing_handler)\<^sup>*\<^sup>* (consumers_start ()) after_failure"
proof -
  let ?cfg = "DefaultConsumerConfig ''agent:alert'' ''alert-workers''" and ?m = "\<lparr> sm_ID = 1, sm_Values = [] \<rparr> :: stream_message"
  let ?s1 = "(consumers_start ()) \<lparr> sc_entries := [?m] \<rparr>"
  have 1: "consumer_step ?cfg failing_handler (consumers_start ()) ?s1"
    using consumer_step.publish [of "consumers_start ()" ?m ?cfg failing_handler] by (simp add: consumers_start_def)
  have 2: "consumer_step ?cfg failing_handler ?s1 after_read"
    using consumer_step.read [of ?s1 "''alert-0''"] by (simp add: after_read_def consumers_start_def)
  have "sc_hand after_read ''alert-0'' = [?m]"
    by (simp add: after_read_def readGroup_def undelivered_def DefaultConsumerConfig_def consumers_start_def Let_def)
  then have 3: "consumer_step ?cfg failing_handler after_read after_failure"
    unfolding after_failure_def by (rule consumer_step.process)
  show ?thesis using 1 2 3 by (meson converse_rtranclp_into_rtranclp rtranclp.rtrancl_refl)
qed


end
