(* ===== verification/Alert_Worker.thy ===== *)
theory Alert_Worker
  imports Alert_Store Stream_Consumer
begin

text \<open>
  The alert worker (\<^verbatim>\<open>internal/worker/alert.go\<close>): the threshold breaches of the stream \<^verbatim>\<open>agent:alert\<close>
  become alerts, unless there is a recent one for the same module and budget. \<open>parseUUID\<close> stands for \<^verbatim>\<open>uuid.Parse\<close> and \<open>parse\<close> for
  the syntax of JSON. Logging is left out.
\<close>

record AlertConfig =
  ac_Consumer :: ConsumerConfig
  ac_WorkerCount :: int
  ac_DedupeWindowMin :: int

definition DefaultAlertConfig :: "string \<Rightarrow> string \<Rightarrow> AlertConfig" where
  "DefaultAlertConfig stream grp =
     \<lparr> ac_Consumer = DefaultConsumerConfig stream grp, ac_WorkerCount = 1, ac_DedupeWindowMin = 10 \<rparr>"

text \<open>\<^verbatim>\<open>NewAlertWorker\<close>: numbers that are not positive become the defaults.\<close>

definition NewAlertWorker :: "AlertConfig \<Rightarrow> AlertConfig" where
  "NewAlertWorker cfg =
     cfg \<lparr> ac_WorkerCount := if ac_WorkerCount cfg \<le> 0 then 1 else ac_WorkerCount cfg,
           ac_DedupeWindowMin := if ac_DedupeWindowMin cfg \<le> 0 then 10 else ac_DedupeWindowMin cfg \<rparr>"

record ThresholdBreach =
  tb_TenantID :: string
  tb_EnvID :: string
  tb_BudgetID :: string
  tb_Module :: string
  tb_Endpoint :: string
  tb_OverheadPct :: go_float
  tb_ThresholdPct :: int
  tb_TotalMS :: int
  tb_ModuleMS :: int
  tb_Breakdown :: json

definition zeroBreach :: ThresholdBreach where
  "zeroBreach =
     \<lparr> tb_TenantID = [], tb_EnvID = [], tb_BudgetID = [], tb_Module = [], tb_Endpoint = [], tb_OverheadPct = Fin 0,
       tb_ThresholdPct = 0, tb_TotalMS = 0, tb_ModuleMS = 0, tb_Breakdown = JNull \<rparr>"

definition breachFields :: "(string \<times> ThresholdBreach setter) list" where
  "breachFields =
     [(''tenant_id'', setString (\<lambda>x. tb_TenantID_update (\<lambda>_. x))),
      (''env_id'', setString (\<lambda>x. tb_EnvID_update (\<lambda>_. x))),
      (''budget_id'', setString (\<lambda>x. tb_BudgetID_update (\<lambda>_. x))),
      (''module'', setString (\<lambda>x. tb_Module_update (\<lambda>_. x))),
      (''endpoint'', setString (\<lambda>x. tb_Endpoint_update (\<lambda>_. x))),
      (''overhead_pct'', setFloat (\<lambda>x. tb_OverheadPct_update (\<lambda>_. x))),
      (''threshold_pct'', setInt 32 (\<lambda>x. tb_ThresholdPct_update (\<lambda>_. x))),
      (''total_ms'', setInt 64 (\<lambda>x. tb_TotalMS_update (\<lambda>_. x))),
      (''module_ms'', setInt 64 (\<lambda>x. tb_ModuleMS_update (\<lambda>_. x))),
      (''breakdown'', setRaw (\<lambda>x. tb_Breakdown_update (\<lambda>_. x)))]"

definition classifySeverity :: "go_float \<Rightarrow> go_float \<Rightarrow> string" where
  "classifySeverity overheadPct thresholdPct =
     (let limit = fmul thresholdPct (Fin (3 / 2)) in
      if fless (Fin 0) thresholdPct \<and> (fless limit overheadPct \<or> feq overheadPct limit) then ''critical''
      else ''warning'')"

definition breachMessage :: "ThresholdBreach \<Rightarrow> string" where
  "breachMessage b =
     ''Module '' @ [CHR 0x27] @ tb_Module b @ [CHR 0x27] @ '' exceeded performance budget: '' @ fmtFixed 1 (tb_OverheadPct b) @
     ''% overhead (threshold: '' @ Itoa (tb_ThresholdPct b) @ ''%)''"

definition breachMetadata :: "ThresholdBreach \<Rightarrow> go_error + json" where
  "breachMetadata b =
     (case marshalFloat (tb_OverheadPct b) of
        Inl e \<Rightarrow> Inl e
      | Inr pct \<Rightarrow>
          (case marshalFloat (fsub (tb_OverheadPct b) (float64_of_int (tb_ThresholdPct b))) of
             Inl e \<Rightarrow> Inl e
           | Inr over \<Rightarrow>
               Inr (JObject
                 [(''breakdown'', tb_Breakdown b), (''budget_id'', JString (tb_BudgetID b)), (''endpoint'', JString (tb_Endpoint b)),
                  (''exceeded_by'', over), (''module'', JString (tb_Module b)), (''module_ms'', JInt (tb_ModuleMS b)),
                  (''overhead_pct'', pct), (''threshold_pct'', JInt (tb_ThresholdPct b)), (''total_ms'', JInt (tb_TotalMS b))])))"

definition dedupeKey :: "ThresholdBreach \<Rightarrow> (string \<times> string) list" where
  "dedupeKey b = [(''budget_id'', tb_BudgetID b), (''module'', tb_Module b)]"

record alert_worker =
  aw_parseUUID :: "string \<Rightarrow> go_error + string"
  aw_parse :: "string \<Rightarrow> json option"
  aw_config :: AlertConfig

text \<open>What the database gives to one call: faults, identifiers, and the times of the check and of the transaction.\<close>

record alert_call =
  ak_fault :: faults
  ak_ids :: "string \<times> (string \<Rightarrow> string)"
  ak_checkTime :: int
  ak_txTime :: int

definition decodeBreach :: "alert_worker \<Rightarrow> string \<Rightarrow> go_error + ThresholdBreach" where
  "decodeBreach W data = Unmarshal breachFields (aw_parse W data) zeroBreach"

definition raiseAlert ::
  "alert_call \<Rightarrow> string \<Rightarrow> string \<Rightarrow> ThresholdBreach \<Rightarrow> alert_db \<Rightarrow> go_error option \<times> alert_db" where
  "raiseAlert c tid envID b d =
     (case breachMetadata b of
        Inl e \<Rightarrow> (Some (Wrap ''marshal alert metadata'' e), d)
      | Inr meta \<Rightarrow>
          (case CreateAlertWithDeliveryTx (ak_fault c) (ak_ids c) (ak_txTime c)
                  \<lparr> cp_EnvID = envID, cp_TenantID = tid, cp_Type = ''budget_exceeded'',
                    cp_Severity = classifySeverity (tb_OverheadPct b) (float64_of_int (tb_ThresholdPct b)),
                    cp_Message = breachMessage b, cp_Metadata = meta \<rparr> d of
             (Inl e, d') \<Rightarrow> (Some (Wrap ''create alert'' e), d')
           | (Inr _, d') \<Rightarrow> (None, d')))"

definition processBreach :: "alert_worker \<Rightarrow> alert_call \<Rightarrow> string \<Rightarrow> string \<Rightarrow> alert_db \<Rightarrow> go_error option \<times> alert_db" where
  "processBreach W c tenantID data d =
     (case aw_parseUUID W tenantID of
        Inl e \<Rightarrow> (Some (Wrap (''invalid tenant_id '' @ quoted tenantID) e), d)
      | Inr tid \<Rightarrow>
          case decodeBreach W data of
            Inl e \<Rightarrow> (Some (Wrap ''unmarshal breach'' e), d)
          | Inr b \<Rightarrow>
              case aw_parseUUID W (tb_EnvID b) of
                Inl e \<Rightarrow> (Some (Wrap (''invalid env_id '' @ quoted (tb_EnvID b)) e), d)
              | Inr envID \<Rightarrow>
                  (case HasRecentAlert (ak_fault c) (ak_checkTime c) envID ''budget_exceeded'' (dedupeKey b)
                          (ac_DedupeWindowMin (aw_config W)) d of
                     Inr True \<Rightarrow> (None, d)
                   | _ \<Rightarrow> raiseAlert c tid envID b d))"

text \<open>One worker handles its messages one after the other.\<close>

fun processBreaches :: "alert_worker \<Rightarrow> (alert_call \<times> string \<times> string) list \<Rightarrow> alert_db \<Rightarrow> alert_db" where
  "processBreaches W [] d = d"
| "processBreaches W ((c, tenantID, data) # ms) d = processBreaches W ms (snd (processBreach W c tenantID data d))"

subsection \<open>Publishing a breach\<close>

definition marshalBreach :: "ThresholdBreach \<Rightarrow> go_error + json" where
  "marshalBreach b =
     (case marshalFloat (tb_OverheadPct b) of
        Inl e \<Rightarrow> Inl e
      | Inr pct \<Rightarrow>
          Inr (JObject
            ([(''tenant_id'', JString (tb_TenantID b)), (''env_id'', JString (tb_EnvID b)), (''budget_id'', JString (tb_BudgetID b)),
              (''module'', JString (tb_Module b)), (''endpoint'', JString (tb_Endpoint b)), (''overhead_pct'', pct),
              (''threshold_pct'', JInt (tb_ThresholdPct b)), (''total_ms'', JInt (tb_TotalMS b)), (''module_ms'', JInt (tb_ModuleMS b))] @
             (if tb_Breakdown b = JNull then [] else [(''breakdown'', tb_Breakdown b)]))))"

text \<open>\<open>print\<close> writes a JSON value; the entry gets its identifier from Redis, and the length of the stream is bounded by trimming.\<close>

definition PublishThresholdBreach :: "(json \<Rightarrow> string) \<Rightarrow> ThresholdBreach \<Rightarrow> go_error + (string, string) gomap" where
  "PublishThresholdBreach print b =
     (case marshalBreach b of
        Inl e \<Rightarrow> Inl (Wrap ''marshal breach'' e)
      | Inr v \<Rightarrow> Inr [(''tenant_id'', tb_TenantID b), (''data'', print v)])"

subsection \<open>Alerts of one breach are a window apart\<close>

definition sameBreach :: "alert_row \<Rightarrow> alert_row \<Rightarrow> bool" where
  "sameBreach a b \<longleftrightarrow> al_EnvID a = al_EnvID b \<and> al_Type a = ''budget_exceeded'' \<and> al_Type b = ''budget_exceeded'' \<and>
     (case al_Metadata b of
        JObject ms \<Rightarrow>
          (case (map_of (rev ms) ''budget_id'', map_of (rev ms) ''module'') of
             (Some (JString i), Some (JString m)) \<Rightarrow> jsonContains (al_Metadata a) [(''budget_id'', i), (''module'', m)]
           | _ \<Rightarrow> False)
      | _ \<Rightarrow> False)"

definition alertsSpaced :: "int \<Rightarrow> alert_row list \<Rightarrow> bool" where
  "alertsSpaced mins = sorted_wrt (\<lambda>a b. sameBreach a b \<longrightarrow> al_CreatedAt a + minutes mins \<le> al_CreatedAt b)"

definition dedupWorks :: "alert_call \<Rightarrow> bool" where
  "dedupWorks c \<longleftrightarrow> ak_fault c ''HasRecentAlert'' = None \<and> ak_checkTime c \<le> ak_txTime c"

lemma sameBreach_dedupeKey:
  assumes "breachMetadata b = Inr (al_Metadata a)" "sameBreach x a"
  shows "al_EnvID x = al_EnvID a \<and> al_Type x = ''budget_exceeded'' \<and> jsonContains (al_Metadata x) (dedupeKey b)"
  using assms by (cases "al_Metadata a") (auto simp: breachMetadata_def sameBreach_def dedupeKey_def split: sum.splits)

lemma raiseAlert_cases:
  assumes "raiseAlert c tid envID b d = (x, d')"
  obtains "d' = d"
  | a where "ab_alerts d' = ab_alerts d @ [a]" "breachMetadata b = Inr (al_Metadata a)" "al_EnvID a = envID"
      "al_Type a = ''budget_exceeded''" "al_CreatedAt a = ak_txTime c"
proof (cases "breachMetadata b")
  case (Inr meta)
  define arg where "arg = \<lparr> cp_EnvID = envID, cp_TenantID = tid, cp_Type = ''budget_exceeded'',
      cp_Severity = classifySeverity (tb_OverheadPct b) (float64_of_int (tb_ThresholdPct b)),
      cp_Message = breachMessage b, cp_Metadata = meta \<rparr>"
  obtain y where "CreateAlertWithDeliveryTx (ak_fault c) (ak_ids c) (ak_txTime c) arg d = (y, d')"
    using assms Inr by (auto simp: raiseAlert_def arg_def split: sum.splits prod.splits)
  then show thesis
  proof (cases rule: CreateAlertWithDeliveryTx_cases)
    case 2
    show thesis
      by (rule that(2) [of "newAlert (fst (ak_ids c)) (ak_txTime c) arg"])
        (use 2 Inr in \<open>simp_all add: alertRaised_def newAlert_def arg_def\<close>)
  qed (rule that(1))
qed (use assms that in \<open>simp add: raiseAlert_def\<close>)

lemma processBreach_cases:
  assumes "processBreach W c tenantID data d = (x, d')"
  obtains "d' = d"
  | a b where "ab_alerts d' = ab_alerts d @ [a]" "breachMetadata b = Inr (al_Metadata a)"
      "al_Type a = ''budget_exceeded''" "al_CreatedAt a = ak_txTime c"
      "HasRecentAlert (ak_fault c) (ak_checkTime c) (al_EnvID a) ''budget_exceeded'' (dedupeKey b)
         (ac_DedupeWindowMin (aw_config W)) d \<noteq> Inr True"
  using assms by (auto simp: processBreach_def split: sum.splits prod.splits bool.splits elim!: raiseAlert_cases)

lemma processBreach_spaced:
  assumes "alertsSpaced (ac_DedupeWindowMin (aw_config W)) (ab_alerts d)" "dedupWorks c"
  shows "alertsSpaced (ac_DedupeWindowMin (aw_config W)) (ab_alerts (snd (processBreach W c tenantID data d)))"
proof -
  obtain x d' where step: "processBreach W c tenantID data d = (x, d')" by fastforce
  then show ?thesis
  proof (cases rule: processBreach_cases)
    case (2 a b)
    have "al_CreatedAt y + minutes (ac_DedupeWindowMin (aw_config W)) \<le> al_CreatedAt a"
      if "y \<in> set (ab_alerts d)" "sameBreach y a" for y
      using 2(4,5) sameBreach_dedupeKey [OF 2(2) that(2)] assms(2) that(1)
      by (fastforce simp: HasRecentAlert_def query_def dedupWorks_def list_ex_iff)
    then show ?thesis
      using assms(1) step 2(1) by (simp add: alertsSpaced_def sorted_wrt_append)
  qed (use assms step in simp)
qed

text \<open>
  C22: Two alerts of the same module and budget of an environment are at least the deduplication window apart, whatever messages one
  worker handles, in any order, as long as the check for recent alerts does not fail.
\<close>

theorem alert_dedup:
  assumes "alertsSpaced (ac_DedupeWindowMin (aw_config W)) (ab_alerts d)"
    and "\<forall>m \<in> set ms. dedupWorks (fst m)"
  shows "alertsSpaced (ac_DedupeWindowMin (aw_config W)) (ab_alerts (processBreaches W ms d))"
  using assms
proof (induction ms arbitrary: d)
  case (Cons m ms)
  then show ?case
    using processBreach_spaced [of W d "fst m"] by (cases m) simp
qed simp


text \<open>One breach published three times, four and twelve minutes after the first alert.\<close>

definition exampleBreach :: ThresholdBreach where
  "exampleBreach = zeroBreach \<lparr> tb_TenantID := ''t1'', tb_EnvID := ''e1'', tb_BudgetID := ''b1'', tb_Module := ''sale'' \<rparr>"

definition exampleWorker :: alert_worker where
  "exampleWorker =
     \<lparr> aw_parseUUID = Inr,
       aw_parse = (\<lambda>_. Some (JObject
         [(''tenant_id'', JString ''t1''), (''env_id'', JString ''e1''), (''budget_id'', JString ''b1''), (''module'', JString ''sale''),
          (''overhead_pct'', JInt 0), (''threshold_pct'', JInt 0)])),
       aw_config = NewAlertWorker (DefaultAlertConfig ''agent:alert'' ''alert-workers'') \<rparr>"

definition alertCallAt :: "string \<Rightarrow> int \<Rightarrow> alert_call" where
  "alertCallAt i t = \<lparr> ak_fault = \<lambda>_. None, ak_ids = (i, \<lambda>ch. i @ ch), ak_checkTime = t, ak_txTime = t \<rparr>"

definition exampleTables :: alert_db where
  "exampleTables = \<lparr> ab_envs = [(''e1'', ''t1'')], ab_alerts = [],
     ab_channels = [\<lparr> nc_ID = ''c1'', nc_TenantID = ''t1'', nc_Name = ''ops'', nc_Type = ''slack'', nc_Config = JObject [],
                      nc_IsActive = True, nc_CreatedAt = 0 \<rparr>], ab_deliveries = [] \<rparr>"

definition exampleMessages :: "(alert_call \<times> string \<times> string) list" where
  "exampleMessages =
     [(alertCallAt ''a1'' 0, ''t1'', []), (alertCallAt ''a2'' (minutes 4), ''t1'', []), (alertCallAt ''a3'' (minutes 12), ''t1'', [])]"

lemma exampleWorker_window: "ac_DedupeWindowMin (aw_config exampleWorker) = 10"
  by (simp add: exampleWorker_def NewAlertWorker_def DefaultAlertConfig_def)

lemma exampleWorker_uuid: "aw_parseUUID exampleWorker = Inr"
  by (simp add: exampleWorker_def)

lemma exampleWorker_decode: "decodeBreach exampleWorker data = Inr exampleBreach"
  by (simp add: decodeBreach_def exampleWorker_def exampleBreach_def Unmarshal_def decodeStruct_def setMember_def breachFields_def
      asciiLower_def zeroBreach_def setFloatOf_def fround_def roundRat_def finiteF_def binary64_def pow2_def)

lemma exampleBreach_metadata:
  "breachMetadata exampleBreach =
     Inr (JObject [(''breakdown'', JNull), (''budget_id'', JString ''b1''), (''endpoint'', JString []), (''exceeded_by'', JInt 0),
       (''module'', JString ''sale''), (''module_ms'', JInt 0), (''overhead_pct'', JInt 0), (''threshold_pct'', JInt 0), (''total_ms'', JInt 0)])"
  by (simp add: breachMetadata_def exampleBreach_def zeroBreach_def marshalFloat_def float64_of_int_def fround_def roundRat_def fsub_def binary64_def pow2_def)

lemma exampleBreach_fields:
  "tb_EnvID exampleBreach = ''e1''" "tb_BudgetID exampleBreach = ''b1''" "tb_Module exampleBreach = ''sale''"
  by (simp_all add: exampleBreach_def)

lemmas example_simps =
  exampleBreach_fields
  exampleWorker_window exampleWorker_uuid exampleWorker_decode exampleBreach_metadata alertCallAt_def exampleTables_def
  exampleMessages_def processBreach_def raiseAlert_def CreateAlertWithDeliveryTx_def execTx_def CreateAlert_def insertRow_def
  HasRecentAlert_def query_def ListActiveNotificationChannels_def CreateAlertDelivery_def jsonContains_def minutes_def
  dedupeKey_def Let_def

lemma example_alerts:
  "map al_CreatedAt (ab_alerts (processBreaches exampleWorker exampleMessages exampleTables)) = [0, minutes 12]"
  by (simp add: example_simps)

theorem alert_dedup_witness:
  "alertsSpaced 10 (ab_alerts (processBreaches exampleWorker exampleMessages exampleTables)) \<and>
   map al_CreatedAt (ab_alerts (processBreaches exampleWorker exampleMessages exampleTables)) = [0, minutes 12]"
  using alert_dedup [of exampleWorker exampleTables exampleMessages] example_alerts
  by (simp add: exampleWorker_window exampleTables_def alertsSpaced_def exampleMessages_def dedupWorks_def alertCallAt_def)

end
