(* ===== verification/Notification_Worker.thy ===== *)
theory Notification_Worker
  imports Alert_Store
begin

text \<open>
  The notification worker (\<^verbatim>\<open>internal/worker/notification.go\<close>): it polls the pending deliveries and sends
  each over its channel; failed ones become pending again until their attempts are used up. The network, the
  HMAC of a payload and the checks of \<^verbatim>\<open>http.NewRequest\<close> are parameters. Texts in upper case are texts of ASCII. A range over a map of
  headers takes them in the order of the document. Logging is left out.
\<close>

subsection \<open>Configuration\<close>

record NotificationConfig =
  nf_PollInterval :: int
  nf_RetryInterval :: int
  nf_BatchSize :: int
  nf_MaxAttempts :: int

definition DefaultNotificationConfig :: NotificationConfig where
  "DefaultNotificationConfig =
     \<lparr> nf_PollInterval = 30 * 10 ^ 9, nf_RetryInterval = 5 * 60 * 10 ^ 9, nf_BatchSize = 100, nf_MaxAttempts = 3 \<rparr>"

definition notificationConfig :: "NotificationConfig \<Rightarrow> NotificationConfig" where
  "notificationConfig cfg =
     \<lparr> nf_PollInterval = if nf_PollInterval cfg \<le> 0 then 30 * 10 ^ 9 else nf_PollInterval cfg,
       nf_RetryInterval = if nf_RetryInterval cfg \<le> 0 then 5 * 60 * 10 ^ 9 else nf_RetryInterval cfg,
       nf_BatchSize = if nf_BatchSize cfg \<le> 0 then 100 else nf_BatchSize cfg,
       nf_MaxAttempts = if nf_MaxAttempts cfg \<le> 0 then 3 else nf_MaxAttempts cfg \<rparr>"

subsection \<open>The channels\<close>

datatype outgoing =
    HttpRequest (Verb: string) (Url: string) (Headers: "(string \<times> string) list") (Body: json)
  | Mail (Addr: string) (Auth: "(string \<times> string \<times> string) option") (From: string) (Rcpt: string) (Text: string)

text \<open>\<open>nt_do\<close> is the answer to what is sent: an error, or the status of an HTTP response.\<close>

record net =
  nt_request :: "string \<Rightarrow> string \<Rightarrow> go_error option"
  nt_do :: "outgoing \<Rightarrow> go_error + int"
  nt_hmac :: "string \<Rightarrow> json \<Rightarrow> string"
  nt_sentAt :: string

type_synonym dispatcher = "net \<Rightarrow> pending_row \<Rightarrow> go_error option"

definition doRequest :: "string \<Rightarrow> net \<Rightarrow> outgoing \<Rightarrow> go_error option" where
  "doRequest chan net req =
     (case nt_request net (Verb req) (Url req) of
        Some e \<Rightarrow> Some (Wrap (chan @ '': build request'') e)
      | None \<Rightarrow>
          (case nt_do net req of
             Inl e \<Rightarrow> Some (Wrap (chan @ '': send'') e)
           | Inr code \<Rightarrow>
               if code < 200 \<or> 300 \<le> code then Some (Plain (chan @ '': unexpected status '' @ Itoa code)) else None))"

definition jsonHeader :: "(string \<times> string) list" where
  "jsonHeader = [(''Content-Type'', ''application/json'')]"

definition slackSend :: dispatcher where
  "slackSend net row =
     (case row of (v, ch, a) \<Rightarrow>
        case Unmarshal [(''webhook_url'', setString (\<lambda>x _. x))] (Some (nc_Config ch)) [] of
          Inl e \<Rightarrow> Some (Wrap ''invalid slack config'' e)
        | Inr url \<Rightarrow>
            if url = [] then Some (Plain ''slack: webhook_url is required'')
            else
              let text = ''['' @ map asciiUpper (al_Severity a) @ ''] *'' @ al_Type a @ ''*: '' @ al_Message a
              in doRequest ''slack'' net (HttpRequest ''POST'' url jsonHeader (JObject [(''text'', JString text)])))"

record webhookConfig =
  wc_URL :: string
  wc_Secret :: string
  wc_Method :: string
  wc_Headers :: "(string \<times> string) list"

text \<open>A member of a map from strings to strings; \<^verbatim>\<open>null\<close> is the empty string.\<close>

definition setEntry :: "string \<times> json \<Rightarrow> go_error option \<times> (string \<times> string) list \<Rightarrow> go_error option \<times> (string \<times> string) list" where
  "setEntry m st =
     (case snd m of
        JString t \<Rightarrow> (fst st, AList.update (fst m) t (snd st))
      | JNull \<Rightarrow> (fst st, AList.update (fst m) [] (snd st))
      | _ \<Rightarrow> (Some typeMismatch, snd st))"

definition setStringMap :: "((string \<times> string) list \<Rightarrow> 's \<Rightarrow> 's) \<Rightarrow> 's setter" where
  "setStringMap upd v s =
     (case v of
        JNull \<Rightarrow> (None, upd [] s)
      | JObject ms \<Rightarrow> (case fold setEntry ms (None, []) of (e, kvs) \<Rightarrow> (e, upd kvs s))
      | _ \<Rightarrow> (Some typeMismatch, s))"

definition webhookFields :: "(string \<times> webhookConfig setter) list" where
  "webhookFields =
     [(''url'', setString (\<lambda>x. wc_URL_update (\<lambda>_. x))), (''secret'', setString (\<lambda>x. wc_Secret_update (\<lambda>_. x))),
      (''method'', setString (\<lambda>x. wc_Method_update (\<lambda>_. x))), (''headers'', setStringMap (\<lambda>x. wc_Headers_update (\<lambda>_. x)))]"

text \<open>\<^verbatim>\<open>Header.Set\<close> writes the first letter of a name and those after a hyphen in upper case, if the name is a token.\<close>

definition tokenChar :: "char \<Rightarrow> bool" where
  "tokenChar c \<longleftrightarrow>
     (let n = of_char c :: nat in
      48 \<le> n \<and> n \<le> 57 \<or> 65 \<le> n \<and> n \<le> 90 \<or> 97 \<le> n \<and> n \<le> 122 \<or> n \<in> {33, 35, 36, 37, 38, 39, 42, 43, 45, 46, 94, 95, 96, 124, 126})"

fun canonicalFrom :: "bool \<Rightarrow> string \<Rightarrow> string" where
  "canonicalFrom up [] = []"
| "canonicalFrom up (c # s) = (if up then asciiUpper c else asciiLower c) # canonicalFrom (c = CHR ''-'') s"

definition canonicalKey :: "string \<Rightarrow> string" where
  "canonicalKey k = (if list_all tokenChar k then canonicalFrom True k else k)"

definition setHeader :: "string \<times> string \<Rightarrow> (string \<times> string) list \<Rightarrow> (string \<times> string) list" where
  "setHeader kv hs = AList.update (canonicalKey (fst kv)) (snd kv) hs"

definition webhookSend :: dispatcher where
  "webhookSend net row =
     (case row of (v, ch, a) \<Rightarrow>
        case Unmarshal webhookFields (Some (nc_Config ch)) \<lparr> wc_URL = [], wc_Secret = [], wc_Method = [], wc_Headers = [] \<rparr> of
          Inl e \<Rightarrow> Some (Wrap ''invalid webhook config'' e)
        | Inr cfg \<Rightarrow>
            if wc_URL cfg = [] then Some (Plain ''webhook: url is required'')
            else
              let verb = (if wc_Method cfg = [] then ''POST'' else map asciiUpper (wc_Method cfg));
                  payload = JObject
                    [(''alert_message'', JString (al_Message a)), (''alert_metadata'', al_Metadata a),
                     (''alert_severity'', JString (al_Severity a)), (''alert_type'', JString (al_Type a)),
                     (''delivery_id'', JString (ad_ID v)), (''sent_at'', JString (nt_sentAt net))];
                  signed = (if wc_Secret cfg = [] then jsonHeader
                            else setHeader (''X-Signature-SHA256'', nt_hmac net (wc_Secret cfg) payload) jsonHeader)
              in doRequest ''webhook'' net (HttpRequest verb (wc_URL cfg) (fold setHeader (wc_Headers cfg) signed) payload))"

record emailConfig =
  ec_Host :: string
  ec_Port :: int
  ec_Username :: string
  ec_Password :: string
  ec_From :: string
  ec_To :: string

definition emailFields :: "(string \<times> emailConfig setter) list" where
  "emailFields =
     [(''host'', setString (\<lambda>x. ec_Host_update (\<lambda>_. x))), (''port'', setInt 64 (\<lambda>x. ec_Port_update (\<lambda>_. x))),
      (''username'', setString (\<lambda>x. ec_Username_update (\<lambda>_. x))), (''password'', setString (\<lambda>x. ec_Password_update (\<lambda>_. x))),
      (''from'', setString (\<lambda>x. ec_From_update (\<lambda>_. x))), (''to'', setString (\<lambda>x. ec_To_update (\<lambda>_. x)))]"

definition crlf :: string where
  "crlf = [CHR 0x0D, CHR 0x0A]"

definition emailSend :: dispatcher where
  "emailSend net row =
     (case row of (v, ch, a) \<Rightarrow>
        case Unmarshal emailFields (Some (nc_Config ch))
               \<lparr> ec_Host = [], ec_Port = 0, ec_Username = [], ec_Password = [], ec_From = [], ec_To = [] \<rparr> of
          Inl e \<Rightarrow> Some (Wrap ''invalid email config'' e)
        | Inr cfg \<Rightarrow>
            if ec_Host cfg = [] \<or> ec_To cfg = [] \<or> ec_From cfg = [] then Some (Plain ''email: host, from and to are required'')
            else
              let port = (if ec_Port cfg \<le> 0 then 587 else ec_Port cfg);
                  subject = ''['' @ map asciiUpper (al_Severity a) @ ''] OdooDevTools Alert: '' @ al_Type a;
                  body = ''Alert: '' @ al_Type a @ [CHR 0x0A] @ ''Severity: '' @ al_Severity a @ [CHR 0x0A] @
                         ''Message: '' @ al_Message a @ [CHR 0x0A];
                  text = ''From: '' @ ec_From cfg @ crlf @ ''To: '' @ ec_To cfg @ crlf @ ''Subject: '' @ subject @ crlf @ crlf @ body;
                  auth = (if ec_Username cfg = [] then None else Some (ec_Username cfg, ec_Password cfg, ec_Host cfg))
              in (case nt_do net (Mail (ec_Host cfg @ '':'' @ Itoa port) auth (ec_From cfg) (ec_To cfg) text) of
                    Inl e \<Rightarrow> Some (Wrap ''email: send'' e)
                  | Inr _ \<Rightarrow> None))"

definition builtinDispatchers :: "(string \<times> dispatcher) list" where
  "builtinDispatchers = [(''slack'', slackSend), (''webhook'', webhookSend), (''email'', emailSend)]"

record notification_worker =
  nw_dispatchers :: "string \<Rightarrow> dispatcher option"
  nw_config :: NotificationConfig

text \<open>\<^verbatim>\<open>NewNotificationWorker\<close>: a later dispatcher of the same type replaces an earlier one.\<close>

definition NewNotificationWorker :: "NotificationConfig \<Rightarrow> (string \<times> dispatcher) list \<Rightarrow> notification_worker" where
  "NewNotificationWorker cfg extra =
     \<lparr> nw_dispatchers = map_of (rev (builtinDispatchers @ extra)), nw_config = notificationConfig cfg \<rparr>"

subsection \<open>Delivering\<close>

text \<open>
  What a run of the worker meets: the answers of the network for each delivery, the faults and the clock of the database, and
  whether the context is still alive when a delivery is reached.
\<close>

record round =
  rd_net :: "string \<Rightarrow> net"
  rd_fault :: faults
  rd_now :: int
  rd_alive :: "string \<Rightarrow> bool"

text \<open>The tables, and the calls of \<^verbatim>\<open>Send\<close> in their order with whether they succeeded.\<close>

type_synonym notified = "alert_db \<times> (string \<times> bool) list"

definition markFailed :: "round \<Rightarrow> string \<Rightarrow> string \<Rightarrow> alert_db \<Rightarrow> alert_db" where
  "markFailed r vid reason d = snd (MarkDeliveryFailed (rd_fault r) vid reason d)"

definition dispatch :: "notification_worker \<Rightarrow> round \<Rightarrow> pending_row \<Rightarrow> notified \<Rightarrow> notified" where
  "dispatch W r row s =
     (case s of (d, sent) \<Rightarrow>
        let vid = ad_ID (fst row); chan = nc_Type (fst (snd row)) in
        case nw_dispatchers W chan of
          None \<Rightarrow> (markFailed r vid (''unknown channel type: '' @ chan) d, sent)
        | Some send \<Rightarrow>
            (case send (rd_net r vid) row of
               Some err \<Rightarrow> (markFailed r vid (Error_text err) d, sent @ [(vid, False)])
             | None \<Rightarrow> (snd (MarkDeliverySent (rd_fault r) (rd_now r) vid d), sent @ [(vid, True)])))"

fun dispatchAll :: "notification_worker \<Rightarrow> round \<Rightarrow> pending_row list \<Rightarrow> notified \<Rightarrow> notified" where
  "dispatchAll W r [] s = s"
| "dispatchAll W r (row # rows) s =
     (if rd_alive r (ad_ID (fst row)) then dispatchAll W r rows (dispatch W r row s) else s)"

definition deliverPending :: "notification_worker \<Rightarrow> round \<Rightarrow> notified \<Rightarrow> notified" where
  "deliverPending W r s =
     (case ListPendingDeliveries (rd_fault r) (nat (nf_BatchSize (nw_config W))) (fst s) of
        Inl _ \<Rightarrow> s
      | Inr rows \<Rightarrow> dispatchAll W r rows s)"

definition resetRetryable :: "notification_worker \<Rightarrow> round \<Rightarrow> notified \<Rightarrow> notified" where
  "resetRetryable W r s =
     (snd (RetryFailedDeliveries (rd_fault r) (rd_now r) (nf_MaxAttempts (nw_config W)) (fst s)), snd s)"

text \<open>The loop of \<^verbatim>\<open>Run\<close> does the two in the order of its tickers; alerts are raised in between.\<close>

datatype notification_event =
    Poll round
  | Retry round
  | Raise faults "string \<times> (string \<Rightarrow> string)" int CreateAlertWithDeliveryParams

fun notificationStep :: "notification_worker \<Rightarrow> notification_event \<Rightarrow> notified \<Rightarrow> notified" where
  "notificationStep W (Poll r) s = deliverPending W r s"
| "notificationStep W (Retry r) s = resetRetryable W r s"
| "notificationStep W (Raise fault ids now arg) s = (snd (CreateAlertWithDeliveryTx fault ids now arg (fst s)), snd s)"

definition notificationRun :: "notification_worker \<Rightarrow> notification_event list \<Rightarrow> notified \<Rightarrow> notified" where
  "notificationRun W es s = fold (notificationStep W) es s"

subsection \<open>How often a delivery is sent\<close>

definition sendsOf :: "string \<Rightarrow> (string \<times> bool) list \<Rightarrow> bool list" where
  "sendsOf vid sent = map snd (filter (\<lambda>x. fst x = vid) sent)"

text \<open>
  \<open>delivery_ok m bs v\<close>: of a delivery that has been sent with the outcomes \<open>bs\<close>, with at most \<open>m\<close> attempts: all but the
  last failed, a success makes it \<^verbatim>\<open>sent\<close> for good, and every failure has raised its attempt number, which starts at 1.
\<close>

definition delivery_ok :: "int \<Rightarrow> bool list \<Rightarrow> delivery_row \<Rightarrow> bool" where
  "delivery_ok m bs v \<longleftrightarrow>
     1 \<le> ad_Attempt v \<and>
     (if ad_Status v = ''pending'' then
        bs = replicate (length bs) False \<and> int (length bs) < ad_Attempt v \<and> (ad_Attempt v = 1 \<or> ad_Attempt v < m)
      else if ad_Status v = ''failed'' then
        bs = replicate (length bs) False \<and> int (length bs) < ad_Attempt v \<and> ad_Attempt v \<le> max 2 m
      else
        bs = replicate (length bs - 1) False @ [True] \<and> int (length bs) \<le> ad_Attempt v \<and> (ad_Attempt v = 1 \<or> ad_Attempt v < m))"

definition notified_ok :: "int \<Rightarrow> notified \<Rightarrow> bool" where
  "notified_ok m s \<longleftrightarrow>
     alert_keys (fst s) \<and> fst ` set (snd s) \<subseteq> ad_ID ` set (ab_deliveries (fst s)) \<and>
     (\<forall>v \<in> set (ab_deliveries (fst s)). delivery_ok m (sendsOf (ad_ID v) (snd s)) v)"

text \<open>The marks of a round reach the database.\<close>

definition marksWork :: "round \<Rightarrow> bool" where
  "marksWork r \<longleftrightarrow> (\<forall>vid. rd_fault r (''MarkDeliverySent '' @ vid) = None \<and> rd_fault r (''MarkDeliveryFailed '' @ vid) = None)"

definition roundWorks :: "notification_event \<Rightarrow> bool" where
  "roundWorks e = (case e of Poll r \<Rightarrow> marksWork r | _ \<Rightarrow> True)"

lemma sendsOf_append: "sendsOf vid (sent @ ext) = sendsOf vid sent @ sendsOf vid ext"
  by (simp add: sendsOf_def)

lemma sendsOf_one: "sendsOf vid [(w, b)] = (if w = vid then [b] else [])"
  by (simp add: sendsOf_def)

lemma sendsOf_new: "vid \<notin> fst ` set sent \<Longrightarrow> sendsOf vid sent = []"
  by (auto simp: sendsOf_def filter_empty_conv)

lemma updateDelivery_rows:
  "v' \<in> set (ab_deliveries (updateDelivery vid f d)) \<Longrightarrow>
   \<exists>v \<in> set (ab_deliveries d). v' = (if ad_ID v = vid then f v else v)"
  by (auto simp: updateDelivery_def)

lemma updateDelivery_ids:
  "(\<And>v. ad_ID (f v) = ad_ID v) \<Longrightarrow> map ad_ID (ab_deliveries (updateDelivery vid f d)) = map ad_ID (ab_deliveries d)"
  by (simp add: updateDelivery_def)

lemma updateDelivery_tables:
  "ab_alerts (updateDelivery vid f d) = ab_alerts d" "ab_channels (updateDelivery vid f d) = ab_channels d"
  by (simp_all add: updateDelivery_def)

text \<open>An update of one delivery with at most one more send of it.\<close>

lemma notified_ok_update:
  assumes ok: "notified_ok m (d, sent)" and v: "v \<in> set (ab_deliveries d)"
    and f: "\<And>v. ad_ID (f v) = ad_ID v" and ext: "fst ` set ext \<subseteq> {ad_ID v}"
    and new: "delivery_ok m (sendsOf (ad_ID v) sent @ sendsOf (ad_ID v) ext) (f v)"
  shows "notified_ok m (updateDelivery (ad_ID v) f d, sent @ ext)"
proof -
  let ?d = "updateDelivery (ad_ID v) f d"
  have ids: "map ad_ID (ab_deliveries ?d) = map ad_ID (ab_deliveries d)"
    by (rule updateDelivery_ids [OF f])
  have dist: "distinct (map ad_ID (ab_deliveries d))" using ok by (simp add: notified_ok_def alert_keys_def)
  have "delivery_ok m (sendsOf (ad_ID v') (sent @ ext)) v'" if v': "v' \<in> set (ab_deliveries ?d)" for v'
  proof -
    obtain w where w: "w \<in> set (ab_deliveries d)" and eq: "v' = (if ad_ID w = ad_ID v then f w else w)"
      using updateDelivery_rows [OF v'] by blast
    show ?thesis
    proof (cases "ad_ID w = ad_ID v")
      case True
      then have "w = v" using dist w v by (auto simp: distinct_map dest: inj_onD)
      then show ?thesis using eq new f by (simp add: sendsOf_append)
    next
      case False
      have "sendsOf (ad_ID w) ext = []" using False ext by (intro sendsOf_new) auto
      then show ?thesis
        using eq False ok w by (simp add: sendsOf_append notified_ok_def alert_keys_def)
    qed
  qed
  moreover have "ad_ID ` set (ab_deliveries ?d) = ad_ID ` set (ab_deliveries d)"
    using ids by (metis image_set)
  moreover have "ad_ID v \<in> ad_ID ` set (ab_deliveries d)" using v by simp
  ultimately show ?thesis
    using ok ext ids by (auto simp: notified_ok_def alert_keys_def updateDelivery_tables)
qed

lemma dispatch_ok:
  assumes ok: "notified_ok m (d, sent)" and v: "v \<in> set (ab_deliveries d)" and pending: "ad_Status v = ''pending''"
    and marks: "marksWork r"
  shows "\<exists>f ext. dispatch W r (v, ca) (d, sent) = (updateDelivery (ad_ID v) f d, sent @ ext) \<and>
           notified_ok m (updateDelivery (ad_ID v) f d, sent @ ext) \<and> (\<forall>v. ad_ID (f v) = ad_ID v)"
proof -
  have old: "delivery_ok m (sendsOf (ad_ID v) sent) v" using ok v by (simp add: notified_ok_def alert_keys_def)
  let ?fail = "\<lambda>reason v. v \<lparr> ad_Status := ''failed'', ad_Error := Some reason, ad_Attempt := ad_Attempt v + 1 \<rparr>"
  let ?sent = "\<lambda>v. v \<lparr> ad_Status := ''sent'', ad_SentAt := Some (rd_now r) \<rparr>"
  have app: "replicate (length bs + 1) False = bs @ [False]" if "bs = replicate (length bs) False" for bs
    using that by (metis Suc_eq_plus1 replicate_Suc replicate_append_same)
  have failed: "delivery_ok m (sendsOf (ad_ID v) sent @ bs) (?fail reason v)" if "bs = [] \<or> bs = [False]" for bs reason
    using old pending that app [of "sendsOf (ad_ID v) sent"] by (auto simp: delivery_ok_def)
  have succeeded: "delivery_ok m (sendsOf (ad_ID v) sent @ [True]) (?sent v)"
    using old pending by (auto simp: delivery_ok_def)
  have 1: "notified_ok m (updateDelivery (ad_ID v) (?fail reason) d, sent @ ext)"
    if "ext = [] \<or> ext = [(ad_ID v, False)]" for reason ext
    by (rule notified_ok_update [OF ok v])
      (use that failed [of "[]"] failed [of "[False]"] in \<open>auto simp: sendsOf_one sendsOf_new\<close>)
  have 2: "notified_ok m (updateDelivery (ad_ID v) ?sent d, sent @ [(ad_ID v, True)])"
    by (rule notified_ok_update [OF ok v]) (use succeeded in \<open>auto simp: sendsOf_one\<close>)
  show ?thesis
  proof (cases "nw_dispatchers W (nc_Type (fst ca))")
    case None
    then have "dispatch W r (v, ca) (d, sent) =
        (updateDelivery (ad_ID v) (?fail (''unknown channel type: '' @ nc_Type (fst ca))) d, sent @ [])"
      using marks by (simp add: dispatch_def markFailed_def MarkDeliveryFailed_def exec_def marksWork_def Let_def)
    then show ?thesis using 1 [of "[]"] by fastforce
  next
    case (Some send)
    show ?thesis
    proof (cases "send (rd_net r (ad_ID v)) (v, ca)")
      case None
      then have "dispatch W r (v, ca) (d, sent) = (updateDelivery (ad_ID v) ?sent d, sent @ [(ad_ID v, True)])"
        using Some marks by (simp add: dispatch_def MarkDeliverySent_def exec_def marksWork_def Let_def)
      then show ?thesis using 2 by fastforce
    next
      case (Some e)
      then have "dispatch W r (v, ca) (d, sent) =
          (updateDelivery (ad_ID v) (?fail (Error_text e)) d, sent @ [(ad_ID v, False)])"
        using \<open>nw_dispatchers W (nc_Type (fst ca)) = Some send\<close> marks
        by (simp add: dispatch_def markFailed_def MarkDeliveryFailed_def exec_def marksWork_def Let_def)
      then show ?thesis using 1 [of "[(ad_ID v, False)]"] by fastforce
    qed
  qed
qed

text \<open>The rows of one round: different deliveries, all pending.\<close>

lemma dispatchAll_ok:
  assumes "notified_ok m (d, sent)" "marksWork r" "distinct (map (\<lambda>r. ad_ID (fst r)) rows)"
    and "\<forall>x \<in> set rows. fst x \<in> set (ab_deliveries d) \<and> ad_Status (fst x) = ''pending''"
  shows "notified_ok m (dispatchAll W r rows (d, sent))"
  using assms
proof (induction rows arbitrary: d sent)
  case (Cons x rows)
  obtain v ca where x: "x = (v, ca)" by (cases x)
  obtain f ext where step: "dispatch W r x (d, sent) = (updateDelivery (ad_ID v) f d, sent @ ext)"
    and ok: "notified_ok m (updateDelivery (ad_ID v) f d, sent @ ext)"
    using dispatch_ok [OF Cons.prems(1) _ _ Cons.prems(2), of v W ca] Cons.prems(4) by (auto simp: x)
  have "fst y \<in> set (ab_deliveries (updateDelivery (ad_ID v) f d))" if "y \<in> set rows" for y
    using that Cons.prems(3,4) by (fastforce simp: x updateDelivery_def image_iff)
  then show ?case
    using Cons.IH [OF ok Cons.prems(2)] Cons.prems(1,3,4) step by (auto simp: x)
qed simp

lemma distinct_concat_map:
  assumes "distinct (map key xs)" "\<And>x y. y \<in> set (g x) \<Longrightarrow> k y = key x" "\<And>x. length (g x) \<le> 1"
  shows "distinct (map k (concat (map g xs)))"
  using assms(1)
proof (induction xs)
  case (Cons x xs)
  have "length (map k (g x)) \<le> 1" using assms(3) [of x] by simp
  then have "distinct (map k (g x))"
    by (cases "map k (g x)") (auto simp: Suc_le_eq)
  moreover have "k ` set (g x) \<inter> k ` set (concat (map g xs)) = {}"
    using Cons.prems assms(2) by (fastforce simp: image_iff)
  ultimately show ?case
    using Cons by simp
qed simp

lemma filter_key_length: "distinct (map key xs) \<Longrightarrow> length (filter (\<lambda>x. key x = i) xs) \<le> 1"
proof (induction xs)
  case (Cons x xs)
  have "filter (\<lambda>y. key y = i) xs = []" if "key x = i"
    using Cons.prems that by (auto simp: filter_empty_conv rev_image_eqI)
  then show ?case using Cons by simp
qed simp

lemma joined_length:
  assumes "notified_ok m (d, sent)"
  shows "length (joined v d) \<le> 1"
proof -
  have chans: "distinct (map nc_ID (ab_channels d))" and alerts: "distinct (map al_ID (ab_alerts d))"
    using assms by (simp_all add: notified_ok_def alert_keys_def)
  have "length (filter (\<lambda>c. nc_ID c = ad_ChannelID v) (ab_channels d)) \<le> 1"
    using chans by (rule filter_key_length)
  moreover have "length (filter (\<lambda>a. al_ID a = ad_AlertID v) (ab_alerts d)) \<le> 1"
    using alerts by (rule filter_key_length)
  ultimately show ?thesis
    using mult_le_mono by (fastforce simp: joined_def)
qed

lemma ListPendingDeliveries_rows:
  assumes ok: "notified_ok m (d, sent)" and rows: "ListPendingDeliveries fault n d = Inr rows"
  shows "distinct (map (\<lambda>r. ad_ID (fst r)) rows)"
    and "\<forall>x \<in> set rows. fst x \<in> set (ab_deliveries d) \<and> ad_Status (fst x) = ''pending''"
proof -
  define pend where "pend = filter (\<lambda>v. ad_Status v = ''pending'') (ab_deliveries d)"
  define all where "all = concat (map (\<lambda>v. map (Pair v) (joined v d)) pend)"
  have eq: "rows = take n (sort_key (\<lambda>r. ad_CreatedAt (fst r)) all)"
    using rows by (simp add: ListPendingDeliveries_def query_def all_def pend_def split: option.splits)
  have "distinct (map ad_ID pend)"
    using ok by (simp add: notified_ok_def alert_keys_def pend_def distinct_map_filter)
  then have "distinct (map (\<lambda>r. ad_ID (fst r)) all)"
    unfolding all_def by (rule distinct_concat_map) (use joined_length [OF ok] in auto)
  then have "distinct (map (\<lambda>r. ad_ID (fst r)) (sort_key (\<lambda>r. ad_CreatedAt (fst r)) all))"
    by (simp add: distinct_map)
  then show "distinct (map (\<lambda>r. ad_ID (fst r)) rows)"
    by (simp add: eq take_map [symmetric])
  show "\<forall>x \<in> set rows. fst x \<in> set (ab_deliveries d) \<and> ad_Status (fst x) = ''pending''"
    by (auto simp: eq all_def pend_def dest!: in_set_takeD)
qed

lemma deliverPending_ok:
  assumes "notified_ok m s" "marksWork r"
  shows "notified_ok m (deliverPending W r s)"
proof (cases s)
  case (Pair d sent)
  then show ?thesis
    using assms dispatchAll_ok [OF _ assms(2) ListPendingDeliveries_rows(1) ListPendingDeliveries_rows(2)]
    by (auto simp: deliverPending_def split: sum.splits)
qed

lemma resetRetryable_ok:
  assumes "notified_ok m s" "m = nf_MaxAttempts (nw_config W)"
  shows "notified_ok m (resetRetryable W r s)"
proof -
  define f where "f = (\<lambda>v. if retryable (rd_now r) m v then v \<lparr> ad_Status := ''pending'' \<rparr> else v)"
  have f: "ad_ID (f v) = ad_ID v" for v
    by (simp add: f_def)
  then have ids: "ad_ID \<circ> f = ad_ID" "ad_ID ` f ` A = ad_ID ` A" for A
    by (auto simp: image_image)
  have "delivery_ok m bs (f v)" if "delivery_ok m bs v" for bs v
    using that by (auto simp: f_def delivery_ok_def retryable_def)
  then have "notified_ok m ((fst s) \<lparr> ab_deliveries := map f (ab_deliveries (fst s)) \<rparr>, snd s)"
    using assms(1) by (simp add: notified_ok_def alert_keys_def f ids)
  then show ?thesis
    using assms by (simp add: resetRetryable_def RetryFailedDeliveries_def exec_def f_def split: option.splits)
qed

lemma raise_ok:
  assumes ok: "notified_ok m (d, sent)" and tx: "CreateAlertWithDeliveryTx fault ids now arg d = (x, d')"
  shows "notified_ok m (d', sent)"
  using tx
proof (cases rule: CreateAlertWithDeliveryTx_cases)
  case 2
  let ?new = "map (pendingDelivery (snd ids) now (fst ids)) (activeChannels (cp_TenantID arg) d)"
  have keys: "alert_keys d'"
    using CreateAlertWithDeliveryTx_keys [OF tx] ok by (simp add: notified_ok_def)
  have rows: "ab_deliveries d' = ab_deliveries d @ ?new"
    by (simp add: 2(2) alertRaised_def)
  have "delivery_ok m (sendsOf (ad_ID v) sent) v" if v: "v \<in> set ?new" for v
  proof -
    have "ad_ID v \<notin> ad_ID ` set (ab_deliveries d)"
      using keys v by (fastforce simp: alert_keys_def rows)
    then have "sendsOf (ad_ID v) sent = []"
      using ok by (intro sendsOf_new) (auto simp: notified_ok_def)
    then show ?thesis
      using v by (auto simp: delivery_ok_def pendingDelivery_def)
  qed
  then show ?thesis
    using ok keys by (auto simp: notified_ok_def rows)
qed (use ok in simp)

lemma notificationStep_ok:
  assumes "notified_ok m s" "m = nf_MaxAttempts (nw_config W)" "roundWorks e"
  shows "notified_ok m (notificationStep W e s)"
proof (cases e)
  case (Raise fault ids now arg)
  obtain x d' where "CreateAlertWithDeliveryTx fault ids now arg (fst s) = (x, d')" by fastforce
  then show ?thesis
    using raise_ok [of m "fst s" "snd s"] assms(1) Raise by simp
qed (use assms deliverPending_ok resetRetryable_ok in \<open>simp_all add: roundWorks_def\<close>)

lemma notificationRun_ok:
  assumes "notified_ok m s" "m = nf_MaxAttempts (nw_config W)" "\<forall>e \<in> set es. roundWorks e"
  shows "notified_ok m (notificationRun W es s)"
  using assms(1,3)
  by (induction es arbitrary: s) (simp_all add: notificationRun_def notificationStep_ok assms(2))

text \<open>
  C23: As long as the marks reach the database, no delivery is sent again once it succeeded, and none is sent more often than one less
  than the maximal number of attempts (once, where that is 1): with the default of 3 attempts a failing delivery is sent twice.
\<close>

theorem delivery_sends_bounded:
  assumes "alert_keys d" "\<forall>v \<in> set (ab_deliveries d). ad_Status v = ''pending'' \<and> ad_Attempt v = 1"
    and "\<forall>e \<in> set es. roundWorks e"
  shows "let bs = sendsOf vid (snd (notificationRun W es (d, []))) in
    int (length bs) \<le> max 1 (nf_MaxAttempts (nw_config W) - 1) \<and> True \<notin> set (butlast bs)"
proof -
  let ?m = "nf_MaxAttempts (nw_config W)"
  obtain d' sent where run: "notificationRun W es (d, []) = (d', sent)" by fastforce
  have "notified_ok ?m (d, [])"
    using assms(1,2) by (simp add: notified_ok_def delivery_ok_def sendsOf_def)
  then have ok: "notified_ok ?m (d', sent)"
    using notificationRun_ok [OF _ refl assms(3)] run by metis
  show ?thesis
  proof (cases "vid \<in> fst ` set sent")
    case True
    then obtain v where v: "v \<in> set (ab_deliveries d')" "ad_ID v = vid"
      using ok by (force simp: notified_ok_def)
    then have d: "delivery_ok ?m (sendsOf vid sent) v"
      using ok by (auto simp: notified_ok_def)
    have "True \<notin> set (butlast bs)" if "bs = replicate n False \<or> bs = replicate n False @ [True]" for bs n
      using that by (auto dest: in_set_butlastD)
    then show ?thesis
      using d unfolding run delivery_ok_def by (auto simp: Let_def split: if_splits)
  next
    case False
    then show ?thesis by (simp add: run sendsOf_new Let_def)
  qed
qed

text \<open>A channel that does not answer, polled three times.\<close>

definition deadChannel :: notification_worker where
  "deadChannel = NewNotificationWorker DefaultNotificationConfig [(''pager'', \<lambda>_ _. Some (Plain ''timeout''))]"

definition calmRound :: round where
  "calmRound =
     \<lparr> rd_net = \<lambda>_. \<lparr> nt_request = \<lambda>_ _. None, nt_do = \<lambda>_. Inr 200, nt_hmac = \<lambda>_ _. [], nt_sentAt = [] \<rparr>,
       rd_fault = \<lambda>_. None, rd_now = 0, rd_alive = \<lambda>_. True \<rparr>"

definition theDelivery :: "string \<Rightarrow> int \<Rightarrow> string option \<Rightarrow> delivery_row" where
  "theDelivery status n err =
     \<lparr> ad_ID = ''d1'', ad_AlertID = ''a1'', ad_ChannelID = ''c1'', ad_Status = status, ad_Attempt = n, ad_Error = err,
       ad_SentAt = None, ad_CreatedAt = 0 \<rparr>"

definition oneDelivery :: "delivery_row \<Rightarrow> alert_db" where
  "oneDelivery v =
     \<lparr> ab_envs = [], ab_alerts = [newAlert ''a1'' 0 \<lparr> cp_EnvID = [], cp_TenantID = [], cp_Type = [], cp_Severity = [], cp_Message = [],
         cp_Metadata = JNull \<rparr>],
       ab_channels = [\<lparr> nc_ID = ''c1'', nc_TenantID = [], nc_Name = [], nc_Type = ''pager'', nc_Config = JNull, nc_IsActive = True,
                        nc_CreatedAt = 0 \<rparr>],
       ab_deliveries = [v] \<rparr>"

definition onePending :: alert_db where
  "onePending = oneDelivery (theDelivery ''pending'' 1 None)"

definition threePolls :: "notification_event list" where
  "threePolls = [Poll calmRound, Retry calmRound, Poll calmRound, Retry calmRound, Poll calmRound]"

lemma deadChannel_config: "nf_MaxAttempts (nw_config deadChannel) = 3" "nf_BatchSize (nw_config deadChannel) = 100"
  by (simp_all add: deadChannel_def NewNotificationWorker_def notificationConfig_def DefaultNotificationConfig_def)

lemma deadChannel_pager: "nw_dispatchers deadChannel ''pager'' = Some (\<lambda>_ _. Some (Plain ''timeout''))"
  by (simp add: deadChannel_def NewNotificationWorker_def)

lemma calmRound_faults: "rd_fault calmRound = (\<lambda>_. None)" "rd_now calmRound = 0" "rd_alive calmRound = (\<lambda>_. True)"
  by (simp_all add: calmRound_def)

lemma deadChannel_poll:
  "deliverPending deadChannel calmRound (oneDelivery (theDelivery ''pending'' n err), sent) =
     (oneDelivery (theDelivery ''failed'' (n + 1) (Some ''timeout'')), sent @ [(''d1'', False)])"
  by (simp add: deliverPending_def ListPendingDeliveries_def joined_def query_def calmRound_faults deadChannel_config oneDelivery_def
      theDelivery_def newAlert_def dispatch_def deadChannel_pager markFailed_def MarkDeliveryFailed_def exec_def updateDelivery_def Let_def)

lemma deadChannel_idle:
  "deliverPending deadChannel calmRound (oneDelivery (theDelivery ''failed'' n err), sent) =
     (oneDelivery (theDelivery ''failed'' n err), sent)"
  by (simp add: deliverPending_def ListPendingDeliveries_def query_def calmRound_faults oneDelivery_def theDelivery_def)

lemma deadChannel_retry:
  "resetRetryable deadChannel calmRound (oneDelivery (theDelivery ''failed'' n err), sent) =
     (oneDelivery (theDelivery (if n < 3 then ''pending'' else ''failed'') n err), sent)"
  by (simp add: resetRetryable_def RetryFailedDeliveries_def exec_def calmRound_faults deadChannel_config oneDelivery_def
      theDelivery_def retryable_def minutes_def)

lemma deadChannel_sends: "sendsOf ''d1'' (snd (notificationRun deadChannel threePolls (onePending, []))) = [False, False]"
  by (simp add: notificationRun_def threePolls_def onePending_def deadChannel_poll deadChannel_retry deadChannel_idle sendsOf_def)

theorem delivery_sends_bounded_witness:
  "let bs = sendsOf ''d1'' (snd (notificationRun deadChannel threePolls (onePending, []))) in
   int (length bs) \<le> 2 \<and> True \<notin> set (butlast bs) \<and> bs = [False, False]"
proof -
  have 1: "alert_keys onePending"
    by (simp add: alert_keys_def onePending_def oneDelivery_def)
  have 2: "\<forall>v \<in> set (ab_deliveries onePending). ad_Status v = ''pending'' \<and> ad_Attempt v = 1"
    by (simp add: onePending_def oneDelivery_def theDelivery_def)
  have 3: "\<forall>e \<in> set threePolls. roundWorks e"
    by (simp add: threePolls_def roundWorks_def marksWork_def calmRound_def)
  show ?thesis
    using delivery_sends_bounded [OF 1 2 3, of "''d1''" deadChannel] deadChannel_sends by (simp add: Let_def deadChannel_config)
qed

end
