(* ===== verification/Error_Store.thy ===== *)
theory Error_Store
  imports Alert_Store
begin

text \<open>
  The table of error groups with its queries (\<^verbatim>\<open>db/sqlc/error_groups.sql.go\<close>, \<^verbatim>\<open>db/migrations/000007_error_groups.up.sql\<close>) and
  the transaction that records an error (\<^verbatim>\<open>db/sqlc/tx_ingest_error.go\<close>). PostgreSQL refuses a text that is not UTF-8 or
  contains a zero byte, here of the message, and a count beyond 32 bits. After a failed statement it refuses the rest of the transaction, which is one of
  the faults.
\<close>

record error_group_row =
  eg_ID :: string
  eg_EnvID :: string
  eg_Signature :: string
  eg_ErrorType :: string
  eg_Message :: string
  eg_Module :: "string option"
  eg_Model :: "string option"
  eg_FirstSeen :: int
  eg_LastSeen :: int
  eg_OccurrenceCount :: int
  eg_AffectedUsers :: "int list"
  eg_Status :: string
  eg_ResolvedBy :: "string option"
  eg_ResolvedAt :: "int option"
  eg_RawTraceRef :: "string option"
  eg_CreatedAt :: int

record error_db = alert_db +
  eb_groups :: "error_group_row list"

definition pgText :: "string \<Rightarrow> bool" where
  "pgText s \<longleftrightarrow> CHR 0x00 \<notin> set s \<and> list_all (\<lambda>(r, w). \<not> (r = 0xFFFD \<and> w = 1)) (runes s)"

subsection \<open>Reading\<close>

definition groupIs :: "string \<Rightarrow> string \<Rightarrow> error_group_row \<Rightarrow> bool" where
  "groupIs gid envID g \<longleftrightarrow> eg_ID g = gid \<and> eg_EnvID g = envID"

definition groupFor :: "string \<Rightarrow> string \<Rightarrow> error_group_row \<Rightarrow> bool" where
  "groupFor envID sig g \<longleftrightarrow> eg_EnvID g = envID \<and> eg_Signature g = sig"

definition GetErrorGroupByID :: "faults \<Rightarrow> string \<Rightarrow> string \<Rightarrow> 'z error_db_scheme \<Rightarrow> go_error + error_group_row" where
  "GetErrorGroupByID fault gid envID d = query fault ''GetErrorGroupByID'' (limit1 hd (filter (groupIs gid envID) (eb_groups d)))"

definition GetErrorGroupBySignature :: "faults \<Rightarrow> string \<Rightarrow> string \<Rightarrow> 'z error_db_scheme \<Rightarrow> go_error + error_group_row" where
  "GetErrorGroupBySignature fault envID sig d =
     query fault ''GetErrorGroupBySignature'' (limit1 hd (filter (groupFor envID sig) (eb_groups d)))"

definition CountErrorGroupsByEnv :: "faults \<Rightarrow> string \<Rightarrow> 'z error_db_scheme \<Rightarrow> go_error + nat" where
  "CountErrorGroupsByEnv fault envID d =
     query fault ''CountErrorGroupsByEnv'' (Inr (length (filter (\<lambda>g. eg_EnvID g = envID) (eb_groups d))))"

definition CountErrorGroupsByStatus :: "faults \<Rightarrow> string \<Rightarrow> string \<Rightarrow> 'z error_db_scheme \<Rightarrow> go_error + nat" where
  "CountErrorGroupsByStatus fault envID status d =
     query fault ''CountErrorGroupsByStatus'' (Inr (length (filter (\<lambda>g. eg_EnvID g = envID \<and> eg_Status g = status) (eb_groups d))))"

definition page :: "nat \<Rightarrow> nat \<Rightarrow> 'a list \<Rightarrow> 'a list" where
  "page limit offset rows = take limit (drop offset rows)"

definition ListErrorGroups :: "faults \<Rightarrow> string \<Rightarrow> nat \<Rightarrow> nat \<Rightarrow> 'z error_db_scheme \<Rightarrow> go_error + error_group_row list" where
  "ListErrorGroups fault envID limit offset d =
     query fault ''ListErrorGroups''
       (Inr (page limit offset (sort_key (\<lambda>g. - eg_OccurrenceCount g) (sort_key (\<lambda>g. - eg_LastSeen g)
          (filter (\<lambda>g. eg_EnvID g = envID) (eb_groups d))))))"

definition ListErrorGroupsByStatus ::
  "faults \<Rightarrow> string \<Rightarrow> string \<Rightarrow> nat \<Rightarrow> nat \<Rightarrow> 'z error_db_scheme \<Rightarrow> go_error + error_group_row list" where
  "ListErrorGroupsByStatus fault envID status limit offset d =
     query fault ''ListErrorGroupsByStatus''
       (Inr (page limit offset (sort_key (\<lambda>g. - eg_LastSeen g)
          (filter (\<lambda>g. eg_EnvID g = envID \<and> eg_Status g = status) (eb_groups d)))))"

definition ListErrorGroupsByType ::
  "faults \<Rightarrow> string \<Rightarrow> string \<Rightarrow> nat \<Rightarrow> nat \<Rightarrow> 'z error_db_scheme \<Rightarrow> go_error + error_group_row list" where
  "ListErrorGroupsByType fault envID typ limit offset d =
     query fault ''ListErrorGroupsByType''
       (Inr (page limit offset (sort_key (\<lambda>g. - eg_OccurrenceCount g)
          (filter (\<lambda>g. eg_EnvID g = envID \<and> eg_ErrorType g = typ) (eb_groups d)))))"

text \<open>\<open>ilike\<close> is the operator \<^verbatim>\<open>ILIKE\<close> with the pattern first; a \<^verbatim>\<open>NULL\<close> matches nothing.\<close>

definition SearchErrorGroups ::
  "(string \<Rightarrow> string \<Rightarrow> bool) \<Rightarrow> faults \<Rightarrow> string \<Rightarrow> string option \<Rightarrow> nat \<Rightarrow> nat \<Rightarrow> 'z error_db_scheme \<Rightarrow>
   go_error + error_group_row list" where
  "SearchErrorGroups ilike fault envID text limit offset d =
     (let hits = (\<lambda>col. case (text, col) of (Some t, Some c) \<Rightarrow> ilike (''%'' @ t @ ''%'') c | _ \<Rightarrow> False) in
      query fault ''SearchErrorGroups''
        (Inr (page limit offset (sort_key (\<lambda>g. - eg_LastSeen g)
           (filter (\<lambda>g. eg_EnvID g = envID \<and> (hits (Some (eg_Message g)) \<or> hits (eg_Module g) \<or> hits (eg_Model g))) (eb_groups d))))))"

definition expiringGroup :: "string \<Rightarrow> int \<Rightarrow> 'z error_db_scheme \<Rightarrow> error_group_row \<Rightarrow> bool" where
  "expiringGroup tid cutoff d g \<longleftrightarrow>
     (eg_EnvID g, tid) \<in> set (ab_envs d) \<and> eg_LastSeen g < cutoff \<and> eg_Status g \<noteq> ''open''"

definition ListExpiringErrorGroupRefs :: "faults \<Rightarrow> string \<Rightarrow> int \<Rightarrow> 'z error_db_scheme \<Rightarrow> go_error + string list" where
  "ListExpiringErrorGroupRefs fault tid cutoff d =
     query fault ''ListExpiringErrorGroupRefs''
       (Inr (List.map_filter eg_RawTraceRef (filter (expiringGroup tid cutoff d) (eb_groups d))))"

subsection \<open>Changing the status, deleting\<close>

definition changeGroup ::
  "faults \<Rightarrow> string \<Rightarrow> (error_group_row \<Rightarrow> error_group_row) \<Rightarrow> string \<Rightarrow> string \<Rightarrow> 'z error_db_scheme \<Rightarrow>
   (go_error + error_group_row) \<times> 'z error_db_scheme" where
  "changeGroup fault name f gid envID d =
     (case query fault name (limit1 hd (filter (groupIs gid envID) (eb_groups d))) of
        Inl e \<Rightarrow> (Inl e, d)
      | Inr g \<Rightarrow> (Inr (f g), d \<lparr> eb_groups := map (\<lambda>g. if groupIs gid envID g then f g else g) (eb_groups d) \<rparr>))"

definition AcknowledgeErrorGroup ::
  "faults \<Rightarrow> string \<Rightarrow> string \<Rightarrow> 'z error_db_scheme \<Rightarrow> (go_error + error_group_row) \<times> 'z error_db_scheme" where
  "AcknowledgeErrorGroup fault gid envID d =
     changeGroup fault ''AcknowledgeErrorGroup'' (\<lambda>g. g \<lparr> eg_Status := ''acknowledged'' \<rparr>) gid envID d"

definition ResolveErrorGroup ::
  "faults \<Rightarrow> int \<Rightarrow> string \<Rightarrow> string option \<Rightarrow> string \<Rightarrow> 'z error_db_scheme \<Rightarrow> (go_error + error_group_row) \<times> 'z error_db_scheme" where
  "ResolveErrorGroup fault now gid who envID d =
     changeGroup fault ''ResolveErrorGroup''
       (\<lambda>g. g \<lparr> eg_Status := ''resolved'', eg_ResolvedBy := who, eg_ResolvedAt := Some now \<rparr>) gid envID d"

definition ReopenErrorGroup ::
  "faults \<Rightarrow> string \<Rightarrow> string \<Rightarrow> 'z error_db_scheme \<Rightarrow> (go_error + error_group_row) \<times> 'z error_db_scheme" where
  "ReopenErrorGroup fault gid envID d =
     changeGroup fault ''ReopenErrorGroup''
       (\<lambda>g. g \<lparr> eg_Status := ''open'', eg_ResolvedBy := None, eg_ResolvedAt := None \<rparr>) gid envID d"

definition DeleteOldErrorGroups :: "faults \<Rightarrow> string \<Rightarrow> int \<Rightarrow> 'z error_db_scheme \<Rightarrow> (go_error + nat) \<times> 'z error_db_scheme" where
  "DeleteOldErrorGroups fault tid cutoff d =
     (case fault ''DeleteOldErrorGroups'' of
        Some e \<Rightarrow> (Inl e, d)
      | None \<Rightarrow>
          (Inr (length (filter (expiringGroup tid cutoff d) (eb_groups d))),
           d \<lparr> eb_groups := filter (Not \<circ> expiringGroup tid cutoff d) (eb_groups d) \<rparr>))"

subsection \<open>Recording an error\<close>

record IngestErrorBatchParams =
  ie_EnvID :: string
  ie_TenantID :: string
  ie_Signature :: string
  ie_ErrorType :: string
  ie_Message :: string
  ie_Module :: "string option"
  ie_Model :: "string option"
  ie_Timestamp :: int
  ie_AffectedUIDs :: "int list"
  ie_RawTraceRef :: "string option"
  ie_SpikeThreshold :: int

definition closedStatus :: "string \<Rightarrow> bool" where
  "closedStatus s \<longleftrightarrow> s = ''resolved'' \<or> s = ''acknowledged''"

text \<open>The row of a first occurrence, and what a further one does to it.\<close>

definition freshGroup :: "string \<Rightarrow> int \<Rightarrow> IngestErrorBatchParams \<Rightarrow> error_group_row" where
  "freshGroup newID now arg =
     \<lparr> eg_ID = newID, eg_EnvID = ie_EnvID arg, eg_Signature = ie_Signature arg, eg_ErrorType = ie_ErrorType arg,
       eg_Message = ie_Message arg, eg_Module = ie_Module arg, eg_Model = ie_Model arg, eg_FirstSeen = ie_Timestamp arg,
       eg_LastSeen = ie_Timestamp arg, eg_OccurrenceCount = 1, eg_AffectedUsers = ie_AffectedUIDs arg, eg_Status = ''open'',
       eg_ResolvedBy = None, eg_ResolvedAt = None, eg_RawTraceRef = ie_RawTraceRef arg, eg_CreatedAt = now \<rparr>"

definition seenAgain :: "IngestErrorBatchParams \<Rightarrow> error_group_row \<Rightarrow> error_group_row" where
  "seenAgain arg g =
     (let closed = closedStatus (eg_Status g) in
      g \<lparr> eg_LastSeen := ie_Timestamp arg, eg_OccurrenceCount := eg_OccurrenceCount g + 1, eg_RawTraceRef := ie_RawTraceRef arg,
          eg_Message := ie_Message arg, eg_Status := if closed then ''open'' else eg_Status g,
          eg_ResolvedBy := if closed then None else eg_ResolvedBy g, eg_ResolvedAt := if closed then None else eg_ResolvedAt g \<rparr>)"

definition UpsertErrorGroup ::
  "faults \<Rightarrow> string \<Rightarrow> int \<Rightarrow> IngestErrorBatchParams \<Rightarrow> 'z error_db_scheme \<Rightarrow> (go_error + error_group_row) \<times> 'z error_db_scheme" where
  "UpsertErrorGroup fault newID now arg d =
     (let same = groupFor (ie_EnvID arg) (ie_Signature arg); r = freshGroup newID now arg in
      if fault ''UpsertErrorGroup'' = None \<and> \<not> pgText (ie_Message arg) then (Inl (violation ''22021'' []), d)
      else case filter same (eb_groups d) of
        [] \<Rightarrow>
          insertRow fault ''UpsertErrorGroup''
            [(newID \<in> eg_ID ` set (eb_groups d), violation ''23505'' ''error_groups_pkey''),
             (ie_EnvID arg \<notin> fst ` set (ab_envs d), violation ''23503'' ''error_groups_env_id_fkey'')]
            r d (d \<lparr> eb_groups := eb_groups d @ [r] \<rparr>)
      | g # _ \<Rightarrow>
          insertRow fault ''UpsertErrorGroup'' [(2 ^ 31 \<le> eg_OccurrenceCount g + 1, violation ''22003'' [])]
            (seenAgain arg g) d (d \<lparr> eb_groups := map (\<lambda>g. if same g then seenAgain arg g else g) (eb_groups d) \<rparr>))"

text \<open>\<^verbatim>\<open>array_agg(DISTINCT u)\<close> sorts.\<close>

definition mergeUsers :: "int list \<Rightarrow> error_group_row \<Rightarrow> error_group_row" where
  "mergeUsers uids g = g \<lparr> eg_AffectedUsers := sort (remdups (eg_AffectedUsers g @ uids)) \<rparr>"

definition AppendAffectedUsers :: "faults \<Rightarrow> int list \<Rightarrow> string \<Rightarrow> 'z error_db_scheme \<Rightarrow> go_error option \<times> 'z error_db_scheme" where
  "AppendAffectedUsers fault uids gid d =
     exec fault ''AppendAffectedUsers'' d
       (d \<lparr> eb_groups := map (\<lambda>g. if eg_ID g = gid then mergeUsers uids g else g) (eb_groups d) \<rparr>)"

definition optString :: "string option \<Rightarrow> json" where
  "optString s = (case s of None \<Rightarrow> JNull | Some t \<Rightarrow> JString t)"

definition errorAlertMetadata :: "error_group_row \<Rightarrow> IngestErrorBatchParams \<Rightarrow> json" where
  "errorAlertMetadata eg arg =
     JObject [(''error_type'', JString (ie_ErrorType arg)), (''model'', optString (ie_Model arg)), (''module'', optString (ie_Module arg)),
              (''occurrence_count'', JInt (eg_OccurrenceCount eg)), (''signature'', JString (ie_Signature arg))]"

definition checkForReopenAlert ::
  "faults \<Rightarrow> string \<Rightarrow> int \<Rightarrow> error_group_row \<Rightarrow> IngestErrorBatchParams \<Rightarrow> bool \<Rightarrow> 'z error_db_scheme \<Rightarrow> go_error option \<times> 'z error_db_scheme" where
  "checkForReopenAlert fault newID now eg arg wasClosedStatus d =
     (if \<not> wasClosedStatus \<or> eg_Status eg \<noteq> ''open'' then (None, d)
      else
        case CreateAlert fault newID now (ie_EnvID arg) ''error_reopen'' ''critical''
               (''Resolved error re-fired: '' @ take 40 (ie_Signature arg) @ '' ('' @ Itoa (eg_OccurrenceCount eg) @ '' total occurrences)'')
               (errorAlertMetadata eg arg) d of
          (Inl e, d') \<Rightarrow> (Some (Wrap ''create reopen alert'' e), d')
        | (Inr _, d') \<Rightarrow> (None, d'))"

text \<open>The conversion of the threshold to 32 bits.\<close>

definition int32 :: "int \<Rightarrow> int" where
  "int32 i = (i + 2 ^ 31) mod 2 ^ 32 - 2 ^ 31"

definition checkForSpikeAlert ::
  "faults \<Rightarrow> string \<Rightarrow> int \<Rightarrow> error_group_row \<Rightarrow> IngestErrorBatchParams \<Rightarrow> 'z error_db_scheme \<Rightarrow> go_error option \<times> 'z error_db_scheme" where
  "checkForSpikeAlert fault newID now eg arg d =
     (if ie_SpikeThreshold arg \<le> 0 \<or> eg_OccurrenceCount eg < int32 (ie_SpikeThreshold arg) then (None, d)
      else if int32 (ie_SpikeThreshold arg) \<le> eg_OccurrenceCount eg - 1 then (None, d)
      else
        case CreateAlert fault newID now (ie_EnvID arg) ''error_spike'' ''warning''
               (ie_ErrorType arg @ '': '' @ Itoa (eg_OccurrenceCount eg) @ '' occurrences of '' @ take 8 (ie_Signature arg))
               (errorAlertMetadata eg arg) d of
          (Inl e, d') \<Rightarrow> (Some (Wrap ''create spike alert'' e), d')
        | (Inr _, d') \<Rightarrow> (None, d'))"

text \<open>\<open>ids\<close> gives the identifiers of the group and of the two alerts, if they are new.\<close>

definition appendUsers :: "faults \<Rightarrow> IngestErrorBatchParams \<Rightarrow> string \<Rightarrow> 'z error_db_scheme \<Rightarrow> go_error option \<times> 'z error_db_scheme" where
  "appendUsers fault arg gid d =
     (if ie_AffectedUIDs arg = [] then (None, d)
      else case AppendAffectedUsers fault (ie_AffectedUIDs arg) gid d of
        (Some e, d') \<Rightarrow> (Some (Wrap ''append affected users'' e), d')
      | (None, d') \<Rightarrow> (None, d'))"

definition wasClosed :: "faults \<Rightarrow> IngestErrorBatchParams \<Rightarrow> 'z error_db_scheme \<Rightarrow> bool" where
  "wasClosed fault arg d =
     (case GetErrorGroupBySignature fault (ie_EnvID arg) (ie_Signature arg) d of
        Inl _ \<Rightarrow> False
      | Inr existing \<Rightarrow> closedStatus (eg_Status existing))"

definition ingestError ::
  "faults \<Rightarrow> string \<times> string \<times> string \<Rightarrow> int \<Rightarrow> IngestErrorBatchParams \<Rightarrow> 'z error_db_scheme \<Rightarrow> (go_error + unit) \<times> 'z error_db_scheme" where
  "ingestError fault ids now arg d =
     (case UpsertErrorGroup fault (fst ids) now arg d of
        (Inl e, d1) \<Rightarrow> (Inl (Wrap ''upsert error group'' e), d1)
      | (Inr eg, d1) \<Rightarrow>
          (case appendUsers fault arg (eg_ID eg) d1 of
             (Some e, d2) \<Rightarrow> (Inl e, d2)
           | (None, d2) \<Rightarrow>
               (case checkForReopenAlert fault (fst (snd ids)) now eg arg (wasClosed fault arg d) d2 of
                  (Some e, d3) \<Rightarrow> (Inl e, d3)
                | (None, d3) \<Rightarrow>
                    (case checkForSpikeAlert fault (snd (snd ids)) now eg arg d3 of
                       (Some e, d4) \<Rightarrow> (Inl e, d4)
                     | (None, d4) \<Rightarrow> (Inr (), d4)))))"

definition IngestErrorBatchTx ::
  "faults \<Rightarrow> string \<times> string \<times> string \<Rightarrow> int \<Rightarrow> IngestErrorBatchParams \<Rightarrow> 'z error_db_scheme \<Rightarrow> (go_error + unit) \<times> 'z error_db_scheme" where
  "IngestErrorBatchTx fault ids now arg = execTx fault (ingestError fault ids now arg)"

end
