(* ===== verification/Error_Groups.thy ===== *)
theory Error_Groups
  imports Error_Store
begin

text \<open>
  What the table of error groups says after any sequence of recorded errors and changes of status: each group
  counts the occurrences of its signature. The history is the list of the errors recorded successfully.
\<close>

datatype error_event =
    Record faults "string \<times> string \<times> string" int IngestErrorBatchParams
  | Acknowledge faults string string
  | Resolve faults int string "string option" string
  | Reopen faults string string

fun errorStep :: "error_event \<Rightarrow> 'z error_db_scheme \<times> IngestErrorBatchParams list \<Rightarrow> 'z error_db_scheme \<times> IngestErrorBatchParams list" where
  "errorStep (Record fault ids now arg) (d, hist) =
     (case IngestErrorBatchTx fault ids now arg d of (Inl _, d') \<Rightarrow> (d', hist) | (Inr _, d') \<Rightarrow> (d', hist @ [arg]))"
| "errorStep (Acknowledge fault gid envID) (d, hist) = (snd (AcknowledgeErrorGroup fault gid envID d), hist)"
| "errorStep (Resolve fault now gid who envID) (d, hist) = (snd (ResolveErrorGroup fault now gid who envID d), hist)"
| "errorStep (Reopen fault gid envID) (d, hist) = (snd (ReopenErrorGroup fault gid envID d), hist)"

definition errorRun :: "error_event list \<Rightarrow> 'z error_db_scheme \<Rightarrow> 'z error_db_scheme \<times> IngestErrorBatchParams list" where
  "errorRun es d = fold errorStep es (d, [])"

definition occurrences :: "IngestErrorBatchParams list \<Rightarrow> error_group_row \<Rightarrow> IngestErrorBatchParams list" where
  "occurrences hist g = filter (\<lambda>a. ie_EnvID a = eg_EnvID g \<and> ie_Signature a = eg_Signature g) hist"

text \<open>A group that sums up the occurrences \<open>as\<close>, the oldest first.\<close>

definition sumsUp :: "IngestErrorBatchParams list \<Rightarrow> error_group_row \<Rightarrow> bool" where
  "sumsUp as g \<longleftrightarrow>
     as \<noteq> [] \<and> eg_OccurrenceCount g = int (length as) \<and> eg_FirstSeen g = ie_Timestamp (hd as) \<and>
     eg_LastSeen g = ie_Timestamp (last as) \<and> eg_ErrorType g = ie_ErrorType (hd as) \<and> eg_Message g = ie_Message (last as) \<and>
     eg_RawTraceRef g = ie_RawTraceRef (last as) \<and> eg_AffectedUsers g = sort (remdups (concat (map ie_AffectedUIDs as)))"

definition groupKey :: "error_group_row \<Rightarrow> string \<times> string" where
  "groupKey g = (eg_EnvID g, eg_Signature g)"

definition groups_ok :: "'z error_db_scheme \<times> IngestErrorBatchParams list \<Rightarrow> bool" where
  "groups_ok s \<longleftrightarrow>
     distinct (map eg_ID (eb_groups (fst s))) \<and> distinct (map groupKey (eb_groups (fst s))) \<and>
     (\<forall>g \<in> set (eb_groups (fst s)). sumsUp (occurrences (snd s) g) g) \<and>
     (\<forall>a \<in> set (snd s). (ie_EnvID a, ie_Signature a) \<in> groupKey ` set (eb_groups (fst s)))"

subsection \<open>Changes of status\<close>

lemma groups_ok_map:
  assumes ok: "groups_ok (d, hist)"
    and h: "\<And>g. eg_ID (h g) = eg_ID g" "\<And>g. groupKey (h g) = groupKey g" "\<And>as g. sumsUp as g \<Longrightarrow> sumsUp as (h g)"
  shows "groups_ok (d \<lparr> eb_groups := map h (eb_groups d) \<rparr>, hist)"
proof -
  have "occurrences hist (h g) = occurrences hist g" for g
    using h(2) [of g] by (simp add: occurrences_def groupKey_def)
  moreover have "map eg_ID (map h gs) = map eg_ID gs" "map groupKey (map h gs) = map groupKey gs" "groupKey ` h ` G = groupKey ` G" for gs G
    using h by (simp_all add: image_image)
  ultimately show ?thesis
    using ok h(3) by (simp add: groups_ok_def del: map_map)
qed

lemma changeGroup_ok:
  assumes ok: "groups_ok (d, hist)"
    and f: "\<And>g. eg_ID (f g) = eg_ID g" "\<And>g. groupKey (f g) = groupKey g" "\<And>as g. sumsUp as g \<Longrightarrow> sumsUp as (f g)"
  shows "groups_ok (snd (changeGroup fault name f gid envID d), hist)"
proof -
  have "groups_ok (d \<lparr> eb_groups := map (\<lambda>g. if groupIs gid envID g then f g else g) (eb_groups d) \<rparr>, hist)"
    by (rule groups_ok_map [OF ok]) (simp_all add: f)
  then show ?thesis
    using ok by (simp add: changeGroup_def split: sum.split)
qed

lemma status_ok:
  assumes "groups_ok (d, hist)"
  shows "groups_ok (snd (AcknowledgeErrorGroup fault gid envID d), hist)"
    and "groups_ok (snd (ResolveErrorGroup fault now gid who envID d), hist)"
    and "groups_ok (snd (ReopenErrorGroup fault gid envID d), hist)"
  unfolding AcknowledgeErrorGroup_def ResolveErrorGroup_def ReopenErrorGroup_def
  by (rule changeGroup_ok [OF assms]; simp add: groupKey_def sumsUp_def)+

subsection \<open>A recorded error\<close>

lemma CreateAlert_groups: "CreateAlert fault i now e t s m md d = (x, d') \<Longrightarrow> eb_groups d' = eb_groups d"
  by (auto simp: CreateAlert_def insertRow_def Let_def split: option.splits list.splits prod.splits)

lemma checkForReopenAlert_groups: "checkForReopenAlert fault i now eg arg c d = (x, d') \<Longrightarrow> eb_groups d' = eb_groups d"
  by (auto simp: checkForReopenAlert_def split: if_splits sum.splits prod.splits dest: CreateAlert_groups)

lemma checkForSpikeAlert_groups: "checkForSpikeAlert fault i now eg arg d = (x, d') \<Longrightarrow> eb_groups d' = eb_groups d"
  by (auto simp: checkForSpikeAlert_def split: if_splits sum.splits prod.splits dest: CreateAlert_groups)

definition mergedGroups :: "IngestErrorBatchParams \<Rightarrow> string \<Rightarrow> error_group_row list \<Rightarrow> error_group_row list" where
  "mergedGroups arg gid gs =
     (if ie_AffectedUIDs arg = [] then gs else map (\<lambda>g. if eg_ID g = gid then mergeUsers (ie_AffectedUIDs arg) g else g) gs)"

lemma appendUsers_groups:
  "appendUsers fault arg gid d = (None, d') \<Longrightarrow> eb_groups d' = mergedGroups arg gid (eb_groups d)"
  by (auto simp: appendUsers_def mergedGroups_def AppendAffectedUsers_def exec_def split: if_splits option.splits prod.splits)

lemma ingestError_groups:
  assumes "ingestError fault ids now arg d = (Inr u, d')"
  obtains eg d1 where "UpsertErrorGroup fault (fst ids) now arg d = (Inr eg, d1)"
    "eb_groups d' = mergedGroups arg (eg_ID eg) (eb_groups d1)"
proof -
  obtain eg d1 d2 d3 where 1: "UpsertErrorGroup fault (fst ids) now arg d = (Inr eg, d1)"
    and 2: "appendUsers fault arg (eg_ID eg) d1 = (None, d2)"
    and 3: "checkForReopenAlert fault (fst (snd ids)) now eg arg (wasClosed fault arg d) d2 = (None, d3)"
    and 4: "checkForSpikeAlert fault (snd (snd ids)) now eg arg d3 = (None, d')"
    using assms by (auto simp: ingestError_def split: sum.splits prod.splits option.splits)
  show thesis
    using that [OF 1] appendUsers_groups [OF 2] checkForReopenAlert_groups [OF 3] checkForSpikeAlert_groups [OF 4] by simp
qed

text \<open>A list of rows with different keys, one of which is replaced, or to which one is added.\<close>

lemma occurrences_new:
  "occurrences (hist @ [arg]) g =
     (if groupKey g = (ie_EnvID arg, ie_Signature arg) then occurrences hist g @ [arg] else occurrences hist g)"
  by (auto simp: occurrences_def groupKey_def)

lemma occurrences_none:
  assumes ok: "groups_ok (d, hist)" and new: "(ie_EnvID arg, ie_Signature arg) \<notin> groupKey ` set (eb_groups d)"
    and g: "groupKey g = (ie_EnvID arg, ie_Signature arg)"
  shows "occurrences hist g = []"
  unfolding occurrences_def filter_empty_conv
proof (intro ballI notI)
  fix a
  assume a: "a \<in> set hist" and eq: "ie_EnvID a = eg_EnvID g \<and> ie_Signature a = eg_Signature g"
  have "(ie_EnvID a, ie_Signature a) = (ie_EnvID arg, ie_Signature arg)"
    using eq g by (simp add: groupKey_def)
  moreover have "(ie_EnvID a, ie_Signature a) \<in> groupKey ` set (eb_groups d)"
    using ok a by (simp add: groups_ok_def)
  ultimately show False using new by simp
qed

lemma groupFor_key: "groupFor envID sig g \<longleftrightarrow> groupKey g = (envID, sig)"
  by (simp add: groupFor_def groupKey_def)

lemma sort_remdups_set: "set xs = set ys \<Longrightarrow> sort (remdups xs) = sort (remdups ys)"
  by (simp add: sorted_list_of_set_sort_remdups [symmetric])

definition withUsers :: "IngestErrorBatchParams \<Rightarrow> error_group_row \<Rightarrow> error_group_row" where
  "withUsers arg g = (if ie_AffectedUIDs arg = [] then g else mergeUsers (ie_AffectedUIDs arg) g)"

lemma withUsers_keys: "eg_ID (withUsers arg g) = eg_ID g" "groupKey (withUsers arg g) = groupKey g"
  by (simp_all add: withUsers_def mergeUsers_def groupKey_def)

lemma seenAgain_keys: "eg_ID (seenAgain arg g) = eg_ID g" "groupKey (seenAgain arg g) = groupKey g"
  by (simp_all add: seenAgain_def groupKey_def Let_def)

lemma seenAgain_sums:
  assumes "sumsUp as g"
  shows "sumsUp (as @ [arg]) (withUsers arg (seenAgain arg g))"
  using assms sort_remdups_set [of "sort (remdups (concat (map ie_AffectedUIDs as))) @ ie_AffectedUIDs arg"
      "concat (map ie_AffectedUIDs as) @ ie_AffectedUIDs arg"]
  by (simp add: sumsUp_def withUsers_def mergeUsers_def seenAgain_def Let_def)

lemma freshGroup_sums: "sumsUp [arg] (withUsers arg (freshGroup i now arg))"
  using sort_remdups_set [of "ie_AffectedUIDs arg @ ie_AffectedUIDs arg" "ie_AffectedUIDs arg"]
  by (simp add: sumsUp_def withUsers_def mergeUsers_def freshGroup_def)

lemma freshGroup_keys: "eg_ID (freshGroup i now arg) = i" "groupKey (freshGroup i now arg) = (ie_EnvID arg, ie_Signature arg)"
  by (simp_all add: freshGroup_def groupKey_def)

lemma UpsertErrorGroup_Inr:
  assumes "UpsertErrorGroup fault i now arg d = (Inr eg, d1)"
  obtains (new) "(ie_EnvID arg, ie_Signature arg) \<notin> groupKey ` set (eb_groups d)" "i \<notin> eg_ID ` set (eb_groups d)"
      "eg = freshGroup i now arg" "eb_groups d1 = eb_groups d @ [eg]"
  | (again) g where "g \<in> set (eb_groups d)" "groupKey g = (ie_EnvID arg, ie_Signature arg)" "eg = seenAgain arg g"
      "eb_groups d1 = map (\<lambda>g. if groupKey g = (ie_EnvID arg, ie_Signature arg) then seenAgain arg g else g) (eb_groups d)"
proof (cases "filter (groupFor (ie_EnvID arg) (ie_Signature arg)) (eb_groups d)")
  case Nil
  then have "(ie_EnvID arg, ie_Signature arg) \<notin> groupKey ` set (eb_groups d)"
    by (auto simp: filter_empty_conv groupFor_key)
  then show thesis
    using assms Nil new by (auto simp: UpsertErrorGroup_def Let_def insertRow_Inr split: if_splits)
next
  case (Cons g gs)
  then have g: "g \<in> set (eb_groups d)" "groupKey g = (ie_EnvID arg, ie_Signature arg)"
    using filter_eq_ConsD [OF Cons] by (auto simp: groupFor_key)
  show thesis
    by (rule again [OF g])
      (use assms Cons in \<open>auto simp: UpsertErrorGroup_def Let_def insertRow_Inr groupFor_key split: if_splits\<close>)
qed

lemma mergedGroups_withUsers:
  "mergedGroups arg gid gs = map (\<lambda>g. if eg_ID g = gid then withUsers arg g else g) gs"
  by (auto simp: mergedGroups_def withUsers_def intro!: map_idI [symmetric])

lemma groups_ok_new:
  assumes ok: "groups_ok (d, hist)" and new: "(ie_EnvID arg, ie_Signature arg) \<notin> groupKey ` set (eb_groups d)"
    and i: "i \<notin> eg_ID ` set (eb_groups d)"
    and groups: "eb_groups d' = mergedGroups arg i (eb_groups d @ [freshGroup i now arg])"
  shows "groups_ok (d', hist @ [arg])"
proof -
  let ?g = "withUsers arg (freshGroup i now arg)"
  have rows: "eb_groups d' = eb_groups d @ [?g]"
    using i by (auto simp: groups mergedGroups_withUsers freshGroup_keys intro!: map_idI)
  have key: "groupKey ?g = (ie_EnvID arg, ie_Signature arg)" and gid: "eg_ID ?g = i"
    by (simp_all add: withUsers_keys freshGroup_keys)
  have "sumsUp (occurrences (hist @ [arg]) ?g) ?g"
    using freshGroup_sums by (simp add: occurrences_new key occurrences_none [OF ok new key])
  moreover have "sumsUp (occurrences (hist @ [arg]) g) g" if "g \<in> set (eb_groups d)" for g
  proof -
    have "groupKey g \<noteq> (ie_EnvID arg, ie_Signature arg)" using new that by force
    then show ?thesis using ok that by (simp add: occurrences_new groups_ok_def)
  qed
  moreover have "distinct (map eg_ID (eb_groups d'))" "distinct (map groupKey (eb_groups d'))"
    using ok i new by (simp_all add: groups_ok_def rows key gid)
  moreover have "(ie_EnvID a, ie_Signature a) \<in> groupKey ` set (eb_groups d')" if "a \<in> set (hist @ [arg])" for a
    using ok that by (auto simp: groups_ok_def rows key)
  ultimately show ?thesis
    by (simp add: groups_ok_def rows)
qed

lemma groups_ok_again:
  assumes ok: "groups_ok (d, hist)" and g: "g \<in> set (eb_groups d)" "groupKey g = (ie_EnvID arg, ie_Signature arg)"
    and groups: "eb_groups d' = mergedGroups arg (eg_ID g)
      (map (\<lambda>g. if groupKey g = (ie_EnvID arg, ie_Signature arg) then seenAgain arg g else g) (eb_groups d))"
  shows "groups_ok (d', hist @ [arg])"
proof -
  let ?k = "(ie_EnvID arg, ie_Signature arg)"
  define h where "h = (\<lambda>g. if groupKey g = ?k then withUsers arg (seenAgain arg g) else g)"
  have inj: "inj_on eg_ID (set (eb_groups d))" "inj_on groupKey (set (eb_groups d))"
    using ok by (simp_all add: groups_ok_def distinct_map)
  have same: "eg_ID g' = eg_ID g \<longleftrightarrow> groupKey g' = ?k" if "g' \<in> set (eb_groups d)" for g'
    using inj_on_eq_iff [OF inj(1) that g(1)] inj_on_eq_iff [OF inj(2) that g(1)] g(2) by simp
  then have rows: "eb_groups d' = map h (eb_groups d)"
    by (simp add: groups mergedGroups_withUsers seenAgain_keys h_def)
  have keys: "eg_ID (h g') = eg_ID g'" "groupKey (h g') = groupKey g'" for g'
    by (simp_all add: h_def withUsers_keys seenAgain_keys)
  have ids: "map eg_ID (map h gs) = map eg_ID gs" "map groupKey (map h gs) = map groupKey gs" "groupKey ` h ` G = groupKey ` G" for gs G
    by (simp_all add: keys image_image)
  have "sumsUp (occurrences (hist @ [arg]) (h g')) (h g')" if "g' \<in> set (eb_groups d)" for g'
  proof -
    have "occurrences hist (h g') = occurrences hist g'"
      using keys(2) [of g'] by (simp add: occurrences_def groupKey_def)
    then have "occurrences (hist @ [arg]) (h g') = occurrences hist g' @ (if groupKey g' = ?k then [arg] else [])"
      using keys(2) [of g'] by (simp add: occurrences_new)
    moreover have "sumsUp (occurrences hist g') g'" using ok that by (simp add: groups_ok_def)
    ultimately show ?thesis
      using seenAgain_sums by (simp add: h_def)
  qed
  moreover have "(ie_EnvID a, ie_Signature a) \<in> groupKey ` set (eb_groups d)" if "a \<in> set (hist @ [arg])" for a
    using ok that g by (auto simp: groups_ok_def rev_image_eqI)
  ultimately show ?thesis
    using ok by (simp add: groups_ok_def rows ids del: map_map)
qed

lemma Record_ok:
  assumes ok: "groups_ok (d, hist)"
  shows "groups_ok (errorStep (Record fault ids now arg) (d, hist))"
proof -
  obtain x d' where tx: "IngestErrorBatchTx fault ids now arg d = (x, d')" by fastforce
  show ?thesis
  proof (cases x)
    case (Inl e)
    then have "d' = d" using execTx_cases [OF tx [unfolded IngestErrorBatchTx_def]] by auto
    then show ?thesis using ok tx Inl by simp
  next
    case (Inr u)
    then have "ingestError fault ids now arg d = (Inr u, d')"
      using execTx_cases [OF tx [unfolded IngestErrorBatchTx_def]] by auto
    then obtain eg d1 where 1: "UpsertErrorGroup fault (fst ids) now arg d = (Inr eg, d1)"
      and 2: "eb_groups d' = mergedGroups arg (eg_ID eg) (eb_groups d1)"
      by (rule ingestError_groups)
    from 1 have "groups_ok (d', hist @ [arg])"
    proof (cases rule: UpsertErrorGroup_Inr)
      case new
      then show ?thesis
        using groups_ok_new [OF ok new(1,2)] 2 by (simp add: freshGroup_keys)
    next
      case (again g)
      then show ?thesis
        using groups_ok_again [OF ok again(1,2)] 2 by (simp add: seenAgain_keys)
    qed
    then show ?thesis using tx Inr by simp
  qed
qed

lemma errorStep_ok: "groups_ok s \<Longrightarrow> groups_ok (errorStep e s)"
  by (cases s; cases e) (simp_all add: Record_ok status_ok del: errorStep.simps(1))

lemma fold_errorStep_ok: "groups_ok s \<Longrightarrow> groups_ok (fold errorStep es s)"
  by (induction es arbitrary: s) (simp_all add: errorStep_ok)


text \<open>An error that is recorded, resolved and recorded again; a recording for an unknown environment fails.\<close>

definition exampleError :: "string \<Rightarrow> int \<Rightarrow> int list \<Rightarrow> IngestErrorBatchParams" where
  "exampleError envID t uids =
     \<lparr> ie_EnvID = envID, ie_TenantID = ''t1'', ie_Signature = ''orm'', ie_ErrorType = ''orm'', ie_Message = [], ie_Module = None,
       ie_Model = None, ie_Timestamp = t, ie_AffectedUIDs = uids, ie_RawTraceRef = None, ie_SpikeThreshold = 0 \<rparr>"

definition exampleErrors :: "error_event list" where
  "exampleErrors =
     [Record (\<lambda>_. None) (''g1'', ''a1'', ''a2'') 0 (exampleError ''e1'' 5 [7]),
      Resolve (\<lambda>_. None) 1 ''g1'' None ''e1'',
      Record (\<lambda>_. None) (''g2'', ''a3'', ''a4'') 2 (exampleError ''e1'' 3 [7]),
      Record (\<lambda>_. None) (''g3'', ''a5'', ''a6'') 3 (exampleError ''e2'' 4 [])]"

definition emptyErrors :: error_db where
  "emptyErrors = \<lparr> ab_envs = [(''e1'', ''t1'')], ab_alerts = [], ab_channels = [], ab_deliveries = [], eb_groups = [] \<rparr>"

lemma pgText_Nil: "pgText []"
  by (simp add: pgText_def runes.simps)

lemmas ingest_simps =
  IngestErrorBatchTx_def execTx_def ingestError_def UpsertErrorGroup_def insertRow_def freshGroup_def seenAgain_def closedStatus_def
  groupFor_def appendUsers_def AppendAffectedUsers_def exec_def mergeUsers_def wasClosed_def GetErrorGroupBySignature_def query_def
  limit1_def checkForReopenAlert_def checkForSpikeAlert_def CreateAlert_def ResolveErrorGroup_def changeGroup_def groupIs_def
  pgText_Nil Let_def

lemma example_error_groups:
  "map (\<lambda>g. (eg_OccurrenceCount g, eg_FirstSeen g, eg_LastSeen g, eg_AffectedUsers g, eg_Status g))
     (eb_groups (fst (errorRun exampleErrors emptyErrors))) = [(2, 5, 3, [7], ''open'')]"
  "map al_Type (ab_alerts (fst (errorRun exampleErrors emptyErrors))) = [''error_reopen'']"
  by (simp_all add: errorRun_def exampleErrors_def emptyErrors_def exampleError_def ingest_simps)


subsection \<open>A resolved error that comes back\<close>

lemma CreateAlert_alerts:
  "CreateAlert fault i now e t s m md d = (Inr a, d') \<Longrightarrow>
   ab_alerts d' = ab_alerts d @ [a] \<and> al_EnvID a = e \<and> al_Type a = t \<and> al_Severity a = s"
  by (auto simp: CreateAlert_def insertRow_Inr Let_def)

lemma checkForReopenAlert_alerts:
  assumes "checkForReopenAlert fault i now eg arg c d = (None, d')"
  shows "map (\<lambda>a. (al_EnvID a, al_Type a, al_Severity a)) (ab_alerts d') =
    map (\<lambda>a. (al_EnvID a, al_Type a, al_Severity a)) (ab_alerts d) @
      (if c \<and> eg_Status eg = ''open'' then [(ie_EnvID arg, ''error_reopen'', ''critical'')] else [])"
  using assms by (auto simp: checkForReopenAlert_def split: if_splits sum.splits prod.splits dest: CreateAlert_alerts)

lemma UpsertErrorGroup_alerts: "UpsertErrorGroup fault i now arg d = (x, d') \<Longrightarrow> ab_alerts d' = ab_alerts d"
  by (auto simp: UpsertErrorGroup_def insertRow_def Let_def split: if_splits option.splits list.splits prod.splits)

lemma appendUsers_alerts: "appendUsers fault arg gid d = (x, d') \<Longrightarrow> ab_alerts d' = ab_alerts d"
  by (auto simp: appendUsers_def AppendAffectedUsers_def exec_def split: if_splits option.splits prod.splits)

lemma same_key: "distinct (map groupKey gs) \<Longrightarrow> g \<in> set gs \<Longrightarrow> g' \<in> set gs \<Longrightarrow> groupKey g = groupKey g' \<Longrightarrow> g = g'"
  by (auto simp: distinct_map dest: inj_onD)

lemma wasClosed_iff:
  assumes "distinct (map groupKey (eb_groups d))" "fault ''GetErrorGroupBySignature'' = None"
  shows "wasClosed fault arg d \<longleftrightarrow>
    (\<exists>g \<in> set (eb_groups d). groupKey g = (ie_EnvID arg, ie_Signature arg) \<and> closedStatus (eg_Status g))"
proof (cases "filter (groupFor (ie_EnvID arg) (ie_Signature arg)) (eb_groups d)")
  case Nil
  then show ?thesis
    using assms(2) by (auto simp: wasClosed_def GetErrorGroupBySignature_def query_def limit1_def filter_empty_conv groupFor_key)
next
  case (Cons g gs)
  have g: "g \<in> set (eb_groups d)" "groupKey g = (ie_EnvID arg, ie_Signature arg)"
    using filter_eq_ConsD [OF Cons] by (auto simp: groupFor_key)
  have "g' = g" if "g' \<in> set (eb_groups d)" "groupKey g' = (ie_EnvID arg, ie_Signature arg)" for g'
    using same_key [OF assms(1) that(1) g(1)] that(2) g(2) by simp
  moreover have "wasClosed fault arg d \<longleftrightarrow> closedStatus (eg_Status g)"
    using assms(2) Cons by (simp add: wasClosed_def GetErrorGroupBySignature_def query_def limit1_def)
  ultimately show ?thesis using g by blast
qed

lemma mergedGroups_status: "g' \<in> set (mergedGroups arg gid gs) \<Longrightarrow> \<exists>g \<in> set gs. groupKey g' = groupKey g \<and> eg_Status g' = eg_Status g"
  by (force simp: mergedGroups_def mergeUsers_def groupKey_def split: if_splits)


definition resolvedTable :: error_db where
  "resolvedTable =
     emptyErrors \<lparr> eb_groups := [(freshGroup ''g1'' 0 (exampleError ''e1'' 5 [7])) \<lparr> eg_Status := ''resolved'' \<rparr>] \<rparr>"

lemma resolvedTable_recorded:
  "fst (IngestErrorBatchTx (\<lambda>_. None) (''g2'', ''a3'', ''a4'') 2 (exampleError ''e1'' 3 [7]) resolvedTable) = Inr ()"
  by (simp add: resolvedTable_def emptyErrors_def exampleError_def ingest_simps)


end
