(* ===== verification/Budget_Store.thy ===== *)
theory Budget_Store
  imports Error_Store
begin

text \<open>
  The tables of performance budgets and their samples (\<^verbatim>\<open>db/sqlc/perf_budges.sql.go\<close>,
  \<^verbatim>\<open>db/migrations/000009_perf_budgets.up.sql\<close>). A column of type NUMERIC is a rational; \<open>collate\<close> is the order of texts in the database.
\<close>

record budget_row =
  pb_ID :: string
  pb_EnvID :: string
  pb_Module :: string
  pb_Endpoint :: string
  pb_ThresholdPct :: int
  pb_IsActive :: bool
  pb_CreatedAt :: int

record sample_row =
  sp_ID :: string
  sp_BudgetID :: string
  sp_OverheadPct :: string
  sp_TotalMs :: "int option"
  sp_ModuleMs :: "int option"
  sp_Breakdown :: "json option"
  sp_SampledAt :: int

record budget_db = error_db +
  bb_budgets :: "budget_row list"
  bb_samples :: "sample_row list"

text \<open>Results one after the other: the first error ends them.\<close>

fun sequenceR :: "('e + 'a) list \<Rightarrow> 'e + 'a list" where
  "sequenceR [] = Inr []"
| "sequenceR (Inl e # rs) = Inl e"
| "sequenceR (Inr x # rs) = (case sequenceR rs of Inl e \<Rightarrow> Inl e | Inr xs \<Rightarrow> Inr (x # xs))"

text \<open>Of an environment the services here only need that it belongs to the tenant.\<close>

definition ownEnvironment :: "faults \<Rightarrow> string \<Rightarrow> string \<Rightarrow> 'z alert_db_scheme \<Rightarrow> go_error + (string \<times> string)" where
  "ownEnvironment fault envID tid d =
     query fault ''GetEnvironmentByID'' (limit1 hd (filter (\<lambda>e. e = (envID, tid)) (ab_envs d)))"

subsection \<open>Budgets\<close>

definition budgetIs :: "string \<Rightarrow> string \<Rightarrow> budget_row \<Rightarrow> bool" where
  "budgetIs bid envID b \<longleftrightarrow> pb_ID b = bid \<and> pb_EnvID b = envID"

definition CreatePerfBudget ::
  "faults \<Rightarrow> string \<Rightarrow> int \<Rightarrow> string \<Rightarrow> string \<Rightarrow> string \<Rightarrow> int \<Rightarrow> 'z budget_db_scheme \<Rightarrow> (go_error + budget_row) \<times> 'z budget_db_scheme" where
  "CreatePerfBudget fault newID now envID md endpoint pct d =
     (let r = \<lparr> pb_ID = newID, pb_EnvID = envID, pb_Module = md, pb_Endpoint = endpoint, pb_ThresholdPct = pct,
                pb_IsActive = True, pb_CreatedAt = now \<rparr> in
      insertRow fault ''CreatePerfBudget''
        [(newID \<in> pb_ID ` set (bb_budgets d), violation ''23505'' ''perf_budgets_pkey''),
         (list_ex (\<lambda>b. pb_EnvID b = envID \<and> pb_Module b = md \<and> pb_Endpoint b = endpoint) (bb_budgets d),
          violation ''23505'' ''perf_budgets_env_id_module_endpoint_key''),
         (envID \<notin> fst ` set (ab_envs d), violation ''23503'' ''perf_budgets_env_id_fkey'')]
        r d (d \<lparr> bb_budgets := bb_budgets d @ [r] \<rparr>))"

definition GetPerfBudget :: "faults \<Rightarrow> string \<Rightarrow> string \<Rightarrow> 'z budget_db_scheme \<Rightarrow> go_error + budget_row" where
  "GetPerfBudget fault bid envID d = query fault ''GetPerfBudget'' (limit1 hd (filter (budgetIs bid envID) (bb_budgets d)))"

definition byModuleEndpoint :: "(string \<Rightarrow> nat) \<Rightarrow> budget_row list \<Rightarrow> budget_row list" where
  "byModuleEndpoint collate bs = sort_key (\<lambda>b. collate (pb_Module b)) (sort_key (\<lambda>b. collate (pb_Endpoint b)) bs)"

definition ListPerfBudgets :: "(string \<Rightarrow> nat) \<Rightarrow> faults \<Rightarrow> string \<Rightarrow> 'z budget_db_scheme \<Rightarrow> go_error + budget_row list" where
  "ListPerfBudgets collate fault envID d =
     query fault ''ListPerfBudgets''
       (Inr (byModuleEndpoint collate (filter (\<lambda>b. pb_EnvID b = envID \<and> pb_IsActive b) (bb_budgets d))))"

definition ListAllPerfBudgetsByEnv :: "(string \<Rightarrow> nat) \<Rightarrow> faults \<Rightarrow> string \<Rightarrow> 'z budget_db_scheme \<Rightarrow> go_error + budget_row list" where
  "ListAllPerfBudgetsByEnv collate fault envID d =
     query fault ''ListAllPerfBudgetsByEnv''
       (Inr (byModuleEndpoint collate (filter (\<lambda>b. pb_EnvID b = envID) (bb_budgets d))))"

definition UpdatePerfBudget ::
  "faults \<Rightarrow> string \<Rightarrow> string \<Rightarrow> int \<Rightarrow> bool \<Rightarrow> 'z budget_db_scheme \<Rightarrow> (go_error + budget_row) \<times> 'z budget_db_scheme" where
  "UpdatePerfBudget fault bid envID pct active d =
     (let upd = (\<lambda>b. b \<lparr> pb_ThresholdPct := pct, pb_IsActive := active \<rparr>) in
      case query fault ''UpdatePerfBudget'' (limit1 hd (filter (budgetIs bid envID) (bb_budgets d))) of
        Inl e \<Rightarrow> (Inl e, d)
      | Inr b \<Rightarrow> (Inr (upd b), d \<lparr> bb_budgets := map (\<lambda>b. if budgetIs bid envID b then upd b else b) (bb_budgets d) \<rparr>))"

text \<open>Deleting a budget deletes its samples.\<close>

definition DeletePerfBudget :: "faults \<Rightarrow> string \<Rightarrow> string \<Rightarrow> 'z budget_db_scheme \<Rightarrow> go_error option \<times> 'z budget_db_scheme" where
  "DeletePerfBudget fault bid envID d =
     exec fault ''DeletePerfBudget'' d
       (d \<lparr> bb_budgets := filter (Not \<circ> budgetIs bid envID) (bb_budgets d),
            bb_samples := filter (\<lambda>s. sp_BudgetID s \<notin> pb_ID ` set (filter (budgetIs bid envID) (bb_budgets d))) (bb_samples d) \<rparr>)"

subsection \<open>Samples\<close>

text \<open>
  The percentage comes as a decimal text for a column NUMERIC(5,2), which takes up to 999.99. A statement in a loop has a fault of its own for
  each budget.
\<close>

definition numericOf :: "string \<Rightarrow> rat" where
  "numericOf s = (case s of CHR ''-'' # t \<Rightarrow> - decimalRat t | _ \<Rightarrow> decimalRat s)"

definition InsertBudgetSample ::
  "faults \<Rightarrow> string \<Rightarrow> int \<Rightarrow> string \<Rightarrow> string \<Rightarrow> int option \<Rightarrow> int option \<Rightarrow> json option \<Rightarrow> 'z budget_db_scheme \<Rightarrow>
   (go_error + sample_row) \<times> 'z budget_db_scheme" where
  "InsertBudgetSample fault newID now bid pct totMs modMs breakdown d =
     (let r = \<lparr> sp_ID = newID, sp_BudgetID = bid, sp_OverheadPct = pct, sp_TotalMs = totMs, sp_ModuleMs = modMs,
                sp_Breakdown = breakdown, sp_SampledAt = now \<rparr> in
      insertRow fault (''InsertBudgetSample '' @ bid)
        [(\<bar>numericOf pct\<bar> \<ge> 1000, violation ''22003'' []),
         (newID \<in> sp_ID ` set (bb_samples d), violation ''23505'' ''perf_budget_samples_pkey''),
         (bid \<notin> pb_ID ` set (bb_budgets d), violation ''23503'' ''perf_budget_samples_budget_id_fkey'')]
        r d (d \<lparr> bb_samples := bb_samples d @ [r] \<rparr>))"

definition newestSamples :: "sample_row list \<Rightarrow> sample_row list" where
  "newestSamples = sort_key (\<lambda>s. - sp_SampledAt s)"

definition ListBudgetSamples :: "faults \<Rightarrow> string \<Rightarrow> nat \<Rightarrow> 'z budget_db_scheme \<Rightarrow> go_error + sample_row list" where
  "ListBudgetSamples fault bid limit d =
     query fault ''ListBudgetSamples'' (Inr (take limit (newestSamples (filter (\<lambda>s. sp_BudgetID s = bid) (bb_samples d)))))"

definition ListBudgetSamplesBetween :: "faults \<Rightarrow> string \<Rightarrow> int \<Rightarrow> int \<Rightarrow> 'z budget_db_scheme \<Rightarrow> go_error + sample_row list" where
  "ListBudgetSamplesBetween fault bid since until d =
     query fault ''ListBudgetSamplesBetween''
       (Inr (sort_key sp_SampledAt
          (filter (\<lambda>s. sp_BudgetID s = bid \<and> since \<le> sp_SampledAt s \<and> sp_SampledAt s \<le> until) (bb_samples d))))"

definition GetLatestBudgetSample :: "faults \<Rightarrow> string \<Rightarrow> 'z budget_db_scheme \<Rightarrow> go_error + sample_row" where
  "GetLatestBudgetSample fault bid d =
     query fault ''GetLatestBudgetSample'' (limit1 hd (newestSamples (filter (\<lambda>s. sp_BudgetID s = bid) (bb_samples d))))"

definition GetBudgetSampleByID :: "faults \<Rightarrow> string \<Rightarrow> string \<Rightarrow> 'z budget_db_scheme \<Rightarrow> go_error + sample_row" where
  "GetBudgetSampleByID fault sid bid d =
     query fault ''GetBudgetSampleByID'' (limit1 hd (filter (\<lambda>s. sp_ID s = sid \<and> sp_BudgetID s = bid) (bb_samples d)))"

text \<open>
  The average has two decimals, rounded half away from zero. The maximum is read into an \<^verbatim>\<open>int32\<close>, which fails unless
  it is a whole number.
\<close>

record trend_row =
  tr_AvgOverhead :: rat
  tr_MaxOverhead :: int
  tr_SampleCount :: nat

definition round2 :: "rat \<Rightarrow> rat" where
  "round2 x = (if 0 \<le> x then of_int \<lfloor>x * 100 + 1 / 2\<rfloor> / 100 else - (of_int \<lfloor>1 / 2 - x * 100\<rfloor> / 100))"

definition GetBudgetAverage7d :: "faults \<Rightarrow> int \<Rightarrow> string \<Rightarrow> 'z budget_db_scheme \<Rightarrow> go_error + trend_row" where
  "GetBudgetAverage7d fault now bid d =
     (let pcts = map (\<lambda>s. numericOf (sp_OverheadPct s))
            (filter (\<lambda>s. sp_BudgetID s = bid \<and> now - minutes (7 * 24 * 60) < sp_SampledAt s) (bb_samples d));
          top = (if pcts = [] then 0 else Max (set pcts))
      in query fault ''GetBudgetAverage7d''
           (if top \<noteq> of_int \<lfloor>top\<rfloor> then Inl (Plain ''can not scan into dest[1]: cannot convert to integer'')
            else Inr \<lparr> tr_AvgOverhead = if pcts = [] then 0 else round2 (sum_list pcts / of_nat (length pcts)),
                       tr_MaxOverhead = \<lfloor>top\<rfloor>, tr_SampleCount = length pcts \<rparr>))"

text \<open>\<open>DeleteOldBudgetSamples\<close>: of the budgets of the environments of a tenant.\<close>

definition tenantBudget :: "string \<Rightarrow> 'z budget_db_scheme \<Rightarrow> string \<Rightarrow> bool" where
  "tenantBudget tid d bid \<longleftrightarrow> list_ex (\<lambda>b. pb_ID b = bid \<and> (pb_EnvID b, tid) \<in> set (ab_envs d)) (bb_budgets d)"

definition DeleteOldBudgetSamples :: "faults \<Rightarrow> string \<Rightarrow> int \<Rightarrow> 'z budget_db_scheme \<Rightarrow> (go_error + nat) \<times> 'z budget_db_scheme" where
  "DeleteOldBudgetSamples fault tid cutoff d =
     (let old = (\<lambda>s. tenantBudget tid d (sp_BudgetID s) \<and> sp_SampledAt s < cutoff) in
      case fault ''DeleteOldBudgetSamples'' of
        Some e \<Rightarrow> (Inl e, d)
      | None \<Rightarrow> (Inr (length (filter old (bb_samples d))), d \<lparr> bb_samples := filter (Not \<circ> old) (bb_samples d) \<rparr>))"

end
