(* ===== verification/Budget_Service.thy ===== *)
theory Budget_Service
  imports Budget_Store Profiler_Waterfall
begin

text \<open>
  The budget service (\<^verbatim>\<open>internal/service/budget_service.go\<close>): performance budgets of the modules of an installation and the overhead that the
  profiler events of a batch mean for them. \<open>arrange\<close> stands for the random order of a map followed by \<^verbatim>\<open>sort.Slice\<close>. Durations
  are in milliseconds and their sums stay below the range of \<^verbatim>\<open>int\<close>.
\<close>

subsection \<open>Statistics of the modules\<close>

record funcKey =
  fk_model :: string
  fk_method :: string
  fk_category :: string

record funcStat =
  fs_durationMS :: int
  fs_callCount :: int

record moduleStats =
  ms_totalMS :: int
  ms_sqlMS :: int
  ms_sqlCount :: int
  ms_ormMS :: int
  ms_ormCount :: int
  ms_pythonMS :: int
  ms_functions :: "(funcKey, funcStat) gomap"

definition emptyStats :: moduleStats where
  "emptyStats =
     \<lparr> ms_totalMS = 0, ms_sqlMS = 0, ms_sqlCount = 0, ms_ormMS = 0, ms_ormCount = 0, ms_pythonMS = 0, ms_functions = [] \<rparr>"

definition categoryStats :: "ProfilerEvent \<Rightarrow> moduleStats \<Rightarrow> moduleStats" where
  "categoryStats ev ms =
     (if pe_Category ev = catSQL then ms \<lparr> ms_sqlMS := ms_sqlMS ms + pe_DurationMS ev, ms_sqlCount := ms_sqlCount ms + 1 \<rparr>
      else if pe_Category ev = catORM then ms \<lparr> ms_ormMS := ms_ormMS ms + pe_DurationMS ev, ms_ormCount := ms_ormCount ms + 1 \<rparr>
      else if pe_Category ev = catPython \<or> pe_Category ev = ''profiler'' then ms \<lparr> ms_pythonMS := ms_pythonMS ms + pe_DurationMS ev \<rparr>
      else ms)"

definition funcKeyOf :: "ProfilerEvent \<Rightarrow> funcKey" where
  "funcKeyOf ev = \<lparr> fk_model = pe_Model ev, fk_method = pe_Method ev, fk_category = pe_Category ev \<rparr>"

definition functionStats :: "ProfilerEvent \<Rightarrow> (funcKey, funcStat) gomap \<Rightarrow> (funcKey, funcStat) gomap" where
  "functionStats ev fs =
     (if pe_Model ev = [] \<and> pe_Method ev = [] then fs
      else
        let st = (case map_of fs (funcKeyOf ev) of None \<Rightarrow> \<lparr> fs_durationMS = 0, fs_callCount = 0 \<rparr> | Some st \<Rightarrow> st)
        in AList.update (funcKeyOf ev) \<lparr> fs_durationMS = fs_durationMS st + pe_DurationMS ev, fs_callCount = fs_callCount st + 1 \<rparr> fs)"

definition addEvent :: "ProfilerEvent \<Rightarrow> moduleStats \<Rightarrow> moduleStats" where
  "addEvent ev ms =
     (let ms' = categoryStats ev (ms \<lparr> ms_totalMS := ms_totalMS ms + pe_DurationMS ev \<rparr>)
      in ms' \<lparr> ms_functions := functionStats ev (ms_functions ms') \<rparr>)"

definition aggregateStep :: "int \<times> (string, moduleStats) gomap \<Rightarrow> ProfilerEvent \<Rightarrow> int \<times> (string, moduleStats) gomap" where
  "aggregateStep st ev =
     (let totMs = fst st + pe_DurationMS ev in
      if pe_Module ev = [] then (totMs, snd st)
      else
        let ms = (case map_of (snd st) (pe_Module ev) of None \<Rightarrow> emptyStats | Some ms \<Rightarrow> ms)
        in (totMs, AList.update (pe_Module ev) (addEvent ev ms) (snd st)))"

definition aggregateModuleStats :: "ProfilerEvent list \<Rightarrow> int \<times> (string, moduleStats) gomap" where
  "aggregateModuleStats events = foldl aggregateStep (0, []) events"

subsection \<open>Breakdown\<close>

definition functionPct :: "moduleStats \<Rightarrow> funcStat \<Rightarrow> go_float" where
  "functionPct ms st =
     (let pct = (if 0 < ms_totalMS ms
                 then fmul (fdiv (float64_of_int (fs_durationMS st)) (float64_of_int (ms_totalMS ms))) (Fin 100) else Fin 0)
      in fdiv (fRound (fmul pct (Fin 100))) (Fin 100))"

definition functionEntry :: "moduleStats \<Rightarrow> funcKey \<times> funcStat \<Rightarrow> go_error + json" where
  "functionEntry ms f =
     (case marshalFloat (functionPct ms (snd f)) of
        Inl e \<Rightarrow> Inl e
      | Inr pct \<Rightarrow>
          Inr (JObject [(''call_count'', JInt (fs_callCount (snd f))), (''category'', JString (fk_category (fst f))),
                        (''duration_ms'', JInt (fs_durationMS (snd f))), (''method'', JString (fk_method (fst f))),
                        (''model'', JString (fk_model (fst f))), (''pct'', pct)]))"

type_synonym arranger = "(funcKey \<times> funcStat) list \<Rightarrow> (funcKey \<times> funcStat) list"

definition createBreakdown :: "arranger \<Rightarrow> moduleStats \<Rightarrow> go_error + json" where
  "createBreakdown arrange ms =
     (case sequenceR (map (functionEntry ms) (arrange (ms_functions ms))) of
        Inl e \<Rightarrow> Inl e
      | Inr fs \<Rightarrow>
          Inr (JObject [(''functions'', JArray fs), (''orm_count'', JInt (ms_ormCount ms)), (''orm_ms'', JInt (ms_ormMS ms)),
                        (''python_ms'', JInt (ms_pythonMS ms)), (''sql_count'', JInt (ms_sqlCount ms)), (''sql_ms'', JInt (ms_sqlMS ms))]))"

subsection \<open>Overhead\<close>

record OverheadBreach =
  ob_BudgetID :: string
  ob_Module :: string
  ob_Endpoint :: string
  ob_OverheadPct :: go_float
  ob_ThresholdPct :: int
  ob_TotalMS :: int
  ob_ModuleMS :: int
  ob_Breakdown :: json

record OverheadResult =
  or_SamplesInserted :: nat
  or_Breaches :: "OverheadBreach list"

definition overheadOf :: "int \<Rightarrow> moduleStats \<Rightarrow> go_float" where
  "overheadOf totMs ms = fmul (fdiv (float64_of_int (ms_totalMS ms)) (float64_of_int totMs)) (Fin 100)"

definition breachOf :: "int \<Rightarrow> moduleStats \<Rightarrow> json \<Rightarrow> budget_row \<Rightarrow> OverheadBreach" where
  "breachOf totMs ms breakdown b =
     \<lparr> ob_BudgetID = pb_ID b, ob_Module = pb_Module b, ob_Endpoint = pb_Endpoint b, ob_OverheadPct = overheadOf totMs ms,
       ob_ThresholdPct = pb_ThresholdPct b, ob_TotalMS = totMs, ob_ModuleMS = ms_totalMS ms, ob_Breakdown = breakdown \<rparr>"

text \<open>What the database gives to a call; \<open>sr_ids\<close> has the identifier of the new sample of a budget.\<close>

record service_call =
  sr_fault :: faults
  sr_ids :: "string \<Rightarrow> string"
  sr_now :: int

definition sampleBudget ::
  "arranger \<Rightarrow> service_call \<Rightarrow> int \<Rightarrow> (string, moduleStats) gomap \<Rightarrow> budget_row \<Rightarrow> OverheadResult \<times> 'z budget_db_scheme \<Rightarrow>
   OverheadResult \<times> 'z budget_db_scheme" where
  "sampleBudget arrange c totMs byModule b st =
     (case st of (res, d) \<Rightarrow>
        case map_of byModule (pb_Module b) of
          None \<Rightarrow> (res, d)
        | Some ms \<Rightarrow>
            case createBreakdown arrange ms of
              Inl _ \<Rightarrow> (res, d)
            | Inr breakdown \<Rightarrow>
                (case InsertBudgetSample (sr_fault c) (sr_ids c (pb_ID b)) (sr_now c) (pb_ID b) (fmtFixed 2 (overheadOf totMs ms))
                        (Some (int32 totMs)) (Some (int32 (ms_totalMS ms))) (Some breakdown) d of
                   (Inl _, d') \<Rightarrow> (res, d')
                 | (Inr _, d') \<Rightarrow>
                     (res \<lparr> or_SamplesInserted := or_SamplesInserted res + 1,
                            or_Breaches := or_Breaches res @
                              (if fless (float64_of_int (pb_ThresholdPct b)) (overheadOf totMs ms)
                               then [breachOf totMs ms breakdown b] else []) \<rparr>, d')))"

definition CalculateOverhead ::
  "arranger \<Rightarrow> (string \<Rightarrow> nat) \<Rightarrow> service_call \<Rightarrow> string \<Rightarrow> ProfilerEvent list \<Rightarrow> 'z budget_db_scheme \<Rightarrow>
   (go_error + OverheadResult) \<times> 'z budget_db_scheme" where
  "CalculateOverhead arrange collate c envID events d =
     (let none = \<lparr> or_SamplesInserted = 0, or_Breaches = [] \<rparr> in
      if events = [] then (Inr none, d)
      else case ListPerfBudgets collate (sr_fault c) envID d of
        Inl e \<Rightarrow> (Inl (Wrap ''list active budgets'' e), d)
      | Inr budgets \<Rightarrow>
          if budgets = [] then (Inr none, d)
          else
            let (totMs, byModule) = aggregateModuleStats events in
            if totMs = 0 then (Inr none, d)
            else (case fold (sampleBudget arrange c totMs byModule) budgets (none, d) of (res, d') \<Rightarrow> (Inr res, d')))"

subsection \<open>Managing budgets\<close>

record service =
  sv_uni :: unicode
  sv_title :: "string \<Rightarrow> string"
  sv_collate :: "string \<Rightarrow> nat"

definition mapped :: "service \<Rightarrow> go_error \<Rightarrow> go_error" where
  "mapped sv e = ApiErr (FromPgError (sv_uni sv) (sv_title sv) e)"

text \<open>The checks with which the operations begin: the environment belongs to the tenant, the budget to the environment.\<close>

definition inEnvironment ::
  "service \<Rightarrow> service_call \<Rightarrow> string \<Rightarrow> string \<Rightarrow> ('z alert_db_scheme \<Rightarrow> (go_error + 'a) \<times> 'z alert_db_scheme) \<Rightarrow>
   'z alert_db_scheme \<Rightarrow> (go_error + 'a) \<times> 'z alert_db_scheme" where
  "inEnvironment sv c tid envID f d =
     (case ownEnvironment (sr_fault c) envID tid d of Inl e \<Rightarrow> (Inl (mapped sv e), d) | Inr _ \<Rightarrow> f d)"

definition withBudget ::
  "service \<Rightarrow> service_call \<Rightarrow> string \<Rightarrow> string \<Rightarrow> string \<Rightarrow> (budget_row \<Rightarrow> 'z budget_db_scheme \<Rightarrow> (go_error + 'a) \<times> 'z budget_db_scheme) \<Rightarrow>
   'z budget_db_scheme \<Rightarrow> (go_error + 'a) \<times> 'z budget_db_scheme" where
  "withBudget sv c tid envID bid f =
     inEnvironment sv c tid envID
       (\<lambda>d. case GetPerfBudget (sr_fault c) bid envID d of Inl e \<Rightarrow> (Inl (mapped sv e), d) | Inr b \<Rightarrow> f b d)"

record BudgetResponse =
  br_ID :: string
  br_EnvID :: string
  br_Module :: string
  br_Endpoint :: string
  br_ThresholdPct :: int
  br_IsActive :: bool
  br_CreatedAt :: int

definition toBudgetResponse :: "budget_row \<Rightarrow> BudgetResponse" where
  "toBudgetResponse b =
     \<lparr> br_ID = pb_ID b, br_EnvID = pb_EnvID b, br_Module = pb_Module b, br_Endpoint = pb_Endpoint b,
       br_ThresholdPct = pb_ThresholdPct b, br_IsActive = pb_IsActive b, br_CreatedAt = pb_CreatedAt b \<rparr>"

record BudgetSampleResponse =
  bs_ID :: string
  bs_BudgetID :: string
  bs_OverheadPct :: string
  bs_TotalMS :: "int option"
  bs_ModuleMS :: "int option"
  bs_Breakdown :: "json option"
  bs_SampledAt :: int

definition toBudgetSampleResponse :: "sample_row \<Rightarrow> BudgetSampleResponse" where
  "toBudgetSampleResponse x =
     \<lparr> bs_ID = sp_ID x, bs_BudgetID = sp_BudgetID x, bs_OverheadPct = sp_OverheadPct x, bs_TotalMS = sp_TotalMs x,
       bs_ModuleMS = sp_ModuleMs x, bs_Breakdown = sp_Breakdown x, bs_SampledAt = sp_SampledAt x \<rparr>"

record BudgetTrendResponse =
  bt_BudgetID :: string
  bt_AvgOverhead :: rat
  bt_MaxOverhead :: int
  bt_SampleCount :: nat

definition trendResponse :: "string \<Rightarrow> trend_row \<Rightarrow> BudgetTrendResponse" where
  "trendResponse bid t =
     \<lparr> bt_BudgetID = bid, bt_AvgOverhead = tr_AvgOverhead t, bt_MaxOverhead = tr_MaxOverhead t, bt_SampleCount = tr_SampleCount t \<rparr>"

record CreateBudgetRequest =
  cb_Module :: string
  cb_Endpoint :: string
  cb_ThresholdPct :: int

definition Budget_Create ::
  "service \<Rightarrow> service_call \<Rightarrow> string \<Rightarrow> string \<Rightarrow> CreateBudgetRequest \<Rightarrow> 'z budget_db_scheme \<Rightarrow> (go_error + BudgetResponse) \<times> 'z budget_db_scheme" where
  "Budget_Create sv c tid envID req =
     inEnvironment sv c tid envID
       (\<lambda>d. case CreatePerfBudget (sr_fault c) (sr_ids c []) (sr_now c) envID (cb_Module req) (cb_Endpoint req) (cb_ThresholdPct req) d of
              (Inl e, d') \<Rightarrow> (Inl (mapped sv e), d')
            | (Inr b, d') \<Rightarrow> (Inr (toBudgetResponse b), d'))"

record BudgetDetailResponse =
  bd_Budget :: BudgetResponse
  bd_LatestSample :: "BudgetSampleResponse option"
  bd_Trend :: "BudgetTrendResponse option"

definition Budget_GetByID ::
  "service \<Rightarrow> service_call \<Rightarrow> string \<Rightarrow> string \<Rightarrow> string \<Rightarrow> 'z budget_db_scheme \<Rightarrow> (go_error + BudgetDetailResponse) \<times> 'z budget_db_scheme" where
  "Budget_GetByID sv c tid envID bid =
     withBudget sv c tid envID bid
       (\<lambda>b d. (Inr \<lparr> bd_Budget = toBudgetResponse b,
                    bd_LatestSample = (case GetLatestBudgetSample (sr_fault c) bid d of
                       Inl _ \<Rightarrow> None | Inr x \<Rightarrow> Some (toBudgetSampleResponse x)),
                    bd_Trend = (case GetBudgetAverage7d (sr_fault c) (sr_now c) bid d of
                       Inl _ \<Rightarrow> None | Inr t \<Rightarrow> if 0 < tr_SampleCount t then Some (trendResponse bid t) else None) \<rparr>, d))"

definition Budget_List ::
  "service \<Rightarrow> service_call \<Rightarrow> string \<Rightarrow> string \<Rightarrow> bool \<Rightarrow> 'z budget_db_scheme \<Rightarrow>
   (go_error + BudgetResponse list \<times> nat) \<times> 'z budget_db_scheme" where
  "Budget_List sv c tid envID includeInactive =
     inEnvironment sv c tid envID
       (\<lambda>d. case (if includeInactive then ListAllPerfBudgetsByEnv (sv_collate sv) (sr_fault c) envID d
                  else ListPerfBudgets (sv_collate sv) (sr_fault c) envID d) of
              Inl e \<Rightarrow> (Inl (mapped sv e), d)
            | Inr budgets \<Rightarrow> (Inr (map toBudgetResponse budgets, length budgets), d))"

record UpdateBudgetRequest =
  ub_ThresholdPct :: int
  ub_IsActive :: "bool option"

definition Budget_Update ::
  "service \<Rightarrow> service_call \<Rightarrow> string \<Rightarrow> string \<Rightarrow> string \<Rightarrow> UpdateBudgetRequest \<Rightarrow> 'z budget_db_scheme \<Rightarrow>
   (go_error + BudgetResponse) \<times> 'z budget_db_scheme" where
  "Budget_Update sv c tid envID bid req =
     inEnvironment sv c tid envID
       (\<lambda>d. case UpdatePerfBudget (sr_fault c) bid envID (ub_ThresholdPct req)
                    (case ub_IsActive req of None \<Rightarrow> True | Some a \<Rightarrow> a) d of
              (Inl e, d') \<Rightarrow> (Inl (mapped sv e), d')
            | (Inr b, d') \<Rightarrow> (Inr (toBudgetResponse b), d'))"

definition Budget_Delete ::
  "service \<Rightarrow> service_call \<Rightarrow> string \<Rightarrow> string \<Rightarrow> string \<Rightarrow> 'z budget_db_scheme \<Rightarrow> (go_error + unit) \<times> 'z budget_db_scheme" where
  "Budget_Delete sv c tid envID bid =
     inEnvironment sv c tid envID
       (\<lambda>d. case DeletePerfBudget (sr_fault c) bid envID d of
              (Some e, d') \<Rightarrow> (Inl (mapped sv e), d')
            | (None, d') \<Rightarrow> (Inr (), d'))"

definition Budget_ListSamples ::
  "service \<Rightarrow> service_call \<Rightarrow> string \<Rightarrow> string \<Rightarrow> string \<Rightarrow> int \<Rightarrow> 'z budget_db_scheme \<Rightarrow>
   (go_error + BudgetSampleResponse list \<times> nat) \<times> 'z budget_db_scheme" where
  "Budget_ListSamples sv c tid envID bid limit =
     withBudget sv c tid envID bid
       (\<lambda>b d. case ListBudgetSamples (sr_fault c) bid (nat (if limit \<le> 0 then 50 else limit)) d of
                Inl e \<Rightarrow> (Inl (mapped sv e), d)
              | Inr xs \<Rightarrow> (Inr (map toBudgetSampleResponse xs, length xs), d))"

definition Budget_GetTrend ::
  "service \<Rightarrow> service_call \<Rightarrow> string \<Rightarrow> string \<Rightarrow> string \<Rightarrow> 'z budget_db_scheme \<Rightarrow> (go_error + BudgetTrendResponse) \<times> 'z budget_db_scheme" where
  "Budget_GetTrend sv c tid envID bid =
     withBudget sv c tid envID bid
       (\<lambda>b d. case GetBudgetAverage7d (sr_fault c) (sr_now c) bid d of
                Inl e \<Rightarrow> (Inl (Wrap ''get budget trend'' e), d)
              | Inr t \<Rightarrow> (Inr (trendResponse bid t), d))"

subsection \<open>The breakdown of a sample\<close>

record FunctionStat =
  ft_Model :: string
  ft_Method :: string
  ft_Category :: string
  ft_DurationMS :: int
  ft_CallCount :: int
  ft_Pct :: go_float

definition functionFields :: "(string \<times> FunctionStat setter) list" where
  "functionFields =
     [(''model'', setString (\<lambda>x. ft_Model_update (\<lambda>_. x))), (''method'', setString (\<lambda>x. ft_Method_update (\<lambda>_. x))),
      (''category'', setString (\<lambda>x. ft_Category_update (\<lambda>_. x))), (''duration_ms'', setInt 64 (\<lambda>x. ft_DurationMS_update (\<lambda>_. x))),
      (''call_count'', setInt 64 (\<lambda>x. ft_CallCount_update (\<lambda>_. x))), (''pct'', setFloat (\<lambda>x. ft_Pct_update (\<lambda>_. x)))]"

definition zeroFunction :: FunctionStat where
  "zeroFunction =
     \<lparr> ft_Model = [], ft_Method = [], ft_Category = [], ft_DurationMS = 0, ft_CallCount = 0, ft_Pct = Fin 0 \<rparr>"

record FunctionBreakdownResponse =
  fb_SampleID :: string
  fb_BudgetID :: string
  fb_OverheadPct :: string
  fb_TotalMS :: "int option"
  fb_ModuleMS :: "int option"
  fb_SQLMS :: int
  fb_SQLCount :: int
  fb_ORMMS :: int
  fb_ORMCount :: int
  fb_PythonMS :: int
  fb_Functions :: "FunctionStat list"
  fb_SampledAt :: int

text \<open>An element of the wrong shape keeps what could be decoded of it; \<^verbatim>\<open>null\<close> is the list without elements.\<close>

definition setFunctions :: "FunctionBreakdownResponse setter" where
  "setFunctions v r =
     (case v of
        JArray fs \<Rightarrow> (None, r \<lparr> fb_Functions := map (\<lambda>f. snd (decodeStruct functionFields f zeroFunction)) fs \<rparr>)
      | _ \<Rightarrow> (None, r))"

text \<open>The error of \<^verbatim>\<open>json.Unmarshal\<close> is ignored. A JSONB object has one member of each name.\<close>

definition unmarshalField :: "(string \<times> json) list \<Rightarrow> string \<Rightarrow> 's setter \<Rightarrow> 's \<Rightarrow> 's" where
  "unmarshalField raw key f r = (case map_of raw key of None \<Rightarrow> r | Some v \<Rightarrow> snd (f v r))"

definition parseBreakdownJSON :: "json option \<Rightarrow> FunctionBreakdownResponse \<Rightarrow> FunctionBreakdownResponse" where
  "parseBreakdownJSON breakdown r =
     (case breakdown of
        Some (JObject raw) \<Rightarrow>
          unmarshalField raw ''functions'' setFunctions
            (unmarshalField raw ''python_ms'' (setInt 64 (\<lambda>x. fb_PythonMS_update (\<lambda>_. x)))
              (unmarshalField raw ''orm_count'' (setInt 64 (\<lambda>x. fb_ORMCount_update (\<lambda>_. x)))
                (unmarshalField raw ''orm_ms'' (setInt 64 (\<lambda>x. fb_ORMMS_update (\<lambda>_. x)))
                  (unmarshalField raw ''sql_count'' (setInt 64 (\<lambda>x. fb_SQLCount_update (\<lambda>_. x)))
                    (unmarshalField raw ''sql_ms'' (setInt 64 (\<lambda>x. fb_SQLMS_update (\<lambda>_. x))) r)))))
      | _ \<Rightarrow> r)"

definition breakdownResponse :: "sample_row \<Rightarrow> FunctionBreakdownResponse" where
  "breakdownResponse x =
     \<lparr> fb_SampleID = sp_ID x, fb_BudgetID = sp_BudgetID x, fb_OverheadPct = sp_OverheadPct x, fb_TotalMS = sp_TotalMs x,
       fb_ModuleMS = sp_ModuleMs x, fb_SQLMS = 0, fb_SQLCount = 0, fb_ORMMS = 0, fb_ORMCount = 0, fb_PythonMS = 0,
       fb_Functions = [], fb_SampledAt = sp_SampledAt x \<rparr>"

definition Budget_GetBreakdown ::
  "service \<Rightarrow> service_call \<Rightarrow> string \<Rightarrow> string \<Rightarrow> string \<Rightarrow> string \<Rightarrow> 'z budget_db_scheme \<Rightarrow>
   (go_error + FunctionBreakdownResponse) \<times> 'z budget_db_scheme" where
  "Budget_GetBreakdown sv c tid envID bid sid =
     withBudget sv c tid envID bid
       (\<lambda>b d. case GetBudgetSampleByID (sr_fault c) sid bid d of
                Inl e \<Rightarrow> (Inl (mapped sv e), d)
              | Inr x \<Rightarrow> (Inr (parseBreakdownJSON (sp_Breakdown x) (breakdownResponse x)), d))"

end
