(* ===== verification/Budget_Overhead.thy ===== *)
theory Budget_Overhead
  imports Budget_Service
begin

text \<open>
  What the budget service computes: the statistics of a module are the sums over its events, a breach is a budget
  whose module took more than its share, and the breakdown shown for a sample is the one computed.
\<close>

subsection \<open>The statistics are sums over the events\<close>

definition durationOf :: "(ProfilerEvent \<Rightarrow> bool) \<Rightarrow> ProfilerEvent list \<Rightarrow> int" where
  "durationOf P evs = sum_list (map pe_DurationMS (filter P evs))"

definition countOf :: "(ProfilerEvent \<Rightarrow> bool) \<Rightarrow> ProfilerEvent list \<Rightarrow> int" where
  "countOf P evs = int (length (filter P evs))"

abbreviation inCategory :: "string \<Rightarrow> ProfilerEvent \<Rightarrow> bool" where
  "inCategory c ev \<equiv> pe_Category ev = c"

definition isCallOf :: "funcKey \<Rightarrow> ProfilerEvent \<Rightarrow> bool" where
  "isCallOf k ev \<longleftrightarrow> funcKeyOf ev = k \<and> (pe_Model ev \<noteq> [] \<or> pe_Method ev \<noteq> [])"

definition functionsAgree :: "(funcKey, funcStat) gomap \<Rightarrow> ProfilerEvent list \<Rightarrow> bool" where
  "functionsAgree fs evs \<longleftrightarrow>
     distinct (map fst fs) \<and>
     (\<forall>k. map_of fs k =
        (if filter (isCallOf k) evs = [] then None
         else Some \<lparr> fs_durationMS = durationOf (isCallOf k) evs, fs_callCount = countOf (isCallOf k) evs \<rparr>))"

definition statsAgree :: "moduleStats \<Rightarrow> ProfilerEvent list \<Rightarrow> bool" where
  "statsAgree ms evs \<longleftrightarrow>
     ms_totalMS ms = durationOf (\<lambda>_. True) evs \<and>
     ms_sqlMS ms = durationOf (inCategory catSQL) evs \<and> ms_sqlCount ms = countOf (inCategory catSQL) evs \<and>
     ms_ormMS ms = durationOf (inCategory catORM) evs \<and> ms_ormCount ms = countOf (inCategory catORM) evs \<and>
     ms_pythonMS ms = durationOf (\<lambda>ev. inCategory catPython ev \<or> inCategory ''profiler'' ev) evs \<and>
     functionsAgree (ms_functions ms) evs"

lemma durationOf_snoc: "durationOf P (evs @ [ev]) = durationOf P evs + (if P ev then pe_DurationMS ev else 0)"
  by (simp add: durationOf_def)

lemma countOf_snoc: "countOf P (evs @ [ev]) = countOf P evs + (if P ev then 1 else 0)"
  by (simp add: countOf_def)

lemma empty_agrees: "statsAgree emptyStats []"
  by (simp add: statsAgree_def emptyStats_def functionsAgree_def durationOf_def countOf_def)

lemma functionStats_agree:
  assumes "functionsAgree fs evs"
  shows "functionsAgree (functionStats ev fs) (evs @ [ev])"
proof (cases "pe_Model ev = [] \<and> pe_Method ev = []")
  case True
  then have "\<not> isCallOf k ev" for k by (simp add: isCallOf_def)
  then show ?thesis
    using assms True by (simp add: functionsAgree_def functionStats_def durationOf_snoc countOf_snoc)
next
  case False
  then have call: "isCallOf k ev \<longleftrightarrow> k = funcKeyOf ev" for k by (auto simp: isCallOf_def)
  have dist: "distinct (map fst (functionStats ev fs))"
    using assms False by (simp add: functionsAgree_def functionStats_def Let_def distinct_update)
  have "filter (isCallOf (funcKeyOf ev)) evs = [] \<Longrightarrow> durationOf (isCallOf (funcKeyOf ev)) evs = 0 \<and> countOf (isCallOf (funcKeyOf ev)) evs = 0"
    by (simp add: durationOf_def countOf_def)
  then show ?thesis
    using assms False dist
    by (auto simp: functionsAgree_def functionStats_def Let_def update_conv' call durationOf_snoc countOf_snoc)
qed

lemma addEvent_agree:
  assumes "statsAgree ms evs"
  shows "statsAgree (addEvent ev ms) (evs @ [ev])"
proof -
  have "ms_functions (categoryStats ev ms') = ms_functions ms'" for ms'
    by (simp add: categoryStats_def)
  moreover have "functionsAgree (functionStats ev (ms_functions ms)) (evs @ [ev])"
    using assms by (intro functionStats_agree) (simp add: statsAgree_def)
  ultimately show ?thesis
    using assms by (auto simp: statsAgree_def addEvent_def Let_def durationOf_snoc countOf_snoc categoryStats_def cat_defs)
qed

abbreviation ofModule :: "string \<Rightarrow> ProfilerEvent list \<Rightarrow> ProfilerEvent list" where
  "ofModule m evs \<equiv> filter (\<lambda>ev. pe_Module ev = m) evs"

definition aggregateAgree :: "int \<times> (string, moduleStats) gomap \<Rightarrow> ProfilerEvent list \<Rightarrow> bool" where
  "aggregateAgree st evs \<longleftrightarrow>
     fst st = durationOf (\<lambda>_. True) evs \<and>
     (\<forall>m. case map_of (snd st) m of
        None \<Rightarrow> m = [] \<or> ofModule m evs = []
      | Some ms \<Rightarrow> m \<noteq> [] \<and> ofModule m evs \<noteq> [] \<and> statsAgree ms (ofModule m evs))"

lemma aggregateStep_agree:
  assumes "aggregateAgree st evs"
  shows "aggregateAgree (aggregateStep st ev) (evs @ [ev])"
proof -
  have tot: "fst (aggregateStep st ev) = durationOf (\<lambda>_. True) (evs @ [ev])"
    using assms by (simp add: aggregateStep_def aggregateAgree_def Let_def durationOf_snoc)
  have "case map_of (snd (aggregateStep st ev)) m of
        None \<Rightarrow> m = [] \<or> ofModule m (evs @ [ev]) = []
      | Some ms \<Rightarrow> m \<noteq> [] \<and> ofModule m (evs @ [ev]) \<noteq> [] \<and> statsAgree ms (ofModule m (evs @ [ev]))" for m
  proof (cases "m = pe_Module ev \<and> m \<noteq> []")
    case False
    have "case map_of (snd st) m of None \<Rightarrow> m = [] \<or> ofModule m evs = []
        | Some ms \<Rightarrow> m \<noteq> [] \<and> ofModule m evs \<noteq> [] \<and> statsAgree ms (ofModule m evs)"
      using assms by (simp add: aggregateAgree_def)
    moreover have "map_of (snd (aggregateStep st ev)) m = map_of (snd st) m"
      using False by (auto simp: aggregateStep_def Let_def update_conv')
    ultimately show ?thesis
      using False by (auto split: option.splits)
  next
    case True
    let ?ms = "case map_of (snd st) m of None \<Rightarrow> emptyStats | Some ms \<Rightarrow> ms"
    have old: "statsAgree ?ms (ofModule m evs)"
      using assms True empty_agrees by (auto simp: aggregateAgree_def split: option.splits dest: spec [of _ m])
    have "map_of (snd (aggregateStep st ev)) m = Some (addEvent ev ?ms)"
      using True by (auto simp: aggregateStep_def Let_def update_conv')
    then show ?thesis
      using True addEvent_agree [OF old, of ev] by auto
  qed
  then show ?thesis
    using tot by (simp add: aggregateAgree_def)
qed

lemma aggregateModuleStats_agree: "aggregateAgree (aggregateModuleStats events) events"
proof (induction events rule: rev_induct)
  case Nil
  then show ?case by (simp add: aggregateModuleStats_def aggregateAgree_def durationOf_def)
next
  case (snoc ev events)
  then show ?case
    using aggregateStep_agree by (simp add: aggregateModuleStats_def)
qed

lemma aggregateModuleStats_total: "fst (aggregateModuleStats events) = durationOf (\<lambda>_. True) events"
  using aggregateModuleStats_agree by (simp add: aggregateAgree_def)

lemma aggregateModuleStats_module:
  assumes "map_of (snd (aggregateModuleStats events)) m = Some ms"
  shows "m \<noteq> [] \<and> ofModule m events \<noteq> [] \<and> statsAgree ms (ofModule m events)"
  using aggregateModuleStats_agree [of events] assms by (auto simp: aggregateAgree_def split: option.splits dest: spec [of _ m])

subsection \<open>Breaches\<close>

definition breachAgrees :: "ProfilerEvent list \<Rightarrow> string \<Rightarrow> budget_row list \<Rightarrow> sample_row list \<Rightarrow> OverheadBreach \<Rightarrow> bool" where
  "breachAgrees events envID budgets samples br \<longleftrightarrow>
     (\<exists>b \<in> set budgets. pb_ID b = ob_BudgetID br \<and> pb_EnvID b = envID \<and> pb_IsActive b \<and> pb_Module b = ob_Module br \<and>
        pb_Endpoint b = ob_Endpoint br \<and> pb_ThresholdPct b = ob_ThresholdPct br) \<and>
     ob_TotalMS br = durationOf (\<lambda>_. True) events \<and>
     ob_ModuleMS br = durationOf (\<lambda>_. True) (ofModule (ob_Module br) events) \<and>
     ob_OverheadPct br = fmul (fdiv (float64_of_int (ob_ModuleMS br)) (float64_of_int (ob_TotalMS br))) (Fin 100) \<and>
     fless (float64_of_int (ob_ThresholdPct br)) (ob_OverheadPct br) \<and>
     (\<exists>x \<in> set samples. sp_BudgetID x = ob_BudgetID br \<and> sp_OverheadPct x = fmtFixed 2 (ob_OverheadPct br) \<and>
        sp_Breakdown x = Some (ob_Breakdown br))"

definition overThreshold :: "ProfilerEvent list \<Rightarrow> budget_row \<Rightarrow> bool" where
  "overThreshold events b \<longleftrightarrow>
     fless (float64_of_int (pb_ThresholdPct b))
       (fmul (fdiv (float64_of_int (durationOf (\<lambda>_. True) (ofModule (pb_Module b) events)))
          (float64_of_int (durationOf (\<lambda>_. True) events))) (Fin 100))"

text \<open>
  The new samples are those of some of the budgets, the reported breaches are those of these budgets whose module is above the threshold, and each
  says what the events say.
\<close>

definition resultAgrees ::
  "ProfilerEvent list \<Rightarrow> string \<Rightarrow> budget_row list \<Rightarrow> sample_row list \<Rightarrow> OverheadResult \<times> 'z budget_db_scheme \<Rightarrow> bool" where
  "resultAgrees events envID budgets before st \<longleftrightarrow>
     bb_budgets (snd st) = budgets \<and>
     (\<exists>new bs. bb_samples (snd st) = before @ new \<and> length new = or_SamplesInserted (fst st) \<and>
        set bs \<subseteq> set budgets \<and> map sp_BudgetID new = map pb_ID bs \<and>
        map ob_BudgetID (or_Breaches (fst st)) = map pb_ID (filter (overThreshold events) bs)) \<and>
     (\<forall>br \<in> set (or_Breaches (fst st)). breachAgrees events envID budgets (bb_samples (snd st)) br)"

lemma InsertBudgetSample_cases:
  assumes "InsertBudgetSample fault i now bid pct t m bd d = (x, d')"
  obtains e where "x = Inl e" "d' = d"
  | r where "x = Inr r" "bb_samples d' = bb_samples d @ [r]" "bb_budgets d' = bb_budgets d" "sp_BudgetID r = bid"
      "sp_OverheadPct r = pct" "sp_Breakdown r = bd"
  using assms by (auto simp: InsertBudgetSample_def insertRow_def Let_def split: option.splits list.splits prod.splits)

lemma breachAgrees_more: "breachAgrees events envID budgets xs br \<Longrightarrow> breachAgrees events envID budgets (xs @ ys) br"
  by (auto simp: breachAgrees_def)

lemma sampleBudget_agrees:
  assumes st: "resultAgrees events envID budgets before st"
    and b: "b \<in> set budgets" "pb_EnvID b = envID" "pb_IsActive b"
  shows "resultAgrees events envID budgets before
    (sampleBudget arrange c (fst (aggregateModuleStats events)) (snd (aggregateModuleStats events)) b st)"
proof -
  let ?tot = "fst (aggregateModuleStats events)" and ?by = "snd (aggregateModuleStats events)"
  obtain res d where s: "st = (res, d)" by fastforce
  show ?thesis
  proof (cases "map_of ?by (pb_Module b)")
    case None
    then show ?thesis using st by (simp add: sampleBudget_def s)
  next
    case (Some ms)
    show ?thesis
    proof (cases "createBreakdown arrange ms")
      case (Inl e)
      then show ?thesis using st Some by (simp add: sampleBudget_def s)
    next
      case (Inr bd)
      obtain x d' where ins: "InsertBudgetSample (sr_fault c) (sr_ids c (pb_ID b)) (sr_now c) (pb_ID b) (fmtFixed 2 (overheadOf ?tot ms))
          (Some (int32 ?tot)) (Some (int32 (ms_totalMS ms))) (Some bd) d = (x, d')"
        by fastforce
      then show ?thesis
      proof (cases rule: InsertBudgetSample_cases)
        case 1
        then show ?thesis using st Some Inr ins by (simp add: sampleBudget_def s)
      next
        case (2 r)
        have ms: "ms_totalMS ms = durationOf (\<lambda>_. True) (ofModule (pb_Module b) events)"
          using aggregateModuleStats_module [OF Some] by (simp add: statsAgree_def)
        have over: "overThreshold events b \<longleftrightarrow> fless (float64_of_int (pb_ThresholdPct b)) (overheadOf ?tot ms)"
          using ms by (simp add: overThreshold_def overheadOf_def aggregateModuleStats_total)
        have this_breach: "overThreshold events b \<Longrightarrow> breachAgrees events envID budgets (bb_samples d @ [r]) (breachOf ?tot ms bd b)"
          using b 2 ms over
          by (auto simp: breachAgrees_def breachOf_def overheadOf_def aggregateModuleStats_total)
        have old: "\<forall>br \<in> set (or_Breaches res). breachAgrees events envID budgets (bb_samples d) br"
          using st by (simp add: s resultAgrees_def)
        have step: "sampleBudget arrange c ?tot ?by b st =
            (res \<lparr> or_SamplesInserted := or_SamplesInserted res + 1,
                   or_Breaches := or_Breaches res @ (if overThreshold events b then [breachOf ?tot ms bd b] else []) \<rparr>, d')"
          using Some Inr ins 2(1) by (simp add: sampleBudget_def s over)
        obtain new bs where new: "bb_samples d = before @ new" "length new = or_SamplesInserted res"
            "set bs \<subseteq> set budgets" "map sp_BudgetID new = map pb_ID bs"
            "map ob_BudgetID (or_Breaches res) = map pb_ID (filter (overThreshold events) bs)"
          using st by (auto simp: s resultAgrees_def)
        have "\<exists>new' bs'. bb_samples d' = before @ new' \<and> length new' = or_SamplesInserted res + 1 \<and>
            set bs' \<subseteq> set budgets \<and> map sp_BudgetID new' = map pb_ID bs' \<and>
            map ob_BudgetID (or_Breaches res @ (if overThreshold events b then [breachOf ?tot ms bd b] else [])) =
              map pb_ID (filter (overThreshold events) bs')"
          using new b(1) 2(2,4) by (intro exI [of _ "new @ [r]"] exI [of _ "bs @ [b]"]) (simp add: breachOf_def)
        moreover have "\<forall>br \<in> set (or_Breaches res @ (if overThreshold events b then [breachOf ?tot ms bd b] else [])).
            breachAgrees events envID budgets (bb_samples d') br"
          using old this_breach breachAgrees_more [of events envID budgets "bb_samples d"] by (auto simp: 2(2))
        moreover have "bb_budgets d' = budgets"
          using st 2(3) by (simp add: s resultAgrees_def)
        ultimately show ?thesis
          unfolding step resultAgrees_def by simp
      qed
    qed
  qed
qed

lemma fold_sampleBudget_agrees:
  assumes "resultAgrees events envID budgets before st" "\<forall>b \<in> set bs. b \<in> set budgets \<and> pb_EnvID b = envID \<and> pb_IsActive b"
  shows "resultAgrees events envID budgets before
    (fold (sampleBudget arrange c (fst (aggregateModuleStats events)) (snd (aggregateModuleStats events))) bs st)"
  using assms by (induction bs arbitrary: st) (simp_all add: sampleBudget_agrees)

lemma ListPerfBudgets_active:
  "ListPerfBudgets collate fault envID d = Inr bs \<Longrightarrow> \<forall>b \<in> set bs. b \<in> set (bb_budgets d) \<and> pb_EnvID b = envID \<and> pb_IsActive b"
  by (auto simp: ListPerfBudgets_def query_def byModuleEndpoint_def split: option.splits)


subsection \<open>The breakdown that is shown\<close>

lemma sequenceR_Inr: "sequenceR rs = Inr xs \<Longrightarrow> rs = map Inr xs"
  by (induction rs arbitrary: xs rule: sequenceR.induct) (auto split: sum.splits)

lemma functionEntry_Inr:
  assumes "functionEntry ms (k, st) = Inr j" "\<bar>fs_durationMS st\<bar> < 2 ^ 63" "\<bar>fs_callCount st\<bar> < 2 ^ 63"
  shows "\<exists>pct. snd (decodeStruct functionFields j zeroFunction) =
    \<lparr> ft_Model = fk_model k, ft_Method = fk_method k, ft_Category = fk_category k, ft_DurationMS = fs_durationMS st,
      ft_CallCount = fs_callCount st, ft_Pct = pct \<rparr>"
proof -
  obtain pct where j: "j = JObject [(''call_count'', JInt (fs_callCount st)), (''category'', JString (fk_category k)),
      (''duration_ms'', JInt (fs_durationMS st)), (''method'', JString (fk_method k)), (''model'', JString (fk_model k)), (''pct'', pct)]"
    using assms(1) by (auto simp: functionEntry_def split: sum.splits)
  let ?f = "\<lambda>p. \<lparr> ft_Model = fk_model k, ft_Method = fk_method k, ft_Category = fk_category k, ft_DurationMS = fs_durationMS st,
      ft_CallCount = fs_callCount st, ft_Pct = p \<rparr>"
  have pct: "\<exists>e p. setFloat (\<lambda>x. ft_Pct_update (\<lambda>_. x)) pct (?f (Fin 0)) = (e, ?f p)"
    by (cases pct) (auto simp: setFloatOf_def Let_def)
  have bounds: "- (2 ^ 63) \<le> fs_durationMS st \<and> fs_durationMS st < 2 ^ 63" "- (2 ^ 63) \<le> fs_callCount st \<and> fs_callCount st < 2 ^ 63"
    using assms(2,3) by linarith+
  have "decodeStruct functionFields j zeroFunction = setFloat (\<lambda>x. ft_Pct_update (\<lambda>_. x)) pct (?f (Fin 0))"
    using bounds by (simp add: j decodeStruct_def functionFields_def setMember_def asciiLower_def zeroFunction_def split_beta)
  then show ?thesis using pct by auto
qed

definition shownKey :: "FunctionStat \<Rightarrow> funcKey" where
  "shownKey f = \<lparr> fk_model = ft_Model f, fk_method = ft_Method f, fk_category = ft_Category f \<rparr>"

definition shown :: "FunctionStat \<Rightarrow> funcKey \<times> funcStat" where
  "shown f = (shownKey f, \<lparr> fs_durationMS = ft_DurationMS f, fs_callCount = ft_CallCount f \<rparr>)"

lemma functions_shown:
  assumes "map (functionEntry ms) fs = map Inr js" "\<forall>f \<in> set fs. \<bar>fs_durationMS (snd f)\<bar> < 2 ^ 63 \<and> \<bar>fs_callCount (snd f)\<bar> < 2 ^ 63"
  shows "map (\<lambda>j. shown (snd (decodeStruct functionFields j zeroFunction))) js = fs"
  using assms
proof (induction fs arbitrary: js)
  case (Cons f fs)
  obtain j js' where js: "js = j # js'" "functionEntry ms f = Inr j" "map (functionEntry ms) fs = map Inr js'"
    using Cons.prems(1) by (cases js) auto
  obtain k st where f: "f = (k, st)" by fastforce
  have "shown (snd (decodeStruct functionFields j zeroFunction)) = f"
    using functionEntry_Inr [of ms k st j] js(2) Cons.prems(2) by (auto simp: f shown_def shownKey_def)
  then show ?case
    using Cons js by simp
qed simp

lemma setInt_fits: "\<bar>i\<bar> < 2 ^ 63 \<Longrightarrow> setInt 64 upd (JInt i) s = (None, upd i s)"
  by auto

lemma setFunctions_array:
  "setFunctions (JArray fs) r = (None, r \<lparr> fb_Functions := map (\<lambda>f. snd (decodeStruct functionFields f zeroFunction)) fs \<rparr>)"
  by (simp add: setFunctions_def)

text \<open>
  The breakdown computed for a module and stored with a sample is shown as computed, whatever the order of the functions: the sums over the
  events of the module by category, and for every function called in them its time and its calls.
\<close>

theorem breakdown_roundtrip:
  assumes "map_of (snd (aggregateModuleStats events)) m = Some ms" "createBreakdown arrange ms = Inr j"
    and "mset (arrange (ms_functions ms)) = mset (ms_functions ms)"
    and "\<forall>P. \<bar>durationOf P (ofModule m events)\<bar> < 2 ^ 63" "int (length events) < 2 ^ 63"
  shows "let r = parseBreakdownJSON (Some j) r0; evs = ofModule m events in
    fb_SQLMS r = durationOf (inCategory catSQL) evs \<and> fb_SQLCount r = countOf (inCategory catSQL) evs \<and>
    fb_ORMMS r = durationOf (inCategory catORM) evs \<and> fb_ORMCount r = countOf (inCategory catORM) evs \<and>
    fb_PythonMS r = durationOf (\<lambda>ev. inCategory catPython ev \<or> inCategory ''profiler'' ev) evs \<and>
    distinct (map shownKey (fb_Functions r)) \<and>
    shownKey ` set (fb_Functions r) = {k. \<exists>ev \<in> set evs. isCallOf k ev} \<and>
    (\<forall>f \<in> set (fb_Functions r). ft_DurationMS f = durationOf (isCallOf (shownKey f)) evs \<and>
                                ft_CallCount f = countOf (isCallOf (shownKey f)) evs)"
proof -
  let ?evs = "ofModule m events"
  have agree: "statsAgree ms ?evs"
    using aggregateModuleStats_module [OF assms(1)] by simp
  have count: "\<bar>countOf P ?evs\<bar> < 2 ^ 63" for P
  proof -
    have "length (filter P ?evs) \<le> length events"
      by (meson le_trans length_filter_le)
    then show ?thesis unfolding countOf_def using assms(5) by linarith
  qed
  define fs where "fs = arrange (ms_functions ms)"
  obtain js where js: "map (functionEntry ms) fs = map Inr js" and j: "j = JObject [(''functions'', JArray js), (''orm_count'', JInt (ms_ormCount ms)),
      (''orm_ms'', JInt (ms_ormMS ms)), (''python_ms'', JInt (ms_pythonMS ms)), (''sql_count'', JInt (ms_sqlCount ms)), (''sql_ms'', JInt (ms_sqlMS ms))]"
    using assms(2) by (auto simp: createBreakdown_def fs_def dest!: sequenceR_Inr split: sum.splits)
  have fagree: "functionsAgree (ms_functions ms) ?evs" using agree by (simp add: statsAgree_def)
  have "set fs = set (ms_functions ms)" "distinct (map fst fs)"
    using assms(3) fagree mset_eq_setD [OF assms(3)] mset_eq_imp_distinct_iff [of "map fst fs" "map fst (ms_functions ms)"]
    by (auto simp: fs_def functionsAgree_def)
  moreover have "distinct (map fst (ms_functions ms))" using fagree by (simp add: functionsAgree_def)
  ultimately have mem: "(k, st) \<in> set fs \<longleftrightarrow> map_of (ms_functions ms) k = Some st" and dist: "distinct (map fst fs)" for k st
    by (simp_all add: map_of_eq_Some_iff)
  have st: "st = \<lparr> fs_durationMS = durationOf (isCallOf k) ?evs, fs_callCount = countOf (isCallOf k) ?evs \<rparr> \<and> filter (isCallOf k) ?evs \<noteq> []"
    if "(k, st) \<in> set fs" for k st
    using that fagree unfolding mem functionsAgree_def by (metis option.distinct(1) option.inject)
  have "\<forall>f \<in> set fs. \<bar>fs_durationMS (snd f)\<bar> < 2 ^ 63 \<and> \<bar>fs_callCount (snd f)\<bar> < 2 ^ 63"
    using st assms(4) count by fastforce
  then have list: "map (\<lambda>j. shown (snd (decodeStruct functionFields j zeroFunction))) js = fs"
    using functions_shown js by blast
  define r where "r = parseBreakdownJSON (Some j) r0"
  have bounds: "\<bar>ms_sqlMS ms\<bar> < 2 ^ 63" "\<bar>ms_sqlCount ms\<bar> < 2 ^ 63" "\<bar>ms_ormMS ms\<bar> < 2 ^ 63" "\<bar>ms_ormCount ms\<bar> < 2 ^ 63"
      "\<bar>ms_pythonMS ms\<bar> < 2 ^ 63"
    using agree assms(4) count by (simp_all add: statsAgree_def)
  have r: "r = r0 \<lparr> fb_SQLMS := ms_sqlMS ms, fb_SQLCount := ms_sqlCount ms, fb_ORMMS := ms_ormMS ms, fb_ORMCount := ms_ormCount ms,
      fb_PythonMS := ms_pythonMS ms, fb_Functions := map (\<lambda>f. snd (decodeStruct functionFields f zeroFunction)) js \<rparr>"
    by (simp add: r_def parseBreakdownJSON_def j unmarshalField_def setInt_fits [OF bounds(1)] setInt_fits [OF bounds(2)]
        setInt_fits [OF bounds(3)] setInt_fits [OF bounds(4)] setInt_fits [OF bounds(5)] setFunctions_array del: setInt.simps)
  have shown: "map shown (fb_Functions r) = fs"
    using list by (simp add: r comp_def)
  have numbers: "fb_SQLMS r = ms_sqlMS ms" "fb_SQLCount r = ms_sqlCount ms" "fb_ORMMS r = ms_ormMS ms" "fb_ORMCount r = ms_ormCount ms"
      "fb_PythonMS r = ms_pythonMS ms"
    by (simp_all add: r)
  have keys: "map shownKey (fb_Functions r) = map fst fs"
    by (simp add: shown [symmetric] shown_def)
  have "fst ` set fs = {k. filter (isCallOf k) ?evs \<noteq> []}"
  proof (intro set_eqI iffI)
    fix k assume "k \<in> fst ` set fs"
    then show "k \<in> {k. filter (isCallOf k) ?evs \<noteq> []}" using st by auto
  next
    fix k assume "k \<in> {k. filter (isCallOf k) ?evs \<noteq> []}"
    then obtain x where "map_of (ms_functions ms) k = Some x"
      using fagree by (simp add: functionsAgree_def)
    then show "k \<in> fst ` set fs" using mem [of k x] by force
  qed
  then have "shownKey ` set (fb_Functions r) = {k. \<exists>ev \<in> set ?evs. isCallOf k ev}"
    using arg_cong [OF keys, of set] by (auto simp: filter_empty_conv)
  moreover have "ft_DurationMS f = durationOf (isCallOf (shownKey f)) ?evs \<and> ft_CallCount f = countOf (isCallOf (shownKey f)) ?evs"
    if "f \<in> set (fb_Functions r)" for f
  proof -
    have "shown f \<in> set fs" using that shown by (metis image_eqI list.set_map)
    then show ?thesis using st by (fastforce simp: shown_def)
  qed
  ultimately show ?thesis
    using agree numbers dist by (simp add: Let_def r_def [symmetric] statsAgree_def keys)
qed

subsection \<open>An example\<close>

text \<open>Two events, all of the time of which is spent in one module, against a budget of 20 percent.\<close>

definition exampleEvent :: "int \<Rightarrow> string \<Rightarrow> ProfilerEvent" where
  "exampleEvent ms meth =
     \<lparr> pe_Category = ''sql'', pe_Model = [], pe_Method = meth, pe_DurationMS = ms, pe_IsError = False, pe_IsN1 = False, pe_SQL = [],
       pe_Module = ''sale'', pe_Traceback = [], pe_UserID = 0, pe_Timestamp = 0, pe_FieldName = [], pe_IsCompute = False,
       pe_DependsOn = [], pe_TriggerField = [] \<rparr>"

definition exampleBudgets :: budget_db where
  "exampleBudgets =
     \<lparr> ab_envs = [(''e1'', ''t1'')], ab_alerts = [], ab_channels = [], ab_deliveries = [], eb_groups = [],
       bb_budgets = [\<lparr> pb_ID = ''b1'', pb_EnvID = ''e1'', pb_Module = ''sale'', pb_Endpoint = ''*'', pb_ThresholdPct = 20,
                       pb_IsActive = True, pb_CreatedAt = 0 \<rparr>],
       bb_samples = [] \<rparr>"

definition exampleServiceCall :: service_call where
  "exampleServiceCall = \<lparr> sr_fault = \<lambda>_. None, sr_ids = (\<lambda>b. b @ ''-1''), sr_now = 0 \<rparr>"

lemma fround_one: "fround binary64 1 = Fin 1" and fround_hundred: "fround binary64 100 = Fin 100"
  using float64_of_int_exact [of 1] float64_of_int_exact [of 100] by (simp_all add: float64_of_int_def)

lemma exampleStats:
  "aggregateModuleStats [exampleEvent 10 [], exampleEvent 20 []] =
     (30, [(''sale'', \<lparr> ms_totalMS = 30, ms_sqlMS = 30, ms_sqlCount = 2, ms_ormMS = 0, ms_ormCount = 0, ms_pythonMS = 0, ms_functions = [] \<rparr>)])"
  by (simp add: aggregateModuleStats_def aggregateStep_def addEvent_def categoryStats_def functionStats_def exampleEvent_def
      emptyStats_def cat_defs Let_def)

lemma exampleOverhead: "ms_totalMS ms = 30 \<Longrightarrow> overheadOf 30 ms = Fin 100"
  using float64_of_int_exact [of 30] by (simp add: overheadOf_def fdiv_def fmul_def finiteF_def negF_def fround_one fround_hundred)

lemma example_breach:
  "\<exists>d'. CalculateOverhead (\<lambda>fs. fs) length exampleServiceCall ''e1'' [exampleEvent 10 [], exampleEvent 20 []] exampleBudgets =
     (Inr \<lparr> or_SamplesInserted = 1, or_Breaches =
        [\<lparr> ob_BudgetID = ''b1'', ob_Module = ''sale'', ob_Endpoint = ''*'', ob_OverheadPct = Fin 100, ob_ThresholdPct = 20, ob_TotalMS = 30,
           ob_ModuleMS = 30,
           ob_Breakdown = JObject [(''functions'', JArray []), (''orm_count'', JInt 0), (''orm_ms'', JInt 0), (''python_ms'', JInt 0),
             (''sql_count'', JInt 2), (''sql_ms'', JInt 30)] \<rparr>] \<rparr>, d')"
proof -
  have pct: "numericOf (fmtFixed 2 (Fin 100)) = 100"
    by code_simp
  show ?thesis
    using float64_of_int_exact [of 20] pct
    by (simp add: CalculateOverhead_def ListPerfBudgets_def query_def exampleServiceCall_def exampleBudgets_def byModuleEndpoint_def
        exampleStats sampleBudget_def createBreakdown_def InsertBudgetSample_def insertRow_def exampleOverhead breachOf_def
        fless_def finiteF_def Let_def del: fmtFixed.simps)
qed


theorem breakdown_roundtrip_witness:
  "let ms = \<lparr> ms_totalMS = 0, ms_sqlMS = 0, ms_sqlCount = 1, ms_ormMS = 0, ms_ormCount = 0, ms_pythonMS = 0,
              ms_functions = [(\<lparr> fk_model = [], fk_method = ''read'', fk_category = ''sql'' \<rparr>, \<lparr> fs_durationMS = 0, fs_callCount = 1 \<rparr>)] \<rparr>;
       r = parseBreakdownJSON (Some (case createBreakdown (\<lambda>fs. fs) ms of Inr j \<Rightarrow> j | Inl _ \<Rightarrow> JNull)) (breakdownResponse x)
   in fb_SQLCount r = 1 \<and> shownKey ` set (fb_Functions r) = {\<lparr> fk_model = [], fk_method = ''read'', fk_category = ''sql'' \<rparr>}"
proof -
  define ms where "ms = \<lparr> ms_totalMS = 0, ms_sqlMS = 0, ms_sqlCount = 1, ms_ormMS = 0, ms_ormCount = 0, ms_pythonMS = 0,
      ms_functions = [(\<lparr> fk_model = [], fk_method = ''read'', fk_category = ''sql'' \<rparr>, \<lparr> fs_durationMS = 0, fs_callCount = 1 \<rparr>)] \<rparr>"
  have stats: "map_of (snd (aggregateModuleStats [exampleEvent 0 ''read''])) ''sale'' = Some ms"
    by (simp add: ms_def aggregateModuleStats_def aggregateStep_def addEvent_def categoryStats_def functionStats_def funcKeyOf_def
        exampleEvent_def emptyStats_def cat_defs Let_def)
  have "\<lfloor>1 / 2 :: rat\<rfloor> = 0" by (simp add: floor_eq_iff)
  then have "functionPct ms \<lparr> fs_durationMS = 0, fs_callCount = 1 \<rparr> = Fin 0"
    by (simp add: ms_def functionPct_def fmul_def fdiv_def fRound_def finiteF_def negF_def Let_def)
  then obtain j where j: "createBreakdown (\<lambda>fs. fs) ms = Inr j"
    by (simp add: createBreakdown_def functionEntry_def marshalFloat_def ms_def)
  have "ofModule ''sale'' [exampleEvent 0 ''read''] = [exampleEvent 0 ''read'']"
    by (simp add: exampleEvent_def)
  moreover have "\<bar>durationOf P [exampleEvent 0 ''read'']\<bar> < 2 ^ 63" for P
    by (simp add: durationOf_def exampleEvent_def)
  ultimately show ?thesis
    using breakdown_roundtrip [OF stats j, of "breakdownResponse x"] j
    by (simp add: ms_def [symmetric] Let_def countOf_def isCallOf_def funcKeyOf_def exampleEvent_def cat_defs)
qed

end
