(* ===== verification/Telemetry_Store.thy ===== *)
theory Telemetry_Store
  imports Budget_Store
begin

text \<open>
  The tables that an agent's batches and the services fill: ORM statistics (\<^verbatim>\<open>db/sqlc/orm_stats.sql.go\<close>, \<^verbatim>\<open>n1_detector.sql.go\<close>), profiler recordings
  (\<^verbatim>\<open>profilier.sql.go\<close>), schema snapshots (\<^verbatim>\<open>schema_snapshots.sql.go\<close>), migration scans (\<^verbatim>\<open>migrations_scan.sql.go\<close>) and audit logs
  (\<^verbatim>\<open>audit_logs.sql.go\<close>), with every query on them. A sum that is cast to INT must fit into 32 bits. What else the database
  may refuse is among the faults.
\<close>

record orm_row =
  om_ID :: string
  om_EnvID :: string
  om_Model :: string
  om_Method :: string
  om_CallCount :: int
  om_TotalMs :: int
  om_AvgMs :: "string option"
  om_MaxMs :: "int option"
  om_P95Ms :: "int option"
  om_N1Detected :: bool
  om_SampleSql :: "string option"
  om_Period :: int
  om_CreatedAt :: int

record recording_row =
  pr_ID :: string
  pr_EnvID :: string
  pr_TriggeredBy :: "string option"
  pr_Name :: string
  pr_Endpoint :: "string option"
  pr_TotalMs :: int
  pr_SqlCount :: "int option"
  pr_SqlMs :: "int option"
  pr_PythonMs :: "int option"
  pr_Waterfall :: json
  pr_ComputeChain :: "json option"
  pr_N1Patterns :: "json option"
  pr_RawLogRef :: "string option"
  pr_RecordedAt :: int

record snapshot_row =
  ss_ID :: string
  ss_EnvID :: string
  ss_CapturedAt :: int
  ss_Models :: json
  ss_ModelCount :: "int option"
  ss_FieldCount :: "int option"
  ss_DiffRef :: "string option"
  ss_Version :: "string option"

record scan_row =
  mg_ID :: string
  mg_EnvID :: string
  mg_TriggeredBy :: "string option"
  mg_FromVersion :: string
  mg_ToVersion :: string
  mg_Issues :: json
  mg_BreakingCount :: int
  mg_WarningCount :: int
  mg_MinorCount :: int
  mg_Status :: string
  mg_ScannedAt :: int

record log_row =
  lg_ID :: string
  lg_TenantID :: string
  lg_UserID :: "string option"
  lg_IpAddress :: "string option"
  lg_Action :: string
  lg_Resource :: "string option"
  lg_ResourceID :: "string option"
  lg_Before :: "json option"
  lg_After :: "json option"
  lg_Metadata :: json
  lg_CreatedAt :: int

record telemetry_db = budget_db +
  mb_stats :: "orm_row list"
  mb_recordings :: "recording_row list"
  mb_snapshots :: "snapshot_row list"
  mb_scans :: "scan_row list"
  mb_logs :: "log_row list"

text \<open>An environment of a tenant; the deletion of rows.\<close>

definition ofTenant :: "string \<Rightarrow> 'z alert_db_scheme \<Rightarrow> string \<Rightarrow> bool" where
  "ofTenant tid d envID \<longleftrightarrow> (envID, tid) \<in> set (ab_envs d)"

definition deleteRows ::
  "faults \<Rightarrow> string \<Rightarrow> ('r \<Rightarrow> bool) \<Rightarrow> 'r list \<Rightarrow> (('r list \<Rightarrow> 'r list) \<Rightarrow> 'd \<Rightarrow> 'd) \<Rightarrow> 'd \<Rightarrow> (go_error + nat) \<times> 'd" where
  "deleteRows fault name P rows upd d =
     (case fault name of
        Some e \<Rightarrow> (Inl e, d)
      | None \<Rightarrow> (Inr (length (filter P rows)), upd (filter (Not \<circ> P)) d))"

definition newest :: "('r \<Rightarrow> int) \<Rightarrow> 'r list \<Rightarrow> 'r list" where
  "newest t = sort_key (\<lambda>r. - t r)"

subsection \<open>ORM statistics\<close>

definition InsertORMStat :: "faults \<Rightarrow> orm_row \<Rightarrow> 'z telemetry_db_scheme \<Rightarrow> (go_error + orm_row) \<times> 'z telemetry_db_scheme" where
  "InsertORMStat fault r d =
     insertRow fault ''InsertORMStat''
       [(\<not> pgText (om_Model r) \<or> \<not> pgText (om_Method r) \<or> (case om_SampleSql r of None \<Rightarrow> False | Some s \<Rightarrow> \<not> pgText s), violation ''22021'' []),
        (case om_AvgMs r of None \<Rightarrow> False | Some s \<Rightarrow> \<bar>numericOf s\<bar> \<ge> 10 ^ 6, violation ''22003'' []),
        (om_ID r \<in> om_ID ` set (mb_stats d), violation ''23505'' ''orm_stats_pkey''),
        (om_EnvID r \<notin> fst ` set (ab_envs d), violation ''23503'' ''orm_stats_env_id_fkey'')]
       r d (d \<lparr> mb_stats := mb_stats d @ [r] \<rparr>)"

definition statsSince :: "string \<Rightarrow> int \<Rightarrow> 'z telemetry_db_scheme \<Rightarrow> orm_row list" where
  "statsSince envID since d = filter (\<lambda>r. om_EnvID r = envID \<and> since \<le> om_Period r) (mb_stats d)"

definition ListTopORMStats :: "faults \<Rightarrow> string \<Rightarrow> int \<Rightarrow> nat \<Rightarrow> 'z telemetry_db_scheme \<Rightarrow> go_error + orm_row list" where
  "ListTopORMStats fault envID since limit d =
     query fault ''ListTopORMStats'' (Inr (take limit (newest om_TotalMs (statsSince envID since d))))"

definition ListORMStatsByPeriod :: "faults \<Rightarrow> string \<Rightarrow> int \<Rightarrow> int \<Rightarrow> 'z telemetry_db_scheme \<Rightarrow> go_error + orm_row list" where
  "ListORMStatsByPeriod fault envID since until d =
     query fault ''ListORMStatsByPeriod''
       (Inr (newest om_TotalMs (filter (\<lambda>r. om_Period r \<le> until) (statsSince envID since d))))"

definition n1Since :: "string \<Rightarrow> int \<Rightarrow> 'z telemetry_db_scheme \<Rightarrow> orm_row list" where
  "n1Since envID since d = filter om_N1Detected (statsSince envID since d)"

definition ListN1Detections :: "faults \<Rightarrow> string \<Rightarrow> int \<Rightarrow> nat \<Rightarrow> 'z telemetry_db_scheme \<Rightarrow> go_error + orm_row list" where
  "ListN1Detections fault envID since limit d =
     query fault ''ListN1Detections'' (Inr (take limit (newest om_CallCount (n1Since envID since d))))"

definition DeleteOldORMStats :: "faults \<Rightarrow> string \<Rightarrow> int \<Rightarrow> 'z telemetry_db_scheme \<Rightarrow> (go_error + nat) \<times> 'z telemetry_db_scheme" where
  "DeleteOldORMStats fault tid cutoff d =
     deleteRows fault ''DeleteOldORMStats'' (\<lambda>r. ofTenant tid d (om_EnvID r) \<and> om_Period r < cutoff) (mb_stats d) mb_stats_update d"

text \<open>\<^verbatim>\<open>GROUP BY\<close>, and casts of sums and counts to INT.\<close>

definition groupsBy :: "('r \<Rightarrow> 'k) \<Rightarrow> 'r list \<Rightarrow> ('k \<times> 'r list) list" where
  "groupsBy key rows = map (\<lambda>k. (k, filter (\<lambda>r. key r = k) rows)) (remdups (map key rows))"

definition sumOf :: "('r \<Rightarrow> int) \<Rightarrow> 'r list \<Rightarrow> int" where
  "sumOf f rows = sum_list (map f rows)"

definition fitsInt :: "int \<Rightarrow> bool" where
  "fitsInt i \<longleftrightarrow> - (2 ^ 31) \<le> i \<and> i < 2 ^ 31"

definition castsFit :: "('k \<times> orm_row list) list \<Rightarrow> bool" where
  "castsFit gs \<longleftrightarrow> list_all (\<lambda>g. fitsInt (sumOf om_CallCount (snd g)) \<and> fitsInt (sumOf om_TotalMs (snd g)) \<and> fitsInt (int (length (snd g)))) gs"

definition modelMethod :: "orm_row \<Rightarrow> string \<times> string" where
  "modelMethod r = (om_Model r, om_Method r)"

record orm_total =
  ot_Model :: string
  ot_Method :: string
  ot_TotalCalls :: int
  ot_TotalDurationMs :: int
  ot_PeakMs :: "int option"
  ot_HasN1 :: bool

definition ormTotal :: "(string \<times> string) \<times> orm_row list \<Rightarrow> orm_total" where
  "ormTotal g =
     \<lparr> ot_Model = fst (fst g), ot_Method = snd (fst g), ot_TotalCalls = sumOf om_CallCount (snd g),
       ot_TotalDurationMs = sumOf om_TotalMs (snd g),
       ot_PeakMs = (let peaks = List.map_filter om_MaxMs (snd g) in if peaks = [] then None else Some (Max (set peaks))),
       ot_HasN1 = list_ex om_N1Detected (snd g) \<rparr>"

definition GetORMStatsAggregated :: "faults \<Rightarrow> string \<Rightarrow> int \<Rightarrow> nat \<Rightarrow> 'z telemetry_db_scheme \<Rightarrow> go_error + orm_total list" where
  "GetORMStatsAggregated fault envID since limit d =
     (let gs = groupsBy modelMethod (statsSince envID since d) in
      query fault ''GetORMStatsAggregated''
        (if \<not> castsFit gs then Inl (violation ''22003'' [])
         else Inr (take limit (newest ot_TotalDurationMs (map ormTotal gs)))))"

subsection \<open>N+1 patterns\<close>

record n1_summary_row =
  n1_Model :: string
  n1_Method :: string
  n1_Occurrences :: int
  n1_TotalCalls :: int
  n1_PeakCalls :: int
  n1_TotalDurationMs :: int
  n1_PeakMs :: int
  n1_AvgCallsPerWindow :: go_float
  n1_FirstSeen :: int
  n1_LastSeen :: int
  n1_SampleSql :: string

text \<open>The sample is that of the row with the most calls. It is scanned into a \<^verbatim>\<open>string\<close>, which does not take \<^verbatim>\<open>NULL\<close>.\<close>

definition n1Summary :: "(string \<times> string) \<times> orm_row list \<Rightarrow> go_error + n1_summary_row" where
  "n1Summary g =
     (case om_SampleSql (hd (newest om_CallCount (snd g))) of
        None \<Rightarrow> Inl (Plain ''can not scan into dest[10]: cannot scan NULL into *string'')
      | Some sql \<Rightarrow>
          Inr \<lparr> n1_Model = fst (fst g), n1_Method = snd (fst g), n1_Occurrences = int (length (snd g)),
                n1_TotalCalls = sumOf om_CallCount (snd g), n1_PeakCalls = Max (om_CallCount ` set (snd g)),
                n1_TotalDurationMs = sumOf om_TotalMs (snd g), n1_PeakMs = Max (om_TotalMs ` set (snd g)),
                n1_AvgCallsPerWindow = fdiv (float64_of_int (sumOf om_CallCount (snd g))) (float64_of_int (max (int (length (snd g))) 1)),
                n1_FirstSeen = Min (om_Period ` set (snd g)), n1_LastSeen = Max (om_Period ` set (snd g)), n1_SampleSql = sql \<rparr>)"

definition GetN1PatternsSummary :: "faults \<Rightarrow> string \<Rightarrow> int \<Rightarrow> nat \<Rightarrow> 'z telemetry_db_scheme \<Rightarrow> go_error + n1_summary_row list" where
  "GetN1PatternsSummary fault envID since limit d =
     (let gs = groupsBy modelMethod (n1Since envID since d) in
      query fault ''GetN1PatternsSummary''
        (if \<not> castsFit gs then Inl (violation ''22003'' [])
         else sequenceR (map n1Summary (take limit (newest (\<lambda>g. sumOf om_TotalMs (snd g)) gs)))))"

record n1_timeline_row =
  nt_Period :: int
  nt_PatternCount :: int
  nt_TotalCalls :: int
  nt_TotalMs :: int

definition n1TimelineRow :: "int \<times> orm_row list \<Rightarrow> n1_timeline_row" where
  "n1TimelineRow g =
     \<lparr> nt_Period = fst g, nt_PatternCount = int (length (snd g)), nt_TotalCalls = sumOf om_CallCount (snd g),
       nt_TotalMs = sumOf om_TotalMs (snd g) \<rparr>"

definition GetN1Timeline :: "faults \<Rightarrow> string \<Rightarrow> int \<Rightarrow> nat \<Rightarrow> 'z telemetry_db_scheme \<Rightarrow> go_error + n1_timeline_row list" where
  "GetN1Timeline fault envID since limit d =
     (let gs = groupsBy om_Period (n1Since envID since d) in
      query fault ''GetN1Timeline''
        (if \<not> castsFit gs then Inl (violation ''22003'' [])
         else Inr (take limit (newest nt_Period (map n1TimelineRow gs)))))"

definition CountN1Windows :: "faults \<Rightarrow> string \<Rightarrow> int \<Rightarrow> 'z telemetry_db_scheme \<Rightarrow> go_error + nat" where
  "CountN1Windows fault envID since d =
     query fault ''CountN1Windows'' (Inr (card (om_Period ` set (n1Since envID since d))))"

definition ListN1RecordingPatterns ::
  "faults \<Rightarrow> string \<Rightarrow> int \<Rightarrow> nat \<Rightarrow> 'z telemetry_db_scheme \<Rightarrow> go_error + recording_row list" where
  "ListN1RecordingPatterns fault envID since limit d =
     query fault ''ListN1RecordingPatterns''
       (Inr (take limit (newest pr_RecordedAt
          (filter (\<lambda>r. pr_EnvID r = envID \<and> pr_N1Patterns r \<noteq> None \<and> since \<le> pr_RecordedAt r) (mb_recordings d)))))"

subsection \<open>Profiler recordings\<close>

definition CreateProfilerRecording ::
  "faults \<Rightarrow> recording_row \<Rightarrow> 'z telemetry_db_scheme \<Rightarrow> (go_error + recording_row) \<times> 'z telemetry_db_scheme" where
  "CreateProfilerRecording fault r d =
     insertRow fault ''CreateProfilerRecording''
       [(pr_ID r \<in> pr_ID ` set (mb_recordings d), violation ''23505'' ''profiler_recordings_pkey''),
        (pr_EnvID r \<notin> fst ` set (ab_envs d), violation ''23503'' ''profiler_recordings_env_id_fkey'')]
       r d (d \<lparr> mb_recordings := mb_recordings d @ [r] \<rparr>)"

definition GetProfilerRecording :: "faults \<Rightarrow> string \<Rightarrow> string \<Rightarrow> 'z telemetry_db_scheme \<Rightarrow> go_error + recording_row" where
  "GetProfilerRecording fault rid envID d =
     query fault ''GetProfilerRecording''
       (limit1 hd (filter (\<lambda>r. pr_ID r = rid \<and> pr_EnvID r = envID) (mb_recordings d)))"

definition CountRecordingsByEnv :: "faults \<Rightarrow> string \<Rightarrow> 'z telemetry_db_scheme \<Rightarrow> go_error + nat" where
  "CountRecordingsByEnv fault envID d =
     query fault ''CountRecordingsByEnv'' (Inr (length (filter (\<lambda>r. pr_EnvID r = envID) (mb_recordings d))))"

definition ListProfilerRecordings :: "faults \<Rightarrow> string \<Rightarrow> nat \<Rightarrow> nat \<Rightarrow> 'z telemetry_db_scheme \<Rightarrow> go_error + recording_row list" where
  "ListProfilerRecordings fault envID limit offset d =
     query fault ''ListProfilerRecordings''
       (Inr (page limit offset (newest pr_RecordedAt (filter (\<lambda>r. pr_EnvID r = envID) (mb_recordings d)))))"

definition ListRecordingsWithChain :: "faults \<Rightarrow> string \<Rightarrow> nat \<Rightarrow> nat \<Rightarrow> 'z telemetry_db_scheme \<Rightarrow> go_error + recording_row list" where
  "ListRecordingsWithChain fault envID limit offset d =
     query fault ''ListRecordingsWithChain''
       (Inr (page limit offset (newest pr_RecordedAt
          (filter (\<lambda>r. pr_EnvID r = envID \<and> pr_ComputeChain r \<noteq> None) (mb_recordings d)))))"

definition ListSlowRecordings :: "faults \<Rightarrow> string \<Rightarrow> int \<Rightarrow> nat \<Rightarrow> 'z telemetry_db_scheme \<Rightarrow> go_error + recording_row list" where
  "ListSlowRecordings fault envID ms limit d =
     query fault ''ListSlowRecordings''
       (Inr (take limit (newest pr_TotalMs (filter (\<lambda>r. pr_EnvID r = envID \<and> ms < pr_TotalMs r) (mb_recordings d)))))"

definition DeleteOldProfilerRecordings ::
  "faults \<Rightarrow> string \<Rightarrow> int \<Rightarrow> 'z telemetry_db_scheme \<Rightarrow> (go_error + nat) \<times> 'z telemetry_db_scheme" where
  "DeleteOldProfilerRecordings fault tid cutoff d =
     deleteRows fault ''DeleteOldProfilerRecordings'' (\<lambda>r. ofTenant tid d (pr_EnvID r) \<and> pr_RecordedAt r < cutoff)
       (mb_recordings d) mb_recordings_update d"

subsection \<open>Schema snapshots\<close>

definition CreateSchemaSnapshot ::
  "faults \<Rightarrow> snapshot_row \<Rightarrow> 'z telemetry_db_scheme \<Rightarrow> (go_error + snapshot_row) \<times> 'z telemetry_db_scheme" where
  "CreateSchemaSnapshot fault r d =
     insertRow fault ''CreateSchemaSnapshot''
       [(ss_ID r \<in> ss_ID ` set (mb_snapshots d), violation ''23505'' ''schema_snapshots_pkey''),
        (ss_EnvID r \<notin> fst ` set (ab_envs d), violation ''23503'' ''schema_snapshots_env_id_fkey'')]
       r d (d \<lparr> mb_snapshots := mb_snapshots d @ [r] \<rparr>)"

definition snapshotsOf :: "string \<Rightarrow> 'z telemetry_db_scheme \<Rightarrow> snapshot_row list" where
  "snapshotsOf envID d = newest ss_CapturedAt (filter (\<lambda>s. ss_EnvID s = envID) (mb_snapshots d))"

definition CountSchemasByEnv :: "faults \<Rightarrow> string \<Rightarrow> 'z telemetry_db_scheme \<Rightarrow> go_error + nat" where
  "CountSchemasByEnv fault envID d =
     query fault ''CountSchemasByEnv'' (Inr (length (filter (\<lambda>s. ss_EnvID s = envID) (mb_snapshots d))))"

definition GetLatestSchema :: "faults \<Rightarrow> string \<Rightarrow> 'z telemetry_db_scheme \<Rightarrow> go_error + snapshot_row" where
  "GetLatestSchema fault envID d = query fault ''GetLatestSchema'' (limit1 hd (snapshotsOf envID d))"

definition GetSchemaByID :: "faults \<Rightarrow> string \<Rightarrow> string \<Rightarrow> 'z telemetry_db_scheme \<Rightarrow> go_error + snapshot_row" where
  "GetSchemaByID fault sid envID d =
     query fault ''GetSchemaByID'' (limit1 hd (filter (\<lambda>s. ss_ID s = sid \<and> ss_EnvID s = envID) (mb_snapshots d)))"

definition GetSchemaSnapshotByID :: "faults \<Rightarrow> string \<Rightarrow> 'z telemetry_db_scheme \<Rightarrow> go_error + snapshot_row" where
  "GetSchemaSnapshotByID fault sid d =
     query fault ''GetSchemaSnapshotByID'' (limit1 hd (filter (\<lambda>s. ss_ID s = sid) (mb_snapshots d)))"

definition GetTwoSchemasForDiff :: "faults \<Rightarrow> string list \<Rightarrow> 'z telemetry_db_scheme \<Rightarrow> go_error + snapshot_row list" where
  "GetTwoSchemasForDiff fault ids d =
     query fault ''GetTwoSchemasForDiff'' (Inr (sort_key ss_CapturedAt (filter (\<lambda>s. ss_ID s \<in> set ids) (mb_snapshots d))))"

definition ListSchemaSnapshots :: "faults \<Rightarrow> string \<Rightarrow> nat \<Rightarrow> 'z telemetry_db_scheme \<Rightarrow> go_error + snapshot_row list" where
  "ListSchemaSnapshots fault envID limit d = query fault ''ListSchemaSnapshots'' (Inr (take limit (snapshotsOf envID d)))"

text \<open>The newest \<open>keep\<close> snapshots of every environment stay.\<close>

definition keptSnapshot :: "nat \<Rightarrow> 'z telemetry_db_scheme \<Rightarrow> snapshot_row \<Rightarrow> bool" where
  "keptSnapshot keep d s \<longleftrightarrow> ss_ID s \<in> ss_ID ` set (take keep (snapshotsOf (ss_EnvID s) d))"

definition DeleteOldSchemaSnapshots ::
  "faults \<Rightarrow> string \<Rightarrow> nat \<Rightarrow> 'z telemetry_db_scheme \<Rightarrow> (go_error + nat) \<times> 'z telemetry_db_scheme" where
  "DeleteOldSchemaSnapshots fault tid keep d =
     deleteRows fault ''DeleteOldSchemaSnapshots'' (\<lambda>s. ofTenant tid d (ss_EnvID s) \<and> \<not> keptSnapshot keep d s)
       (mb_snapshots d) mb_snapshots_update d"

subsection \<open>Migration scans\<close>

definition CreateMigrationScan :: "faults \<Rightarrow> scan_row \<Rightarrow> 'z telemetry_db_scheme \<Rightarrow> (go_error + scan_row) \<times> 'z telemetry_db_scheme" where
  "CreateMigrationScan fault r d =
     insertRow fault ''CreateMigrationScan''
       [(mg_ID r \<in> mg_ID ` set (mb_scans d), violation ''23505'' ''migration_scans_pkey''),
        (mg_EnvID r \<notin> fst ` set (ab_envs d), violation ''23503'' ''migration_scans_env_id_fkey'')]
       r d (d \<lparr> mb_scans := mb_scans d @ [r] \<rparr>)"

definition scanIs :: "string \<Rightarrow> string \<Rightarrow> scan_row \<Rightarrow> bool" where
  "scanIs sid envID s \<longleftrightarrow> mg_ID s = sid \<and> mg_EnvID s = envID"

definition scansOf :: "string \<Rightarrow> 'z telemetry_db_scheme \<Rightarrow> scan_row list" where
  "scansOf envID d = newest mg_ScannedAt (filter (\<lambda>s. mg_EnvID s = envID) (mb_scans d))"

definition GetMigrationScan :: "faults \<Rightarrow> string \<Rightarrow> string \<Rightarrow> 'z telemetry_db_scheme \<Rightarrow> go_error + scan_row" where
  "GetMigrationScan fault sid envID d = query fault ''GetMigrationScan'' (limit1 hd (filter (scanIs sid envID) (mb_scans d)))"

definition GetLatestMigrationScan :: "faults \<Rightarrow> string \<Rightarrow> 'z telemetry_db_scheme \<Rightarrow> go_error + scan_row" where
  "GetLatestMigrationScan fault envID d = query fault ''GetLatestMigrationScan'' (limit1 hd (scansOf envID d))"

definition ListMigrationScans :: "faults \<Rightarrow> string \<Rightarrow> nat \<Rightarrow> nat \<Rightarrow> 'z telemetry_db_scheme \<Rightarrow> go_error + scan_row list" where
  "ListMigrationScans fault envID limit offset d =
     query fault ''ListMigrationScans'' (Inr (page limit offset (scansOf envID d)))"

definition DeleteMigrationScan :: "faults \<Rightarrow> string \<Rightarrow> string \<Rightarrow> 'z telemetry_db_scheme \<Rightarrow> go_error option \<times> 'z telemetry_db_scheme" where
  "DeleteMigrationScan fault sid envID d =
     exec fault ''DeleteMigrationScan'' d (d \<lparr> mb_scans := filter (Not \<circ> scanIs sid envID) (mb_scans d) \<rparr>)"

subsection \<open>Audit logs\<close>

text \<open>\<open>tenants\<close> and \<open>users\<close> are the identifiers that exist.\<close>

definition CreateAuditLog ::
  "faults \<Rightarrow> string list \<Rightarrow> string list \<Rightarrow> log_row \<Rightarrow> 'z telemetry_db_scheme \<Rightarrow> (go_error + log_row) \<times> 'z telemetry_db_scheme" where
  "CreateAuditLog fault tenants users r d =
     insertRow fault ''CreateAuditLog''
       [(lg_ID r \<in> lg_ID ` set (mb_logs d), violation ''23505'' ''audit_logs_pkey''),
        (lg_TenantID r \<notin> set tenants, violation ''23503'' ''audit_logs_tenant_id_fkey''),
        (case lg_UserID r of None \<Rightarrow> False | Some u \<Rightarrow> u \<notin> set users, violation ''23503'' ''audit_logs_user_id_fkey'')]
       r d (d \<lparr> mb_logs := mb_logs d @ [r] \<rparr>)"

definition logsWhere :: "string \<Rightarrow> (log_row \<Rightarrow> bool) \<Rightarrow> 'z telemetry_db_scheme \<Rightarrow> log_row list" where
  "logsWhere tid P d = newest lg_CreatedAt (filter (\<lambda>l. lg_TenantID l = tid \<and> P l) (mb_logs d))"

text \<open>A negative limit or offset is an error.\<close>

definition pageInt :: "int \<Rightarrow> int \<Rightarrow> 'r list \<Rightarrow> go_error + 'r list" where
  "pageInt limit offset rows =
     (if limit < 0 then Inl (violation ''2201W'' []) else if offset < 0 then Inl (violation ''2201X'' [])
      else Inr (page (nat limit) (nat offset) rows))"

definition CountAuditLogs :: "faults \<Rightarrow> string \<Rightarrow> 'z telemetry_db_scheme \<Rightarrow> go_error + nat" where
  "CountAuditLogs fault tid d = query fault ''CountAuditLogs'' (Inr (length (filter (\<lambda>l. lg_TenantID l = tid) (mb_logs d))))"

definition GetAuditLogsByTenant :: "faults \<Rightarrow> string \<Rightarrow> string \<Rightarrow> 'z telemetry_db_scheme \<Rightarrow> go_error + log_row list" where
  "GetAuditLogsByTenant fault tid act d =
     query fault ''GetAuditLogsByTenant'' (Inr (logsWhere tid (\<lambda>l. lg_Action l = act) d))"

definition ListAuditLogs :: "faults \<Rightarrow> string \<Rightarrow> int \<Rightarrow> int \<Rightarrow> 'z telemetry_db_scheme \<Rightarrow> go_error + log_row list" where
  "ListAuditLogs fault tid limit offset d =
     query fault ''ListAuditLogs'' (pageInt limit offset (logsWhere tid (\<lambda>_. True) d))"

definition ListAuditLogsBetween ::
  "faults \<Rightarrow> string \<Rightarrow> int \<Rightarrow> int \<Rightarrow> int \<Rightarrow> int \<Rightarrow> 'z telemetry_db_scheme \<Rightarrow> go_error + log_row list" where
  "ListAuditLogsBetween fault tid since until limit offset d =
     query fault ''ListAuditLogsBetween''
       (pageInt limit offset (logsWhere tid (\<lambda>l. since \<le> lg_CreatedAt l \<and> lg_CreatedAt l \<le> until) d))"

definition ListAuditLogsByAction ::
  "faults \<Rightarrow> string \<Rightarrow> string \<Rightarrow> int \<Rightarrow> int \<Rightarrow> 'z telemetry_db_scheme \<Rightarrow> go_error + log_row list" where
  "ListAuditLogsByAction fault tid act limit offset d =
     query fault ''ListAuditLogsByAction'' (pageInt limit offset (logsWhere tid (\<lambda>l. lg_Action l = act) d))"

definition ListAuditLogsByResource ::
  "faults \<Rightarrow> string \<Rightarrow> string \<Rightarrow> string \<Rightarrow> int \<Rightarrow> 'z telemetry_db_scheme \<Rightarrow> go_error + log_row list" where
  "ListAuditLogsByResource fault tid res rid limit d =
     query fault ''ListAuditLogsByResource''
       (pageInt limit 0 (logsWhere tid (\<lambda>l. lg_Resource l = Some res \<and> lg_ResourceID l = Some rid) d))"

definition ListAuditLogsByUser ::
  "faults \<Rightarrow> string \<Rightarrow> string \<Rightarrow> int \<Rightarrow> int \<Rightarrow> 'z telemetry_db_scheme \<Rightarrow> go_error + log_row list" where
  "ListAuditLogsByUser fault tid uid limit offset d =
     query fault ''ListAuditLogsByUser'' (pageInt limit offset (logsWhere tid (\<lambda>l. lg_UserID l = Some uid) d))"

definition DeleteOldAuditLogs :: "faults \<Rightarrow> string \<Rightarrow> int \<Rightarrow> 'z telemetry_db_scheme \<Rightarrow> (go_error + nat) \<times> 'z telemetry_db_scheme" where
  "DeleteOldAuditLogs fault tid cutoff d =
     deleteRows fault ''DeleteOldAuditLogs'' (\<lambda>l. lg_TenantID l = tid \<and> lg_CreatedAt l < cutoff) (mb_logs d) mb_logs_update d"

end
