(* ===== verification/Environment_Store.thy ===== *)
theory Environment_Store
  imports Telemetry_Store
begin

text \<open>
  The tables of environments and heartbeats (\<^verbatim>\<open>db/sqlc/enviroments.sql.go\<close>) and of API keys (\<^verbatim>\<open>api_keys.sql.go\<close>) with every query on them.
  The identifier and the tenant of an environment never change; they are also in \<open>ab_envs\<close>, to which the other tables refer. Deleting an environment deletes all that
  belongs to it. \<open>nb_tenants\<close> and \<open>nb_users\<close> are the identifiers of the tenants and users there are.
\<close>

record env_row =
  en_ID :: string
  en_TenantID :: string
  en_Name :: string
  en_OdooUrl :: string
  en_DbName :: string
  en_OdooVersion :: "string option"
  en_EnvType :: string
  en_Status :: string
  en_AgentID :: "string option"
  en_FeatureFlags :: json
  en_LastSync :: "int option"
  en_CreatedAt :: int
  en_UpdatedAt :: int
  en_RegistrationToken :: "string option"
  en_RegistrationTokenExpiresAt :: "int option"

record heartbeat_row =
  hb_ID :: string
  hb_EnvID :: string
  hb_AgentID :: string
  hb_AgentVersion :: "string option"
  hb_Status :: string
  hb_Metadata :: json
  hb_ReceivedAt :: int

record key_row =
  ky_ID :: string
  ky_TenantID :: string
  ky_CreatedBy :: "string option"
  ky_KeyHash :: string
  ky_KeyPrefix :: string
  ky_Name :: string
  ky_Scopes :: "string list"
  ky_LastUsed :: "int option"
  ky_ExpiresAt :: "int option"
  ky_IsActive :: bool
  ky_CreatedAt :: int
  ky_Description :: string
  ky_EnvironmentID :: "string option"

record env_db = telemetry_db +
  nb_tenants :: "string list"
  nb_users :: "string list"
  nb_envs :: "env_row list"
  nb_heartbeats :: "heartbeat_row list"
  nb_keys :: "key_row list"

subsection \<open>Environments\<close>

definition envIs :: "string \<Rightarrow> string \<Rightarrow> env_row \<Rightarrow> bool" where
  "envIs envID tid e \<longleftrightarrow> en_ID e = envID \<and> en_TenantID e = tid"

definition GetEnvironmentByID :: "faults \<Rightarrow> string \<Rightarrow> string \<Rightarrow> 'z env_db_scheme \<Rightarrow> go_error + env_row" where
  "GetEnvironmentByID fault envID tid d = query fault ''GetEnvironmentByID'' (limit1 hd (filter (envIs envID tid) (nb_envs d)))"

definition GetEnvironmentByAgentID :: "faults \<Rightarrow> string option \<Rightarrow> 'z env_db_scheme \<Rightarrow> go_error + env_row" where
  "GetEnvironmentByAgentID fault agentID d =
     query fault ''GetEnvironmentByAgentID''
       (limit1 hd (filter (\<lambda>e. agentID \<noteq> None \<and> en_AgentID e = agentID) (nb_envs d)))"

definition tokenValid :: "string option \<Rightarrow> int \<Rightarrow> env_row \<Rightarrow> bool" where
  "tokenValid tok now e \<longleftrightarrow> tok \<noteq> None \<and> en_RegistrationToken e = tok \<and>
     (case en_RegistrationTokenExpiresAt e of None \<Rightarrow> False | Some t \<Rightarrow> now < t)"

definition GetEnvironmentByRegistrationToken :: "faults \<Rightarrow> int \<Rightarrow> string option \<Rightarrow> 'z env_db_scheme \<Rightarrow> go_error + env_row" where
  "GetEnvironmentByRegistrationToken fault now tok d =
     query fault ''GetEnvironmentByRegistrationToken'' (limit1 hd (filter (tokenValid tok now) (nb_envs d)))"

definition GetFeatureFlags :: "faults \<Rightarrow> string \<Rightarrow> 'z env_db_scheme \<Rightarrow> go_error + json" where
  "GetFeatureFlags fault envID d =
     query fault ''GetFeatureFlags'' (limit1 hd (map en_FeatureFlags (filter (\<lambda>e. en_ID e = envID) (nb_envs d))))"

definition CheckEnvironmentNameExists :: "faults \<Rightarrow> string \<Rightarrow> string \<Rightarrow> string \<Rightarrow> 'z env_db_scheme \<Rightarrow> go_error + bool" where
  "CheckEnvironmentNameExists fault tid name other d =
     query fault ''CheckEnvironmentNameExists''
       (Inr (list_ex (\<lambda>e. en_TenantID e = tid \<and> en_Name e = name \<and> en_ID e \<noteq> other) (nb_envs d)))"

definition envsWhere :: "string \<Rightarrow> (env_row \<Rightarrow> bool) \<Rightarrow> 'z env_db_scheme \<Rightarrow> env_row list" where
  "envsWhere tid P d = filter (\<lambda>e. en_TenantID e = tid \<and> P e) (nb_envs d)"

definition CountEnvironmentsByTenant :: "faults \<Rightarrow> string \<Rightarrow> 'z env_db_scheme \<Rightarrow> go_error + nat" where
  "CountEnvironmentsByTenant fault tid d = query fault ''CountEnvironmentsByTenant'' (Inr (length (envsWhere tid (\<lambda>_. True) d)))"

definition CountEnvironmentsByTenantAndStatus :: "faults \<Rightarrow> string \<Rightarrow> string \<Rightarrow> 'z env_db_scheme \<Rightarrow> go_error + nat" where
  "CountEnvironmentsByTenantAndStatus fault tid status d =
     query fault ''CountEnvironmentsByTenantAndStatus'' (Inr (length (envsWhere tid (\<lambda>e. en_Status e = status) d)))"

definition CountEnvironmentsByTenantAndType :: "faults \<Rightarrow> string \<Rightarrow> string \<Rightarrow> 'z env_db_scheme \<Rightarrow> go_error + nat" where
  "CountEnvironmentsByTenantAndType fault tid typ d =
     query fault ''CountEnvironmentsByTenantAndType'' (Inr (length (envsWhere tid (\<lambda>e. en_EnvType e = typ) d)))"

definition CountEnvironmentsByTenantTypeAndStatus :: "faults \<Rightarrow> string \<Rightarrow> string \<Rightarrow> string \<Rightarrow> 'z env_db_scheme \<Rightarrow> go_error + nat" where
  "CountEnvironmentsByTenantTypeAndStatus fault tid typ status d =
     query fault ''CountEnvironmentsByTenantTypeAndStatus''
       (Inr (length (envsWhere tid (\<lambda>e. en_EnvType e = typ \<and> en_Status e = status) d)))"

definition ListEnvironmentsByTenant :: "faults \<Rightarrow> string \<Rightarrow> 'z env_db_scheme \<Rightarrow> go_error + env_row list" where
  "ListEnvironmentsByTenant fault tid d =
     query fault ''ListEnvironmentsByTenant'' (Inr (sort_key en_CreatedAt (envsWhere tid (\<lambda>_. True) d)))"

definition ListEnvironmentsByTenantAndStatus ::
  "faults \<Rightarrow> string \<Rightarrow> string \<Rightarrow> int \<Rightarrow> int \<Rightarrow> 'z env_db_scheme \<Rightarrow> go_error + env_row list" where
  "ListEnvironmentsByTenantAndStatus fault tid status limit offset d =
     query fault ''ListEnvironmentsByTenantAndStatus''
       (pageInt limit offset (newest en_CreatedAt (envsWhere tid (\<lambda>e. en_Status e = status) d)))"

definition ListEnvironmentsByTenantAndType ::
  "faults \<Rightarrow> string \<Rightarrow> string \<Rightarrow> int \<Rightarrow> int \<Rightarrow> 'z env_db_scheme \<Rightarrow> go_error + env_row list" where
  "ListEnvironmentsByTenantAndType fault tid typ limit offset d =
     query fault ''ListEnvironmentsByTenantAndType''
       (pageInt limit offset (newest en_CreatedAt (envsWhere tid (\<lambda>e. en_EnvType e = typ) d)))"

definition ListEnvironmentsByTenantTypeAndStatus ::
  "faults \<Rightarrow> string \<Rightarrow> string \<Rightarrow> string \<Rightarrow> int \<Rightarrow> int \<Rightarrow> 'z env_db_scheme \<Rightarrow> go_error + env_row list" where
  "ListEnvironmentsByTenantTypeAndStatus fault tid typ status limit offset d =
     query fault ''ListEnvironmentsByTenantTypeAndStatus''
       (pageInt limit offset (newest en_CreatedAt (envsWhere tid (\<lambda>e. en_EnvType e = typ \<and> en_Status e = status) d)))"

text \<open>A row is added; the agents and the registration tokens of a table without them cannot clash with it.\<close>

definition CreateEnvironment :: "faults \<Rightarrow> env_row \<Rightarrow> 'z env_db_scheme \<Rightarrow> (go_error + env_row) \<times> 'z env_db_scheme" where
  "CreateEnvironment fault r d =
     insertRow fault ''CreateEnvironment''
       [(en_ID r \<in> en_ID ` set (nb_envs d), violation ''23505'' ''environments_pkey''),
        (en_TenantID r \<notin> set (nb_tenants d), violation ''23503'' ''environments_tenant_id_fkey'')]
       r d (d \<lparr> nb_envs := nb_envs d @ [r], ab_envs := ab_envs d @ [(en_ID r, en_TenantID r)] \<rparr>)"

text \<open>An update sets columns of the rows that fulfil a condition and keeps the unique indexes on agents and tokens.\<close>

definition takenBy :: "(env_row \<Rightarrow> string option) \<Rightarrow> (env_row \<Rightarrow> bool) \<Rightarrow> string option \<Rightarrow> 'z env_db_scheme \<Rightarrow> bool" where
  "takenBy col P v d \<longleftrightarrow> v \<noteq> None \<and> list_ex P (nb_envs d) \<and> list_ex (\<lambda>e. \<not> P e \<and> col e = v) (nb_envs d)"

definition setEnvs :: "(env_row \<Rightarrow> bool) \<Rightarrow> (env_row \<Rightarrow> env_row) \<Rightarrow> 'z env_db_scheme \<Rightarrow> 'z env_db_scheme" where
  "setEnvs P f d = d \<lparr> nb_envs := map (\<lambda>e. if P e then f e else e) (nb_envs d) \<rparr>"

definition updateEnv ::
  "faults \<Rightarrow> string \<Rightarrow> (bool \<times> go_error) list \<Rightarrow> (env_row \<Rightarrow> bool) \<Rightarrow> (env_row \<Rightarrow> env_row) \<Rightarrow> 'z env_db_scheme \<Rightarrow>
   (go_error + env_row) \<times> 'z env_db_scheme" where
  "updateEnv fault name checks P f d =
     (case filter P (nb_envs d) of
        [] \<Rightarrow> (query fault name (Inl ErrNoRows), d)
      | e # _ \<Rightarrow> insertRow fault name checks (f e) d (setEnvs P f d))"

definition UpdateEnvironment ::
  "faults \<Rightarrow> int \<Rightarrow> string \<Rightarrow> string \<Rightarrow> string option \<Rightarrow> string option \<Rightarrow> string option \<Rightarrow> string option \<Rightarrow> string option \<Rightarrow>
   string option \<Rightarrow> json option \<Rightarrow> 'z env_db_scheme \<Rightarrow> (go_error + env_row) \<times> 'z env_db_scheme" where
  "UpdateEnvironment fault now envID tid name url dbName version typ status flags d =
     (let coalesce = (\<lambda>v old. case v of None \<Rightarrow> old | Some x \<Rightarrow> x) in
      updateEnv fault ''UpdateEnvironment'' [] (envIs envID tid)
        (\<lambda>e. e \<lparr> en_Name := coalesce name (en_Name e), en_OdooUrl := coalesce url (en_OdooUrl e),
                 en_DbName := coalesce dbName (en_DbName e),
                 en_OdooVersion := (case version of None \<Rightarrow> en_OdooVersion e | Some v \<Rightarrow> Some v),
                 en_EnvType := coalesce typ (en_EnvType e), en_Status := coalesce status (en_Status e),
                 en_FeatureFlags := (case flags of None \<Rightarrow> en_FeatureFlags e | Some j \<Rightarrow> j), en_UpdatedAt := now \<rparr>) d)"

definition RegisterAgent_row :: "faults \<Rightarrow> int \<Rightarrow> string \<Rightarrow> string option \<Rightarrow> string \<Rightarrow> 'z env_db_scheme \<Rightarrow> (go_error + env_row) \<times> 'z env_db_scheme" where
  "RegisterAgent_row fault now envID agentID tid d =
     updateEnv fault ''RegisterAgent'' [(takenBy en_AgentID (envIs envID tid) agentID d, violation ''23505'' ''environments_agent_id_key'')]
       (envIs envID tid)
       (\<lambda>e. e \<lparr> en_AgentID := agentID, en_Status := ''connected'', en_LastSync := Some now, en_UpdatedAt := now \<rparr>) d"

definition SetRegistrationToken ::
  "faults \<Rightarrow> int \<Rightarrow> string \<Rightarrow> string option \<Rightarrow> int option \<Rightarrow> string \<Rightarrow> 'z env_db_scheme \<Rightarrow> (go_error + env_row) \<times> 'z env_db_scheme" where
  "SetRegistrationToken fault now envID tok expires tid d =
     updateEnv fault ''SetRegistrationToken''
       [(takenBy en_RegistrationToken (envIs envID tid) tok d, violation ''23505'' ''idx_environments_registration_token'')]
       (envIs envID tid)
       (\<lambda>e. e \<lparr> en_RegistrationToken := tok, en_RegistrationTokenExpiresAt := expires, en_UpdatedAt := now \<rparr>) d"

definition UpdateFeatureFlags ::
  "faults \<Rightarrow> int \<Rightarrow> string \<Rightarrow> json \<Rightarrow> string \<Rightarrow> 'z env_db_scheme \<Rightarrow> (go_error + env_row) \<times> 'z env_db_scheme" where
  "UpdateFeatureFlags fault now envID flags tid d =
     updateEnv fault ''UpdateFeatureFlags'' [] (envIs envID tid) (\<lambda>e. e \<lparr> en_FeatureFlags := flags, en_UpdatedAt := now \<rparr>) d"

definition ClearRegistrationToken ::
  "faults \<Rightarrow> int \<Rightarrow> string \<Rightarrow> string option \<Rightarrow> 'z env_db_scheme \<Rightarrow> go_error option \<times> 'z env_db_scheme" where
  "ClearRegistrationToken fault now envID agentID d =
     (let P = (\<lambda>e. en_ID e = envID) in
      if fault ''ClearRegistrationToken'' = None \<and> takenBy en_AgentID P agentID d
      then (Some (violation ''23505'' ''environments_agent_id_key''), d)
      else exec fault ''ClearRegistrationToken'' d
        (setEnvs P (\<lambda>e. e \<lparr> en_RegistrationToken := None, en_RegistrationTokenExpiresAt := None, en_AgentID := agentID,
                           en_Status := ''connected'', en_LastSync := Some now, en_UpdatedAt := now \<rparr>) d))"

definition UpdateEnvironmentStatus :: "faults \<Rightarrow> int \<Rightarrow> string \<Rightarrow> string \<Rightarrow> 'z env_db_scheme \<Rightarrow> go_error option \<times> 'z env_db_scheme" where
  "UpdateEnvironmentStatus fault now envID status d =
     exec fault ''UpdateEnvironmentStatus'' d
       (setEnvs (\<lambda>e. en_ID e = envID) (\<lambda>e. e \<lparr> en_Status := status, en_LastSync := Some now, en_UpdatedAt := now \<rparr>) d)"

definition DisconnectAgent :: "faults \<Rightarrow> int \<Rightarrow> string option \<Rightarrow> 'z env_db_scheme \<Rightarrow> go_error option \<times> 'z env_db_scheme" where
  "DisconnectAgent fault now agentID d =
     exec fault ''DisconnectAgent'' d
       (setEnvs (\<lambda>e. agentID \<noteq> None \<and> en_AgentID e = agentID) (\<lambda>e. e \<lparr> en_Status := ''disconnected'', en_UpdatedAt := now \<rparr>) d)"

text \<open>What goes with an environment.\<close>

definition dropEnvironment :: "string \<Rightarrow> 'z env_db_scheme \<Rightarrow> 'z env_db_scheme" where
  "dropEnvironment x d =
     d \<lparr> nb_envs := filter (\<lambda>e. en_ID e \<noteq> x) (nb_envs d), ab_envs := filter (\<lambda>e. fst e \<noteq> x) (ab_envs d),
         ab_alerts := filter (\<lambda>a. al_EnvID a \<noteq> x) (ab_alerts d),
         ab_deliveries := filter (\<lambda>v. ad_AlertID v \<notin> al_ID ` {a \<in> set (ab_alerts d). al_EnvID a = x}) (ab_deliveries d),
         eb_groups := filter (\<lambda>g. eg_EnvID g \<noteq> x) (eb_groups d),
         bb_budgets := filter (\<lambda>b. pb_EnvID b \<noteq> x) (bb_budgets d),
         bb_samples := filter (\<lambda>s. sp_BudgetID s \<notin> pb_ID ` {b \<in> set (bb_budgets d). pb_EnvID b = x}) (bb_samples d),
         mb_stats := filter (\<lambda>r. om_EnvID r \<noteq> x) (mb_stats d), mb_recordings := filter (\<lambda>r. pr_EnvID r \<noteq> x) (mb_recordings d),
         mb_snapshots := filter (\<lambda>r. ss_EnvID r \<noteq> x) (mb_snapshots d), mb_scans := filter (\<lambda>r. mg_EnvID r \<noteq> x) (mb_scans d),
         nb_heartbeats := filter (\<lambda>r. hb_EnvID r \<noteq> x) (nb_heartbeats d),
         nb_keys := filter (\<lambda>k. ky_EnvironmentID k \<noteq> Some x) (nb_keys d) \<rparr>"

definition DeleteEnvironment :: "faults \<Rightarrow> string \<Rightarrow> string \<Rightarrow> 'z env_db_scheme \<Rightarrow> (go_error + nat) \<times> 'z env_db_scheme" where
  "DeleteEnvironment fault envID tid d =
     (case fault ''DeleteEnvironment'' of
        Some e \<Rightarrow> (Inl e, d)
      | None \<Rightarrow>
          (Inr (length (filter (envIs envID tid) (nb_envs d))),
           if list_ex (envIs envID tid) (nb_envs d) then dropEnvironment envID d else d))"

subsection \<open>Heartbeats\<close>

definition InsertHeartbeat :: "faults \<Rightarrow> heartbeat_row \<Rightarrow> 'z env_db_scheme \<Rightarrow> (go_error + heartbeat_row) \<times> 'z env_db_scheme" where
  "InsertHeartbeat fault r d =
     insertRow fault ''InsertHeartbeat''
       [(hb_ID r \<in> hb_ID ` set (nb_heartbeats d), violation ''23505'' ''agent_heartbeats_pkey''),
        (hb_EnvID r \<notin> fst ` set (ab_envs d), violation ''23503'' ''agent_heartbeats_env_id_fkey'')]
       r d (d \<lparr> nb_heartbeats := nb_heartbeats d @ [r] \<rparr>)"

definition heartbeatsOf :: "string \<Rightarrow> 'z env_db_scheme \<Rightarrow> heartbeat_row list" where
  "heartbeatsOf envID d = newest hb_ReceivedAt (filter (\<lambda>h. hb_EnvID h = envID) (nb_heartbeats d))"

definition GetLatestHeartbeat :: "faults \<Rightarrow> string \<Rightarrow> 'z env_db_scheme \<Rightarrow> go_error + heartbeat_row" where
  "GetLatestHeartbeat fault envID d = query fault ''GetLatestHeartbeat'' (limit1 hd (heartbeatsOf envID d))"

definition ListHeartbeats :: "faults \<Rightarrow> string \<Rightarrow> nat \<Rightarrow> 'z env_db_scheme \<Rightarrow> go_error + heartbeat_row list" where
  "ListHeartbeats fault envID limit d = query fault ''ListHeartbeats'' (Inr (take limit (heartbeatsOf envID d)))"

definition DeleteOldHeartbeats :: "faults \<Rightarrow> string \<Rightarrow> int \<Rightarrow> 'z env_db_scheme \<Rightarrow> (go_error + nat) \<times> 'z env_db_scheme" where
  "DeleteOldHeartbeats fault tid cutoff d =
     deleteRows fault ''DeleteOldHeartbeats'' (\<lambda>h. ofTenant tid d (hb_EnvID h) \<and> hb_ReceivedAt h < cutoff)
       (nb_heartbeats d) nb_heartbeats_update d"

text \<open>The agents that should be sending and have not for an interval, with their last heartbeat.\<close>

definition lastHeartbeat :: "string \<Rightarrow> 'z env_db_scheme \<Rightarrow> int option" where
  "lastHeartbeat envID d = (case heartbeatsOf envID d of [] \<Rightarrow> None | h # _ \<Rightarrow> Some (hb_ReceivedAt h))"

definition ListStaleAgents :: "faults \<Rightarrow> int \<Rightarrow> int \<Rightarrow> 'z env_db_scheme \<Rightarrow> go_error + (env_row \<times> int) list" where
  "ListStaleAgents fault now interval d =
     query fault ''ListStaleAgents''
       (Inr (map (\<lambda>e. (e, case lastHeartbeat (en_ID e) d of None \<Rightarrow> 0 | Some t \<Rightarrow> t))
          (filter (\<lambda>e. en_Status e = ''connected'' \<and>
                       (case lastHeartbeat (en_ID e) d of None \<Rightarrow> True | Some t \<Rightarrow> t < now - interval)) (nb_envs d))))"

subsection \<open>API keys\<close>

definition CreateAPIKey :: "faults \<Rightarrow> key_row \<Rightarrow> 'z env_db_scheme \<Rightarrow> (go_error + key_row) \<times> 'z env_db_scheme" where
  "CreateAPIKey fault r d =
     insertRow fault ''CreateAPIKey''
       [(ky_ID r \<in> ky_ID ` set (nb_keys d), violation ''23505'' ''api_keys_pkey''),
        (ky_KeyHash r \<in> ky_KeyHash ` set (nb_keys d), violation ''23505'' ''api_keys_key_hash_key''),
        (ky_TenantID r \<notin> set (nb_tenants d), violation ''23503'' ''api_keys_tenant_id_fkey''),
        (case ky_CreatedBy r of None \<Rightarrow> False | Some u \<Rightarrow> u \<notin> set (nb_users d), violation ''23503'' ''api_keys_created_by_fkey''),
        (case ky_EnvironmentID r of None \<Rightarrow> False | Some e \<Rightarrow> e \<notin> fst ` set (ab_envs d), violation ''23503'' ''api_keys_environment_id_fkey'')]
       r d (d \<lparr> nb_keys := nb_keys d @ [r] \<rparr>)"

definition keyIs :: "string \<Rightarrow> string \<Rightarrow> key_row \<Rightarrow> bool" where
  "keyIs kid tid k \<longleftrightarrow> ky_ID k = kid \<and> ky_TenantID k = tid"

definition keyUsable :: "string \<Rightarrow> int \<Rightarrow> key_row \<Rightarrow> bool" where
  "keyUsable hash now k \<longleftrightarrow> ky_KeyHash k = hash \<and> ky_IsActive k \<and> (case ky_ExpiresAt k of None \<Rightarrow> True | Some t \<Rightarrow> now < t)"

definition GetAPIKeyByHash :: "faults \<Rightarrow> int \<Rightarrow> string \<Rightarrow> 'z env_db_scheme \<Rightarrow> go_error + key_row" where
  "GetAPIKeyByHash fault now hash d = query fault ''GetAPIKeyByHash'' (limit1 hd (filter (keyUsable hash now) (nb_keys d)))"

definition GetAPIKeyByID :: "faults \<Rightarrow> string \<Rightarrow> string \<Rightarrow> 'z env_db_scheme \<Rightarrow> go_error + key_row" where
  "GetAPIKeyByID fault kid tid d = query fault ''GetAPIKeyByID'' (limit1 hd (filter (keyIs kid tid) (nb_keys d)))"

definition ListAPIKeysByEnvironment :: "faults \<Rightarrow> string \<Rightarrow> string option \<Rightarrow> 'z env_db_scheme \<Rightarrow> go_error + key_row list" where
  "ListAPIKeysByEnvironment fault tid envID d =
     query fault ''ListAPIKeysByEnvironment''
       (Inr (newest ky_CreatedAt (filter (\<lambda>k. ky_TenantID k = tid \<and> envID \<noteq> None \<and> ky_EnvironmentID k = envID) (nb_keys d))))"

definition ListAPIKeysByTenant :: "faults \<Rightarrow> string \<Rightarrow> 'z env_db_scheme \<Rightarrow> go_error + key_row list" where
  "ListAPIKeysByTenant fault tid d =
     query fault ''ListAPIKeysByTenant'' (Inr (newest ky_CreatedAt (filter (\<lambda>k. ky_TenantID k = tid) (nb_keys d))))"

definition setKeys :: "(key_row \<Rightarrow> bool) \<Rightarrow> (key_row \<Rightarrow> key_row) \<Rightarrow> 'z env_db_scheme \<Rightarrow> 'z env_db_scheme" where
  "setKeys P f d = d \<lparr> nb_keys := map (\<lambda>k. if P k then f k else k) (nb_keys d) \<rparr>"

definition RevokeAPIKey :: "faults \<Rightarrow> string \<Rightarrow> string \<Rightarrow> 'z env_db_scheme \<Rightarrow> go_error option \<times> 'z env_db_scheme" where
  "RevokeAPIKey fault kid tid d = exec fault ''RevokeAPIKey'' d (setKeys (keyIs kid tid) (\<lambda>k. k \<lparr> ky_IsActive := False \<rparr>) d)"

definition TouchAPIKey :: "faults \<Rightarrow> int \<Rightarrow> string \<Rightarrow> 'z env_db_scheme \<Rightarrow> go_error option \<times> 'z env_db_scheme" where
  "TouchAPIKey fault now kid d =
     exec fault ''TouchAPIKey'' d (setKeys (\<lambda>k. ky_ID k = kid) (\<lambda>k. k \<lparr> ky_LastUsed := Some now \<rparr>) d)"

definition DeleteAPIKey :: "faults \<Rightarrow> string \<Rightarrow> string \<Rightarrow> 'z env_db_scheme \<Rightarrow> go_error option \<times> 'z env_db_scheme" where
  "DeleteAPIKey fault kid tid d =
     exec fault ''DeleteAPIKey'' d (d \<lparr> nb_keys := filter (Not \<circ> keyIs kid tid) (nb_keys d) \<rparr>)"

subsection \<open>An example\<close>

text \<open>One tenant with one environment, on which the examples of the services run.\<close>

definition oneEnvironment :: env_db where
  "oneEnvironment =
     \<lparr> ab_envs = [(''e1'', ''t1'')], ab_alerts = [], ab_channels = [], ab_deliveries = [], eb_groups = [], bb_budgets = [],
       bb_samples = [], mb_stats = [], mb_recordings = [], mb_snapshots = [], mb_scans = [], mb_logs = [], nb_tenants = [''t1''], nb_users = [],
       nb_envs = [\<lparr> en_ID = ''e1'', en_TenantID = ''t1'', en_Name = ''e1'', en_OdooUrl = [], en_DbName = [], en_OdooVersion = None,
         en_EnvType = ''staging'', en_Status = ''active'', en_AgentID = None, en_FeatureFlags = JNull, en_LastSync = None, en_CreatedAt = 0,
         en_UpdatedAt = 0, en_RegistrationToken = None, en_RegistrationTokenExpiresAt = None \<rparr>],
       nb_heartbeats = [], nb_keys = [] \<rparr>"

end
