(* ===== verification/Ingest_Worker.thy ===== *)
theory Ingest_Worker
  imports Error_Groups Budget_Service Alert_Worker Aggregator Environment_Store Go_Time
begin

text \<open>
  The ingest worker (\<^verbatim>\<open>internal/worker/ingest.go\<close>): a batch of the stream \<^verbatim>\<open>agent:ingest\<close> becomes error groups with traces in S3, ORM
  statistics, a profiler recording and budget samples, whose breaches are published. Instants of events are in nanoseconds, those of the
  database in microseconds. Parameters of the worker stand for \<^verbatim>\<open>uuid.Parse\<close>, the syntax of JSON, times in JSON, gzip and the order of
  maps; those of a call for the answers of S3, the database, Redis and the clock. Logging is left out.
\<close>

record IngestConfig =
  ic_Consumer :: ConsumerConfig
  ic_WorkerCount :: int
  ic_AlertStream :: string

definition DefaultIngestConfig :: "string \<Rightarrow> string \<Rightarrow> IngestConfig" where
  "DefaultIngestConfig stream grp =
     \<lparr> ic_Consumer = DefaultConsumerConfig stream grp, ic_WorkerCount = 2, ic_AlertStream = [] \<rparr>"

record ingest_worker =
  iw_parseUUID :: "string \<Rightarrow> go_error + string"
  iw_parse :: "string \<Rightarrow> json option"
  iw_parseTime :: "string \<Rightarrow> int option"
  iw_marshalTime :: "int \<Rightarrow> go_error + json"
  iw_gz :: "json \<Rightarrow> string"
  iw_print :: "json \<Rightarrow> string"
  iw_hasS3 :: bool
  iw_hasBudget :: bool
  iw_hasRedis :: bool
  iw_config :: IngestConfig
  iw_arrange :: arranger
  iw_collate :: "string \<Rightarrow> nat"
  iw_sort :: "ProfilerEvent list \<Rightarrow> ProfilerEvent list"
  iw_spans :: "rawSpan list \<Rightarrow> go_error + json"
  iw_n1 :: "n1Pattern list \<Rightarrow> go_error + json"
  iw_iter :: "(string, n1Pattern) gomap \<Rightarrow> (string, n1Pattern) gomap"
  iw_nodes :: "rawComputeNode list \<Rightarrow> go_error + json"

definition NewIngestWorker :: "ingest_worker \<Rightarrow> ingest_worker" where
  "NewIngestWorker W =
     W \<lparr> iw_config := (iw_config W) \<lparr> ic_WorkerCount := if ic_WorkerCount (iw_config W) \<le> 0 then 2 else ic_WorkerCount (iw_config W) \<rparr> \<rparr>"

subsection \<open>The batch\<close>

definition setTime :: "(string \<Rightarrow> int option) \<Rightarrow> (int \<Rightarrow> 's \<Rightarrow> 's) \<Rightarrow> 's setter" where
  "setTime pt upd v s =
     (case v of
        JNull \<Rightarrow> (None, s)
      | JString t \<Rightarrow> (case pt t of None \<Rightarrow> (Some (Plain ''parsing time''), s) | Some i \<Rightarrow> (None, upd i s))
      | _ \<Rightarrow> (Some (Plain ''Time.UnmarshalJSON: input is not a JSON string''), s))"

definition setStruct :: "(string \<times> 'a setter) list \<Rightarrow> ('s \<Rightarrow> 'a) \<Rightarrow> ('a \<Rightarrow> 's \<Rightarrow> 's) \<Rightarrow> 's setter" where
  "setStruct fs get upd v s = (case decodeStruct fs v (get s) of (e, x) \<Rightarrow> (e, upd x s))"

text \<open>A slice: every element is decoded, the first error counts.\<close>

definition setSlice :: "'a setter \<Rightarrow> 'a \<Rightarrow> ('a list \<Rightarrow> 's \<Rightarrow> 's) \<Rightarrow> 's setter" where
  "setSlice f zero upd v s =
     (case v of
        JNull \<Rightarrow> (None, upd [] s)
      | JArray vs \<Rightarrow>
          (let rs = map (\<lambda>w. f w zero) vs
           in (case filter (\<lambda>r. fst r \<noteq> None) rs of [] \<Rightarrow> None | r # _ \<Rightarrow> fst r, upd (map snd rs) s))
      | _ \<Rightarrow> (Some typeMismatch, s))"

definition zeroRawEvent :: Event where
  "zeroRawEvent =
     \<lparr> ev_Category = [], ev_Model = [], ev_Method = [], ev_DurationMS = 0, ev_IsError = False, ev_IsN1 = False, ev_SQL = [],
       ev_Module = [], ev_Traceback = [], ev_UserID = 0, ev_Timestamp = zeroTime, ev_FieldName = [], ev_IsCompute = False,
       ev_DependsOn = [], ev_TriggerField = [] \<rparr>"

definition eventFields :: "(string \<Rightarrow> int option) \<Rightarrow> (string \<times> Event setter) list" where
  "eventFields pt =
     [(''category'', setString (\<lambda>x. ev_Category_update (\<lambda>_. x))), (''model'', setString (\<lambda>x. ev_Model_update (\<lambda>_. x))),
      (''method'', setString (\<lambda>x. ev_Method_update (\<lambda>_. x))), (''duration_ms'', setInt 64 (\<lambda>x. ev_DurationMS_update (\<lambda>_. x))),
      (''is_error'', setBool (\<lambda>x. ev_IsError_update (\<lambda>_. x))), (''is_n1'', setBool (\<lambda>x. ev_IsN1_update (\<lambda>_. x))),
      (''sql'', setString (\<lambda>x. ev_SQL_update (\<lambda>_. x))), (''module'', setString (\<lambda>x. ev_Module_update (\<lambda>_. x))),
      (''traceback'', setString (\<lambda>x. ev_Traceback_update (\<lambda>_. x))), (''user_id'', setInt 64 (\<lambda>x. ev_UserID_update (\<lambda>_. x))),
      (''timestamp'', setTime pt (\<lambda>x. ev_Timestamp_update (\<lambda>_. x))), (''field_name'', setString (\<lambda>x. ev_FieldName_update (\<lambda>_. x))),
      (''is_compute'', setBool (\<lambda>x. ev_IsCompute_update (\<lambda>_. x))),
      (''depends_on'', setSlice (setString (\<lambda>x _. x)) [] (\<lambda>x. ev_DependsOn_update (\<lambda>_. x))),
      (''trigger_field'', setString (\<lambda>x. ev_TriggerField_update (\<lambda>_. x)))]"

definition zeroStat :: ORMModelStat where
  "zeroStat =
     \<lparr> os_Model = [], os_Method = [], os_CallCount = 0, os_TotalMS = 0, os_AvgMS = Fin 0, os_MaxMS = 0, os_P95MS = 0,
       os_N1Detected = False, os_SampleSQL = [] \<rparr>"

definition statFields :: "(string \<times> ORMModelStat setter) list" where
  "statFields =
     [(''model'', setString (\<lambda>x. os_Model_update (\<lambda>_. x))), (''method'', setString (\<lambda>x. os_Method_update (\<lambda>_. x))),
      (''call_count'', setInt 64 (\<lambda>x. os_CallCount_update (\<lambda>_. x))), (''total_ms'', setInt 64 (\<lambda>x. os_TotalMS_update (\<lambda>_. x))),
      (''avg_ms'', setFloat (\<lambda>x. os_AvgMS_update (\<lambda>_. x))), (''max_ms'', setInt 64 (\<lambda>x. os_MaxMS_update (\<lambda>_. x))),
      (''p95_ms'', setInt 64 (\<lambda>x. os_P95MS_update (\<lambda>_. x))), (''n1_detected'', setBool (\<lambda>x. os_N1Detected_update (\<lambda>_. x))),
      (''sample_sql'', setString (\<lambda>x. os_SampleSQL_update (\<lambda>_. x)))]"

definition summaryFields :: "(string \<times> BatchSummary setter) list" where
  "summaryFields =
     [(''total_queries'', setInt 64 (\<lambda>x. bs_TotalQueries_update (\<lambda>_. x))),
      (''total_duration_ms'', setInt 64 (\<lambda>x. bs_TotalDurationMS_update (\<lambda>_. x))),
      (''slow_queries'', setInt 64 (\<lambda>x. bs_SlowQueries_update (\<lambda>_. x))), (''n1_patterns'', setInt 64 (\<lambda>x. bs_N1Patterns_update (\<lambda>_. x))),
      (''errors'', setInt 64 (\<lambda>x. bs_Errors_update (\<lambda>_. x)))]"

definition zeroBatch :: AggregatedBatch where
  "zeroBatch =
     \<lparr> ab_EnvID = [], ab_Period = zeroTime, ab_DurationMS = 0, ab_ORMStats = [], ab_RawEvents = [], ab_Summary = zeroSummary \<rparr>"

definition batchFields :: "(string \<Rightarrow> int option) \<Rightarrow> (string \<times> AggregatedBatch setter) list" where
  "batchFields pt =
     [(''env_id'', setString (\<lambda>x. ab_EnvID_update (\<lambda>_. x))), (''period'', setTime pt (\<lambda>x. ab_Period_update (\<lambda>_. x))),
      (''duration_ms'', setInt 64 (\<lambda>x. ab_DurationMS_update (\<lambda>_. x))),
      (''orm_stats'', setSlice (decodeStruct statFields) zeroStat (\<lambda>x. ab_ORMStats_update (\<lambda>_. x))),
      (''raw_events'', setSlice (decodeStruct (eventFields pt)) zeroRawEvent (\<lambda>x. ab_RawEvents_update (\<lambda>_. x))),
      (''summary'', setStruct summaryFields ab_Summary (\<lambda>x. ab_Summary_update (\<lambda>_. x)))]"

definition decodeBatch :: "ingest_worker \<Rightarrow> string \<Rightarrow> go_error + AggregatedBatch" where
  "decodeBatch W data = Unmarshal (batchFields (iw_parseTime W)) (iw_parse W data) zeroBatch"

subsection \<open>Times\<close>

text \<open>The date of a day, and the layout \<^verbatim>\<open>20060102T150405Z\<close>.\<close>

definition civilDate :: "int \<Rightarrow> int \<times> int \<times> int" where
  "civilDate day =
     (let z = day + 719468; era = z div 146097; doe = z mod 146097;
          yoe = (doe - doe div 1460 + doe div 36524 - doe div 146096) div 365;
          doy = doe - (365 * yoe + yoe div 4 - yoe div 100); mp = (5 * doy + 2) div 153;
          m = (if mp < 10 then mp + 3 else mp - 9)
      in (yoe + era * 400 + (if m \<le> 2 then 1 else 0), m, doy - (153 * mp + 2) div 5 + 1))"

definition padInt :: "nat \<Rightarrow> int \<Rightarrow> string" where
  "padInt w i = (let ds = Itoa \<bar>i\<bar> in (if i < 0 then ''-'' else []) @ replicate (w - length ds) (CHR ''0'') @ ds)"

definition compactTime :: "int \<Rightarrow> string" where
  "compactTime ns =
     (let s = ns div 10 ^ 9; (y, m, d) = civilDate (s div 86400); t = s mod 86400
      in padInt 4 y @ padInt 2 m @ padInt 2 d @ ''T'' @ padInt 2 (t div 3600) @ padInt 2 (t div 60 mod 60) @ padInt 2 (t mod 60) @ ''Z'')"

subsection \<open>The state and the answers from outside\<close>

record ingest_state =
  ig_db :: env_db
  ig_s3 :: "(string, string) gomap"
  ig_stream :: "(string, string) gomap list"

record event_call =
  vc_fault :: faults
  vc_ids :: "string \<times> string \<times> string"
  vc_now :: int
  vc_clock :: int
  vc_put :: "go_error option"

record row_call =
  ro_fault :: faults
  ro_id :: string
  ro_now :: int
  ro_clock :: int

record ingest_call =
  gc_event :: "nat \<Rightarrow> event_call"
  gc_stat :: "nat \<Rightarrow> row_call"
  gc_recording :: row_call
  gc_budget :: service_call
  gc_publish :: "nat \<Rightarrow> go_error option"

subsection \<open>Errors\<close>

definition errorSignature :: "Event \<Rightarrow> string" where
  "errorSignature ev =
     ev_Category ev @ (if ev_Module ev \<noteq> [] then '':'' @ ev_Module ev else []) @
     (if ev_Model ev \<noteq> [] then '':'' @ ev_Model ev else []) @ (if ev_Method ev \<noteq> [] then '':'' @ ev_Method ev else [])"

definition TraceKey :: "string \<Rightarrow> string \<Rightarrow> string \<Rightarrow> string \<Rightarrow> string" where
  "TraceKey tenantID envID signature ts = tenantID @ ''/errors/'' @ envID @ ''/'' @ signature @ ''/'' @ ts @ ''.json.gz''"

definition gzipJSON :: "ingest_worker \<Rightarrow> go_error + json \<Rightarrow> go_error + string" where
  "gzipJSON W v = (case v of Inl e \<Rightarrow> Inl e | Inr j \<Rightarrow> Inr (iw_gz W j))"

definition traceContent :: "ingest_worker \<Rightarrow> Event \<Rightarrow> go_error + json" where
  "traceContent W ev =
     (case iw_marshalTime W (ev_Timestamp ev) of
        Inl e \<Rightarrow> Inl e
      | Inr t \<Rightarrow>
          Inr (JObject [(''captured_at'', t), (''message'', JString (ev_Category ev)), (''model'', JString (ev_Model ev)),
                        (''module'', JString (ev_Module ev)), (''sql'', JString (ev_SQL ev)), (''traceback'', JString (ev_Traceback ev)),
                        (''user_id'', JInt (ev_UserID ev))]))"

definition traceKeyOf :: "string \<Rightarrow> string \<Rightarrow> Event \<Rightarrow> string" where
  "traceKeyOf tid envID ev = TraceKey tid envID (errorSignature ev) (compactTime (ev_Timestamp ev))"

text \<open>The reference to the trace that is stored, if there is one.\<close>

definition putTrace ::
  "ingest_worker \<Rightarrow> event_call \<Rightarrow> string \<Rightarrow> string \<Rightarrow> Event \<Rightarrow> ingest_state \<Rightarrow> (go_error + string option) \<times> ingest_state" where
  "putTrace W c tid envID ev s =
     (if ev_Traceback ev = [] \<or> \<not> iw_hasS3 W then (Inr None, s)
      else case gzipJSON W (traceContent W ev) of
        Inl e \<Rightarrow> (Inl (Wrap ''compress trace'' e), s)
      | Inr compressed \<Rightarrow>
          (case vc_put c of
             Some e \<Rightarrow> (Inl (Wrap ''s3 put trace'' e), s)
           | None \<Rightarrow>
               (Inr (Some (traceKeyOf tid envID ev)), s \<lparr> ig_s3 := AList.update (traceKeyOf tid envID ev) compressed (ig_s3 s) \<rparr>)))"

definition errorMessage :: "Event \<Rightarrow> string" where
  "errorMessage ev = take 2000 (if ev_Traceback ev = [] then ev_Category ev else ev_Traceback ev)"

definition nonEmpty :: "string \<Rightarrow> string option" where
  "nonEmpty s = (if s = [] then None else Some s)"

definition errorParams :: "event_call \<Rightarrow> string \<Rightarrow> string \<Rightarrow> Event \<Rightarrow> string option \<Rightarrow> IngestErrorBatchParams" where
  "errorParams c tid envID ev traceRef =
     \<lparr> ie_EnvID = envID, ie_TenantID = tid, ie_Signature = errorSignature ev,
       ie_ErrorType = (if ev_Category ev = [] then ''Error'' else ev_Category ev), ie_Message = errorMessage ev,
       ie_Module = nonEmpty (ev_Module ev), ie_Model = nonEmpty (ev_Model ev),
       ie_Timestamp = pgTime (if ev_Timestamp ev = zeroTime then vc_clock c else ev_Timestamp ev),
       ie_AffectedUIDs = (if 0 < ev_UserID ev then [int32 (ev_UserID ev)] else []), ie_RawTraceRef = traceRef,
       ie_SpikeThreshold = 0 \<rparr>"

definition processErrorEvent ::
  "ingest_worker \<Rightarrow> event_call \<Rightarrow> string \<Rightarrow> string \<Rightarrow> Event \<Rightarrow> ingest_state \<Rightarrow> go_error option \<times> ingest_state" where
  "processErrorEvent W c tid envID ev s =
     (case putTrace W c tid envID ev s of
        (Inl e, s') \<Rightarrow> (Some e, s')
      | (Inr traceRef, s') \<Rightarrow>
          (case IngestErrorBatchTx (vc_fault c) (vc_ids c) (vc_now c) (errorParams c tid envID ev traceRef) (ig_db s') of
             (Inl e, d) \<Rightarrow> (Some e, s' \<lparr> ig_db := d \<rparr>)
           | (Inr _, d) \<Rightarrow> (None, s' \<lparr> ig_db := d \<rparr>)))"

definition errorEventStep ::
  "ingest_worker \<Rightarrow> ingest_call \<Rightarrow> string \<Rightarrow> string \<Rightarrow> nat \<times> Event \<Rightarrow> nat \<times> ingest_state \<Rightarrow> nat \<times> ingest_state" where
  "errorEventStep W c tid envID e st =
     (if \<not> ev_IsError (snd e) then st
      else case processErrorEvent W (gc_event c (fst e)) tid envID (snd e) (snd st) of
        (Some _, s) \<Rightarrow> (fst st, s)
      | (None, s) \<Rightarrow> (fst st + 1, s))"

definition processErrorEvents ::
  "ingest_worker \<Rightarrow> ingest_call \<Rightarrow> string \<Rightarrow> string \<Rightarrow> AggregatedBatch \<Rightarrow> ingest_state \<Rightarrow> nat \<times> ingest_state" where
  "processErrorEvents W c tid envID batch s = fold (errorEventStep W c tid envID) (enumerate 0 (ab_RawEvents batch)) (0, s)"

subsection \<open>ORM statistics\<close>

definition positive32 :: "int \<Rightarrow> int option" where
  "positive32 i = (if 0 < i then Some (int32 i) else None)"

definition statRow :: "row_call \<Rightarrow> string \<Rightarrow> AggregatedBatch \<Rightarrow> ORMModelStat \<Rightarrow> orm_row" where
  "statRow c envID batch st =
     \<lparr> om_ID = ro_id c, om_EnvID = envID, om_Model = os_Model st, om_Method = os_Method st, om_CallCount = int32 (os_CallCount st),
       om_TotalMs = int32 (os_TotalMS st), om_AvgMs = Some (fmtFixed 2 (os_AvgMS st)), om_MaxMs = positive32 (os_MaxMS st),
       om_P95Ms = positive32 (os_P95MS st), om_N1Detected = os_N1Detected st, om_SampleSql = nonEmpty (os_SampleSQL st),
       om_Period = pgTime (if ab_Period batch = zeroTime then ro_clock c else ab_Period batch), om_CreatedAt = ro_now c \<rparr>"

definition storeORMStat ::
  "row_call \<Rightarrow> string \<Rightarrow> AggregatedBatch \<Rightarrow> ORMModelStat \<Rightarrow> ingest_state \<Rightarrow> go_error option \<times> ingest_state" where
  "storeORMStat c envID batch st s =
     (case InsertORMStat (ro_fault c) (statRow c envID batch st) (ig_db s) of
        (Inl e, d) \<Rightarrow> (Some e, s \<lparr> ig_db := d \<rparr>)
      | (Inr _, d) \<Rightarrow> (None, s \<lparr> ig_db := d \<rparr>))"

definition ormStatStep ::
  "ingest_call \<Rightarrow> string \<Rightarrow> AggregatedBatch \<Rightarrow> nat \<times> ORMModelStat \<Rightarrow> nat \<times> ingest_state \<Rightarrow> nat \<times> ingest_state" where
  "ormStatStep c envID batch e st =
     (case storeORMStat (gc_stat c (fst e)) envID batch (snd e) (snd st) of
        (Some _, s) \<Rightarrow> (fst st, s)
      | (None, s) \<Rightarrow> (fst st + 1, s))"

definition processORMStats :: "ingest_call \<Rightarrow> string \<Rightarrow> AggregatedBatch \<Rightarrow> ingest_state \<Rightarrow> nat \<times> ingest_state" where
  "processORMStats c envID batch s = fold (ormStatStep c envID batch) (enumerate 0 (ab_ORMStats batch)) (0, s)"

subsection \<open>Profiler events\<close>

definition toProfilerEvent :: "Event \<Rightarrow> ProfilerEvent" where
  "toProfilerEvent ev =
     \<lparr> pe_Category = ev_Category ev, pe_Model = ev_Model ev, pe_Method = ev_Method ev, pe_DurationMS = ev_DurationMS ev,
       pe_IsError = ev_IsError ev, pe_IsN1 = ev_IsN1 ev, pe_SQL = ev_SQL ev, pe_Module = ev_Module ev, pe_Traceback = ev_Traceback ev,
       pe_UserID = ev_UserID ev, pe_Timestamp = ev_Timestamp ev, pe_FieldName = ev_FieldName ev, pe_IsCompute = ev_IsCompute ev,
       pe_DependsOn = ev_DependsOn ev, pe_TriggerField = ev_TriggerField ev \<rparr>"

definition extractProfilerEvents :: "AggregatedBatch \<Rightarrow> ProfilerEvent list" where
  "extractProfilerEvents batch =
     map toProfilerEvent
       (filter (\<lambda>ev. ev_Category ev = ''profiler'' \<or> ev_Category ev = ''orm'' \<or> ev_Category ev = ''sql'') (ab_RawEvents batch))"

definition recordingRow :: "ingest_worker \<Rightarrow> row_call \<Rightarrow> string \<Rightarrow> AggregatedBatch \<Rightarrow> ProfilerEvent list \<Rightarrow> recording_row" where
  "recordingRow W c envID batch events =
     (let (waterfall, n1, meta) = BuildWaterfallFromEvents (iw_sort W) (iw_spans W) (iw_n1 W) (JArray []) (iw_iter W) events;
          totMs = (if int32 (mt_TotalMS meta) = 0 then int32 (bs_TotalDurationMS (ab_Summary batch)) else int32 (mt_TotalMS meta))
      in \<lparr> pr_ID = ro_id c, pr_EnvID = envID, pr_TriggeredBy = None, pr_Name = ''batch-'' @ compactTime (ab_Period batch),
           pr_Endpoint = None, pr_TotalMs = totMs, pr_SqlCount = Some (int32 (mt_SQLCount meta)), pr_SqlMs = Some (int32 (mt_SQLMS meta)),
           pr_PythonMs = Some (int32 (mt_PythonMS meta)), pr_Waterfall = waterfall,
           pr_ComputeChain = BuildComputeChainFromEvents (iw_sort W) (iw_nodes W) events, pr_N1Patterns = n1, pr_RawLogRef = None,
           pr_RecordedAt = ro_now c \<rparr>)"

definition processProfilerEventsFromSlice ::
  "ingest_worker \<Rightarrow> row_call \<Rightarrow> string \<Rightarrow> AggregatedBatch \<Rightarrow> ProfilerEvent list \<Rightarrow> ingest_state \<Rightarrow> go_error option \<times> ingest_state" where
  "processProfilerEventsFromSlice W c envID batch events s =
     (case CreateProfilerRecording (ro_fault c) (recordingRow W c envID batch events) (ig_db s) of
        (Inl e, d) \<Rightarrow> (Some (Wrap ''create profiler recording'' e), s \<lparr> ig_db := d \<rparr>)
      | (Inr _, d) \<Rightarrow> (None, s \<lparr> ig_db := d \<rparr>))"

definition processProfilerEvents ::
  "ingest_worker \<Rightarrow> row_call \<Rightarrow> string \<Rightarrow> AggregatedBatch \<Rightarrow> ProfilerEvent list \<Rightarrow> ingest_state \<Rightarrow> nat \<times> ingest_state" where
  "processProfilerEvents W c envID batch events s =
     (if events = [] then (0, s)
      else case processProfilerEventsFromSlice W c envID batch events s of
        (Some _, s') \<Rightarrow> (0, s')
      | (None, s') \<Rightarrow> (length events, s'))"

subsection \<open>Budgets and breaches\<close>

definition toThresholdBreach :: "string \<Rightarrow> string \<Rightarrow> OverheadBreach \<Rightarrow> ThresholdBreach" where
  "toThresholdBreach tenantID envID b =
     \<lparr> tb_TenantID = tenantID, tb_EnvID = envID, tb_BudgetID = ob_BudgetID b, tb_Module = ob_Module b, tb_Endpoint = ob_Endpoint b,
       tb_OverheadPct = ob_OverheadPct b, tb_ThresholdPct = ob_ThresholdPct b, tb_TotalMS = ob_TotalMS b, tb_ModuleMS = ob_ModuleMS b,
       tb_Breakdown = ob_Breakdown b \<rparr>"

definition publishStep ::
  "ingest_worker \<Rightarrow> ingest_call \<Rightarrow> string \<Rightarrow> string \<Rightarrow> nat \<times> OverheadBreach \<Rightarrow> ingest_state \<Rightarrow> ingest_state" where
  "publishStep W c tenantID envID b s =
     (case (PublishThresholdBreach (iw_print W) (toThresholdBreach tenantID envID (snd b)), gc_publish c (fst b)) of
        (Inr entry, None) \<Rightarrow> s \<lparr> ig_stream := ig_stream s @ [entry] \<rparr>
      | _ \<Rightarrow> s)"

definition publishThresholdBreaches ::
  "ingest_worker \<Rightarrow> ingest_call \<Rightarrow> string \<Rightarrow> string \<Rightarrow> OverheadBreach list \<Rightarrow> ingest_state \<Rightarrow> ingest_state" where
  "publishThresholdBreaches W c tenantID envID breaches s =
     (if \<not> iw_hasRedis W \<or> ic_AlertStream (iw_config W) = [] \<or> breaches = [] then s
      else fold (publishStep W c tenantID envID) (enumerate 0 breaches) s)"

definition processBudgetAndAlerts ::
  "ingest_worker \<Rightarrow> ingest_call \<Rightarrow> string \<Rightarrow> string \<Rightarrow> AggregatedBatch \<Rightarrow> ProfilerEvent list \<Rightarrow> ingest_state \<Rightarrow> nat \<times> ingest_state" where
  "processBudgetAndAlerts W c tenantID envID batch events s =
     (if \<not> iw_hasBudget W \<or> events = [] then (0, s)
      else case CalculateOverhead (iw_arrange W) (iw_collate W) (gc_budget c) envID events (ig_db s) of
        (Inl _, d) \<Rightarrow> (0, s \<lparr> ig_db := d \<rparr>)
      | (Inr res, d) \<Rightarrow>
          (or_SamplesInserted res, publishThresholdBreaches W c tenantID (ab_EnvID batch) (or_Breaches res) (s \<lparr> ig_db := d \<rparr>)))"

subsection \<open>A message\<close>

definition processBatch :: "ingest_worker \<Rightarrow> ingest_call \<Rightarrow> string \<Rightarrow> string \<Rightarrow> string \<Rightarrow> AggregatedBatch \<Rightarrow> ingest_state \<Rightarrow> ingest_state" where
  "processBatch W c tenantID tid envID batch s =
     (let (_, s1) = processErrorEvents W c tid envID batch s;
          (_, s2) = processORMStats c envID batch s1;
          events = extractProfilerEvents batch;
          (_, s3) = processProfilerEvents W (gc_recording c) envID batch events s2
      in snd (processBudgetAndAlerts W c tenantID envID batch events s3))"

definition ingestMessage :: "ingest_worker \<Rightarrow> ingest_call \<Rightarrow> string \<Rightarrow> string \<Rightarrow> ingest_state \<Rightarrow> go_error option \<times> ingest_state" where
  "ingestMessage W c tenantID data s =
     (case iw_parseUUID W tenantID of
        Inl e \<Rightarrow> (Some (Wrap (''invalid tenant_id '' @ quoted tenantID) e), s)
      | Inr tid \<Rightarrow>
          case decodeBatch W data of
            Inl e \<Rightarrow> (Some (Wrap ''unmarshal batch'' e), s)
          | Inr batch \<Rightarrow>
              case iw_parseUUID W (ab_EnvID batch) of
                Inl e \<Rightarrow> (Some (Wrap (''invalid env_id '' @ quoted (ab_EnvID batch)) e), s)
              | Inr envID \<Rightarrow> (None, processBatch W c tenantID tid envID batch s))"

end
