(* ===== verification/Ingest_Correct.thy ===== *)
theory Ingest_Correct
  imports Ingest_Worker
begin

text \<open>
  The ingest worker over any sequence of messages: the error groups sum up the error events it has recorded, whatever else fails, and the
  trace that a group refers to is stored.
\<close>

lemma compactTime_examples: "compactTime (1709210096 * 10 ^ 9 + 5) = ''20240229T123456Z''" "compactTime 0 = ''19700101T000000Z''"
  "compactTime (951868799 * 10 ^ 9) = ''20000229T235959Z''" "compactTime (- (10 ^ 9)) = ''19691231T235959Z''" "compactTime zeroTime = ''00010101T000000Z''"
  by code_simp+

text \<open>What has been recorded of an event, of a list of events, of a message and of a sequence of messages.\<close>

record recorded =
  re_call :: event_call
  re_tenant :: string
  re_env :: string
  re_event :: Event
  re_trace :: "string option"

definition paramsOf :: "recorded \<Rightarrow> IngestErrorBatchParams" where
  "paramsOf r = errorParams (re_call r) (re_tenant r) (re_env r) (re_event r) (re_trace r)"

definition recordedOf :: "ingest_worker \<Rightarrow> ingest_call \<Rightarrow> string \<Rightarrow> string \<Rightarrow> nat \<times> Event \<Rightarrow> ingest_state \<Rightarrow> recorded list" where
  "recordedOf W c tid envID e s =
     (if ev_IsError (snd e) \<and> fst (processErrorEvent W (gc_event c (fst e)) tid envID (snd e) s) = None
      then (case fst (putTrace W (gc_event c (fst e)) tid envID (snd e) s) of
              Inl _ \<Rightarrow> []
            | Inr traceRef \<Rightarrow>
                [\<lparr> re_call = gc_event c (fst e), re_tenant = tid, re_env = envID, re_event = snd e, re_trace = traceRef \<rparr>])
      else [])"

fun recordedIn :: "ingest_worker \<Rightarrow> ingest_call \<Rightarrow> string \<Rightarrow> string \<Rightarrow> (nat \<times> Event) list \<Rightarrow> nat \<times> ingest_state \<Rightarrow> recorded list" where
  "recordedIn W c tid envID [] st = []"
| "recordedIn W c tid envID (e # es) st =
     recordedOf W c tid envID e (snd st) @ recordedIn W c tid envID es (errorEventStep W c tid envID e st)"

definition messageLog :: "ingest_worker \<Rightarrow> ingest_call \<Rightarrow> string \<Rightarrow> string \<Rightarrow> ingest_state \<Rightarrow> recorded list" where
  "messageLog W c tenantID data s =
     (case (iw_parseUUID W tenantID, decodeBatch W data) of
        (Inr tid, Inr batch) \<Rightarrow>
          (case iw_parseUUID W (ab_EnvID batch) of
             Inr envID \<Rightarrow> recordedIn W c tid envID (enumerate 0 (ab_RawEvents batch)) (0, s)
           | Inl _ \<Rightarrow> [])
      | _ \<Rightarrow> [])"

fun ingestAll :: "ingest_worker \<Rightarrow> (ingest_call \<times> string \<times> string) list \<Rightarrow> ingest_state \<Rightarrow> ingest_state" where
  "ingestAll W [] s = s"
| "ingestAll W ((c, tenantID, data) # ms) s = ingestAll W ms (snd (ingestMessage W c tenantID data s))"

fun ingestLog :: "ingest_worker \<Rightarrow> (ingest_call \<times> string \<times> string) list \<Rightarrow> ingest_state \<Rightarrow> recorded list" where
  "ingestLog W [] s = []"
| "ingestLog W ((c, tenantID, data) # ms) s =
     messageLog W c tenantID data s @ ingestLog W ms (snd (ingestMessage W c tenantID data s))"

subsection \<open>What only error events change\<close>

definition sameErrors :: "ingest_state \<Rightarrow> ingest_state \<Rightarrow> bool" where
  "sameErrors s s' \<longleftrightarrow> eb_groups (ig_db s') = eb_groups (ig_db s) \<and> ig_s3 s' = ig_s3 s"

lemma sameErrors_refl: "sameErrors s s"
  by (simp add: sameErrors_def)

lemma sameErrors_trans: "sameErrors s s' \<Longrightarrow> sameErrors s' s'' \<Longrightarrow> sameErrors s s''"
  by (simp add: sameErrors_def)

lemma sameErrors_fold:
  assumes "\<And>x st. sameErrors (g st) (g (f x st))"
  shows "sameErrors (g st) (g (fold f xs st))"
proof (induction xs arbitrary: st)
  case (Cons x xs)
  then show ?case using sameErrors_trans [OF assms Cons.IH] by simp
qed (simp add: sameErrors_refl)

lemma InsertORMStat_groups: "InsertORMStat fault r d = (x, d') \<Longrightarrow> eb_groups d' = eb_groups d"
  by (auto simp: InsertORMStat_def insertRow_def split: option.splits list.splits prod.splits)

lemma ormStatStep_same: "sameErrors (snd st) (snd (ormStatStep c envID batch e st))"
  by (auto simp: ormStatStep_def storeORMStat_def sameErrors_def split: prod.split sum.split option.split dest: InsertORMStat_groups)

lemma processORMStats_same: "sameErrors s (snd (processORMStats c envID batch s))"
  using sameErrors_fold [where g = snd and f = "ormStatStep c envID batch", OF ormStatStep_same, of "(0, s)"]
  by (simp add: processORMStats_def)

lemma CreateProfilerRecording_groups: "CreateProfilerRecording fault r d = (x, d') \<Longrightarrow> eb_groups d' = eb_groups d"
  by (auto simp: CreateProfilerRecording_def insertRow_def split: option.splits list.splits prod.splits)

lemma processProfilerEvents_same: "sameErrors s (snd (processProfilerEvents W c envID batch events s))"
  by (auto simp: processProfilerEvents_def processProfilerEventsFromSlice_def sameErrors_def
      split: prod.split sum.split option.split dest: CreateProfilerRecording_groups)

lemma InsertBudgetSample_groups: "InsertBudgetSample fault i now bid pct t m bd d = (x, d') \<Longrightarrow> eb_groups d' = eb_groups d"
  by (auto simp: InsertBudgetSample_def insertRow_def Let_def split: option.splits list.splits prod.splits)

lemma sampleBudget_groups: "eb_groups (snd (sampleBudget arrange c t m b st)) = eb_groups (snd st)"
  by (auto simp: sampleBudget_def split: prod.split sum.split option.split dest: InsertBudgetSample_groups)

lemma fold_sampleBudget_groups: "eb_groups (snd (fold (sampleBudget arrange c t m) bs st)) = eb_groups (snd st)"
  by (induction bs arbitrary: st) (simp_all add: sampleBudget_groups)

lemma fold_sampleBudget_groupsD: "fold (sampleBudget arrange c t m) bs (r, d) = (r', d') \<Longrightarrow> eb_groups d' = eb_groups d"
  using fold_sampleBudget_groups [of arrange c t m bs "(r, d)"] by simp

lemma CalculateOverhead_groups: "CalculateOverhead arrange collate c envID events d = (x, d') \<Longrightarrow> eb_groups d' = eb_groups d"
  by (auto simp: CalculateOverhead_def Let_def split: sum.splits prod.splits if_splits dest: fold_sampleBudget_groupsD)

lemma publishStep_same: "sameErrors s (publishStep W c tenantID envID b s)"
  by (auto simp: publishStep_def sameErrors_def split: sum.split option.split)

lemma processBudgetAndAlerts_same: "sameErrors s (snd (processBudgetAndAlerts W c tenantID envID batch events s))"
proof -
  obtain x d where calc: "CalculateOverhead (iw_arrange W) (iw_collate W) (gc_budget c) envID events (ig_db s) = (x, d)" by fastforce
  have "sameErrors s (s \<lparr> ig_db := d \<rparr>)"
    using CalculateOverhead_groups [OF calc] by (simp add: sameErrors_def)
  moreover have "sameErrors (s \<lparr> ig_db := d \<rparr>) (publishThresholdBreaches W c tenantID (ab_EnvID batch) bs (s \<lparr> ig_db := d \<rparr>))" for bs
    using sameErrors_fold [where g = "\<lambda>x. x" and f = "publishStep W c tenantID (ab_EnvID batch)", OF publishStep_same]
    by (simp add: publishThresholdBreaches_def sameErrors_refl)
  ultimately have "sameErrors s (publishThresholdBreaches W c tenantID (ab_EnvID batch) bs (s \<lparr> ig_db := d \<rparr>))" for bs
    by (rule sameErrors_trans)
  then show ?thesis
    using calc \<open>sameErrors s (s \<lparr> ig_db := d \<rparr>)\<close> by (cases x) (simp_all add: processBudgetAndAlerts_def sameErrors_refl)
qed

lemma processBatch_same:
  "sameErrors (snd (processErrorEvents W c tid envID batch s)) (processBatch W c tenantID tid envID batch s)"
  unfolding processBatch_def Let_def split_beta
  by (rule sameErrors_trans [OF processORMStats_same], rule sameErrors_trans [OF processProfilerEvents_same],
      rule processBudgetAndAlerts_same)

subsection \<open>Recorded errors\<close>

definition ingest_ok :: "ingest_state \<times> recorded list \<Rightarrow> bool" where
  "ingest_ok st \<longleftrightarrow>
     groups_ok (ig_db (fst st), map paramsOf (snd st)) \<and>
     (\<forall>r \<in> set (snd st). ev_IsError (re_event r) \<and> (\<forall>k. re_trace r = Some k \<longrightarrow> map_of (ig_s3 (fst st)) k \<noteq> None))"

lemma ingest_ok_same: "ingest_ok (s, hist) \<Longrightarrow> sameErrors s s' \<Longrightarrow> ingest_ok (s', hist)"
  by (simp add: ingest_ok_def sameErrors_def groups_ok_def)

lemma putTrace_cases:
  assumes "putTrace W c tid envID ev s = (x, s')"
  shows "ig_db s' = ig_db s \<and> (\<forall>k. map_of (ig_s3 s) k \<noteq> None \<longrightarrow> map_of (ig_s3 s') k \<noteq> None) \<and>
    (\<forall>k. x = Inr (Some k) \<longrightarrow> map_of (ig_s3 s') k \<noteq> None)"
  using assms by (auto simp: putTrace_def update_conv' split: if_splits sum.splits option.splits)

lemma processErrorEvent_ok:
  assumes ok: "ingest_ok (s, hist)" and err: "ev_IsError (snd e)"
  shows "ingest_ok (snd (processErrorEvent W (gc_event c (fst e)) tid envID (snd e) s), hist @ recordedOf W c tid envID e s)"
proof -
  let ?c = "gc_event c (fst e)"
  obtain x s' where put: "putTrace W ?c tid envID (snd e) s = (x, s')" by fastforce
  note kept = putTrace_cases [OF put]
  have ok': "ingest_ok (s', hist)"
    using ok kept by (simp add: ingest_ok_def)
  show ?thesis
  proof (cases x)
    case (Inl err)
    then show ?thesis using ok' put by (simp add: processErrorEvent_def recordedOf_def)
  next
    case (Inr ref)
    let ?r = "\<lparr> re_call = ?c, re_tenant = tid, re_env = envID, re_event = snd e, re_trace = ref \<rparr>"
    let ?arg = "errorParams ?c tid envID (snd e) ref"
    obtain y d where tx: "IngestErrorBatchTx (vc_fault ?c) (vc_ids ?c) (vc_now ?c) ?arg (ig_db s') = (y, d)" by fastforce
    have groups: "groups_ok (errorStep (Record (vc_fault ?c) (vc_ids ?c) (vc_now ?c) ?arg) (ig_db s', map paramsOf hist))"
      using ok' by (intro Record_ok) (simp add: ingest_ok_def)
    show ?thesis
    proof (cases y)
      case (Inl err)
      then show ?thesis
        using ok' put Inr tx groups by (simp add: processErrorEvent_def recordedOf_def ingest_ok_def)
    next
      case (Inr u)
      have step: "processErrorEvent W ?c tid envID (snd e) s = (None, s' \<lparr> ig_db := d \<rparr>)"
        using put \<open>x = Inr ref\<close> tx Inr by (simp add: processErrorEvent_def)
      have "recordedOf W c tid envID e s = [?r]"
        using step err put \<open>x = Inr ref\<close> by (simp add: recordedOf_def)
      moreover have "groups_ok (d, map paramsOf hist @ [paramsOf ?r])"
        using groups tx Inr by (simp add: paramsOf_def)
      moreover have "\<forall>k. ref = Some k \<longrightarrow> map_of (ig_s3 s') k \<noteq> None"
        using kept \<open>x = Inr ref\<close> by simp
      ultimately show ?thesis
        using ok' step err by (auto simp: ingest_ok_def)
    qed
  qed
qed

lemma errorEventStep_ok:
  assumes "ingest_ok (snd st, hist)"
  shows "ingest_ok (snd (errorEventStep W c tid envID e st), hist @ recordedOf W c tid envID e (snd st))"
proof (cases "ev_IsError (snd e)")
  case True
  then show ?thesis
    using processErrorEvent_ok [OF assms True, of W c tid envID]
    by (auto simp: errorEventStep_def split: prod.splits option.splits)
qed (use assms in \<open>simp add: errorEventStep_def recordedOf_def\<close>)

lemma processErrorEvents_ok:
  assumes "ingest_ok (snd st, hist)"
  shows "ingest_ok (snd (fold (errorEventStep W c tid envID) es st), hist @ recordedIn W c tid envID es st)"
  using assms
proof (induction es arbitrary: st hist)
  case (Cons e es)
  show ?case
    using Cons.IH [OF errorEventStep_ok [OF Cons.prems]] by simp
qed simp

lemma ingestMessage_ok:
  assumes "ingest_ok (s, hist)"
  shows "ingest_ok (snd (ingestMessage W c tenantID data s), hist @ messageLog W c tenantID data s)"
proof (cases "iw_parseUUID W tenantID")
  case (Inr tid)
  show ?thesis
  proof (cases "decodeBatch W data")
    case (Inr batch)
    show ?thesis
    proof (cases "iw_parseUUID W (ab_EnvID batch)")
      case (Inr envID)
      have "ingest_ok (snd (processErrorEvents W c tid envID batch s), hist @ messageLog W c tenantID data s)"
        using processErrorEvents_ok [of "(0, s)" hist] assms \<open>iw_parseUUID W tenantID = Inr tid\<close> \<open>decodeBatch W data = Inr batch\<close> Inr
        by (simp add: processErrorEvents_def messageLog_def)
      then show ?thesis
        using ingest_ok_same processBatch_same \<open>iw_parseUUID W tenantID = Inr tid\<close> \<open>decodeBatch W data = Inr batch\<close> Inr
        by (simp add: ingestMessage_def)
    qed (use assms \<open>iw_parseUUID W tenantID = Inr tid\<close> Inr in \<open>simp add: ingestMessage_def messageLog_def\<close>)
  qed (use assms Inr in \<open>simp add: ingestMessage_def messageLog_def\<close>)
qed (use assms in \<open>simp add: ingestMessage_def messageLog_def\<close>)

lemma ingestAll_ok: "ingest_ok (s, hist) \<Longrightarrow> ingest_ok (ingestAll W ms s, hist @ ingestLog W ms s)"
proof (induction ms arbitrary: s hist)
  case (Cons m ms)
  obtain c t d where m: "m = (c, t, d)" by (cases m) auto
  show ?case
    using Cons.IH [OF ingestMessage_ok [OF Cons.prems]] by (simp add: m)
qed simp

text \<open>
  C6: Whatever messages the worker handles and whatever fails meanwhile, the table of error groups sums up the error events recorded, one group
  for each environment and signature, and the trace a group refers to is in the store.
\<close>

theorem ingest_sums_up:
  assumes "eb_groups (ig_db s) = []"
  shows "distinct (map groupKey (eb_groups (ig_db (ingestAll W ms s)))) \<and>
    groupKey ` set (eb_groups (ig_db (ingestAll W ms s))) = (\<lambda>r. (re_env r, errorSignature (re_event r))) ` set (ingestLog W ms s) \<and>
    (\<forall>g \<in> set (eb_groups (ig_db (ingestAll W ms s))).
       sumsUp (map paramsOf (filter (\<lambda>r. (re_env r, errorSignature (re_event r)) = groupKey g) (ingestLog W ms s))) g \<and>
       (\<forall>k. eg_RawTraceRef g = Some k \<longrightarrow> map_of (ig_s3 (ingestAll W ms s)) k \<noteq> None)) \<and>
    (\<forall>r \<in> set (ingestLog W ms s). ev_IsError (re_event r))"
proof -
  let ?s = "ingestAll W ms s" and ?hist = "ingestLog W ms s"
  have "ingest_ok (s, [])" using assms by (simp add: ingest_ok_def groups_ok_def)
  then have ok: "ingest_ok (?s, ?hist)" using ingestAll_ok [of s "[]"] by simp
  have key: "(ie_EnvID (paramsOf r), ie_Signature (paramsOf r)) = (re_env r, errorSignature (re_event r))" for r
    by (simp add: paramsOf_def errorParams_def)
  have occ: "occurrences (map paramsOf ?hist) g = map paramsOf (filter (\<lambda>r. (re_env r, errorSignature (re_event r)) = groupKey g) ?hist)" for g
    by (simp add: occurrences_def filter_map comp_def paramsOf_def errorParams_def groupKey_def)
  have sums: "sumsUp (map paramsOf (filter (\<lambda>r. (re_env r, errorSignature (re_event r)) = groupKey g) ?hist)) g"
    if "g \<in> set (eb_groups (ig_db ?s))" for g
    using ok that by (simp add: ingest_ok_def groups_ok_def occ)
  have trace: "map_of (ig_s3 ?s) k \<noteq> None" if g: "g \<in> set (eb_groups (ig_db ?s))" and k: "eg_RawTraceRef g = Some k" for g k
  proof -
    let ?rs = "filter (\<lambda>r. (re_env r, errorSignature (re_event r)) = groupKey g) ?hist"
    have "?rs \<noteq> []" "ie_RawTraceRef (last (map paramsOf ?rs)) = Some k"
      using sums [OF g] k by (auto simp: sumsUp_def)
    then have "last ?rs \<in> set ?hist" "re_trace (last ?rs) = Some k"
      using last_in_set [of ?rs] by (auto simp: last_map paramsOf_def errorParams_def)
    then show ?thesis using ok by (auto simp: ingest_ok_def)
  qed
  have "(\<lambda>r. (re_env r, errorSignature (re_event r))) ` set ?hist \<subseteq> groupKey ` set (eb_groups (ig_db ?s))"
    using ok by (auto simp: ingest_ok_def groups_ok_def paramsOf_def errorParams_def)
  moreover have "groupKey g \<in> (\<lambda>r. (re_env r, errorSignature (re_event r))) ` set ?hist" if "g \<in> set (eb_groups (ig_db ?s))" for g
  proof -
    have "filter (\<lambda>r. (re_env r, errorSignature (re_event r)) = groupKey g) ?hist \<noteq> []"
      using sums [OF that] by (auto simp: sumsUp_def)
    then show ?thesis by (force simp: filter_empty_conv)
  qed
  ultimately show ?thesis
    using ok sums trace by (auto simp: ingest_ok_def groups_ok_def)
qed

subsection \<open>An example\<close>

definition exampleEnvDb :: env_db where
  "exampleEnvDb =
     \<lparr> ab_envs = [(''e1'', ''t1'')], ab_alerts = [], ab_channels = [], ab_deliveries = [], eb_groups = [], bb_budgets = [],
       bb_samples = [], mb_stats = [], mb_recordings = [], mb_snapshots = [], mb_scans = [], mb_logs = [], nb_tenants = [''t1''],
       nb_users = [], nb_envs = [], nb_heartbeats = [], nb_keys = [] \<rparr>"

definition exampleIngestState :: ingest_state where
  "exampleIngestState = \<lparr> ig_db = exampleEnvDb, ig_s3 = [], ig_stream = [] \<rparr>"

definition exampleIngestWorker :: ingest_worker where
  "exampleIngestWorker =
     \<lparr> iw_parseUUID = Inr,
       iw_parse = (\<lambda>_. Some (JObject
         [(''env_id'', JString ''e1''),
          (''raw_events'', JArray
             [JObject [(''category'', JString ''error''), (''is_error'', JBool True), (''traceback'', JString ''boom''),
                       (''user_id'', JInt 7), (''timestamp'', JString ''1970-01-01T00:00:05Z'')],
              JObject [(''category'', JString ''orm''), (''duration_ms'', JInt 3)]])])),
       iw_parseTime = (\<lambda>_. Some 5000000000), iw_marshalTime = (\<lambda>_. Inr (JString ''1970-01-01T00:00:05Z'')), iw_gz = (\<lambda>_. ''gz''),
       iw_print = (\<lambda>_. []), iw_hasS3 = True, iw_hasBudget = False, iw_hasRedis = False,
       iw_config = DefaultIngestConfig ''agent:ingest'' ''ingest'', iw_arrange = (\<lambda>x. x), iw_collate = length, iw_sort = (\<lambda>x. x),
       iw_spans = (\<lambda>_. Inr JNull), iw_n1 = (\<lambda>_. Inr JNull), iw_iter = (\<lambda>x. x), iw_nodes = (\<lambda>_. Inr JNull) \<rparr>"

definition exampleIngestCall :: ingest_call where
  "exampleIngestCall =
     \<lparr> gc_event = (\<lambda>_. \<lparr> vc_fault = \<lambda>_. None, vc_ids = (''g1'', ''a1'', ''a2''), vc_now = 9, vc_clock = 9, vc_put = None \<rparr>),
       gc_stat = (\<lambda>_. \<lparr> ro_fault = \<lambda>_. None, ro_id = ''o1'', ro_now = 9, ro_clock = 9 \<rparr>),
       gc_recording = \<lparr> ro_fault = \<lambda>_. None, ro_id = ''p1'', ro_now = 9, ro_clock = 9 \<rparr>,
       gc_budget = \<lparr> sr_fault = \<lambda>_. None, sr_ids = \<lambda>_. ''b1'', sr_now = 9 \<rparr>, gc_publish = (\<lambda>_. None) \<rparr>"

lemma example_log:
  "map (\<lambda>r. (re_env r, errorSignature (re_event r), re_trace r)) (ingestLog exampleIngestWorker [(exampleIngestCall, ''t1'', ''batch'')] exampleIngestState) =
     [(''e1'', ''error'', Some ''t1/errors/e1/error/19700101T000005Z.json.gz'')]"
  unfolding ingestLog.simps append_Nil2
  by code_simp

lemma distinct_singleton: "distinct xs \<Longrightarrow> set xs = {x} \<Longrightarrow> xs = [x]"
  by (cases xs; cases "tl xs") auto

theorem ingest_sums_up_witness:
  "let s' = ingestAll exampleIngestWorker [(exampleIngestCall, ''t1'', ''batch'')] exampleIngestState in
   map groupKey (eb_groups (ig_db s')) = [(''e1'', ''error'')]"
proof -
  have "eb_groups (ig_db exampleIngestState) = []" by (simp add: exampleIngestState_def exampleEnvDb_def)
  note ingest_sums_up [OF this, of exampleIngestWorker "[(exampleIngestCall, ''t1'', ''batch'')]"]
  moreover have "(\<lambda>r. (re_env r, errorSignature (re_event r))) ` set (ingestLog exampleIngestWorker [(exampleIngestCall, ''t1'', ''batch'')] exampleIngestState) = {(''e1'', ''error'')}"
    using arg_cong [OF example_log, of "\<lambda>xs. (\<lambda>(e, s, t). (e, s)) ` set xs"] by (simp add: image_image)
  ultimately have "distinct (map groupKey (eb_groups (ig_db (ingestAll exampleIngestWorker [(exampleIngestCall, ''t1'', ''batch'')] exampleIngestState))))"
    "set (map groupKey (eb_groups (ig_db (ingestAll exampleIngestWorker [(exampleIngestCall, ''t1'', ''batch'')] exampleIngestState)))) = {(''e1'', ''error'')}"
    by simp_all
  then show ?thesis
    by (simp add: distinct_singleton Let_def del: set_map)
qed

end
