(* ===== verification/Retention_Worker.thy ===== *)
theory Retention_Worker
  imports Environment_Store Go_Time
begin

text \<open>
  The retention worker (\<^verbatim>\<open>internal/worker/retention.go\<close>): every hour it deletes, for each tenant, what is older than the tenant's policy says,
  error traces in S3 before the error groups. A call has the clock, the faults of the statements and the answers of S3. The numbers of days are such that the dates exist.
  Logging and the ticker are left out.
\<close>

record RetentionConfig =
  rg_RunInterval :: int

definition hourNanos :: int where
  "hourNanos = 3600 * 10 ^ 9"

definition DefaultRetentionConfig :: RetentionConfig where
  "DefaultRetentionConfig = \<lparr> rg_RunInterval = hourNanos \<rparr>"

definition NewRetentionWorker :: "RetentionConfig \<Rightarrow> RetentionConfig" where
  "NewRetentionWorker cfg = (if rg_RunInterval cfg \<le> 0 then cfg \<lparr> rg_RunInterval := hourNanos \<rparr> else cfg)"

subsection \<open>Policies\<close>

record tenantRetentionPolicy =
  po_ErrorTracesDays :: int
  po_ProfilerRecordingsDays :: int
  po_BudgetSamplesDays :: int
  po_SchemaSnapshotsKeep :: int
  po_RawLogsDays :: int
  po_AuditLogsDays :: int

definition defaultPolicy :: tenantRetentionPolicy where
  "defaultPolicy =
     \<lparr> po_ErrorTracesDays = 7, po_ProfilerRecordingsDays = 7, po_BudgetSamplesDays = 30, po_SchemaSnapshotsKeep = 10,
       po_RawLogsDays = 3, po_AuditLogsDays = 90 \<rparr>"

definition policyFields :: "(string \<times> tenantRetentionPolicy setter) list" where
  "policyFields =
     [(''error_traces_days'', setInt 64 (\<lambda>x. po_ErrorTracesDays_update (\<lambda>_. x))),
      (''profiler_recordings_days'', setInt 64 (\<lambda>x. po_ProfilerRecordingsDays_update (\<lambda>_. x))),
      (''budget_samples_days'', setInt 64 (\<lambda>x. po_BudgetSamplesDays_update (\<lambda>_. x))),
      (''schema_snapshots_keep'', setInt 64 (\<lambda>x. po_SchemaSnapshotsKeep_update (\<lambda>_. x))),
      (''raw_logs_days'', setInt 64 (\<lambda>x. po_RawLogsDays_update (\<lambda>_. x))),
      (''audit_log_days'', setInt 64 (\<lambda>x. po_AuditLogsDays_update (\<lambda>_. x)))]"

definition orDefault :: "int \<Rightarrow> int \<Rightarrow> int" where
  "orDefault n def = (if n = 0 then def else n)"

text \<open>The column is empty or a JSON value.\<close>

definition parsePolicy :: "json option \<Rightarrow> tenantRetentionPolicy" where
  "parsePolicy raw =
     (case raw of
        None \<Rightarrow> defaultPolicy
      | Some v \<Rightarrow>
          (case decodeStruct policyFields v defaultPolicy of
             (Some _, _) \<Rightarrow> defaultPolicy
           | (None, p) \<Rightarrow>
               \<lparr> po_ErrorTracesDays = orDefault (po_ErrorTracesDays p) (po_ErrorTracesDays defaultPolicy),
                 po_ProfilerRecordingsDays = orDefault (po_ProfilerRecordingsDays p) (po_ProfilerRecordingsDays defaultPolicy),
                 po_BudgetSamplesDays = orDefault (po_BudgetSamplesDays p) (po_BudgetSamplesDays defaultPolicy),
                 po_SchemaSnapshotsKeep = orDefault (po_SchemaSnapshotsKeep p) (po_SchemaSnapshotsKeep defaultPolicy),
                 po_RawLogsDays = orDefault (po_RawLogsDays p) (po_RawLogsDays defaultPolicy),
                 po_AuditLogsDays = orDefault (po_AuditLogsDays p) (po_AuditLogsDays defaultPolicy) \<rparr>))"

subsection \<open>Cleaning up\<close>

record retention_state =
  rk_db :: env_db
  rk_s3 :: "(string, string) gomap"

record retention_call =
  rk_fault :: faults
  rk_clock :: int
  rk_hasS3 :: bool
  rk_delete :: "string \<Rightarrow> go_error option"

text \<open>\<^verbatim>\<open>AddDate(0, 0, -days)\<close> in UTC, at the precision of the database.\<close>

definition cutoff :: "int \<Rightarrow> int \<Rightarrow> int" where
  "cutoff now days = (now - days * (86400 * 10 ^ 9)) div 1000"

definition deleteTrace :: "retention_call \<Rightarrow> string \<Rightarrow> (string, string) gomap \<Rightarrow> (string, string) gomap" where
  "deleteTrace c key s3 = (case rk_delete c key of Some _ \<Rightarrow> s3 | None \<Rightarrow> AList.delete key s3)"

definition deleteErrorGroups :: "retention_call \<Rightarrow> string \<Rightarrow> int \<Rightarrow> retention_state \<Rightarrow> retention_state" where
  "deleteErrorGroups c tid limit s =
     (let refs = (if rk_hasS3 c then ListExpiringErrorGroupRefs (rk_fault c) tid limit (rk_db s) else Inr []);
          s3 = (case refs of Inl _ \<Rightarrow> rk_s3 s | Inr keys \<Rightarrow> fold (deleteTrace c) keys (rk_s3 s))
      in \<lparr> rk_db = snd (DeleteOldErrorGroups (rk_fault c) tid limit (rk_db s)), rk_s3 = s3 \<rparr>)"

definition onTables :: "(env_db \<Rightarrow> 'a \<times> env_db) \<Rightarrow> retention_state \<Rightarrow> retention_state" where
  "onTables f s = s \<lparr> rk_db := snd (f (rk_db s)) \<rparr>"

text \<open>A number that is not positive keeps everything.\<close>

definition whenPositive :: "int \<Rightarrow> (retention_state \<Rightarrow> retention_state) \<Rightarrow> retention_state \<Rightarrow> retention_state" where
  "whenPositive n f s = (if 0 < n then f s else s)"

definition runForTenant :: "retention_call \<Rightarrow> string \<times> json option \<Rightarrow> retention_state \<Rightarrow> retention_state" where
  "runForTenant c tenant s0 =
     (let tid = fst tenant; p = parsePolicy (snd tenant); now = rk_clock c; fault = rk_fault c;
          s1 = whenPositive (po_ErrorTracesDays p) (deleteErrorGroups c tid (cutoff now (po_ErrorTracesDays p))) s0;
          s2 = whenPositive (po_ProfilerRecordingsDays p)
                 (onTables (DeleteOldProfilerRecordings fault tid (cutoff now (po_ProfilerRecordingsDays p)))) s1;
          s3 = whenPositive (po_BudgetSamplesDays p)
                 (onTables (DeleteOldBudgetSamples fault tid (cutoff now (po_BudgetSamplesDays p)))) s2;
          s4 = whenPositive (po_RawLogsDays p) (onTables (DeleteOldORMStats fault tid (cutoff now (po_RawLogsDays p)))) s3;
          s5 = whenPositive (po_ErrorTracesDays p) (onTables (DeleteOldAlerts fault tid (cutoff now (po_ErrorTracesDays p)))) s4;
          s6 = whenPositive (po_SchemaSnapshotsKeep p)
                 (onTables (\<lambda>d. case pageInt (int32 (po_SchemaSnapshotsKeep p)) 0 [()] of
                    Inl e \<Rightarrow> (Inl e, d)
                  | Inr _ \<Rightarrow> DeleteOldSchemaSnapshots fault tid (nat (int32 (po_SchemaSnapshotsKeep p))) d)) s5;
          s7 = whenPositive (po_AuditLogsDays p) (onTables (DeleteOldAuditLogs fault tid (cutoff now (po_AuditLogsDays p)))) s6
      in onTables (DeleteOldHeartbeats fault tid (cutoff now 7)) s7)"

text \<open>\<open>cancelled\<close> tells before which of the tenants the context is cancelled, if it is.\<close>

fun runTenants :: "(nat \<Rightarrow> bool) \<Rightarrow> (nat \<Rightarrow> retention_call) \<Rightarrow> nat \<Rightarrow> (string \<times> json option) list \<Rightarrow> retention_state \<Rightarrow> retention_state" where
  "runTenants cancelled calls i [] s = s"
| "runTenants cancelled calls i (t # ts) s =
     (if cancelled i then s else runTenants cancelled calls (i + 1) ts (runForTenant (calls i) t s))"

definition runAll ::
  "(nat \<Rightarrow> bool) \<Rightarrow> (nat \<Rightarrow> retention_call) \<Rightarrow> go_error + (string \<times> json option) list \<Rightarrow> retention_state \<Rightarrow> retention_state" where
  "runAll cancelled calls tenants s = (case tenants of Inl _ \<Rightarrow> s | Inr ts \<Rightarrow> runTenants cancelled calls 0 ts s)"

subsection \<open>What a run deletes\<close>

definition aged :: "int \<Rightarrow> int \<Rightarrow> int \<Rightarrow> bool" where
  "aged now days t \<longleftrightarrow> 0 < days \<and> t < cutoff now days"

text \<open>Each step, faults and numbers that are not positive included, filters one table.\<close>

abbreviation works :: "retention_call \<Rightarrow> string \<Rightarrow> bool" where
  "works c name \<equiv> rk_fault c name = None"

lemma filter_id: "filter (\<lambda>_. True) = (\<lambda>x. x)"
  by (rule ext) simp

lemma deleteRows_filter:
  assumes "\<And>d. upd (\<lambda>x. x) d = d"
  shows "snd (deleteRows fault name P rows upd d) = upd (filter (\<lambda>r. \<not> (fault name = None \<and> P r))) d"
  using assms by (cases "fault name") (simp_all add: deleteRows_def comp_def filter_id)

lemmas step_simps = whenPositive_def onTables_def aged_def filter_id deleteRows_filter

lemma recordings_step:
  "whenPositive n (onTables (DeleteOldProfilerRecordings fault tid (cutoff now n))) s =
     s \<lparr> rk_db := mb_recordings_update (filter (\<lambda>r. \<not> (fault ''DeleteOldProfilerRecordings'' = None \<and>
        ofTenant tid (rk_db s) (pr_EnvID r) \<and> aged now n (pr_RecordedAt r)))) (rk_db s) \<rparr>"
  by (cases "0 < n") (simp_all add: step_simps DeleteOldProfilerRecordings_def)

lemma stats_step:
  "whenPositive n (onTables (DeleteOldORMStats fault tid (cutoff now n))) s =
     s \<lparr> rk_db := mb_stats_update (filter (\<lambda>r. \<not> (fault ''DeleteOldORMStats'' = None \<and>
        ofTenant tid (rk_db s) (om_EnvID r) \<and> aged now n (om_Period r)))) (rk_db s) \<rparr>"
  by (cases "0 < n") (simp_all add: step_simps DeleteOldORMStats_def)

lemma logs_step:
  "whenPositive n (onTables (DeleteOldAuditLogs fault tid (cutoff now n))) s =
     s \<lparr> rk_db := mb_logs_update (filter (\<lambda>r. \<not> (fault ''DeleteOldAuditLogs'' = None \<and>
        lg_TenantID r = tid \<and> aged now n (lg_CreatedAt r)))) (rk_db s) \<rparr>"
  by (cases "0 < n") (simp_all add: step_simps DeleteOldAuditLogs_def)

lemma heartbeats_step:
  "onTables (DeleteOldHeartbeats fault tid (cutoff now 7)) s =
     s \<lparr> rk_db := nb_heartbeats_update (filter (\<lambda>r. \<not> (fault ''DeleteOldHeartbeats'' = None \<and>
        ofTenant tid (rk_db s) (hb_EnvID r) \<and> aged now 7 (hb_ReceivedAt r)))) (rk_db s) \<rparr>"
  by (simp add: step_simps DeleteOldHeartbeats_def)

lemma samples_step:
  "whenPositive n (onTables (DeleteOldBudgetSamples fault tid (cutoff now n))) s =
     s \<lparr> rk_db := bb_samples_update (filter (\<lambda>r. \<not> (fault ''DeleteOldBudgetSamples'' = None \<and>
        tenantBudget tid (rk_db s) (sp_BudgetID r) \<and> aged now n (sp_SampledAt r)))) (rk_db s) \<rparr>"
  by (cases "0 < n"; cases "fault ''DeleteOldBudgetSamples''")
    (simp_all add: step_simps DeleteOldBudgetSamples_def Let_def comp_def)

lemma alerts_step:
  "whenPositive n (onTables (DeleteOldAlerts fault tid (cutoff now n))) s =
     (let old = (\<lambda>a. fault ''DeleteOldAlerts'' = None \<and> ofTenant tid (rk_db s) (al_EnvID a) \<and> aged now n (al_CreatedAt a)) in
      s \<lparr> rk_db := ab_deliveries_update (filter (\<lambda>v. ad_AlertID v \<notin> al_ID ` set (filter old (ab_alerts (rk_db s)))))
                   (ab_alerts_update (filter (\<lambda>a. \<not> old a)) (rk_db s)) \<rparr>)"
  by (cases "0 < n"; cases "fault ''DeleteOldAlerts''")
    (simp_all add: step_simps DeleteOldAlerts_def ofTenant_def Let_def comp_def)

definition deletedTraces :: "retention_call \<Rightarrow> string \<Rightarrow> int \<Rightarrow> env_db \<Rightarrow> string set" where
  "deletedTraces c tid days d =
     {k. rk_hasS3 c \<and> works c ''ListExpiringErrorGroupRefs'' \<and> rk_delete c k = None \<and>
         (\<exists>g \<in> set (eb_groups d). ofTenant tid d (eg_EnvID g) \<and> eg_Status g \<noteq> ''open'' \<and> aged (rk_clock c) days (eg_LastSeen g) \<and>
                                  eg_RawTraceRef g = Some k)}"

lemma fold_deleteTrace:
  "map_of (fold (deleteTrace c) keys s3) = (\<lambda>k. if k \<in> set keys \<and> rk_delete c k = None then None else map_of s3 k)"
proof (induction keys arbitrary: s3)
  case (Cons key keys)
  have "map_of (deleteTrace c key s3) = (\<lambda>k. if k = key \<and> rk_delete c k = None then None else map_of s3 k)"
    by (auto simp: deleteTrace_def delete_conv' fun_eq_iff split: option.split)
  then show ?case
    using Cons.IH [of "deleteTrace c key s3"] by (auto simp: fun_eq_iff)
qed (simp add: fun_eq_iff)

lemma expiring_aged:
  "0 < n \<Longrightarrow> expiringGroup tid (cutoff now n) d =
     (\<lambda>g. ofTenant tid d (eg_EnvID g) \<and> eg_Status g \<noteq> ''open'' \<and> aged now n (eg_LastSeen g))"
  by (auto simp: expiringGroup_def ofTenant_def aged_def)

lemma set_map_filter: "set (List.map_filter f xs) = {y. \<exists>x \<in> set xs. f x = Some y}"
  by (force simp: List.map_filter_def)

lemma groups_step:
  "rk_db (whenPositive n (deleteErrorGroups c tid (cutoff (rk_clock c) n)) s) =
     (rk_db s) \<lparr> eb_groups := filter (\<lambda>g. \<not> (works c ''DeleteOldErrorGroups'' \<and> ofTenant tid (rk_db s) (eg_EnvID g) \<and>
        eg_Status g \<noteq> ''open'' \<and> aged (rk_clock c) n (eg_LastSeen g))) (eb_groups (rk_db s)) \<rparr>"
proof (cases "0 < n")
  case True
  then show ?thesis
    by (cases "rk_fault c ''DeleteOldErrorGroups''")
      (simp_all add: whenPositive_def deleteErrorGroups_def DeleteOldErrorGroups_def expiring_aged Let_def comp_def)
qed (simp add: whenPositive_def aged_def)

lemma traces_step:
  "map_of (rk_s3 (whenPositive n (deleteErrorGroups c tid (cutoff (rk_clock c) n)) s)) =
     (\<lambda>k. if k \<in> deletedTraces c tid n (rk_db s) then None else map_of (rk_s3 s) k)"
proof (cases "0 < n")
  case True
  then show ?thesis
    by (cases "rk_fault c ''ListExpiringErrorGroupRefs''")
      (auto simp: whenPositive_def deleteErrorGroups_def deletedTraces_def ListExpiringErrorGroupRefs_def query_def
        expiring_aged fold_deleteTrace set_map_filter fun_eq_iff)
qed (simp add: whenPositive_def aged_def deletedTraces_def)

lemma int32_id: "0 < n \<Longrightarrow> n < 2 ^ 31 \<Longrightarrow> int32 n = n"
  by (simp add: int32_def)

lemma snapshots_step:
  assumes "n < 2 ^ 31"
  shows "whenPositive n (onTables (\<lambda>d. case pageInt (int32 n) 0 [()] of Inl e \<Rightarrow> (Inl e, d)
        | Inr _ \<Rightarrow> DeleteOldSchemaSnapshots fault tid (nat (int32 n)) d)) s =
     s \<lparr> rk_db := mb_snapshots_update (filter (\<lambda>x. \<not> (fault ''DeleteOldSchemaSnapshots'' = None \<and> 0 < n \<and>
        ofTenant tid (rk_db s) (ss_EnvID x) \<and> \<not> keptSnapshot (nat n) (rk_db s) x))) (rk_db s) \<rparr>"
  using assms by (cases "0 < n") (simp_all add: step_simps DeleteOldSchemaSnapshots_def pageInt_def int32_id)

lemma filter_take_distinct:
  assumes "distinct (map f xs)"
  shows "filter (\<lambda>x. f x \<in> f ` set (take k xs)) xs = take k xs"
proof -
  have "f ` set (take k xs) \<inter> f ` set (drop k xs) = {}"
    using assms by (subst (asm) append_take_drop_id [symmetric, of _ k], unfold map_append distinct_append) simp
  then have "filter (\<lambda>x. f x \<in> f ` set (take k xs)) (drop k xs) = []"
    by (auto simp: filter_empty_conv)
  moreover have "filter (\<lambda>x. f x \<in> f ` set (take k xs)) (take k xs) = take k xs"
    by (simp add: filter_True)
  ultimately show ?thesis
    by (metis append_Nil2 append_take_drop_id filter_append)
qed

lemma newest_filter: "newest t (filter P xs) = filter P (newest t xs)"
  by (simp add: newest_def filter_sort)

lemma snapshots_kept:
  assumes "distinct (map ss_ID (mb_snapshots d))"
    and d': "mb_snapshots d' = filter (\<lambda>x. \<not> (B \<and> ofTenant tid d (ss_EnvID x) \<and> \<not> keptSnapshot k d x)) (mb_snapshots d)"
  shows "snapshotsOf envID d' = (if B \<and> ofTenant tid d envID then take k (snapshotsOf envID d) else snapshotsOf envID d)"
proof -
  have env: "\<forall>x \<in> set (snapshotsOf envID d). ss_EnvID x = envID"
    by (simp add: snapshotsOf_def newest_def)
  have "distinct (map ss_ID (snapshotsOf envID d))"
    using assms(1) distinct_map_filter
    by (metis (no_types, lifting) distinct_map newest_def set_sort distinct_sort snapshotsOf_def)
  then have take: "filter (\<lambda>x. ss_ID x \<in> ss_ID ` set (take k (snapshotsOf envID d))) (snapshotsOf envID d) = take k (snapshotsOf envID d)"
    by (rule filter_take_distinct)
  have "snapshotsOf envID d' = filter (\<lambda>x. \<not> (B \<and> ofTenant tid d (ss_EnvID x) \<and> \<not> keptSnapshot k d x)) (snapshotsOf envID d)"
    by (simp add: snapshotsOf_def d' newest_filter conj_commute)
  also have "\<dots> = filter (\<lambda>x. \<not> (B \<and> ofTenant tid d envID) \<or> ss_ID x \<in> ss_ID ` set (take k (snapshotsOf envID d))) (snapshotsOf envID d)"
    using env by (intro filter_cong) (auto simp: keptSnapshot_def)
  finally show ?thesis
    using take by simp
qed

text \<open>The tables after a run, with every condition on the tables before it.\<close>

definition tablesAfter :: "retention_call \<Rightarrow> string \<Rightarrow> tenantRetentionPolicy \<Rightarrow> env_db \<Rightarrow> env_db" where
  "tablesAfter c tid p d =
     (let now = rk_clock c; T = ofTenant tid d;
          dead = (\<lambda>a. works c ''DeleteOldAlerts'' \<and> T (al_EnvID a) \<and> aged now (po_ErrorTracesDays p) (al_CreatedAt a)) in
      d \<lparr> eb_groups := filter (\<lambda>g. \<not> (works c ''DeleteOldErrorGroups'' \<and> T (eg_EnvID g) \<and> eg_Status g \<noteq> ''open'' \<and>
            aged now (po_ErrorTracesDays p) (eg_LastSeen g))) (eb_groups d),
          mb_recordings := filter (\<lambda>r. \<not> (works c ''DeleteOldProfilerRecordings'' \<and> T (pr_EnvID r) \<and>
            aged now (po_ProfilerRecordingsDays p) (pr_RecordedAt r))) (mb_recordings d),
          bb_samples := filter (\<lambda>x. \<not> (works c ''DeleteOldBudgetSamples'' \<and> tenantBudget tid d (sp_BudgetID x) \<and>
            aged now (po_BudgetSamplesDays p) (sp_SampledAt x))) (bb_samples d),
          mb_stats := filter (\<lambda>r. \<not> (works c ''DeleteOldORMStats'' \<and> T (om_EnvID r) \<and>
            aged now (po_RawLogsDays p) (om_Period r))) (mb_stats d),
          ab_alerts := filter (\<lambda>a. \<not> dead a) (ab_alerts d),
          ab_deliveries := filter (\<lambda>v. ad_AlertID v \<notin> al_ID ` set (filter dead (ab_alerts d))) (ab_deliveries d),
          mb_snapshots := filter (\<lambda>x. \<not> ((works c ''DeleteOldSchemaSnapshots'' \<and> 0 < po_SchemaSnapshotsKeep p) \<and> T (ss_EnvID x) \<and>
            \<not> keptSnapshot (nat (po_SchemaSnapshotsKeep p)) d x)) (mb_snapshots d),
          mb_logs := filter (\<lambda>l. \<not> (works c ''DeleteOldAuditLogs'' \<and> lg_TenantID l = tid \<and>
            aged now (po_AuditLogsDays p) (lg_CreatedAt l))) (mb_logs d),
          nb_heartbeats := filter (\<lambda>h. \<not> (works c ''DeleteOldHeartbeats'' \<and> T (hb_EnvID h) \<and> aged now 7 (hb_ReceivedAt h))) (nb_heartbeats d) \<rparr>)"

lemma runForTenant_tables:
  assumes "po_SchemaSnapshotsKeep (parsePolicy raw) < 2 ^ 31"
  shows "rk_db (runForTenant c (tid, raw) s) = tablesAfter c tid (parsePolicy raw) (rk_db s) \<and>
    map_of (rk_s3 (runForTenant c (tid, raw) s)) =
      (\<lambda>k. if k \<in> deletedTraces c tid (po_ErrorTracesDays (parsePolicy raw)) (rk_db s) then None else map_of (rk_s3 s) k)"
proof -
  define p where "p = parsePolicy raw"
  define now where "now = rk_clock c"
  define fault where "fault = rk_fault c"
  define s1 where "s1 = whenPositive (po_ErrorTracesDays p) (deleteErrorGroups c tid (cutoff now (po_ErrorTracesDays p))) s"
  define s2 where "s2 = whenPositive (po_ProfilerRecordingsDays p)
    (onTables (DeleteOldProfilerRecordings fault tid (cutoff now (po_ProfilerRecordingsDays p)))) s1"
  define s3 where "s3 = whenPositive (po_BudgetSamplesDays p)
    (onTables (DeleteOldBudgetSamples fault tid (cutoff now (po_BudgetSamplesDays p)))) s2"
  define s4 where "s4 = whenPositive (po_RawLogsDays p) (onTables (DeleteOldORMStats fault tid (cutoff now (po_RawLogsDays p)))) s3"
  define s5 where "s5 = whenPositive (po_ErrorTracesDays p) (onTables (DeleteOldAlerts fault tid (cutoff now (po_ErrorTracesDays p)))) s4"
  define s6 where "s6 = whenPositive (po_SchemaSnapshotsKeep p)
    (onTables (\<lambda>d. case pageInt (int32 (po_SchemaSnapshotsKeep p)) 0 [()] of Inl e \<Rightarrow> (Inl e, d)
      | Inr _ \<Rightarrow> DeleteOldSchemaSnapshots fault tid (nat (int32 (po_SchemaSnapshotsKeep p))) d)) s5"
  define s7 where "s7 = whenPositive (po_AuditLogsDays p) (onTables (DeleteOldAuditLogs fault tid (cutoff now (po_AuditLogsDays p)))) s6"
  define s' where "s' = runForTenant c (tid, raw) s"
  have run: "s' = onTables (DeleteOldHeartbeats fault tid (cutoff now 7)) s7"
    by (simp only: s'_def runForTenant_def Let_def fst_conv snd_conv p_def now_def fault_def s1_def s2_def s3_def s4_def s5_def s6_def s7_def)
  have keep: "po_SchemaSnapshotsKeep p < 2 ^ 31" using assms by (simp add: p_def)
  define T where "T = ofTenant tid (rk_db s)"
  have d1: "rk_db s1 = (rk_db s) \<lparr> eb_groups := filter (\<lambda>g. \<not> (fault ''DeleteOldErrorGroups'' = None \<and> T (eg_EnvID g) \<and>
      eg_Status g \<noteq> ''open'' \<and> aged now (po_ErrorTracesDays p) (eg_LastSeen g))) (eb_groups (rk_db s)) \<rparr>"
    by (simp add: s1_def now_def fault_def T_def groups_step)
  have t1: "ofTenant tid (rk_db s1) = T" by (simp add: d1 T_def ofTenant_def fun_eq_iff)
  have d2: "rk_db s2 = mb_recordings_update (filter (\<lambda>r. \<not> (fault ''DeleteOldProfilerRecordings'' = None \<and> T (pr_EnvID r) \<and>
      aged now (po_ProfilerRecordingsDays p) (pr_RecordedAt r)))) (rk_db s1)"
    by (simp add: s2_def recordings_step t1)
  have t2: "tenantBudget tid (rk_db s2) = tenantBudget tid (rk_db s)" "ofTenant tid (rk_db s2) = T"
    by (simp_all add: d2 d1 T_def ofTenant_def tenantBudget_def fun_eq_iff)
  have d3: "rk_db s3 = bb_samples_update (filter (\<lambda>x. \<not> (fault ''DeleteOldBudgetSamples'' = None \<and>
      tenantBudget tid (rk_db s) (sp_BudgetID x) \<and> aged now (po_BudgetSamplesDays p) (sp_SampledAt x)))) (rk_db s2)"
    by (simp add: s3_def samples_step t2)
  have t3: "ofTenant tid (rk_db s3) = T" using t2(2) by (simp add: d3 ofTenant_def fun_eq_iff)
  have d4: "rk_db s4 = mb_stats_update (filter (\<lambda>r. \<not> (fault ''DeleteOldORMStats'' = None \<and> T (om_EnvID r) \<and>
      aged now (po_RawLogsDays p) (om_Period r)))) (rk_db s3)"
    by (simp add: s4_def stats_step t3)
  have t4: "ofTenant tid (rk_db s4) = T" "ab_alerts (rk_db s4) = ab_alerts (rk_db s)"
    using t3 by (simp_all add: d4 d3 d2 d1 ofTenant_def fun_eq_iff)
  define dead :: "alert_row \<Rightarrow> bool" where "dead = (\<lambda>a. fault ''DeleteOldAlerts'' = None \<and> T (al_EnvID a) \<and> aged now (po_ErrorTracesDays p) (al_CreatedAt a))"
  have d5: "rk_db s5 = ab_deliveries_update (filter (\<lambda>v. ad_AlertID v \<notin> al_ID ` set (filter dead (ab_alerts (rk_db s)))))
      (ab_alerts_update (filter (\<lambda>a. \<not> dead a)) (rk_db s4))"
    by (simp add: s5_def alerts_step t4 dead_def Let_def)
  have t5: "ofTenant tid (rk_db s5) = T" "mb_snapshots (rk_db s5) = mb_snapshots (rk_db s)"
    using t4 by (simp_all add: d5 d4 d3 d2 d1 ofTenant_def fun_eq_iff)
  have k5: "keptSnapshot k (rk_db s5) = keptSnapshot k (rk_db s)" for k
    by (simp add: keptSnapshot_def snapshotsOf_def t5 fun_eq_iff)
  have d6: "rk_db s6 = mb_snapshots_update (filter (\<lambda>x. \<not> (fault ''DeleteOldSchemaSnapshots'' = None \<and> 0 < po_SchemaSnapshotsKeep p \<and>
      T (ss_EnvID x) \<and> \<not> keptSnapshot (nat (po_SchemaSnapshotsKeep p)) (rk_db s) x))) (rk_db s5)"
    by (simp add: s6_def snapshots_step [OF keep] t5 k5)
  have d7: "rk_db s7 = mb_logs_update (filter (\<lambda>l. \<not> (fault ''DeleteOldAuditLogs'' = None \<and> lg_TenantID l = tid \<and>
      aged now (po_AuditLogsDays p) (lg_CreatedAt l)))) (rk_db s6)"
    by (simp add: s7_def logs_step)
  have t7: "ofTenant tid (rk_db s7) = T" using t5 by (simp add: d7 d6 ofTenant_def fun_eq_iff)
  have d8: "rk_db s' = nb_heartbeats_update (filter (\<lambda>h. \<not> (fault ''DeleteOldHeartbeats'' = None \<and> T (hb_EnvID h) \<and>
      aged now 7 (hb_ReceivedAt h)))) (rk_db s7)"
    by (simp add: run heartbeats_step t7)
  have "rk_s3 s' = rk_s3 s1"
    by (simp add: run s7_def s6_def s5_def s4_def s3_def s2_def whenPositive_def onTables_def)
  then have traces: "map_of (rk_s3 s') = (\<lambda>k. if k \<in> deletedTraces c tid (po_ErrorTracesDays p) (rk_db s) then None else map_of (rk_s3 s) k)"
    using traces_step [of "po_ErrorTracesDays p" c tid s] by (simp add: s1_def now_def)
  have "rk_db s' = tablesAfter c tid p (rk_db s)"
    by (simp add: d8 d7 d6 d5 d4 d3 d2 d1 tablesAfter_def T_def now_def fault_def dead_def Let_def)
  then show ?thesis
    using traces by (simp only: s'_def [symmetric] p_def [symmetric])
qed


subsection \<open>An example\<close>

definition agedGroup :: "string \<Rightarrow> string \<Rightarrow> error_group_row" where
  "agedGroup gid status =
     \<lparr> eg_ID = gid, eg_EnvID = ''e1'', eg_Signature = gid, eg_ErrorType = ''Error'', eg_Message = [], eg_Module = None, eg_Model = None,
       eg_FirstSeen = 0, eg_LastSeen = 0, eg_OccurrenceCount = 1, eg_AffectedUsers = [], eg_Status = status, eg_ResolvedBy = None,
       eg_ResolvedAt = None, eg_RawTraceRef = Some gid, eg_CreatedAt = 0 \<rparr>"

definition agedState :: retention_state where
  "agedState =
     \<lparr> rk_db = \<lparr> ab_envs = [(''e1'', ''t1'')], ab_alerts = [], ab_channels = [], ab_deliveries = [],
                eb_groups = [agedGroup ''g1'' ''open'', agedGroup ''g2'' ''resolved''], bb_budgets = [], bb_samples = [], mb_stats = [],
                mb_recordings = [], mb_snapshots = [], mb_scans = [], mb_logs = [], nb_tenants = [''t1''], nb_users = [], nb_envs = [],
                nb_heartbeats = [], nb_keys = [] \<rparr>,
       rk_s3 = [(''g1'', ''trace''), (''g2'', ''trace'')] \<rparr>"

definition yearLater :: retention_call where
  "yearLater = \<lparr> rk_fault = \<lambda>_. None, rk_clock = 365 * 86400 * 10 ^ 9, rk_hasS3 = True, rk_delete = \<lambda>_. None \<rparr>"


end
