(* ===== verification/Environment_Service.thy ===== *)
theory Environment_Service
  imports Environment_Store Budget_Service Go_Time
begin

text \<open>
  The service of environments (\<^verbatim>\<open>internal/service/enviroment_service.go\<close>, \<^verbatim>\<open>internal/dto/enviroment_dto.go\<close>) with the default feature flags of
  \<^verbatim>\<open>helper.go\<close>. A call has the faults of the statements, the identifiers of new rows, the clock of the database and that of the server, the
  random bytes and the UUID that the operation draws.
\<close>

record env_call = service_call +
  vk_clock :: int
  vk_random :: "go_error + string"
  vk_uuid :: string

definition notFound :: "string \<Rightarrow> go_error" where
  "notFound what = ApiErr (ErrNotFound what)"

definition internalErr :: "go_error \<Rightarrow> go_error" where
  "internalErr e = ApiErr (ErrInternal e)"

subsection \<open>Base64 for URLs without padding\<close>

definition base64Char :: "int \<Rightarrow> char" where
  "base64Char i = ''ABCDEFGHIJKLMNOPQRSTUVWXYZabcdefghijklmnopqrstuvwxyz0123456789-_'' ! nat i"

fun rawURLEncode :: "string \<Rightarrow> string" where
  "rawURLEncode [] = []"
| "rawURLEncode [a] = [base64Char (byte a div 4), base64Char (byte a mod 4 * 16)]"
| "rawURLEncode [a, b] =
     [base64Char (byte a div 4), base64Char (byte a mod 4 * 16 + byte b div 16), base64Char (byte b mod 16 * 4)]"
| "rawURLEncode (a # b # c # bs) =
     [base64Char (byte a div 4), base64Char (byte a mod 4 * 16 + byte b div 16),
      base64Char (byte b mod 16 * 4 + byte c div 64), base64Char (byte c mod 64)] @ rawURLEncode bs"

subsection \<open>Requests and responses\<close>

record CreateEnvironmentRequest =
  ce_Name :: string
  ce_OdooURL :: string
  ce_DbName :: string
  ce_OdooVersion :: "string option"
  ce_EnvType :: string
  ce_FeatureFlags :: "json option"

record UpdateEnvironmentRequest =
  ue_Name :: "string option"
  ue_OdooURL :: "string option"
  ue_DbName :: "string option"
  ue_OdooVersion :: "string option"
  ue_EnvType :: "string option"
  ue_Status :: "string option"
  ue_FeatureFlags :: "json option"

record ListEnvironmentsRequest =
  le_EnvType :: string
  le_Status :: string
  le_Limit :: int
  le_Offset :: int

record EnvironmentResponse =
  ee_ID :: string
  ee_TenantID :: string
  ee_Name :: string
  ee_OdooURL :: string
  ee_DbName :: string
  ee_OdooVersion :: "string option"
  ee_EnvType :: string
  ee_Status :: string
  ee_AgentID :: "string option"
  ee_FeatureFlags :: json
  ee_LastSync :: "int option"
  ee_CreatedAt :: int
  ee_UpdatedAt :: int

record EnvironmentListResponse =
  lr_Environments :: "EnvironmentResponse list"
  lr_Total :: nat
  lr_Limit :: int
  lr_Offset :: int

record RegisterAgentResponse =
  ga_RegistrationToken :: string
  ga_ExpiresAt :: int

record HeartbeatResponse =
  hr_ID :: string
  hr_EnvID :: string
  hr_AgentID :: string
  hr_AgentVersion :: "string option"
  hr_Status :: string
  hr_Metadata :: json
  hr_ReceivedAt :: int

definition ToEnvironmentResponse :: "env_row \<Rightarrow> EnvironmentResponse" where
  "ToEnvironmentResponse e =
     \<lparr> ee_ID = en_ID e, ee_TenantID = en_TenantID e, ee_Name = en_Name e, ee_OdooURL = en_OdooUrl e, ee_DbName = en_DbName e,
       ee_OdooVersion = en_OdooVersion e, ee_EnvType = en_EnvType e, ee_Status = en_Status e, ee_AgentID = en_AgentID e,
       ee_FeatureFlags = en_FeatureFlags e, ee_LastSync = en_LastSync e, ee_CreatedAt = en_CreatedAt e, ee_UpdatedAt = en_UpdatedAt e \<rparr>"

definition ToHeartbeatResponse :: "heartbeat_row \<Rightarrow> HeartbeatResponse" where
  "ToHeartbeatResponse h =
     \<lparr> hr_ID = hb_ID h, hr_EnvID = hb_EnvID h, hr_AgentID = hb_AgentID h, hr_AgentVersion = hb_AgentVersion h, hr_Status = hb_Status h,
       hr_Metadata = hb_Metadata h, hr_ReceivedAt = hb_ReceivedAt h \<rparr>"

definition featureFlags :: "string \<Rightarrow> rat \<Rightarrow> int \<Rightarrow> bool \<Rightarrow> bool \<Rightarrow> int \<Rightarrow> int \<Rightarrow> int \<Rightarrow> bool \<Rightarrow> string list \<Rightarrow> json" where
  "featureFlags mode rate slow sql profiler events bytes interval strip redact =
     JObject [(''sampling_mode'', JString mode), (''sample_rate'', JNum rate), (''slow_threshold_ms'', JInt slow), (''collect_orm'', JBool True),
       (''collect_sql'', JBool sql), (''collect_errors'', JBool True), (''collect_profiler'', JBool profiler),
       (''max_events_per_batch'', JInt events), (''max_bytes_per_minute'', JInt bytes), (''flush_interval_sec'', JInt interval),
       (''strip_pii'', JBool strip), (''redact_fields'', JArray (map JString redact))]"

definition defaultFeatureFlags :: "string \<Rightarrow> json" where
  "defaultFeatureFlags envType =
     (if envType = ''development'' then featureFlags ''full'' 1 50 True True 1000 5242880 10 False []
      else if envType = ''staging'' then featureFlags ''sampled'' (1 / 4) 100 True True 500 1048576 30 True [''partner_name'', ''email'', ''phone'']
      else featureFlags ''aggregated_only'' (1 / 20) 200 False False 200 524288 60 True
             [''partner_name'', ''email'', ''phone'', ''vat'', ''street''])"

subsection \<open>The operations\<close>

definition nilUUID :: string where
  "nilUUID = ''00000000-0000-0000-0000-000000000000''"

definition nameTaken :: go_error where
  "nameTaken = ApiErr (NewError ErrCodeConflict ''An environment with this name already exists'' 409)"

definition newEnvironment :: "env_call \<Rightarrow> string \<Rightarrow> CreateEnvironmentRequest \<Rightarrow> env_row" where
  "newEnvironment c tid req =
     \<lparr> en_ID = sr_ids c [], en_TenantID = tid, en_Name = ce_Name req, en_OdooUrl = ce_OdooURL req, en_DbName = ce_DbName req,
       en_OdooVersion = ce_OdooVersion req, en_EnvType = ce_EnvType req, en_Status = ''active'', en_AgentID = None,
       en_FeatureFlags = (case ce_FeatureFlags req of None \<Rightarrow> defaultFeatureFlags (ce_EnvType req) | Some j \<Rightarrow> j),
       en_LastSync = None, en_CreatedAt = sr_now c, en_UpdatedAt = sr_now c, en_RegistrationToken = None,
       en_RegistrationTokenExpiresAt = None \<rparr>"

definition Env_Create ::
  "service \<Rightarrow> env_call \<Rightarrow> string \<Rightarrow> CreateEnvironmentRequest \<Rightarrow> 'z env_db_scheme \<Rightarrow> (go_error + EnvironmentResponse) \<times> 'z env_db_scheme" where
  "Env_Create sv c tid req d =
     (case CheckEnvironmentNameExists (sr_fault c) tid (ce_Name req) nilUUID d of
        Inl e \<Rightarrow> (Inl (internalErr e), d)
      | Inr exist \<Rightarrow>
          if exist then (Inl nameTaken, d)
          else case CreateEnvironment (sr_fault c) (newEnvironment c tid req) d of
            (Inl e, d') \<Rightarrow> (Inl (mapped sv e), d')
          | (Inr env, d') \<Rightarrow> (Inr (ToEnvironmentResponse env), d'))"

definition Env_GetByID :: "service \<Rightarrow> env_call \<Rightarrow> string \<Rightarrow> string \<Rightarrow> 'z env_db_scheme \<Rightarrow> go_error + EnvironmentResponse" where
  "Env_GetByID sv c tid envID d =
     (case GetEnvironmentByID (sr_fault c) envID tid d of
        Inl e \<Rightarrow> Inl (mapped sv e)
      | Inr env \<Rightarrow> Inr (ToEnvironmentResponse env))"

definition pageLimit :: "int \<Rightarrow> int" where
  "pageLimit n = (if n \<le> 0 then 20 else n)"

text \<open>A count is only asked for after the list has been read.\<close>

definition Env_List :: "service \<Rightarrow> env_call \<Rightarrow> string \<Rightarrow> ListEnvironmentsRequest \<Rightarrow> 'z env_db_scheme \<Rightarrow> go_error + EnvironmentListResponse" where
  "Env_List sv c tid req d =
     (let limit = pageLimit (le_Limit req); offset = max 0 (le_Offset req); typ = le_EnvType req; status = le_Status req; fault = sr_fault c;
          (envs, cnt) =
            (if typ \<noteq> [] \<and> status \<noteq> []
             then (ListEnvironmentsByTenantTypeAndStatus fault tid typ status limit offset d, CountEnvironmentsByTenantTypeAndStatus fault tid typ status d)
             else if typ \<noteq> []
             then (ListEnvironmentsByTenantAndType fault tid typ limit offset d, CountEnvironmentsByTenantAndType fault tid typ d)
             else if status \<noteq> []
             then (ListEnvironmentsByTenantAndStatus fault tid status limit offset d, CountEnvironmentsByTenantAndStatus fault tid status d)
             else (ListEnvironmentsByTenant fault tid d, CountEnvironmentsByTenant fault tid d))
      in case envs of
           Inl e \<Rightarrow> Inl (mapped sv e)
         | Inr rows \<Rightarrow>
             (case cnt of
                Inl e \<Rightarrow> Inl (mapped sv e)
              | Inr n \<Rightarrow> Inr \<lparr> lr_Environments = map ToEnvironmentResponse rows, lr_Total = n, lr_Limit = limit, lr_Offset = offset \<rparr>))"

definition Env_Update ::
  "service \<Rightarrow> env_call \<Rightarrow> string \<Rightarrow> string \<Rightarrow> UpdateEnvironmentRequest \<Rightarrow> 'z env_db_scheme \<Rightarrow>
   (go_error + EnvironmentResponse) \<times> 'z env_db_scheme" where
  "Env_Update sv c tid envID req d =
     (case (case ue_Name req of None \<Rightarrow> Inr False | Some name \<Rightarrow> CheckEnvironmentNameExists (sr_fault c) tid name envID d) of
        Inl e \<Rightarrow> (Inl (internalErr e), d)
      | Inr exist \<Rightarrow>
          if exist then (Inl nameTaken, d)
          else case UpdateEnvironment (sr_fault c) (sr_now c) envID tid (ue_Name req) (ue_OdooURL req) (ue_DbName req)
                      (ue_OdooVersion req) (ue_EnvType req) (ue_Status req) (ue_FeatureFlags req) d of
            (Inl e, d') \<Rightarrow> (Inl (mapped sv e), d')
          | (Inr env, d') \<Rightarrow> (Inr (ToEnvironmentResponse env), d'))"

definition Env_RegisterAgent ::
  "service \<Rightarrow> env_call \<Rightarrow> string \<Rightarrow> string \<Rightarrow> 'z env_db_scheme \<Rightarrow> (go_error + RegisterAgentResponse) \<times> 'z env_db_scheme" where
  "Env_RegisterAgent sv c tid envID d =
     (case GetEnvironmentByID (sr_fault c) envID tid d of
        Inl _ \<Rightarrow> (Inl (notFound ''environment not found''), d)
      | Inr _ \<Rightarrow>
          (case vk_random c of
             Inl e \<Rightarrow> (Inl (internalErr e), d)
           | Inr rawBytes \<Rightarrow>
               let tok = ''reg_'' @ rawURLEncode rawBytes; expiresAt = vk_clock c + 3600 * 10 ^ 9 in
               case SetRegistrationToken (sr_fault c) (sr_now c) envID (Some tok) (Some (pgTime expiresAt)) tid d of
                 (Inl e, d') \<Rightarrow> (Inl (mapped sv e), d')
               | (Inr _, d') \<Rightarrow> (Inr \<lparr> ga_RegistrationToken = tok, ga_ExpiresAt = expiresAt \<rparr>, d')))"

definition Env_GetLatestHeartbeat :: "env_call \<Rightarrow> string \<Rightarrow> string \<Rightarrow> 'z env_db_scheme \<Rightarrow> go_error + HeartbeatResponse" where
  "Env_GetLatestHeartbeat c tid envID d =
     (case GetEnvironmentByID (sr_fault c) envID tid d of
        Inl _ \<Rightarrow> Inl (notFound ''environment'')
      | Inr _ \<Rightarrow>
          (case GetLatestHeartbeat (sr_fault c) envID d of
             Inl _ \<Rightarrow> Inl (ApiErr (NewError ErrCodeNotFound ''no heartbeats found'' 404))
           | Inr hb \<Rightarrow> Inr (ToHeartbeatResponse hb)))"

definition Env_ListHeartbeats ::
  "service \<Rightarrow> env_call \<Rightarrow> string \<Rightarrow> string \<Rightarrow> int \<Rightarrow> 'z env_db_scheme \<Rightarrow> go_error + HeartbeatResponse list \<times> nat" where
  "Env_ListHeartbeats sv c tid envID limit d =
     (case GetEnvironmentByID (sr_fault c) envID tid d of
        Inl _ \<Rightarrow> Inl (notFound ''environment'')
      | Inr _ \<Rightarrow>
          (case ListHeartbeats (sr_fault c) envID (nat (pageLimit limit)) d of
             Inl e \<Rightarrow> Inl (mapped sv e)
           | Inr hbs \<Rightarrow> Inr (map ToHeartbeatResponse hbs, length hbs)))"

definition Env_Delete :: "service \<Rightarrow> env_call \<Rightarrow> string \<Rightarrow> string \<Rightarrow> 'z env_db_scheme \<Rightarrow> (go_error + unit) \<times> 'z env_db_scheme" where
  "Env_Delete sv c tid envID d =
     (case DeleteEnvironment (sr_fault c) envID tid d of
        (Inl e, d') \<Rightarrow> (Inl (mapped sv e), d')
      | (Inr n, d') \<Rightarrow> (if n = 0 then Inl (notFound ''environment'') else Inr (), d'))"

end
