(* ===== verification/Api_Keys.thy ===== *)
theory Api_Keys
  imports Environment_Service Error_Signature
begin

text \<open>
  API keys of agents: the service that issues and revokes them (\<^verbatim>\<open>internal/service/api_key_service.go\<close>), the registration of an agent with a
  token (\<^verbatim>\<open>agent_register_service.go\<close>) and the authentication of requests (\<^verbatim>\<open>internal/middleware/api_key_auth.go\<close>). \<open>sha\<close> is SHA-256. The time
  at which a key was used is written by a goroutine of its own, so it is a step of its own.
\<close>

definition HashAPIKey :: "(string \<Rightarrow> string) \<Rightarrow> string \<Rightarrow> string" where
  "HashAPIKey sha rawKey = hexEncode (sha rawKey)"

definition ninetyDays :: int where
  "ninetyDays = 90 * 24 * 3600 * 10 ^ 9"

record CreateAPIKeyRequest =
  ck_Name :: string
  ck_Description :: string
  ck_Scopes :: "string list"
  ck_ExpiresAt :: "string option"

record APIKeyCreatedResponse =
  kc_ID :: string
  kc_TenantID :: string
  kc_EnvID :: string
  kc_Name :: string
  kc_Description :: string
  kc_KeyPrefix :: string
  kc_RawKey :: string
  kc_Scopes :: "string list"
  kc_ExpiresAt :: "int option"
  kc_CreatedAt :: int

record APIKeyItem =
  ki_ID :: string
  ki_Name :: string
  ki_Description :: string
  ki_KeyPrefix :: string
  ki_Scopes :: "string list"
  ki_IsActive :: bool
  ki_LastUsed :: "int option"
  ki_ExpiresAt :: "int option"
  ki_CreatedAt :: int

definition rawKeyOf :: "string \<Rightarrow> string" where
  "rawKeyOf rawBytes = ''odt_'' @ rawURLEncode rawBytes"

definition newKey ::
  "(string \<Rightarrow> string) \<Rightarrow> env_call \<Rightarrow> string \<Rightarrow> string \<Rightarrow> string option \<Rightarrow> string \<Rightarrow> string \<Rightarrow> string \<Rightarrow> string list \<Rightarrow> int \<Rightarrow> key_row" where
  "newKey sha c tid envID createdBy rawKey name description scopes expires =
     \<lparr> ky_ID = sr_ids c [], ky_TenantID = tid, ky_CreatedBy = createdBy, ky_KeyHash = HashAPIKey sha rawKey, ky_KeyPrefix = take 12 rawKey,
       ky_Name = name, ky_Scopes = scopes, ky_LastUsed = None, ky_ExpiresAt = Some (pgTime expires), ky_IsActive = True,
       ky_CreatedAt = sr_now c, ky_Description = description, ky_EnvironmentID = Some envID \<rparr>"

definition keyExpiry :: "env_call \<Rightarrow> string option \<Rightarrow> go_error + int" where
  "keyExpiry c expires =
     (case expires of
        None \<Rightarrow> Inr (vk_clock c + ninetyDays)
      | Some s \<Rightarrow>
          (case parseRFC3339 s of
             None \<Rightarrow> Inl (ApiErr (ErrBadRequest ''expires_at must be RFC3339 format''))
           | Some t \<Rightarrow> Inr t))"

definition Key_Create ::
  "(string \<Rightarrow> string) \<Rightarrow> env_call \<Rightarrow> string \<Rightarrow> string \<Rightarrow> string \<Rightarrow> CreateAPIKeyRequest \<Rightarrow> 'z env_db_scheme \<Rightarrow>
   (go_error + APIKeyCreatedResponse) \<times> 'z env_db_scheme" where
  "Key_Create sha c tid envID uid req d =
     (case GetEnvironmentByID (sr_fault c) envID tid d of
        Inl _ \<Rightarrow> (Inl (notFound ''environment not found''), d)
      | Inr _ \<Rightarrow>
          (case vk_random c of
             Inl e \<Rightarrow> (Inl (Wrap ''generate key'' e), d)
           | Inr rawBytes \<Rightarrow>
               (case keyExpiry c (ck_ExpiresAt req) of
                  Inl e \<Rightarrow> (Inl e, d)
                | Inr expires \<Rightarrow>
                    let rawKey = rawKeyOf rawBytes; scopes = (if ck_Scopes req = [] then [''agent:write''] else ck_Scopes req) in
                    case CreateAPIKey (sr_fault c)
                           (newKey sha c tid envID (Some uid) rawKey (ck_Name req) (ck_Description req) scopes expires) d of
                      (Inl e, d') \<Rightarrow> (Inl (internalErr e), d')
                    | (Inr row, d') \<Rightarrow>
                        (Inr \<lparr> kc_ID = ky_ID row, kc_TenantID = ky_TenantID row, kc_EnvID = envID, kc_Name = ky_Name row,
                               kc_Description = ky_Description row, kc_KeyPrefix = ky_KeyPrefix row, kc_RawKey = rawKey,
                               kc_Scopes = ky_Scopes row, kc_ExpiresAt = ky_ExpiresAt row, kc_CreatedAt = ky_CreatedAt row \<rparr>, d'))))"

definition keyItem :: "key_row \<Rightarrow> APIKeyItem" where
  "keyItem r =
     \<lparr> ki_ID = ky_ID r, ki_Name = ky_Name r, ki_Description = ky_Description r, ki_KeyPrefix = ky_KeyPrefix r, ki_Scopes = ky_Scopes r,
       ki_IsActive = ky_IsActive r, ki_LastUsed = ky_LastUsed r, ki_ExpiresAt = ky_ExpiresAt r, ki_CreatedAt = ky_CreatedAt r \<rparr>"

definition Key_List :: "env_call \<Rightarrow> string \<Rightarrow> string \<Rightarrow> 'z env_db_scheme \<Rightarrow> go_error + APIKeyItem list \<times> nat" where
  "Key_List c tid envID d =
     (case GetEnvironmentByID (sr_fault c) envID tid d of
        Inl _ \<Rightarrow> Inl (notFound ''environment not found'')
      | Inr _ \<Rightarrow>
          (case ListAPIKeysByEnvironment (sr_fault c) tid (Some envID) d of
             Inl e \<Rightarrow> Inl (internalErr e)
           | Inr rows \<Rightarrow> Inr (map keyItem rows, length rows)))"

definition Key_Revoke :: "env_call \<Rightarrow> string \<Rightarrow> string \<Rightarrow> 'z env_db_scheme \<Rightarrow> (go_error + unit) \<times> 'z env_db_scheme" where
  "Key_Revoke c tid keyID d =
     (case GetAPIKeyByID (sr_fault c) keyID tid d of
        Inl _ \<Rightarrow> (Inl (notFound ''API key not found''), d)
      | Inr key \<Rightarrow>
          if \<not> ky_IsActive key then (Inl (ApiErr (ErrBadRequest ''API key is already revoked'')), d)
          else case RevokeAPIKey (sr_fault c) keyID tid d of
            (Some e, d') \<Rightarrow> (Inl (internalErr e), d')
          | (None, d') \<Rightarrow> (Inr (), d'))"

subsection \<open>Registration of an agent\<close>

record AgentSelfRegisterResponse =
  sf_AgentID :: string
  sf_APIKey :: string
  sf_EnvironmentID :: string
  sf_TenantID :: string

text \<open>The environment of the token is read first; all that follows is for the environment that was read.\<close>

definition registrationEnv :: "env_call \<Rightarrow> string \<Rightarrow> 'z env_db_scheme \<Rightarrow> go_error + env_row" where
  "registrationEnv c tok d =
     (case GetEnvironmentByRegistrationToken (sr_fault c) (sr_now c) (Some tok) d of
        Inl e \<Rightarrow> Inl (if errors_Is e ErrNoRows then ApiErr (ErrUnauthorized ''invalid or expired registration token'') else internalErr e)
      | Inr env \<Rightarrow> Inr env)"

definition issueCredentials ::
  "(string \<Rightarrow> string) \<Rightarrow> env_call \<Rightarrow> env_row \<Rightarrow> 'z env_db_scheme \<Rightarrow> (go_error + AgentSelfRegisterResponse) \<times> 'z env_db_scheme" where
  "issueCredentials sha c env d =
     (case vk_random c of
        Inl e \<Rightarrow> (Inl (internalErr (Wrap ''generate key'' e)), d)
      | Inr rawBytes \<Rightarrow>
          let agentID = vk_uuid c; rawKey = rawKeyOf rawBytes in
          case CreateAPIKey (sr_fault c)
                 (newKey sha c (en_TenantID env) (en_ID env) None rawKey (''agent-'' @ take 8 agentID)
                    ''Auto-generated by agent self-registration'' [''agent:write''] (vk_clock c + ninetyDays)) d of
            (Inl e, d') \<Rightarrow> (Inl (internalErr (Wrap ''create api key'' e)), d')
          | (Inr _, d') \<Rightarrow>
              (case ClearRegistrationToken (sr_fault c) (sr_now c) (en_ID env) (Some agentID) d' of
                 (Some e, d'') \<Rightarrow> (Inl (internalErr (Wrap ''clear token'' e)), d'')
               | (None, d'') \<Rightarrow>
                   (Inr \<lparr> sf_AgentID = agentID, sf_APIKey = rawKey, sf_EnvironmentID = en_ID env, sf_TenantID = en_TenantID env \<rparr>, d'')))"

definition SelfRegister ::
  "(string \<Rightarrow> string) \<Rightarrow> env_call \<Rightarrow> string \<Rightarrow> 'z env_db_scheme \<Rightarrow> (go_error + AgentSelfRegisterResponse) \<times> 'z env_db_scheme" where
  "SelfRegister sha c tok d =
     (case registrationEnv c tok d of Inl e \<Rightarrow> (Inl e, d) | Inr env \<Rightarrow> issueCredentials sha c env d)"

subsection \<open>Authentication of requests\<close>

text \<open>The type of the header is lowered before it is compared, so \<^verbatim>\<open>EqualFold\<close> with \<^verbatim>\<open>ApiKey\<close> is equality with the lowered text.\<close>

definition extractAPIKey :: "unicode \<Rightarrow> string \<Rightarrow> go_error + string" where
  "extractAPIKey uni header =
     (if header = [] then Inl (ApiErr ErrMissingAuthHeader)
      else let fields' = Fields header in
        if length fields' < 2 then Inl (ApiErr ErrInvalidAuthHeaderFormat)
        else if ToLower uni (fields' ! 0) \<noteq> ''apikey'' then Inl (ApiErr (ErrUnsupportedAuthType ''ApiKey''))
        else Inr (fields' ! 1))"

definition lookupAPIKey :: "(string \<Rightarrow> string) \<Rightarrow> env_call \<Rightarrow> string \<Rightarrow> 'z env_db_scheme \<Rightarrow> go_error + key_row" where
  "lookupAPIKey sha c apiKey d =
     (case GetAPIKeyByHash (sr_fault c) (sr_now c) (HashAPIKey sha apiKey) d of
        Inl e \<Rightarrow> Inl (if errors_Is e ErrNoRows then ApiErr ErrInvalidAPIKey else internalErr e)
      | Inr r \<Rightarrow> Inr r)"

definition validateAPIKeyRecord :: "int \<Rightarrow> key_row \<Rightarrow> api_error option" where
  "validateAPIKeyRecord clock r =
     (if \<not> ky_IsActive r then Some ErrInvalidAPIKey
      else case ky_ExpiresAt r of
        None \<Rightarrow> None
      | Some t \<Rightarrow> if t * 1000 < clock then Some ErrExpiredAPIKey else None)"

record agent_context =
  gx_TenantID :: string
  gx_APIKeyID :: string
  gx_EnvID :: "string option"

definition AgentAPIKeyAuth ::
  "unicode \<Rightarrow> (string \<Rightarrow> string) \<Rightarrow> env_call \<Rightarrow> string \<Rightarrow> 'z env_db_scheme \<Rightarrow> go_error + agent_context" where
  "AgentAPIKeyAuth uni sha c header d =
     (case extractAPIKey uni header of
        Inl e \<Rightarrow> Inl e
      | Inr apiKey \<Rightarrow>
          (case lookupAPIKey sha c apiKey d of
             Inl e \<Rightarrow> Inl e
           | Inr r \<Rightarrow>
               (case validateAPIKeyRecord (vk_clock c) r of
                  Some e \<Rightarrow> Inl (ApiErr e)
                | None \<Rightarrow> Inr \<lparr> gx_TenantID = ky_TenantID r, gx_APIKeyID = ky_ID r, gx_EnvID = ky_EnvironmentID r \<rparr>)))"

definition touchAPIKeyAsync :: "env_call \<Rightarrow> string \<Rightarrow> 'z env_db_scheme \<Rightarrow> 'z env_db_scheme" where
  "touchAPIKeyAsync c keyID d = snd (TouchAPIKey (sr_fault c) (sr_now c) keyID d)"

subsection \<open>Sequences of requests\<close>

text \<open>Those that change the tables, and the goroutine; the others only read.\<close>

datatype env_request =
    CreateEnv string CreateEnvironmentRequest
  | UpdateEnv string string UpdateEnvironmentRequest
  | DeleteEnv string string
  | IssueToken string string
  | IssueKey string string string CreateAPIKeyRequest
  | RevokeKey string string
  | Register string
  | Touch string

primrec serveEnv :: "service \<Rightarrow> (string \<Rightarrow> string) \<Rightarrow> env_call \<Rightarrow> env_request \<Rightarrow> 'z env_db_scheme \<Rightarrow> 'z env_db_scheme" where
  "serveEnv sv sha c (CreateEnv tid req) d = snd (Env_Create sv c tid req d)"
| "serveEnv sv sha c (UpdateEnv tid envID req) d = snd (Env_Update sv c tid envID req d)"
| "serveEnv sv sha c (DeleteEnv tid envID) d = snd (Env_Delete sv c tid envID d)"
| "serveEnv sv sha c (IssueToken tid envID) d = snd (Env_RegisterAgent sv c tid envID d)"
| "serveEnv sv sha c (IssueKey tid envID uid req) d = snd (Key_Create sha c tid envID uid req d)"
| "serveEnv sv sha c (RevokeKey tid keyID) d = snd (Key_Revoke c tid keyID d)"
| "serveEnv sv sha c (Register tok) d = snd (SelfRegister sha c tok d)"
| "serveEnv sv sha c (Touch keyID) d = touchAPIKeyAsync c keyID d"

fun serveEnvs :: "service \<Rightarrow> (string \<Rightarrow> string) \<Rightarrow> (env_call \<times> env_request) list \<Rightarrow> 'z env_db_scheme \<Rightarrow> 'z env_db_scheme" where
  "serveEnvs sv sha [] d = d"
| "serveEnvs sv sha ((c, r) # rs) d = serveEnvs sv sha rs (serveEnv sv sha c r d)"

end
