(* ===== verification/Tenant_Isolation.thy ===== *)
theory Tenant_Isolation
  imports Api_Keys State_Relation
begin

text \<open>
  What the requests on environments and API keys leave alone: all that belongs to another tenant. The view of a tenant are the rows of every table that
  belong to it.
\<close>

record tenant_view =
  tv_envs :: "env_row list"
  tv_keys :: "key_row list"
  tv_heartbeats :: "heartbeat_row list"
  tv_alerts :: "alert_row list"
  tv_deliveries :: "delivery_row list"
  tv_groups :: "error_group_row list"
  tv_budgets :: "budget_row list"
  tv_samples :: "sample_row list"
  tv_stats :: "orm_row list"
  tv_recordings :: "recording_row list"
  tv_snapshots :: "snapshot_row list"
  tv_scans :: "scan_row list"
  tv_logs :: "log_row list"

definition tenantView :: "string \<Rightarrow> 'z env_db_scheme \<Rightarrow> tenant_view" where
  "tenantView t d =
     (let T = ofTenant t d; alerts = filter (T \<circ> al_EnvID) (ab_alerts d); budgets = filter (T \<circ> pb_EnvID) (bb_budgets d) in
      \<lparr> tv_envs = filter (\<lambda>e. en_TenantID e = t) (nb_envs d), tv_keys = filter (\<lambda>k. ky_TenantID k = t) (nb_keys d),
        tv_heartbeats = filter (T \<circ> hb_EnvID) (nb_heartbeats d), tv_alerts = alerts,
        tv_deliveries = filter (\<lambda>v. ad_AlertID v \<in> al_ID ` set alerts) (ab_deliveries d), tv_groups = filter (T \<circ> eg_EnvID) (eb_groups d),
        tv_budgets = budgets, tv_samples = filter (\<lambda>s. sp_BudgetID s \<in> pb_ID ` set budgets) (bb_samples d),
        tv_stats = filter (T \<circ> om_EnvID) (mb_stats d), tv_recordings = filter (T \<circ> pr_EnvID) (mb_recordings d),
        tv_snapshots = filter (T \<circ> ss_EnvID) (mb_snapshots d), tv_scans = filter (T \<circ> mg_EnvID) (mb_scans d),
        tv_logs = filter (\<lambda>l. lg_TenantID l = t) (mb_logs d) \<rparr>)"

text \<open>The keys of the tables, and that the environment of an API key is one of its tenant.\<close>

definition envs_ok :: "'z env_db_scheme \<Rightarrow> bool" where
  "envs_ok d \<longleftrightarrow>
     ab_envs d = map (\<lambda>e. (en_ID e, en_TenantID e)) (nb_envs d) \<and> distinct (map en_ID (nb_envs d)) \<and>
     distinct (map al_ID (ab_alerts d)) \<and> distinct (map pb_ID (bb_budgets d)) \<and>
     (\<forall>k \<in> set (nb_keys d). \<forall>x. ky_EnvironmentID k = Some x \<longrightarrow> ofTenant (ky_TenantID k) d x)"

definition spares :: "string \<Rightarrow> 'z env_db_scheme \<Rightarrow> 'z env_db_scheme \<Rightarrow> bool" where
  "spares t d d' \<longleftrightarrow> (envs_ok d \<longrightarrow> envs_ok d' \<and> tenantView t d' = tenantView t d)"

interpretation lv: state_relation "spares t" for t
  by unfold_locales (auto simp: spares_def)

lemma spares_insertRow: "(list_all (\<lambda>x. \<not> fst x) checks \<Longrightarrow> spares t d d') \<Longrightarrow> spares t d (snd (insertRow fault name checks row d d'))"
  by (auto simp: insertRow_def filter_empty_conv list_all_iff intro: lv.refl dest: list.discI split: option.split list.split)

lemma spares_exec: "spares t d d' \<Longrightarrow> spares t d (snd (exec fault name d d'))"
  by (auto simp: exec_def intro: lv.refl split: option.split)

lemma env_mem: "envs_ok d \<Longrightarrow> ofTenant t d x \<longleftrightarrow> (\<exists>e \<in> set (nb_envs d). en_ID e = x \<and> en_TenantID e = t)"
  by (auto simp: envs_ok_def ofTenant_def)

lemma one_tenant: "envs_ok d \<Longrightarrow> ofTenant t d x \<Longrightarrow> ofTenant t' d x \<Longrightarrow> t' = t"
  by (force simp: env_mem envs_ok_def distinct_map dest: inj_onD)

text \<open>The statements.\<close>

lemma spares_CreateEnvironment:
  assumes "en_TenantID r \<noteq> t"
  shows "spares t d (snd (CreateEnvironment fault r d))"
proof -
  have T: "ofTenant t (d \<lparr> nb_envs := nb_envs d @ [r], ab_envs := ab_envs d @ [(en_ID r, en_TenantID r)] \<rparr>) = ofTenant t d"
    using assms by (auto simp: ofTenant_def fun_eq_iff)
  show ?thesis
    unfolding CreateEnvironment_def
    by (rule spares_insertRow) (use assms T in \<open>auto simp: spares_def envs_ok_def tenantView_def Let_def ofTenant_def\<close>)
qed

lemma spares_setEnvs:
  assumes f: "\<And>e. en_ID (f e) = en_ID e \<and> en_TenantID (f e) = en_TenantID e"
    and P: "\<And>e. envs_ok d \<Longrightarrow> e \<in> set (nb_envs d) \<Longrightarrow> P e \<Longrightarrow> en_TenantID e \<noteq> t"
  shows "spares t d (setEnvs P f d)"
proof (unfold spares_def, intro impI)
  assume ok: "envs_ok d"
  have "filter (\<lambda>e. en_TenantID e = t) (map (\<lambda>e. if P e then f e else e) es) = filter (\<lambda>e. en_TenantID e = t) es"
    if "\<forall>e \<in> set es. P e \<longrightarrow> en_TenantID e \<noteq> t" for es
    using that f by (induction es) auto
  moreover have "map (\<lambda>e. (en_ID e, en_TenantID e)) (map (\<lambda>e. if P e then f e else e) es) = map (\<lambda>e. (en_ID e, en_TenantID e)) es" for es
    using f by simp
  moreover have "map en_ID (map (\<lambda>e. if P e then f e else e) es) = map en_ID es" for es
    using f by simp
  moreover have "ofTenant t' (setEnvs P f d) = ofTenant t' d" for t'
    by (simp add: ofTenant_def setEnvs_def fun_eq_iff)
  ultimately show "envs_ok (setEnvs P f d) \<and> tenantView t (setEnvs P f d) = tenantView t d"
    using ok P by (simp add: envs_ok_def tenantView_def setEnvs_def Let_def del: map_map)
qed

lemma spares_updateEnv:
  assumes "tid \<noteq> t" "\<And>e. en_ID (f e) = en_ID e \<and> en_TenantID (f e) = en_TenantID e"
  shows "spares t d (snd (updateEnv fault name checks (envIs envID tid) f d))"
proof -
  have "spares t d (setEnvs (envIs envID tid) f d)"
    by (rule spares_setEnvs [OF assms(2)]) (use assms(1) in \<open>auto simp: envIs_def\<close>)
  then show ?thesis
    unfolding updateEnv_def by (auto intro: spares_insertRow lv.refl split: list.split)
qed

lemma spares_UpdateEnvironment: "tid \<noteq> t \<Longrightarrow> spares t d (snd (UpdateEnvironment fault now envID tid a b c e f g h d))"
  unfolding UpdateEnvironment_def Let_def by (rule spares_updateEnv) (simp_all split: option.split)

lemma spares_SetRegistrationToken: "tid \<noteq> t \<Longrightarrow> spares t d (snd (SetRegistrationToken fault now envID tok ex tid d))"
  unfolding SetRegistrationToken_def by (rule spares_updateEnv) simp_all

lemma spares_ClearRegistrationToken:
  assumes "\<And>t'. envs_ok d \<Longrightarrow> ofTenant t' d envID \<Longrightarrow> t' \<noteq> t"
  shows "spares t d (snd (ClearRegistrationToken fault now envID agent d))"
proof -
  have "spares t d (setEnvs (\<lambda>e. en_ID e = envID) (\<lambda>e. e \<lparr> en_RegistrationToken := None, en_RegistrationTokenExpiresAt := None, en_AgentID := agent,
      en_Status := ''connected'', en_LastSync := Some now, en_UpdatedAt := now \<rparr>) d)"
    by (rule spares_setEnvs) (use assms in \<open>auto simp: env_mem\<close>)
  then show ?thesis
    by (auto simp: ClearRegistrationToken_def Let_def intro: spares_exec lv.refl)
qed

lemma spares_CreateAPIKey:
  assumes "ky_TenantID r \<noteq> t" "\<And>x. envs_ok d \<Longrightarrow> ky_EnvironmentID r = Some x \<Longrightarrow> ofTenant (ky_TenantID r) d x"
  shows "spares t d (snd (CreateAPIKey fault r d))"
  unfolding CreateAPIKey_def
  by (rule spares_insertRow) (use assms in \<open>auto simp: spares_def envs_ok_def tenantView_def Let_def ofTenant_def comp_def\<close>)

lemma spares_setKeys:
  assumes f: "\<And>k. ky_TenantID (f k) = ky_TenantID k \<and> ky_EnvironmentID (f k) = ky_EnvironmentID k"
    and P: "\<And>k. k \<in> set (nb_keys d) \<Longrightarrow> P k \<Longrightarrow> ky_TenantID k \<noteq> t"
  shows "spares t d (setKeys P f d)"
proof -
  have "filter (\<lambda>k. ky_TenantID k = t) (map (\<lambda>k. if P k then f k else k) ks) = filter (\<lambda>k. ky_TenantID k = t) ks"
    if "\<forall>k \<in> set ks. P k \<longrightarrow> ky_TenantID k \<noteq> t" for ks
    using that f by (induction ks) auto
  then show ?thesis
    using f P by (auto simp: spares_def envs_ok_def tenantView_def setKeys_def Let_def ofTenant_def comp_def)
qed

lemma spares_RevokeAPIKey: "tid \<noteq> t \<Longrightarrow> spares t d (snd (RevokeAPIKey fault kid tid d))"
  unfolding RevokeAPIKey_def by (intro spares_exec spares_setKeys) (auto simp: keyIs_def)

lemma spares_TouchAPIKey:
  "(\<And>k. k \<in> set (nb_keys d) \<Longrightarrow> ky_TenantID k = t \<Longrightarrow> ky_ID k \<noteq> kid) \<Longrightarrow> spares t d (snd (TouchAPIKey fault now kid d))"
  unfolding TouchAPIKey_def by (intro spares_exec spares_setKeys) auto

lemma dropEnvironment_fields:
  "nb_envs (dropEnvironment x d) = filter (\<lambda>e. en_ID e \<noteq> x) (nb_envs d)"
  "ab_envs (dropEnvironment x d) = filter (\<lambda>e. fst e \<noteq> x) (ab_envs d)"
  "ab_alerts (dropEnvironment x d) = filter (\<lambda>a. al_EnvID a \<noteq> x) (ab_alerts d)"
  "ab_deliveries (dropEnvironment x d) =
     filter (\<lambda>v. ad_AlertID v \<notin> al_ID ` {a \<in> set (ab_alerts d). al_EnvID a = x}) (ab_deliveries d)"
  "eb_groups (dropEnvironment x d) = filter (\<lambda>g. eg_EnvID g \<noteq> x) (eb_groups d)"
  "bb_budgets (dropEnvironment x d) = filter (\<lambda>b. pb_EnvID b \<noteq> x) (bb_budgets d)"
  "bb_samples (dropEnvironment x d) =
     filter (\<lambda>s. sp_BudgetID s \<notin> pb_ID ` {b \<in> set (bb_budgets d). pb_EnvID b = x}) (bb_samples d)"
  "mb_stats (dropEnvironment x d) = filter (\<lambda>r. om_EnvID r \<noteq> x) (mb_stats d)"
  "mb_recordings (dropEnvironment x d) = filter (\<lambda>r. pr_EnvID r \<noteq> x) (mb_recordings d)"
  "mb_snapshots (dropEnvironment x d) = filter (\<lambda>r. ss_EnvID r \<noteq> x) (mb_snapshots d)"
  "mb_scans (dropEnvironment x d) = filter (\<lambda>r. mg_EnvID r \<noteq> x) (mb_scans d)" "mb_logs (dropEnvironment x d) = mb_logs d"
  "nb_heartbeats (dropEnvironment x d) = filter (\<lambda>r. hb_EnvID r \<noteq> x) (nb_heartbeats d)"
  "nb_keys (dropEnvironment x d) = filter (\<lambda>k. ky_EnvironmentID k \<noteq> Some x) (nb_keys d)"
  by (simp_all add: dropEnvironment_def)

lemma dropEnvironment_view:
  assumes ok: "envs_ok d" and x: "\<not> ofTenant t d x"
  shows "tenantView t (dropEnvironment x d) = tenantView t d"
proof -
  have T: "ofTenant t (dropEnvironment x d) = ofTenant t d"
    using x by (auto simp: ofTenant_def dropEnvironment_fields fun_eq_iff)
  have other: "filter (ofTenant t d \<circ> env) (filter (\<lambda>r. env r \<noteq> x) rows) = filter (ofTenant t d \<circ> env) rows" for env and rows :: "'r list"
    using x by (simp add: comp_def) (intro filter_cong, auto)
  have envs: "filter (\<lambda>e. en_TenantID e = t) (filter (\<lambda>e. en_ID e \<noteq> x) (nb_envs d)) = filter (\<lambda>e. en_TenantID e = t) (nb_envs d)"
    using x ok unfolding filter_filter by (intro filter_cong) (auto simp: env_mem)
  have keys: "filter (\<lambda>k. ky_TenantID k = t) (filter (\<lambda>k. ky_EnvironmentID k \<noteq> Some x) (nb_keys d)) = filter (\<lambda>k. ky_TenantID k = t) (nb_keys d)"
    using x ok unfolding filter_filter by (intro filter_cong) (auto simp: envs_ok_def)
  have alerts: "a \<in> set (ab_alerts d) \<Longrightarrow> b \<in> set (ab_alerts d) \<Longrightarrow> al_ID a = al_ID b \<Longrightarrow> a = b" for a b
    using ok by (auto simp: envs_ok_def distinct_map inj_on_def)
  have budgets: "a \<in> set (bb_budgets d) \<Longrightarrow> b \<in> set (bb_budgets d) \<Longrightarrow> pb_ID a = pb_ID b \<Longrightarrow> a = b" for a b
    using ok by (auto simp: envs_ok_def distinct_map inj_on_def)
  have deliveries: "filter (\<lambda>v. ad_AlertID v \<in> al_ID ` set (filter (ofTenant t d \<circ> al_EnvID) (ab_alerts d)))
      (filter (\<lambda>v. ad_AlertID v \<notin> al_ID ` {a \<in> set (ab_alerts d). al_EnvID a = x}) (ab_deliveries d)) =
    filter (\<lambda>v. ad_AlertID v \<in> al_ID ` set (filter (ofTenant t d \<circ> al_EnvID) (ab_alerts d))) (ab_deliveries d)"
    using x alerts unfolding filter_filter by (intro filter_cong refl) (auto, blast)
  have samples: "filter (\<lambda>s. sp_BudgetID s \<in> pb_ID ` set (filter (ofTenant t d \<circ> pb_EnvID) (bb_budgets d)))
      (filter (\<lambda>s. sp_BudgetID s \<notin> pb_ID ` {b \<in> set (bb_budgets d). pb_EnvID b = x}) (bb_samples d)) =
    filter (\<lambda>s. sp_BudgetID s \<in> pb_ID ` set (filter (ofTenant t d \<circ> pb_EnvID) (bb_budgets d))) (bb_samples d)"
    using x budgets unfolding filter_filter by (intro filter_cong refl) (auto, blast)
  show ?thesis
    unfolding tenantView_def T Let_def dropEnvironment_fields
    by (simp only: other [of al_EnvID] other [of hb_EnvID] other [of eg_EnvID] other [of pb_EnvID] other [of om_EnvID] other [of pr_EnvID]
        other [of ss_EnvID] other [of mg_EnvID] envs keys deliveries samples)
qed

lemma dropEnvironment_ok:
  assumes "envs_ok d"
  shows "envs_ok (dropEnvironment x d)"
proof -
  have "ofTenant t (dropEnvironment x d) y \<longleftrightarrow> ofTenant t d y \<and> y \<noteq> x" for t y
    by (auto simp: ofTenant_def dropEnvironment_fields)
  then show ?thesis
    using assms by (auto simp: envs_ok_def dropEnvironment_fields filter_map comp_def distinct_map_filter)
qed

lemma spares_DeleteEnvironment:
  assumes "tid \<noteq> t"
  shows "spares t d (snd (DeleteEnvironment fault envID tid d))"
proof (cases "fault ''DeleteEnvironment'' = None \<and> list_ex (envIs envID tid) (nb_envs d)")
  case True
  have "\<not> ofTenant t d envID" if ok: "envs_ok d"
  proof -
    have "ofTenant tid d envID" using True ok by (auto simp: env_mem list_ex_iff envIs_def)
    then show ?thesis using one_tenant [OF ok] assms by blast
  qed
  then show ?thesis
    using True by (auto simp: spares_def DeleteEnvironment_def dropEnvironment_view dropEnvironment_ok)
qed (auto simp: DeleteEnvironment_def intro: lv.refl split: option.split)

subsection \<open>Requests\<close>

lemma GetEnvironmentByID_mem:
  "GetEnvironmentByID fault envID tid d = Inr e \<Longrightarrow> e \<in> set (nb_envs d) \<and> en_ID e = envID \<and> en_TenantID e = tid"
  using hd_in_set [of "filter (envIs envID tid) (nb_envs d)"]
  by (auto simp: GetEnvironmentByID_def query_def limit1_def envIs_def split: option.splits if_splits)

lemma registrationEnv_mem:
  "registrationEnv c tok d = Inr e \<Longrightarrow> e \<in> set (nb_envs d) \<and> en_RegistrationToken e = Some tok"
  using hd_in_set [of "filter (tokenValid (Some tok) (sr_now c)) (nb_envs d)"]
  by (auto simp: registrationEnv_def GetEnvironmentByRegistrationToken_def query_def limit1_def tokenValid_def
      split: option.splits if_splits sum.splits)

lemmas spares_statements = spares_CreateEnvironment spares_UpdateEnvironment spares_SetRegistrationToken spares_CreateAPIKey
  spares_RevokeAPIKey spares_DeleteEnvironment

lemma newKey_fields [simp]: "ky_TenantID (newKey sha c tid envID u k n ds sc ex) = tid" "ky_EnvironmentID (newKey sha c tid envID u k n ds sc ex) = Some envID"
  by (simp_all add: newKey_def)

lemma newEnvironment_tenant [simp]: "en_TenantID (newEnvironment c tid req) = tid"
  by (simp add: newEnvironment_def)

lemma spares_environments:
  assumes "tid \<noteq> t"
  shows "spares t d (snd (Env_Create sv c tid creq d))" "spares t d (snd (Env_Update sv c tid envID ureq d))"
    "spares t d (snd (Env_Delete sv c tid envID d))" "spares t d (snd (Env_RegisterAgent sv c tid envID d))"
    "spares t d (snd (Key_Revoke c tid keyID d))"
  using assms unfolding Env_Create_def Env_Update_def Env_Delete_def Env_RegisterAgent_def Key_Revoke_def Let_def
  by (intro lv.rules spares_statements; simp)+

lemma spares_Key_Create:
  assumes "tid \<noteq> t"
  shows "spares t d (snd (Key_Create sha c tid envID uid req d))"
  using assms unfolding Key_Create_def Let_def
  by (intro lv.rules spares_statements) (auto simp: env_mem dest: GetEnvironmentByID_mem)

lemma CreateAPIKey_envs: "CreateAPIKey fault r d = (x, d') \<Longrightarrow> ofTenant t d' = ofTenant t d"
  by (auto simp: CreateAPIKey_def insertRow_def ofTenant_def fun_eq_iff split: option.splits list.splits)

lemma spares_issueCredentials:
  assumes "e \<in> set (nb_envs d)" "en_TenantID e \<noteq> t"
  shows "spares t d (snd (issueCredentials sha c e d))"
proof -
  have other: "ofTenant t' d (en_ID e) \<Longrightarrow> t' \<noteq> t" if "envs_ok d" for t'
    using assms that one_tenant [OF that] env_mem [OF that] by blast
  show ?thesis
  proof (cases "vk_random c")
    case (Inr bytes)
    let ?key = "newKey sha c (en_TenantID e) (en_ID e) None (rawKeyOf bytes) (''agent-'' @ take 8 (vk_uuid c))
      ''Auto-generated by agent self-registration'' [''agent:write''] (vk_clock c + ninetyDays)"
    obtain x d' where create: "CreateAPIKey (sr_fault c) ?key d = (x, d')" by fastforce
    have step: "spares t d d'"
      using spares_CreateAPIKey [of ?key t d "sr_fault c"] assms create by (auto simp: env_mem)
    have clear: "spares t d (snd (ClearRegistrationToken (sr_fault c) (sr_now c) (en_ID e) (Some (vk_uuid c)) d'))"
    proof (cases "envs_ok d")
      case True
      have "spares t d' (snd (ClearRegistrationToken (sr_fault c) (sr_now c) (en_ID e) (Some (vk_uuid c)) d'))"
        by (rule spares_ClearRegistrationToken) (use other [OF True] CreateAPIKey_envs [OF create] in simp)
      then show ?thesis using step by (rule lv.trans [rotated])
    qed (simp add: spares_def)
    show ?thesis
      using create step clear Inr
      by (auto simp: issueCredentials_def Let_def split: sum.split prod.split option.split)
  qed (simp add: issueCredentials_def lv.refl)
qed

text \<open>A request concerns a tenant when it is made for it, presents its registration token, or marks its key as used.\<close>

primrec concerns :: "string \<Rightarrow> 'z env_db_scheme \<Rightarrow> env_request \<Rightarrow> bool" where
  "concerns t d (CreateEnv tid req) \<longleftrightarrow> tid = t"
| "concerns t d (UpdateEnv tid envID req) \<longleftrightarrow> tid = t"
| "concerns t d (DeleteEnv tid envID) \<longleftrightarrow> tid = t"
| "concerns t d (IssueToken tid envID) \<longleftrightarrow> tid = t"
| "concerns t d (IssueKey tid envID uid req) \<longleftrightarrow> tid = t"
| "concerns t d (RevokeKey tid keyID) \<longleftrightarrow> tid = t"
| "concerns t d (Register tok) \<longleftrightarrow> list_ex (\<lambda>e. en_RegistrationToken e = Some tok) (tv_envs (tenantView t d))"
| "concerns t d (Touch keyID) \<longleftrightarrow> list_ex (\<lambda>k. ky_ID k = keyID) (tv_keys (tenantView t d))"

lemma tenantView_envs [simp]:
  "tv_envs (tenantView t d) = filter (\<lambda>e. en_TenantID e = t) (nb_envs d)" "tv_keys (tenantView t d) = filter (\<lambda>k. ky_TenantID k = t) (nb_keys d)"
  by (simp_all add: tenantView_def Let_def)

lemma spares_serveEnv:
  assumes "\<not> concerns t d r"
  shows "spares t d (serveEnv sv sha c r d)"
proof (cases r)
  case (Register tok)
  then show ?thesis
    using assms by (auto simp: SelfRegister_def list_ex_iff intro!: spares_issueCredentials lv.refl dest: registrationEnv_mem split: sum.split)
next
  case (Touch keyID)
  then show ?thesis
    using assms by (auto simp: touchAPIKeyAsync_def list_ex_iff intro!: spares_TouchAPIKey)
qed (use assms in \<open>simp_all add: spares_environments spares_Key_Create\<close>)

lemma concerns_view: "tenantView t d' = tenantView t d \<Longrightarrow> concerns t d' r \<longleftrightarrow> concerns t d r"
  by (cases r) (simp_all del: tenantView_envs)

lemma spares_serveEnvs:
  assumes "\<forall>(c, r) \<in> set rs. \<not> concerns t d r"
  shows "spares t d (serveEnvs sv sha rs d)"
  using assms
proof (induction rs arbitrary: d)
  case (Cons cr rs)
  obtain c r where cr: "cr = (c, r)" by fastforce
  have step: "spares t d (serveEnv sv sha c r d)"
    using Cons.prems cr by (intro spares_serveEnv) auto
  show ?case
  proof (cases "envs_ok d")
    case True
    then have "\<forall>(c, r) \<in> set rs. \<not> concerns t (serveEnv sv sha c' r' d) r" if "cr = (c', r')" for c' r'
      using Cons.prems step cr that concerns_view by (fastforce simp: spares_def)
    then have "spares t (serveEnv sv sha c r d) (serveEnvs sv sha rs (serveEnv sv sha c r d))"
      using Cons.IH cr by blast
    then show ?thesis using step cr by (auto intro: lv.trans)
  qed (simp add: spares_def)
qed (simp add: lv.refl)

end
