(* ===== verification/Env_Security.thy ===== *)
theory Env_Security
  imports Tenant_Isolation
begin

text \<open>
  Over every sequence of requests on environments and API keys: a tenant's data and what it reads do not depend on the requests of other tenants,
  a revoked key is not accepted again, and a registration token registers one agent.
\<close>

subsection \<open>Isolation of tenants\<close>

lemma envIs_view: "filter (envIs envID t) (nb_envs d) = filter (\<lambda>e. en_ID e = envID) (tv_envs (tenantView t d))"
  by (simp add: envIs_def [abs_def] conj_commute)

lemma envsWhere_view: "envsWhere t P d = filter P (tv_envs (tenantView t d))"
  by (simp add: envsWhere_def conj_commute)

lemma GetEnvironmentByID_view: "GetEnvironmentByID fault envID t d = query fault ''GetEnvironmentByID''
    (limit1 hd (filter (\<lambda>e. en_ID e = envID) (tv_envs (tenantView t d))))"
  by (simp only: GetEnvironmentByID_def envIs_view)

lemma heartbeatsOf_view:
  assumes "ofTenant t d envID"
  shows "heartbeatsOf envID d = newest hb_ReceivedAt (filter (\<lambda>h. hb_EnvID h = envID) (tv_heartbeats (tenantView t d)))"
proof -
  have "filter (\<lambda>h. hb_EnvID h = envID) (nb_heartbeats d) = filter (\<lambda>h. ofTenant t d (hb_EnvID h) \<and> hb_EnvID h = envID) (nb_heartbeats d)"
    using assms by (intro filter_cong) auto
  then show ?thesis by (simp add: heartbeatsOf_def tenantView_def Let_def)
qed

lemma reads_view:
  assumes same: "tenantView t d' = tenantView t d"
  shows "Env_GetByID sv c t envID d' = Env_GetByID sv c t envID d" "Env_List sv c t req d' = Env_List sv c t req d"
    "Key_List c t envID d' = Key_List c t envID d"
proof -
  have keys: "filter (\<lambda>k. ky_TenantID k = t \<and> P k) (nb_keys d') = filter (\<lambda>k. ky_TenantID k = t \<and> P k) (nb_keys d)" for P
    using arg_cong [OF same, of "filter P \<circ> tv_keys"] by (simp add: conj_commute)
  note envs = GetEnvironmentByID_view same
  show "Env_GetByID sv c t envID d' = Env_GetByID sv c t envID d" by (simp only: Env_GetByID_def envs)
  show "Env_List sv c t req d' = Env_List sv c t req d"
    by (simp only: Env_List_def ListEnvironmentsByTenantTypeAndStatus_def ListEnvironmentsByTenantAndType_def
        ListEnvironmentsByTenantAndStatus_def ListEnvironmentsByTenant_def CountEnvironmentsByTenantTypeAndStatus_def
        CountEnvironmentsByTenantAndType_def CountEnvironmentsByTenantAndStatus_def CountEnvironmentsByTenant_def envsWhere_view same)
  show "Key_List c t envID d' = Key_List c t envID d"
    by (simp only: Key_List_def envs ListAPIKeysByEnvironment_def keys)
qed

lemma heartbeats_view:
  assumes ok: "envs_ok d" "envs_ok d'" and same: "tenantView t d' = tenantView t d"
  shows "Env_GetLatestHeartbeat c t envID d' = Env_GetLatestHeartbeat c t envID d"
    "Env_ListHeartbeats sv c t envID limit d' = Env_ListHeartbeats sv c t envID limit d"
proof -
  have get: "GetEnvironmentByID fault envID t d' = GetEnvironmentByID fault envID t d" for fault
    by (simp only: GetEnvironmentByID_view same)
  have beats: "heartbeatsOf envID d' = heartbeatsOf envID d" if "GetEnvironmentByID fault envID t d = Inr e" for fault e
  proof -
    have "ofTenant t d envID" using GetEnvironmentByID_mem [OF that] ok(1) by (auto simp: env_mem)
    moreover have "ofTenant t d' envID"
      using GetEnvironmentByID_mem [of fault envID t d' e] that get ok(2) by (auto simp: env_mem)
    ultimately show ?thesis by (simp only: heartbeatsOf_view same)
  qed
  show "Env_GetLatestHeartbeat c t envID d' = Env_GetLatestHeartbeat c t envID d"
    by (auto simp: Env_GetLatestHeartbeat_def get GetLatestHeartbeat_def dest!: beats split: sum.split)
  show "Env_ListHeartbeats sv c t envID limit d' = Env_ListHeartbeats sv c t envID limit d"
    by (auto simp: Env_ListHeartbeats_def get ListHeartbeats_def dest!: beats split: sum.split)
qed

text \<open>
  C3: Whatever requests on environments and API keys are served for others, no row of a tenant changes, of no table, and every answer that the tenant
  gets about its environments, heartbeats and keys stays the same.
\<close>

theorem tenant_isolation:
  assumes ok: "envs_ok d" and others: "\<forall>(c, r) \<in> set rs. \<not> concerns t d r"
  shows "tenantView t (serveEnvs sv sha rs d) = tenantView t d \<and> envs_ok (serveEnvs sv sha rs d) \<and>
    Env_GetByID sv c t envID (serveEnvs sv sha rs d) = Env_GetByID sv c t envID d \<and>
    Env_List sv c t req (serveEnvs sv sha rs d) = Env_List sv c t req d \<and>
    Env_GetLatestHeartbeat c t envID (serveEnvs sv sha rs d) = Env_GetLatestHeartbeat c t envID d \<and>
    Env_ListHeartbeats sv c t envID limit (serveEnvs sv sha rs d) = Env_ListHeartbeats sv c t envID limit d \<and>
    Key_List c t envID (serveEnvs sv sha rs d) = Key_List c t envID d"
proof -
  have same: "tenantView t (serveEnvs sv sha rs d) = tenantView t d" and ok': "envs_ok (serveEnvs sv sha rs d)"
    using spares_serveEnvs [OF others, of sv sha] ok by (simp_all add: spares_def)
  show ?thesis
    using same ok' reads_view [OF same] heartbeats_view [OF ok ok' same] by simp
qed

subsection \<open>Keys\<close>

definition allKeys :: "(key_row \<Rightarrow> bool) \<Rightarrow> 'z env_db_scheme \<Rightarrow> bool" where
  "allKeys J d \<longleftrightarrow> list_all J (nb_keys d)"

definition allEnvs :: "(env_row \<Rightarrow> bool) \<Rightarrow> 'z env_db_scheme \<Rightarrow> bool" where
  "allEnvs J d \<longleftrightarrow> list_all J (nb_envs d)"

definition preserves :: "('s \<Rightarrow> bool) \<Rightarrow> 's \<Rightarrow> 's \<Rightarrow> bool" where
  "preserves I s s' \<longleftrightarrow> (I s \<longrightarrow> I s')"

interpretation kp: state_relation "preserves I" for I
  by unfold_locales (auto simp: preserves_def)

lemma preserves_insertRow: "preserves I d d' \<Longrightarrow> preserves I d (snd (insertRow fault name checks row d d'))"
  by (auto simp: insertRow_def intro: kp.refl split: option.split list.split)

lemma preserves_exec: "preserves I d d' \<Longrightarrow> preserves I d (snd (exec fault name d d'))"
  by (auto simp: exec_def intro: kp.refl split: option.split)

lemma preserves_updateEnv: "preserves I d (setEnvs P f d) \<Longrightarrow> preserves I d (snd (updateEnv fault name checks P f d))"
  by (auto simp: updateEnv_def intro: preserves_insertRow kp.refl split: list.split)

lemma list_all_map_if: "list_all J xs \<Longrightarrow> (\<And>x. J x \<Longrightarrow> J (f x)) \<Longrightarrow> list_all J (map (\<lambda>x. if P x then f x else x) xs)"
  by (auto simp: list_all_iff)

lemma preserves_setKeys: "(\<And>k. J k \<Longrightarrow> J (f k)) \<Longrightarrow> preserves (allKeys J) d (setKeys P f d)"
  by (simp add: preserves_def allKeys_def setKeys_def list_all_map_if)

lemma preserves_setEnvs: "(\<And>e. J e \<Longrightarrow> J (f e)) \<Longrightarrow> preserves (allEnvs J) d (setEnvs P f d)"
  by (simp add: preserves_def allEnvs_def setEnvs_def list_all_map_if)

lemma preserves_other:
  "preserves (allKeys J) d (setEnvs P f d)" "preserves (allEnvs K) d (setKeys M g d)" "preserves (allKeys J) d (snd (CreateEnvironment fault e d))"
  "preserves (allEnvs K) d (snd (CreateAPIKey fault k d))" "preserves (allKeys J) d (snd (DeleteEnvironment fault envID tid d))"
  "preserves (allEnvs K) d (snd (DeleteEnvironment fault envID tid d))"
  by (auto simp: preserves_def allKeys_def allEnvs_def setEnvs_def setKeys_def CreateEnvironment_def CreateAPIKey_def DeleteEnvironment_def
      dropEnvironment_fields list_all_iff insertRow_def split: option.split list.split)

lemma preserves_create:
  "J k \<Longrightarrow> preserves (allKeys J) d (snd (CreateAPIKey fault k d))" "K e \<Longrightarrow> preserves (allEnvs K) d (snd (CreateEnvironment fault e d))"
  unfolding CreateAPIKey_def CreateEnvironment_def
  by (rule preserves_insertRow, simp add: preserves_def allKeys_def allEnvs_def)+

lemma preserves_keys_updates:
  "preserves (allKeys J) d (snd (UpdateEnvironment fault now envID tid a b c e f g h d))"
  "preserves (allKeys J) d (snd (SetRegistrationToken fault now envID tok ex tid d))"
  "preserves (allKeys J) d (snd (ClearRegistrationToken fault now envID agent d))"
  unfolding UpdateEnvironment_def SetRegistrationToken_def ClearRegistrationToken_def Let_def
  by (auto intro: preserves_updateEnv preserves_other preserves_exec kp.refl)

lemma preserves_keys:
  assumes new: "\<And>t x u k n ds sc ex. J (newKey sha c t x u k n ds sc ex)"
    and off: "\<And>k. J k \<Longrightarrow> J (k \<lparr> ky_IsActive := False \<rparr>)" and used: "\<And>k now. J k \<Longrightarrow> J (k \<lparr> ky_LastUsed := Some now \<rparr>)"
  shows "preserves (allKeys J) d (serveEnv sv sha c r d)"
proof -
  have register: "preserves (allKeys J) d (snd (issueCredentials sha c e d))" for e
    unfolding issueCredentials_def Let_def by (intro kp.rules preserves_create preserves_keys_updates new)
  show ?thesis
  proof (cases r)
    case (Register tok)
    then show ?thesis using register by (simp add: SelfRegister_def kp.refl split: sum.split)
  next
    case (RevokeKey tid keyID)
    have "preserves (allKeys J) d (snd (RevokeAPIKey (sr_fault c) keyID tid d))"
      unfolding RevokeAPIKey_def by (intro preserves_exec preserves_setKeys off)
    then show ?thesis
      unfolding RevokeKey serveEnv.simps Key_Revoke_def by (intro kp.rules)
  next
    case (Touch keyID)
    then show ?thesis by (simp add: TouchAPIKey_def touchAPIKeyAsync_def preserves_exec preserves_setKeys used)
  next
    case (IssueKey tid envID uid req)
    show ?thesis unfolding IssueKey serveEnv.simps Key_Create_def Let_def by (intro kp.rules preserves_create new)
  qed (simp_all only: serveEnv.simps Env_Create_def Env_Update_def Env_Delete_def Env_RegisterAgent_def Let_def,
      (intro kp.rules preserves_other preserves_keys_updates)+)
qed

lemma preserves_all:
  assumes "\<And>c r d. (c, r) \<in> set rs \<Longrightarrow> preserves I d (serveEnv sv sha c r d)"
  shows "preserves I d (serveEnvs sv sha rs d)"
  using assms
proof (induction rs arbitrary: d)
  case (Cons cr rs)
  obtain c r where cr: "cr = (c, r)" by fastforce
  have "preserves I d (serveEnv sv sha c r d)" using Cons.prems cr by simp
  moreover have "preserves I (serveEnv sv sha c r d) (serveEnvs sv sha rs (serveEnv sv sha c r d))" using Cons by simp
  ultimately show ?case unfolding cr serveEnvs.simps by (rule kp.trans)
qed (simp add: kp.refl)

lemma AgentAPIKeyAuth_key:
  assumes "AgentAPIKeyAuth uni sha c header d = Inr ctx"
  shows "\<exists>k \<in> set (nb_keys d). ky_ID k = gx_APIKeyID ctx \<and> ky_IsActive k \<and> gx_TenantID ctx = ky_TenantID k \<and> gx_EnvID ctx = ky_EnvironmentID k \<and>
    (\<exists>apiKey. extractAPIKey uni header = Inr apiKey \<and> ky_KeyHash k = HashAPIKey sha apiKey) \<and>
    (\<forall>t. ky_ExpiresAt k = Some t \<longrightarrow> sr_now c < t)"
proof -
  obtain apiKey k where key: "extractAPIKey uni header = Inr apiKey" "lookupAPIKey sha c apiKey d = Inr k"
    and ctx: "ctx = \<lparr> gx_TenantID = ky_TenantID k, gx_APIKeyID = ky_ID k, gx_EnvID = ky_EnvironmentID k \<rparr>"
    using assms by (auto simp: AgentAPIKeyAuth_def split: sum.splits option.splits)
  have "k \<in> set (filter (keyUsable (HashAPIKey sha apiKey) (sr_now c)) (nb_keys d))"
    using key(2) by (auto simp: lookupAPIKey_def GetAPIKeyByHash_def query_def limit1_def
        split: sum.splits option.splits if_splits intro!: hd_in_set simp del: set_filter)
  then show ?thesis using key(1) ctx by (auto simp: keyUsable_def)
qed

text \<open>
  C4: A key that was revoked authenticates no request again, whatever requests follow, as long as no new key draws its identifier; and a request is
  authenticated only by a key of the table that is active, has not expired and has the hash of the key presented, for the key's tenant and environment.
\<close>

theorem revoked_key_rejected:
  assumes revoked: "Key_Revoke c tid keyID d = (Inr (), d')" and ids: "distinct (map ky_ID (nb_keys d))"
    and fresh: "\<forall>(c', r) \<in> set rs. sr_ids c' [] \<noteq> keyID" and auth: "AgentAPIKeyAuth uni sha c' header (serveEnvs sv sha rs d') = Inr ctx"
  shows "gx_APIKeyID ctx \<noteq> keyID \<and>
    (\<exists>k \<in> set (nb_keys (serveEnvs sv sha rs d')). ky_ID k = gx_APIKeyID ctx \<and> ky_IsActive k \<and> gx_TenantID ctx = ky_TenantID k \<and>
       gx_EnvID ctx = ky_EnvironmentID k \<and> (\<exists>apiKey. extractAPIKey uni header = Inr apiKey \<and> ky_KeyHash k = HashAPIKey sha apiKey) \<and>
       (\<forall>t. ky_ExpiresAt k = Some t \<longrightarrow> sr_now c' < t))"
proof -
  let ?off = "\<lambda>k. ky_ID k \<noteq> keyID \<or> \<not> ky_IsActive k"
  obtain k where k: "GetAPIKeyByID (sr_fault c) keyID tid d = Inr k" and d': "d' = setKeys (keyIs keyID tid) (\<lambda>k. k \<lparr> ky_IsActive := False \<rparr>) d"
    using revoked by (auto simp: Key_Revoke_def RevokeAPIKey_def exec_def split: sum.splits if_splits prod.splits option.splits)
  have "k \<in> set (filter (keyIs keyID tid) (nb_keys d))"
    using k by (auto simp: GetAPIKeyByID_def query_def limit1_def split: option.splits if_splits intro!: hd_in_set simp del: set_filter)
  then have "\<forall>k' \<in> set (nb_keys d). ky_ID k' = keyID \<longrightarrow> keyIs keyID tid k'"
    using ids by (auto simp: keyIs_def distinct_map inj_on_def)
  then have "\<forall>k' \<in> set (nb_keys d). ?off (if keyIs keyID tid k' then k' \<lparr> ky_IsActive := False \<rparr> else k')"
    by (intro ballI) (case_tac "keyIs keyID tid k'", simp, simp, blast)
  moreover have "nb_keys d' = map (\<lambda>k. if keyIs keyID tid k then k \<lparr> ky_IsActive := False \<rparr> else k) (nb_keys d)"
    by (simp add: d' setKeys_def)
  ultimately have "allKeys ?off d'"
    by (simp only: allKeys_def list.pred_map comp_def) (simp only: list_all_iff)
  moreover have "preserves (allKeys ?off) e (serveEnv sv sha c' r e)" if "(c', r) \<in> set rs" for c' r e
    by (rule preserves_keys) (use fresh that in \<open>auto simp: newKey_def\<close>)
  moreover from this have "preserves (allKeys ?off) d' (serveEnvs sv sha rs d')"
    by (rule preserves_all)
  ultimately have "allKeys ?off (serveEnvs sv sha rs d')"
    unfolding preserves_def by blast
  then show ?thesis
    using AgentAPIKeyAuth_key [OF auth] by (auto simp: allKeys_def list_all_iff)
qed

subsection \<open>Registration tokens\<close>

definition drawsOther :: "string \<Rightarrow> env_call \<Rightarrow> bool" where
  "drawsOther tok c \<longleftrightarrow> (case vk_random c of Inl _ \<Rightarrow> True | Inr rawBytes \<Rightarrow> ''reg_'' @ rawURLEncode rawBytes \<noteq> tok)"

abbreviation withoutToken :: "string \<Rightarrow> 'z env_db_scheme \<Rightarrow> bool" where
  "withoutToken tok \<equiv> allEnvs (\<lambda>e. en_RegistrationToken e \<noteq> Some tok)"

lemma preserves_keyStatements:
  "preserves (allEnvs J) d (snd (RevokeAPIKey fault keyID tid d))" "preserves (allEnvs J) d (snd (TouchAPIKey fault now keyID d))"
  unfolding RevokeAPIKey_def TouchAPIKey_def by (intro preserves_exec preserves_other)+

lemma preserves_tokenStatements:
  "preserves (withoutToken tok) d (snd (UpdateEnvironment fault now envID tid a b c e f g h d))"
  "tok' \<noteq> tok \<Longrightarrow> preserves (withoutToken tok) d (snd (SetRegistrationToken fault now envID (Some tok') ex tid d))"
  "preserves (withoutToken tok) d (snd (ClearRegistrationToken fault now envID agent d))"
  unfolding UpdateEnvironment_def SetRegistrationToken_def ClearRegistrationToken_def Let_def
  by (auto intro!: preserves_updateEnv preserves_setEnvs preserves_exec kp.refl)

lemma preserves_token:
  assumes other: "drawsOther tok c"
  shows "preserves (withoutToken tok) d (serveEnv sv sha c r d)"
proof (cases r)
  case (CreateEnv tid req)
  show ?thesis
    unfolding CreateEnv serveEnv.simps Env_Create_def Let_def by (intro kp.rules preserves_create) (simp add: newEnvironment_def)
next
  case (IssueToken tid envID)
  have "preserves (withoutToken tok) d (snd (SetRegistrationToken (sr_fault c) (sr_now c) envID (Some (''reg_'' @ rawURLEncode rawBytes)) ex tid d))"
    if "vk_random c = Inr rawBytes" for rawBytes ex
    using other that by (intro preserves_tokenStatements) (simp add: drawsOther_def)
  then show ?thesis
    unfolding IssueToken serveEnv.simps Env_RegisterAgent_def Let_def by (intro kp.rules)
qed (simp_all only: serveEnv.simps Env_Update_def Env_Delete_def Key_Create_def Key_Revoke_def SelfRegister_def issueCredentials_def
    touchAPIKeyAsync_def Let_def, (intro kp.rules preserves_other preserves_tokenStatements preserves_keyStatements)+)

lemma registrationEnv_none:
  assumes "withoutToken tok d"
  shows "SelfRegister sha c tok d = (Inl (case sr_fault c ''GetEnvironmentByRegistrationToken'' of
      None \<Rightarrow> ApiErr (ErrUnauthorized ''invalid or expired registration token'')
    | Some e \<Rightarrow> if errors_Is e ErrNoRows then ApiErr (ErrUnauthorized ''invalid or expired registration token'') else internalErr e), d)"
proof -
  have "filter (tokenValid (Some tok) (sr_now c)) (nb_envs d) = []"
    using assms by (auto simp: allEnvs_def list_all_iff tokenValid_def filter_empty_conv)
  then show ?thesis
    by (simp add: SelfRegister_def registrationEnv_def GetEnvironmentByRegistrationToken_def query_def limit1_def errors_Is_def split: option.split)
qed

text \<open>
  C5: A registration token registers one agent: after a registration with it has succeeded, every later one with it is refused and changes nothing,
  whatever requests are served in between, unless the token is drawn again.
\<close>

theorem registration_token_single_use:
  assumes first: "SelfRegister sha c tok d = (Inr resp, d')"
    and index: "\<forall>e \<in> set (nb_envs d). \<forall>e' \<in> set (nb_envs d). en_RegistrationToken e = Some tok \<longrightarrow> en_RegistrationToken e' = Some tok \<longrightarrow> en_ID e = en_ID e'"
    and draws: "\<forall>(c', r) \<in> set rs. drawsOther tok c'"
  shows "SelfRegister sha c'' tok (serveEnvs sv sha rs d') =
    (Inl (case sr_fault c'' ''GetEnvironmentByRegistrationToken'' of
        None \<Rightarrow> ApiErr (ErrUnauthorized ''invalid or expired registration token'')
      | Some e \<Rightarrow> if errors_Is e ErrNoRows then ApiErr (ErrUnauthorized ''invalid or expired registration token'') else internalErr e),
     serveEnvs sv sha rs d')"
proof -
  obtain env where env: "registrationEnv c tok d = Inr env" and issue: "issueCredentials sha c env d = (Inr resp, d')"
    using first by (auto simp: SelfRegister_def split: sum.splits)
  obtain k k' d1 where create: "CreateAPIKey (sr_fault c) k d = (Inr k', d1)"
    and clear: "ClearRegistrationToken (sr_fault c) (sr_now c) (en_ID env) (Some (vk_uuid c)) d1 = (None, d')"
    using issue by (auto simp: issueCredentials_def Let_def split: sum.splits prod.splits option.splits)
  have "nb_envs d1 = nb_envs d"
    using create by (auto simp: CreateAPIKey_def insertRow_def split: option.splits list.splits)
  moreover have "\<exists>f. nb_envs d' = map (\<lambda>e. if en_ID e = en_ID env then f e else e) (nb_envs d1) \<and> (\<forall>e. en_RegistrationToken (f e) = None)"
  proof -
    have "d' = setEnvs (\<lambda>e. en_ID e = en_ID env) (\<lambda>e. e \<lparr> en_RegistrationToken := None, en_RegistrationTokenExpiresAt := None,
        en_AgentID := Some (vk_uuid c), en_Status := ''connected'', en_LastSync := Some (sr_now c), en_UpdatedAt := sr_now c \<rparr>) d1"
      using clear by (simp add: ClearRegistrationToken_def exec_def Let_def split: if_splits option.splits)
    then show ?thesis by (auto simp: setEnvs_def)
  qed
  ultimately obtain f where envs: "nb_envs d' = map (\<lambda>e. if en_ID e = en_ID env then f e else e) (nb_envs d)"
    and none: "\<And>e. en_RegistrationToken (f e) = None"
    by auto
  have "en_RegistrationToken (if en_ID e = en_ID env then f e else e) \<noteq> Some tok" if "e \<in> set (nb_envs d)" for e
  proof (cases "en_ID e = en_ID env")
    case False
    then show ?thesis using index that registrationEnv_mem [OF env] by auto
  qed (simp add: none)
  then have "withoutToken tok d'"
    by (simp only: allEnvs_def envs list.pred_map comp_def) (simp add: list_all_iff)
  moreover have "preserves (withoutToken tok) d' (serveEnvs sv sha rs d')"
    by (rule preserves_all, rule preserves_token) (use draws in auto)
  ultimately show ?thesis
    by (intro registrationEnv_none) (simp add: preserves_def)
qed

subsection \<open>Examples\<close>

definition exampleEnvRow :: "string \<Rightarrow> string \<Rightarrow> string option \<Rightarrow> env_row" where
  "exampleEnvRow i t tok =
     \<lparr> en_ID = i, en_TenantID = t, en_Name = i, en_OdooUrl = [], en_DbName = [], en_OdooVersion = None, en_EnvType = ''staging'',
       en_Status = ''active'', en_AgentID = None, en_FeatureFlags = JNull, en_LastSync = None, en_CreatedAt = 0, en_UpdatedAt = 0,
       en_RegistrationToken = tok, en_RegistrationTokenExpiresAt = (if tok = None then None else Some 100) \<rparr>"

definition exampleEnvs :: env_db where
  "exampleEnvs =
     \<lparr> ab_envs = [(''e1'', ''t1''), (''e2'', ''t2'')], ab_alerts = [], ab_channels = [], ab_deliveries = [], eb_groups = [], bb_budgets = [],
       bb_samples = [], mb_stats = [], mb_recordings = [], mb_snapshots = [], mb_scans = [], mb_logs = [], nb_tenants = [''t1'', ''t2''],
       nb_users = [], nb_envs = [exampleEnvRow ''e1'' ''t1'' None, exampleEnvRow ''e2'' ''t2'' (Some ''reg_x'')], nb_heartbeats = [], nb_keys = [] \<rparr>"

definition exampleEnvCall :: "string \<Rightarrow> env_call" where
  "exampleEnvCall i =
     \<lparr> sr_fault = \<lambda>_. None, sr_ids = \<lambda>_. i, sr_now = 1, vk_clock = 1000, vk_random = Inr i, vk_uuid = ''agent'' @ i \<rparr>"

definition exampleService :: service where
  "exampleService = \<lparr> sv_uni = \<lparr> is_print = \<lambda>_. True, to_lower = \<lambda>x. x \<rparr>, sv_title = (\<lambda>x. x), sv_collate = length \<rparr>"

definition exampleKey :: "string \<Rightarrow> string \<Rightarrow> key_row" where
  "exampleKey i hash =
     \<lparr> ky_ID = i, ky_TenantID = ''t1'', ky_CreatedBy = None, ky_KeyHash = hash, ky_KeyPrefix = [], ky_Name = i, ky_Scopes = [],
       ky_LastUsed = None, ky_ExpiresAt = None, ky_IsActive = True, ky_CreatedAt = 0, ky_Description = [], ky_EnvironmentID = Some ''e1'' \<rparr>"

lemmas exampleRows = exampleEnvs_def exampleEnvRow_def exampleKey_def

theorem tenant_isolation_witness:
  "let rs = [(exampleEnvCall ''a'', Register ''reg_x''), (exampleEnvCall ''b'', DeleteEnv ''t2'' ''e2'')] in
   tenantView ''t1'' (serveEnvs exampleService (\<lambda>x. x) rs exampleEnvs) = tenantView ''t1'' exampleEnvs"
proof -
  have "envs_ok exampleEnvs" by (simp add: envs_ok_def exampleRows)
  moreover have "\<forall>(c, r) \<in> set [(exampleEnvCall ''a'', Register ''reg_x''), (exampleEnvCall ''b'', DeleteEnv ''t2'' ''e2'')].
      \<not> concerns ''t1'' exampleEnvs r"
    by (simp add: exampleRows)
  ultimately show ?thesis by (simp only: Let_def tenant_isolation)
qed

definition twoKeys :: env_db where
  "twoKeys = exampleEnvs \<lparr> nb_keys := [exampleKey ''k1'' ''41'', exampleKey ''k2'' ''42''] \<rparr>"

lemma twoKeys_revoke: "Key_Revoke (exampleEnvCall ''a'') ''t1'' ''k1'' twoKeys =
    (Inr (), setKeys (keyIs ''k1'' ''t1'') (\<lambda>k. k \<lparr> ky_IsActive := False \<rparr>) twoKeys)"
  by code_simp

lemma twoKeys_auth: "AgentAPIKeyAuth (sv_uni exampleService) (\<lambda>x. x) (exampleEnvCall ''a'') ''ApiKey B''
    (serveEnvs exampleService (\<lambda>x. x) [] (setKeys (keyIs ''k1'' ''t1'') (\<lambda>k. k \<lparr> ky_IsActive := False \<rparr>) twoKeys)) =
    Inr \<lparr> gx_TenantID = ''t1'', gx_APIKeyID = ''k2'', gx_EnvID = Some ''e1'' \<rparr>"
  by code_simp

theorem revoked_key_rejected_witness:
  "\<exists>ctx. AgentAPIKeyAuth (sv_uni exampleService) (\<lambda>x. x) (exampleEnvCall ''a'') ''ApiKey B''
     (snd (Key_Revoke (exampleEnvCall ''a'') ''t1'' ''k1'' twoKeys)) = Inr ctx \<and> gx_APIKeyID ctx \<noteq> ''k1''"
proof -
  have "distinct (map ky_ID (nb_keys twoKeys))" by (simp add: twoKeys_def exampleRows)
  from revoked_key_rejected [OF twoKeys_revoke this _ twoKeys_auth] show ?thesis
    using twoKeys_auth by (simp add: twoKeys_revoke)
qed

lemma example_registration:
  "SelfRegister (\<lambda>x. x) (exampleEnvCall ''a'') ''reg_x'' exampleEnvs =
     (Inr \<lparr> sf_AgentID = ''agenta'', sf_APIKey = ''odt_YQ'', sf_EnvironmentID = ''e2'', sf_TenantID = ''t2'' \<rparr>,
      snd (SelfRegister (\<lambda>x. x) (exampleEnvCall ''a'') ''reg_x'' exampleEnvs))"
proof -
  have "fst (SelfRegister (\<lambda>x. x) (exampleEnvCall ''a'') ''reg_x'' exampleEnvs) =
      Inr \<lparr> sf_AgentID = ''agenta'', sf_APIKey = ''odt_YQ'', sf_EnvironmentID = ''e2'', sf_TenantID = ''t2'' \<rparr>"
    by code_simp
  then show ?thesis by (metis prod.collapse)
qed

theorem registration_token_single_use_witness:
  "let d' = snd (SelfRegister (\<lambda>x. x) (exampleEnvCall ''a'') ''reg_x'' exampleEnvs);
       d'' = serveEnv exampleService (\<lambda>x. x) (exampleEnvCall ''b'') (IssueToken ''t2'' ''e2'') d' in
   SelfRegister (\<lambda>x. x) (exampleEnvCall ''c'') ''reg_x'' d'' =
     (Inl (ApiErr (ErrUnauthorized ''invalid or expired registration token'')), d'')"
proof -
  have index: "\<forall>e \<in> set (nb_envs exampleEnvs). \<forall>e' \<in> set (nb_envs exampleEnvs). en_RegistrationToken e = Some ''reg_x'' \<longrightarrow>
      en_RegistrationToken e' = Some ''reg_x'' \<longrightarrow> en_ID e = en_ID e'"
    by (simp add: exampleRows)
  have "drawsOther ''reg_x'' (exampleEnvCall ''b'')"
    by code_simp
  then have "\<forall>(c, r) \<in> set [(exampleEnvCall ''b'', IssueToken ''t2'' ''e2'')]. drawsOther ''reg_x'' c" by simp
  from registration_token_single_use [OF example_registration index this, of "exampleEnvCall ''c''" exampleService]
  show ?thesis by (simp add: exampleEnvCall_def)
qed

text \<open>The token is looked up and cleared in separate statements: two agents that present it at the same time are both registered.\<close>

lemma concurrent_registrations:
  "case (registrationEnv (exampleEnvCall ''a'') ''reg_x'' exampleEnvs, registrationEnv (exampleEnvCall ''b'') ''reg_x'' exampleEnvs) of
     (Inr env, Inr env') \<Rightarrow>
       (case issueCredentials (\<lambda>x. x) (exampleEnvCall ''a'') env exampleEnvs of (first, d') \<Rightarrow>
        case issueCredentials (\<lambda>x. x) (exampleEnvCall ''b'') env' d' of (second, d'') \<Rightarrow>
          map ky_ID (nb_keys d'') = [''a'', ''b''] \<and> list_all ky_IsActive (nb_keys d''))
   | _ \<Rightarrow> False"
  by code_simp

end
