(* ===== verification/Pagination.thy ===== *)
theory Pagination
  imports Error_Store
begin

text \<open>
  Pages of a list (\<^verbatim>\<open>internal/dto/pagination_dto.go\<close>): the bounds of a page, its offset, the number of pages, and the reading of both from the
  query string. An \<^verbatim>\<open>int\<close> has 64 bits and wraps around. The writing of responses is left out.
\<close>

definition int64 :: "int \<Rightarrow> int" where
  "int64 i = (i + 2 ^ 63) mod 2 ^ 64 - 2 ^ 63"

record Pagination =
  pn_Page :: int
  pn_PerPage :: int
  pn_Total :: int

record Meta =
  mt_Page :: int
  mt_PerPage :: int
  mt_Total :: int
  mt_TotalPages :: int
  mt_HasNext :: bool
  mt_HasPrev :: bool

definition NewPagination :: "int \<Rightarrow> int \<Rightarrow> Pagination" where
  "NewPagination pg perPage =
     (let p = (if perPage < 1 then 25 else perPage)
      in \<lparr> pn_Page = (if pg < 1 then 1 else pg), pn_PerPage = (if p > 100 then 100 else p), pn_Total = 0 \<rparr>)"

definition Offset :: "Pagination \<Rightarrow> int" where
  "Offset p = int64 ((pn_Page p - 1) * pn_PerPage p)"

text \<open>The division of \<^verbatim>\<open>int\<close> truncates, which is \<open>div\<close> here because a total is not negative.\<close>

definition TotalPages :: "Pagination \<Rightarrow> int" where
  "TotalPages p =
     (if pn_Total p = 0 then 0
      else pn_Total p div pn_PerPage p + (if pn_Total p mod pn_PerPage p > 0 then 1 else 0))"

definition ToMeta :: "Pagination \<Rightarrow> Meta" where
  "ToMeta p =
     \<lparr> mt_Page = pn_Page p, mt_PerPage = pn_PerPage p, mt_Total = pn_Total p, mt_TotalPages = TotalPages p,
       mt_HasNext = (pn_Page p < TotalPages p), mt_HasPrev = (1 < pn_Page p) \<rparr>"

text \<open>\<^verbatim>\<open>parseInt\<close>: decimal digits only, anything else is zero; the value wraps around.\<close>

fun parseDigits :: "int \<Rightarrow> (int \<times> nat) list \<Rightarrow> int" where
  "parseDigits acc [] = acc"
| "parseDigits acc ((r, w) # rs) = (if r < 48 \<or> 57 < r then 0 else parseDigits (int64 (acc * 10 + (r - 48))) rs)"

definition parseIntText :: "string \<Rightarrow> int" where
  "parseIntText s = parseDigits 0 (runes s)"

definition pagePair :: "string \<Rightarrow> int \<times> int \<Rightarrow> int \<times> int" where
  "pagePair pair p =
     (case Split2 CHR ''='' pair of
        [key, val] \<Rightarrow>
          (let n = parseIntText val in
           if key = ''page'' \<and> 0 < n then (n, snd p) else if key = ''per_page'' \<and> 0 < n then (fst p, n) else p)
      | _ \<Rightarrow> p)"

definition GetPaginationFromRequest :: "string \<Rightarrow> Pagination" where
  "GetPaginationFromRequest q =
     (let (pg, perPage) = (if q = [] then (1, 25) else fold pagePair (Split CHR ''&'' q) (1, 25)) in NewPagination pg perPage)"

subsection \<open>The pages of a list\<close>

lemma PerPage_bounds: "1 \<le> pn_PerPage (NewPagination pg pp)" "pn_PerPage (NewPagination pg pp) \<le> 100" "1 \<le> pn_Page (NewPagination pg pp)"
  by (simp_all add: NewPagination_def Let_def)

lemma int64_id: "- (2 ^ 63) \<le> i \<Longrightarrow> i < 2 ^ 63 \<Longrightarrow> int64 i = i"
  by (simp add: int64_def)

lemma TotalPages_bounds:
  assumes "0 \<le> pn_Total p" "1 \<le> pn_PerPage p"
  shows "pn_Total p \<le> TotalPages p * pn_PerPage p" "k * pn_PerPage p < pn_Total p \<longleftrightarrow> k < TotalPages p"
proof -
  let ?n = "pn_Total p" and ?w = "pn_PerPage p"
  have eq: "?n = ?n div ?w * ?w + ?n mod ?w" and rest: "0 \<le> ?n mod ?w" "?n mod ?w < ?w" using assms by simp_all
  have less: "k * ?w < ?n \<longleftrightarrow> k < ?n div ?w + (if 0 < ?n mod ?w then 1 else 0)" for k
  proof
    assume "k * ?w < ?n"
    then have "(k - ?n div ?w) * ?w < ?n mod ?w" unfolding left_diff_distrib using eq by linarith
    moreover have "k - ?n div ?w < 1" if "(k - ?n div ?w) * ?w < ?n mod ?w"
      using that rest assms mult_right_mono [of 1 "k - ?n div ?w" ?w] by fastforce
    moreover have "k - ?n div ?w < 0" if "(k - ?n div ?w) * ?w < ?n mod ?w" "\<not> 0 < ?n mod ?w"
      using that rest assms by (auto simp: mult_less_0_iff)
    ultimately show "k < ?n div ?w + (if 0 < ?n mod ?w then 1 else 0)" by auto
  next
    assume k: "k < ?n div ?w + (if 0 < ?n mod ?w then 1 else 0)"
    show "k * ?w < ?n"
    proof (cases "k < ?n div ?w")
      case True
      then have "(k + 1) * ?w \<le> ?n div ?w * ?w" using assms by (intro mult_right_mono) simp_all
      then show ?thesis using eq rest assms by (simp only: distrib_right)
    next
      case False
      then have "k = ?n div ?w" "0 < ?n mod ?w" using k by (simp_all split: if_splits)
      moreover from this have "k * ?w + ?n mod ?w = ?n" by simp
      ultimately show ?thesis by linarith
    qed
  qed
  show "k * ?w < ?n \<longleftrightarrow> k < TotalPages p"
    using less assms by (cases "?n = 0") (simp_all add: TotalPages_def mult_less_0_iff)
  have "\<not> TotalPages p * ?w < ?n"
    using less [of "TotalPages p"] by (cases "?n = 0") (simp_all add: TotalPages_def)
  then show "?n \<le> TotalPages p * ?w" by simp
qed

text \<open>The rows of the page with a number.\<close>

definition pageRows :: "int \<Rightarrow> int \<Rightarrow> 'a list \<Rightarrow> 'a list" where
  "pageRows perPage n rows =
     (let p = NewPagination n perPage in page (nat (pn_PerPage p)) (nat (Offset p)) rows)"

lemma pages_concat: "concat (map (\<lambda>i. take w (drop (i * w) rows)) [0..<n]) = take (n * w) rows"
proof (induction n)
  case (Suc n)
  have "take (Suc n * w) rows = take (n * w) rows @ take w (drop (n * w) rows)"
    by (simp only: mult_Suc add.commute [of w] take_add)
  then show ?case using Suc by simp
qed simp

lemma pageRows_nat:
  assumes "int n * pn_PerPage (NewPagination 1 pp) < 2 ^ 63"
  shows "pageRows pp (int n + 1) rows =
    take (nat (pn_PerPage (NewPagination 1 pp))) (drop (n * nat (pn_PerPage (NewPagination 1 pp))) rows)"
proof -
  let ?w = "pn_PerPage (NewPagination 1 pp)"
  have w: "1 \<le> ?w" by (rule PerPage_bounds)
  have p: "pn_PerPage (NewPagination (int n + 1) pp) = ?w" "pn_Page (NewPagination (int n + 1) pp) = int n + 1"
    by (simp_all add: NewPagination_def Let_def)
  have "Offset (NewPagination (int n + 1) pp) = int n * ?w"
    unfolding Offset_def p add_diff_cancel_right' using assms mult_nonneg_nonneg [of "int n" ?w] w by (intro int64_id) linarith+
  then show ?thesis
    by (simp add: pageRows_def page_def p Let_def nat_mult_distrib)
qed

text \<open>
  C36: The pages partition a list: the pages from the first to the number of pages, which the response tells, are the whole list in order, and a page
  says that there is a next one exactly when the next page has rows. It holds while the offsets fit into 64 bits.
\<close>

theorem pages_partition:
  assumes "int (length rows) + 100 < 2 ^ 63"
  shows "let p = (NewPagination 1 pp) \<lparr> pn_Total := int (length rows) \<rparr> in
    concat (map (\<lambda>n. pageRows pp n rows) [1..TotalPages p]) = rows \<and>
    (\<forall>n \<in> {1..TotalPages p}.
       mt_HasNext (ToMeta ((NewPagination n pp) \<lparr> pn_Total := int (length rows) \<rparr>)) \<longleftrightarrow> pageRows pp (n + 1) rows \<noteq> [])"
proof -
  let ?w = "pn_PerPage (NewPagination 1 pp)"
  define p where "p = (NewPagination 1 pp) \<lparr> pn_Total := int (length rows) \<rparr>"
  have w: "1 \<le> ?w" "?w \<le> 100" by (rule PerPage_bounds)+
  have p: "pn_Total p = int (length rows)" "pn_PerPage p = ?w" by (simp_all add: p_def)
  note bounds = TotalPages_bounds [of p, unfolded p, OF _ w(1)]
  have "0 \<le> int (length rows) div ?w" using w by (simp add: pos_imp_zdiv_nonneg_iff)
  then have pages: "0 \<le> TotalPages p" by (simp add: TotalPages_def p)
  have small: "int n * ?w < 2 ^ 63" if "int n \<le> TotalPages p" for n
  proof (cases "n = 0")
    case False
    then have "(int n - 1) * ?w < int (length rows)" using bounds(2) [of "int n - 1"] that by simp
    then show ?thesis using assms w(2) by (simp add: left_diff_distrib)
  qed simp
  have row: "pageRows pp (int n + 1) rows = take (nat ?w) (drop (n * nat ?w) rows)" if "int n \<le> TotalPages p" for n
    by (rule pageRows_nat) (rule small [OF that])
  have upto: "[1..TotalPages p] = map (\<lambda>n. int n + 1) [0..<nat (TotalPages p)]"
    using pages by (simp add: list_eq_iff_nth_eq)
  have "map (\<lambda>n. pageRows pp n rows) [1..TotalPages p] = map (\<lambda>n. take (nat ?w) (drop (n * nat ?w) rows)) [0..<nat (TotalPages p)]"
    unfolding upto map_map by (rule map_cong [OF refl]) (simp add: row)
  then have "concat (map (\<lambda>n. pageRows pp n rows) [1..TotalPages p]) = take (nat (TotalPages p) * nat ?w) rows"
    by (simp only: pages_concat)
  moreover have "length rows \<le> nat (TotalPages p) * nat ?w"
    using bounds(1) pages w by (simp add: nat_mult_distrib [symmetric] le_nat_iff)
  ultimately have all: "concat (map (\<lambda>n. pageRows pp n rows) [1..TotalPages p]) = rows"
    by simp
  have next': "mt_HasNext (ToMeta ((NewPagination n pp) \<lparr> pn_Total := int (length rows) \<rparr>)) \<longleftrightarrow> pageRows pp (n + 1) rows \<noteq> []"
    if n: "n \<in> {1..TotalPages p}" for n
  proof -
    have "TotalPages ((NewPagination n pp) \<lparr> pn_Total := int (length rows) \<rparr>) = TotalPages p"
      by (simp add: TotalPages_def p_def NewPagination_def Let_def)
    moreover have "pn_Page (NewPagination n pp) = n" using n by (simp add: NewPagination_def Let_def)
    moreover have "pageRows pp (n + 1) rows = take (nat ?w) (drop (nat n * nat ?w) rows)"
      using row [of "nat n"] n by simp
    moreover have "n < TotalPages p \<longleftrightarrow> nat n * nat ?w < length rows"
      using bounds(2) [of n] n w by (simp add: nat_mult_distrib [symmetric] nat_less_iff)
    ultimately show ?thesis using w by (simp add: ToMeta_def not_le)
  qed
  show ?thesis
    using all next' unfolding p_def [symmetric] Let_def by blast
qed

theorem pages_partition_witness:
  "concat (map (\<lambda>n. pageRows 2 n [10, 20, 30 :: int]) [1..2]) = [10, 20, 30]"
proof -
  have "TotalPages ((NewPagination 1 2) \<lparr> pn_Total := int (length [10, 20, 30 :: int]) \<rparr>) = 2"
    by (simp add: TotalPages_def NewPagination_def)
  then show ?thesis
    using pages_partition [of "[10, 20, 30 :: int]" 2] by (simp only: Let_def) simp
qed

end
