(* ===== verification/Error_Service.thy ===== *)
theory Error_Service
  imports Pagination Environment_Service Error_Groups
begin

text \<open>
  The service of error groups (\<^verbatim>\<open>internal/service/error_service.go\<close>): the agent's batches of errors, the lists, and the changes of status. Parameters stand
  for \<^verbatim>\<open>uuid.Parse\<close>, the operator \<^verbatim>\<open>ILIKE\<close> and the content of S3; a call has the faults, the clock, and the faults, identifiers and clock of every
  transaction.
\<close>

record ErrorEventPayload =
  ep_Signature :: string
  ep_Type :: string
  ep_Message :: string
  ep_Module :: string
  ep_Model :: string
  ep_Timestamp :: int
  ep_Traceback :: string
  ep_Context :: "(int \<times> string) option"

record IngestErrorsRequest =
  ir_EnvID :: string
  ir_Events :: "ErrorEventPayload list"
  ir_SpikeThreshold :: int

record ListErrorGroupsRequest =
  rq_Status :: string
  rq_ErrorType :: string
  rq_Search :: string
  rq_Page :: int
  rq_PerPage :: int

record ErrorGroupResponse =
  gr_ID :: string
  gr_EnvID :: string
  gr_Signature :: string
  gr_ErrorType :: string
  gr_Message :: string
  gr_Module :: "string option"
  gr_Model :: "string option"
  gr_FirstSeen :: int
  gr_LastSeen :: int
  gr_OccurrenceCount :: int
  gr_AffectedUsers :: "int list"
  gr_Status :: string
  gr_ResolvedBy :: "string option"
  gr_ResolvedAt :: "int option"
  gr_RawTraceRef :: "string option"
  gr_CreatedAt :: int

record ErrorGroupDetailResponse = ErrorGroupResponse +
  gr_RawTrace :: "string option"

definition toErrorGroupResponse :: "error_group_row \<Rightarrow> ErrorGroupResponse" where
  "toErrorGroupResponse g =
     \<lparr> gr_ID = eg_ID g, gr_EnvID = eg_EnvID g, gr_Signature = eg_Signature g, gr_ErrorType = eg_ErrorType g, gr_Message = eg_Message g,
       gr_Module = eg_Module g, gr_Model = eg_Model g, gr_FirstSeen = eg_FirstSeen g, gr_LastSeen = eg_LastSeen g,
       gr_OccurrenceCount = eg_OccurrenceCount g, gr_AffectedUsers = eg_AffectedUsers g, gr_Status = eg_Status g,
       gr_ResolvedBy = eg_ResolvedBy g, gr_ResolvedAt = eg_ResolvedAt g, gr_RawTraceRef = eg_RawTraceRef g, gr_CreatedAt = eg_CreatedAt g \<rparr>"

definition detailResponse :: "string option \<Rightarrow> error_group_row \<Rightarrow> ErrorGroupDetailResponse" where
  "detailResponse trace g = ErrorGroupResponse.extend (toErrorGroupResponse g) \<lparr> gr_RawTrace = trace \<rparr>"

record batch_call = service_call +
  bc_event :: "nat \<Rightarrow> faults \<times> (string \<times> string \<times> string) \<times> int"

subsection \<open>Batches\<close>

definition noText :: "string \<Rightarrow> string option" where
  "noText s = (if s = [] then None else Some s)"

definition payloadParams :: "string \<Rightarrow> string \<Rightarrow> int \<Rightarrow> ErrorEventPayload \<Rightarrow> IngestErrorBatchParams" where
  "payloadParams envID tid threshold ev =
     \<lparr> ie_EnvID = envID, ie_TenantID = tid, ie_Signature = ep_Signature ev, ie_ErrorType = ep_Type ev, ie_Message = ep_Message ev,
       ie_Module = noText (ep_Module ev), ie_Model = noText (ep_Model ev), ie_Timestamp = pgTime (ep_Timestamp ev),
       ie_AffectedUIDs = (case ep_Context ev of None \<Rightarrow> [] | Some (uid, _) \<Rightarrow> if uid = 0 then [] else [uid]),
       ie_RawTraceRef = noText (ep_Traceback ev), ie_SpikeThreshold = threshold \<rparr>"

text \<open>Each event is a transaction of its own; the first that fails ends the loop.\<close>

fun ingestEvents ::
  "service \<Rightarrow> (nat \<Rightarrow> faults \<times> (string \<times> string \<times> string) \<times> int) \<Rightarrow> nat \<Rightarrow> IngestErrorBatchParams list \<Rightarrow> 'z error_db_scheme \<Rightarrow>
   (go_error + unit) \<times> 'z error_db_scheme" where
  "ingestEvents sv calls i [] d = (Inr (), d)"
| "ingestEvents sv calls i (arg # args) d =
     (case calls i of (fault, ids, now) \<Rightarrow>
        case IngestErrorBatchTx fault ids now arg d of
          (Inl e, d') \<Rightarrow> (Inl (mapped sv e), d')
        | (Inr _, d') \<Rightarrow> ingestEvents sv calls (i + 1) args d')"

definition IngestBatch ::
  "service \<Rightarrow> (string \<Rightarrow> go_error + string) \<Rightarrow> batch_call \<Rightarrow> string \<Rightarrow> IngestErrorsRequest \<Rightarrow> 'z env_db_scheme \<Rightarrow>
   (go_error + unit) \<times> 'z env_db_scheme" where
  "IngestBatch sv parseUUID c tid req d =
     (case parseUUID (ir_EnvID req) of
        Inl _ \<Rightarrow> (Inl (ApiErr (ErrBadRequest ''env_id must be a valid UUID'')), d)
      | Inr envID \<Rightarrow>
          (case GetEnvironmentByID (sr_fault c) envID tid d of
             Inl e \<Rightarrow> (Inl (mapped sv e), d)
           | Inr _ \<Rightarrow> ingestEvents sv (bc_event c) 0 (map (payloadParams envID tid (ir_SpikeThreshold req)) (ir_Events req)) d))"

subsection \<open>Lists\<close>

text \<open>The statement of a page: the database refuses a negative limit or offset.\<close>

definition paged :: "faults \<Rightarrow> string \<Rightarrow> int \<Rightarrow> int \<Rightarrow> (nat \<Rightarrow> nat \<Rightarrow> go_error + 'a) \<Rightarrow> go_error + 'a" where
  "paged fault name limit offset f =
     (case query fault name (pageInt limit offset [()]) of Inl e \<Rightarrow> Inl e | Inr _ \<Rightarrow> f (nat limit) (nat offset))"

definition Err_ListErrorGroups ::
  "service \<Rightarrow> (string \<Rightarrow> string \<Rightarrow> bool) \<Rightarrow> batch_call \<Rightarrow> string \<Rightarrow> string \<Rightarrow> ListErrorGroupsRequest \<Rightarrow> 'z env_db_scheme \<Rightarrow>
   go_error + ErrorGroupResponse list \<times> Meta" where
  "Err_ListErrorGroups sv ilike c tid envID req d =
     (case GetEnvironmentByID (sr_fault c) envID tid d of
        Inl e \<Rightarrow> Inl (mapped sv e)
      | Inr _ \<Rightarrow>
          let pg = NewPagination (rq_Page req) (rq_PerPage req); fault = sr_fault c;
              limit = int32 (pn_PerPage pg); offset = int32 (Offset pg);
              rows =
                (if rq_Search req \<noteq> []
                 then paged fault ''SearchErrorGroups'' limit offset (\<lambda>l k. SearchErrorGroups ilike fault envID (Some (rq_Search req)) l k d)
                 else if rq_Status req \<noteq> []
                 then paged fault ''ListErrorGroupsByStatus'' limit offset (\<lambda>l k. ListErrorGroupsByStatus fault envID (rq_Status req) l k d)
                 else if rq_ErrorType req \<noteq> []
                 then paged fault ''ListErrorGroupsByType'' limit offset (\<lambda>l k. ListErrorGroupsByType fault envID (rq_ErrorType req) l k d)
                 else paged fault ''ListErrorGroups'' limit offset (\<lambda>l k. ListErrorGroups fault envID l k d))
          in (case rows of
                Inl e \<Rightarrow> Inl (mapped sv e)
              | Inr gs \<Rightarrow>
                  (case CountErrorGroupsByEnv fault envID d of
                     Inl e \<Rightarrow> Inl (mapped sv e)
                   | Inr n \<Rightarrow> Inr (map toErrorGroupResponse gs, ToMeta (pg \<lparr> pn_Total := int n \<rparr>)))))"

text \<open>\<open>s3\<close> is the content of the store, if there is one.\<close>

definition Err_GetErrorGroup ::
  "service \<Rightarrow> (string \<Rightarrow> go_error + string) option \<Rightarrow> batch_call \<Rightarrow> string \<Rightarrow> string \<Rightarrow> string \<Rightarrow> bool \<Rightarrow> 'z env_db_scheme \<Rightarrow>
   go_error + ErrorGroupDetailResponse" where
  "Err_GetErrorGroup sv s3 c tid envID gid includeTrace d =
     (case GetEnvironmentByID (sr_fault c) envID tid d of
        Inl e \<Rightarrow> Inl (mapped sv e)
      | Inr _ \<Rightarrow>
          (case GetErrorGroupByID (sr_fault c) gid envID d of
             Inl e \<Rightarrow> Inl (mapped sv e)
           | Inr g \<Rightarrow>
               Inr (detailResponse
                 (case (eg_RawTraceRef g, s3) of
                    (Some ref, Some store) \<Rightarrow> if includeTrace then (case store ref of Inl _ \<Rightarrow> None | Inr content \<Rightarrow> Some content) else None
                  | _ \<Rightarrow> None) g)))"

definition Err_GetErrorGroupBySignature ::
  "service \<Rightarrow> batch_call \<Rightarrow> string \<Rightarrow> string \<Rightarrow> string \<Rightarrow> 'z env_db_scheme \<Rightarrow> go_error + ErrorGroupDetailResponse" where
  "Err_GetErrorGroupBySignature sv c tid envID sig d =
     (case GetEnvironmentByID (sr_fault c) envID tid d of
        Inl e \<Rightarrow> Inl (mapped sv e)
      | Inr _ \<Rightarrow>
          (case GetErrorGroupBySignature (sr_fault c) envID sig d of
             Inl e \<Rightarrow> Inl (mapped sv e)
           | Inr g \<Rightarrow> Inr (detailResponse None g)))"

definition UpdateErrorGroupStatus ::
  "service \<Rightarrow> batch_call \<Rightarrow> string \<Rightarrow> string \<Rightarrow> string \<Rightarrow> string \<Rightarrow> string \<Rightarrow> 'z env_db_scheme \<Rightarrow>
   (go_error + ErrorGroupDetailResponse) \<times> 'z env_db_scheme" where
  "UpdateErrorGroupStatus sv c tid envID gid uid status d =
     (case GetEnvironmentByID (sr_fault c) envID tid d of
        Inl e \<Rightarrow> (Inl (mapped sv e), d)
      | Inr _ \<Rightarrow>
          if status \<notin> {''acknowledged'', ''resolved'', ''open''}
          then (Inl (ApiErr (ErrBadRequest ''status must be one of: open, acknowledged, resolved'')), d)
          else
            case (if status = ''acknowledged'' then AcknowledgeErrorGroup (sr_fault c) gid envID d
                  else if status = ''resolved'' then ResolveErrorGroup (sr_fault c) (sr_now c) gid (Some uid) envID d
                  else ReopenErrorGroup (sr_fault c) gid envID d) of
              (Inl e, d') \<Rightarrow> (Inl (mapped sv e), d')
            | (Inr g, d') \<Rightarrow> (Inr (detailResponse None g), d'))"

subsection \<open>What a batch records\<close>

lemma ingestEvents_prefix:
  assumes "groups_ok (d, hist)" "ingestEvents sv calls i args d = (res, d')"
  shows "\<exists>k \<le> length args. groups_ok (d', hist @ take k args) \<and> (res = Inr () \<longleftrightarrow> k = length args)"
  using assms
proof (induction args arbitrary: d hist i)
  case (Cons arg args)
  obtain fault ids now where call: "calls i = (fault, ids, now)" by (cases "calls i") auto
  obtain x d1 where tx: "IngestErrorBatchTx fault ids now arg d = (x, d1)" by fastforce
  have step: "groups_ok (errorStep (Record fault ids now arg) (d, hist))"
    using Cons.prems(1) by (rule Record_ok)
  show ?case
  proof (cases x)
    case (Inl e)
    then show ?thesis
      using Cons.prems(2) step call tx by (intro exI [of _ 0]) auto
  next
    case (Inr u)
    then have "groups_ok (d1, hist @ [arg])" using step tx by simp
    moreover have "ingestEvents sv calls (i + 1) args d1 = (res, d')" using Cons.prems(2) call tx Inr by simp
    ultimately obtain k where "k \<le> length args" "groups_ok (d', (hist @ [arg]) @ take k args)" "res = Inr () \<longleftrightarrow> k = length args"
      using Cons.IH by blast
    then show ?thesis by (intro exI [of _ "k + 1"]) simp
  qed
qed simp

text \<open>
  C35: A batch of an agent is recorded event by event: the groups sum up what had been recorded before and the first \<open>k\<close> events of the batch, all of
  them exactly when the agent is told so; after an error the events before the one that failed stay recorded, and a batch that is refused records none.
\<close>

theorem batch_records_prefix:
  assumes ok: "groups_ok (d, hist)" and batch: "IngestBatch sv parseUUID c tid req d = (res, d')"
  shows "\<exists>k envID. k \<le> length (ir_Events req) \<and>
    groups_ok (d', hist @ map (payloadParams envID tid (ir_SpikeThreshold req)) (take k (ir_Events req))) \<and>
    (res = Inr () \<longrightarrow> k = length (ir_Events req) \<and> parseUUID (ir_EnvID req) = Inr envID \<and>
       (\<exists>e \<in> set (nb_envs d). en_ID e = envID \<and> en_TenantID e = tid)) \<and>
    (res \<noteq> Inr () \<longrightarrow> k < length (ir_Events req) \<or> d' = d)"
proof (cases "\<exists>envID env. parseUUID (ir_EnvID req) = Inr envID \<and> GetEnvironmentByID (sr_fault c) envID tid d = Inr env")
  case True
  then obtain envID env where envID: "parseUUID (ir_EnvID req) = Inr envID" "GetEnvironmentByID (sr_fault c) envID tid d = Inr env" by blast
  let ?args = "map (payloadParams envID tid (ir_SpikeThreshold req)) (ir_Events req)"
  have "ingestEvents sv (bc_event c) 0 ?args d = (res, d')"
    using batch envID by (simp add: IngestBatch_def)
  from ingestEvents_prefix [OF ok this] obtain k where k: "k \<le> length ?args" "groups_ok (d', hist @ take k ?args)"
    "res = Inr () \<longleftrightarrow> k = length ?args" by blast
  have "env \<in> set (filter (envIs envID tid) (nb_envs d))"
    using envID(2) by (auto simp: GetEnvironmentByID_def query_def limit1_def split: option.splits if_splits intro!: hd_in_set simp del: set_filter)
  then show ?thesis
    using k envID by (intro exI [of _ k] exI [of _ envID]) (auto simp: take_map envIs_def)
next
  case False
  then have "d' = d" "res \<noteq> Inr ()"
    using batch by (auto simp: IngestBatch_def split: sum.splits)
  then show ?thesis
    using ok by (intro exI [of _ 0]) simp
qed

definition exampleBatch :: IngestErrorsRequest where
  "exampleBatch =
     (let ev = (\<lambda>sig. \<lparr> ep_Signature = sig, ep_Type = ''Error'', ep_Message = ''boom'', ep_Module = [], ep_Model = [], ep_Timestamp = 5000,
                         ep_Traceback = [], ep_Context = Some (7, []) \<rparr>)
      in \<lparr> ir_EnvID = ''e1'', ir_Events = [ev ''a'', ev ''b''], ir_SpikeThreshold = 0 \<rparr>)"

text \<open>The transaction of the second event cannot begin.\<close>

definition exampleBatchCall :: batch_call where
  "exampleBatchCall =
     \<lparr> sr_fault = \<lambda>_. None, sr_ids = \<lambda>_. [], sr_now = 9,
       bc_event = (\<lambda>i. (\<lambda>name. if i = 1 \<and> name = ''Begin'' then Some DeadlineExceeded else None, (if i = 0 then ''g1'' else ''g2'', [], []), 9)) \<rparr>"

definition plainService :: service where
  "plainService = \<lparr> sv_uni = \<lparr> is_print = \<lambda>_. True, to_lower = \<lambda>x. x \<rparr>, sv_title = (\<lambda>x. x), sv_collate = length \<rparr>"

lemma example_batch:
  "IngestBatch plainService Inr exampleBatchCall ''t1'' exampleBatch oneEnvironment =
     (fst (IngestBatch plainService Inr exampleBatchCall ''t1'' exampleBatch oneEnvironment),
      snd (IngestBatch plainService Inr exampleBatchCall ''t1'' exampleBatch oneEnvironment))"
  by simp

theorem batch_records_prefix_witness:
  "\<exists>k envID. k \<le> length (ir_Events exampleBatch) \<and>
     groups_ok (snd (IngestBatch plainService Inr exampleBatchCall ''t1'' exampleBatch oneEnvironment),
       map (payloadParams envID ''t1'' 0) (take k (ir_Events exampleBatch)))"
proof -
  have "groups_ok (oneEnvironment, [])" by (simp add: groups_ok_def oneEnvironment_def)
  moreover have "ir_SpikeThreshold exampleBatch = 0" by (simp add: exampleBatch_def Let_def)
  ultimately show ?thesis
    using batch_records_prefix [of oneEnvironment "[]", OF _ example_batch] by fastforce
qed

end
