(* ===== verification/Alert_Service.thy ===== *)
theory Alert_Service
  imports Environment_Service
begin

text \<open>
  The services that show and acknowledge alerts (\<^verbatim>\<open>internal/service/alert_service.go\<close>), keep the channels of notifications (\<^verbatim>\<open>notification_service.go\<close>)
  and show the audit log (\<^verbatim>\<open>audit_service.go\<close>, \<^verbatim>\<open>internal/dto/audit_dto.go\<close>). Metadata stay JSON values.
\<close>

subsection \<open>Alerts\<close>

record ListAlertsRequest =
  la_Limit :: int
  la_Offset :: int
  la_Unacknowledged :: bool

record AlertResponse =
  ar_ID :: string
  ar_EnvID :: string
  ar_Type :: string
  ar_Severity :: string
  ar_Message :: string
  ar_Metadata :: json
  ar_Acknowledged :: bool
  ar_AcknowledgedBy :: "string option"
  ar_AcknowledgedAt :: "int option"
  ar_CreatedAt :: int

definition toAlertResponse :: "alert_row \<Rightarrow> AlertResponse" where
  "toAlertResponse a =
     \<lparr> ar_ID = al_ID a, ar_EnvID = al_EnvID a, ar_Type = al_Type a, ar_Severity = al_Severity a, ar_Message = al_Message a,
       ar_Metadata = al_Metadata a, ar_Acknowledged = al_Acknowledged a, ar_AcknowledgedBy = al_AcknowledgedBy a,
       ar_AcknowledgedAt = al_AcknowledgedAt a, ar_CreatedAt = al_CreatedAt a \<rparr>"

definition clampLimit :: "int \<Rightarrow> int" where
  "clampLimit n = (if n \<le> 0 \<or> 200 < n then 50 else n)"

definition Alerts_List ::
  "service \<Rightarrow> service_call \<Rightarrow> string \<Rightarrow> string \<Rightarrow> ListAlertsRequest \<Rightarrow> 'z env_db_scheme \<Rightarrow> go_error + AlertResponse list \<times> nat" where
  "Alerts_List sv c tid envID req d =
     (case GetEnvironmentByID (sr_fault c) envID tid d of
        Inl e \<Rightarrow> Inl (mapped sv e)
      | Inr _ \<Rightarrow>
          (case CountUnacknowledgedAlerts (sr_fault c) envID d of
             Inl e \<Rightarrow> Inl (mapped sv e)
           | Inr n \<Rightarrow>
               (case (if la_Unacknowledged req then ListUnacknowledgedAlerts (sr_fault c) envID (nat (clampLimit (la_Limit req))) d
                      else ListAlerts (sr_fault c) envID (nat (clampLimit (la_Limit req))) (nat (la_Offset req)) d) of
                  Inl e \<Rightarrow> Inl (mapped sv e)
                | Inr rows \<Rightarrow> Inr (map toAlertResponse rows, n))))"

definition Alerts_GetByID :: "service \<Rightarrow> service_call \<Rightarrow> string \<Rightarrow> string \<Rightarrow> string \<Rightarrow> 'z env_db_scheme \<Rightarrow> go_error + AlertResponse" where
  "Alerts_GetByID sv c tid envID aid d =
     (case GetEnvironmentByID (sr_fault c) envID tid d of
        Inl e \<Rightarrow> Inl (mapped sv e)
      | Inr _ \<Rightarrow> (case GetAlertByID (sr_fault c) aid envID d of Inl e \<Rightarrow> Inl (mapped sv e) | Inr a \<Rightarrow> Inr (toAlertResponse a)))"

definition Alerts_Acknowledge ::
  "service \<Rightarrow> service_call \<Rightarrow> string \<Rightarrow> string \<Rightarrow> string \<Rightarrow> string \<Rightarrow> 'z env_db_scheme \<Rightarrow> (go_error + AlertResponse) \<times> 'z env_db_scheme" where
  "Alerts_Acknowledge sv c tid envID aid uid d =
     (case GetEnvironmentByID (sr_fault c) envID tid d of
        Inl e \<Rightarrow> (Inl (mapped sv e), d)
      | Inr _ \<Rightarrow>
          (case AcknowledgeAlert (sr_fault c) (sr_now c) aid (Some uid) envID d of
             (Inl e, d') \<Rightarrow> (Inl (mapped sv e), d')
           | (Inr a, d') \<Rightarrow> (Inr (toAlertResponse a), d')))"

definition Alerts_AcknowledgeAll ::
  "service \<Rightarrow> service_call \<Rightarrow> string \<Rightarrow> string \<Rightarrow> string \<Rightarrow> 'z env_db_scheme \<Rightarrow> (go_error + nat) \<times> 'z env_db_scheme" where
  "Alerts_AcknowledgeAll sv c tid envID uid d =
     (case GetEnvironmentByID (sr_fault c) envID tid d of
        Inl e \<Rightarrow> (Inl (mapped sv e), d)
      | Inr _ \<Rightarrow>
          (case AcknowledgeAllAlerts (sr_fault c) (sr_now c) envID (Some uid) d of
             (Inl e, d') \<Rightarrow> (Inl (mapped sv e), d')
           | (Inr n, d') \<Rightarrow> (Inr n, d')))"

definition Alerts_CountUnacknowledged :: "service \<Rightarrow> service_call \<Rightarrow> string \<Rightarrow> string \<Rightarrow> 'z env_db_scheme \<Rightarrow> go_error + nat" where
  "Alerts_CountUnacknowledged sv c tid envID d =
     (case GetEnvironmentByID (sr_fault c) envID tid d of
        Inl e \<Rightarrow> Inl (mapped sv e)
      | Inr _ \<Rightarrow> (case CountUnacknowledgedAlerts (sr_fault c) envID d of Inl e \<Rightarrow> Inl (mapped sv e) | Inr n \<Rightarrow> Inr n))"

subsection \<open>Channels of notifications\<close>

record CreateNotificationChannelRequest =
  cn_Name :: string
  cn_Type :: string
  cn_Config :: json
  cn_IsActive :: "bool option"

record UpdateNotificationChannelRequest =
  un_Name :: string
  un_Type :: string
  un_Config :: json
  un_IsActive :: bool

record NotificationChannelResponse =
  cr_ID :: string
  cr_TenantID :: string
  cr_Name :: string
  cr_Type :: string
  cr_Config :: json
  cr_IsActive :: bool
  cr_CreatedAt :: int

definition MapNotificationChannel :: "channel_row \<Rightarrow> NotificationChannelResponse" where
  "MapNotificationChannel ch =
     \<lparr> cr_ID = nc_ID ch, cr_TenantID = nc_TenantID ch, cr_Name = nc_Name ch, cr_Type = nc_Type ch, cr_Config = nc_Config ch,
       cr_IsActive = nc_IsActive ch, cr_CreatedAt = nc_CreatedAt ch \<rparr>"

definition newChannel :: "service_call \<Rightarrow> string \<Rightarrow> CreateNotificationChannelRequest \<Rightarrow> channel_row" where
  "newChannel c tid req =
     \<lparr> nc_ID = sr_ids c [], nc_TenantID = tid, nc_Name = cn_Name req, nc_Type = cn_Type req, nc_Config = cn_Config req,
       nc_IsActive = (case cn_IsActive req of None \<Rightarrow> True | Some b \<Rightarrow> b), nc_CreatedAt = sr_now c \<rparr>"

definition Channel_Create ::
  "service \<Rightarrow> service_call \<Rightarrow> string \<Rightarrow> CreateNotificationChannelRequest \<Rightarrow> 'z env_db_scheme \<Rightarrow>
   (go_error + NotificationChannelResponse) \<times> 'z env_db_scheme" where
  "Channel_Create sv c tid req d =
     (case CreateNotificationChannel (sr_fault c) (nb_tenants d) (newChannel c tid req) d of
        (Inl e, d') \<Rightarrow> (Inl (mapped sv e), d')
      | (Inr ch, d') \<Rightarrow> (Inr (MapNotificationChannel ch), d'))"

definition Channel_List :: "service \<Rightarrow> service_call \<Rightarrow> string \<Rightarrow> 'z env_db_scheme \<Rightarrow> go_error + NotificationChannelResponse list \<times> nat" where
  "Channel_List sv c tid d =
     (case ListNotificationChannels (sr_fault c) tid d of
        Inl e \<Rightarrow> Inl (mapped sv e)
      | Inr rows \<Rightarrow> Inr (map MapNotificationChannel rows, length rows))"

definition Channel_Get :: "service \<Rightarrow> service_call \<Rightarrow> string \<Rightarrow> string \<Rightarrow> 'z env_db_scheme \<Rightarrow> go_error + NotificationChannelResponse" where
  "Channel_Get sv c tid cid d =
     (case GetNotificationChannel (sr_fault c) cid tid d of Inl e \<Rightarrow> Inl (mapped sv e) | Inr ch \<Rightarrow> Inr (MapNotificationChannel ch))"

definition Channel_Update ::
  "service \<Rightarrow> service_call \<Rightarrow> string \<Rightarrow> string \<Rightarrow> UpdateNotificationChannelRequest \<Rightarrow> 'z env_db_scheme \<Rightarrow>
   (go_error + NotificationChannelResponse) \<times> 'z env_db_scheme" where
  "Channel_Update sv c tid cid req d =
     (case UpdateNotificationChannel (sr_fault c) cid tid (un_Name req) (un_Type req) (un_Config req) (un_IsActive req) d of
        (Inl e, d') \<Rightarrow> (Inl (mapped sv e), d')
      | (Inr ch, d') \<Rightarrow> (Inr (MapNotificationChannel ch), d'))"

definition Channel_Delete :: "service \<Rightarrow> service_call \<Rightarrow> string \<Rightarrow> string \<Rightarrow> 'z env_db_scheme \<Rightarrow> (go_error + unit) \<times> 'z env_db_scheme" where
  "Channel_Delete sv c tid cid d =
     (case DeleteNotificationChannel (sr_fault c) cid tid d of
        (Some e, d') \<Rightarrow> (Inl (mapped sv e), d')
      | (None, d') \<Rightarrow> (Inr (), d'))"

subsection \<open>The audit log\<close>

record AuditLogResponse =
  au_ID :: string
  au_TenantID :: string
  au_UserID :: "string option"
  au_IPAddress :: "string option"
  au_Action :: string
  au_Resource :: "string option"
  au_ResourceID :: "string option"
  au_StatusCode :: "int option"
  au_Before :: "json option"
  au_After :: "json option"
  au_Metadata :: json
  au_CreatedAt :: int

text \<open>The status in the metadata; \<^verbatim>\<open>null\<close> leaves the integer zero.\<close>

definition statusOf :: "json \<Rightarrow> int option" where
  "statusOf meta =
     (case meta of
        JObject ms \<Rightarrow>
          (case map_of ms ''status_code'' of
             None \<Rightarrow> None
           | Some raw \<Rightarrow> (case setInt 64 (\<lambda>x _. x) raw 0 of (None, code) \<Rightarrow> Some code | (Some _, _) \<Rightarrow> None))
      | _ \<Rightarrow> None)"

definition MapAuditLog :: "log_row \<Rightarrow> AuditLogResponse" where
  "MapAuditLog r =
     \<lparr> au_ID = lg_ID r, au_TenantID = lg_TenantID r, au_UserID = lg_UserID r, au_IPAddress = lg_IpAddress r, au_Action = lg_Action r,
       au_Resource = lg_Resource r, au_ResourceID = lg_ResourceID r, au_StatusCode = statusOf (lg_Metadata r), au_Before = lg_Before r,
       au_After = lg_After r, au_Metadata = lg_Metadata r, au_CreatedAt = lg_CreatedAt r \<rparr>"

record AuditLogListResponse =
  ax_Items :: "AuditLogResponse list"
  ax_Total :: nat
  ax_Limit :: int

definition auditPage :: "int \<Rightarrow> log_row list \<Rightarrow> AuditLogListResponse" where
  "auditPage limit rows = \<lparr> ax_Items = map MapAuditLog rows, ax_Total = length rows, ax_Limit = limit \<rparr>"

definition Audit_List :: "service_call \<Rightarrow> string \<Rightarrow> int \<Rightarrow> int \<Rightarrow> 'z env_db_scheme \<Rightarrow> go_error + AuditLogListResponse" where
  "Audit_List c tid limit offset d =
     (case ListAuditLogs (sr_fault c) tid (clampLimit limit) offset d of
        Inl e \<Rightarrow> Inl e
      | Inr rows \<Rightarrow>
          (case CountAuditLogs (sr_fault c) tid d of
             Inl e \<Rightarrow> Inl e
           | Inr n \<Rightarrow> Inr ((auditPage (clampLimit limit) rows) \<lparr> ax_Total := n \<rparr>)))"

definition filteredLogs :: "int \<Rightarrow> go_error + log_row list \<Rightarrow> go_error + AuditLogListResponse" where
  "filteredLogs limit res = (case res of Inl e \<Rightarrow> Inl e | Inr rows \<Rightarrow> Inr (auditPage (clampLimit limit) rows))"

definition Audit_ListByAction :: "service_call \<Rightarrow> string \<Rightarrow> string \<Rightarrow> int \<Rightarrow> int \<Rightarrow> 'z env_db_scheme \<Rightarrow> go_error + AuditLogListResponse" where
  "Audit_ListByAction c tid act limit offset d = filteredLogs limit (ListAuditLogsByAction (sr_fault c) tid act (clampLimit limit) offset d)"

definition Audit_ListByUser :: "service_call \<Rightarrow> string \<Rightarrow> string \<Rightarrow> int \<Rightarrow> int \<Rightarrow> 'z env_db_scheme \<Rightarrow> go_error + AuditLogListResponse" where
  "Audit_ListByUser c tid uid limit offset d = filteredLogs limit (ListAuditLogsByUser (sr_fault c) tid uid (clampLimit limit) offset d)"

definition Audit_ListByResource ::
  "service_call \<Rightarrow> string \<Rightarrow> string \<Rightarrow> string \<Rightarrow> int \<Rightarrow> 'z env_db_scheme \<Rightarrow> go_error + AuditLogListResponse" where
  "Audit_ListByResource c tid res rid limit d = filteredLogs limit (ListAuditLogsByResource (sr_fault c) tid res rid (clampLimit limit) d)"

definition Audit_ListBetween ::
  "service_call \<Rightarrow> string \<Rightarrow> int \<Rightarrow> int \<Rightarrow> int \<Rightarrow> int \<Rightarrow> 'z env_db_scheme \<Rightarrow> go_error + AuditLogListResponse" where
  "Audit_ListBetween c tid since until limit offset d =
     filteredLogs limit (ListAuditLogsBetween (sr_fault c) tid since until (clampLimit limit) offset d)"

subsection \<open>Acknowledging\<close>

text \<open>The number reported is that of the alerts that were open; none is open afterwards, and no alert of another environment changes.\<close>

lemma acknowledgeAll_counts:
  assumes "Alerts_AcknowledgeAll sv c tid envID uid d = (Inr n, d')"
  shows "n = length (filter (\<lambda>a. al_EnvID a = envID \<and> \<not> al_Acknowledged a) (ab_alerts d))"
    "filter (\<lambda>a. al_EnvID a = envID \<and> \<not> al_Acknowledged a) (ab_alerts d') = []"
    "filter (\<lambda>a. al_EnvID a \<noteq> envID) (ab_alerts d') = filter (\<lambda>a. al_EnvID a \<noteq> envID) (ab_alerts d)"
proof -
  obtain x d1 where all: "AcknowledgeAllAlerts (sr_fault c) (sr_now c) envID (Some uid) d = (x, d1)" by fastforce
  have same: "x = Inr n" "d1 = d'"
    using assms unfolding Alerts_AcknowledgeAll_def all by (cases x; simp split: sum.split_asm)+
  have "sr_fault c ''AcknowledgeAllAlerts'' = None"
    using all same(1) unfolding AcknowledgeAllAlerts_def Let_def by (cases "sr_fault c ''AcknowledgeAllAlerts''") simp_all
  note result = all [unfolded same AcknowledgeAllAlerts_def Let_def this option.case prod.inject sum.inject]
  have n: "n = length (filter (\<lambda>a. al_EnvID a = envID \<and> \<not> al_Acknowledged a) (ab_alerts d))"
    by (rule conjunct1 [OF result, symmetric])
  have alerts: "ab_alerts d' = map (\<lambda>a. if al_EnvID a = envID \<and> \<not> al_Acknowledged a then acknowledged (sr_now c) (Some uid) a else a) (ab_alerts d)"
    unfolding conjunct2 [OF result, symmetric] by simp
  show "n = length (filter (\<lambda>a. al_EnvID a = envID \<and> \<not> al_Acknowledged a) (ab_alerts d))" by (rule n)
  show "filter (\<lambda>a. al_EnvID a = envID \<and> \<not> al_Acknowledged a) (ab_alerts d') = []"
    unfolding alerts filter_empty_conv set_map by (intro ballI, elim imageE) (simp add: acknowledged_def)
  have "filter (\<lambda>a. al_EnvID a \<noteq> envID) (map (\<lambda>a. if al_EnvID a = envID \<and> \<not> al_Acknowledged a then acknowledged now who a else a) as) =
      filter (\<lambda>a. al_EnvID a \<noteq> envID) as" for now who as
    by (induction as) (simp_all add: acknowledged_def)
  then show "filter (\<lambda>a. al_EnvID a \<noteq> envID) (ab_alerts d') = filter (\<lambda>a. al_EnvID a \<noteq> envID) (ab_alerts d)"
    unfolding alerts by blast
qed

end
