(* ===== verification/Spec2Isabelle.thy ===== *)
theory Spec2Isabelle
  imports Acl_Trace Domain_Roundtrip Aggregator_Correct Migration_Scan Http_Rate_Limit Log_Hook Batch_Sender
    Profiler_Waterfall Auth_Lockout Alert_Worker Notification_Worker Error_Groups Budget_Overhead
    Ingest_Correct Retention_Worker Env_Security Error_Service Alert_Service
begin

text \<open>
  Verification of the OdooDevTools backend, a server that explains and measures Odoo installations and an
  agent that runs beside each installation and reports to it (Go sources under \<^verbatim>\<open>internal/\<close>).

  \<^bold>\<open>The program's parts.\<close> The server explains why a user may or may not access a record: it takes the schema
  snapshot of an installation and runs a pipeline of five stages, the last of which parses and
  evaluates Odoo domain expressions (\<^verbatim>\<open>internal/acl\<close>, \<^verbatim>\<open>internal/service/acl_service.go\<close>). It compares a snapshot with the
  deprecations between two Odoo versions (\<^verbatim>\<open>internal/migration\<close>), shows profiler recordings as a waterfall and
  a chain of computed fields (\<^verbatim>\<open>internal/service/profiler_service.go\<close>), and limits requests
  (\<^verbatim>\<open>internal/middleware\<close>). Its account service (\<^verbatim>\<open>internal/service/auth_service.go\<close>) keeps users and sessions in PostgreSQL
  (\<^verbatim>\<open>db/sqlc\<close>) and sessions, revoked tokens and login attempts in Redis (\<^verbatim>\<open>internal/cache\<close>). The agent samples profiler events, aggregates them into batches and sends them under a rate
  limit (\<^verbatim>\<open>internal/agent/sampler\<close>, \<^verbatim>\<open>aggregator\<close>, \<^verbatim>\<open>transport\<close>), and collects errors from Odoo's log table and log file into
  a ring buffer from which they are posted (\<^verbatim>\<open>internal/agent/errors\<close>, \<^verbatim>\<open>hook\<close>, \<^verbatim>\<open>ringbuf\<close>, \<^verbatim>\<open>collector\<close>).

  \<^bold>\<open>How the code is modelled.\<close> A struct is a record, a tagged choice a datatype, a function of the source a function of
  the same name (with the receiver's name in front where two would clash); a loop is a recursive
  function with the loop's variables as arguments. An \<^verbatim>\<open>error\<close> result is the left of a sum and carries the text of
  the message; a possible panic is \<open>None\<close>. A string is its list of bytes, an \<^verbatim>\<open>int\<close> an integer, kept in 64 bits where
  the code can overflow; a \<^verbatim>\<open>float64\<close> is a rational with explicit rounding; a map is an association
  list. Code under a mutex is atomic, so its operations are functions on the state; where several
  goroutines interleave, the state machine is an inductive step relation and the properties hold of
  all reachable states. What lies outside the repository is a parameter of the definitions that use it: the
  Unicode tables, the database, \<^verbatim>\<open>encoding/json\<close> and \<^verbatim>\<open>encoding/xml\<close>, SHA-256, gzip, the clock, the random draw, the answers of
  the network, Redis, the token library, \<^verbatim>\<open>bcrypt\<close>, and \<^verbatim>\<open>sort.Slice\<close>, which is not stable. A theorem that relies on one of them says what it
  assumes of it.

  \<^bold>\<open>Theories, bottom up.\<close>

  \<^item> The language and its library. \<^verbatim>\<open>Go_Prelude\<close>: results and maps. \<^verbatim>\<open>Go_Strings\<close>, \<^verbatim>\<open>Go_Text\<close>: decimal numbers, UTF-8, splitting,
    searching, replacing. \<^verbatim>\<open>Go_Float\<close>: rounding, arithmetic, reading and printing of floats. \<^verbatim>\<open>Go_Value\<close>:
    values of type \<^verbatim>\<open>any\<close> and formatted messages. \<^verbatim>\<open>Go_Regexp\<close>: the backtracking semantics of \<^verbatim>\<open>regexp\<close> with
    leftmost-first matching. \<^verbatim>\<open>Go_Time\<close>: the civil calendar and the date layouts the
    agent reads and the server stores.
  \<^item> Access tracing. \<^verbatim>\<open>Acl_Types\<close> (\<^verbatim>\<open>types.go\<close>); the stages \<^verbatim>\<open>Acl_User\<close>, \<^verbatim>\<open>Acl_Groups\<close>, \<^verbatim>\<open>Acl_Model\<close>, \<^verbatim>\<open>Acl_Rules\<close>, \<^verbatim>\<open>Acl_Domain\<close>
    (\<^verbatim>\<open>user_resolver.go\<close> to \<^verbatim>\<open>domain_evaluator.go\<close>), \<^verbatim>\<open>Acl_Like\<close> and \<^verbatim>\<open>Acl_Eval\<close> with the theorems on pattern
    matching and evaluation; \<^verbatim>\<open>Acl_Suggestion\<close> (\<^verbatim>\<open>suggestion.go\<close>); \<^verbatim>\<open>Acl_Pipeline\<close> (\<^verbatim>\<open>acl_service.go\<close>). \<^verbatim>\<open>Acl_Stage\<close> states what every
    stage promises as a locale and interprets it for each stage. \<^verbatim>\<open>Acl_Decision\<close> is the abstract
    access decision, written without the implementation's functions, and \<^verbatim>\<open>Acl_Trace\<close> proves that
    the pipeline implements it, never panics, fails only on malformed identifiers, records its stages
    in order and suggests something exactly when it denies.
  \<^item> Odoo domains. \<^verbatim>\<open>Domain_Lexer\<close>, \<^verbatim>\<open>Domain_Parser\<close> (\<^verbatim>\<open>internal/acl/domain\<close>), \<^verbatim>\<open>Domain_Trees\<close> (the tree builder against
    prefix notation) and \<^verbatim>\<open>Domain_Roundtrip\<close> (printing and parsing back).
  \<^item> The agent. \<^verbatim>\<open>Ring_Buffer\<close> against a bounded queue, through a locale that the error pipeline uses;
    \<^verbatim>\<open>Sampler\<close>; \<^verbatim>\<open>Aggregator\<close> and \<^verbatim>\<open>Aggregator_Correct\<close> (the batch is the summary of its window; invariants of the
    select loop); \<^verbatim>\<open>Rate_Limiter\<close> (limits for one sender, bounded overshoot for many, every interleaving
    of the atomic accesses); \<^verbatim>\<open>Batch_Sender\<close> (retries); \<^verbatim>\<open>Odoo_Rpc\<close> (paging); \<^verbatim>\<open>Error_Signature\<close> (exactly when the
    normalization returns); \<^verbatim>\<open>Error_Pipeline\<close> (no error is invented, duplicated or, within the buffer,
    lost, and all can be delivered); \<^verbatim>\<open>Log_Hook\<close> (the streaming accumulator is a segmentation).
  \<^item> The server's other services. \<^verbatim>\<open>Migration_Rules\<close> (the complete table of \<^verbatim>\<open>deprecations.go\<close>) and \<^verbatim>\<open>Migration_Scan\<close> (\<^verbatim>\<open>scanner.go\<close>);
    \<^verbatim>\<open>Compute_Chain\<close> and \<^verbatim>\<open>Profiler_Waterfall\<close> (what is shown agrees with the events stored); \<^verbatim>\<open>Http_Rate_Limit\<close> (the fixed-window
    contract under every load).
  \<^item> Accounts. \<^verbatim>\<open>Api_Error\<close> (\<^verbatim>\<open>internal/api/error.go\<close>, \<^verbatim>\<open>error_pg.go\<close>: the response to a database error never shows its text);
    \<^verbatim>\<open>Redis_Cache\<close> (\<^verbatim>\<open>internal/cache/redis.go\<close>) against what Redis documents of its commands; \<^verbatim>\<open>Auth_Token\<close> (\<^verbatim>\<open>internal/token\<close>);
    \<^verbatim>\<open>Auth_Store\<close> (the SQL of users, tenants and sessions with its constraints); \<^verbatim>\<open>Auth_Service\<close> (every operation of
    \<^verbatim>\<open>auth_service.go\<close>); \<^verbatim>\<open>Auth_Sessions\<close> and \<^verbatim>\<open>Auth_Lockout\<close>: over every sequence of requests a refresh token works once, a
    revoked token is rejected until it expires and a locked account stays locked, through a locale of
    relations between states.
  \<^item> Workers (\<^verbatim>\<open>internal/worker\<close>). \<^verbatim>\<open>Sql_Store\<close>: statements that can fail and transactions, for the tables of any component.
    \<^verbatim>\<open>Go_Json\<close>: JSON values and their decoding into structs. \<^verbatim>\<open>Stream_Consumer\<close> (\<^verbatim>\<open>consumer.go\<close>): a consumer group under every
    interleaving. \<^verbatim>\<open>Alert_Store\<close> (the SQL of alerts, channels and deliveries; raising an alert is all or nothing),
    \<^verbatim>\<open>Alert_Worker\<close> (\<^verbatim>\<open>alert.go\<close>: alerts of one breach are a window apart), \<^verbatim>\<open>Notification_Worker\<close> (\<^verbatim>\<open>notification.go\<close>: how
    often a delivery is sent).
  \<^item> Errors and budgets on the server. \<^verbatim>\<open>Error_Store\<close> (the SQL of error groups and the transaction that records an error) and
    \<^verbatim>\<open>Error_Groups\<close>: the table sums up the errors recorded, and a resolved error that comes back raises an alert. \<^verbatim>\<open>Budget_Store\<close>,
    \<^verbatim>\<open>Budget_Service\<close> (\<^verbatim>\<open>budget_service.go\<close>) and \<^verbatim>\<open>Budget_Overhead\<close>: the breaches reported are the overruns, and the breakdown is shown as
    computed.
  \<^item> What the agents send. \<^verbatim>\<open>Telemetry_Store\<close> (the SQL of ORM statistics, N+1 patterns, recordings, snapshots, scans and audit logs),
    \<^verbatim>\<open>Ingest_Worker\<close> (\<^verbatim>\<open>ingest.go\<close>: a batch becomes error groups with traces in S3, statistics, a recording and budget samples) and
    \<^verbatim>\<open>Ingest_Correct\<close>: over every sequence of messages, faults included, the error groups sum up the events recorded.
    \<^verbatim>\<open>Retention_Worker\<close> (\<^verbatim>\<open>retention.go\<close>): a run without faults deletes exactly what has expired.
  \<^item> Environments, API keys and tenants. \<^verbatim>\<open>Environment_Store\<close> (the SQL of environments, heartbeats and keys), \<^verbatim>\<open>Environment_Service\<close>
    (\<^verbatim>\<open>enviroment_service.go\<close>), \<^verbatim>\<open>Api_Keys\<close> (\<^verbatim>\<open>api_key_service.go\<close>, \<^verbatim>\<open>agent_register_service.go\<close> and the middleware that checks keys).
    \<^verbatim>\<open>State_Relation\<close> holds the locale of relations that a request keeps when its steps keep them. \<^verbatim>\<open>Tenant_Isolation\<close> shows what each
    request spares, and \<^verbatim>\<open>Env_Security\<close> shows over every sequence of requests that tenants are isolated, that a revoked key is
    rejected, and that a registration token registers one agent.
  \<^item> Lists and their services. \<^verbatim>\<open>Pagination\<close> (the pages of a list show every row once), \<^verbatim>\<open>Error_Service\<close> (\<^verbatim>\<open>error_service.go\<close>: a batch that
    fails has recorded a prefix of its events), \<^verbatim>\<open>Alert_Service\<close> (\<^verbatim>\<open>alert_service.go\<close>, \<^verbatim>\<open>notification_service.go\<close>, \<^verbatim>\<open>audit_service.go\<close>).

  \<^bold>\<open>Termination and fuel.\<close> Recursion is structural or has a measure. Two loops of the source need not end and are
  partial functions whose value is then \<open>None\<close>: the placeholder loop of \<^verbatim>\<open>NormalizeMessage\<close>, for which the theorem says
  exactly when it ends, and the paging loop, which ends for a server that pages as documented. The
  repetition of a regular expression and the search for the next match recurse on the length of the remaining
  text plus one, which is enough because every turn consumes a rune.

  \<^bold>\<open>Not modelled.\<close> HTTP handlers, routing, process start-up and logging, which hold no logic of their own; the queries of \<^verbatim>\<open>db/sqlc\<close> that no
  modelled component uses; generated documentation (\<^verbatim>\<open>docs\<close>); S3, SMTP, WebSocket and XML-RPC access and the file
  system side of log tailing, which are calls of other systems; the feature flags of the agent and its ORM hooks, which only start and stop
  what is modelled or tail files; the scan of module archives (\<^verbatim>\<open>codescan.go\<close>), a list of patterns over zip files.
\<close>

end
